(* ===== verification/Prelude.thy ===== *)
theory Prelude
  imports Main "HOL-Library.Sublist"
begin

text \<open>
  What every component of the development shares.

  \<^item> \<open>error\<close> and \<open>result\<close>: what a rejected promise of the API server carries, and the value
    of an operation that may reject.  \<open>ReplicatedError\<close> is the class of
    \<^verbatim>\<open>api/src/server/errors.ts\<close>; \<open>JsError\<close> is a plain \<^verbatim>\<open>Error\<close>; \<open>TypeError\<close> is what
    JavaScript raises on a property of \<open>undefined\<close> or \<open>null\<close>; the two violations are what
    the database raises on a key or a null column; \<open>ExternalError\<close> is an error of a service,
    and \<open>Uncaught\<close> an exception thrown in a callback, which no promise and no \<^verbatim>\<open>catch\<close> sees;
    \<open>Unsettled\<close> stands for a promise that never resolves nor rejects, after which nothing runs.
  \<^item> \<open>eff\<close>: an operation that reads and writes a state and may reject.  A rejection keeps the
    writes made before it, as \<open>await\<close> does; \<open>transaction\<close> takes them back.
  \<^item> the SQL statements the stores send, as functions on tables (lists of rows);
  \<^item> decimal numerals, splitting and the other string operations of the language that the
    source uses.
\<close>

named_theorems sql_simps \<open>rewrite rules for statements on tables\<close>
named_theorems eff_simps \<open>rewrite rules for sequenced operations\<close>

type_synonym time = int

section \<open>Errors and results\<close>

datatype error =
    ReplicatedError string
  | JsError string
  | TypeError
  | UniqueViolation
  | NotNullViolation
  | ExternalError string
  | Uncaught
  | Unsettled

type_synonym 'a result = "error + 'a"

definition bindR :: "'a result \<Rightarrow> ('a \<Rightarrow> 'b result) \<Rightarrow> 'b result" where
  "bindR r f = (case r of Inl e \<Rightarrow> Inl e | Inr x \<Rightarrow> f x)"

lemma bindR_simps [simp]:
  "bindR (Inl e) f = Inl e"
  "bindR (Inr x) f = f x"
  by (simp_all add: bindR_def)

lemma bindR_eq_Inr: "bindR r f = Inr y \<longleftrightarrow> (\<exists>x. r = Inr x \<and> f x = Inr y)"
  by (cases r) auto

text \<open>A loop that awaits a lookup for every element and rejects with the first that does.\<close>

fun mapR :: "('a \<Rightarrow> 'b result) \<Rightarrow> 'a list \<Rightarrow> 'b list result" where
  "mapR f [] = Inr []"
| "mapR f (x # xs) = bindR (f x) (\<lambda>y. bindR (mapR f xs) (\<lambda>ys. Inr (y # ys)))"

section \<open>Operations on a state\<close>

type_synonym ('s, 'a) eff = "'s \<Rightarrow> 'a result \<times> 's"

definition retE :: "'a \<Rightarrow> ('s, 'a) eff" where
  "retE x = (\<lambda>s. (Inr x, s))"

definition throwE :: "error \<Rightarrow> ('s, 'a) eff" where
  "throwE e = (\<lambda>s. (Inl e, s))"

definition bindE :: "('s, 'a) eff \<Rightarrow> ('a \<Rightarrow> ('s, 'b) eff) \<Rightarrow> ('s, 'b) eff" where
  "bindE m f = (\<lambda>s. case m s of (Inl e, s') \<Rightarrow> (Inl e, s') | (Inr x, s') \<Rightarrow> f x s')"

definition thenE :: "('s, 'a) eff \<Rightarrow> ('s, 'b) eff \<Rightarrow> ('s, 'b) eff" where
  "thenE m k = bindE m (\<lambda>_. k)"

text \<open>A query reads the state and may reject; a statement only writes; a caught rejection runs
  the handler in the state the rejected operation left.\<close>

definition queryE :: "('s \<Rightarrow> 'a result) \<Rightarrow> ('s, 'a) eff" where
  "queryE q = (\<lambda>s. (q s, s))"

definition execE :: "('s \<Rightarrow> 's) \<Rightarrow> ('s, unit) eff" where
  "execE u = (\<lambda>s. (Inr (), u s))"

definition catchE :: "('s, 'a) eff \<Rightarrow> (error \<Rightarrow> ('s, 'a) eff) \<Rightarrow> ('s, 'a) eff" where
  "catchE m h = (\<lambda>s. case m s of (Inl e, s') \<Rightarrow> h e s' | (Inr x, s') \<Rightarrow> (Inr x, s'))"

text \<open>\<^verbatim>\<open>begin\<close> \dots \<^verbatim>\<open>commit\<close> with a \<^verbatim>\<open>rollback\<close> on the way out of a rejection.\<close>

definition transaction :: "('s, 'a) eff \<Rightarrow> ('s, 'a) eff" where
  "transaction m = (\<lambda>s. case m s of (Inl e, s') \<Rightarrow> (Inl e, s) | (Inr x, s') \<Rightarrow> (Inr x, s'))"

text \<open>A loop that awaits its body for every element, in order.\<close>

fun forE :: "('a \<Rightarrow> ('s, 'b) eff) \<Rightarrow> 'a list \<Rightarrow> ('s, 'b list) eff" where
  "forE f [] = retE []"
| "forE f (x # xs) = bindE (f x) (\<lambda>y. bindE (forE f xs) (\<lambda>ys. retE (y # ys)))"

lemma eff_run [simp, eff_simps]:
  "retE x s = (Inr x, s)"
  "throwE e s = (Inl e, s)"
  "queryE q s = (q s, s)"
  "execE u s = (Inr (), u s)"
  by (simp_all add: retE_def throwE_def queryE_def execE_def)

lemma bindE_apply [eff_simps]:
  "bindE m f s = (case m s of (Inl e, s') \<Rightarrow> (Inl e, s') | (Inr x, s') \<Rightarrow> f x s')"
  by (simp add: bindE_def)

lemma bindE_run [simp]:
  "bindE (retE x) f s = f x s"
  "bindE (throwE e) f s = (Inl e, s)"
  "bindE (execE u) g s = g () (u s)"
  "bindE (queryE q) f s = (case q s of Inl e \<Rightarrow> (Inl e, s) | Inr x \<Rightarrow> f x s)"
  by (simp_all add: bindE_def split: sum.splits)

lemma thenE_run [simp]:
  "thenE (execE u) k s = k (u s)"
  "thenE (throwE e) k s = (Inl e, s)"
  "thenE (retE x) k s = k s"
  by (simp_all add: thenE_def)

lemma thenE_apply [eff_simps]:
  "thenE m k s = (case m s of (Inl e, s') \<Rightarrow> (Inl e, s') | (Inr _, s') \<Rightarrow> k s')"
  by (simp add: thenE_def bindE_def)

lemma transaction_all_or_nothing:
  "fst (transaction m s) = Inl e \<Longrightarrow> snd (transaction m s) = s"
  by (auto simp: transaction_def split: prod.splits sum.splits)

lemma transaction_fst: "fst (transaction m s) = fst (m s)"
  by (auto simp: transaction_def split: prod.splits sum.splits)

text \<open>An operation preserves an invariant when it leads from a state that has it to one that has it,
  whether it returns or rejects.\<close>

named_theorems preserve \<open>introduction rules for invariants of sequenced operations\<close>

definition preserves :: "('s \<Rightarrow> bool) \<Rightarrow> ('s, 'a) eff \<Rightarrow> bool" where
  "preserves I m \<longleftrightarrow> (\<forall>s. I s \<longrightarrow> I (snd (m s)))"

lemma preservesD: "preserves I m \<Longrightarrow> I s \<Longrightarrow> m s = (r, s') \<Longrightarrow> I s'"
  by (force simp: preserves_def)

lemma preserves_basic [preserve]:
  "preserves I (retE x)" "preserves I (throwE e)" "preserves I (queryE q)"
  by (simp_all add: preserves_def)

lemma preserves_execE [preserve]: "(\<And>s. I s \<Longrightarrow> I (u s)) \<Longrightarrow> preserves I (execE u)"
  by (simp add: preserves_def)

lemma preserves_bindE [preserve]:
  "preserves I m \<Longrightarrow> (\<And>x. preserves I (f x)) \<Longrightarrow> preserves I (bindE m f)"
  unfolding preserves_def bindE_def by (fastforce split: prod.splits sum.splits)

lemma preserves_thenE [preserve]: "preserves I m \<Longrightarrow> preserves I k \<Longrightarrow> preserves I (thenE m k)"
  unfolding thenE_def by (intro preserves_bindE)

lemma preserves_catchE [preserve]:
  "preserves I m \<Longrightarrow> (\<And>e. preserves I (h e)) \<Longrightarrow> preserves I (catchE m h)"
  unfolding preserves_def catchE_def by (fastforce split: prod.splits sum.splits)

lemma preserves_transaction [preserve]: "preserves I m \<Longrightarrow> preserves I (transaction m)"
  unfolding preserves_def transaction_def by (fastforce split: prod.splits sum.splits)

lemma preserves_forE [preserve]:
  assumes f: "\<And>x. preserves I (f x)"
  shows "preserves I (forE f xs)"
proof (induction xs)
  case Nil
  then show ?case by (simp only: forE.simps preserves_basic)
next
  case (Cons x xs)
  then show ?case by (simp only: forE.simps) (intro preserve f)
qed

section \<open>Statements on tables\<close>

text \<open>
  A table is the list of its rows.  \<open>update \<dots> set \<dots> where\<close> rewrites the rows that match,
  \<open>delete\<close> drops them, \<open>select\<close> keeps them.  \<open>sql_insert\<close> rejects a row whose primary key is
  taken; \<open>sql_upsert\<close> is \<^verbatim>\<open>insert \<dots> on conflict (key) do update set\<close>, where the merge
  function gets the row of the table and the row proposed (\<^verbatim>\<open>EXCLUDED\<close>).
\<close>

definition sql_update :: "('r \<Rightarrow> bool) \<Rightarrow> ('r \<Rightarrow> 'r) \<Rightarrow> 'r list \<Rightarrow> 'r list" where
  "sql_update p f t = map (\<lambda>r. if p r then f r else r) t"

definition sql_delete :: "('r \<Rightarrow> bool) \<Rightarrow> 'r list \<Rightarrow> 'r list" where
  "sql_delete p t = filter (\<lambda>r. \<not> p r) t"

definition sql_select :: "('r \<Rightarrow> bool) \<Rightarrow> 'r list \<Rightarrow> 'r list" where
  "sql_select p t = filter p t"

definition sql_insert :: "('r \<Rightarrow> 'k) \<Rightarrow> 'r \<Rightarrow> 'r list \<Rightarrow> 'r list result" where
  "sql_insert key r t = (if key r \<in> key ` set t then Inl UniqueViolation else Inr (t @ [r]))"

fun sql_upsert :: "('r \<Rightarrow> 'k) \<Rightarrow> ('r \<Rightarrow> 'r \<Rightarrow> 'r) \<Rightarrow> 'r \<Rightarrow> 'r list \<Rightarrow> 'r list" where
  "sql_upsert key merge r [] = [r]"
| "sql_upsert key merge r (x # xs) =
     (if key x = key r then merge x r # xs else x # sql_upsert key merge r xs)"

text \<open>\<^verbatim>\<open>order by k desc\<close>: a stable sort, largest key first.\<close>

definition order_desc :: "('r \<Rightarrow> 'k::linorder) \<Rightarrow> 'r list \<Rightarrow> 'r list" where
  "order_desc k t = rev (sort_key k (rev t))"

lemma sql_simps_set [sql_simps]:
  "set (sql_select p t) = {r \<in> set t. p r}"
  "set (sql_delete p t) = {r \<in> set t. \<not> p r}"
  "set (sql_update p f t) = (\<lambda>r. if p r then f r else r) ` set t"
  by (auto simp: sql_select_def sql_delete_def sql_update_def)

lemma sql_select_Cons: "sql_select p t = r # rs \<Longrightarrow> r \<in> set t \<and> p r"
proof -
  assume "sql_select p t = r # rs"
  then have "r \<in> set (filter p t)" by (simp add: sql_select_def)
  then show ?thesis by simp
qed

lemma sql_updateI: "r \<in> set t \<Longrightarrow> (if p r then f r else r) \<in> set (sql_update p f t)"
  by (auto simp: sql_update_def)

lemma sql_update_idle [sql_simps]: "(\<And>r. r \<in> set t \<Longrightarrow> p r \<Longrightarrow> f r = r) \<Longrightarrow> sql_update p f t = t"
  by (auto simp: sql_update_def intro: map_idI)

lemma map_sql_update: "(\<And>r. k (f r) = k r) \<Longrightarrow> map k (sql_update p f t) = map k t"
  by (auto simp: sql_update_def)

lemma select_update_other:
  "(\<And>r. r \<in> set t \<Longrightarrow> p r \<Longrightarrow> \<not> q r \<and> \<not> q (f r)) \<Longrightarrow> sql_select q (sql_update p f t) = sql_select q t"
  by (induction t) (auto simp: sql_select_def sql_update_def)

lemma select_update_same:
  "(\<And>r. r \<in> set t \<Longrightarrow> p (f r) = p r) \<Longrightarrow> sql_select p (sql_update p f t) = map f (sql_select p t)"
  by (induction t) (auto simp: sql_select_def sql_update_def)

lemma select_delete_same [simp]: "sql_select p (sql_delete p t) = []"
  by (simp add: sql_select_def sql_delete_def)

lemma select_delete_other:
  "(\<And>r. r \<in> set t \<Longrightarrow> q r \<Longrightarrow> \<not> p r) \<Longrightarrow> sql_select q (sql_delete p t) = sql_select q t"
  by (auto simp: sql_select_def sql_delete_def intro: filter_cong)

lemma set_order_desc [simp]: "set (order_desc k t) = set t"
  by (simp add: order_desc_def)

lemma length_order_desc [simp]: "length (order_desc k t) = length t"
  by (simp add: order_desc_def)

lemma sorted_order_desc: "sorted_wrt (\<lambda>x y. k y \<le> k x) (order_desc k t)"
proof -
  have "sorted (map k (sort_key k (rev t)))" by simp
  then have "sorted_wrt (\<lambda>x y. k x \<le> k y) (sort_key k (rev t))"
    by (simp add: sorted_map)
  then show ?thesis
    by (simp add: order_desc_def sorted_wrt_rev)
qed

lemma distinct_map_order_desc: "distinct (map k t) \<Longrightarrow> distinct (map k (order_desc j t))"
  by (simp add: order_desc_def distinct_map rev_map [symmetric])

lemma insort_key_map: "insort_key k (f x) (map f xs) = map f (insort_key (\<lambda>x. k (f x)) x xs)"
  by (induction xs) auto

lemma sort_key_map: "sort_key k (map f xs) = map f (sort_key (\<lambda>x. k (f x)) xs)"
  by (induction xs) (simp_all add: insort_key_map)

lemma order_desc_map: "(\<And>x. k (f x) = k x) \<Longrightarrow> order_desc k (map f t) = map f (order_desc k t)"
  by (simp add: order_desc_def rev_map sort_key_map)

text \<open>The first two rows of a table in descending order.\<close>

lemma order_desc_top_two:
  assumes "distinct t" and "x \<in> set t" and "y \<in> set t" and "k y < k x"
    and "\<And>z. z \<in> set t \<Longrightarrow> z \<noteq> x \<Longrightarrow> z \<noteq> y \<Longrightarrow> k z < k y"
  shows "take 2 (order_desc k t) = [x, y]"
proof -
  let ?l = "order_desc k t"
  have set: "set ?l = set t" by simp
  have srt: "sorted_wrt (\<lambda>x y. k y \<le> k x) ?l" by (rule sorted_order_desc)
  have dist: "distinct ?l" using assms(1) by (simp add: order_desc_def)
  obtain a b l where l: "?l = a # b # l"
  proof -
    have "x \<noteq> y" using assms(4) by auto
    then have "\<not> length ?l \<le> 1"
      using assms(2,3) by (cases ?l; cases "tl ?l") (auto simp flip: set)
    then show thesis using that by (cases ?l; cases "tl ?l") auto
  qed
  have "a = x"
  proof (rule ccontr)
    assume "a \<noteq> x"
    then have "k x \<le> k a" "a = y \<or> k a < k y"
      using l srt set assms(2) assms(5) [of a] by (auto simp flip: set)
    then show False using assms(4) by auto
  qed
  moreover have "b = y"
  proof (rule ccontr)
    assume "b \<noteq> y"
    moreover have "b \<noteq> x" using l dist \<open>a = x\<close> by auto
    ultimately have "k b < k y" using l set assms(5) [of b] by (auto simp flip: set)
    moreover have "y \<in> set l" using l set assms(3,4) \<open>a = x\<close> \<open>b \<noteq> y\<close> by (auto simp flip: set)
    ultimately show False using l srt by auto
  qed
  ultimately show ?thesis using l by simp
qed

section \<open>Tables with a primary key\<close>

text \<open>
  The contract of a table whose writes go through \<^verbatim>\<open>on conflict do update\<close>: reading the key
  back gives the merged row, other keys are untouched, and the primary key stays one.
\<close>

definition row_of :: "('r \<Rightarrow> 'k) \<Rightarrow> 'k \<Rightarrow> 'r list \<Rightarrow> 'r option" where
  "row_of key k t = find (\<lambda>r. key r = k) t"

locale keyed_table =
  fixes key :: "'r \<Rightarrow> 'k"
    and merge :: "'r \<Rightarrow> 'r \<Rightarrow> 'r"
  assumes key_merge: "key (merge old new) = key old"
begin

lemma row_of_upsert_same:
  "row_of key (key r) (sql_upsert key merge r t) =
     Some (case row_of key (key r) t of None \<Rightarrow> r | Some old \<Rightarrow> merge old r)"
  by (induction t) (auto simp: row_of_def key_merge)

lemma row_of_upsert_other:
  "k \<noteq> key r \<Longrightarrow> row_of key k (sql_upsert key merge r t) = row_of key k t"
  by (induction t) (auto simp: row_of_def key_merge)

lemma keys_upsert: "key ` set (sql_upsert key merge r t) = insert (key r) (key ` set t)"
  by (induction t) (auto simp: key_merge)

lemma distinct_upsert:
  "distinct (map key t) \<Longrightarrow> distinct (map key (sql_upsert key merge r t))"
proof (induction t)
  case Nil
  then show ?case by simp
next
  case (Cons x xs)
  then show ?case
    using keys_upsert [of r xs] by (auto simp: key_merge)
qed

lemma select_upsert:
  "sql_select (\<lambda>x. key x = key r) (sql_upsert key merge r t) =
     (case sql_select (\<lambda>x. key x = key r) t of [] \<Rightarrow> [r] | x # xs \<Rightarrow> merge x r # xs)"
  by (induction t) (auto simp: sql_select_def key_merge split: list.splits)

lemma length_upsert_le: "length (sql_upsert key merge r t) \<le> Suc (length t)"
  by (induction t) auto

end

lemma upsert_new: "key r \<notin> key ` set t \<Longrightarrow> sql_upsert key m r t = t @ [r]"
  by (induction t) auto

lemma map_upsert_same:
  "key r \<in> key ` set t \<Longrightarrow> (\<And>old. g (m old r) = g old) \<Longrightarrow> map g (sql_upsert key m r t) = map g t"
  by (induction t) auto

lemma row_of_None: "row_of key k t = None \<longleftrightarrow> k \<notin> key ` set t"
  by (auto simp: row_of_def find_None_iff)

lemma row_of_Some: "row_of key k t = Some r \<Longrightarrow> r \<in> set t \<and> key r = k"
  by (auto simp: row_of_def find_Some_iff)

lemma select_key:
  "distinct (map key t) \<Longrightarrow>
   sql_select (\<lambda>r. key r = k) t = (case row_of key k t of None \<Rightarrow> [] | Some r \<Rightarrow> [r])"
proof (induction t)
  case Nil
  then show ?case by (simp add: sql_select_def row_of_def)
next
  case (Cons x xs)
  have "key x = k \<Longrightarrow> filter (\<lambda>r. key r = k) xs = []"
    using Cons.prems by (auto simp: filter_empty_conv image_iff)
  with Cons show ?case by (auto simp: sql_select_def row_of_def)
qed

lemma row_of_update:
  assumes "\<And>r. key (f r) = key r"
  shows "row_of key k (sql_update p f t) =
    map_option (\<lambda>r. if p r then f r else r) (row_of key k t)"
  using assms by (induction t) (auto simp: row_of_def sql_update_def)

lemma row_of_delete_other:
  "(\<And>r. p r \<Longrightarrow> key r \<noteq> k) \<Longrightarrow> row_of key k (sql_delete p t) = row_of key k t"
  by (induction t) (auto simp: row_of_def sql_delete_def)

lemma row_of_delete_same:
  "(\<And>r. key r = k \<Longrightarrow> p r) \<Longrightarrow> row_of key k (sql_delete p t) = None"
  by (induction t) (auto simp: row_of_def sql_delete_def)

lemma distinct_sql_delete: "distinct (map key t) \<Longrightarrow> distinct (map key (sql_delete p t))"
  by (simp add: sql_delete_def distinct_map_filter)

lemma sql_insert_Inr:
  "sql_insert key r t = Inr t' \<longleftrightarrow> key r \<notin> key ` set t \<and> t' = t @ [r]"
  by (auto simp: sql_insert_def)

lemma distinct_sql_insert:
  "distinct (map key t) \<Longrightarrow> sql_insert key r t = Inr t' \<Longrightarrow> distinct (map key t')"
  by (auto simp: sql_insert_Inr)

section \<open>Strings\<close>

text \<open>Decimal digits of a natural number, as JavaScript prints an integer.\<close>

definition digit_char :: "nat \<Rightarrow> char" where
  "digit_char d = char_of (48 + d)"

definition is_digit :: "char \<Rightarrow> bool" where
  "is_digit c \<longleftrightarrow> 48 \<le> (of_char c :: nat) \<and> (of_char c :: nat) \<le> 57"

definition digit_val :: "char \<Rightarrow> nat" where
  "digit_val c = of_char c - 48"

fun show_nat :: "nat \<Rightarrow> string" where
  "show_nat n = (if n < 10 then [digit_char n] else show_nat (n div 10) @ [digit_char (n mod 10)])"

declare show_nat.simps [simp del]

definition show_int :: "int \<Rightarrow> string" where
  "show_int i = (if i < 0 then ''-'' @ show_nat (nat (- i)) else show_nat (nat i))"

fun digits_val :: "nat \<Rightarrow> string \<Rightarrow> nat" where
  "digits_val acc [] = acc"
| "digits_val acc (c # cs) = digits_val (10 * acc + digit_val c) cs"

lemma digit_char_props [simp]:
  "d < 10 \<Longrightarrow> is_digit (digit_char d)"
  "d < 10 \<Longrightarrow> digit_val (digit_char d) = d"
  by (simp_all add: is_digit_def digit_char_def digit_val_def)

lemma digits_val_append: "digits_val acc (xs @ [c]) = 10 * digits_val acc xs + digit_val c"
  by (induction xs arbitrary: acc) auto

lemma show_nat_nonempty [simp]: "show_nat n \<noteq> []"
  by (subst show_nat.simps) simp

lemma show_nat_digits: "list_all is_digit (show_nat n)"
proof (induction n rule: show_nat.induct)
  case (1 n)
  then show ?case by (subst show_nat.simps) auto
qed

lemma digits_val_show_nat [simp]: "digits_val 0 (show_nat n) = n"
proof (induction n rule: show_nat.induct)
  case (1 n)
  show ?case
  proof (cases "n < 10")
    case True
    then show ?thesis by (subst show_nat.simps) simp
  next
    case False
    with 1 have "digits_val 0 (show_nat (n div 10)) = n div 10" by simp
    with False show ?thesis
      by (subst show_nat.simps) (simp add: digits_val_append)
  qed
qed

lemma show_nat_inj [simp]: "show_nat m = show_nat n \<longleftrightarrow> m = n"
  by (metis digits_val_show_nat)

text \<open>
  \<open>parseInt\<close> of a string with no radix prefix: blanks, an optional sign, the longest run of
  digits; \<open>None\<close> is \<open>NaN\<close>.
\<close>

definition is_blank :: "char \<Rightarrow> bool" where
  "is_blank c \<longleftrightarrow> c = CHR '' '' \<or> (9 \<le> (of_char c :: nat) \<and> (of_char c :: nat) \<le> 13)"

definition parse_nat :: "string \<Rightarrow> nat option" where
  "parse_nat s =
     (let ds = takeWhile is_digit s in if ds = [] then None else Some (digits_val 0 ds))"

definition parse_int :: "string \<Rightarrow> int option" where
  "parse_int s =
     (case dropWhile is_blank s of
        [] \<Rightarrow> None
      | c # cs \<Rightarrow>
          if c = CHR ''-'' then map_option (\<lambda>n. - int n) (parse_nat cs)
          else if c = CHR ''+'' then map_option int (parse_nat cs)
          else map_option int (parse_nat (c # cs)))"

lemma takeWhile_show_nat [simp]: "takeWhile is_digit (show_nat n) = show_nat n"
  using show_nat_digits [of n] by (simp add: list_all_iff)

lemma parse_nat_show_nat [simp]: "parse_nat (show_nat n) = Some n"
  by (simp add: parse_nat_def)

lemma digit_not_blank_or_sign:
  "is_digit c \<Longrightarrow> \<not> is_blank c \<and> c \<noteq> CHR ''-'' \<and> c \<noteq> CHR ''+''"
  by (auto simp: is_digit_def is_blank_def)

lemma parse_int_show_nat [simp]: "parse_int (show_nat n) = Some (int n)"
proof -
  obtain c cs where c: "show_nat n = c # cs" by (cases "show_nat n") auto
  with show_nat_digits [of n] have "is_digit c" by simp
  then have "\<not> is_blank c \<and> c \<noteq> CHR ''-'' \<and> c \<noteq> CHR ''+''" by (rule digit_not_blank_or_sign)
  with c have "parse_int (show_nat n) = map_option int (parse_nat (show_nat n))"
    by (simp add: parse_int_def)
  then show ?thesis by simp
qed

lemma parse_int_show_int [simp]: "parse_int (show_int i) = Some i"
proof (cases "i < 0")
  case True
  then show ?thesis by (simp add: show_int_def parse_int_def is_blank_def)
next
  case False
  then have "show_int i = show_nat (nat i)" by (simp add: show_int_def)
  with False show ?thesis by simp
qed

lemma show_int_inj [simp]: "show_int i = show_int j \<longleftrightarrow> i = j"
  by (metis option.inject parse_int_show_int)

text \<open>\<open>s.split(c)\<close> with a one-character separator: always at least one part.\<close>

fun js_split :: "char \<Rightarrow> string \<Rightarrow> string list" where
  "js_split c [] = [[]]"
| "js_split c (x # xs) =
     (if x = c then [] # js_split c xs
      else (case js_split c xs of [] \<Rightarrow> [[x]] | p # ps \<Rightarrow> (x # p) # ps))"

fun js_join :: "string \<Rightarrow> string list \<Rightarrow> string" where
  "js_join sep [] = []"
| "js_join sep [p] = p"
| "js_join sep (p # q # ps) = p @ sep @ js_join sep (q # ps)"

lemma js_split_nonempty [simp]: "js_split c s \<noteq> []"
  by (cases s) (auto split: list.splits)

lemma js_split_join: "js_join [c] (js_split c s) = s"
proof (induction s)
  case Nil
  then show ?case by simp
next
  case (Cons x xs)
  obtain p ps where p: "js_split c xs = p # ps"
    by (cases "js_split c xs") auto
  with Cons show ?case by (cases ps) auto
qed

lemma js_split_no_sep: "p \<in> set (js_split c s) \<Longrightarrow> c \<notin> set p"
  by (induction s arbitrary: p) (auto split: if_splits list.splits)

lemma js_split_append_sep:
  "c \<notin> set p \<Longrightarrow> js_split c (p @ c # s) = p # js_split c s"
  by (induction p) (auto split: list.splits)

lemma js_split_single: "c \<notin> set p \<Longrightarrow> js_split c p = [p]"
  by (induction p) auto

text \<open>\<open>s.toLowerCase()\<close> on characters below 256.\<close>

definition to_lower_char :: "char \<Rightarrow> char" where
  "to_lower_char c =
     (let n = of_char c :: nat in
      if (65 \<le> n \<and> n \<le> 90) \<or> (192 \<le> n \<and> n \<le> 222 \<and> n \<noteq> 215) then char_of (n + 32) else c)"

definition toLowerCase :: "string \<Rightarrow> string" where
  "toLowerCase s = map to_lower_char s"

definition starts_with :: "string \<Rightarrow> string \<Rightarrow> bool" where
  "starts_with p s \<longleftrightarrow> take (length p) s = p"

lemma starts_with_append [simp]: "starts_with p (p @ s)"
  by (simp add: starts_with_def)

end
