(* ===== verification/JsValue.thy ===== *)
theory JsValue
  imports Prelude
begin

text \<open>
  JavaScript values, for the code that handles untyped data (request bodies, parsed YAML and
  JSON).  Objects keep their own keys in insertion order.  Numbers are the integers the source
  stores in such data.  \<open>js_get\<close> is property access with its \<^verbatim>\<open>TypeError\<close>, \<open>lodash_get\<close> and
  \<open>lodash_set\<close> are \<^verbatim>\<open>_.get\<close> and \<^verbatim>\<open>_.set\<close> on a path of keys, \<open>js_size\<close> is \<^verbatim>\<open>_.size\<close>, and
  \<open>json_stringify\<close> is \<^verbatim>\<open>JSON.stringify\<close> which drops the properties of an object that are
  \<^verbatim>\<open>undefined\<close>.
\<close>

datatype jsval =
    JUndef
  | JNull
  | JBool bool
  | JNum int
  | JStr string
  | JArr "jsval list"
  | JObj "(string \<times> jsval) list"

text \<open>Truthiness, of any value and of a nullable text column or optional string.\<close>

fun truthy :: "jsval \<Rightarrow> bool" where
  "truthy JUndef = False"
| "truthy JNull = False"
| "truthy (JBool b) = b"
| "truthy (JNum n) = (n \<noteq> 0)"
| "truthy (JStr s) = (s \<noteq> [])"
| "truthy (JArr _) = True"
| "truthy (JObj _) = True"

definition truthy_str :: "string option \<Rightarrow> bool" where
  "truthy_str s \<longleftrightarrow> (case s of None \<Rightarrow> False | Some t \<Rightarrow> t \<noteq> [])"

lemma truthy_str_simps [simp]:
  "\<not> truthy_str None"
  "truthy_str (Some s) \<longleftrightarrow> s \<noteq> []"
  by (simp_all add: truthy_str_def)

text \<open>\<open>x || ""\<close> on a nullable string.\<close>

definition str_or_empty :: "string option \<Rightarrow> string" where
  "str_or_empty s = (case s of None \<Rightarrow> [] | Some t \<Rightarrow> t)"

lemma str_or_empty_simps [simp]: "str_or_empty None = []" "str_or_empty (Some s) = s"
  by (simp_all add: str_or_empty_def)

fun own_prop :: "(string \<times> jsval) list \<Rightarrow> string \<Rightarrow> jsval" where
  "own_prop kvs k = (case map_of kvs k of None \<Rightarrow> JUndef | Some v \<Rightarrow> v)"

text \<open>Property access \<open>v.k\<close> for a key that is no property of the prototypes.\<close>

fun js_get :: "jsval \<Rightarrow> string \<Rightarrow> jsval result" where
  "js_get JUndef k = Inl TypeError"
| "js_get JNull k = Inl TypeError"
| "js_get (JObj kvs) k = Inr (own_prop kvs k)"
| "js_get _ k = Inr JUndef"

fun obj_set :: "string \<Rightarrow> jsval \<Rightarrow> (string \<times> jsval) list \<Rightarrow> (string \<times> jsval) list" where
  "obj_set k v [] = [(k, v)]"
| "obj_set k v ((k', v') # kvs) =
     (if k' = k then (k, v) # kvs else (k', v') # obj_set k v kvs)"

text \<open>Assignment \<open>v.k = x\<close>: ignored on a primitive, rejected on \<open>undefined\<close> and \<open>null\<close>.\<close>

fun js_set :: "jsval \<Rightarrow> string \<Rightarrow> jsval \<Rightarrow> jsval result" where
  "js_set JUndef k x = Inl TypeError"
| "js_set JNull k x = Inl TypeError"
| "js_set (JObj kvs) k x = Inr (JObj (obj_set k x kvs))"
| "js_set v k x = Inr v"

fun lodash_get :: "jsval \<Rightarrow> string list \<Rightarrow> jsval" where
  "lodash_get v [] = v"
| "lodash_get (JObj kvs) (k # ks) = lodash_get (own_prop kvs k) ks"
| "lodash_get _ (k # ks) = JUndef"

text \<open>\<^verbatim>\<open>_.set\<close> makes an object of every step of the path that is not one, and leaves a target
  that is no object alone.\<close>

fun lodash_set_obj :: "(string \<times> jsval) list \<Rightarrow> string list \<Rightarrow> jsval \<Rightarrow> (string \<times> jsval) list" where
  "lodash_set_obj kvs [] v = kvs"
| "lodash_set_obj kvs [k] v = obj_set k v kvs"
| "lodash_set_obj kvs (k # k' # ks) v =
     obj_set k (JObj (lodash_set_obj
       (case own_prop kvs k of JObj inner \<Rightarrow> inner | _ \<Rightarrow> []) (k' # ks) v)) kvs"

definition lodash_set :: "jsval \<Rightarrow> string list \<Rightarrow> jsval \<Rightarrow> jsval" where
  "lodash_set t ks v = (case t of JObj kvs \<Rightarrow> JObj (lodash_set_obj kvs ks v) | _ \<Rightarrow> t)"

fun js_size :: "jsval \<Rightarrow> nat" where
  "js_size (JStr s) = length s"
| "js_size (JArr xs) = length xs"
| "js_size (JObj kvs) = length kvs"
| "js_size _ = 0"

text \<open>The values a \<open>for \<dots> of\<close> loop visits; other values are not iterable.\<close>

fun js_iter :: "jsval \<Rightarrow> jsval list result" where
  "js_iter (JArr xs) = Inr xs"
| "js_iter (JStr s) = Inr (map (\<lambda>c. JStr [c]) s)"
| "js_iter _ = Inl TypeError"

text \<open>Access along several properties, \<open>v && f v\<close>, the elements \<^verbatim>\<open>_.each\<close>, \<^verbatim>\<open>_.map\<close> and
  \<^verbatim>\<open>_.some\<close> visit, and the text of a value in a template.\<close>

fun js_gets :: "jsval \<Rightarrow> string list \<Rightarrow> jsval result" where
  "js_gets v [] = Inr v"
| "js_gets v (k # ks) = bindR (js_get v k) (\<lambda>w. js_gets w ks)"

definition js_and :: "jsval \<Rightarrow> (jsval \<Rightarrow> jsval result) \<Rightarrow> jsval result" where
  "js_and v f = (if truthy v then f v else Inr v)"

fun lodash_elems :: "jsval \<Rightarrow> jsval list" where
  "lodash_elems (JArr xs) = xs"
| "lodash_elems (JObj kvs) = map snd kvs"
| "lodash_elems (JStr s) = map (\<lambda>c. JStr [c]) s"
| "lodash_elems _ = []"

fun someR :: "('a \<Rightarrow> bool result) \<Rightarrow> 'a list \<Rightarrow> bool result" where
  "someR f [] = Inr False"
| "someR f (x # xs) = bindR (f x) (\<lambda>b. if b then Inr True else someR f xs)"

fun js_to_string :: "jsval \<Rightarrow> string" where
  "js_to_string JUndef = ''undefined''"
| "js_to_string JNull = ''null''"
| "js_to_string (JBool b) = (if b then ''true'' else ''false'')"
| "js_to_string (JNum n) = show_int n"
| "js_to_string (JStr s) = s"
| "js_to_string (JArr xs) =
     js_join '','' (map (\<lambda>x. if x = JUndef \<or> x = JNull then [] else js_to_string x) xs)"
| "js_to_string (JObj _) = ''[object Object]''"

section \<open>JSON text\<close>

definition hex_digit :: "nat \<Rightarrow> char" where
  "hex_digit n = (if n < 10 then char_of (48 + n) else char_of (87 + n))"

definition json_escape :: "char \<Rightarrow> string" where
  "json_escape c =
     (if c = CHR 0x22 then [CHR 0x5C, CHR 0x22]
      else if c = CHR 0x5C then [CHR 0x5C, CHR 0x5C]
      else if c = CHR 0x0A then [CHR 0x5C, CHR ''n'']
      else if c = CHR 0x0D then [CHR 0x5C, CHR ''r'']
      else if c = CHR 0x09 then [CHR 0x5C, CHR ''t'']
      else if c = CHR 0x08 then [CHR 0x5C, CHR ''b'']
      else if c = CHR 0x0C then [CHR 0x5C, CHR ''f'']
      else if of_char c < (32::nat)
        then [CHR 0x5C, CHR ''u'', CHR ''0'', CHR ''0'', hex_digit (of_char c div 16), hex_digit (of_char c mod 16)]
      else [c])"

definition json_quote :: "string \<Rightarrow> string" where
  "json_quote s = ''\"'' @ concat (map json_escape s) @ ''\"''"

fun json_stringify :: "jsval \<Rightarrow> string" where
  "json_stringify JUndef = ''null''"
| "json_stringify JNull = ''null''"
| "json_stringify (JBool b) = (if b then ''true'' else ''false'')"
| "json_stringify (JNum n) = show_int n"
| "json_stringify (JStr s) = json_quote s"
| "json_stringify (JArr xs) = ''['' @ js_join '','' (map json_stringify xs) @ '']''"
| "json_stringify (JObj kvs) =
     CHR ''{'' # js_join '','' (concat (map (\<lambda>(k, v).
         if v = JUndef then [] else [json_quote k @ '':'' @ json_stringify v]) kvs)) @ ''}''"

text \<open>How the database driver sends a parameter to a text column: \<open>undefined\<close> and \<open>null\<close> are
  \<^verbatim>\<open>NULL\<close>, a string is itself, an object or array is its JSON text.\<close>

fun pg_text :: "jsval \<Rightarrow> string option" where
  "pg_text JUndef = None"
| "pg_text JNull = None"
| "pg_text (JStr s) = Some s"
| "pg_text v = Some (json_stringify v)"

section \<open>Lemmas\<close>

lemma own_prop_obj_set [simp]: "own_prop (obj_set k v kvs) k' = (if k' = k then v else own_prop kvs k')"
  by (induction k v kvs rule: obj_set.induct) auto

declare own_prop.simps [simp del]

lemma own_prop_Nil [simp]: "own_prop [] k = JUndef"
  and own_prop_Cons [simp]: "own_prop ((k', v) # kvs) k = (if k = k' then v else own_prop kvs k)"
  by (auto simp: own_prop.simps)

lemma lodash_get_non_obj [simp]:
  "\<not> (\<exists>kvs. v = JObj kvs) \<Longrightarrow> ks \<noteq> [] \<Longrightarrow> lodash_get v ks = JUndef"
  by (cases v; cases ks) auto

lemma lodash_get_set_obj:
  "ks \<noteq> [] \<Longrightarrow> lodash_get (JObj (lodash_set_obj kvs ks v)) ks = v"
  by (induction kvs ks v rule: lodash_set_obj.induct) auto

lemma lodash_get_set:
  "ks \<noteq> [] \<Longrightarrow> lodash_get (lodash_set (JObj kvs) ks v) ks = v"
  by (simp add: lodash_set_def lodash_get_set_obj)

lemma lodash_get_set_other_root:
  "k \<noteq> k' \<Longrightarrow> lodash_get (lodash_set (JObj kvs) (k # ks) v) (k' # ks') = lodash_get (JObj kvs) (k' # ks')"
  by (cases ks) (simp_all add: lodash_set_def)

lemma lodash_set_is_obj: "\<exists>kvs'. lodash_set (JObj kvs) ks v = JObj kvs'"
  by (simp add: lodash_set_def)

end
