(* ===== verification/AppState.thy ===== *)
theory AppState
  imports JsValue
begin

text \<open>
  The state of an application as the operator reports it, \<^verbatim>\<open>api/src/kots_app/kots_app_status.ts\<close>:
  one state per watched resource, and \<^verbatim>\<open>getState\<close> folds \<^verbatim>\<open>minState\<close> over them.  The states are put
  in the order worst first, which makes \<open>minState\<close> the minimum of a linear order.
\<close>

datatype State = Ready | Degraded | Unavailable | Missing

record ResourceState =
  rs_kind :: string
  rs_name :: string
  rs_namespace :: string
  rs_state :: State

definition minState :: "State \<Rightarrow> State \<Rightarrow> State" where
  "minState a b =
     (if a = Missing \<or> b = Missing then Missing
      else if a = Unavailable \<or> b = Unavailable then Unavailable
      else if a = Degraded \<or> b = Degraded then Degraded
      else if a = Ready \<or> b = Ready then Ready
      else Missing)"

definition getState :: "ResourceState list option \<Rightarrow> State" where
  "getState resourceStates =
     (case resourceStates of
        None \<Rightarrow> Missing
      | Some rs \<Rightarrow> fold (\<lambda>r m. minState m (rs_state r)) rs Ready)"

definition DefaultReadyState :: "ResourceState list" where
  "DefaultReadyState = [\<lparr>rs_kind = ''EMPTY'', rs_name = ''EMPTY'', rs_namespace = ''EMPTY'', rs_state = Ready\<rparr>]"

section \<open>The order of states\<close>

fun state_rank :: "State \<Rightarrow> nat" where
  "state_rank Missing = 0"
| "state_rank Unavailable = 1"
| "state_rank Degraded = 2"
| "state_rank Ready = 3"

lemma state_rank_inj [simp]: "state_rank a = state_rank b \<longleftrightarrow> a = b"
  by (cases a; cases b) simp_all

instantiation State :: linorder
begin

definition less_eq_State :: "State \<Rightarrow> State \<Rightarrow> bool" where
  "less_eq_State a b \<longleftrightarrow> state_rank a \<le> state_rank b"

definition less_State :: "State \<Rightarrow> State \<Rightarrow> bool" where
  "less_State a b \<longleftrightarrow> state_rank a < state_rank b"

instance
proof
  fix a b c :: State
  show "(a < b) = (a \<le> b \<and> \<not> b \<le> a)" by (auto simp: less_eq_State_def less_State_def)
  show "a \<le> a" by (simp add: less_eq_State_def)
  show "a \<le> b \<Longrightarrow> b \<le> c \<Longrightarrow> a \<le> c" by (simp add: less_eq_State_def)
  show "a \<le> b \<Longrightarrow> b \<le> a \<Longrightarrow> a = b" by (simp add: less_eq_State_def flip: state_rank_inj)
  show "a \<le> b \<or> b \<le> a" by (auto simp: less_eq_State_def)
qed

end

lemma minState_min: "minState a b = min a b"
  by (cases a; cases b) (simp_all add: minState_def min_def less_eq_State_def)

lemma Ready_greatest [simp]: "s \<le> Ready"
  by (cases s) (simp_all add: less_eq_State_def)

lemma Missing_least [simp]: "Missing \<le> s"
  by (simp add: less_eq_State_def)

lemma fold_minState: "fold (\<lambda>r m. minState m (rs_state r)) rs s = Min (insert s (rs_state ` set rs))"
proof (induction rs arbitrary: s)
  case Nil
  then show ?case by simp
next
  case (Cons r rs)
  have "Min (insert (min s (rs_state r)) (rs_state ` set rs)) =
      Min (insert s (insert (rs_state r) (rs_state ` set rs)))"
    by (cases "rs = []") (simp_all add: min.assoc)
  with Cons show ?case by (simp add: minState_min)
qed

text \<open>
  the state of an application is the worst state of its resources: "ready" exactly when every
  resource is ready, and the same whatever order, or how often, the resources are listed.
\<close>

theorem getState_worst:
  "getState (Some rs) = Min (insert Ready (rs_state ` set rs)) \<and>
   (getState (Some rs) = Ready \<longleftrightarrow> list_all (\<lambda>r. rs_state r = Ready) rs) \<and>
   (set rs' \<noteq> set rs \<or> getState (Some rs') = getState (Some rs))"
proof -
  have eq: "getState (Some rs) = Min (insert Ready (rs_state ` set rs))" for rs
    by (simp add: getState_def fold_minState)
  have "Min (insert Ready (rs_state ` set rs)) = Ready \<longleftrightarrow> (\<forall>x \<in> insert Ready (rs_state ` set rs). Ready \<le> x)"
    by (metis Min_ge_iff antisym Ready_greatest finite.insertI finite_imageI finite_set insert_not_empty order_refl)
  also have "\<dots> \<longleftrightarrow> list_all (\<lambda>r. rs_state r = Ready) rs"
    by (auto simp: list_all_iff intro: antisym)
  finally show ?thesis using eq by metis
qed


lemma getState_worst_witness:
  "let r = (\<lambda>s. \<lparr>rs_kind = ''deployment'', rs_name = ''web'', rs_namespace = ''default'', rs_state = s\<rparr>) in
   getState (Some [r Missing, r Ready, r Ready]) = getState (Some [r Ready, r Missing])"
  using getState_worst
    [of "let r = (\<lambda>s. \<lparr>rs_kind = ''deployment'', rs_name = ''web'', rs_namespace = ''default'', rs_state = s\<rparr>) in
         [r Ready, r Missing]"
        "let r = (\<lambda>s. \<lparr>rs_kind = ''deployment'', rs_name = ''web'', rs_namespace = ''default'', rs_state = s\<rparr>) in
         [r Missing, r Ready, r Ready]"]
  by (auto simp: Let_def)

end
