(* ===== verification/Database.thy ===== *)
theory Database
  imports AppState
begin

text \<open>
  The tables of \<^verbatim>\<open>migrations/tables\<close> that the modelled stores read and write: one record per
  row, the columns of the schema as fields (a nullable column is an option), and the database as
  the record of its tables.  Rows are kept in insertion order, and an update leaves a row in
  place; a \<^verbatim>\<open>select\<close> with no \<^verbatim>\<open>order by\<close> returns them in that order, which is one of the
  orders the database may choose.  The column
  \<open>resource_states\<close> holds JSON text, and is modelled by the list it is the text of.  \<open>keys_ok\<close> is what the primary keys of the schema enforce.
\<close>

record app_row =
  app_id :: string
  app_name :: string
  app_icon_uri :: "string option"
  app_created_at :: time
  app_updated_at :: "time option"
  app_slug :: string
  app_upstream_uri :: string
  app_license :: "string option"
  app_current_sequence :: "int option"
  app_last_update_check_at :: "time option"
  app_is_all_users :: "bool option"
  app_registry_hostname :: "string option"
  app_registry_username :: "string option"
  app_registry_password :: "string option"
  app_registry_password_enc :: "string option"
  app_namespace :: "string option"
  app_last_registry_sync :: "time option"
  app_install_state :: "string option"
  app_is_airgap :: bool
  app_snapshot_ttl_new :: string
  app_snapshot_schedule :: "string option"
  app_restore_in_progress_name :: "string option"
  app_restore_undeploy_status :: "string option"

record app_version_row =
  av_app_id :: string
  av_sequence :: int
  av_update_cursor :: "string option"
  av_channel_name :: "string option"
  av_created_at :: time
  av_version_label :: string
  av_release_notes :: "string option"
  av_supportbundle_spec :: "string option"
  av_preflight_spec :: "string option"
  av_analyzer_spec :: "string option"
  av_app_spec :: "string option"
  av_kots_app_spec :: "string option"
  av_kots_license :: "string option"
  av_config_spec :: "string option"
  av_config_values :: "string option"
  av_applied_at :: "time option"
  av_status :: "string option"
  av_encryption_key :: "string option"
  av_backup_spec :: "string option"

record app_downstream_row =
  ad_app_id :: string
  ad_cluster_id :: string
  ad_downstream_name :: string
  ad_current_sequence :: "int option"

record app_downstream_version_row =
  adv_app_id :: string
  adv_cluster_id :: string
  adv_sequence :: int
  adv_parent_sequence :: "int option"
  adv_created_at :: time
  adv_applied_at :: "time option"
  adv_version_label :: string
  adv_status :: "string option"
  adv_status_info :: "string option"
  adv_source :: "string option"
  adv_diff_summary :: "string option"
  adv_preflight_result :: "string option"
  adv_preflight_result_created_at :: "time option"
  adv_preflight_ignore_permissions :: bool
  adv_git_commit_url :: "string option"
  adv_git_deployable :: bool

record app_downstream_output_row =
  ado_app_id :: string
  ado_cluster_id :: string
  ado_downstream_sequence :: int
  ado_is_error :: "bool option"
  ado_dryrun_stdout :: "string option"
  ado_dryrun_stderr :: "string option"
  ado_apply_stdout :: "string option"
  ado_apply_stderr :: "string option"

record user_app_row =
  ua_user_id :: string
  ua_app_id :: string

record api_task_status_row =
  ts_id :: string
  ts_updated_at :: "time option"
  ts_current_message :: "string option"
  ts_status :: "string option"

record app_status_row =
  as_app_id :: string
  as_resource_states :: "ResourceState list option"
  as_updated_at :: "time option"

record cluster_row =
  cl_id :: string
  cl_title :: string
  cl_slug :: string
  cl_created_at :: time
  cl_updated_at :: "time option"
  cl_token :: "string option"
  cl_cluster_type :: string
  cl_is_all_users :: bool

record user_cluster_row =
  uc_user_id :: string
  uc_cluster_id :: string

record cluster_github_row =
  cg_cluster_id :: string
  cg_owner :: string
  cg_repo :: string
  cg_branch :: "string option"
  cg_installation_id :: int
  cg_is_deleted :: "bool option"
  cg_is_404 :: "bool option"

record session_row =
  se_id :: string
  se_user_id :: string
  se_metadata :: string
  se_expire_at :: time

record ship_user_row =
  su_id :: string
  su_created_at :: time
  su_last_login :: "time option"
  su_github_id :: "int option"

record ship_user_local_row =
  sl_user_id :: string
  sl_password_bcrypt :: string
  sl_first_name :: "string option"
  sl_last_name :: "string option"
  sl_email :: string

record github_user_row =
  gh_user_id :: "string option"
  gh_username :: string
  gh_github_id :: int
  gh_avatar_url :: "string option"
  gh_email :: "string option"

record pending_supportbundle_row =
  ps_id :: string
  ps_app_id :: string
  ps_cluster_id :: string
  ps_created_at :: time

record helm_chart_row =
  hc_id :: string
  hc_cluster_id :: string
  hc_helm_name :: string
  hc_namespace :: string
  hc_version :: "int option"
  hc_first_deployed_at :: time
  hc_last_deployed_at :: time
  hc_is_deleted :: "bool option"
  hc_chart_version :: string
  hc_app_version :: string

record helm_chart_source_row =
  hs_helm_chart_id :: string
  hs_source :: string

record watch_row =
  wa_id :: string
  wa_current_state :: "string option"
  wa_title :: string
  wa_icon_uri :: "string option"
  wa_created_at :: time
  wa_updated_at :: "time option"
  wa_slug :: string
  wa_parent_watch_id :: "string option"
  wa_current_sequence :: "int option"
  wa_metadata :: "string option"
  wa_last_watch_check_at :: "time option"
  wa_is_update_required :: "bool option"

record supportbundle_row =
  sb_id :: string
  sb_slug :: string
  sb_watch_id :: string
  sb_name :: "string option"
  sb_size :: "int option"
  sb_status :: string
  sb_tree_index :: "string option"
  sb_analysis_id :: "string option"
  sb_created_at :: time
  sb_uploaded_at :: "time option"
  sb_is_archived :: "bool option"

record supportbundle_analysis_row =
  sa_id :: string
  sa_supportbundle_id :: string
  sa_error :: "string option"
  sa_max_severity :: "string option"
  sa_insights :: "string option"
  sa_created_at :: time

record kotsadm_params_row =
  kp_key :: string
  kp_value :: string

record scheduled_snapshots_row =
  sn_id :: string
  sn_app_id :: string
  sn_scheduled_timestamp :: time
  sn_backup_name :: "string option"

record user_feature_row =
  uf_user_id :: string
  uf_feature_id :: string

record db =
  t_app :: "app_row list"
  t_app_version :: "app_version_row list"
  t_app_downstream :: "app_downstream_row list"
  t_app_downstream_version :: "app_downstream_version_row list"
  t_app_downstream_output :: "app_downstream_output_row list"
  t_user_app :: "user_app_row list"
  t_api_task_status :: "api_task_status_row list"
  t_app_status :: "app_status_row list"
  t_cluster :: "cluster_row list"
  t_user_cluster :: "user_cluster_row list"
  t_cluster_github :: "cluster_github_row list"
  t_watch_cluster :: "string list"
  t_session :: "session_row list"
  t_ship_user :: "ship_user_row list"
  t_ship_user_local :: "ship_user_local_row list"
  t_github_user :: "github_user_row list"
  t_pending_supportbundle :: "pending_supportbundle_row list"
  t_helm_chart :: "helm_chart_row list"
  t_helm_chart_source :: "helm_chart_source_row list"
  t_supportbundle :: "supportbundle_row list"
  t_supportbundle_analysis :: "supportbundle_analysis_row list"
  t_kotsadm_params :: "kotsadm_params_row list"
  t_scheduled_snapshots :: "scheduled_snapshots_row list"
  t_feature :: "string list"
  t_user_feature :: "user_feature_row list"
  t_watch :: "watch_row list"

definition empty_db :: db where
  "empty_db = \<lparr>t_app = [], t_app_version = [], t_app_downstream = [],
     t_app_downstream_version = [], t_app_downstream_output = [], t_user_app = [],
     t_api_task_status = [], t_app_status = [], t_cluster = [], t_user_cluster = [],
     t_cluster_github = [], t_watch_cluster = [], t_session = [], t_ship_user = [],
     t_ship_user_local = [], t_github_user = [], t_pending_supportbundle = [],
     t_helm_chart = [], t_helm_chart_source = [], t_supportbundle = [], t_supportbundle_analysis = [],
     t_kotsadm_params = [], t_scheduled_snapshots = [], t_feature = [], t_user_feature = [], t_watch = []\<rparr>"

section \<open>Primary keys\<close>

abbreviation av_key :: "app_version_row \<Rightarrow> string \<times> int" where
  "av_key r \<equiv> (av_app_id r, av_sequence r)"

abbreviation ad_key :: "app_downstream_row \<Rightarrow> string \<times> string" where
  "ad_key r \<equiv> (ad_app_id r, ad_cluster_id r)"

abbreviation adv_key :: "app_downstream_version_row \<Rightarrow> string \<times> string \<times> int" where
  "adv_key r \<equiv> (adv_app_id r, adv_cluster_id r, adv_sequence r)"

abbreviation ado_key :: "app_downstream_output_row \<Rightarrow> string \<times> string \<times> int" where
  "ado_key r \<equiv> (ado_app_id r, ado_cluster_id r, ado_downstream_sequence r)"

abbreviation ua_key :: "user_app_row \<Rightarrow> string \<times> string" where
  "ua_key r \<equiv> (ua_user_id r, ua_app_id r)"

definition keys_ok :: "db \<Rightarrow> bool" where
  "keys_ok d \<longleftrightarrow>
     distinct (map app_id (t_app d)) \<and>
     distinct (map av_key (t_app_version d)) \<and>
     distinct (map ad_key (t_app_downstream d)) \<and>
     distinct (map adv_key (t_app_downstream_version d)) \<and>
     distinct (map ado_key (t_app_downstream_output d)) \<and>
     distinct (map ua_key (t_user_app d)) \<and>
     distinct (map ts_id (t_api_task_status d)) \<and>
     distinct (map as_app_id (t_app_status d)) \<and>
     distinct (map cl_id (t_cluster d))"

lemma keys_ok_empty [simp]: "keys_ok empty_db"
  by (simp add: keys_ok_def empty_db_def)

end
