(* ===== verification/Base64.thy ===== *)
theory Base64
  imports JsValue
begin

text \<open>
  \<^verbatim>\<open>base64Encode\<close> and \<^verbatim>\<open>base64Decode\<close> of \<^verbatim>\<open>api/src/util/utilities.ts\<close>, which every secret,
  config map and operator output of the API server goes through.  The encoder writes the UTF-8
  bytes of a string (\<^verbatim>\<open>Buffer.from(value)\<close>); the decoder reads the bytes back and clears the top
  bit of each (\<^verbatim>\<open>toString("ascii")\<close>).  Bytes are naturals below 256, and a string holds code
  points below 256, so a character takes one byte or two.  The decoder skips characters outside
  the alphabet and also takes the URL alphabet, as the runtime does.
\<close>

section \<open>Bytes and sextets\<close>

fun utf8_char :: "char \<Rightarrow> nat list" where
  "utf8_char c =
     (let n = of_char c in if n < 128 then [n] else [192 + n div 64, 128 + n mod 64])"

definition utf8 :: "string \<Rightarrow> nat list" where
  "utf8 s = concat (map utf8_char s)"

definition ascii_of_bytes :: "nat list \<Rightarrow> string" where
  "ascii_of_bytes bs = map (\<lambda>b. char_of (b mod 128)) bs"

definition b64_char :: "nat \<Rightarrow> char" where
  "b64_char n =
     (if n < 26 then char_of (65 + n)
      else if n < 52 then char_of (71 + n)
      else if n < 62 then char_of (n - 4)
      else if n = 62 then CHR ''+'' else CHR ''/'')"

definition b64_val :: "char \<Rightarrow> nat option" where
  "b64_val c =
     (let n = of_char c :: nat in
      if 65 \<le> n \<and> n \<le> 90 then Some (n - 65)
      else if 97 \<le> n \<and> n \<le> 122 then Some (n - 71)
      else if 48 \<le> n \<and> n \<le> 57 then Some (n + 4)
      else if n = 43 \<or> n = 45 then Some 62
      else if n = 47 \<or> n = 95 then Some 63
      else None)"

fun b64_encode :: "nat list \<Rightarrow> string" where
  "b64_encode [] = []"
| "b64_encode [a] = [b64_char (a div 4), b64_char (a mod 4 * 16), CHR ''='', CHR ''='']"
| "b64_encode [a, b] =
     [b64_char (a div 4), b64_char (a mod 4 * 16 + b div 16), b64_char (b mod 16 * 4), CHR ''='']"
| "b64_encode (a # b # c # bs) =
     b64_char (a div 4) # b64_char (a mod 4 * 16 + b div 16) #
     b64_char (b mod 16 * 4 + c div 64) # b64_char (c mod 64) # b64_encode bs"

fun sextets_to_bytes :: "nat list \<Rightarrow> nat list" where
  "sextets_to_bytes (p # q # r # s # xs) =
     (p * 4 + q div 16) # (q mod 16 * 16 + r div 4) # (r mod 4 * 64 + s) # sextets_to_bytes xs"
| "sextets_to_bytes [p, q, r] = [p * 4 + q div 16, q mod 16 * 16 + r div 4]"
| "sextets_to_bytes [p, q] = [p * 4 + q div 16]"
| "sextets_to_bytes _ = []"

definition b64_decode :: "string \<Rightarrow> nat list" where
  "b64_decode s = sextets_to_bytes (List.map_filter b64_val s)"

section \<open>The two functions of the source\<close>

definition base64Decode :: "string \<Rightarrow> string" where
  "base64Decode data = (if data = [] then [] else ascii_of_bytes (b64_decode data))"

definition base64Encode :: "string \<Rightarrow> string" where
  "base64Encode value = b64_encode (utf8 value)"

text \<open>A nullable column passed to \<open>base64Decode\<close>: \<open>null\<close> and \<open>undefined\<close> decode to "".\<close>

definition base64Decode_opt :: "string option \<Rightarrow> string" where
  "base64Decode_opt data = (case data of None \<Rightarrow> [] | Some s \<Rightarrow> base64Decode s)"

section \<open>Lemmas\<close>

lemma b64_val_char [simp]: "n < 64 \<Longrightarrow> b64_val (b64_char n) = Some n"
  by (auto simp: b64_val_def b64_char_def Let_def)

lemma b64_val_pad [simp]: "b64_val (CHR ''='') = None"
  by (simp add: b64_val_def)

lemma sextet_bounds [simp]:
  "a < 256 \<Longrightarrow> a div 4 < (64::nat)"
  "b < 256 \<Longrightarrow> a mod 4 * 16 + b div 16 < (64::nat)"
  "c < 256 \<Longrightarrow> b mod 16 * 4 + c div 64 < (64::nat)"
  "a mod 4 * 16 < (64::nat)" "b mod 16 * 4 < (64::nat)" "c mod 64 < (64::nat)"
  by (auto intro: less_le_trans [of _ "3 * 16 + 16"] simp: less_mult_imp_div_less)

lemma map_filter_simps [simp]:
  "List.map_filter f [] = []"
  "List.map_filter f (x # xs) =
     (case f x of None \<Rightarrow> List.map_filter f xs | Some y \<Rightarrow> y # List.map_filter f xs)"
  by (simp_all add: List.map_filter_def split: option.splits)

lemma b64_decode_encode: "list_all (\<lambda>b. b < 256) bs \<Longrightarrow> b64_decode (b64_encode bs) = bs"
proof (induction bs rule: b64_encode.induct)
  case 1
  then show ?case by (simp add: b64_decode_def)
next
  case (2 a)
  then show ?case by (simp add: b64_decode_def)
next
  case (3 a b)
  then have "(a mod 4 * 16 + b div 16) div 16 = a mod 4" "(a mod 4 * 16 + b div 16) mod 16 = b div 16"
    by (simp_all add: less_mult_imp_div_less)
  with 3 show ?case by (simp add: b64_decode_def)
next
  case (4 a b c bs)
  then have "(a mod 4 * 16 + b div 16) div 16 = a mod 4" "(a mod 4 * 16 + b div 16) mod 16 = b div 16"
    "(b mod 16 * 4 + c div 64) div 4 = b mod 16" "(b mod 16 * 4 + c div 64) mod 4 = c div 64"
    by (simp_all add: less_mult_imp_div_less)
  with 4 show ?case by (simp add: b64_decode_def)
qed

lemma of_char_less_256: "(of_char c :: nat) < 256"
  by (metis nat_of_char_less_256)

lemma utf8_bytes: "list_all (\<lambda>b. b < 256) (utf8 s)"
proof -
  have "list_all (\<lambda>b. b < 256) (utf8_char c)" for c
  proof -
    have "(of_char c :: nat) div 64 < 4" "(of_char c :: nat) mod 64 < 64"
      using of_char_less_256 [of c] by (simp_all add: less_mult_imp_div_less)
    then have "192 + of_char c div 64 < (256::nat)" "128 + of_char c mod 64 < (256::nat)"
      by linarith+
    then show ?thesis by (simp add: Let_def)
  qed
  then show ?thesis by (auto simp: utf8_def list_all_iff)
qed

lemma b64_encode_Nil_iff: "b64_encode bs = [] \<longleftrightarrow> bs = []"
  by (cases bs rule: b64_encode.cases) auto

lemma base64_decode_encode: "base64Decode (base64Encode v) = ascii_of_bytes (utf8 v)"
  using b64_decode_encode [OF utf8_bytes, of v]
  by (auto simp: base64Decode_def base64Encode_def b64_encode_Nil_iff ascii_of_bytes_def)

definition is_ascii :: "char \<Rightarrow> bool" where
  "is_ascii c \<longleftrightarrow> (of_char c :: nat) < 128"

lemma utf8_ascii: "list_all is_ascii v \<Longrightarrow> ascii_of_bytes (utf8 v) = v"
  by (induction v) (auto simp: utf8_def ascii_of_bytes_def is_ascii_def)

lemma length_utf8_ge: "length v \<le> length (utf8 v)"
proof (induction v)
  case Nil
  then show ?case by (simp add: utf8_def)
next
  case (Cons c v)
  have "1 \<le> length (utf8_char c)" by (simp add: Let_def)
  with Cons show ?case by (simp add: utf8_def)
qed

lemma length_utf8_eq: "length (utf8 v) = length v \<longleftrightarrow> list_all is_ascii v"
proof (induction v)
  case Nil
  then show ?case by (simp add: utf8_def)
next
  case (Cons c v)
  then show ?case
    using length_utf8_ge [of v] by (auto simp: utf8_def is_ascii_def Let_def)
qed

lemma base64_roundtrip_ascii: "list_all is_ascii v \<Longrightarrow> base64Decode (base64Encode v) = v"
  by (simp add: base64_decode_encode utf8_ascii)

section \<open>Properties\<close>

text \<open>
  C6: a value written with base64Encode is read back unchanged by base64Decode exactly when it is
  ASCII: one character beyond ASCII is enough for the stored value to come back changed.
\<close>

theorem base64_roundtrip_iff:
  "base64Decode (base64Encode v) = v \<longleftrightarrow> list_all is_ascii v"
proof
  assume "base64Decode (base64Encode v) = v"
  then have "length (ascii_of_bytes (utf8 v)) = length v"
    by (simp add: base64_decode_encode)
  then show "list_all is_ascii v"
    by (simp add: ascii_of_bytes_def length_utf8_eq)
next
  assume "list_all is_ascii v"
  then show "base64Decode (base64Encode v) = v" by (rule base64_roundtrip_ascii)
qed

end
