(* ===== verification/VersionStore.thy ===== *)
theory VersionStore
  imports Database Base64
begin

text \<open>
  The versions of an application in \<^verbatim>\<open>api/src/kots_app/kots_app_store.ts\<close>: the upstream versions
  (\<^verbatim>\<open>app_version\<close>), the versions of each downstream cluster (\<^verbatim>\<open>app_downstream_version\<close>), what
  the operator reported for them (\<^verbatim>\<open>app_downstream_output\<close>), and which of them is deployed.
  A statement is a function on the database; a query that may reject returns a \<open>result\<close>.
\<close>

section \<open>The version a client sees\<close>

record KotsVersion =
  kv_title :: string
  kv_status :: "string option"
  kv_createdOn :: time
  kv_parentSequence :: "int option"
  kv_sequence :: int
  kv_releaseNotes :: string
  kv_deployedAt :: "time option"
  kv_preflightResult :: "string option"
  kv_preflightResultCreatedAt :: "time option"
  kv_source :: "string option"
  kv_diffSummary :: "string option"
  kv_commitUrl :: "string option"
  kv_gitDeployable :: "bool option"
  kv_backupSpec :: "string option"

record KotsDownstreamOutput =
  dryrunStdout :: string
  dryrunStderr :: string
  applyStdout :: string
  applyStderr :: string
  renderError :: "string option"

record UpdateCursor =
  uc_cursor :: "string option"
  uc_channelName :: "string option"

text \<open>\<open>downstreamVersionStatus\<close>: "deployed" is shown only when the operator has reported back.\<close>

definition downstreamVersionStatus :: "bool option \<Rightarrow> string option \<Rightarrow> string option" where
  "downstreamVersionStatus has_error row_status =
     (if has_error = Some False then row_status
      else if has_error = Some True then Some ''failed''
      else if row_status = Some ''deployed'' then Some ''deploying''
      else if truthy_str row_status then row_status
      else Some ''unknown'')"

section \<open>Clusters and downstreams of an application\<close>

definition listClusterIDsForApp :: "string \<Rightarrow> db \<Rightarrow> string list" where
  "listClusterIDsForApp i d = map ad_cluster_id (sql_select (\<lambda>r. ad_app_id r = i) (t_app_downstream d))"

definition listDownstreamsForApp :: "string \<Rightarrow> db \<Rightarrow> string list" where
  "listDownstreamsForApp i d =
     map ad_downstream_name (sql_select (\<lambda>r. ad_app_id r = i) (t_app_downstream d))"

definition ad_merge :: "app_downstream_row \<Rightarrow> app_downstream_row \<Rightarrow> app_downstream_row" where
  "ad_merge old new = old\<lparr>ad_downstream_name := ad_downstream_name new\<rparr>"

definition createDownstream :: "string \<Rightarrow> string \<Rightarrow> string \<Rightarrow> db \<Rightarrow> db" where
  "createDownstream appId downstreamName clusterId d =
     d\<lparr>t_app_downstream := sql_upsert ad_key ad_merge
        \<lparr>ad_app_id = appId, ad_cluster_id = clusterId, ad_downstream_name = downstreamName,
         ad_current_sequence = None\<rparr> (t_app_downstream d)\<rparr>"

definition deleteDownstream :: "string \<Rightarrow> string \<Rightarrow> (db, bool) eff" where
  "deleteDownstream appId clusterId d =
     (let p = (\<lambda>r. ad_app_id r = appId \<and> ad_cluster_id r = clusterId);
          n = length (sql_select p (t_app_downstream d));
          d' = d\<lparr>t_app_downstream := sql_delete p (t_app_downstream d)\<rparr>
      in if n = 0
         then (Inl (ReplicatedError (''No downstreams with the id of '' @ clusterId @ '' were found'')), d')
         else (Inr True, d'))"

text \<open>The deployed sequence of a downstream: no row, or a row whose column may be \<open>null\<close>.\<close>

definition downstream_sequence :: "string \<Rightarrow> string \<Rightarrow> db \<Rightarrow> int option option" where
  "downstream_sequence appId clusterId d =
     map_option ad_current_sequence
       (find (\<lambda>r. ad_app_id r = appId \<and> ad_cluster_id r = clusterId) (t_app_downstream d))"

section \<open>What the operator reports\<close>

definition updateDownstreamsStatus :: "string \<Rightarrow> int \<Rightarrow> string \<Rightarrow> string \<Rightarrow> db \<Rightarrow> db" where
  "updateDownstreamsStatus appId s st statusInfo d =
     d\<lparr>t_app_downstream_version :=
        sql_update (\<lambda>r. adv_app_id r = appId \<and> adv_sequence r = s)
          (\<lambda>r. r\<lparr>adv_status := Some st, adv_status_info := Some statusInfo\<rparr>)
          (t_app_downstream_version d)\<rparr>"

record deploy_output =
  do_dryRun_stdout :: "string option"
  do_dryRun_stderr :: "string option"
  do_apply_stdout :: "string option"
  do_apply_stderr :: "string option"

definition ado_merge ::
  "app_downstream_output_row \<Rightarrow> app_downstream_output_row \<Rightarrow> app_downstream_output_row" where
  "ado_merge old new =
     old\<lparr>ado_is_error := ado_is_error new, ado_dryrun_stdout := ado_dryrun_stdout new,
         ado_dryrun_stderr := ado_dryrun_stderr new, ado_apply_stdout := ado_apply_stdout new,
         ado_apply_stderr := ado_apply_stderr new\<rparr>"

definition output_row :: "string \<Rightarrow> string \<Rightarrow> int \<Rightarrow> bool option \<Rightarrow> deploy_output \<Rightarrow> app_downstream_output_row" where
  "output_row appId clusterId s isError out =
     \<lparr>ado_app_id = appId, ado_cluster_id = clusterId, ado_downstream_sequence = s,
      ado_is_error = isError, ado_dryrun_stdout = do_dryRun_stdout out,
      ado_dryrun_stderr = do_dryRun_stderr out, ado_apply_stdout = do_apply_stdout out,
      ado_apply_stderr = do_apply_stderr out\<rparr>"

definition outputs_of :: "string \<Rightarrow> string \<Rightarrow> int \<Rightarrow> db \<Rightarrow> app_downstream_output_row list" where
  "outputs_of appId clusterId s d =
     sql_select (\<lambda>r. ado_key r = (appId, clusterId, s)) (t_app_downstream_output d)"

definition updateDownstreamDeployStatus ::
  "string \<Rightarrow> string \<Rightarrow> int \<Rightarrow> bool option \<Rightarrow> deploy_output \<Rightarrow> db \<Rightarrow> db" where
  "updateDownstreamDeployStatus appId clusterId s isError out d =
     (let rows = outputs_of appId clusterId s d;
          hasOtherResults = rows \<noteq> [];
          otherResultIsError = hasOtherResults \<and> ado_is_error (hd rows) = Some True
      in if hasOtherResults \<and> \<not> otherResultIsError then d
         else d\<lparr>t_app_downstream_output := sql_upsert ado_key ado_merge
                 (output_row appId clusterId s isError out) (t_app_downstream_output d)\<rparr>)"

text \<open>A version row joined with its output, if there is one (\<^verbatim>\<open>LEFT JOIN\<close>).\<close>

definition join_output ::
  "db \<Rightarrow> app_downstream_version_row \<Rightarrow> app_downstream_output_row option" where
  "join_output d r = find (\<lambda>o'. ado_key o' = adv_key r) (t_app_downstream_output d)"

definition getDownstreamOutput :: "string \<Rightarrow> string \<Rightarrow> int \<Rightarrow> db \<Rightarrow> KotsDownstreamOutput" where
  "getDownstreamOutput appId clusterId s d =
     (case sql_select (\<lambda>r. adv_key r = (appId, clusterId, s)) (t_app_downstream_version d) of
        [] \<Rightarrow> \<lparr>dryrunStdout = [], dryrunStderr = [], applyStdout = [], applyStderr = [],
              renderError = Some []\<rparr>
      | row # _ \<Rightarrow>
          (let out = join_output d row;
               col = (\<lambda>f. base64Decode_opt (case out of None \<Rightarrow> None | Some o' \<Rightarrow> f o'))
           in \<lparr>dryrunStdout = col ado_dryrun_stdout, dryrunStderr = col ado_dryrun_stderr,
               applyStdout = col ado_apply_stdout, applyStderr = col ado_apply_stderr,
               renderError =
                 (if adv_status row = Some ''failed'' then adv_status_info row else None)\<rparr>))"

section \<open>Creating versions\<close>

record midstream_args =
  ms_versionLabel :: string
  ms_releaseNotes :: "string option"
  ms_updateCursor :: "string option"
  ms_channelName :: "string option"
  ms_encryptionKey :: "string option"
  ms_supportBundleSpec :: "string option"
  ms_analyzersSpec :: "string option"
  ms_preflightSpec :: "string option"
  ms_appSpec :: "string option"
  ms_kotsAppSpec :: "string option"
  ms_kotsAppLicense :: "string option"
  ms_configSpec :: "string option"
  ms_configValues :: "string option"
  ms_appTitle :: "string option"
  ms_appIcon :: "string option"
  ms_backupSpec :: "string option"

definition midstream_row :: "string \<Rightarrow> int \<Rightarrow> time \<Rightarrow> midstream_args \<Rightarrow> app_version_row" where
  "midstream_row i s now m =
     \<lparr>av_app_id = i, av_sequence = s, av_update_cursor = ms_updateCursor m,
      av_channel_name = ms_channelName m, av_created_at = now,
      av_version_label = ms_versionLabel m, av_release_notes = ms_releaseNotes m,
      av_supportbundle_spec = ms_supportBundleSpec m, av_preflight_spec = ms_preflightSpec m,
      av_analyzer_spec = ms_analyzersSpec m, av_app_spec = ms_appSpec m,
      av_kots_app_spec = ms_kotsAppSpec m, av_kots_license = ms_kotsAppLicense m,
      av_config_spec = ms_configSpec m, av_config_values = ms_configValues m,
      av_applied_at = None, av_status = None, av_encryption_key = ms_encryptionKey m,
      av_backup_spec = ms_backupSpec m\<rparr>"

text \<open>The conflict clause sets every proposed column; the two it does not list stay.\<close>

definition av_merge :: "app_version_row \<Rightarrow> app_version_row \<Rightarrow> app_version_row" where
  "av_merge old new =
     new\<lparr>av_app_id := av_app_id old, av_sequence := av_sequence old,
         av_applied_at := av_applied_at old, av_status := av_status old\<rparr>"

definition createMidstreamVersion :: "string \<Rightarrow> int \<Rightarrow> time \<Rightarrow> midstream_args \<Rightarrow> (db, unit) eff" where
  "createMidstreamVersion i s now m =
     thenE (execE (\<lambda>d. d\<lparr>t_app_version :=
              sql_upsert av_key av_merge (midstream_row i s now m) (t_app_version d)\<rparr>))
     (bindE (if \<not> truthy_str (ms_appTitle m)
             then queryE (\<lambda>d. case sql_select (\<lambda>r. app_id r = i) (t_app d) of
                                 [] \<Rightarrow> Inl TypeError | r # _ \<Rightarrow> Inr (app_slug r))
             else retE (str_or_empty (ms_appTitle m)))
       (\<lambda>name. execE (\<lambda>d. d\<lparr>t_app := sql_update (\<lambda>r. app_id r = i)
                  (\<lambda>r. r\<lparr>app_current_sequence := Some s, app_name := name,
                         app_icon_uri := ms_appIcon m\<rparr>) (t_app d)\<rparr>)))"

definition max_opt :: "int list \<Rightarrow> int option" where
  "max_opt xs = (case xs of [] \<Rightarrow> None | x # xs \<Rightarrow> Some (fold max xs x))"

definition downstream_versions :: "string \<Rightarrow> string \<Rightarrow> db \<Rightarrow> app_downstream_version_row list" where
  "downstream_versions appId clusterId d =
     sql_select (\<lambda>r. adv_app_id r = appId \<and> adv_cluster_id r = clusterId) (t_app_downstream_version d)"

definition next_sequence :: "string \<Rightarrow> string \<Rightarrow> db \<Rightarrow> int" where
  "next_sequence i clusterId d =
     (case max_opt (map adv_sequence (downstream_versions i clusterId d)) of
        None \<Rightarrow> 0 | Some last_sequence \<Rightarrow> last_sequence + 1)"

record downstream_args =
  ds_parentSequence :: int
  ds_versionLabel :: string
  ds_status :: string
  ds_source :: string
  ds_diffSummary :: string
  ds_commitUrl :: string
  ds_gitDeployable :: bool

definition downstream_row :: "string \<Rightarrow> string \<Rightarrow> int \<Rightarrow> time \<Rightarrow> downstream_args \<Rightarrow> app_downstream_version_row" where
  "downstream_row i clusterId s now a =
     \<lparr>adv_app_id = i, adv_cluster_id = clusterId, adv_sequence = s,
      adv_parent_sequence = Some (ds_parentSequence a), adv_created_at = now,
      adv_applied_at = None, adv_version_label = ds_versionLabel a,
      adv_status = Some (ds_status a), adv_status_info = None, adv_source = Some (ds_source a),
      adv_diff_summary = Some (ds_diffSummary a), adv_preflight_result = None,
      adv_preflight_result_created_at = None, adv_preflight_ignore_permissions = False,
      adv_git_commit_url = Some (ds_commitUrl a), adv_git_deployable = ds_gitDeployable a\<rparr>"

definition createDownstreamVersion ::
  "string \<Rightarrow> string \<Rightarrow> time \<Rightarrow> downstream_args \<Rightarrow> (db, unit) eff" where
  "createDownstreamVersion i clusterId now a =
     transaction (\<lambda>d.
       (let newSequence = next_sequence i clusterId d in
        case sql_insert adv_key (downstream_row i clusterId newSequence now a)
               (t_app_downstream_version d) of
          Inl e \<Rightarrow> (Inl e, d)
        | Inr t \<Rightarrow> (Inr (), d\<lparr>t_app_downstream_version := t\<rparr>)))"

section \<open>Reading versions\<close>

definition getReleaseNotes :: "string \<Rightarrow> int option \<Rightarrow> db \<Rightarrow> string option" where
  "getReleaseNotes appId s d =
     (case s of
        None \<Rightarrow> None
      | Some n \<Rightarrow>
          (case sql_select (\<lambda>r. av_app_id r = appId \<and> av_sequence r = n) (t_app_version d) of
             [] \<Rightarrow> None | r # _ \<Rightarrow> av_release_notes r))"

definition version_item ::
  "db \<Rightarrow> string \<Rightarrow> string option \<Rightarrow> app_downstream_version_row \<Rightarrow> KotsVersion" where
  "version_item d appId status row =
     \<lparr>kv_title = adv_version_label row, kv_status = status, kv_createdOn = adv_created_at row,
      kv_parentSequence = adv_parent_sequence row, kv_sequence = adv_sequence row,
      kv_releaseNotes = str_or_empty (getReleaseNotes appId (adv_parent_sequence row) d),
      kv_deployedAt = adv_applied_at row, kv_preflightResult = adv_preflight_result row,
      kv_preflightResultCreatedAt = adv_preflight_result_created_at row,
      kv_source = adv_source row, kv_diffSummary = adv_diff_summary row,
      kv_commitUrl = Some (str_or_empty (adv_git_commit_url row)),
      kv_gitDeployable = Some (adv_git_deployable row), kv_backupSpec = None\<rparr>"

definition shown_status :: "db \<Rightarrow> app_downstream_version_row \<Rightarrow> string option" where
  "shown_status d row =
     downstreamVersionStatus
       (case join_output d row of None \<Rightarrow> None | Some o' \<Rightarrow> ado_is_error o') (adv_status row)"

definition listPastVersions :: "string \<Rightarrow> string \<Rightarrow> db \<Rightarrow> KotsVersion list result" where
  "listPastVersions appId clusterId d =
     (case downstream_sequence appId clusterId d of
        None \<Rightarrow> Inl (ReplicatedError ''No past versions found'')
      | Some None \<Rightarrow> Inr []
      | Some (Some s) \<Rightarrow>
          Inr (map (\<lambda>row. version_item d appId (shown_status d row) row)
            (order_desc adv_sequence
              (sql_select (\<lambda>r. adv_sequence r < s) (downstream_versions appId clusterId d)))))"

definition listPendingVersions :: "string \<Rightarrow> string \<Rightarrow> db \<Rightarrow> KotsVersion list result" where
  "listPendingVersions appId clusterId d =
     (case downstream_sequence appId clusterId d of
        None \<Rightarrow> Inl (ReplicatedError ''No pending versions found'')
      | Some cur \<Rightarrow>
          (let s = (case cur of None \<Rightarrow> -1 | Some n \<Rightarrow> n) in
           Inr (map (\<lambda>row. version_item d appId (adv_status row) row)
            (order_desc adv_sequence
              (sql_select (\<lambda>r. s < adv_sequence r) (downstream_versions appId clusterId d))))))"

definition getCurrentVersion :: "string \<Rightarrow> string \<Rightarrow> db \<Rightarrow> KotsVersion option result" where
  "getCurrentVersion appId clusterId d =
     (case downstream_sequence appId clusterId d of
        None \<Rightarrow> Inl (ReplicatedError ''No current downstream version found'')
      | Some None \<Rightarrow> Inr None
      | Some (Some s) \<Rightarrow>
          (case order_desc adv_sequence
                  (sql_select (\<lambda>r. adv_sequence r = s) (downstream_versions appId clusterId d)) of
             [] \<Rightarrow> Inl (ReplicatedError (''App Version for clusterId '' @ clusterId @
                     '' not found. appId: '' @ appId @ '', sequence '' @ show_int s))
           | row # _ \<Rightarrow> Inr (Some (version_item d appId (shown_status d row) row))))"

definition getPreviouslyDeployedSequence :: "string \<Rightarrow> string \<Rightarrow> int \<Rightarrow> db \<Rightarrow> int option" where
  "getPreviouslyDeployedSequence appId clusterId currentSequence d =
     (case take 2 (order_desc (\<lambda>r. the (adv_applied_at r))
              (sql_select (\<lambda>r. adv_applied_at r \<noteq> None) (downstream_versions appId clusterId d))) of
        [_, r] \<Rightarrow> Some (adv_sequence r)
      | _ \<Rightarrow> None)"

definition getCurrentAppVersion :: "string \<Rightarrow> db \<Rightarrow> KotsVersion option result" where
  "getCurrentAppVersion appId d =
     (case find (\<lambda>r. app_id r = appId) (t_app d) of
        None \<Rightarrow> Inl (ReplicatedError ''No current version found'')
      | Some a \<Rightarrow>
          (case app_current_sequence a of
             None \<Rightarrow> Inr None
           | Some s \<Rightarrow>
               (case find (\<lambda>r. av_app_id r = appId \<and> av_sequence r = s) (t_app_version d) of
                  None \<Rightarrow> Inl (ReplicatedError ''No app version found'')
                | Some row \<Rightarrow> Inr (Some
                    \<lparr>kv_title = av_version_label row, kv_status = Some (str_or_empty (av_status row)),
                     kv_createdOn = av_created_at row, kv_parentSequence = None,
                     kv_sequence = av_sequence row,
                     kv_releaseNotes = str_or_empty (av_release_notes row),
                     kv_deployedAt = av_applied_at row, kv_preflightResult = None,
                     kv_preflightResultCreatedAt = None, kv_source = None, kv_diffSummary = None,
                     kv_commitUrl = None, kv_gitDeployable = None,
                     kv_backupSpec = av_backup_spec row\<rparr>))))"

definition app_version_at :: "string \<Rightarrow> int \<Rightarrow> db \<Rightarrow> app_version_row option" where
  "app_version_at appId s d = find (\<lambda>r. av_app_id r = appId \<and> av_sequence r = s) (t_app_version d)"

definition getDeployedVersionBackup :: "string \<Rightarrow> string \<Rightarrow> db \<Rightarrow> string option" where
  "getDeployedVersionBackup appId clusterId d =
     (case downstream_sequence appId clusterId d of
        Some (Some s) \<Rightarrow> Option.bind (app_version_at appId s d) av_backup_spec
      | _ \<Rightarrow> None)"

definition getAppSpec :: "string \<Rightarrow> int \<Rightarrow> db \<Rightarrow> string option" where
  "getAppSpec appId s d = Option.bind (app_version_at appId s d) av_app_spec"

text \<open>\<open>yaml.safeLoad\<close> is the parameter \<open>safeLoad\<close>; a rejection of it is one of the query.\<close>

definition getKotsAppSpec ::
  "(string \<Rightarrow> jsval result) \<Rightarrow> string \<Rightarrow> int \<Rightarrow> db \<Rightarrow> jsval result" where
  "getKotsAppSpec safeLoad appId s d =
     (case app_version_at appId s d of
        None \<Rightarrow> Inr JUndef
      | Some r \<Rightarrow>
          if \<not> truthy_str (av_kots_app_spec r) then Inr JUndef
          else bindR (safeLoad (str_or_empty (av_kots_app_spec r))) (\<lambda>v. js_get v ''spec''))"

definition getAppConfigData :: "string \<Rightarrow> int \<Rightarrow> db \<Rightarrow> (string \<times> string) option result" where
  "getAppConfigData appId s d =
     (case app_version_at appId s d of
        None \<Rightarrow> Inl (ReplicatedError (''No config found for app with id '' @ appId @
                       '' and sequence '' @ show_int s))
      | Some r \<Rightarrow>
          if \<not> truthy_str (av_config_spec r) \<or> \<not> truthy_str (av_config_values r) then Inr None
          else Inr (Some (str_or_empty (av_config_spec r), str_or_empty (av_config_values r))))"

definition updateAppConfigValues :: "string \<Rightarrow> int \<Rightarrow> string \<Rightarrow> db \<Rightarrow> db" where
  "updateAppConfigValues appId s configValues d =
     d\<lparr>t_app_version := sql_update (\<lambda>r. av_app_id r = appId \<and> av_sequence r = s)
         (\<lambda>r. r\<lparr>av_config_values := Some configValues\<rparr>) (t_app_version d)\<rparr>"

definition getAppEncryptionKey :: "string \<Rightarrow> int \<Rightarrow> db \<Rightarrow> string result" where
  "getAppEncryptionKey appId s d =
     (case app_version_at appId s d of
        None \<Rightarrow> Inl (ReplicatedError ''App not found while trying to get the encryption key'')
      | Some r \<Rightarrow>
          if \<not> truthy_str (av_encryption_key r) then Inr [] else Inr (str_or_empty (av_encryption_key r)))"

text \<open>\<open>max\<close> without \<^verbatim>\<open>group by\<close> always returns one row, so the branch of the source for no rows is
  never taken: with no version the column is \<open>null\<close> and the result \<open>NaN\<close>, here \<open>None\<close>.\<close>

definition getMaxSequence :: "string \<Rightarrow> db \<Rightarrow> int option" where
  "getMaxSequence appId d =
     max_opt (map av_sequence (sql_select (\<lambda>r. av_app_id r = appId) (t_app_version d)))"

definition getMidstreamUpdateCursor :: "string \<Rightarrow> db \<Rightarrow> UpdateCursor" where
  "getMidstreamUpdateCursor appId d =
     (case take 1 (order_desc av_sequence
              (sql_select (\<lambda>r. av_app_id r = appId) (t_app_version d))) of
        [] \<Rightarrow> \<lparr>uc_cursor = Some [], uc_channelName = Some []\<rparr>
      | r # _ \<Rightarrow> \<lparr>uc_cursor = av_update_cursor r, uc_channelName = av_channel_name r\<rparr>)"

section \<open>Deploying\<close>

definition deployVersion :: "string \<Rightarrow> int \<Rightarrow> time \<Rightarrow> db \<Rightarrow> db" where
  "deployVersion appId s now d =
     (let d' = d\<lparr>t_app_downstream := sql_update (\<lambda>r. ad_app_id r = appId)
                  (\<lambda>r. r\<lparr>ad_current_sequence := Some s\<rparr>) (t_app_downstream d)\<rparr>
      in d'\<lparr>t_app_downstream_version :=
              sql_update (\<lambda>r. adv_sequence r = s \<and> adv_app_id r = appId)
                (\<lambda>r. r\<lparr>adv_status := Some ''deployed'', adv_applied_at := Some now\<rparr>)
                (t_app_downstream_version d')\<rparr>)"

section \<open>Lemmas\<close>

interpretation ad: keyed_table ad_key ad_merge
  by unfold_locales (simp add: ad_merge_def)

interpretation ado: keyed_table ado_key ado_merge
  by unfold_locales (simp add: ado_merge_def)

interpretation av: keyed_table av_key av_merge
  by unfold_locales (simp add: av_merge_def)

named_theorems adv_frame \<open>which operations leave the downstream versions alone\<close>

lemma max_opt_Max: "max_opt xs = (if xs = [] then None else Some (Max (set xs)))"
  by (auto simp: max_opt_def split: list.splits) (metis Max.set_eq_fold list.simps(15))

lemma max_opt_upto: "max_opt (map int [0..<n]) = (if n = 0 then None else Some (int n - 1))"
proof (cases n)
  case 0
  then show ?thesis by (simp add: max_opt_def)
next
  case (Suc m)
  then have "Max (set (map int [0..<n])) = int m"
    by (intro Max_eqI) auto
  with Suc show ?thesis by (simp add: max_opt_Max del: set_map set_upt)
qed

lemma max_opt_set: "set xs = set ys \<Longrightarrow> max_opt xs = max_opt ys"
  by (auto simp: max_opt_Max)

text \<open>The sequences of one downstream are numbered from 0 without gaps or repetitions.\<close>

definition numbered :: "string \<Rightarrow> string \<Rightarrow> db \<Rightarrow> bool" where
  "numbered a c d \<longleftrightarrow>
     (let xs = map adv_sequence (downstream_versions a c d) in
      distinct xs \<and> set xs = set (map int [0..<length xs]))"

lemma numbered_next:
  "numbered a c d \<Longrightarrow> next_sequence a c d = int (length (downstream_versions a c d))"
  using max_opt_set [of "map adv_sequence (downstream_versions a c d)"
      "map int [0..<length (downstream_versions a c d)]"]
  by (simp add: numbered_def Let_def next_sequence_def max_opt_upto del: set_map set_upt split: option.splits)

lemma numbered_order_desc:
  assumes "numbered a c d"
  shows "map adv_sequence (order_desc adv_sequence (downstream_versions a c d)) =
    rev (map int [0..<length (downstream_versions a c d)])"
proof -
  let ?vs = "downstream_versions a c d"
  have "sorted (map adv_sequence (sort_key adv_sequence (rev ?vs)))" by simp
  moreover have "distinct (map adv_sequence (sort_key adv_sequence (rev ?vs)))"
    using assms by (simp add: numbered_def Let_def distinct_map)
  moreover have "set (map adv_sequence (sort_key adv_sequence (rev ?vs))) = set (map int [0..<length ?vs])"
    using assms by (simp add: numbered_def Let_def)
  moreover have "sorted (map int [0..<length ?vs])" "distinct (map int [0..<length ?vs])"
    by (simp_all add: sorted_map distinct_map)
  ultimately have "map adv_sequence (sort_key adv_sequence (rev ?vs)) = map int [0..<length ?vs]"
    using sorted_distinct_set_unique by blast
  then show ?thesis by (simp add: order_desc_def flip: rev_map)
qed

lemma downstream_versions_update:
  assumes "\<And>r. adv_app_id (f r) = adv_app_id r" "\<And>r. adv_cluster_id (f r) = adv_cluster_id r"
  shows "downstream_versions a c (d\<lparr>t_app_downstream_version := sql_update p f (t_app_downstream_version d)\<rparr>) =
    sql_update p f (downstream_versions a c d)"
  using assms by (auto simp: downstream_versions_def sql_select_def sql_update_def filter_map o_def
      intro!: map_cong filter_cong)

lemma numbered_sql_update:
  assumes "\<And>r. adv_app_id (f r) = adv_app_id r" "\<And>r. adv_cluster_id (f r) = adv_cluster_id r"
    "\<And>r. adv_sequence (f r) = adv_sequence r"
  shows "numbered a c (d\<lparr>t_app_downstream_version := sql_update p f (t_app_downstream_version d)\<rparr>) =
    numbered a c d"
proof -
  have "map adv_sequence (downstream_versions a c
      (d\<lparr>t_app_downstream_version := sql_update p f (t_app_downstream_version d)\<rparr>)) =
    map adv_sequence (downstream_versions a c d)"
    using assms(3) by (simp add: downstream_versions_update [OF assms(1,2)] map_sql_update)
  then show ?thesis by (simp only: numbered_def)
qed

text \<open>The versions below, at and above a sequence, of a list in descending order.\<close>

lemma order_desc_select_split:
  fixes s :: int
  assumes "map k (order_desc k t) = rev (map int [0..<n])" and "0 \<le> s" and "s < int n"
  shows "map k (order_desc k (sql_select (\<lambda>r. s < k r) t)) = rev (map int [Suc (nat s)..<n])"
    and "map k (order_desc k (sql_select (\<lambda>r. k r = s) t)) = [s]"
    and "map k (order_desc k (sql_select (\<lambda>r. k r < s) t)) = rev (map int [0..<nat s])"
proof -
  have sel: "order_desc k (sql_select q t) = filter q (order_desc k t)" for q
    by (simp add: order_desc_def sql_select_def filter_sort flip: rev_filter)
  have flt: "map k (filter (\<lambda>r. q (k r)) (order_desc k t)) = rev (map int (filter (\<lambda>i. q (int i)) [0..<n]))" for q
    using assms(1) by (metis (no_types) comp_apply filter_cong filter_map rev_filter rev_map)
  have n: "[0..<n] = [0..<nat s] @ nat s # [Suc (nat s)..<n]"
    using assms(2,3) by (metis le_add_diff_inverse less_imp_le nat_int nat_less_iff upt_add_eq_append upt_conv_Cons zero_le)
  have "filter (\<lambda>i. s < int i) [0..<nat s] = []" "filter (\<lambda>i. int i = s) [0..<nat s] = []"
    "filter (\<lambda>i. int i = s) [Suc (nat s)..<n] = []" "filter (\<lambda>i. int i < s) [Suc (nat s)..<n] = []"
    by (auto simp: filter_empty_conv)
  moreover have "filter (\<lambda>i. s < int i) [Suc (nat s)..<n] = [Suc (nat s)..<n]"
    "filter (\<lambda>i. int i < s) [0..<nat s] = [0..<nat s]"
    by (auto intro!: filter_True)
  ultimately have parts: "filter (\<lambda>i. s < int i) [0..<n] = [Suc (nat s)..<n]"
    "filter (\<lambda>i. int i = s) [0..<n] = [nat s]" "filter (\<lambda>i. int i < s) [0..<n] = [0..<nat s]"
    unfolding n using assms(2) by simp_all
  show "map k (order_desc k (sql_select (\<lambda>r. s < k r) t)) = rev (map int [Suc (nat s)..<n])"
    unfolding sel flt [of "\<lambda>i. s < i"] parts ..
  show "map k (order_desc k (sql_select (\<lambda>r. k r = s) t)) = [s]"
    unfolding sel flt [of "\<lambda>i. i = s"] parts using assms(2) by simp
  show "map k (order_desc k (sql_select (\<lambda>r. k r < s) t)) = rev (map int [0..<nat s])"
    unfolding sel flt [of "\<lambda>i. i < s"] parts ..
qed

lemma version_item_seq [simp]:
  "kv_sequence (version_item d a st r) = adv_sequence r"
  "kv_sequence \<circ> (\<lambda>row. version_item d a (f row) row) = adv_sequence"
  by (simp_all add: version_item_def fun_eq_iff)

section \<open>An example history\<close>

text \<open>One application on one cluster with three versions, the second of them deployed: the
  inputs of the witnesses.\<close>

definition example_args :: downstream_args where
  "example_args = \<lparr>ds_parentSequence = 0, ds_versionLabel = ''1.0'', ds_status = ''pending'',
     ds_source = ''Online Install'', ds_diffSummary = [], ds_commitUrl = [],
     ds_gitDeployable = False\<rparr>"

definition example_db :: db where
  "example_db = empty_db
     \<lparr>t_app_downstream := [\<lparr>ad_app_id = ''a'', ad_cluster_id = ''c'', ad_downstream_name = ''this'',
        ad_current_sequence = Some 1\<rparr>],
      t_app_downstream_version := map (\<lambda>s. downstream_row ''a'' ''c'' s (100 + s) example_args) [0, 1, 2]\<rparr>"

lemma example_versions:
  "downstream_versions ''a'' ''c'' example_db =
     map (\<lambda>s. downstream_row ''a'' ''c'' s (100 + s) example_args) [0, 1, 2]"
  by (simp add: downstream_versions_def example_db_def sql_select_def downstream_row_def)

lemma example_downstream: "downstream_sequence ''a'' ''c'' example_db = Some (Some 1)"
  by (simp add: downstream_sequence_def example_db_def)

lemma example_numbered: "numbered ''a'' ''c'' example_db"
  by (auto simp: numbered_def example_versions Let_def downstream_row_def)

lemma example_keys: "distinct (map adv_key (t_app_downstream_version example_db))"
  by (simp add: example_db_def downstream_row_def)

section \<open>Creating a version keeps the numbering\<close>

lemma downstream_versions_insert:
  "downstream_versions a c (d\<lparr>t_app_downstream_version := t_app_downstream_version d @ [r]\<rparr>) =
     downstream_versions a c d @ (if adv_app_id r = a \<and> adv_cluster_id r = c then [r] else [])"
  by (simp add: downstream_versions_def sql_select_def)

lemma downstream_row_simps [simp]:
  "adv_app_id (downstream_row i c s now a) = i"
  "adv_cluster_id (downstream_row i c s now a) = c"
  "adv_sequence (downstream_row i c s now a) = s"
  "adv_status (downstream_row i c s now a) = Some (ds_status a)"
  "adv_applied_at (downstream_row i c s now a) = None"
  by (simp_all add: downstream_row_def)

lemma next_sequence_free:
  "numbered i c d \<Longrightarrow> (i, c, next_sequence i c d) \<notin> adv_key ` set (t_app_downstream_version d)"
proof
  assume num: "numbered i c d" and "(i, c, next_sequence i c d) \<in> adv_key ` set (t_app_downstream_version d)"
  then have "next_sequence i c d \<in> adv_sequence ` set (downstream_versions i c d)"
    by (force simp: downstream_versions_def sql_select_def)
  also have "adv_sequence ` set (downstream_versions i c d) = int ` {0..<length (downstream_versions i c d)}"
    using num by (simp add: numbered_def Let_def)
  finally show False using numbered_next [OF num] by auto
qed

lemma createDownstreamVersion_run:
  "numbered i c d \<Longrightarrow>
   createDownstreamVersion i c now a d =
     (Inr (), d\<lparr>t_app_downstream_version := t_app_downstream_version d @
        [downstream_row i c (int (length (downstream_versions i c d))) now a]\<rparr>)"
  using next_sequence_free [of i c d] numbered_next [of i c d]
  by (auto simp: createDownstreamVersion_def transaction_def sql_insert_def Let_def)

lemma numbered_insert:
  "numbered i c d \<Longrightarrow> adv_app_id r = i \<Longrightarrow> adv_cluster_id r = c \<Longrightarrow>
   adv_sequence r = int (length (downstream_versions i c d)) \<Longrightarrow>
   numbered i c (d\<lparr>t_app_downstream_version := t_app_downstream_version d @ [r]\<rparr>)"
  by (auto simp: numbered_def downstream_versions_insert Let_def)

lemma numbered_insert_other:
  "(adv_app_id r, adv_cluster_id r) \<noteq> (i, c) \<Longrightarrow>
   numbered i c (d\<lparr>t_app_downstream_version := t_app_downstream_version d @ [r]\<rparr>) = numbered i c d"
  by (auto simp: numbered_def downstream_versions_insert)

lemma createDownstreamVersion_other:
  assumes "(i', c') \<noteq> (i, c)"
  shows "numbered i c (snd (createDownstreamVersion i' c' now a d)) = numbered i c d"
  using assms numbered_insert_other [of "downstream_row i' c' (next_sequence i' c' d) now a" i c d]
  by (auto simp: createDownstreamVersion_def transaction_def sql_insert_def Let_def)

lemma downstream_versions_frame [simp, adv_frame]:
  "downstream_versions a c (d\<lparr>t_app := x1\<rparr>) = downstream_versions a c d"
  "downstream_versions a c (d\<lparr>t_app_version := x2\<rparr>) = downstream_versions a c d"
  "downstream_versions a c (d\<lparr>t_app_downstream := x3\<rparr>) = downstream_versions a c d"
  "downstream_versions a c (d\<lparr>t_app_downstream_output := x4\<rparr>) = downstream_versions a c d"
  "downstream_versions a c (d\<lparr>t_app_status := x5\<rparr>) = downstream_versions a c d"
  "downstream_versions a c (d\<lparr>t_api_task_status := x6\<rparr>) = downstream_versions a c d"
  by (simp_all add: downstream_versions_def)

lemma numbered_frame [simp, adv_frame]:
  "numbered a c (d\<lparr>t_app := x1\<rparr>) = numbered a c d"
  "numbered a c (d\<lparr>t_app_version := x2\<rparr>) = numbered a c d"
  "numbered a c (d\<lparr>t_app_downstream := x3\<rparr>) = numbered a c d"
  "numbered a c (d\<lparr>t_app_downstream_output := x4\<rparr>) = numbered a c d"
  "numbered a c (d\<lparr>t_app_status := x5\<rparr>) = numbered a c d"
  "numbered a c (d\<lparr>t_api_task_status := x6\<rparr>) = numbered a c d"
  by (simp_all add: numbered_def)

lemma numbered_deployVersion [simp]: "numbered a c (deployVersion i s now d) = numbered a c d"
  unfolding deployVersion_def Let_def
  by (subst numbered_sql_update) simp_all

lemma numbered_updateDownstreamsStatus [simp]:
  "numbered a c (updateDownstreamsStatus i s st info d) = numbered a c d"
  unfolding updateDownstreamsStatus_def by (subst numbered_sql_update) simp_all

lemma numbered_updateDownstreamDeployStatus [simp]:
  "numbered a c (updateDownstreamDeployStatus i c' s e out d) = numbered a c d"
  by (simp add: updateDownstreamDeployStatus_def Let_def)

lemma numbered_createDownstreamVersion:
  "numbered i c d \<Longrightarrow> numbered i c (snd (createDownstreamVersion i' c' now a d))"
proof (cases "(i', c') = (i, c)")
  case True
  assume "numbered i c d"
  with True show ?thesis by (simp add: createDownstreamVersion_run numbered_insert)
next
  case False
  assume "numbered i c d"
  with False show ?thesis by (simp add: createDownstreamVersion_other)
qed

text \<open>
  the version history of a downstream is complete and in order: when the deployed sequence is
  one of its versions, the pending versions, the current version and the past versions together
  are all the versions, newest first, each exactly once.
\<close>

theorem version_history_partition:
  assumes num: "numbered appId clusterId d"
    and cur: "downstream_sequence appId clusterId d = Some (Some s)"
    and s: "0 \<le> s" "s < int (length (downstream_versions appId clusterId d))"
  shows "\<exists>pending current past.
    listPendingVersions appId clusterId d = Inr pending \<and>
    getCurrentVersion appId clusterId d = Inr (Some current) \<and>
    listPastVersions appId clusterId d = Inr past \<and>
    map kv_sequence pending @ kv_sequence current # map kv_sequence past =
      rev (map int [0..<length (downstream_versions appId clusterId d)])"
proof -
  let ?vs = "downstream_versions appId clusterId d" and ?n = "length (downstream_versions appId clusterId d)"
  note split = order_desc_select_split [OF numbered_order_desc [OF num] s]
  obtain row where row: "order_desc adv_sequence (sql_select (\<lambda>r. adv_sequence r = s) ?vs) = [row]"
    and "adv_sequence row = s"
    using split(2) by (auto simp: map_eq_Cons_conv)
  have n: "[0..<?n] = [0..<nat s] @ nat s # [Suc (nat s)..<?n]"
    using s by (metis le_add_diff_inverse less_imp_le nat_int nat_less_iff upt_add_eq_append upt_conv_Cons zero_le)
  show ?thesis
    using cur row \<open>adv_sequence row = s\<close> split(1,3) s(1) n
    by (simp add: listPendingVersions_def getCurrentVersion_def listPastVersions_def)
qed

theorem version_history_partition_witness:
  "numbered ''a'' ''c'' example_db \<and> (\<exists>pending current past.
    listPendingVersions ''a'' ''c'' example_db = Inr pending \<and>
    getCurrentVersion ''a'' ''c'' example_db = Inr (Some current) \<and>
    listPastVersions ''a'' ''c'' example_db = Inr past \<and>
    map kv_sequence pending @ kv_sequence current # map kv_sequence past = [2, 1, 0])"
  using version_history_partition [OF example_numbered example_downstream] example_numbered
  by (simp add: example_versions upt_rec)

section \<open>Deploying a version\<close>

lemma downstream_sequence_deploy [simp]:
  "downstream_sequence a c (deployVersion a s now d) = map_option (\<lambda>_. Some s) (downstream_sequence a c d)"
proof -
  have "find (\<lambda>r. ad_app_id r = a \<and> ad_cluster_id r = c) (sql_update (\<lambda>r. ad_app_id r = a)
      (\<lambda>r. r\<lparr>ad_current_sequence := Some s\<rparr>) t) =
    map_option (\<lambda>r. r\<lparr>ad_current_sequence := Some s\<rparr>)
      (find (\<lambda>r. ad_app_id r = a \<and> ad_cluster_id r = c) t)" for t :: "app_downstream_row list"
    by (induction t) (auto simp: sql_update_def)
  then show ?thesis by (simp add: downstream_sequence_def deployVersion_def option.map_comp o_def)
qed

lemma downstream_versions_deploy:
  "downstream_versions a c (deployVersion i s now d) =
     sql_update (\<lambda>r. adv_sequence r = s \<and> adv_app_id r = i)
       (\<lambda>r. r\<lparr>adv_status := Some ''deployed'', adv_applied_at := Some now\<rparr>) (downstream_versions a c d)"
  unfolding deployVersion_def Let_def by (subst downstream_versions_update) simp_all

lemma downstream_versionsD:
  "r \<in> set (downstream_versions a c d) \<Longrightarrow>
     r \<in> set (t_app_downstream_version d) \<and> adv_app_id r = a \<and> adv_cluster_id r = c"
  by (simp add: downstream_versions_def sql_select_def)

lemma distinct_downstream_versions:
  "distinct (map adv_key (t_app_downstream_version d)) \<Longrightarrow>
   distinct (map adv_sequence (downstream_versions a c d))"
  by (auto simp: downstream_versions_def sql_select_def distinct_map inj_on_def distinct_filter)

lemma select_unique_sequence:
  assumes "distinct (map adv_key (t_app_downstream_version d))" "row \<in> set (downstream_versions a c d)"
  shows "sql_select (\<lambda>r. adv_sequence r = adv_sequence row) (downstream_versions a c d) = [row]"
proof -
  note dist = distinct_downstream_versions [OF assms(1), of a c]
  have "row_of adv_sequence (adv_sequence row) (downstream_versions a c d) = Some row"
    using dist assms(2) row_of_Some [of adv_sequence "adv_sequence row"] row_of_None [of adv_sequence "adv_sequence row"]
    by (cases "row_of adv_sequence (adv_sequence row) (downstream_versions a c d)")
      (auto simp: distinct_map inj_on_def)
  then show ?thesis using select_key [OF dist] by simp
qed

lemma join_output_deploy [simp]:
  "join_output (deployVersion i s now d) (r\<lparr>adv_status := x, adv_applied_at := y\<rparr>) = join_output d r"
  by (simp add: join_output_def deployVersion_def Let_def)

lemma order_desc_single [simp]: "order_desc k [x] = [x]"
  by (simp add: order_desc_def)

text \<open>
  C1: deploying a version makes it the current version of every downstream of the application that
  has it, stamped with the time of the call; its status is "deploying" until the operator has
  reported, and then "deployed" or "failed" as the operator said.
\<close>

theorem deployVersion_current:
  assumes keys: "distinct (map adv_key (t_app_downstream_version d))"
    and down: "downstream_sequence appId clusterId d \<noteq> None"
    and row: "row \<in> set (downstream_versions appId clusterId d)"
  shows "\<exists>v. getCurrentVersion appId clusterId (deployVersion appId (adv_sequence row) now d) = Inr (Some v) \<and>
    kv_sequence v = adv_sequence row \<and> kv_title v = adv_version_label row \<and> kv_deployedAt v = Some now \<and>
    kv_status v = (case join_output d row of
       None \<Rightarrow> Some ''deploying''
     | Some out \<Rightarrow> (case ado_is_error out of None \<Rightarrow> Some ''deploying''
                     | Some e \<Rightarrow> Some (if e then ''failed'' else ''deployed'')))"
proof -
  let ?s = "adv_sequence row"
  let ?f = "\<lambda>r. r\<lparr>adv_status := Some ''deployed'', adv_applied_at := Some now\<rparr>"
  let ?d = "deployVersion appId ?s now d"
  have "downstream_versions appId clusterId ?d =
      sql_update (\<lambda>r. adv_sequence r = ?s) ?f (downstream_versions appId clusterId d)"
    by (auto simp: downstream_versions_deploy sql_update_def dest: downstream_versionsD)
  then have "sql_select (\<lambda>r. adv_sequence r = ?s) (downstream_versions appId clusterId ?d) = [?f row]"
    by (simp add: select_update_same select_unique_sequence [OF keys row])
  moreover obtain cur where "downstream_sequence appId clusterId d = Some cur" using down by auto
  ultimately show ?thesis
    by (auto simp: getCurrentVersion_def version_item_def shown_status_def downstreamVersionStatus_def
        split: option.splits)
qed

theorem deployVersion_current_witness:
  "\<exists>v. getCurrentVersion ''a'' ''c'' (deployVersion ''a'' 2 500 example_db) = Inr (Some v) \<and>
     kv_sequence v = 2 \<and> kv_deployedAt v = Some 500 \<and> kv_status v = Some ''deploying''"
proof -
  let ?row = "downstream_row ''a'' ''c'' 2 102 example_args"
  have "?row \<in> set (downstream_versions ''a'' ''c'' example_db)" by (simp add: example_versions)
  moreover have "join_output example_db ?row = None"
    by (simp add: join_output_def example_db_def empty_db_def)
  ultimately show ?thesis
    using deployVersion_current [OF example_keys, of "''a''" "''c''" ?row 500] example_downstream by auto
qed

text \<open>
  the version deployed before the current one is the one the operator is given to undo: after
  deploying s1 and then s2, later than everything deployed before, it is s1.
\<close>

theorem previously_deployed_after_two:
  assumes keys: "distinct (map adv_key (t_app_downstream_version d))"
    and r1: "r1 \<in> set (downstream_versions appId clusterId d)"
    and r2: "r2 \<in> set (downstream_versions appId clusterId d)"
    and neq: "adv_sequence r1 \<noteq> adv_sequence r2" and t: "t1 < t2"
    and old: "\<forall>r \<in> set (downstream_versions appId clusterId d). \<forall>u. adv_applied_at r = Some u \<longrightarrow> u < t1"
  shows "getPreviouslyDeployedSequence appId clusterId s
      (deployVersion appId (adv_sequence r2) t2 (deployVersion appId (adv_sequence r1) t1 d)) =
    Some (adv_sequence r1)"
proof -
  let ?vs = "downstream_versions appId clusterId d"
  let ?f = "\<lambda>t r. r\<lparr>adv_status := Some ''deployed'', adv_applied_at := Some t\<rparr>"
  let ?us = "sql_update (\<lambda>r. adv_sequence r = adv_sequence r2 \<and> adv_app_id r = appId) (?f t2)
    (sql_update (\<lambda>r. adv_sequence r = adv_sequence r1 \<and> adv_app_id r = appId) (?f t1) ?vs)"
  let ?ws = "sql_select (\<lambda>r. adv_applied_at r \<noteq> None) ?us"
  have app: "adv_app_id r1 = appId" "adv_app_id r2 = appId"
    using downstream_versionsD [OF r1] downstream_versionsD [OF r2] by auto
  have dseq: "distinct (map adv_sequence ?vs)" by (rule distinct_downstream_versions [OF keys])
  then have "distinct (map adv_sequence ?us)" by (simp add: map_sql_update)
  then have dist: "distinct ?ws" by (simp add: sql_select_def distinct_map)
  let ?p = "\<lambda>s r. adv_sequence r = s \<and> adv_app_id r = appId"
  have "?f t1 r1 \<in> set (sql_update (?p (adv_sequence r1)) (?f t1) ?vs)"
    "r2 \<in> set (sql_update (?p (adv_sequence r1)) (?f t1) ?vs)"
    using sql_updateI [OF r1, of "?p (adv_sequence r1)" "?f t1"]
      sql_updateI [OF r2, of "?p (adv_sequence r1)" "?f t1"] app neq by simp_all
  from this [THEN sql_updateI, of "?p (adv_sequence r2)" "?f t2"] have "?f t1 r1 \<in> set ?us" "?f t2 r2 \<in> set ?us"
    using app neq by simp_all
  then have "?f t1 r1 \<in> set ?ws" "?f t2 r2 \<in> set ?ws"
    by (simp_all add: sql_simps)
  moreover have "the (adv_applied_at z) < t1" if "z \<in> set ?ws" "z \<noteq> ?f t2 r2" "z \<noteq> ?f t1 r1" for z
  proof -
    have "z \<in> set ?us" and ap: "adv_applied_at z \<noteq> None"
      using that(1) by (simp_all add: sql_select_def)
    then obtain r where r: "r \<in> set ?vs"
      and z: "z = (\<lambda>r. if ?p (adv_sequence r2) r then ?f t2 r else r)
        (if ?p (adv_sequence r1) r then ?f t1 r else r)"
      unfolding sql_update_def set_map by blast
    have "adv_sequence r \<noteq> adv_sequence r2"
      using dseq r r2 that(2) z neq app by (auto simp: distinct_map inj_on_def)
    moreover have "adv_sequence r \<noteq> adv_sequence r1"
      using dseq r r1 that(3) z neq app by (auto simp: distinct_map inj_on_def)
    ultimately have "z = r" using z by simp
    then show ?thesis using ap old r by auto
  qed
  ultimately have "take 2 (order_desc (\<lambda>r. the (adv_applied_at r)) ?ws) = [?f t2 r2, ?f t1 r1]"
    using dist t by (intro order_desc_top_two) auto
  then show ?thesis
    by (simp add: getPreviouslyDeployedSequence_def downstream_versions_deploy)
qed

theorem previously_deployed_after_two_witness:
  "getPreviouslyDeployedSequence ''a'' ''c'' 2
     (deployVersion ''a'' 2 700 (deployVersion ''a'' 1 600 example_db)) = Some 1"
proof -
  let ?r = "\<lambda>s. downstream_row ''a'' ''c'' s (100 + s) example_args"
  have "?r 1 \<in> set (downstream_versions ''a'' ''c'' example_db)"
    "?r 2 \<in> set (downstream_versions ''a'' ''c'' example_db)"
    by (simp_all add: example_versions)
  then show ?thesis
    using previously_deployed_after_two [OF example_keys, of "?r 1" "''a''" "''c''" "?r 2" 600 700 2]
    by (simp add: example_versions)
qed

section \<open>Operator reports\<close>

lemma output_row_simps [simp]:
  "ado_key (output_row a c s e out) = (a, c, s)"
  "ado_is_error (output_row a c s e out) = e"
  "ado_merge (output_row a c s e out) (output_row a c s e' out') = output_row a c s e' out'"
  by (simp_all add: output_row_def ado_merge_def)

fun report_all :: "string \<Rightarrow> string \<Rightarrow> int \<Rightarrow> (bool option \<times> deploy_output) list \<Rightarrow> db \<Rightarrow> db" where
  "report_all a c s [] d = d"
| "report_all a c s ((e, out) # rs) d = report_all a c s rs (updateDownstreamDeployStatus a c s e out d)"

lemma outputs_of_report:
  assumes "outputs_of a c s d = [] \<or> (\<exists>out'. outputs_of a c s d = [output_row a c s (Some True) out'])"
  shows "outputs_of a c s (updateDownstreamDeployStatus a c s e out d) = [output_row a c s e out]"
  using assms ado.select_upsert [of "output_row a c s e out" "t_app_downstream_output d"]
  by (auto simp: updateDownstreamDeployStatus_def outputs_of_def Let_def simp del: prod.inject)

lemma report_final:
  "outputs_of a c s d = [output_row a c s e out] \<Longrightarrow> e \<noteq> Some True \<Longrightarrow> report_all a c s rs d = d"
  by (induction rs) (auto simp: updateDownstreamDeployStatus_def Let_def)

definition settled_report :: "(bool option \<times> deploy_output) list \<Rightarrow> bool option \<times> deploy_output" where
  "settled_report rs = (case find (\<lambda>(e, _). e \<noteq> Some True) rs of Some r \<Rightarrow> r | None \<Rightarrow> last rs)"

lemma report_all_settled:
  "rs \<noteq> [] \<Longrightarrow> outputs_of a c s d = [] \<or> (\<exists>out'. outputs_of a c s d = [output_row a c s (Some True) out']) \<Longrightarrow>
   outputs_of a c s (report_all a c s rs d) =
     [output_row a c s (fst (settled_report rs)) (snd (settled_report rs))]"
proof (induction rs arbitrary: d)
  case Nil
  then show ?case by simp
next
  case (Cons r rs)
  obtain e out where r: "r = (e, out)" by (cases r)
  let ?d = "updateDownstreamDeployStatus a c s e out d"
  have out: "outputs_of a c s ?d = [output_row a c s e out]"
    using Cons.prems(2) by (rule outputs_of_report)
  show ?case
  proof (cases "e = Some True \<and> rs \<noteq> []")
    case True
    then have "settled_report (r # rs) = settled_report rs"
      by (simp add: settled_report_def r split: option.splits)
    moreover have "outputs_of a c s (report_all a c s rs ?d) =
        [output_row a c s (fst (settled_report rs)) (snd (settled_report rs))]"
      using True out Cons.IH [of ?d] by blast
    ultimately show ?thesis using r by simp
  next
    case False
    then show ?thesis
      using out r report_final [OF out] by (auto simp: settled_report_def)
  qed
qed

text \<open>
  C2: however many results the operator reports for a deployed version, the one that is kept is the
  first success, or the last failure if none succeeded: a success is never overwritten.
\<close>

theorem deploy_reports_settle:
  assumes "rs \<noteq> []" and "outputs_of appId clusterId s d = []"
  shows "outputs_of appId clusterId s (report_all appId clusterId s rs d) =
    [output_row appId clusterId s (fst (settled_report rs)) (snd (settled_report rs))]"
  using report_all_settled [OF assms(1)] assms(2) by blast

theorem deploy_reports_settle_witness:
  "let out = \<lparr>do_dryRun_stdout = None, do_dryRun_stderr = None, do_apply_stdout = None,
       do_apply_stderr = None\<rparr>;
       rs = [(Some True, out), (Some False, out), (Some True, out)] in
   outputs_of ''a'' ''c'' 1 (report_all ''a'' ''c'' 1 rs example_db) =
     [output_row ''a'' ''c'' 1 (Some False) out]"
  using deploy_reports_settle [of "[(Some True, out), (Some False, out), (Some True, out)]" "''a''" "''c''" 1
      example_db for out]
  by (simp add: Let_def settled_report_def outputs_of_def example_db_def empty_db_def sql_select_def)

end
