(* ===== verification/UniqueSlug.thy ===== *)
theory UniqueSlug
  imports Prelude
begin

text \<open>
  The loop that makes a slug unique, which \<^verbatim>\<open>createKotsApp\<close> (\<^verbatim>\<open>kots_app_store.ts\<close>),
  \<^verbatim>\<open>createNewShipCluster\<close> and \<^verbatim>\<open>createNewCluster\<close> (\<^verbatim>\<open>cluster_store.ts\<close>) each write out: the slug
  of the title, then the slug with "-1", "-2", \dots until no row has it.  The table is the list
  of the slugs in use.  The loop stops because a candidate is never tried twice.
\<close>

definition slug_candidate :: "string \<Rightarrow> nat \<Rightarrow> string" where
  "slug_candidate base i = (if i > 0 then base @ ''-'' @ show_nat i else base)"

lemma slug_candidate_inj [simp]: "slug_candidate base i = slug_candidate base j \<longleftrightarrow> i = j"
  by (simp add: slug_candidate_def)

lemma finite_candidates: "finite {k. slug_candidate base k \<in> set taken \<and> i \<le> k}"
proof -
  have "inj (slug_candidate base)" by (simp add: inj_on_def)
  then have "finite (slug_candidate base -` set taken)" by (intro finite_vimageI) auto
  then show ?thesis by (rule rev_finite_subset) auto
qed

function unique_slug :: "string \<Rightarrow> string list \<Rightarrow> nat \<Rightarrow> string" where
  "unique_slug base taken i =
     (if slug_candidate base i \<in> set taken then unique_slug base taken (Suc i)
      else slug_candidate base i)"
  by pat_completeness auto
termination
proof (relation "measure (\<lambda>(base, taken, i). card {k. slug_candidate base k \<in> set taken \<and> i \<le> k})")
  show "wf (measure (\<lambda>(base, taken, i). card {k. slug_candidate base k \<in> set taken \<and> i \<le> k}))"
    by simp
next
  fix base :: string and taken :: "string list" and i :: nat
  assume "slug_candidate base i \<in> set taken"
  then have "i \<in> {k. slug_candidate base k \<in> set taken \<and> i \<le> k}"
    "i \<notin> {k. slug_candidate base k \<in> set taken \<and> Suc i \<le> k}" by simp_all
  then have "{k. slug_candidate base k \<in> set taken \<and> Suc i \<le> k} \<subset> {k. slug_candidate base k \<in> set taken \<and> i \<le> k}"
    by (intro psubsetI) (blast dest: Suc_leD, blast)
  then have "card {k. slug_candidate base k \<in> set taken \<and> Suc i \<le> k}
      < card {k. slug_candidate base k \<in> set taken \<and> i \<le> k}"
    by (rule psubset_card_mono [OF finite_candidates])
  then show "((base, taken, Suc i), base, taken, i) \<in>
      measure (\<lambda>(base, taken, i). card {k. slug_candidate base k \<in> set taken \<and> i \<le> k})"
    by simp
qed

declare unique_slug.simps [simp del]

lemma unique_slug_first:
  "\<exists>k\<ge>i. unique_slug base taken i = slug_candidate base k \<and> slug_candidate base k \<notin> set taken \<and>
     (\<forall>j. i \<le> j \<and> j < k \<longrightarrow> slug_candidate base j \<in> set taken)"
proof (induction base taken i rule: unique_slug.induct)
  case (1 base taken i)
  show ?case
  proof (cases "slug_candidate base i \<in> set taken")
    case True
    with 1 obtain k where k: "Suc i \<le> k" "unique_slug base taken (Suc i) = slug_candidate base k"
      "slug_candidate base k \<notin> set taken" "\<forall>j. Suc i \<le> j \<and> j < k \<longrightarrow> slug_candidate base j \<in> set taken"
      by blast
    have "\<forall>j. i \<le> j \<and> j < k \<longrightarrow> slug_candidate base j \<in> set taken"
      using True k(4) le_eq_less_or_eq by (metis Suc_leI)
    with True k show ?thesis
      by (intro exI [of _ k]) (simp add: unique_slug.simps [of base taken i])
  next
    case False
    then show ?thesis by (intro exI [of _ i]) (auto simp: unique_slug.simps [of base taken i])
  qed
qed

lemma unique_slug_fresh: "unique_slug base taken i \<notin> set taken"
  using unique_slug_first [of i base taken] by auto

lemma unique_slug_free: "base \<notin> set taken \<Longrightarrow> unique_slug base taken 0 = base"
  by (simp add: unique_slug.simps [of base taken 0] slug_candidate_def)

text \<open>At most as many suffixes are tried as slugs are in use.\<close>

lemma unique_slug_bound:
  "\<exists>k \<le> length taken. unique_slug base taken 0 = slug_candidate base k"
proof -
  obtain k where k: "unique_slug base taken 0 = slug_candidate base k"
    and "\<forall>j. j < k \<longrightarrow> slug_candidate base j \<in> set taken"
    using unique_slug_first [of 0 base taken] by auto
  then have "slug_candidate base ` {..<k} \<subseteq> set taken" by auto
  then have "card (slug_candidate base ` {..<k}) \<le> length taken"
    by (meson card_length card_mono finite_set order_trans)
  moreover have "card (slug_candidate base ` {..<k}) = k"
    by (subst card_image) (auto simp: inj_on_def)
  ultimately show ?thesis using k by auto
qed

text \<open>
  What a table that takes its slugs from the loop relies on: creating a row adds exactly its slug.
  Then the slugs of the table stay distinct, whatever titles the rows are created with.
\<close>

locale slugged_table =
  fixes slugs :: "'t \<Rightarrow> string list"
    and create :: "'arg \<Rightarrow> string \<Rightarrow> 't \<Rightarrow> 't"
  assumes slugs_create: "slugs (create x s t) = slugs t @ [s]"
begin

lemma create_distinct:
  "distinct (slugs t) \<Longrightarrow> distinct (slugs (create x (unique_slug base (slugs t) 0) t))"
  using unique_slug_fresh [of base "slugs t" 0] by (simp add: slugs_create)

fun create_all :: "('arg \<times> string) list \<Rightarrow> 't \<Rightarrow> 't" where
  "create_all [] t = t"
| "create_all ((x, base) # xs) t = create_all xs (create x (unique_slug base (slugs t) 0) t)"

lemma create_all_distinct: "distinct (slugs t) \<Longrightarrow> distinct (slugs (create_all xs t))"
proof (induction xs arbitrary: t)
  case Nil
  then show ?case by simp
next
  case (Cons p xs)
  then show ?case using create_distinct by (cases p) simp
qed

lemma length_create_all: "length (slugs (create_all xs t)) = length (slugs t) + length xs"
  by (induction xs arbitrary: t) (auto simp: slugs_create)

end

end
