(* ===== verification/AppStore.thy ===== *)
theory AppStore
  imports VersionStore UniqueSlug
begin

text \<open>
  The applications themselves in \<^verbatim>\<open>api/src/kots_app/kots_app_store.ts\<close>: creating one with its
  unique slug, reading it, its install state, its snapshot and restore columns, and deleting it
  with its versions.  \<open>slugify\<close> is the package of that name and a parameter; the random id and
  the time of a call are arguments.
\<close>

section \<open>Reading an application\<close>

record KotsApp =
  ka_id :: string
  ka_name :: string
  ka_license :: "string option"
  ka_isAirgap :: bool
  ka_upstreamUri :: string
  ka_iconUri :: "string option"
  ka_createdAt :: time
  ka_updatedAt :: "time option"
  ka_slug :: string
  ka_currentSequence :: "int option"
  ka_lastUpdateCheckAt :: "time option"
  ka_bundleCommand :: string
  ka_hasPreflight :: bool
  ka_isConfigurable :: bool
  ka_snapshotTTL :: string
  ka_snapshotSchedule :: "string option"
  ka_restoreInProgressName :: "string option"
  ka_restoreUndeployStatus :: "string option"

definition newline :: string where
  "newline = [CHR 0x0A]"

definition getSupportBundleCommand :: "string \<Rightarrow> string" where
  "getSupportBundleCommand watchSlug =
     newline @ ''      curl https://krew.sh/support-bundle | bash'' @
     newline @ ''      kubectl support-bundle API_ADDRESS/api/v1/troubleshoot/'' @ watchSlug @
     newline @ ''    ''"

definition app_of :: "string \<Rightarrow> db \<Rightarrow> app_row option" where
  "app_of i d = row_of app_id i (t_app d)"

definition getApp :: "string \<Rightarrow> db \<Rightarrow> KotsApp result" where
  "getApp i d =
     (case app_of i d of
        None \<Rightarrow> Inl (ReplicatedError ''not found'')
      | Some row \<Rightarrow>
          (let rr0 = (case app_current_sequence row of
                        None \<Rightarrow> None | Some s \<Rightarrow> app_version_at i s d)
           in Inr
            \<lparr>ka_id = app_id row, ka_name = app_name row, ka_license = app_license row,
             ka_isAirgap = app_is_airgap row, ka_upstreamUri = app_upstream_uri row,
             ka_iconUri = app_icon_uri row, ka_createdAt = app_created_at row,
             ka_updatedAt = app_updated_at row, ka_slug = app_slug row,
             ka_currentSequence = app_current_sequence row,
             ka_lastUpdateCheckAt = app_last_update_check_at row,
             ka_bundleCommand = getSupportBundleCommand (app_slug row),
             ka_hasPreflight =
               (case rr0 of None \<Rightarrow> False | Some v \<Rightarrow> truthy_str (av_preflight_spec v)),
             ka_isConfigurable =
               (case rr0 of None \<Rightarrow> False | Some v \<Rightarrow> truthy_str (av_config_spec v)),
             ka_snapshotTTL = app_snapshot_ttl_new row,
             ka_snapshotSchedule = app_snapshot_schedule row,
             ka_restoreInProgressName = app_restore_in_progress_name row,
             ka_restoreUndeployStatus = app_restore_undeploy_status row\<rparr>))"

definition listAppsForCluster :: "string \<Rightarrow> db \<Rightarrow> KotsApp list result" where
  "listAppsForCluster clusterId d =
     mapR (\<lambda>r. getApp (ad_app_id r) d) (sql_select (\<lambda>r. ad_cluster_id r = clusterId) (t_app_downstream d))"

definition listApps :: "db \<Rightarrow> KotsApp list result" where
  "listApps d = mapR (\<lambda>r. getApp (app_id r) d) (t_app d)"

definition listAppSlugs :: "db \<Rightarrow> string list" where
  "listAppSlugs d = map app_slug (t_app d)"

text \<open>The applications of a user, then those of all users, installed ones only.\<close>

definition listInstalledKotsApps :: "string option \<Rightarrow> db \<Rightarrow> KotsApp list result" where
  "listInstalledKotsApps userId d =
     bindR (mapR (\<lambda>i. getApp i d)
        (concat (map (\<lambda>a. map (\<lambda>u. app_id a)
            (filter (\<lambda>u. ua_app_id u = app_id a \<and> Some (ua_user_id u) = userId \<and>
               app_install_state a = Some ''installed'') (t_user_app d))) (t_app d))))
      (\<lambda>apps. bindR (mapR (\<lambda>a. getApp (app_id a) d)
          (sql_select (\<lambda>a. app_is_all_users a = Some True \<and> app_install_state a = Some ''installed'')
             (t_app d)))
        (\<lambda>apps2. Inr (apps @ apps2)))"

definition pending_airgap_states :: "string list" where
  "pending_airgap_states = [''airgap_upload_pending'', ''airgap_upload_in_progress'', ''airgap_upload_error'']"

definition getPendingKotsAirgapApp :: "db \<Rightarrow> KotsApp result" where
  "getPendingKotsAirgapApp d =
     (case sql_select (\<lambda>a. case app_install_state a of None \<Rightarrow> False
                                | Some st \<Rightarrow> st \<in> set pending_airgap_states) (t_app d) of
        [] \<Rightarrow> Inl (ReplicatedError ''No pending airgap apps found'')
      | [a] \<Rightarrow> getApp (app_id a) d
      | _ \<Rightarrow> Inl (ReplicatedError ''Airgap install is not allowed''))"

definition getIdFromSlug :: "string \<Rightarrow> db \<Rightarrow> string result" where
  "getIdFromSlug slug d =
     (case sql_select (\<lambda>a. app_slug a = slug) (t_app d) of
        [] \<Rightarrow> Inl (ReplicatedError (''Unable to find appId for slug '' @ slug))
      | a # _ \<Rightarrow> Inr (app_id a))"

section \<open>License facts of a version\<close>

text \<open>A value that fails to parse, or has no \<^verbatim>\<open>spec\<close>, is caught: the type is then "".\<close>

definition getKotsAppLicenseType ::
  "(string \<Rightarrow> jsval result) \<Rightarrow> string \<Rightarrow> int \<Rightarrow> db \<Rightarrow> jsval result" where
  "getKotsAppLicenseType safeLoad appId s d =
     (case app_version_at appId s d of
        None \<Rightarrow> Inl (ReplicatedError ''License type not found'')
      | Some r \<Rightarrow>
          if \<not> truthy_str (av_kots_license r) then Inr (JStr [])
          else (case bindR (safeLoad (str_or_empty (av_kots_license r)))
                  (\<lambda>v. bindR (js_get v ''spec'') (\<lambda>sp. js_get sp ''licenseType'')) of
                  Inl _ \<Rightarrow> Inr (JStr []) | Inr v \<Rightarrow> Inr v))"

definition isGitOpsSupported ::
  "(string \<Rightarrow> jsval result) \<Rightarrow> bool \<Rightarrow> string \<Rightarrow> int \<Rightarrow> db \<Rightarrow> bool result" where
  "isGitOpsSupported safeLoad secretExists appId s d =
     (if secretExists then Inr True
      else case app_version_at appId s d of
        None \<Rightarrow> Inl (ReplicatedError ''No app versions found'')
      | Some r \<Rightarrow>
          if \<not> truthy_str (av_kots_license r) then Inr True
          else (case bindR (safeLoad (str_or_empty (av_kots_license r)))
                  (\<lambda>v. bindR (js_get v ''spec'') (\<lambda>sp. js_get sp ''isGitOpsSupported'')) of
                  Inl _ \<Rightarrow> Inr False | Inr v \<Rightarrow> Inr (truthy v)))"

section \<open>Creating an application\<close>

definition dots_to_dashes :: "string \<Rightarrow> string" where
  "dots_to_dashes s = map (\<lambda>c. if c = CHR ''.'' then CHR ''-'' else c) s"

definition initial_install_state :: "string \<Rightarrow> bool \<Rightarrow> string" where
  "initial_install_state upstreamURI airgapEnabled =
     (if \<not> starts_with ''replicated://'' (toLowerCase upstreamURI) then ''installed''
      else if airgapEnabled then ''airgap_upload_pending'' else ''online_upload_pending'')"

definition new_app_row ::
  "string \<Rightarrow> string \<Rightarrow> time \<Rightarrow> string \<Rightarrow> string \<Rightarrow> string \<Rightarrow> bool \<Rightarrow> string option \<Rightarrow> app_row" where
  "new_app_row i name now slug upstreamURI license airgapEnabled userId =
     \<lparr>app_id = i, app_name = name, app_icon_uri = Some [], app_created_at = now,
      app_updated_at = None, app_slug = slug, app_upstream_uri = upstreamURI,
      app_license = Some license, app_current_sequence = None, app_last_update_check_at = None,
      app_is_all_users = Some (\<not> truthy_str userId), app_registry_hostname = None,
      app_registry_username = None, app_registry_password = None,
      app_registry_password_enc = None, app_namespace = None, app_last_registry_sync = None,
      app_install_state = Some (initial_install_state upstreamURI airgapEnabled),
      app_is_airgap = False, app_snapshot_ttl_new = ''720h'', app_snapshot_schedule = None,
      app_restore_in_progress_name = None, app_restore_undeploy_status = None\<rparr>"

definition insert_app :: "app_row \<Rightarrow> (db, unit) eff" where
  "insert_app r d =
     (case sql_insert app_id r (t_app d) of
        Inl e \<Rightarrow> (Inl e, d) | Inr t \<Rightarrow> (Inr (), d\<lparr>t_app := t\<rparr>))"

definition insert_user_app :: "string \<Rightarrow> string \<Rightarrow> (db, unit) eff" where
  "insert_user_app userId i d =
     (case sql_insert ua_key \<lparr>ua_user_id = userId, ua_app_id = i\<rparr> (t_user_app d) of
        Inl e \<Rightarrow> (Inl e, d) | Inr t \<Rightarrow> (Inr (), d\<lparr>t_user_app := t\<rparr>))"

definition app_slug_for :: "(string \<Rightarrow> string) \<Rightarrow> string \<Rightarrow> db \<Rightarrow> string" where
  "app_slug_for slugify name d = unique_slug (slugify (dots_to_dashes name)) (map app_slug (t_app d)) 0"

definition createKotsApp ::
  "(string \<Rightarrow> string) \<Rightarrow> string \<Rightarrow> time \<Rightarrow> string \<Rightarrow> string \<Rightarrow> string \<Rightarrow> bool \<Rightarrow> string option \<Rightarrow>
   (db, KotsApp) eff" where
  "createKotsApp slugify i now name upstreamURI license airgapEnabled userId =
     (if name = [] then throwE (JsError ''missing name'')
      else bindE (queryE (\<lambda>d. Inr (app_slug_for slugify name d))) (\<lambda>slugProposal.
        thenE (transaction
          (thenE (insert_app (new_app_row i name now slugProposal upstreamURI license airgapEnabled userId))
             (case userId of
                None \<Rightarrow> retE ()
              | Some u \<Rightarrow> if u = [] then retE () else insert_user_app u i)))
          (queryE (getApp i))))"

section \<open>Updates of one application\<close>

definition update_app :: "string \<Rightarrow> (app_row \<Rightarrow> app_row) \<Rightarrow> db \<Rightarrow> db" where
  "update_app i f d = d\<lparr>t_app := sql_update (\<lambda>r. app_id r = i) f (t_app d)\<rparr>"

definition updateFailedInstallState :: "string \<Rightarrow> (db, bool) eff" where
  "updateFailedInstallState appSlug d =
     (let p = (\<lambda>r. app_slug r = appSlug);
          d' = d\<lparr>t_app := sql_update p (\<lambda>r. r\<lparr>app_install_state := Some ''failed''\<rparr>) (t_app d)\<rparr>
      in if sql_select p (t_app d) = []
         then (Inl (ReplicatedError (''No app with the slug of '' @ appSlug @ '' was found'')), d')
         else (Inr True, d'))"

definition setKotsAppInstallState :: "string \<Rightarrow> string \<Rightarrow> db \<Rightarrow> db" where
  "setKotsAppInstallState appId st = update_app appId (\<lambda>r. r\<lparr>app_install_state := Some st\<rparr>)"

definition setKotsAirgapAppInstalled :: "string \<Rightarrow> db \<Rightarrow> db" where
  "setKotsAirgapAppInstalled appId =
     update_app appId (\<lambda>r. r\<lparr>app_install_state := Some ''installed'', app_is_airgap := True\<rparr>)"

definition updateKotsAppLicense :: "string \<Rightarrow> string \<Rightarrow> db \<Rightarrow> db" where
  "updateKotsAppLicense appId license = update_app appId (\<lambda>r. r\<lparr>app_license := Some license\<rparr>)"

definition updateApp :: "string \<Rightarrow> string option \<Rightarrow> string option \<Rightarrow> db \<Rightarrow> db" where
  "updateApp i appName iconUri d =
     (let d1 = (if truthy_str appName then update_app i (\<lambda>r. r\<lparr>app_name := str_or_empty appName\<rparr>) d else d)
      in if truthy_str iconUri then update_app i (\<lambda>r. r\<lparr>app_icon_uri := iconUri\<rparr>) d1 else d1)"

definition updateAppSnapshotTTL :: "string \<Rightarrow> string \<Rightarrow> db \<Rightarrow> db" where
  "updateAppSnapshotTTL appId ttl = update_app appId (\<lambda>r. r\<lparr>app_snapshot_ttl_new := ttl\<rparr>)"

definition updateAppSnapshotSchedule :: "string \<Rightarrow> string option \<Rightarrow> db \<Rightarrow> db" where
  "updateAppSnapshotSchedule appId sched = update_app appId (\<lambda>r. r\<lparr>app_snapshot_schedule := sched\<rparr>)"

definition updateAppRestoreInProgressName :: "string \<Rightarrow> string \<Rightarrow> db \<Rightarrow> db" where
  "updateAppRestoreInProgressName appId n =
     update_app appId (\<lambda>r. r\<lparr>app_restore_in_progress_name := Some n\<rparr>)"

definition updateAppRestoreUndeployStatus :: "string \<Rightarrow> string \<Rightarrow> db \<Rightarrow> db" where
  "updateAppRestoreUndeployStatus appId st =
     update_app appId (\<lambda>r. r\<lparr>app_restore_undeploy_status := Some st\<rparr>)"

definition updateAppRestoreReset :: "string \<Rightarrow> db \<Rightarrow> db" where
  "updateAppRestoreReset appId =
     update_app appId (\<lambda>r. r\<lparr>app_restore_in_progress_name := None, app_restore_undeploy_status := Some []\<rparr>)"

section \<open>Deleting an application\<close>

definition deleteApp :: "string \<Rightarrow> (db, bool) eff" where
  "deleteApp appId =
     transaction (thenE (execE (\<lambda>d. d\<lparr>t_user_app := sql_delete (\<lambda>r. ua_app_id r = appId) (t_user_app d)\<rparr>))
     (thenE (execE (\<lambda>d. d\<lparr>t_app_version := sql_delete (\<lambda>r. av_app_id r = appId) (t_app_version d)\<rparr>))
     (thenE (execE (\<lambda>d. d\<lparr>t_app_downstream := sql_delete (\<lambda>r. ad_app_id r = appId) (t_app_downstream d)\<rparr>))
     (thenE (execE (\<lambda>d. d\<lparr>t_app_downstream_version :=
         sql_delete (\<lambda>r. adv_app_id r = appId) (t_app_downstream_version d)\<rparr>))
     (thenE (execE (\<lambda>d. d\<lparr>t_app := sql_delete (\<lambda>r. app_id r = appId) (t_app d)\<rparr>))
       (retE True))))))"

section \<open>Lemmas\<close>

definition store_new_app ::
  "string \<times> string \<times> time \<times> string \<times> string \<times> bool \<times> string option \<Rightarrow> string \<Rightarrow> db \<Rightarrow> db" where
  "store_new_app = (\<lambda>(i, name, now, uri, license, airgap, userId) slug d.
     d\<lparr>t_app := t_app d @ [new_app_row i name now slug uri license airgap userId]\<rparr>)"

interpretation app_slugs: slugged_table "\<lambda>d. map app_slug (t_app d)" store_new_app
  by unfold_locales (auto simp: store_new_app_def new_app_row_def split: prod.splits)

lemma new_app_row_simps [simp]:
  "app_id (new_app_row i name now slug uri lic airgap u) = i"
  "app_slug (new_app_row i name now slug uri lic airgap u) = slug"
  "app_name (new_app_row i name now slug uri lic airgap u) = name"
  "app_current_sequence (new_app_row i name now slug uri lic airgap u) = None"
  "app_restore_in_progress_name (new_app_row i name now slug uri lic airgap u) = None"
  "app_install_state (new_app_row i name now slug uri lic airgap u) = Some (initial_install_state uri airgap)"
  by (simp_all add: new_app_row_def)

lemma app_of_update [simp]:
  assumes "\<And>r. app_id (f r) = app_id r"
  shows "app_of j (update_app i f d) = (if j = i then map_option f (app_of j d) else app_of j d)"
proof -
  have "app_of j (update_app i f d) = map_option (\<lambda>r. if app_id r = i then f r else r) (app_of j d)"
    using assms by (simp add: app_of_def update_app_def row_of_update)
  moreover have "\<And>r. app_of j d = Some r \<Longrightarrow> app_id r = j"
    by (auto simp: app_of_def dest: row_of_Some)
  ultimately show ?thesis by (cases "app_of j d") auto
qed

lemma update_app_tables [simp]:
  "t_app_version (update_app i f d) = t_app_version d"
  "t_app_downstream (update_app i f d) = t_app_downstream d"
  "t_app_downstream_version (update_app i f d) = t_app_downstream_version d"
  "t_app_downstream_output (update_app i f d) = t_app_downstream_output d"
  by (simp_all add: update_app_def)

lemma downstream_versions_update_app [simp]:
  "downstream_versions a c (update_app i f d) = downstream_versions a c d"
  "numbered a c (update_app i f d) = numbered a c d"
  by (simp_all add: update_app_def)

lemma row_of_append [simp]:
  "row_of key k (t @ [r]) =
     (case row_of key k t of Some x \<Rightarrow> Some x | None \<Rightarrow> if key r = k then Some r else None)"
  by (induction t) (auto simp: row_of_def)

lemma app_of_frame [simp]:
  "app_of i (d\<lparr>t_user_app := x1\<rparr>) = app_of i d"
  "app_of i (d\<lparr>t_app_downstream := x2\<rparr>) = app_of i d"
  "app_of i (d\<lparr>t_app_downstream_version := x3\<rparr>) = app_of i d"
  "app_of i (d\<lparr>t_app_downstream_output := x4\<rparr>) = app_of i d"
  "app_of i (d\<lparr>t_api_task_status := x5\<rparr>) = app_of i d"
  "app_of i (d\<lparr>t_app_status := x6\<rparr>) = app_of i d"
  "app_of i (d\<lparr>t_app_version := x7\<rparr>) = app_of i d"
  by (simp_all add: app_of_def)

lemma app_of_deployVersion [simp]: "app_of i (deployVersion a s now d) = app_of i d"
  by (simp add: deployVersion_def Let_def)

lemma getApp_cong:
  "app_of i d' = app_of i d \<Longrightarrow> t_app_version d' = t_app_version d \<Longrightarrow> getApp i d' = getApp i d"
  by (simp add: getApp_def app_version_at_def cong: option.case_cong)

section \<open>Creation\<close>

text \<open>The two rows a successful call inserts.\<close>

definition created ::
  "(string \<Rightarrow> string) \<Rightarrow> string \<Rightarrow> time \<Rightarrow> string \<Rightarrow> string \<Rightarrow> string \<Rightarrow> bool \<Rightarrow> string option \<Rightarrow> db \<Rightarrow> db" where
  "created slugify i now name uri lic airgap userId d =
     (let d1 = store_new_app (i, name, now, uri, lic, airgap, userId) (app_slug_for slugify name d) d
      in if truthy_str userId
         then d1\<lparr>t_user_app := t_user_app d @ [\<lparr>ua_user_id = str_or_empty userId, ua_app_id = i\<rparr>]\<rparr>
         else d1)"

lemma created_tables [simp]:
  "t_app (created slugify i now name uri lic airgap userId d) =
     t_app d @ [new_app_row i name now (app_slug_for slugify name d) uri lic airgap userId]"
  "t_app_version (created slugify i now name uri lic airgap userId d) = t_app_version d"
  by (simp_all add: created_def store_new_app_def Let_def)

lemma createKotsApp_cases:
  "createKotsApp slugify i now name uri lic airgap userId d =
     (if name = [] then (Inl (JsError ''missing name''), d)
      else if app_of i d \<noteq> None \<or>
          (truthy_str userId \<and> (str_or_empty userId, i) \<in> ua_key ` set (t_user_app d))
        then (Inl UniqueViolation, d)
      else (getApp i (created slugify i now name uri lic airgap userId d),
            created slugify i now name uri lic airgap userId d))"
  by (auto simp: createKotsApp_def created_def store_new_app_def transaction_def insert_app_def
      insert_user_app_def sql_insert_def app_of_def row_of_None Let_def eff_simps
      split: option.splits)

lemma app_slug_for_fresh: "app_slug_for slugify name d \<notin> app_slug ` set (t_app d)"
  using unique_slug_fresh [of "slugify (dots_to_dashes name)" "map app_slug (t_app d)" 0]
  by (simp add: app_slug_for_def)

lemma getApp_created:
  "app_of i d = None \<Longrightarrow>
   \<exists>app. getApp i (created slugify i now name uri lic airgap userId d) = Inr app \<and> ka_id app = i \<and>
     ka_slug app = app_slug_for slugify name d \<and> ka_name app = name \<and> ka_currentSequence app = None"
  by (simp add: getApp_def app_of_def)

lemma getApp_created_other:
  "j \<noteq> i \<Longrightarrow> getApp j (created slugify i now name uri lic airgap userId d) = getApp j d"
  by (rule getApp_cong) (auto simp: app_of_def split: option.splits)

lemma getIdFromSlug_created:
  "getIdFromSlug (app_slug_for slugify name d) (created slugify i now name uri lic airgap userId d) = Inr i"
proof -
  have "sql_select (\<lambda>a. app_slug a = app_slug_for slugify name d) (t_app d) = []"
    using app_slug_for_fresh [of slugify name d] by (auto simp: sql_select_def filter_empty_conv image_iff)
  then show ?thesis by (simp add: getIdFromSlug_def sql_select_def)
qed

text \<open>
  C3: creating an application either rejects and leaves the database as it was, or stores exactly
  one application, under the given id, with a slug no other application has: the slug leads back to
  the id, the slugs stay distinct, and every other application reads as before.
\<close>

theorem createKotsApp_correct:
  "case createKotsApp slugify i now name uri lic airgap userId d of
     (Inl e, d') \<Rightarrow> d' = d
   | (Inr app, d') \<Rightarrow>
       ka_id app = i \<and> ka_name app = name \<and> ka_currentSequence app = None \<and>
       ka_slug app \<notin> app_slug ` set (t_app d) \<and>
       getApp i d' = Inr app \<and> getIdFromSlug (ka_slug app) d' = Inr i \<and>
       length (t_app d') = Suc (length (t_app d)) \<and>
       distinct (map app_slug (t_app d')) = distinct (map app_slug (t_app d)) \<and>
       (j = i \<or> getApp j d' = getApp j d)"
proof (cases "name = [] \<or> app_of i d \<noteq> None \<or>
    (truthy_str userId \<and> (str_or_empty userId, i) \<in> ua_key ` set (t_user_app d))")
  case True
  then show ?thesis by (auto simp: createKotsApp_cases)
next
  case False
  obtain app where "getApp i (created slugify i now name uri lic airgap userId d) = Inr app"
    "ka_id app = i" "ka_slug app = app_slug_for slugify name d" "ka_name app = name"
    "ka_currentSequence app = None"
    using False getApp_created by blast
  with False show ?thesis
    using app_slug_for_fresh [of slugify name d]
    by (auto simp: createKotsApp_cases getIdFromSlug_created getApp_created_other)
qed

section \<open>Deletion\<close>

lemma deleteApp_run:
  "deleteApp appId d = (Inr True,
     d\<lparr>t_user_app := sql_delete (\<lambda>r. ua_app_id r = appId) (t_user_app d),
       t_app_version := sql_delete (\<lambda>r. av_app_id r = appId) (t_app_version d),
       t_app_downstream := sql_delete (\<lambda>r. ad_app_id r = appId) (t_app_downstream d),
       t_app_downstream_version := sql_delete (\<lambda>r. adv_app_id r = appId) (t_app_downstream_version d),
       t_app := sql_delete (\<lambda>r. app_id r = appId) (t_app d)\<rparr>)"
  by (simp add: deleteApp_def transaction_def)

lemma app_version_at_delete:
  "app_version_at j s (d\<lparr>t_app_version := sql_delete (\<lambda>r. av_app_id r = i) (t_app_version d)\<rparr>) =
     (if j = i then None else app_version_at j s d)"
proof -
  have "find (\<lambda>r. av_app_id r = j \<and> av_sequence r = s) (sql_delete (\<lambda>r. av_app_id r = i) t) =
      (if j = i then None else find (\<lambda>r. av_app_id r = j \<and> av_sequence r = s) t)"
    for t :: "app_version_row list"
    by (induction t) (auto simp: sql_delete_def)
  then show ?thesis by (simp add: app_version_at_def)
qed


end
