(* ===== verification/TaskStatus.thy ===== *)
theory TaskStatus
  imports AppStore
begin

text \<open>
  The status of long-running tasks (\<^verbatim>\<open>api_task_status\<close>) and the install state of an application,
  at the end of \<^verbatim>\<open>api/src/kots_app/kots_app_store.ts\<close>.  A status is a row with a message and the
  time of the last liveness update; it reads as empty once that time is 10 seconds old.  Four
  tasks use it through functions of their own; what they promise is the locale \<open>task_slot\<close>.
  Times are in milliseconds.
\<close>

record task_status =
  tk_currentMessage :: "string option"
  tk_status :: "string option"

definition no_task :: task_status where
  "no_task = \<lparr>tk_currentMessage = Some [], tk_status = Some []\<rparr>"

section \<open>The table\<close>

text \<open>The conflict clause sets the message and the status, and not \<open>updated_at\<close>.\<close>

definition ts_merge :: "api_task_status_row \<Rightarrow> api_task_status_row \<Rightarrow> api_task_status_row" where
  "ts_merge old new =
     old\<lparr>ts_current_message := ts_current_message new, ts_status := ts_status new\<rparr>"

definition setApiTaskStatus :: "string \<Rightarrow> string \<Rightarrow> string \<Rightarrow> time \<Rightarrow> db \<Rightarrow> db" where
  "setApiTaskStatus i msg st now d =
     d\<lparr>t_api_task_status := sql_upsert ts_id ts_merge
        \<lparr>ts_id = i, ts_updated_at = Some now, ts_current_message = Some msg, ts_status = Some st\<rparr>
        (t_api_task_status d)\<rparr>"

text \<open>\<^verbatim>\<open>updated_at > now - '10 seconds'\<close>, which no \<open>null\<close> satisfies.\<close>

definition fresh_at :: "time \<Rightarrow> time option \<Rightarrow> bool" where
  "fresh_at now u \<longleftrightarrow> (case u of None \<Rightarrow> False | Some t \<Rightarrow> t > now - 10000)"

definition getApiTaskStatus :: "string \<Rightarrow> time \<Rightarrow> db \<Rightarrow> task_status" where
  "getApiTaskStatus i now d =
     (case sql_select (\<lambda>r. ts_id r = i \<and> fresh_at now (ts_updated_at r)) (t_api_task_status d) of
        [r] \<Rightarrow> \<lparr>tk_currentMessage = ts_current_message r, tk_status = ts_status r\<rparr>
      | _ \<Rightarrow> no_task)"

definition clearApiTaskStatus :: "string \<Rightarrow> db \<Rightarrow> db" where
  "clearApiTaskStatus i d =
     d\<lparr>t_api_task_status := sql_delete (\<lambda>r. ts_id r = i) (t_api_task_status d)\<rparr>"

definition updateApiTaskStatusLiveness :: "string \<Rightarrow> time \<Rightarrow> db \<Rightarrow> db" where
  "updateApiTaskStatusLiveness i now d =
     d\<lparr>t_api_task_status := sql_update (\<lambda>r. ts_id r = i) (\<lambda>r. r\<lparr>ts_updated_at := Some now\<rparr>)
         (t_api_task_status d)\<rparr>"

section \<open>The four tasks\<close>

definition clearAirgapInstallInProgress :: "db \<Rightarrow> db" where
  "clearAirgapInstallInProgress = clearApiTaskStatus ''airgap-install''"

definition clearOnlineInstallInProgress :: "db \<Rightarrow> db" where
  "clearOnlineInstallInProgress = clearApiTaskStatus ''online-install''"

definition setAirgapInstallStatus :: "string \<Rightarrow> string \<Rightarrow> time \<Rightarrow> db \<Rightarrow> db" where
  "setAirgapInstallStatus = setApiTaskStatus ''airgap-install''"

definition setOnlineInstallStatus :: "string \<Rightarrow> string \<Rightarrow> time \<Rightarrow> db \<Rightarrow> db" where
  "setOnlineInstallStatus = setApiTaskStatus ''online-install''"

definition updateAirgapInstallLiveness :: "time \<Rightarrow> db \<Rightarrow> db" where
  "updateAirgapInstallLiveness = updateApiTaskStatusLiveness ''airgap-install''"

definition updateOnlineInstallLiveness :: "time \<Rightarrow> db \<Rightarrow> db" where
  "updateOnlineInstallLiveness = updateApiTaskStatusLiveness ''online-install''"

definition getImageRewriteStatus :: "time \<Rightarrow> db \<Rightarrow> task_status" where
  "getImageRewriteStatus = getApiTaskStatus ''image-rewrite''"

definition setImageRewriteStatus :: "string \<Rightarrow> string \<Rightarrow> time \<Rightarrow> db \<Rightarrow> db" where
  "setImageRewriteStatus = setApiTaskStatus ''image-rewrite''"

definition clearImageRewriteStatus :: "db \<Rightarrow> db" where
  "clearImageRewriteStatus = clearApiTaskStatus ''image-rewrite''"

definition updateImageRewriteStatusLiveness :: "time \<Rightarrow> db \<Rightarrow> db" where
  "updateImageRewriteStatusLiveness = updateApiTaskStatusLiveness ''image-rewrite''"

definition getUpdateDownloadStatus :: "time \<Rightarrow> db \<Rightarrow> task_status" where
  "getUpdateDownloadStatus = getApiTaskStatus ''update-download''"

definition setUpdateDownloadStatus :: "string \<Rightarrow> string \<Rightarrow> time \<Rightarrow> db \<Rightarrow> db" where
  "setUpdateDownloadStatus = setApiTaskStatus ''update-download''"

definition clearUpdateDownloadStatus :: "db \<Rightarrow> db" where
  "clearUpdateDownloadStatus = clearApiTaskStatus ''update-download''"

definition updateUpdateDownloadStatusLiveness :: "time \<Rightarrow> db \<Rightarrow> db" where
  "updateUpdateDownloadStatusLiveness = updateApiTaskStatusLiveness ''update-download''"

section \<open>Install state\<close>

record install_status =
  in_installStatus :: "string option"
  in_currentMessage :: "string option"

definition latest_install_status :: "string \<Rightarrow> time \<Rightarrow> db \<Rightarrow> install_status" where
  "latest_install_status task now d =
     (case take 1 (order_desc app_created_at (t_app d)) of
        [a] \<Rightarrow> \<lparr>in_installStatus = app_install_state a,
               in_currentMessage = tk_currentMessage (getApiTaskStatus task now d)\<rparr>
      | _ \<Rightarrow> \<lparr>in_installStatus = Some ''not_installed'', in_currentMessage = Some []\<rparr>)"

definition getAirgapInstallStatus :: "time \<Rightarrow> db \<Rightarrow> install_status" where
  "getAirgapInstallStatus = latest_install_status ''airgap-install''"

definition getOnlineInstallStatus :: "time \<Rightarrow> db \<Rightarrow> install_status" where
  "getOnlineInstallStatus = latest_install_status ''online-install''"

definition setAirgapInstallFailed :: "string \<Rightarrow> db \<Rightarrow> db" where
  "setAirgapInstallFailed appId =
     update_app appId (\<lambda>r. r\<lparr>app_install_state := Some ''airgap_upload_error''\<rparr>)"

definition setOnineInstallFailed :: "string \<Rightarrow> db \<Rightarrow> db" where
  "setOnineInstallFailed appId =
     update_app appId (\<lambda>r. r\<lparr>app_install_state := Some ''online_upload_error''\<rparr>)"

definition resetAirgapInstallInProgress :: "string \<Rightarrow> db \<Rightarrow> db" where
  "resetAirgapInstallInProgress appId d =
     clearApiTaskStatus ''airgap-install''
       (update_app appId (\<lambda>r. r\<lparr>app_install_state := Some ''airgap_upload_in_progress''\<rparr>) d)"

definition resetOnlineInstallInProgress :: "string \<Rightarrow> db \<Rightarrow> db" where
  "resetOnlineInstallInProgress appId d =
     clearApiTaskStatus ''online-install''
       (update_app appId (\<lambda>r. r\<lparr>app_install_state := Some ''online_upload_in_progress''\<rparr>) d)"

section \<open>The contract of a task slot\<close>

interpretation ts: keyed_table ts_id ts_merge
  by unfold_locales (simp add: ts_merge_def)

definition task_row :: "string \<Rightarrow> db \<Rightarrow> api_task_status_row option" where
  "task_row i d = row_of ts_id i (t_api_task_status d)"

definition tasks_keyed :: "db \<Rightarrow> bool" where
  "tasks_keyed d \<longleftrightarrow> distinct (map ts_id (t_api_task_status d))"

lemma getApiTaskStatus_row:
  assumes "tasks_keyed d"
  shows "getApiTaskStatus i now d =
    (case task_row i d of
       None \<Rightarrow> no_task
     | Some r \<Rightarrow> if fresh_at now (ts_updated_at r)
                 then \<lparr>tk_currentMessage = ts_current_message r, tk_status = ts_status r\<rparr> else no_task)"
proof -
  have sel: "sql_select (\<lambda>r. ts_id r = i \<and> fresh_at now (ts_updated_at r)) (t_api_task_status d) =
      sql_select (\<lambda>r. fresh_at now (ts_updated_at r)) (sql_select (\<lambda>r. ts_id r = i) (t_api_task_status d))"
    by (simp add: sql_select_def conj_commute)
  have key: "sql_select (\<lambda>r. ts_id r = i) (t_api_task_status d) =
      (case task_row i d of None \<Rightarrow> [] | Some r \<Rightarrow> [r])"
    using select_key [of ts_id "t_api_task_status d" i] assms
    by (simp add: task_row_def tasks_keyed_def)
  show ?thesis
    unfolding getApiTaskStatus_def sel key by (cases "task_row i d") (simp_all add: sql_select_def)
qed

lemma task_row_set [simp]:
  "task_row j (setApiTaskStatus i m s now d) =
     (if j = i then Some (case task_row i d of
          None \<Rightarrow> \<lparr>ts_id = i, ts_updated_at = Some now, ts_current_message = Some m, ts_status = Some s\<rparr>
        | Some r \<Rightarrow> r\<lparr>ts_current_message := Some m, ts_status := Some s\<rparr>)
      else task_row j d)"
proof -
  let ?r = "\<lparr>ts_id = i, ts_updated_at = Some now, ts_current_message = Some m, ts_status = Some s\<rparr>"
  show ?thesis
    using ts.row_of_upsert_same [of ?r "t_api_task_status d"]
      ts.row_of_upsert_other [of j ?r "t_api_task_status d"]
    by (auto simp: task_row_def setApiTaskStatus_def ts_merge_def split: option.splits)
qed

lemma task_row_clear [simp]:
  "task_row j (clearApiTaskStatus i d) = (if j = i then None else task_row j d)"
  by (auto simp: task_row_def clearApiTaskStatus_def row_of_delete_same row_of_delete_other)

lemma task_row_liveness [simp]:
  "task_row j (updateApiTaskStatusLiveness i now d) =
     (if j = i then map_option (\<lambda>r. r\<lparr>ts_updated_at := Some now\<rparr>) (task_row i d) else task_row j d)"
proof -
  have "task_row j (updateApiTaskStatusLiveness i now d) =
      map_option (\<lambda>r. if ts_id r = i then r\<lparr>ts_updated_at := Some now\<rparr> else r) (task_row j d)"
    by (simp add: task_row_def updateApiTaskStatusLiveness_def row_of_update)
  moreover have "\<And>r. task_row j d = Some r \<Longrightarrow> ts_id r = j"
    by (auto simp: task_row_def dest: row_of_Some)
  ultimately show ?thesis by (cases "task_row j d") auto
qed

lemma tasks_keyed_ops [simp, intro]:
  "tasks_keyed d \<Longrightarrow> tasks_keyed (setApiTaskStatus i m s now d)"
  "tasks_keyed d \<Longrightarrow> tasks_keyed (clearApiTaskStatus i d)"
  "tasks_keyed d \<Longrightarrow> tasks_keyed (updateApiTaskStatusLiveness i now d)"
  by (simp_all add: tasks_keyed_def setApiTaskStatus_def clearApiTaskStatus_def
      updateApiTaskStatusLiveness_def ts.distinct_upsert distinct_sql_delete map_sql_update)

text \<open>
  A task slot as its callers use it.  \<open>age_ok\<close> says that the row, if there is one, is not stale at
  a time; a task that keeps its liveness up is never shown as empty, and a cleared one always is.
\<close>

locale task_slot =
  fixes keyed :: "'d \<Rightarrow> bool"
    and set_status :: "string \<Rightarrow> string \<Rightarrow> time \<Rightarrow> 'd \<Rightarrow> 'd"
    and get_status :: "time \<Rightarrow> 'd \<Rightarrow> task_status"
    and clear :: "'d \<Rightarrow> 'd"
    and touch :: "time \<Rightarrow> 'd \<Rightarrow> 'd"
  assumes keyed_set: "keyed d \<Longrightarrow> keyed (set_status m s t d)"
    and keyed_clear: "keyed d \<Longrightarrow> keyed (clear d)"
    and keyed_touch: "keyed d \<Longrightarrow> keyed (touch t d)"
    and get_clear: "keyed d \<Longrightarrow> get_status now (clear d) = no_task"
    and get_set_clear: "keyed d \<Longrightarrow> now < t + 10000 \<Longrightarrow>
      get_status now (set_status m s t (clear d)) = \<lparr>tk_currentMessage = Some m, tk_status = Some s\<rparr>"
    and get_touch_set: "keyed d \<Longrightarrow> now < u + 10000 \<Longrightarrow>
      get_status now (touch u (set_status m s t d)) = \<lparr>tk_currentMessage = Some m, tk_status = Some s\<rparr>"
    and get_touch_stale: "keyed d \<Longrightarrow> u + 10000 \<le> now \<Longrightarrow> get_status now (touch u d) = no_task"
    and set_touch: "touch u (set_status m s t (touch u d)) = touch u (set_status m s t d)"
begin

text \<open>A task that reports its messages in order and then its liveness shows the last message.\<close>

fun report_messages :: "(string \<times> string \<times> time) list \<Rightarrow> 'd \<Rightarrow> 'd" where
  "report_messages [] d = d"
| "report_messages ((m, s, t) # ms) d = report_messages ms (set_status m s t d)"

lemma keyed_report: "keyed d \<Longrightarrow> keyed (report_messages ms d)"
  by (induction ms d rule: report_messages.induct) (auto simp: keyed_set)

lemma report_messages_snoc: "report_messages (ms @ [(m, s, t)]) d = set_status m s t (report_messages ms d)"
  by (induction ms d rule: report_messages.induct) auto

lemma shows_last_message:
  "keyed d \<Longrightarrow> now < u + 10000 \<Longrightarrow>
   get_status now (touch u (report_messages (ms @ [(m, s, t)]) d)) =
     \<lparr>tk_currentMessage = Some m, tk_status = Some s\<rparr>"
  by (simp add: report_messages_snoc get_touch_set keyed_report)

lemma silent_task_vanishes:
  "keyed d \<Longrightarrow> u + 10000 \<le> now \<Longrightarrow> get_status now (touch u (report_messages ms d)) = no_task"
  by (simp add: get_touch_stale keyed_report)

end

lemma api_task_slot:
  "task_slot tasks_keyed (setApiTaskStatus i) (getApiTaskStatus i) (clearApiTaskStatus i)
     (updateApiTaskStatusLiveness i)"
proof
  fix d :: db and t u now :: time and m s :: string
  show "tasks_keyed d \<Longrightarrow> tasks_keyed (setApiTaskStatus i m s t d)" by simp
  show "tasks_keyed d \<Longrightarrow> tasks_keyed (clearApiTaskStatus i d)" by simp
  show "tasks_keyed d \<Longrightarrow> tasks_keyed (updateApiTaskStatusLiveness i t d)" by simp
  show "tasks_keyed d \<Longrightarrow> getApiTaskStatus i now (clearApiTaskStatus i d) = no_task"
    by (simp add: getApiTaskStatus_row)
  show "tasks_keyed d \<Longrightarrow> now < t + 10000 \<Longrightarrow>
      getApiTaskStatus i now (setApiTaskStatus i m s t (clearApiTaskStatus i d)) =
        \<lparr>tk_currentMessage = Some m, tk_status = Some s\<rparr>"
    by (simp add: getApiTaskStatus_row fresh_at_def)
  show "tasks_keyed d \<Longrightarrow> now < u + 10000 \<Longrightarrow>
      getApiTaskStatus i now (updateApiTaskStatusLiveness i u (setApiTaskStatus i m s t d)) =
        \<lparr>tk_currentMessage = Some m, tk_status = Some s\<rparr>"
    by (simp add: getApiTaskStatus_row fresh_at_def split: option.splits)
  show "tasks_keyed d \<Longrightarrow> u + 10000 \<le> now \<Longrightarrow>
      getApiTaskStatus i now (updateApiTaskStatusLiveness i u d) = no_task"
    by (simp add: getApiTaskStatus_row fresh_at_def split: option.splits)
  show "updateApiTaskStatusLiveness i u (setApiTaskStatus i m s t (updateApiTaskStatusLiveness i u d)) =
      updateApiTaskStatusLiveness i u (setApiTaskStatus i m s t d)"
  proof -
    have "sql_update (\<lambda>r. ts_id r = i) (\<lambda>r. r\<lparr>ts_updated_at := Some u\<rparr>) (sql_upsert ts_id ts_merge x
        (sql_update (\<lambda>r. ts_id r = i) (\<lambda>r. r\<lparr>ts_updated_at := Some u\<rparr>) tb)) =
      sql_update (\<lambda>r. ts_id r = i) (\<lambda>r. r\<lparr>ts_updated_at := Some u\<rparr>) (sql_upsert ts_id ts_merge x tb)"
      if "ts_id x = i" for x :: api_task_status_row and tb
      using that by (induction tb) (auto simp: sql_update_def ts_merge_def)
    then show ?thesis by (simp add: updateApiTaskStatusLiveness_def setApiTaskStatus_def)
  qed
qed

interpretation airgap_task: task_slot tasks_keyed setAirgapInstallStatus
  "getApiTaskStatus ''airgap-install''" clearAirgapInstallInProgress updateAirgapInstallLiveness
  unfolding setAirgapInstallStatus_def clearAirgapInstallInProgress_def updateAirgapInstallLiveness_def
  by (rule api_task_slot)

interpretation online_task: task_slot tasks_keyed setOnlineInstallStatus
  "getApiTaskStatus ''online-install''" clearOnlineInstallInProgress updateOnlineInstallLiveness
  unfolding setOnlineInstallStatus_def clearOnlineInstallInProgress_def updateOnlineInstallLiveness_def
  by (rule api_task_slot)

interpretation image_task: task_slot tasks_keyed setImageRewriteStatus
  getImageRewriteStatus clearImageRewriteStatus updateImageRewriteStatusLiveness
  unfolding setImageRewriteStatus_def getImageRewriteStatus_def clearImageRewriteStatus_def
    updateImageRewriteStatusLiveness_def
  by (rule api_task_slot)

interpretation update_task: task_slot tasks_keyed setUpdateDownloadStatus
  getUpdateDownloadStatus clearUpdateDownloadStatus updateUpdateDownloadStatusLiveness
  unfolding setUpdateDownloadStatus_def getUpdateDownloadStatus_def clearUpdateDownloadStatus_def
    updateUpdateDownloadStatusLiveness_def
  by (rule api_task_slot)

section \<open>Properties\<close>

text \<open>
  C5: a status set on a task is read back exactly when the row is new and the write is recent, or
  the row was there and its last liveness update is: setting a status does not refresh the row, so
  on a row that is 10 seconds old the status just set reads as empty.
\<close>

theorem set_status_visible_iff:
  assumes "tasks_keyed d"
  shows "getApiTaskStatus i now (setApiTaskStatus i msg st t d) =
    (if fresh_at now (case task_row i d of None \<Rightarrow> Some t | Some r \<Rightarrow> ts_updated_at r)
     then \<lparr>tk_currentMessage = Some msg, tk_status = Some st\<rparr> else no_task)"
  using assms by (simp add: getApiTaskStatus_row split: option.splits)

theorem set_status_visible_iff_witness:
  "getApiTaskStatus ''image-rewrite'' 20000 (setApiTaskStatus ''image-rewrite'' ''pushing'' ''running'' 20000
     (setApiTaskStatus ''image-rewrite'' ''pulling'' ''running'' 10000 empty_db)) = no_task"
proof -
  have "tasks_keyed (setApiTaskStatus ''image-rewrite'' ''pulling'' ''running'' 10000 empty_db)"
    by (simp add: tasks_keyed_def empty_db_def setApiTaskStatus_def)
  moreover have "task_row ''image-rewrite'' empty_db = None"
    by (simp add: task_row_def empty_db_def row_of_def)
  ultimately show ?thesis
    by (simp add: set_status_visible_iff fresh_at_def)
qed

text \<open>
  an update download that reports any messages and then its liveness shows its last message for
  the next ten seconds, and nothing once ten seconds have passed.
\<close>

theorem update_download_shows_last:
  assumes "tasks_keyed d"
  shows "getUpdateDownloadStatus now (updateUpdateDownloadStatusLiveness u
      (update_task.report_messages (ms @ [(m, s, t)]) d)) =
    (if now < u + 10000 then \<lparr>tk_currentMessage = Some m, tk_status = Some s\<rparr> else no_task)"
  using update_task.shows_last_message [OF assms, of now u ms m s t]
    update_task.silent_task_vanishes [OF assms, of u now "ms @ [(m, s, t)]"]
  by (cases "now < u + 10000") auto

theorem update_download_shows_last_witness:
  "getUpdateDownloadStatus 15000 (updateUpdateDownloadStatusLiveness 6000
     (update_task.report_messages ([(''a'', ''running'', 1000)] @ [(''b'', ''running'', 2000)]) empty_db)) =
   \<lparr>tk_currentMessage = Some ''b'', tk_status = Some ''running''\<rparr>"
proof -
  have "tasks_keyed empty_db" by (simp add: tasks_keyed_def empty_db_def)
  from update_download_shows_last [OF this, of 15000 6000 "[(''a'', ''running'', 1000)]" "''b''" "''running''" 2000]
  show ?thesis by simp
qed

text \<open>
  the tasks do not disturb one another: setting, clearing or touching one task leaves the status
  of every other task as it was.
\<close>

theorem tasks_independent:
  assumes "tasks_keyed d" and "i \<noteq> j"
  shows "getApiTaskStatus j now (setApiTaskStatus i m s t d) = getApiTaskStatus j now d \<and>
    getApiTaskStatus j now (clearApiTaskStatus i d) = getApiTaskStatus j now d \<and>
    getApiTaskStatus j now (updateApiTaskStatusLiveness i t d) = getApiTaskStatus j now d"
  using assms by (simp add: getApiTaskStatus_row)

theorem tasks_independent_witness:
  "getApiTaskStatus ''image-rewrite'' 5 (clearApiTaskStatus ''online-install''
     (setApiTaskStatus ''image-rewrite'' ''m'' ''s'' 5 empty_db)) =
   \<lparr>tk_currentMessage = Some ''m'', tk_status = Some ''s''\<rparr>"
proof -
  let ?d = "setApiTaskStatus ''image-rewrite'' ''m'' ''s'' 5 empty_db"
  have "tasks_keyed ?d" by (simp add: tasks_keyed_def empty_db_def setApiTaskStatus_def)
  moreover have "getApiTaskStatus ''image-rewrite'' 5 ?d = \<lparr>tk_currentMessage = Some ''m'', tk_status = Some ''s''\<rparr>"
    by (simp add: getApiTaskStatus_def setApiTaskStatus_def empty_db_def sql_select_def fresh_at_def)
  ultimately show ?thesis
    using tasks_independent [of ?d "''online-install''" "''image-rewrite''" 5] by simp
qed

end
