(* ===== verification/Preflight.thy ===== *)
theory Preflight
  imports AppStore
begin

text \<open>
  Preflight checks: the verdict over a result document (\<^verbatim>\<open>getPreflightResultState\<close> of
  \<^verbatim>\<open>api/src/util/utilities.ts\<close>), recording a result and what it does to the version
  (\<^verbatim>\<open>addKotsPreflight\<close>, \<^verbatim>\<open>retryPreflights\<close> and \<^verbatim>\<open>ignorePreflightPermissionErrors\<close> of
  \<^verbatim>\<open>kots_app_store.ts\<close>), and the queries of \<^verbatim>\<open>api/src/preflight/preflight_store.ts\<close>.  A result is
  the untyped body of a request.
\<close>

section \<open>The verdict\<close>

fun check_results :: "string \<Rightarrow> jsval list \<Rightarrow> string result" where
  "check_results resultState [] = Inr resultState"
| "check_results resultState (check # cs) =
     bindR (js_get check ''isWarn'') (\<lambda>w.
       if truthy w then check_results ''warn'' cs
       else bindR (js_get check ''isFail'') (\<lambda>f.
         if truthy f then Inr ''fail'' else check_results resultState cs))"

definition getPreflightResultState :: "jsval \<Rightarrow> string result" where
  "getPreflightResultState preflightResults =
     bindR (js_get preflightResults ''errors'') (\<lambda>errors.
       if js_size errors > 0 then Inr ''fail''
       else bindR (js_get preflightResults ''results'') (\<lambda>results.
         if js_size results = 0 then Inr ''pass''
         else bindR (js_iter results) (check_results ''pass'')))"

text \<open>\<^verbatim>\<open>JSON.parse(JSON.stringify(v))\<close>: the value itself, but \<open>undefined\<close> has no JSON text.\<close>

fun json_copy :: "jsval \<Rightarrow> jsval result" where
  "json_copy JUndef = Inl (JsError ''Unexpected token u in JSON at position 0'')"
| "json_copy v = Inr v"

section \<open>Recording a result\<close>

definition addKotsPreflight :: "string \<Rightarrow> string \<Rightarrow> int \<Rightarrow> jsval \<Rightarrow> time \<Rightarrow> (db, unit) eff" where
  "addKotsPreflight appId clusterId s preflightResult now =
     thenE (execE (\<lambda>d. d\<lparr>t_app_downstream_version :=
         sql_update (\<lambda>r. adv_app_id r = appId \<and> adv_sequence r = s)
           (\<lambda>r. r\<lparr>adv_preflight_result := pg_text preflightResult,
                  adv_preflight_result_created_at := Some now,
                  adv_status := (if adv_status r = Some ''deployed'' then Some ''deployed''
                                 else Some ''pending'')\<rparr>)
           (t_app_downstream_version d)\<rparr>))
     (if s = 0 then
        bindE (queryE (\<lambda>_. bindR (json_copy preflightResult) getPreflightResultState))
          (\<lambda>preflightState. if preflightState = ''pass'' then execE (deployVersion appId s now) else retE ())
      else retE ())"

definition ignorePreflightPermissionErrors :: "string \<Rightarrow> string \<Rightarrow> int \<Rightarrow> db \<Rightarrow> db" where
  "ignorePreflightPermissionErrors appId clusterId s d =
     d\<lparr>t_app_downstream_version :=
        sql_update (\<lambda>r. adv_app_id r = appId \<and> adv_cluster_id r = clusterId \<and> adv_sequence r = s)
          (\<lambda>r. r\<lparr>adv_status := Some ''pending_preflight'', adv_preflight_ignore_permissions := True,
                 adv_preflight_result := None\<rparr>)
          (t_app_downstream_version d)\<rparr>"

definition retryPreflights :: "string \<Rightarrow> string \<Rightarrow> int \<Rightarrow> db \<Rightarrow> db" where
  "retryPreflights appId clusterId s d =
     d\<lparr>t_app_downstream_version :=
        sql_update (\<lambda>r. adv_app_id r = appId \<and> adv_cluster_id r = clusterId \<and> adv_sequence r = s)
          (\<lambda>r. r\<lparr>adv_status := Some ''pending_preflight'', adv_preflight_ignore_permissions := False,
                 adv_preflight_result := None\<rparr>)
          (t_app_downstream_version d)\<rparr>"

section \<open>Queries\<close>

record PreflightResult =
  pf_appSlug :: string
  pf_clusterSlug :: string
  pf_result :: "string option"
  pf_createdAt :: "time option"

record PreflightParams =
  pp_url :: string
  pp_ignorePermissions :: bool

definition getKotsPreflightSpec :: "string \<Rightarrow> int \<Rightarrow> db \<Rightarrow> string option result" where
  "getKotsPreflightSpec appId s d =
     (case app_version_at appId s d of
        None \<Rightarrow> Inl (ReplicatedError (''Unable to find Preflight Spec with appId '' @ appId))
      | Some r \<Rightarrow> Inr (av_preflight_spec r))"

text \<open>A version joined with its application and its cluster.\<close>

definition preflight_join ::
  "db \<Rightarrow> (app_downstream_version_row \<times> app_row \<times> cluster_row) list" where
  "preflight_join d =
     concat (map (\<lambda>r. concat (map (\<lambda>a. map (\<lambda>c. (r, a, c))
         (sql_select (\<lambda>c. adv_cluster_id r = cl_id c) (t_cluster d)))
       (sql_select (\<lambda>a. adv_app_id r = app_id a) (t_app d)))) (t_app_downstream_version d))"

definition preflight_result_of ::
  "app_downstream_version_row \<times> app_row \<times> cluster_row \<Rightarrow> PreflightResult" where
  "preflight_result_of = (\<lambda>(r, a, c).
     \<lparr>pf_appSlug = app_slug a, pf_clusterSlug = cl_slug c, pf_result = adv_preflight_result r,
      pf_createdAt = adv_preflight_result_created_at r\<rparr>)"

definition getKotsPreflightResult :: "string \<Rightarrow> string \<Rightarrow> int \<Rightarrow> db \<Rightarrow> PreflightResult result" where
  "getKotsPreflightResult appId clusterId s d =
     (case filter (\<lambda>(r, a, c). adv_app_id r = appId \<and> adv_cluster_id r = clusterId \<and> adv_sequence r = s)
             (preflight_join d) of
        [] \<Rightarrow> Inl (JsError (''Couldn'' @ [CHR 0x27] @ ''t find preflight spec with appId: '' @ appId @ '', clusterId: '' @
                clusterId @ '', sequence: '' @ show_int s))
      | x # _ \<Rightarrow> Inr (preflight_result_of x))"

definition getLatestKotsPreflightResult :: "db \<Rightarrow> PreflightResult result" where
  "getLatestKotsPreflightResult d =
     (case take 1 (order_desc app_created_at (sql_select (\<lambda>a. app_current_sequence a = Some 0) (t_app d))) of
        [] \<Rightarrow> Inl (ReplicatedError ''No app has been installed yet'')
      | a0 # _ \<Rightarrow>
          (case filter (\<lambda>(r, a, c). adv_app_id r = app_id a0 \<and> adv_sequence r = 0) (preflight_join d) of
             [] \<Rightarrow> Inl TypeError
           | x # _ \<Rightarrow> Inr (preflight_result_of x)))"

definition preflight_url :: "string \<Rightarrow> string \<Rightarrow> string \<Rightarrow> string \<Rightarrow> string" where
  "preflight_url endpoint appSlug clusterSlug s =
     endpoint @ ''/api/v1/preflight/'' @ appSlug @ ''/'' @ clusterSlug @ ''/'' @ s"

definition getPendingPreflightParams :: "string \<Rightarrow> string \<Rightarrow> bool \<Rightarrow> db \<Rightarrow> PreflightParams list" where
  "getPendingPreflightParams shipApiEndpoint apiAdvertiseEndpoint inCluster d =
     map (\<lambda>(r, a, c).
         \<lparr>pp_url =
            (if inCluster
             then preflight_url shipApiEndpoint (app_slug a) (cl_slug c) (show_int (adv_sequence r)) @
                  ''?incluster=true''
             else preflight_url apiAdvertiseEndpoint (app_slug a) (cl_slug c) (show_int (adv_sequence r))),
          pp_ignorePermissions = adv_preflight_ignore_permissions r\<rparr>)
       (filter (\<lambda>(r, a, c). adv_status r = Some ''pending_preflight'') (preflight_join d))"

definition getPreflightCommand :: "string \<Rightarrow> string \<Rightarrow> string \<Rightarrow> string \<Rightarrow> string" where
  "getPreflightCommand apiAdvertiseEndpoint appSlug clusterSlug s =
     newline @ ''curl https://krew.sh/preflight | bash'' @ newline @ ''kubectl preflight '' @
     preflight_url apiAdvertiseEndpoint appSlug clusterSlug s @ newline @ ''    ''"

section \<open>The verdict against a specification\<close>

text \<open>
  The verdict of a list of checks, each a warning, a failure, both or neither: a failure that is
  no warning decides; otherwise a warning does.
\<close>

definition is_warn :: "jsval \<Rightarrow> bool" where
  "is_warn c \<longleftrightarrow> (case js_get c ''isWarn'' of Inr v \<Rightarrow> truthy v | Inl _ \<Rightarrow> False)"

definition is_fail :: "jsval \<Rightarrow> bool" where
  "is_fail c \<longleftrightarrow> (case js_get c ''isFail'' of Inr v \<Rightarrow> truthy v | Inl _ \<Rightarrow> False)"

definition verdict :: "jsval list \<Rightarrow> string" where
  "verdict cs =
     (if list_ex (\<lambda>c. is_fail c \<and> \<not> is_warn c) cs then ''fail''
      else if list_ex is_warn cs then ''warn'' else ''pass'')"

definition is_object :: "jsval \<Rightarrow> bool" where
  "is_object v \<longleftrightarrow> (case v of JObj _ \<Rightarrow> True | _ \<Rightarrow> False)"

lemma is_object_get: "is_object v \<Longrightarrow> \<exists>x. js_get v k = Inr x"
  by (cases v) (auto simp: is_object_def)

lemma check_results_verdict:
  "list_all is_object cs \<Longrightarrow>
   check_results st cs =
     Inr (if list_ex (\<lambda>c. is_fail c \<and> \<not> is_warn c) cs then ''fail''
          else if list_ex is_warn cs then ''warn'' else st)"
proof (induction cs arbitrary: st)
  case Nil
  then show ?case by simp
next
  case (Cons c cs)
  then obtain w f where wf: "js_get c ''isWarn'' = Inr w" "js_get c ''isFail'' = Inr f"
    using is_object_get [of c] by fastforce
  with Cons show ?case by (auto simp: is_warn_def is_fail_def)
qed

lemma preflight_document:
  assumes "list_all is_object cs" and "js_size errs = 0"
  shows "getPreflightResultState (JObj [(''errors'', errs), (''results'', JArr cs)]) = Inr (verdict cs)"
  using assms check_results_verdict [of cs "''pass''"]
  by (cases cs) (simp_all add: getPreflightResultState_def verdict_def)

lemma preflight_errors_fail:
  "js_size errs > 0 \<Longrightarrow> getPreflightResultState (JObj ((''errors'', errs) # kvs)) = Inr ''fail''"
  by (simp add: getPreflightResultState_def)

lemma preflight_text_passes: "getPreflightResultState (JStr s) = Inr ''pass''"
  by (simp add: getPreflightResultState_def)

text \<open>
  on a result document with any errors the verdict is "fail"; with none it is "fail" when some
  check fails without being a warning, else "warn" when some check warns, else "pass".
\<close>

theorem preflight_verdict:
  assumes "list_all is_object checks"
  shows "getPreflightResultState (JObj [(''errors'', errs), (''results'', JArr checks)]) =
    Inr (if js_size errs > 0 then ''fail'' else verdict checks)"
  using preflight_document [OF assms, of errs] preflight_errors_fail [of errs] by auto

theorem preflight_verdict_witness:
  "getPreflightResultState (JObj [(''errors'', JUndef), (''results'',
     JArr [JObj [(''isWarn'', JBool True)], JObj [(''isFail'', JBool True)]])]) = Inr ''fail''"
  using preflight_verdict [of "[JObj [(''isWarn'', JBool True)], JObj [(''isFail'', JBool True)]]" JUndef]
  by (simp add: is_object_def verdict_def is_fail_def is_warn_def)

section \<open>What recording a result does\<close>

definition record_result :: "string \<Rightarrow> int \<Rightarrow> jsval \<Rightarrow> time \<Rightarrow> db \<Rightarrow> db" where
  "record_result appId s v now d = d\<lparr>t_app_downstream_version :=
         sql_update (\<lambda>r. adv_app_id r = appId \<and> adv_sequence r = s)
           (\<lambda>r. r\<lparr>adv_preflight_result := pg_text v,
                  adv_preflight_result_created_at := Some now,
                  adv_status := (if adv_status r = Some ''deployed'' then Some ''deployed''
                                 else Some ''pending'')\<rparr>)
           (t_app_downstream_version d)\<rparr>"

lemma addKotsPreflight_run:
  "snd (addKotsPreflight appId clusterId s v now d) =
     (if s = 0 \<and> bindR (json_copy v) getPreflightResultState = Inr ''pass''
      then deployVersion appId 0 now (record_result appId 0 v now d)
      else record_result appId s v now d)"
  by (auto simp: addKotsPreflight_def record_result_def eff_simps split: sum.splits)

lemma downstream_sequence_record [simp]:
  "downstream_sequence a c (record_result appId s v now d) = downstream_sequence a c d"
  by (simp add: downstream_sequence_def record_result_def)

lemma downstream_versions_record:
  "downstream_versions a c (record_result appId s v now d) =
     sql_update (\<lambda>r. adv_app_id r = appId \<and> adv_sequence r = s)
       (\<lambda>r. r\<lparr>adv_preflight_result := pg_text v, adv_preflight_result_created_at := Some now,
              adv_status := (if adv_status r = Some ''deployed'' then Some ''deployed'' else Some ''pending'')\<rparr>)
       (downstream_versions a c d)"
  unfolding record_result_def by (subst downstream_versions_update) simp_all

lemma numbered_record [simp]: "numbered a c (record_result appId s v now d) = numbered a c d"
  unfolding record_result_def by (subst numbered_sql_update) simp_all

lemma numbered_addKotsPreflight [simp]:
  "numbered a c (snd (addKotsPreflight appId clusterId s v now d)) = numbered a c d"
  by (simp add: addKotsPreflight_run)

lemma numbered_retry [simp]:
  "numbered a c (retryPreflights appId clusterId s d) = numbered a c d"
  "numbered a c (ignorePreflightPermissionErrors appId clusterId s d) = numbered a c d"
  unfolding retryPreflights_def ignorePreflightPermissionErrors_def
  by (subst numbered_sql_update; simp)+

text \<open>
  C8: a preflight result changes which version is deployed only when it is for sequence 0 and the
  verdict is "pass", and then every downstream of the application is set to sequence 0.
\<close>

theorem preflight_deploys_iff_pass:
  "downstream_sequence a c (snd (addKotsPreflight appId clusterId s v now d)) =
     (if a = appId \<and> s = 0 \<and> bindR (json_copy v) getPreflightResultState = Inr ''pass''
      then map_option (\<lambda>_. Some 0) (downstream_sequence a c d)
      else downstream_sequence a c d)"
proof -
  have "a \<noteq> appId \<Longrightarrow> downstream_sequence a c (deployVersion appId 0 now d') = downstream_sequence a c d'" for d'
  proof -
    assume "a \<noteq> appId"
    then have "find (\<lambda>r. ad_app_id r = a \<and> ad_cluster_id r = c) (sql_update (\<lambda>r. ad_app_id r = appId)
        (\<lambda>r. r\<lparr>ad_current_sequence := Some 0\<rparr>) t) = find (\<lambda>r. ad_app_id r = a \<and> ad_cluster_id r = c) t"
      for t :: "app_downstream_row list"
      by (induction t) (auto simp: sql_update_def)
    then show ?thesis by (simp add: downstream_sequence_def deployVersion_def Let_def)
  qed
  then show ?thesis by (cases "a = appId") (simp_all add: addKotsPreflight_run)
qed

text \<open>
  a preflight result posted as plain text deploys sequence 0 of every downstream, whatever the
  text says: only a parsed document is looked into.
\<close>

theorem preflight_text_always_deploys:
  "downstream_sequence appId c (snd (addKotsPreflight appId clusterId 0 (JStr body) now d)) =
     map_option (\<lambda>_. Some 0) (downstream_sequence appId c d)"
  by (simp add: addKotsPreflight_run preflight_text_passes)

section \<open>The preflight queue\<close>

lemma preflight_join_iff:
  "(r, a, c) \<in> set (preflight_join d) \<longleftrightarrow>
     r \<in> set (t_app_downstream_version d) \<and> a \<in> set (t_app d) \<and> c \<in> set (t_cluster d) \<and>
     app_id a = adv_app_id r \<and> cl_id c = adv_cluster_id r"
  by (auto simp: preflight_join_def sql_select_def image_iff)

lemma queue_iff:
  "p \<in> set (getPendingPreflightParams ship api inCluster d) \<longleftrightarrow>
     (\<exists>r a c. (r, a, c) \<in> set (preflight_join d) \<and> adv_status r = Some ''pending_preflight'' \<and>
        p = \<lparr>pp_url = (if inCluster
               then preflight_url ship (app_slug a) (cl_slug c) (show_int (adv_sequence r)) @ ''?incluster=true''
               else preflight_url api (app_slug a) (cl_slug c) (show_int (adv_sequence r))),
             pp_ignorePermissions = adv_preflight_ignore_permissions r\<rparr>)"
  by (auto simp: getPendingPreflightParams_def image_iff)

text \<open>
  retrying the preflight of a version of a known application and cluster puts its address back
  in the queue, with permission errors no longer ignored, and clears the stored result.
\<close>

theorem retry_requeues:
  assumes "r \<in> set (t_app_downstream_version d)" and "a \<in> set (t_app d)" and "c \<in> set (t_cluster d)"
    and "adv_app_id r = app_id a" and "adv_cluster_id r = cl_id c"
  shows "\<lparr>pp_url = preflight_url api (app_slug a) (cl_slug c) (show_int (adv_sequence r)),
      pp_ignorePermissions = False\<rparr>
     \<in> set (getPendingPreflightParams ship api False (retryPreflights (app_id a) (cl_id c) (adv_sequence r) d)) \<and>
    (\<forall>r' \<in> set (t_app_downstream_version (retryPreflights (app_id a) (cl_id c) (adv_sequence r) d)).
       adv_key r' = adv_key r \<longrightarrow> adv_preflight_result r' = None)"
proof -
  let ?d = "retryPreflights (app_id a) (cl_id c) (adv_sequence r) d"
  let ?r = "r\<lparr>adv_status := Some ''pending_preflight'', adv_preflight_ignore_permissions := False,
              adv_preflight_result := None\<rparr>"
  have "?r \<in> set (t_app_downstream_version ?d)"
    using assms(4,5) sql_updateI [OF assms(1), of "\<lambda>r'. adv_app_id r' = app_id a \<and>
        adv_cluster_id r' = cl_id c \<and> adv_sequence r' = adv_sequence r"
        "\<lambda>r. r\<lparr>adv_status := Some ''pending_preflight'', adv_preflight_ignore_permissions := False,
              adv_preflight_result := None\<rparr>"]
    by (simp add: retryPreflights_def)
  then have "(?r, a, c) \<in> set (preflight_join ?d)"
    using assms by (simp add: preflight_join_iff retryPreflights_def)
  then have "\<lparr>pp_url = preflight_url api (app_slug a) (cl_slug c) (show_int (adv_sequence r)),
      pp_ignorePermissions = False\<rparr> \<in> set (getPendingPreflightParams ship api False ?d)"
    unfolding queue_iff by (intro exI [of _ ?r] exI [of _ a] exI [of _ c]) simp
  moreover have "adv_preflight_result r' = None"
    if "r' \<in> set (t_app_downstream_version ?d)" and "adv_key r' = adv_key r" for r'
    using that assms(4,5) by (auto simp: retryPreflights_def sql_update_def split: if_splits)
  ultimately show ?thesis by blast
qed

theorem retry_requeues_witness:
  "let a = new_app_row ''a'' ''App'' 1 ''app'' ''replicated://app'' ''lic'' False None;
       c = \<lparr>cl_id = ''c'', cl_title = ''this'', cl_slug = ''this'', cl_created_at = 1, cl_updated_at = None,
            cl_token = None, cl_cluster_type = ''ship'', cl_is_all_users = True\<rparr>;
       d = example_db\<lparr>t_app := [a], t_cluster := [c]\<rparr> in
   \<lparr>pp_url = ''http://kotsadm/api/v1/preflight/app/this/2'', pp_ignorePermissions = False\<rparr>
     \<in> set (getPendingPreflightParams ''http://ship'' ''http://kotsadm'' False (retryPreflights ''a'' ''c'' 2 d))"
proof -
  define a where "a = new_app_row ''a'' ''App'' 1 ''app'' ''replicated://app'' ''lic'' False None"
  define c where "c = \<lparr>cl_id = ''c'', cl_title = ''this'', cl_slug = ''this'', cl_created_at = 1,
      cl_updated_at = None, cl_token = None, cl_cluster_type = ''ship'', cl_is_all_users = True\<rparr>"
  define d where "d = example_db\<lparr>t_app := [a], t_cluster := [c]\<rparr>"
  define r where "r = downstream_row ''a'' ''c'' 2 102 example_args"
  have "r \<in> set (t_app_downstream_version d)" "a \<in> set (t_app d)" "c \<in> set (t_cluster d)"
    "adv_app_id r = app_id a" "adv_cluster_id r = cl_id c"
    by (simp_all add: r_def d_def a_def c_def example_db_def)
  from retry_requeues [OF this, of "''http://kotsadm''" "''http://ship''"]
  have "\<lparr>pp_url = preflight_url ''http://kotsadm'' (app_slug a) (cl_slug c) (show_int (adv_sequence r)),
      pp_ignorePermissions = False\<rparr>
     \<in> set (getPendingPreflightParams ''http://ship'' ''http://kotsadm'' False
         (retryPreflights (app_id a) (cl_id c) (adv_sequence r) d))" by blast
  moreover have "preflight_url ''http://kotsadm'' (app_slug a) (cl_slug c) (show_int (adv_sequence r)) =
      ''http://kotsadm/api/v1/preflight/app/this/2''"
  proof -
    have "show_int 2 = ''2''" by code_simp
    then show ?thesis by (simp add: preflight_url_def a_def c_def r_def new_app_row_def)
  qed
  ultimately show ?thesis
    by (simp add: a_def [symmetric] c_def [symmetric] d_def [symmetric]) (simp add: a_def c_def r_def)
qed

end
