(* ===== verification/Registry.thy ===== *)
theory Registry
  imports AppStore
begin

text \<open>
  The image registry of an application in \<^verbatim>\<open>api/src/kots_app/kots_app_store.ts\<close>: reading it, which
  also moves a password stored in clear to its encrypted column, and updating it, where a form
  sends back the mask it was shown.  \<open>enc\<close> and \<open>dec\<close> are \<^verbatim>\<open>kotsEncryptString\<close> and
  \<^verbatim>\<open>kotsDecryptString\<close>, functions of the native library, and parameters here.
\<close>

record KotsAppRegistryDetails =
  rg_registryHostname :: "string option"
  rg_registryUsername :: "string option"
  rg_registryPassword :: "string option"
  rg_registryPasswordEnc :: "string option"
  rg_namespace :: "string option"
  rg_lastSyncedAt :: "time option"

definition getPasswordMask :: string where
  "getPasswordMask = ''***HIDDEN***''"

definition mapAppRegistryDetails :: "app_row \<Rightarrow> KotsAppRegistryDetails" where
  "mapAppRegistryDetails row =
     \<lparr>rg_registryHostname = app_registry_hostname row, rg_registryUsername = app_registry_username row,
      rg_registryPassword = app_registry_password row,
      rg_registryPasswordEnc = app_registry_password_enc row, rg_namespace = app_namespace row,
      rg_lastSyncedAt = app_last_registry_sync row\<rparr>"

type_synonym cipher = "string \<Rightarrow> string \<Rightarrow> string result"

definition decryptRegistryCredentials ::
  "cipher \<Rightarrow> string \<Rightarrow> KotsAppRegistryDetails \<Rightarrow> KotsAppRegistryDetails result" where
  "decryptRegistryCredentials dec key regInfo =
     (if key = [] then Inr regInfo
      else if truthy_str (rg_registryPassword regInfo) then Inr regInfo
      else if \<not> truthy_str (rg_registryPasswordEnc regInfo) then Inr regInfo
      else bindR (dec key (str_or_empty (rg_registryPasswordEnc regInfo)))
             (\<lambda>p. Inr (regInfo\<lparr>rg_registryPassword := Some p\<rparr>)))"

definition migrationEncryptRegistryCredentials ::
  "cipher \<Rightarrow> string \<Rightarrow> string \<Rightarrow> KotsAppRegistryDetails \<Rightarrow> (db, KotsAppRegistryDetails) eff" where
  "migrationEncryptRegistryCredentials enc key appId regInfo =
     (if key = [] then retE regInfo
      else if \<not> truthy_str (rg_registryPassword regInfo) then retE regInfo
      else if truthy_str (rg_registryPasswordEnc regInfo) then retE regInfo
      else bindE (queryE (\<lambda>_. enc key (str_or_empty (rg_registryPassword regInfo)))) (\<lambda>e.
        thenE (execE (update_app appId
            (\<lambda>r. r\<lparr>app_registry_password := None, app_registry_password_enc := Some e\<rparr>)))
          (retE (regInfo\<lparr>rg_registryPasswordEnc := Some e\<rparr>))))"

definition getAppRegistryDetails ::
  "cipher \<Rightarrow> cipher \<Rightarrow> string \<Rightarrow> string \<Rightarrow> bool \<Rightarrow> (db, KotsAppRegistryDetails) eff" where
  "getAppRegistryDetails enc dec key appId maskPassword =
     bindE (queryE (\<lambda>d. case app_of appId d of
         None \<Rightarrow> Inl (ReplicatedError (''Unable to get registry details for app with the ID of '' @ appId))
       | Some row \<Rightarrow> Inr (mapAppRegistryDetails row)))
     (\<lambda>regInfo. bindE (migrationEncryptRegistryCredentials enc key appId regInfo)
     (\<lambda>regInfo. bindE (queryE (\<lambda>_. decryptRegistryCredentials dec key regInfo))
     (\<lambda>regInfo. retE (if maskPassword then regInfo\<lparr>rg_registryPassword := Some getPasswordMask\<rparr> else regInfo))))"

definition updateRegistryDetails ::
  "cipher \<Rightarrow> string \<Rightarrow> string \<Rightarrow> string \<Rightarrow> string \<Rightarrow> string \<Rightarrow> string \<Rightarrow> time \<Rightarrow> (db, unit) eff" where
  "updateRegistryDetails enc key appId hostname username password namespace now =
     (if password = getPasswordMask then
        execE (update_app appId (\<lambda>r. r\<lparr>app_registry_hostname := Some hostname,
          app_registry_username := Some username, app_registry_password := None,
          app_namespace := Some namespace, app_last_registry_sync := Some now\<rparr>))
      else if key \<noteq> [] then
        bindE (queryE (\<lambda>_. enc key password)) (\<lambda>passwordEnc.
          execE (update_app appId (\<lambda>r. r\<lparr>app_registry_hostname := Some hostname,
            app_registry_username := Some username, app_registry_password := None,
            app_registry_password_enc := Some passwordEnc, app_namespace := Some namespace,
            app_last_registry_sync := Some now\<rparr>)))
      else
        execE (update_app appId (\<lambda>r. r\<lparr>app_registry_hostname := Some hostname,
          app_registry_username := Some username, app_registry_password := Some password,
          app_namespace := Some namespace, app_last_registry_sync := Some now\<rparr>)))"

section \<open>Lemmas\<close>

text \<open>What the native library promises: a text that was encrypted under a key is not empty and
  decrypts to the text.\<close>

definition cipher_ok :: "cipher \<Rightarrow> cipher \<Rightarrow> string \<Rightarrow> bool" where
  "cipher_ok enc dec key \<longleftrightarrow> (\<forall>p. \<exists>e. enc key p = Inr e \<and> e \<noteq> [] \<and> dec key e = Inr p)"

definition stored_password :: "string \<Rightarrow> db \<Rightarrow> string option" where
  "stored_password appId d = Option.bind (app_of appId d) app_registry_password"

definition stored_password_enc :: "string \<Rightarrow> db \<Rightarrow> string option" where
  "stored_password_enc appId d = Option.bind (app_of appId d) app_registry_password_enc"

definition read_password :: "cipher \<Rightarrow> cipher \<Rightarrow> string \<Rightarrow> string \<Rightarrow> db \<Rightarrow> string option result" where
  "read_password enc dec key appId d =
     bindR (fst (getAppRegistryDetails enc dec key appId False d)) (\<lambda>r. Inr (rg_registryPassword r))"

lemma getAppRegistryDetails_absent:
  "app_of appId d = None \<Longrightarrow> getAppRegistryDetails enc dec key appId m d =
     (Inl (ReplicatedError (''Unable to get registry details for app with the ID of '' @ appId)), d)"
  by (simp add: getAppRegistryDetails_def)

lemma read_password_row:
  assumes "app_of appId d = Some row"
  shows "read_password enc dec key appId d =
    (if key = [] then Inr (app_registry_password row)
     else if truthy_str (app_registry_password row)
       then (if truthy_str (app_registry_password_enc row) then Inr (app_registry_password row)
             else bindR (enc key (str_or_empty (app_registry_password row))) (\<lambda>_. Inr (app_registry_password row)))
     else if truthy_str (app_registry_password_enc row)
       then bindR (dec key (str_or_empty (app_registry_password_enc row))) (\<lambda>p. Inr (Some p))
     else Inr (app_registry_password row))"
  using assms
  by (auto simp: read_password_def getAppRegistryDetails_def migrationEncryptRegistryCredentials_def
      decryptRegistryCredentials_def mapAppRegistryDetails_def eff_simps bindR_def split: sum.splits)

lemma row_after_read:
  assumes "app_of appId d = Some row" and "enc key (str_or_empty (app_registry_password row)) = Inr e"
  shows "app_of appId (snd (getAppRegistryDetails enc dec key appId m d)) =
    Some (if key \<noteq> [] \<and> truthy_str (app_registry_password row) \<and> \<not> truthy_str (app_registry_password_enc row)
          then row\<lparr>app_registry_password := None, app_registry_password_enc := Some e\<rparr> else row)"
  using assms
  by (auto simp: getAppRegistryDetails_def migrationEncryptRegistryCredentials_def
      mapAppRegistryDetails_def eff_simps split: sum.splits)

section \<open>Properties\<close>

text \<open>
  with an encryption key, a password that is saved is read back, and the database holds it only
  encrypted.
\<close>

theorem registry_password_roundtrip:
  assumes "cipher_ok enc dec key" and "key \<noteq> []" and "app_of appId d = Some row"
    and "password \<noteq> getPasswordMask"
  shows "let d' = snd (updateRegistryDetails enc key appId hostname username password namespace now d) in
    read_password enc dec key appId d' = Inr (Some password) \<and> stored_password appId d' = None"
proof -
  obtain e where e: "enc key password = Inr e" "e \<noteq> []" "dec key e = Inr password"
    using assms(1) by (auto simp: cipher_ok_def)
  then show ?thesis
    using assms(2,3,4) by (simp add: updateRegistryDetails_def Let_def read_password_row stored_password_def)
qed

theorem registry_password_roundtrip_witness:
  "let enc = (\<lambda>k s. Inr (CHR ''x'' # s)); dec = (\<lambda>k s. Inr (tl s));
     d = empty_db\<lparr>t_app := [new_app_row ''a'' ''A'' 0 ''a'' ''u'' ''l'' False None]\<rparr>;
     d' = snd (updateRegistryDetails enc ''key'' ''a'' ''reg.io'' ''me'' ''secret'' ''ns'' 9 d) in
   read_password enc dec ''key'' ''a'' d' = Inr (Some ''secret'')"
proof -
  let ?enc = "\<lambda>k s. Inr (CHR ''x'' # s)" and ?dec = "\<lambda>k s. Inr (tl s)"
  let ?d = "empty_db\<lparr>t_app := [new_app_row ''a'' ''A'' 0 ''a'' ''u'' ''l'' False None]\<rparr>"
  have "cipher_ok ?enc ?dec ''key''" by (simp add: cipher_ok_def)
  moreover have "app_of ''a'' ?d = Some (new_app_row ''a'' ''A'' 0 ''a'' ''u'' ''l'' False None)"
    by (simp add: app_of_def row_of_def)
  ultimately show ?thesis
    using registry_password_roundtrip [of ?enc ?dec "''key''" "''a''" ?d _ "''secret''" "''reg.io''" "''me''" "''ns''" 9]
    by (simp add: Let_def getPasswordMask_def)
qed

text \<open>
  reading the registry of an application with an encryption key leaves no password in clear
  beside an empty encrypted column, and changes neither what is read nor the next read.
\<close>

theorem registry_migration:
  assumes "cipher_ok enc dec key" and "key \<noteq> []" and "app_of appId d = Some row"
  shows "let d' = snd (getAppRegistryDetails enc dec key appId m d) in
    read_password enc dec key appId d' = read_password enc dec key appId d \<and>
    \<not> (truthy_str (stored_password appId d') \<and> \<not> truthy_str (stored_password_enc appId d'))"
proof -
  obtain e where e: "enc key (str_or_empty (app_registry_password row)) = Inr e" "e \<noteq> []"
    "dec key e = Inr (str_or_empty (app_registry_password row))"
    using assms(1) by (auto simp: cipher_ok_def)
  note after = row_after_read [of appId d row enc key e dec m, OF assms(3) e(1)]
  have "truthy_str s \<Longrightarrow> Some (str_or_empty s) = s" for s by (cases s) auto
  then show ?thesis
    using assms(2) e after read_password_row [OF assms(3), of enc dec key] read_password_row [OF after, of enc dec key]
    by (auto simp: Let_def stored_password_def stored_password_enc_def)
qed

theorem registry_migration_witness:
  "let enc = (\<lambda>k s. Inr (CHR ''x'' # s)); dec = (\<lambda>k s. Inr (tl s));
     r = (new_app_row ''a'' ''A'' 0 ''a'' ''u'' ''l'' False None)\<lparr>app_registry_password := Some ''old''\<rparr>;
     d = empty_db\<lparr>t_app := [r]\<rparr>;
     d' = snd (getAppRegistryDetails enc dec ''key'' ''a'' False d) in
   read_password enc dec ''key'' ''a'' d' = Inr (Some ''old'')"
proof -
  let ?enc = "\<lambda>k s. Inr (CHR ''x'' # s)" and ?dec = "\<lambda>k s. Inr (tl s)"
  let ?r = "(new_app_row ''a'' ''A'' 0 ''a'' ''u'' ''l'' False None)\<lparr>app_registry_password := Some ''old''\<rparr>"
  let ?d = "empty_db\<lparr>t_app := [?r]\<rparr>"
  have c: "cipher_ok ?enc ?dec ''key''" by (simp add: cipher_ok_def)
  have r: "app_of ''a'' ?d = Some ?r" by (simp add: app_of_def row_of_def)
  have "read_password ?enc ?dec ''key'' ''a'' ?d = Inr (Some ''old'')"
    unfolding read_password_row [OF r] by (simp add: new_app_row_def)
  then show ?thesis
    using registry_migration [OF c _ r, of False] by (simp add: Let_def)
qed

text \<open>
  sending back the mask that was shown keeps an encrypted password: it reads as before.
\<close>

theorem registry_mask_keeps:
  assumes "app_of appId d = Some row" and "key \<noteq> []" and "\<not> truthy_str (app_registry_password row)"
    and "truthy_str (app_registry_password_enc row)"
  shows "read_password enc dec key appId
      (snd (updateRegistryDetails enc key appId hostname username getPasswordMask namespace now d)) =
    read_password enc dec key appId d"
  using assms by (simp add: updateRegistryDetails_def read_password_row)

theorem registry_mask_keeps_witness:
  "let r = (new_app_row ''a'' ''A'' 0 ''a'' ''u'' ''l'' False None)\<lparr>app_registry_password_enc := Some ''xold''\<rparr>;
     d = empty_db\<lparr>t_app := [r]\<rparr>; enc = (\<lambda>k s. Inr (CHR ''x'' # s)); dec = (\<lambda>k s. Inr (tl s)) in
   read_password enc dec ''key'' ''a'' (snd (updateRegistryDetails enc ''key'' ''a'' ''h'' ''u'' getPasswordMask ''n'' 9 d)) =
   Inr (Some ''old'')"
proof -
  let ?enc = "\<lambda>k s. Inr (CHR ''x'' # s)" and ?dec = "\<lambda>k s. Inr (tl s)"
  let ?r = "(new_app_row ''a'' ''A'' 0 ''a'' ''u'' ''l'' False None)\<lparr>app_registry_password_enc := Some ''xold''\<rparr>"
  let ?d = "empty_db\<lparr>t_app := [?r]\<rparr>"
  have r: "app_of ''a'' ?d = Some ?r" by (simp add: app_of_def row_of_def)
  have "read_password ?enc ?dec ''key'' ''a'' ?d = Inr (Some ''old'')"
    unfolding read_password_row [OF r] by (simp add: new_app_row_def)
  moreover have "\<not> truthy_str (app_registry_password ?r)" "truthy_str (app_registry_password_enc ?r)"
    by (simp_all add: new_app_row_def)
  ultimately show ?thesis
    using registry_mask_keeps [OF r, of "''key''" ?enc ?dec "''h''" "''u''" "''n''" 9] by (simp add: Let_def)
qed

text \<open>
  where no encryption key is configured, sending back the mask deletes the password: whatever
  was stored in clear, nothing is read afterwards.
\<close>

theorem registry_mask_without_key_deletes:
  assumes "app_of appId d = Some row"
  shows "read_password enc dec [] appId d = Inr (app_registry_password row) \<and>
    read_password enc dec [] appId
      (snd (updateRegistryDetails enc [] appId hostname username getPasswordMask namespace now d)) = Inr None"
  using assms by (simp add: updateRegistryDetails_def read_password_row)

theorem registry_mask_without_key_deletes_witness:
  "let r = (new_app_row ''a'' ''A'' 0 ''a'' ''u'' ''l'' False None)\<lparr>app_registry_password := Some ''old''\<rparr>;
     d = empty_db\<lparr>t_app := [r]\<rparr>; enc = (\<lambda>k s. Inr s) in
   read_password enc enc [] ''a'' d = Inr (Some ''old'') \<and>
   read_password enc enc [] ''a'' (snd (updateRegistryDetails enc [] ''a'' ''h'' ''u'' getPasswordMask ''n'' 9 d)) = Inr None"
proof -
  let ?enc = "\<lambda>k s. Inr s"
  let ?r = "(new_app_row ''a'' ''A'' 0 ''a'' ''u'' ''l'' False None)\<lparr>app_registry_password := Some ''old''\<rparr>"
  have "app_of ''a'' (empty_db\<lparr>t_app := [?r]\<rparr>) = Some ?r" by (simp add: app_of_def row_of_def)
  from registry_mask_without_key_deletes [OF this, of ?enc ?enc "''h''" "''u''" "''n''" 9]
  show ?thesis by (simp add: Let_def)
qed

end
