(* ===== verification/AppStatusStore.thy ===== *)
theory AppStatusStore
  imports AppStore
begin

text \<open>
  \<^verbatim>\<open>api/src/kots_app/kots_app_status_store.ts\<close>: the last states the operator reported for an
  application, one row per application.
\<close>

record KotsAppStatus =
  kst_appId :: string
  kst_updatedAt :: "time option"
  kst_resourceStates :: "ResourceState list option"

definition getKotsAppStatus :: "string \<Rightarrow> db \<Rightarrow> KotsAppStatus result" where
  "getKotsAppStatus appId d =
     (case row_of as_app_id appId (t_app_status d) of
        None \<Rightarrow> Inl (ReplicatedError ''not found'')
      | Some r \<Rightarrow> Inr \<lparr>kst_appId = appId, kst_updatedAt = as_updated_at r,
                      kst_resourceStates = as_resource_states r\<rparr>)"

definition as_merge :: "app_status_row \<Rightarrow> app_status_row \<Rightarrow> app_status_row" where
  "as_merge old new =
     old\<lparr>as_resource_states := as_resource_states new, as_updated_at := as_updated_at new\<rparr>"

definition setKotsAppStatus :: "string \<Rightarrow> ResourceState list option \<Rightarrow> time \<Rightarrow> db \<Rightarrow> db" where
  "setKotsAppStatus appId resourceStates updatedAt d =
     d\<lparr>t_app_status := sql_upsert as_app_id as_merge
        \<lparr>as_app_id = appId, as_resource_states = resourceStates, as_updated_at = Some updatedAt\<rparr>
        (t_app_status d)\<rparr>"

interpretation ast: keyed_table as_app_id as_merge
  by unfold_locales (simp add: as_merge_def)

text \<open>
  the status of an application reads back as it was last set, with its time and its worst
  state, and setting it changes the status of no other application.
\<close>

theorem app_status_set_get:
  "getKotsAppStatus j (setKotsAppStatus appId rs t d) =
     (if j = appId
      then Inr \<lparr>kst_appId = appId, kst_updatedAt = Some t, kst_resourceStates = rs\<rparr>
      else getKotsAppStatus j d)"
proof -
  let ?r = "\<lparr>as_app_id = appId, as_resource_states = rs, as_updated_at = Some t\<rparr>"
  show ?thesis
    using ast.row_of_upsert_same [of ?r "t_app_status d"] ast.row_of_upsert_other [of j ?r "t_app_status d"]
    by (auto simp: getKotsAppStatus_def setKotsAppStatus_def as_merge_def split: option.splits)
qed

end
