(* ===== verification/GitOps.thy ===== *)
theory GitOps
  imports Base64
begin

text \<open>
  GitOps settings, \<^verbatim>\<open>api/src/kots_app/kots_app_store.ts\<close>.  They live outside the database, in a
  Kubernetes secret and a config map of the same name: the secret holds the git providers under
  keys \<^verbatim>\<open>provider.<index>.<field>\<close>, the config map one JSON text for each application and cluster.
  The state is the two objects; reading one that is absent rejects, as the service does.  \<open>parse\<close>
  is \<^verbatim>\<open>JSON.parse\<close>, \<open>err_text\<close> the text of an error; both are parameters.
\<close>

type_synonym sdata = "(string \<times> string) list"

record k8s =
  gitops_secret :: "sdata option option"
  gitops_configmap :: "sdata option option"

definition read_secret :: "k8s \<Rightarrow> sdata option result" where
  "read_secret s = (case gitops_secret s of None \<Rightarrow> Inl (ExternalError ''not found'') | Some x \<Rightarrow> Inr x)"

definition read_configmap :: "k8s \<Rightarrow> sdata option result" where
  "read_configmap s = (case gitops_configmap s of None \<Rightarrow> Inl (ExternalError ''not found'') | Some x \<Rightarrow> Inr x)"

text \<open>\<open>data!\<close> on an object with no data: using it raises.\<close>

definition need_data :: "sdata option \<Rightarrow> sdata result" where
  "need_data x = (case x of None \<Rightarrow> Inl TypeError | Some d \<Rightarrow> Inr d)"

section \<open>Objects with string values\<close>

fun sset :: "string \<Rightarrow> string \<Rightarrow> sdata \<Rightarrow> sdata" where
  "sset k v [] = [(k, v)]"
| "sset k v ((k', v') # kvs) = (if k' = k then (k, v) # kvs else (k', v') # sset k v kvs)"

definition sdel :: "string \<Rightarrow> sdata \<Rightarrow> sdata" where
  "sdel k kvs = filter (\<lambda>(k', _). k' \<noteq> k) kvs"

definition sget :: "sdata \<Rightarrow> string \<Rightarrow> string" where
  "sget kvs k = base64Decode_opt (map_of kvs k)"

definition char_at :: "string \<Rightarrow> nat \<Rightarrow> string" where
  "char_at s i = (if i < length s then [s ! i] else [])"

definition provider_key :: "string \<Rightarrow> string \<Rightarrow> string" where
  "provider_key index field = ''provider.'' @ index @ ''.'' @ field"

text \<open>The index of a key, the number that starts at its tenth character; \<open>None\<close> is \<open>NaN\<close>.\<close>

definition key_index :: "string \<Rightarrow> int option" where
  "key_index key = parse_int (char_at key 9)"

definition show_index :: "int option \<Rightarrow> string" where
  "show_index i = (case i of None \<Rightarrow> ''NaN'' | Some n \<Rightarrow> show_int n)"

section \<open>Providers\<close>

record GitOpsRepo =
  gr_enabled :: bool
  gr_uri :: string
  gr_provider :: string
  gr_hostname :: "string option"

definition repo_disabled :: GitOpsRepo where
  "repo_disabled = \<lparr>gr_enabled = False, gr_uri = [], gr_provider = [], gr_hostname = None\<rparr>"

definition getGitOpsRepo :: "k8s \<Rightarrow> GitOpsRepo" where
  "getGitOpsRepo s =
     (case bindR (read_secret s) need_data of
        Inl _ \<Rightarrow> repo_disabled
      | Inr data \<Rightarrow>
          (let hostnameKey = ''provider.0.hostname'' in
           \<lparr>gr_enabled = True, gr_uri = sget data ''provider.0.repoUri'',
            gr_provider = sget data ''provider.0.type'',
            gr_hostname = (if map_of data hostnameKey \<noteq> None then Some (sget data hostnameKey) else None)\<rparr>))"

fun find_uri_key :: "string \<Rightarrow> sdata \<Rightarrow> string option" where
  "find_uri_key uri [] = None"
| "find_uri_key uri ((k, v) # kvs) = (if base64Decode v = uri then Some k else find_uri_key uri kvs)"

text \<open>\<open>Math.max\<close> over the indices of all keys, plus one; one \<open>NaN\<close> makes it \<open>NaN\<close>.\<close>

definition next_index :: "sdata \<Rightarrow> int option" where
  "next_index data =
     (let indices = map (\<lambda>(k, _). key_index k) data in
      if indices = [] then Some 0
      else if None \<in> set indices then None
      else Some (Max (set (map the indices)) + 1))"

definition set_hostname :: "string \<Rightarrow> string \<Rightarrow> sdata \<Rightarrow> sdata" where
  "set_hostname index hostname data =
     (let hostnameKey = provider_key index ''hostname''; data1 = sdel hostnameKey data
      in if hostname \<noteq> [] then sset hostnameKey (base64Encode hostname) data1 else data1)"

definition repo_data :: "string \<Rightarrow> string \<Rightarrow> string \<Rightarrow> string \<Rightarrow> string \<Rightarrow> sdata \<Rightarrow> sdata" where
  "repo_data provider uri hostname privateKey publicKey data =
     (let found = find_uri_key uri data;
          repoExists = (found \<noteq> None);
          index = show_index (case found of
             Some k \<Rightarrow> (if key_index k = Some (-1) then next_index data else key_index k)
           | None \<Rightarrow> next_index data);
          data1 = sset (provider_key index ''type'') (base64Encode provider) data;
          data2 = sset (provider_key index ''repoUri'') (base64Encode uri) data1;
          data3 = (if \<not> repoExists
                   then sset (provider_key index ''privateKey'') (base64Encode privateKey)
                          (sset (provider_key index ''publicKey'') (base64Encode publicKey) data2)
                   else data2)
      in set_hostname index hostname data3)"

definition createGitOpsRepo ::
  "string \<Rightarrow> string \<Rightarrow> string \<Rightarrow> string \<Rightarrow> string \<Rightarrow> k8s \<Rightarrow> k8s" where
  "createGitOpsRepo provider uri hostname privateKey publicKey s =
     (let data = (case gitops_secret s of Some (Some d) \<Rightarrow> d | _ \<Rightarrow> []) in
      s\<lparr>gitops_secret := Some (Some (repo_data provider uri hostname privateKey publicKey data))\<rparr>)"

fun update_repo_keys :: "string \<Rightarrow> string \<Rightarrow> string \<Rightarrow> string list \<Rightarrow> sdata \<Rightarrow> sdata" where
  "update_repo_keys uriToUpdate newUri hostname [] data = data"
| "update_repo_keys uriToUpdate newUri hostname (key # keys) data =
     (let value = sget data key; isSingleApp = (uriToUpdate \<noteq> []) in
      if \<not> isSingleApp \<or> value = uriToUpdate
      then (let index = char_at key 9;
                data1 = (if isSingleApp
                         then sset (provider_key index ''repoUri'') (base64Encode newUri) data else data)
            in update_repo_keys uriToUpdate newUri hostname keys (set_hostname index hostname data1))
      else update_repo_keys uriToUpdate newUri hostname keys data)"

definition updateGitOpsRepo :: "string \<Rightarrow> string \<Rightarrow> string \<Rightarrow> (k8s, unit) eff" where
  "updateGitOpsRepo uriToUpdate newUri hostname s =
     (case gitops_secret s of
        Some (Some data) \<Rightarrow>
          (Inr (), s\<lparr>gitops_secret := Some (Some
             (update_repo_keys uriToUpdate newUri hostname (map fst data) data))\<rparr>)
      | _ \<Rightarrow> (Inl (ReplicatedError ''Error updating gitops secret''), s))"

definition resetGitOpsData :: "k8s \<Rightarrow> k8s" where
  "resetGitOpsData s = s\<lparr>gitops_secret := None, gitops_configmap := None\<rparr>"

section \<open>Downstreams\<close>

definition app_cluster_key :: "string \<Rightarrow> string \<Rightarrow> string" where
  "app_cluster_key appId clusterId = appId @ ''-'' @ clusterId"

definition setGitOpsError ::
  "(string \<Rightarrow> jsval result) \<Rightarrow> string \<Rightarrow> string \<Rightarrow> jsval \<Rightarrow> (k8s, unit) eff" where
  "setGitOpsError parse appId clusterId err s =
     (case bindR (bindR (read_configmap s) need_data) (\<lambda>data.
          bindR (parse (sget data (app_cluster_key appId clusterId))) (\<lambda>downstreamData.
          bindR (js_set downstreamData ''lastError'' err) (\<lambda>v. Inr (data, v)))) of
        Inl _ \<Rightarrow> (Inl (ReplicatedError ''Failed to set gitops error''), s)
      | Inr (data, v) \<Rightarrow>
          (Inr (), s\<lparr>gitops_configmap := Some (Some
             (sset (app_cluster_key appId clusterId) (base64Encode (json_stringify v)) data))\<rparr>))"

definition disableDownstreamGitOps :: "string \<Rightarrow> string \<Rightarrow> (k8s, unit) eff" where
  "disableDownstreamGitOps appId clusterId s =
     (case bindR (read_configmap s) need_data of
        Inl _ \<Rightarrow> (Inl (ReplicatedError (''Failed to disable gitops for app with id '' @ appId)), s)
      | Inr data \<Rightarrow>
          (Inr (), s\<lparr>gitops_configmap := Some (Some (sdel (app_cluster_key appId clusterId) data))\<rparr>))"

definition downstream_json ::
  "string \<Rightarrow> string \<Rightarrow> string \<Rightarrow> string \<Rightarrow> string \<Rightarrow> (string \<times> jsval) list \<Rightarrow> jsval" where
  "downstream_json repoUri branch path format action lastError =
     JObj ([(''repoUri'', JStr repoUri), (''branch'', JStr branch), (''path'', JStr path),
            (''format'', JStr format), (''action'', JStr action)] @ lastError)"

definition setDownstreamGitOps ::
  "(error \<Rightarrow> string) \<Rightarrow> (string \<Rightarrow> jsval result) \<Rightarrow> string \<Rightarrow> string \<Rightarrow> string \<Rightarrow> string \<Rightarrow> string \<Rightarrow>
   string \<Rightarrow> string \<Rightarrow> (k8s, unit) eff" where
  "setDownstreamGitOps err_text parse appId clusterId repoUri branch path format action s =
     (let data = (case gitops_configmap s of Some (Some d) \<Rightarrow> d | _ \<Rightarrow> []);
          key = app_cluster_key appId clusterId;
          lastError =
            (if map_of data key \<noteq> None
             then bindR (parse (sget data key)) (\<lambda>parsedData.
                  bindR (js_get parsedData ''repoUri'') (\<lambda>oldUri.
                  bindR (js_get parsedData ''branch'') (\<lambda>oldBranch.
                    if oldBranch \<noteq> JStr branch \<or> oldUri \<noteq> JStr repoUri then Inr []
                    else bindR (js_get parsedData ''lastError'') (\<lambda>e. Inr [(''lastError'', e)]))))
             else Inr [])
      in case lastError of
           Inl e \<Rightarrow> (Inl (ReplicatedError (''Failed to create gitops configmap '' @ err_text e)), s)
         | Inr le \<Rightarrow>
             (Inr (), s\<lparr>gitops_configmap := Some (Some (sset key (base64Encode (json_stringify
                (downstream_json repoUri branch path format action le))) data))\<rparr>))"

record GitopsInfo =
  gi_provider :: string
  gi_repoUri :: jsval
  gi_hostname :: "string option"
  gi_path :: jsval
  gi_branch :: jsval
  gi_format :: jsval
  gi_action :: jsval
  gi_publicKey :: string
  gi_privateKey :: string
  gi_lastError :: jsval

text \<open>The provider of a repository: the fields under the index of the first key whose value is its
  address.\<close>

definition provider_fields :: "sdata \<Rightarrow> string option \<Rightarrow> string \<times> string \<times> string \<times> string option" where
  "provider_fields secretData found =
     (case found of
        None \<Rightarrow> ([], [], [], None)
      | Some key \<Rightarrow>
          (let index = char_at key 9; hostnameKey = provider_key index ''hostname'' in
           (sget secretData (provider_key index ''type''),
            sget secretData (provider_key index ''publicKey''),
            sget secretData (provider_key index ''privateKey''),
            if map_of secretData hostnameKey \<noteq> None then Some (sget secretData hostnameKey) else None)))"

definition gitops_info_of :: "sdata \<Rightarrow> jsval \<Rightarrow> GitopsInfo result" where
  "gitops_info_of secretData v =
     bindR (js_get v ''repoUri'') (\<lambda>repoUri.
       (let found = (case repoUri of JStr uri \<Rightarrow> find_uri_key uri secretData | _ \<Rightarrow> None);
            prop = (\<lambda>k. case js_get v k of Inr x \<Rightarrow> x | Inl _ \<Rightarrow> JUndef)
        in case provider_fields secretData found of (provider, publicKey, privateKey, hostname) \<Rightarrow>
          Inr \<lparr>gi_provider = provider, gi_repoUri = repoUri, gi_hostname = hostname,
               gi_path = prop ''path'', gi_branch = prop ''branch'', gi_format = prop ''format'',
               gi_action = prop ''action'', gi_publicKey = publicKey, gi_privateKey = privateKey,
               gi_lastError = prop ''lastError''\<rparr>))"

definition getGitopsInfo ::
  "(error \<Rightarrow> string) \<Rightarrow> (string \<Rightarrow> jsval result) \<Rightarrow> string \<Rightarrow> string \<Rightarrow> k8s \<Rightarrow> GitopsInfo result" where
  "getGitopsInfo err_text parse appId clusterId s =
     (case bindR (bindR (read_secret s) Inr) (\<lambda>secretOpt.
          bindR (bindR (read_configmap s) need_data) (\<lambda>configData.
            (case map_of configData (app_cluster_key appId clusterId) of
               None \<Rightarrow> Inl (ReplicatedError (''No gitops data found for app with id '' @ appId @
                         '' and cluster with id '' @ clusterId))
             | Some base64Data \<Rightarrow>
                 bindR (parse (base64Decode base64Data)) (\<lambda>v.
                   bindR (need_data secretOpt) (\<lambda>secretData. gitops_info_of secretData v))))) of
        Inl e \<Rightarrow> Inl (ReplicatedError (''Failed to get gitops info '' @ err_text e))
      | Inr i \<Rightarrow> Inr i)"

record DownstreamGitOps =
  dg_enabled :: bool
  dg_info :: "GitopsInfo option"
  dg_isConnected :: bool

definition getDownstreamGitOps ::
  "(error \<Rightarrow> string) \<Rightarrow> (string \<Rightarrow> jsval result) \<Rightarrow> string \<Rightarrow> string \<Rightarrow> k8s \<Rightarrow> DownstreamGitOps" where
  "getDownstreamGitOps err_text parse appId clusterId s =
     (case getGitopsInfo err_text parse appId clusterId s of
        Inl _ \<Rightarrow> \<lparr>dg_enabled = False, dg_info = None, dg_isConnected = False\<rparr>
      | Inr i \<Rightarrow> \<lparr>dg_enabled = True, dg_info = Some i, dg_isConnected = (gi_lastError i = JStr [])\<rparr>)"

record GitOpsCreds =
  gc_uri :: string
  gc_pubKey :: string
  gc_privKey :: string
  gc_provider :: string
  gc_cloneUri :: string

text \<open>A part of the address that is not there prints as "undefined".\<close>

definition uri_part :: "string list \<Rightarrow> nat \<Rightarrow> string" where
  "uri_part ps i = (if i < length ps then ps ! i else ''undefined'')"

definition clone_uri :: "string \<Rightarrow> string \<Rightarrow> string" where
  "clone_uri provider repoUri =
     (let uriParts = js_split (CHR ''/'') repoUri;
          ssh = (\<lambda>host. ''git@'' @ host @ '':'' @ uri_part uriParts 3 @ ''/'' @ uri_part uriParts 4 @ ''.git'')
      in if provider = ''github'' then ssh ''github.com''
         else if provider = ''gitlab'' then ssh ''gitlab.com''
         else if provider = ''bitbucket'' then ssh ''bitbucket.org''
         else repoUri)"

definition getGitOpsCreds ::
  "(error \<Rightarrow> string) \<Rightarrow> (string \<Rightarrow> jsval result) \<Rightarrow> string \<Rightarrow> string \<Rightarrow> k8s \<Rightarrow> GitOpsCreds result" where
  "getGitOpsCreds err_text parse appId clusterId s =
     bindR (getGitopsInfo err_text parse appId clusterId s) (\<lambda>i.
       case gi_repoUri i of
         JStr repoUri \<Rightarrow>
           Inr \<lparr>gc_uri = repoUri, gc_pubKey = gi_publicKey i, gc_privKey = gi_privateKey i,
                gc_provider = gi_provider i, gc_cloneUri = clone_uri (gi_provider i) repoUri\<rparr>
       | _ \<Rightarrow> Inl TypeError)"

section \<open>Lemmas\<close>

lemma map_of_sset [simp]: "map_of (sset k v kvs) k' = (if k' = k then Some v else map_of kvs k')"
  by (induction k v kvs rule: sset.induct) auto

lemma map_of_sdel [simp]: "map_of (sdel k kvs) k' = (if k' = k then None else map_of kvs k')"
  by (induction kvs) (auto simp: sdel_def)

lemma set_sset: "set (sset k v kvs) \<subseteq> insert (k, v) (set kvs)"
  by (induction k v kvs rule: sset.induct) auto

lemma set_sdel: "set (sdel k kvs) \<subseteq> set kvs"
  by (auto simp: sdel_def)

lemma provider_key_inj [simp]:
  "provider_key i f = provider_key i g \<longleftrightarrow> f = g"
  by (simp add: provider_key_def)

lemma find_uri_key_Some: "find_uri_key uri kvs = Some k \<Longrightarrow> \<exists>v. (k, v) \<in> set kvs \<and> base64Decode v = uri"
  by (induction uri kvs rule: find_uri_key.induct) (auto split: if_splits)

lemma find_uri_key_None: "find_uri_key uri kvs = None \<longleftrightarrow> (\<forall>(k, v) \<in> set kvs. base64Decode v \<noteq> uri)"
  by (induction uri kvs rule: find_uri_key.induct) auto

lemma map_of_find_uri: "map_of kvs k = Some v \<Longrightarrow> base64Decode v = uri \<Longrightarrow> find_uri_key uri kvs \<noteq> None"
  using map_of_SomeD [of kvs k v] by (auto simp: find_uri_key_None)

lemma char_at_index: "length n = 1 \<Longrightarrow> char_at (provider_key n f) 9 = n"
  by (cases n) (simp_all add: char_at_def provider_key_def nth_Cons')

lemma parse_int_single: "parse_int [c] = Some i \<Longrightarrow> 0 \<le> i \<and> i \<le> 9"
  by (auto simp: parse_int_def parse_nat_def is_digit_def digit_val_def split: if_splits)

lemma key_index_digit: "key_index k = Some i \<Longrightarrow> 0 \<le> i \<and> i \<le> 9"
  by (auto simp: key_index_def char_at_def parse_int_single parse_int_def split: if_splits dest: parse_int_single)


lemma next_index_bounds: "next_index data = Some n \<Longrightarrow> 0 \<le> n \<and> n \<le> 10"
proof -
  assume n: "next_index data = Some n"
  show ?thesis
  proof (cases data)
    case Nil
    with n show ?thesis by (simp add: next_index_def)
  next
    case (Cons kv kvs)
    let ?I = "set (map the (map (\<lambda>(k, _). key_index k) data))"
    from n Cons have no: "None \<notin> set (map (\<lambda>(k, _). key_index k) data)" and m: "n = Max ?I + 1"
      by (auto simp: next_index_def Let_def split: if_splits)
    have "Max ?I \<in> ?I" using Cons by (intro Max_in) auto
    moreover have "0 \<le> i \<and> i \<le> 9" if i: "i \<in> ?I" for i
    proof -
      from i obtain k v where kv: "(k, v) \<in> set data" and ik: "i = the (key_index k)" by auto
      have "key_index k \<noteq> None"
      proof
        assume "key_index k = None"
        with kv have "None \<in> set (map (\<lambda>(k, _). key_index k) data)" by force
        with no show False ..
      qed
      with ik key_index_digit [of k i] show ?thesis by auto
    qed
    ultimately show ?thesis using m by fastforce
  qed
qed

text \<open>What \<open>repo_data\<close> writes for an address the secret does not have.\<close>

lemma repo_data_fresh:
  assumes "find_uri_key uri data = None" and "next_index data = Some n"
  shows "map_of (repo_data provider uri hostname privateKey publicKey data) (provider_key (show_int n) ''type'')
           = Some (base64Encode provider)"
    and "map_of (repo_data provider uri hostname privateKey publicKey data) (provider_key (show_int n) ''repoUri'')
           = Some (base64Encode uri)"
    and "map_of (repo_data provider uri hostname privateKey publicKey data) (provider_key (show_int n) ''publicKey'')
           = Some (base64Encode publicKey)"
    and "map_of (repo_data provider uri hostname privateKey publicKey data) (provider_key (show_int n) ''privateKey'')
           = Some (base64Encode privateKey)"
    and "map_of (repo_data provider uri hostname privateKey publicKey data) (provider_key (show_int n) ''hostname'')
           = (if hostname = [] then None else Some (base64Encode hostname))"
  using assms by (auto simp: repo_data_def set_hostname_def show_index_def Let_def)

lemma set_repo_data:
  assumes "find_uri_key uri data = None" and "next_index data = Some n"
    and "(k, v) \<in> set (repo_data provider uri hostname privateKey publicKey data)"
  shows "(k, v) \<in> set data \<or> (\<exists>f. k = provider_key (show_int n) f)"
  using assms
  by (auto simp: repo_data_def set_hostname_def show_index_def Let_def split: if_splits
      dest!: set_sset [THEN subsetD] set_sdel [THEN subsetD])

text \<open>Every key that finds a new address stands under the index it was given.\<close>

lemma find_fresh_repo:
  assumes f: "find_uri_key uri data = None" and n: "next_index data = Some n" and u: "list_all is_ascii uri"
  shows "\<exists>g. find_uri_key uri (repo_data provider uri hostname privateKey publicKey data)
               = Some (provider_key (show_int n) g)"
proof -
  let ?d = "repo_data provider uri hostname privateKey publicKey data"
  from repo_data_fresh(2) [OF f n] base64_roundtrip_ascii [OF u]
  obtain k where k: "find_uri_key uri ?d = Some k" using map_of_find_uri by fastforce
  then obtain v where v: "(k, v) \<in> set ?d" "base64Decode v = uri" using find_uri_key_Some by blast
  with f have "(k, v) \<notin> set data" by (auto simp: find_uri_key_None)
  with set_repo_data [OF f n v(1)] k show ?thesis by auto
qed

lemma show_int_digit: "0 \<le> n \<Longrightarrow> n < 10 \<Longrightarrow> length (show_int n) = 1"
  by (simp add: show_int_def show_nat.simps)

lemma char_at_append: "char_at (provider_key (c # n) f) 9 = [c]"
  by (simp add: char_at_def provider_key_def nth_Cons')

lemma show_int_ten: "show_int 10 = ''10''"
  by code_simp

lemma next_index_ten:
  "next_index d = Some 10 \<longleftrightarrow> (\<forall>(k, v) \<in> set d. key_index k \<noteq> None) \<and> (\<exists>(k, v) \<in> set d. key_index k = Some 9)"
proof -
  let ?I = "set (map the (map (\<lambda>(k, _). key_index k) d))"
  have none: "None \<in> set (map (\<lambda>(k, _). key_index k) d) \<longleftrightarrow> (\<exists>(k, v) \<in> set d. key_index k = None)"
    by force
  have mx: "Max ?I = 9 \<longleftrightarrow> (\<exists>(k, v) \<in> set d. key_index k = Some 9)"
    if d: "d \<noteq> []" and al: "\<forall>(k, v) \<in> set d. key_index k \<noteq> None"
  proof -
    have le: "i \<le> 9" if "i \<in> ?I" for i
      using that al key_index_digit by fastforce
    have "Max ?I = 9 \<longleftrightarrow> 9 \<in> ?I"
    proof
      assume "Max ?I = 9" then show "9 \<in> ?I" using Max_in [of ?I] d by auto
    next
      assume "9 \<in> ?I" then show "Max ?I = 9" using le by (intro Max_eqI) auto
    qed
    also have "\<dots> \<longleftrightarrow> (\<exists>(k, v) \<in> set d. key_index k = Some 9)" using al by force
    finally show ?thesis .
  qed
  show ?thesis
  proof (cases "d = [] \<or> \<not> (\<forall>(k, v) \<in> set d. key_index k \<noteq> None)")
    case True
    then have "next_index d \<noteq> Some 10"
    proof (cases "d = []")
      case False
      with True have "None \<in> set (map (\<lambda>(k, _). key_index k) d)" unfolding none by auto
      then show ?thesis by (simp add: next_index_def Let_def del: set_map)
    qed (simp add: next_index_def)
    moreover from True have "\<not> ((\<forall>(k, v) \<in> set d. key_index k \<noteq> None) \<and> (\<exists>(k, v) \<in> set d. key_index k = Some 9))"
      by auto
    ultimately show ?thesis by blast
  next
    case False
    then have "None \<notin> set (map (\<lambda>(k, _). key_index k) d)" unfolding none by blast
    with False have "next_index d = Some (Max ?I + 1)" by (simp add: next_index_def Let_def del: set_map)
    with False mx show ?thesis by fastforce
  qed
qed

lemma sset_mono: "(k', v') \<in> set kvs \<Longrightarrow> k' \<noteq> k \<Longrightarrow> (k', v') \<in> set (sset k v kvs)"
  by (induction k v kvs rule: sset.induct) auto

lemma sdel_mono: "(k', v') \<in> set kvs \<Longrightarrow> k' \<noteq> k \<Longrightarrow> (k', v') \<in> set (sdel k kvs)"
  by (simp add: sdel_def)

lemma key_index_ten: "key_index (provider_key ''10'' f) = Some 1"
  by (simp add: key_index_def char_at_append) (simp add: parse_int_def parse_nat_def is_digit_def digit_val_def is_blank_def)

lemma next_index_after_ten:
  assumes f: "find_uri_key uri data = None" and n: "next_index data = Some 10"
  shows "next_index (repo_data provider uri hostname privateKey publicKey data) = Some 10"
proof -
  let ?d = "repo_data provider uri hostname privateKey publicKey data"
  from n obtain k v where kv: "(k, v) \<in> set data" "key_index k = Some 9" by (auto simp: next_index_ten)
  then have ne: "k \<noteq> provider_key ''10'' g" for g using key_index_ten [of g] by auto
  have "(k, v) \<in> set ?d"
    using f n kv ne by (auto simp: repo_data_def set_hostname_def show_index_def Let_def show_int_ten
        intro!: sset_mono sdel_mono)
  moreover have "key_index k' \<noteq> None" if "(k', v') \<in> set ?d" for k' v'
    using set_repo_data [OF f n that] n key_index_ten by (auto simp: next_index_ten show_int_ten)
  ultimately show ?thesis using kv(2) by (auto simp: next_index_ten)
qed

section \<open>JSON texts of ASCII values are ASCII\<close>

lemma is_ascii_hex:
  assumes "n < 16"
  shows "is_ascii (hex_digit n)"
proof -
  have "is_ascii (char_of m)" if "m < 128" for m :: nat
    using that by (simp add: is_ascii_def take_bit_nat_def)
  with assms show ?thesis by (simp add: hex_digit_def)
qed

lemma ascii_escapes:
  "is_ascii CHR 0x5C" "is_ascii CHR 0x22" "is_ascii CHR ''n''" "is_ascii CHR ''r''" "is_ascii CHR ''t''"
  "is_ascii CHR ''b''" "is_ascii CHR ''f''" "is_ascii CHR ''u''" "is_ascii CHR ''0''"
  by (simp_all add: is_ascii_def)

lemma is_ascii_hex_char:
  "of_char c < (32::nat) \<Longrightarrow> is_ascii (hex_digit (of_char c div 16))"
  "is_ascii (hex_digit (of_char c mod 16))"
  by (simp_all add: is_ascii_hex)

lemma ascii_quote:
  assumes "list_all is_ascii s"
  shows "list_all is_ascii (json_quote s)"
proof -
  have "list_all is_ascii (json_escape c)" if "is_ascii c" for c
    unfolding json_escape_def using that ascii_escapes is_ascii_hex_char [of c]
    by (simp only: list.pred_inject simp_thms split: if_split) blast
  with assms have "\<forall>c \<in> set s. list_all is_ascii (json_escape c)"
    unfolding list_all_iff by blast
  with ascii_escapes show ?thesis by (auto simp: json_quote_def list_all_iff)
qed

lemma ascii_append: "list_all is_ascii (a @ b) \<longleftrightarrow> list_all is_ascii a \<and> list_all is_ascii b"
  by simp

lemma ascii_Cons: "list_all is_ascii (c # b) \<longleftrightarrow> is_ascii c \<and> list_all is_ascii b"
  by simp

lemma ascii_join: "list_all is_ascii sep \<Longrightarrow> (\<forall>s \<in> set ss. list_all is_ascii s) \<Longrightarrow> list_all is_ascii (js_join sep ss)"
  by (induction sep ss rule: js_join.induct) auto

lemma ascii_downstream_json:
  assumes "list_all is_ascii repoUri" "list_all is_ascii branch" "list_all is_ascii path"
    and "list_all is_ascii format" "list_all is_ascii action"
  shows "list_all is_ascii (json_stringify (downstream_json repoUri branch path format action []))"
  using assms by (auto simp: downstream_json_def is_ascii_def intro!: ascii_join ascii_quote)


section \<open>Properties\<close>

text \<open>The configuration of a downstream just connected, read back with the secret it names.\<close>

definition secret_data :: "k8s \<Rightarrow> sdata" where
  "secret_data s = (case gitops_secret s of Some (Some d) \<Rightarrow> d | _ \<Rightarrow> [])"

definition config_data :: "k8s \<Rightarrow> sdata" where
  "config_data s = (case gitops_configmap s of Some (Some d) \<Rightarrow> d | _ \<Rightarrow> [])"

lemma createGitOpsRepo_secret [simp]:
  "gitops_secret (createGitOpsRepo provider uri hostname privateKey publicKey s)
     = Some (Some (repo_data provider uri hostname privateKey publicKey (secret_data s)))"
  "gitops_configmap (createGitOpsRepo provider uri hostname privateKey publicKey s) = gitops_configmap s"
  by (simp_all add: createGitOpsRepo_def secret_data_def Let_def)

lemma setDownstream_new:
  assumes "map_of (config_data s) (app_cluster_key appId clusterId) = None"
  shows "setDownstreamGitOps err_text parse appId clusterId repoUri branch path format action s
           = (Inr (), s\<lparr>gitops_configmap := Some (Some (sset (app_cluster_key appId clusterId)
                (base64Encode (json_stringify (downstream_json repoUri branch path format action []))) (config_data s)))\<rparr>)"
  using assms by (simp add: setDownstreamGitOps_def config_data_def Let_def)

lemma info_of_downstream:
  assumes "gitops_secret s = Some (Some sd)" "gitops_configmap s = Some (Some cd)"
    and "map_of cd (app_cluster_key appId clusterId) = Some (base64Encode doc)" "list_all is_ascii doc"
    and "parse doc = Inr v"
  shows "getGitopsInfo err_text parse appId clusterId s
           = (case gitops_info_of sd v of
                Inl e \<Rightarrow> Inl (ReplicatedError (''Failed to get gitops info '' @ err_text e)) | Inr i \<Rightarrow> Inr i)"
  using assms
  by (simp add: getGitopsInfo_def read_secret_def read_configmap_def need_data_def bindR_def base64_roundtrip_ascii)

lemma info_of_json:
  "gitops_info_of sd (downstream_json repoUri branch path format action []) =
     (case provider_fields sd (find_uri_key repoUri sd) of (provider, publicKey, privateKey, hostname) \<Rightarrow>
        Inr \<lparr>gi_provider = provider, gi_repoUri = JStr repoUri, gi_hostname = hostname,
             gi_path = JStr path, gi_branch = JStr branch, gi_format = JStr format,
             gi_action = JStr action, gi_publicKey = publicKey, gi_privateKey = privateKey,
             gi_lastError = JUndef\<rparr>)"
  by (simp add: gitops_info_of_def downstream_json_def bindR_def)

lemma provider_fields_fresh:
  assumes f: "find_uri_key uri data = None" and n: "next_index data = Some n" and small: "n < 10"
    and a: "list_all is_ascii uri" "list_all is_ascii provider" "list_all is_ascii hostname"
      "list_all is_ascii privateKey" "list_all is_ascii publicKey"
  shows "provider_fields (repo_data provider uri hostname privateKey publicKey data)
           (find_uri_key uri (repo_data provider uri hostname privateKey publicKey data))
         = (provider, publicKey, privateKey, if hostname = [] then None else Some hostname)"
proof -
  obtain g where g: "find_uri_key uri (repo_data provider uri hostname privateKey publicKey data)
      = Some (provider_key (show_int n) g)"
    using find_fresh_repo [OF f n a(1)] by blast
  from next_index_bounds [OF n] small have "length (show_int n) = 1" by (simp add: show_int_digit)
  then show ?thesis
    using g a by (simp add: provider_fields_def Let_def char_at_index repo_data_fresh [OF f n] sget_def
        base64Decode_opt_def base64_roundtrip_ascii)
qed



text \<open>
  The index of a provider is read from one character of its key.  The next index is at most ten,
  so after ten providers every new one is written under index ten, over the one before it,
  and a downstream that uses it is given the type and the keys of provider one.
\<close>

theorem gitops_eleventh_provider:
  assumes "find_uri_key uri data = None" and "next_index data = Some 10" and "list_all is_ascii uri"
  shows "let data' = repo_data provider uri hostname privateKey publicKey data;
             (p, pub, priv, _) = provider_fields data' (find_uri_key uri data')
         in map_of data' ''provider.10.repoUri'' = Some (base64Encode uri) \<and>
            map_of data' ''provider.10.privateKey'' = Some (base64Encode privateKey) \<and>
            p = sget data ''provider.1.type'' \<and> pub = sget data ''provider.1.publicKey'' \<and>
            priv = sget data ''provider.1.privateKey'' \<and>
            next_index data' = Some 10"
proof -
  note n = assms(1,2)
  let ?d = "repo_data provider uri hostname privateKey publicKey data"
  obtain g where g: "find_uri_key uri ?d = Some (provider_key (show_int 10) g)"
    using find_fresh_repo [OF n assms(3)] by blast
  have one: "map_of ?d (provider_key ''1'' f) = map_of data (provider_key ''1'' f)" for f
    using n by (simp add: repo_data_def set_hostname_def show_index_def Let_def show_int_ten provider_key_def)
  show ?thesis
    using g repo_data_fresh(2,4) [OF n] one [of "''type''"] one [of "''publicKey''"] one [of "''privateKey''"]
      next_index_after_ten [OF n]
    by (simp add: Let_def provider_fields_def show_int_ten char_at_append sget_def)
      (simp add: provider_key_def)
qed


lemma gitops_eleventh_provider_witness:
  "let data = [(''provider.1.privateKey'', ''azE=''), (''provider.9.repoUri'', ''dQ=='')];
       data' = repo_data ''github'' ''v'' [] ''k'' ''p'' data;
       (p, pub, priv, _) = provider_fields data' (find_uri_key ''v'' data')
   in map_of data' ''provider.10.repoUri'' = Some (base64Encode ''v'') \<and>
      map_of data' ''provider.10.privateKey'' = Some (base64Encode ''k'') \<and>
      p = sget data ''provider.1.type'' \<and> pub = sget data ''provider.1.publicKey'' \<and>
      priv = sget data ''provider.1.privateKey'' \<and> next_index data' = Some 10"
proof -
  let ?d = "[(''provider.1.privateKey'', ''azE=''), (''provider.9.repoUri'', ''dQ=='')]"
  have 1: "find_uri_key ''v'' ?d = None" by code_simp
  have 2: "next_index ?d = Some 10" by code_simp
  have 3: "list_all is_ascii ''v''" by code_simp
  show ?thesis
    using gitops_eleventh_provider [OF 1 2 3, where provider = "''github''" and hostname = "[]"
        and privateKey = "''k''" and publicKey = "''p''"]
    by (simp only: Let_def)
qed

end
