(* ===== verification/Sessions.thy ===== *)
theory Sessions
  imports Base64 Database
begin

text \<open>
  Sessions and the gate in front of the API: \<^verbatim>\<open>api/src/session/session_store.ts\<close>,
  \<^verbatim>\<open>api/src/context/context.ts\<close> and the two middlewares of \<^verbatim>\<open>api/src/server/server.ts\<close>.
  Times are whole seconds (the source cuts them to seconds with \<open>toUTCString\<close>).  \<open>sign\<close> makes the
  token of a session id and \<open>verify\<close> gives the session id of a token (\<open>None\<close> when its claims have
  none); they stand for the JWT library with the server's key.  \<open>authstring\<close> is the data of the
  secret of the command line tool, or the error of reading it.
\<close>

record Session =
  s_type :: "string option"
  s_sessionId :: "string option"
  s_userId :: "string option"
  s_expiresAt :: "time option"
  s_scmToken :: "string option"

definition new_session :: Session where
  "new_session = \<lparr>s_type = None, s_sessionId = None, s_userId = None, s_expiresAt = None, s_scmToken = None\<rparr>"

definition two_weeks :: time where
  "two_weeks = 1209600"

definition createPasswordSession ::
  "(string \<Rightarrow> string) \<Rightarrow> string \<Rightarrow> string \<Rightarrow> time \<Rightarrow> (db, string) eff" where
  "createPasswordSession sign newId userId now d =
     (case sql_insert se_id \<lparr>se_id = newId, se_user_id = userId, se_metadata = ''{}'', se_expire_at = now + two_weeks\<rparr>
             (t_session d) of
        Inl e \<Rightarrow> (Inl e, d)
      | Inr t \<Rightarrow> (Inr (sign newId), d\<lparr>t_session := t\<rparr>))"

definition deleteSession :: "string option \<Rightarrow> db \<Rightarrow> db" where
  "deleteSession sessionId d = d\<lparr>t_session := sql_delete (\<lambda>r. Some (se_id r) = sessionId) (t_session d)\<rparr>"

definition getSession :: "string option \<Rightarrow> db \<Rightarrow> Session result" where
  "getSession sessionId d =
     (case sql_select (\<lambda>r. Some (se_id r) = sessionId) (t_session d) of
        [] \<Rightarrow> Inl (ReplicatedError (''Session not found with ID '' @
                (case sessionId of None \<Rightarrow> ''undefined'' | Some i \<Rightarrow> i)))
      | r # _ \<Rightarrow> Inr \<lparr>s_type = Some ''ship'', s_sessionId = Some (se_id r), s_userId = Some (se_user_id r),
                      s_expiresAt = Some (se_expire_at r), s_scmToken = None\<rparr>)"

type_synonym secret = "(string \<times> string) list option result"

definition kots_session :: "secret \<Rightarrow> string \<Rightarrow> Session" where
  "kots_session authstring token =
     (case authstring of
        Inr (Some data) \<Rightarrow>
          (let authString = base64Decode_opt (map_of data ''kotsadm-authstring'') in
           if authString = [] then new_session
           else if authString \<noteq> token then new_session
           else new_session\<lparr>s_sessionId := Some token, s_userId := Some ''kots-cli''\<rparr>)
      | _ \<Rightarrow> new_session)"

definition decode ::
  "(string \<Rightarrow> string option result) \<Rightarrow> secret \<Rightarrow> string option \<Rightarrow> db \<Rightarrow> Session" where
  "decode verify authstring token d =
     (case token of
        None \<Rightarrow> new_session
      | Some tok \<Rightarrow>
          if tok = [] \<or> tok = ''null'' then new_session
          else (let tok1 = (if starts_with ''Bearer '' tok then js_split CHR '' '' tok ! 1 else tok) in
            if starts_with ''Kots '' tok1 then kots_session authstring tok1
            else (case bindR (verify tok1) (\<lambda>sid. getSession sid d) of
                    Inl _ \<Rightarrow> new_session
                  | Inr s \<Rightarrow> s)))"

section \<open>The context of a request\<close>

definition sessionType :: "Session \<Rightarrow> string option" where
  "sessionType s = s_type s"

definition getGitHubToken :: "Session \<Rightarrow> string option" where
  "getGitHubToken s = s_scmToken s"

definition getUserId :: "Session \<Rightarrow> string option" where
  "getUserId s = s_userId s"

text \<open>The error is returned, not thrown; \<open>Inl\<close> is an exception.\<close>

definition requireValidSession :: "Session \<Rightarrow> time \<Rightarrow> error option result" where
  "requireValidSession s now =
     (let expiry = (case s_expiresAt s of
            None \<Rightarrow> Inr (Some (ReplicatedError ''Expired session''))
          | Some t \<Rightarrow> if now > t then Inr (Some (ReplicatedError ''Expired session'')) else Inr None) in
      if sessionType s = Some ''github''
      then (case getGitHubToken s of
              None \<Rightarrow> Inl TypeError
            | Some tok \<Rightarrow> if length tok = 0 then Inr (Some (ReplicatedError ''Unauthorized'')) else expiry)
      else if getUserId s = Some [] then Inr (Some (ReplicatedError ''Unauthorized''))
      else expiry)"

definition requireSingleTenantSession :: "Session option \<Rightarrow> bool result" where
  "requireSingleTenantSession s =
     (case s of None \<Rightarrow> Inl (ReplicatedError ''Unauthorized'') | Some _ \<Rightarrow> Inr True)"

section \<open>The gate of \<^verbatim>\<open>/graphql\<close>\<close>

datatype gate = Next | Forbidden | Stuck

definition header_token :: "string option \<Rightarrow> string" where
  "header_token authorization =
     (let token = (case authorization of None \<Rightarrow> [] | Some a \<Rightarrow> a) in
      if starts_with ''Bearer'' token then last (js_split CHR '' '' token) else token)"

definition setContext ::
  "(string \<Rightarrow> string option result) \<Rightarrow> secret \<Rightarrow> string option \<Rightarrow> db \<Rightarrow> Session" where
  "setContext verify authstring authorization d =
     decode verify authstring (Some (header_token authorization)) d"

text \<open>\<open>operationName\<close> is what the request's body says; an exception leaves the request unanswered.\<close>

definition requireContextGraphql :: "string option \<Rightarrow> Session \<Rightarrow> time \<Rightarrow> gate" where
  "requireContextGraphql operationName s now =
     (if operationName \<in> {Some ''ping'', Some ''logout''} then Next
      else (case requireValidSession s now of
              Inl _ \<Rightarrow> Stuck | Inr (Some _) \<Rightarrow> Forbidden | Inr None \<Rightarrow> Next))"

definition graphql_gate ::
  "(string \<Rightarrow> string option result) \<Rightarrow> secret \<Rightarrow> string option \<Rightarrow> string option \<Rightarrow> time \<Rightarrow> db \<Rightarrow> gate" where
  "graphql_gate verify authstring authorization operationName now d =
     requireContextGraphql operationName (setContext verify authstring authorization d) now"

definition logout :: "Session \<Rightarrow> db \<Rightarrow> db" where
  "logout s = deleteSession (s_sessionId s)"

section \<open>Lemmas\<close>

lemma header_token_bearer:
  "CHR '' '' \<notin> set tok \<Longrightarrow> header_token (Some (''Bearer '' @ tok)) = tok"
proof -
  assume "CHR '' '' \<notin> set tok"
  then have "js_split CHR '' '' (''Bearer'' @ CHR '' '' # tok) = [''Bearer'', tok]"
    by (subst js_split_append_sep) (simp_all add: js_split_single)
  then show ?thesis by (simp add: header_token_def starts_with_def)
qed

lemma getSession_row:
  "getSession i d = Inr s \<Longrightarrow> s_type s = Some ''ship'' \<and>
     (\<exists>r \<in> set (t_session d). s_expiresAt s = Some (se_expire_at r) \<and> s_userId s = Some (se_user_id r))"
  by (auto simp: getSession_def split: list.splits dest: sql_select_Cons)

lemma kots_session_no_expiry:
  "s_type (kots_session authstring tok) = None \<and> s_expiresAt (kots_session authstring tok) = None \<and>
   s_userId (kots_session authstring tok) \<noteq> Some []"
  by (auto simp: kots_session_def new_session_def Let_def split: sum.splits option.splits)

lemma decode_cases:
  "decode verify authstring token d = new_session \<or> (\<exists>t. decode verify authstring token d = kots_session authstring t) \<or>
   (\<exists>i. getSession i d = Inr (decode verify authstring token d))"
  by (simp only: decode_def Let_def bindR_def split: option.split sum.split if_split) blast

lemma decode_session:
  "s_type (decode verify authstring token d) \<in> {None, Some ''ship''} \<and>
   (s_expiresAt (decode verify authstring token d) = Some t \<longrightarrow>
     (\<exists>r \<in> set (t_session d). se_expire_at r = t \<and> s_userId (decode verify authstring token d) = Some (se_user_id r)))"
  (is "?P (decode verify authstring token d)")
proof -
  have "?P new_session" by (simp add: new_session_def)
  moreover have "?P (kots_session authstring tok)" for tok using kots_session_no_expiry by simp
  moreover have "?P s" if "getSession i d = Inr s" for i s using getSession_row [OF that] by auto
  ultimately show ?thesis using decode_cases [of verify authstring token d] by metis
qed

lemma gate_of_session:
  "s_type s \<in> {None, Some ''ship''} \<Longrightarrow>
   requireContextGraphql op s now = Next \<longleftrightarrow>
     op \<in> {Some ''ping'', Some ''logout''} \<or> (s_userId s \<noteq> Some [] \<and> (\<exists>t. s_expiresAt s = Some t \<and> now \<le> t))"
  by (auto simp: requireContextGraphql_def requireValidSession_def sessionType_def getUserId_def Let_def
      split: option.splits)

section \<open>Properties\<close>

text \<open>
  C9: a request whose operation is not called "ping" or "logout" reaches the resolvers only when
  its token leads to a session of the database that has a user and has not expired; all others are
  answered 403, and none is left unanswered.  A request that does call its operation "ping" or
  "logout" is let through with any token, or none.
\<close>

theorem graphql_gate_sound:
  "(case graphql_gate verify authstring authorization operationName now d of
      Next \<Rightarrow> operationName \<in> {Some ''ping'', Some ''logout''} \<or>
        (\<exists>r \<in> set (t_session d). se_user_id r \<noteq> [] \<and> now \<le> se_expire_at r \<and>
           s_userId (setContext verify authstring authorization d) = Some (se_user_id r))
    | Forbidden \<Rightarrow> operationName \<notin> {Some ''ping'', Some ''logout''}
    | Stuck \<Rightarrow> False) \<and>
   graphql_gate verify authstring authorization (Some ''ping'') now d = Next"
proof -
  let ?s = "setContext verify authstring authorization d"
  have ty: "s_type ?s \<in> {None, Some ''ship''}" unfolding setContext_def using decode_session by blast
  have sess: "s_expiresAt ?s = Some t \<Longrightarrow>
     \<exists>r \<in> set (t_session d). se_expire_at r = t \<and> s_userId ?s = Some (se_user_id r)" for t
    unfolding setContext_def using decode_session by blast
  have "requireContextGraphql operationName ?s now \<noteq> Stuck"
    using ty by (auto simp: requireContextGraphql_def requireValidSession_def sessionType_def Let_def split: option.splits)
  moreover have "requireContextGraphql operationName ?s now = Next \<Longrightarrow>
      operationName \<in> {Some ''ping'', Some ''logout''} \<or>
      (\<exists>r \<in> set (t_session d). se_user_id r \<noteq> [] \<and> now \<le> se_expire_at r \<and> s_userId ?s = Some (se_user_id r))"
    unfolding gate_of_session [OF ty] using sess by fastforce
  moreover have "requireContextGraphql operationName ?s now = Forbidden \<Longrightarrow>
      operationName \<notin> {Some ''ping'', Some ''logout''}"
    by (auto simp: requireContextGraphql_def)
  moreover have "requireContextGraphql (Some ''ping'') ?s now = Next" by (simp add: requireContextGraphql_def)
  ultimately show ?thesis
    unfolding graphql_gate_def by (cases "requireContextGraphql operationName ?s now") simp_all
qed

text \<open>What the JWT library promises of a token it signed, and the shape of a token.\<close>

definition jwt_ok :: "(string \<Rightarrow> string) \<Rightarrow> (string \<Rightarrow> string option result) \<Rightarrow> string \<Rightarrow> bool" where
  "jwt_ok sign verify i \<longleftrightarrow>
     verify (sign i) = Inr (Some i) \<and> CHR '' '' \<notin> set (sign i) \<and> starts_with ''ey'' (sign i)"

lemma sql_select_session:
  "i \<notin> se_id ` set t \<Longrightarrow> sql_select (\<lambda>r. Some (se_id r) = Some i) (t @ [r]) =
     (if se_id r = i then [r] else [])" for t :: "session_row list"
  by (auto simp: sql_select_def filter_empty_conv)

lemma setContext_token:
  assumes "jwt_ok sign verify i"
  shows "setContext verify authstring (Some (''Bearer '' @ sign i)) d =
    (case getSession (Some i) d of Inl _ \<Rightarrow> new_session | Inr s \<Rightarrow> s)"
proof -
  from assms have j: "verify (sign i) = Inr (Some i)" "CHR '' '' \<notin> set (sign i)" "starts_with ''ey'' (sign i)"
    by (auto simp: jwt_ok_def)
  have "sign i \<noteq> []" "sign i \<noteq> ''null''" "\<not> starts_with ''Bearer '' (sign i)" "\<not> starts_with ''Kots '' (sign i)"
    using j(3) by (cases "sign i"; cases "tl (sign i)"; simp add: starts_with_def)+
  with j(1) show ?thesis unfolding setContext_def header_token_bearer [OF j(2)] by (simp add: decode_def)
qed

text \<open>
  logging in with a fresh session id gives a token that is let through, as that user, for two
  weeks and not a second longer, and that is refused as soon as the user has logged out.
\<close>

theorem session_lifecycle:
  assumes "jwt_ok sign verify newId" and "newId \<notin> se_id ` set (t_session d)" and "userId \<noteq> []"
    and "op \<noteq> Some ''ping''" and "op \<noteq> Some ''logout''"
  shows "case createPasswordSession sign newId userId now d of
      (Inl e, d') \<Rightarrow> False
    | (Inr token, d') \<Rightarrow>
        (let s = setContext verify authstring (Some (''Bearer '' @ token)) d' in
         s_userId s = Some userId \<and>
         graphql_gate verify authstring (Some (''Bearer '' @ token)) op t d' = (if t \<le> now + 1209600 then Next else Forbidden) \<and>
         graphql_gate verify authstring (Some (''Bearer '' @ token)) op t (logout s d') = Forbidden)"
proof -
  let ?r = "\<lparr>se_id = newId, se_user_id = userId, se_metadata = ''{}'', se_expire_at = now + two_weeks\<rparr>"
  let ?d = "d\<lparr>t_session := t_session d @ [?r]\<rparr>"
  have run: "createPasswordSession sign newId userId now d = (Inr (sign newId), ?d)"
    using assms(2) by (simp add: createPasswordSession_def sql_insert_def)
  have s: "setContext verify authstring (Some (''Bearer '' @ sign newId)) ?d =
     \<lparr>s_type = Some ''ship'', s_sessionId = Some newId, s_userId = Some userId,
      s_expiresAt = Some (now + two_weeks), s_scmToken = None\<rparr>"
    unfolding setContext_token [OF assms(1)] getSession_def using sql_select_session [OF assms(2), of ?r] by simp
  have out: "setContext verify authstring (Some (''Bearer '' @ sign newId)) (deleteSession (Some newId) ?d) = new_session"
    unfolding setContext_token [OF assms(1)] by (simp add: getSession_def deleteSession_def)
  show ?thesis
    using assms(3-5) unfolding run prod.case sum.case Let_def graphql_gate_def logout_def s Session.simps out
    by (simp add: requireContextGraphql_def requireValidSession_def
        sessionType_def getUserId_def new_session_def two_weeks_def)
qed

lemma session_lifecycle_witness:
  "graphql_gate (\<lambda>t. Inr (Some (drop 2 t))) (Inl TypeError) (Some ''Bearer eys1'') (Some ''listApps'') 1209605
     (snd (createPasswordSession (\<lambda>i. ''ey'' @ i) ''s1'' ''u1'' 5 empty_db)) = Next"
  using session_lifecycle [of "\<lambda>i. ''ey'' @ i" "\<lambda>t. Inr (Some (drop 2 t))" "''s1''" empty_db "''u1''"
      "Some ''listApps''" "Inl TypeError" 1209605 5]
  by (simp add: jwt_ok_def starts_with_def createPasswordSession_def sql_insert_def empty_db_def Let_def)

text \<open>
  the session of the command line tool is never let through: it has no expiry date, so every
  operation but "ping" and "logout" is answered 403 whatever the secret holds.
\<close>

theorem kots_cli_is_expired:
  "graphql_gate verify authstring (Some (''Kots '' @ key)) operationName now d
     = (if operationName \<in> {Some ''ping'', Some ''logout''} then Next else Forbidden) \<and>
   setContext verify authstring (Some (''Kots '' @ key)) d = kots_session authstring (''Kots '' @ key)"
proof -
  have h: "header_token (Some (''Kots '' @ key)) = ''Kots '' @ key"
    by (simp add: header_token_def starts_with_def)
  have dec: "setContext verify authstring (Some (''Kots '' @ key)) d = kots_session authstring (''Kots '' @ key)"
    unfolding setContext_def h by (simp add: decode_def starts_with_def)
  show ?thesis
    using kots_session_no_expiry [of authstring "''Kots '' @ key"] unfolding graphql_gate_def dec
    by (simp add: requireContextGraphql_def requireValidSession_def sessionType_def getUserId_def Let_def)
qed

end
