(* ===== verification/ClusterStore.thy ===== *)
theory ClusterStore
  imports Database UniqueSlug JsValue "HOL-Library.List_Lexorder"
begin

text \<open>
  Clusters, \<^verbatim>\<open>api/src/cluster/cluster_store.ts\<close> and its resolvers: creation with a unique slug,
  reading, sharing, renaming and deletion, the rows that tie a cluster to a repository, and the
  Helm charts an operator reports.  \<open>slugify\<close> is a parameter; a random id or token is an argument;
  titles are ordered by the codes of their characters.
\<close>

record Cluster =
  c_id :: string
  c_title :: string
  c_slug :: string
  c_createdOn :: time
  c_lastUpdated :: "time option"
  c_shipOpsRef :: "string option"

section \<open>Reading clusters\<close>

definition mapCluster :: "cluster_row \<Rightarrow> string option \<Rightarrow> Cluster" where
  "mapCluster row token =
     \<lparr>c_id = cl_id row, c_title = cl_title row, c_slug = cl_slug row, c_createdOn = cl_created_at row,
      c_lastUpdated = cl_updated_at row, c_shipOpsRef = (if truthy_str token then token else None)\<rparr>"

text \<open>The first row of an answer; mapping the row that is not there raises.\<close>

definition first_row :: "'r list \<Rightarrow> 'r result" where
  "first_row rows = (case rows of [] \<Rightarrow> Inl TypeError | r # _ \<Rightarrow> Inr r)"

definition getGitOpsCluster :: "string \<Rightarrow> db \<Rightarrow> Cluster result" where
  "getGitOpsCluster clusterId d =
     bindR (first_row (concat (map (\<lambda>r. map (\<lambda>_. r) (sql_select (\<lambda>g. cg_cluster_id g = cl_id r) (t_cluster_github d)))
       (sql_select (\<lambda>r. cl_id r = clusterId) (t_cluster d))))) (\<lambda>r. Inr (mapCluster r None))"

definition getShipOpsCluster :: "string \<Rightarrow> db \<Rightarrow> Cluster result" where
  "getShipOpsCluster clusterId d =
     bindR (first_row (sql_select (\<lambda>r. cl_id r = clusterId) (t_cluster d))) (\<lambda>r. Inr (mapCluster r (cl_token r)))"

definition cluster_of_type :: "string \<Rightarrow> string \<Rightarrow> db \<Rightarrow> Cluster result" where
  "cluster_of_type cluster_type clusterId d =
     (if cluster_type = ''gitops'' then getGitOpsCluster clusterId d else getShipOpsCluster clusterId d)"

definition getCluster :: "string \<Rightarrow> db \<Rightarrow> Cluster result" where
  "getCluster clusterId d =
     bindR (first_row (sql_select (\<lambda>r. cl_id r = clusterId) (t_cluster d)))
       (\<lambda>r. cluster_of_type (cl_cluster_type r) (cl_id r) d)"

definition getIdFromSlug_cluster :: "string \<Rightarrow> db \<Rightarrow> string result" where
  "getIdFromSlug_cluster slug d =
     (case sql_select (\<lambda>r. cl_slug r = slug) (t_cluster d) of
        [] \<Rightarrow> Inl (ReplicatedError (''No cluster with slug '' @ slug))
      | r # _ \<Rightarrow> Inr (cl_id r))"

definition getFromDeployToken :: "string \<Rightarrow> db \<Rightarrow> Cluster result" where
  "getFromDeployToken token d =
     (case sql_select (\<lambda>r. cl_token r = Some token) (t_cluster d) of
        [] \<Rightarrow> Inl (ReplicatedError ''No cluster found'')
      | r # _ \<Rightarrow> getCluster (cl_id r) d)"

definition maybeGetClusterWithTypeNameAndToken ::
  "string \<Rightarrow> string \<Rightarrow> string \<Rightarrow> db \<Rightarrow> Cluster option result" where
  "maybeGetClusterWithTypeNameAndToken clusterType title token d =
     (case sql_select (\<lambda>r. cl_cluster_type r = clusterType \<and> cl_title r = title \<and> cl_token r = Some token) (t_cluster d) of
        [] \<Rightarrow> Inr None
      | r # _ \<Rightarrow> bindR (getShipOpsCluster (cl_id r) d) (\<lambda>c. Inr (Some c)))"

definition order_clusters :: "cluster_row list \<Rightarrow> cluster_row list" where
  "order_clusters rows = sort_key cl_created_at (sort_key (\<lambda>r. map of_char (cl_title r) :: nat list) rows)"

definition load_clusters :: "cluster_row list \<Rightarrow> db \<Rightarrow> Cluster list result" where
  "load_clusters rows d = mapR (\<lambda>r. cluster_of_type (cl_cluster_type r) (cl_id r) d) (order_clusters rows)"

definition listClustersForGitHubRepo :: "string \<Rightarrow> string \<Rightarrow> db \<Rightarrow> Cluster list result" where
  "listClustersForGitHubRepo owner repo d =
     mapR (\<lambda>g. getGitOpsCluster (cg_cluster_id g) d)
       (sql_select (\<lambda>g. cg_owner g = owner \<and> cg_repo g = repo) (t_cluster_github d))"

definition listAllUsersClusters :: "db \<Rightarrow> Cluster list result" where
  "listAllUsersClusters d = load_clusters (sql_select cl_is_all_users (t_cluster d)) d"

definition user_cluster_join :: "string \<Rightarrow> db \<Rightarrow> cluster_row list" where
  "user_cluster_join userId d =
     concat (map (\<lambda>r. map (\<lambda>_. r) (sql_select (\<lambda>u. uc_cluster_id u = cl_id r \<and> uc_user_id u = userId) (t_user_cluster d)))
       (t_cluster d))"

definition listClusters :: "string \<Rightarrow> db \<Rightarrow> Cluster list result" where
  "listClusters userId d = load_clusters (user_cluster_join userId d) d"

definition listClustersForKotsApp :: "string \<Rightarrow> db \<Rightarrow> Cluster list result" where
  "listClustersForKotsApp appId d =
     load_clusters (concat (map (\<lambda>ad. sql_select (\<lambda>r. cl_id r = ad_cluster_id ad) (t_cluster d))
       (sql_select (\<lambda>ad. ad_app_id ad = appId) (t_app_downstream d)))) d"

section \<open>Creation\<close>

text \<open>The primary key and the unique index on tokens; several rows may have no token.\<close>

definition insert_cluster :: "cluster_row \<Rightarrow> db \<Rightarrow> db result" where
  "insert_cluster row d =
     (if cl_id row \<in> cl_id ` set (t_cluster d) \<or>
         (cl_token row \<noteq> None \<and> cl_token row \<in> cl_token ` set (t_cluster d))
      then Inl UniqueViolation else Inr (d\<lparr>t_cluster := t_cluster d @ [row]\<rparr>))"

definition tryE :: "('s \<Rightarrow> 's result) \<Rightarrow> ('s, unit) eff" where
  "tryE u s = (case u s of Inl e \<Rightarrow> (Inl e, s) | Inr s' \<Rightarrow> (Inr (), s'))"

definition insert_user_cluster :: "string \<Rightarrow> string \<Rightarrow> db \<Rightarrow> db" where
  "insert_user_cluster userId clusterId d =
     d\<lparr>t_user_cluster := t_user_cluster d @ [\<lparr>uc_user_id = userId, uc_cluster_id = clusterId\<rparr>]\<rparr>"

definition cluster_slug :: "string \<Rightarrow> db \<Rightarrow> string" where
  "cluster_slug base d = unique_slug base (map cl_slug (t_cluster d)) 0"

definition share_with :: "string option \<Rightarrow> string \<Rightarrow> (db, unit) eff" where
  "share_with userId clusterId =
     (if truthy_str userId then execE (insert_user_cluster (the userId) clusterId) else retE ())"

definition createNewShipCluster ::
  "(string \<Rightarrow> string) \<Rightarrow> string \<Rightarrow> string \<Rightarrow> string option \<Rightarrow> bool \<Rightarrow> string \<Rightarrow> string option \<Rightarrow> time \<Rightarrow>
   (db, Cluster) eff" where
  "createNewShipCluster slugify newId newToken userId isAllUsers title token now d =
     (let slug = cluster_slug (slugify title) d;
          tok = (if truthy_str token then the token else newToken)
      in bindE (transaction (thenE
           (tryE (insert_cluster \<lparr>cl_id = newId, cl_title = title, cl_slug = slug, cl_created_at = now,
              cl_updated_at = None, cl_token = Some tok, cl_cluster_type = ''ship'', cl_is_all_users = isAllUsers\<rparr>))
           (share_with userId newId)))
         (\<lambda>_. queryE (getCluster newId)) d)"

definition set_token :: "string \<Rightarrow> string \<Rightarrow> db \<Rightarrow> db result" where
  "set_token token clusterId d =
     (if \<exists>r \<in> set (t_cluster d). cl_id r \<noteq> clusterId \<and> cl_token r = Some token then Inl UniqueViolation
      else Inr (d\<lparr>t_cluster := sql_update (\<lambda>r. cl_id r = clusterId) (\<lambda>r. r\<lparr>cl_token := Some token\<rparr>) (t_cluster d)\<rparr>))"

definition insert_github :: "cluster_github_row \<Rightarrow> db \<Rightarrow> db result" where
  "insert_github row d =
     bindR (sql_insert cg_cluster_id row (t_cluster_github d)) (\<lambda>t. Inr (d\<lparr>t_cluster_github := t\<rparr>))"

definition createNewCluster ::
  "(string \<Rightarrow> string) \<Rightarrow> string \<Rightarrow> string \<Rightarrow> string option \<Rightarrow> bool \<Rightarrow> string \<Rightarrow> string \<Rightarrow>
   string \<Rightarrow> string \<Rightarrow> string option \<Rightarrow> int \<Rightarrow> time \<Rightarrow> (db, Cluster) eff" where
  "createNewCluster slugify newId newToken userId isAllUsers title type gitOwner gitRepo gitBranch gitInstallationId now d =
     (let slug = cluster_slug (slugify title) d
      in bindE (transaction (thenE
           (tryE (insert_cluster \<lparr>cl_id = newId, cl_title = title, cl_slug = slug, cl_created_at = now,
              cl_updated_at = None, cl_token = None, cl_cluster_type = type, cl_is_all_users = isAllUsers\<rparr>))
           (thenE
             (if type = ''ship'' then tryE (set_token newToken newId)
              else if type = ''gitops''
              then tryE (insert_github \<lparr>cg_cluster_id = newId, cg_owner = gitOwner, cg_repo = gitRepo,
                     cg_branch = gitBranch, cg_installation_id = gitInstallationId,
                     cg_is_deleted = Some False, cg_is_404 = Some False\<rparr>)
              else retE ())
             (share_with userId newId))))
         (\<lambda>_. queryE (getCluster newId)) d)"

section \<open>Updates\<close>

definition addUserToCluster :: "string \<Rightarrow> string \<Rightarrow> db \<Rightarrow> db" where
  "addUserToCluster clusterId userId d =
     insert_user_cluster userId clusterId
       (d\<lparr>t_user_cluster := sql_delete (\<lambda>u. uc_user_id u = userId \<and> uc_cluster_id u = clusterId) (t_user_cluster d)\<rparr>)"

definition updateClusterGithubInstallationId :: "int \<Rightarrow> string \<Rightarrow> db \<Rightarrow> db" where
  "updateClusterGithubInstallationId installationId owner d =
     d\<lparr>t_cluster_github := sql_update (\<lambda>g. cg_owner g = owner \<and> cg_is_deleted g = Some True)
         (\<lambda>g. g\<lparr>cg_installation_id := installationId, cg_is_deleted := Some False, cg_is_404 := Some False\<rparr>)
         (t_cluster_github d)\<rparr>"

definition updateClusterGithubInstallationRepoAdded :: "int \<Rightarrow> string \<Rightarrow> string \<Rightarrow> db \<Rightarrow> db" where
  "updateClusterGithubInstallationRepoAdded installationId owner repo d =
     d\<lparr>t_cluster_github := sql_update
         (\<lambda>g. cg_installation_id g = installationId \<and> cg_owner g = owner \<and> cg_repo g = repo \<and> cg_is_404 g = Some True)
         (\<lambda>g. g\<lparr>cg_is_404 := Some False\<rparr>) (t_cluster_github d)\<rparr>"

definition updateClusterGithubInstallationsAsDeleted :: "int \<Rightarrow> db \<Rightarrow> db" where
  "updateClusterGithubInstallationsAsDeleted installationId d =
     d\<lparr>t_cluster_github := sql_update
         (\<lambda>g. cg_installation_id g = installationId \<and> (cg_is_deleted g = Some False \<or> cg_is_deleted g = None))
         (\<lambda>g. g\<lparr>cg_is_deleted := Some True\<rparr>) (t_cluster_github d)\<rparr>"

text \<open>\<open>s.replace(pat, "")\<close>: the first occurrence of a string is taken out.\<close>

fun remove_first :: "string \<Rightarrow> string \<Rightarrow> string" where
  "remove_first pat [] = []"
| "remove_first pat (c # cs) =
     (if starts_with pat (c # cs) then drop (length pat) (c # cs) else c # remove_first pat cs)"

definition slug_number :: "string \<Rightarrow> string \<Rightarrow> int option" where
  "slug_number slugProposal slug =
     (let result = remove_first ''-'' (remove_first slugProposal slug)
      in if result \<noteq> [] then parse_int result else Some 0)"

text \<open>\<^verbatim>\<open>_.max\<close> passes over \<open>NaN\<close>; of no numbers it is \<open>undefined\<close>, and \<open>|| 0\<close> makes that zero.\<close>

definition max_number :: "int option list \<Rightarrow> int" where
  "max_number ns = (let xs = map the (filter (\<lambda>n. n \<noteq> None) ns) in if xs = [] then 0 else Max (set xs))"

definition rename_slug :: "string \<Rightarrow> string list \<Rightarrow> string" where
  "rename_slug slugProposal existingSlugs =
     (if slugProposal \<in> set existingSlugs
      then slugProposal @ ''-'' @ show_int (max_number (map (slug_number slugProposal) existingSlugs) + 1)
      else slugProposal)"

definition updateCluster ::
  "(string \<Rightarrow> string) \<Rightarrow> string \<Rightarrow> string \<Rightarrow> string \<Rightarrow> time \<Rightarrow> (db, bool) eff" where
  "updateCluster slugify userId clusterId clusterName now =
     bindE (queryE (listClusters userId)) (\<lambda>clusters.
       let finalSlug = rename_slug (slugify clusterName) (map c_slug clusters) in
       thenE (execE (\<lambda>d. d\<lparr>t_cluster := sql_update (\<lambda>r. cl_id r = clusterId)
           (\<lambda>r. r\<lparr>cl_title := clusterName, cl_slug := finalSlug, cl_updated_at := Some now\<rparr>) (t_cluster d)\<rparr>))
         (retE True))"

definition getApplicationCount :: "string \<Rightarrow> db \<Rightarrow> nat" where
  "getApplicationCount clusterId d =
     length (sql_select (\<lambda>c. c = clusterId) (t_watch_cluster d)) +
     length (sql_select (\<lambda>ad. ad_cluster_id ad = clusterId) (t_app_downstream d))"

definition deleteCluster :: "string \<Rightarrow> string \<Rightarrow> (db, bool) eff" where
  "deleteCluster userId clusterId d =
     (if getApplicationCount clusterId d > 0
      then (Inl (ReplicatedError ''This cluster has applications deployed to it so it cannot be deleted.''), d)
      else transaction (bindE (queryE (getCluster clusterId)) (\<lambda>_.
             thenE (execE (\<lambda>d. d\<lparr>t_cluster := sql_delete (\<lambda>r. cl_id r = clusterId) (t_cluster d)\<rparr>))
               (thenE (execE (\<lambda>d. d\<lparr>t_user_cluster := sql_delete (\<lambda>u. uc_user_id u = userId \<and> uc_cluster_id u = clusterId)
                    (t_user_cluster d)\<rparr>))
                 (retE True)))) d)"

section \<open>Helm charts\<close>

record helm_application =
  ha_name :: string
  ha_namespace :: string
  ha_version :: "int option"
  ha_firstDeployedAt :: time
  ha_lastDeployedAt :: time
  ha_isDeleted :: "bool option"
  ha_chartVersion :: string
  ha_appVersion :: string
  ha_sources :: "string list"

definition insert_source :: "string \<Rightarrow> string \<Rightarrow> db \<Rightarrow> db result" where
  "insert_source chartId source d =
     bindR (sql_insert (\<lambda>s. (hs_helm_chart_id s, hs_source s)) \<lparr>hs_helm_chart_id = chartId, hs_source = source\<rparr>
       (t_helm_chart_source d)) (\<lambda>t. Inr (d\<lparr>t_helm_chart_source := t\<rparr>))"

definition insert_sources :: "string \<Rightarrow> string list \<Rightarrow> (db, unit) eff" where
  "insert_sources chartId sources = thenE (forE (\<lambda>s. tryE (insert_source chartId s)) sources) (retE ())"

definition createHelmApplication :: "string \<Rightarrow> string \<Rightarrow> helm_application \<Rightarrow> (db, unit) eff" where
  "createHelmApplication newId clusterId h =
     thenE (tryE (\<lambda>d. bindR (sql_insert hc_id
         \<lparr>hc_id = newId, hc_cluster_id = clusterId, hc_helm_name = ha_name h, hc_namespace = ha_namespace h,
          hc_version = ha_version h, hc_first_deployed_at = ha_firstDeployedAt h,
          hc_last_deployed_at = ha_lastDeployedAt h, hc_is_deleted = ha_isDeleted h,
          hc_chart_version = ha_chartVersion h, hc_app_version = ha_appVersion h\<rparr> (t_helm_chart d))
         (\<lambda>t. Inr (d\<lparr>t_helm_chart := t\<rparr>))))
       (insert_sources newId (ha_sources h))"

definition updateHelmApplication :: "string \<Rightarrow> helm_application \<Rightarrow> (db, unit) eff" where
  "updateHelmApplication chartId h =
     thenE (execE (\<lambda>d. d\<lparr>t_helm_chart := sql_update (\<lambda>r. hc_id r = chartId)
         (\<lambda>r. r\<lparr>hc_namespace := ha_namespace h, hc_version := ha_version h,
               hc_first_deployed_at := ha_firstDeployedAt h, hc_last_deployed_at := ha_lastDeployedAt h,
               hc_is_deleted := ha_isDeleted h, hc_chart_version := ha_chartVersion h,
               hc_app_version := ha_appVersion h\<rparr>) (t_helm_chart d)\<rparr>))
     (thenE (execE (\<lambda>d. d\<lparr>t_helm_chart_source := sql_delete (\<lambda>s. hs_helm_chart_id s = chartId) (t_helm_chart_source d)\<rparr>))
       (insert_sources chartId (ha_sources h)))"

definition createOrUpdateHelmApplication :: "string \<Rightarrow> string \<Rightarrow> helm_application \<Rightarrow> (db, unit) eff" where
  "createOrUpdateHelmApplication newId clusterId h d =
     (case sql_select (\<lambda>r. hc_cluster_id r = clusterId \<and> hc_helm_name r = ha_name h) (t_helm_chart d) of
        [] \<Rightarrow> createHelmApplication newId clusterId h d
      | r # _ \<Rightarrow> updateHelmApplication (hc_id r) h d)"

definition getChart :: "string \<Rightarrow> db \<Rightarrow> helm_chart_row result" where
  "getChart chartId d =
     (case sql_select (\<lambda>r. hc_id r = chartId) (t_helm_chart d) of
        [] \<Rightarrow> Inl (ReplicatedError (''No helm chart found for ID '' @ chartId @
            ''. Check your watch dashboard to see if you have already unforked this chart''))
      | r # _ \<Rightarrow> Inr r)"

definition listHelmChartsInCluster :: "string \<Rightarrow> db \<Rightarrow> helm_chart_row list result" where
  "listHelmChartsInCluster clusterId d =
     mapR (\<lambda>r. getChart (hc_id r) d) (sql_select (\<lambda>r. hc_cluster_id r = clusterId) (t_helm_chart d))"


section \<open>The mutations\<close>

text \<open>The session's user must be one the cluster is shared with: \<^verbatim>\<open>context.getCluster\<close>.\<close>

definition context_getCluster :: "string \<Rightarrow> string \<Rightarrow> db \<Rightarrow> Cluster result" where
  "context_getCluster userId clusterId d =
     bindR (listClusters userId d) (\<lambda>clusters.
       case find (\<lambda>c. c_id c = clusterId) clusters of
         None \<Rightarrow> Inl (ReplicatedError ''Cluster not found'') | Some c \<Rightarrow> Inr c)"

definition context_listClusters :: "string \<Rightarrow> db \<Rightarrow> Cluster list result" where
  "context_listClusters userId d =
     bindR (listClusters userId d) (\<lambda>xs. bindR (listAllUsersClusters d) (\<lambda>ys. Inr (xs @ ys)))"

definition updateCluster_mutation ::
  "(string \<Rightarrow> string) \<Rightarrow> string \<Rightarrow> string \<Rightarrow> string \<Rightarrow> time \<Rightarrow> (db, Cluster) eff" where
  "updateCluster_mutation slugify userId clusterId clusterName now =
     bindE (queryE (context_getCluster userId clusterId)) (\<lambda>cluster.
     thenE (updateCluster slugify userId (c_id cluster) clusterName now)
       (queryE (context_getCluster userId clusterId)))"

definition deleteCluster_mutation :: "string \<Rightarrow> string \<Rightarrow> (db, bool) eff" where
  "deleteCluster_mutation userId clusterId =
     bindE (queryE (context_getCluster userId clusterId)) (\<lambda>cluster.
     thenE (deleteCluster userId (c_id cluster)) (retE True))"

section \<open>Lemmas\<close>

text \<open>Only the rows of an id and the repositories of that id matter to its lookup.\<close>

lemma getCluster_local:
  assumes "sql_select (\<lambda>r. cl_id r = j) (t_cluster d') = sql_select (\<lambda>r. cl_id r = j) (t_cluster d)"
    and "sql_select (\<lambda>g. cg_cluster_id g = j) (t_cluster_github d') = sql_select (\<lambda>g. cg_cluster_id g = j) (t_cluster_github d)"
  shows "getCluster j d' = getCluster j d"
proof -
  have pick: "sql_select (\<lambda>r. cl_id r = j) (sql_select (\<lambda>r. cl_id r = j) t) = sql_select (\<lambda>r. cl_id r = j) t"
    for t :: "cluster_row list" by (simp add: sql_select_def)
  have join: "concat (map (\<lambda>r. map (\<lambda>_. r) (sql_select (\<lambda>g. cg_cluster_id g = cl_id r) (t_cluster_github e)))
       (sql_select (\<lambda>r. cl_id r = j) (t_cluster e)))
     = concat (map (\<lambda>r. map (\<lambda>_. r) (sql_select (\<lambda>g. cg_cluster_id g = j) (t_cluster_github e)))
       (sql_select (\<lambda>r. cl_id r = j) (t_cluster e)))" for e :: db
    by (rule arg_cong [of _ _ concat], rule map_cong) (auto simp: sql_select_def)
  have git: "getGitOpsCluster j d' = getGitOpsCluster j d"
    by (simp only: getGitOpsCluster_def join) (simp only: assms)
  have ship: "getShipOpsCluster j d' = getShipOpsCluster j d"
    unfolding getShipOpsCluster_def assms ..
  show ?thesis
  proof (cases "sql_select (\<lambda>r. cl_id r = j) (t_cluster d)")
    case Nil
    with assms show ?thesis by (simp add: getCluster_def first_row_def)
  next
    case (Cons r rs)
    then have "cl_id r = j" by (auto dest: sql_select_Cons)
    with Cons assms git ship show ?thesis
      by (simp add: getCluster_def first_row_def cluster_of_type_def)
  qed
qed

lemma select_append: "sql_select p (xs @ ys) = sql_select p xs @ sql_select p ys"
  by (simp add: sql_select_def)

lemma select_no_key: "k \<notin> key ` set t \<Longrightarrow> sql_select (\<lambda>r. key r = k) t = []"
  by (auto simp: sql_select_def filter_empty_conv)

lemma cluster_slug_fresh: "cluster_slug base d \<notin> cl_slug ` set (t_cluster d)"
  using unique_slug_fresh [of base "map cl_slug (t_cluster d)" 0] by (simp add: cluster_slug_def)

interpretation cluster_slugs: slugged_table
  "\<lambda>d. map cl_slug (t_cluster d)" "\<lambda>row s d. d\<lparr>t_cluster := t_cluster d @ [row\<lparr>cl_slug := s\<rparr>]\<rparr>"
  by unfold_locales simp

lemma share_with_run:
  "share_with userId c d = (Inr (), if truthy_str userId then insert_user_cluster (the userId) c d else d)"
  by (simp add: share_with_def)

lemma share_with_cluster [simp]:
  "t_cluster (insert_user_cluster u c d) = t_cluster d"
  "t_cluster_github (insert_user_cluster u c d) = t_cluster_github d"
  by (simp_all add: insert_user_cluster_def)

section \<open>Creation\<close>

definition new_ship_row :: "(string \<Rightarrow> string) \<Rightarrow> string \<Rightarrow> string \<Rightarrow> bool \<Rightarrow> string \<Rightarrow> time \<Rightarrow> db \<Rightarrow> cluster_row" where
  "new_ship_row slugify newId tok isAllUsers title now d =
     \<lparr>cl_id = newId, cl_title = title, cl_slug = cluster_slug (slugify title) d, cl_created_at = now,
      cl_updated_at = None, cl_token = Some tok, cl_cluster_type = ''ship'', cl_is_all_users = isAllUsers\<rparr>"

lemma createNewShipCluster_run:
  assumes "tok = (if truthy_str token then the token else newToken)"
  shows "createNewShipCluster slugify newId newToken userId isAllUsers title token now d =
    (if newId \<in> cl_id ` set (t_cluster d) \<or> Some tok \<in> cl_token ` set (t_cluster d) then (Inl UniqueViolation, d)
     else let d1 = d\<lparr>t_cluster := t_cluster d @ [new_ship_row slugify newId tok isAllUsers title now d]\<rparr>;
              d' = (if truthy_str userId then insert_user_cluster (the userId) newId d1 else d1)
          in (Inr (mapCluster (new_ship_row slugify newId tok isAllUsers title now d) (Some tok)), d'))"
  using assms
  by (auto simp: createNewShipCluster_def new_ship_row_def transaction_def tryE_def insert_cluster_def
      share_with_run eff_simps Let_def getCluster_def first_row_def cluster_of_type_def getShipOpsCluster_def
      select_append select_no_key [of newId cl_id] sql_select_def [of _ "[_]"])

text \<open>
  creating a cluster for an operator either rejects and changes nothing, or adds one cluster
  whose slug no other has, that its id, its slug and its deploy token all lead to, and leaves every
  other cluster as it was.
\<close>

theorem createNewShipCluster_correct:
  "case createNewShipCluster slugify newId newToken userId isAllUsers title token now d of
     (Inl e, d') \<Rightarrow> d' = d
   | (Inr c, d') \<Rightarrow>
       c_id c = newId \<and> c_title c = title \<and> c_slug c \<notin> cl_slug ` set (t_cluster d) \<and>
       getCluster newId d' = Inr c \<and> getIdFromSlug_cluster (c_slug c) d' = Inr newId \<and>
       getFromDeployToken (if truthy_str token then the token else newToken) d' = Inr c \<and>
       (\<forall>j. j = newId \<or> getCluster j d' = getCluster j d)"
proof -
  define tok where "tok = (if truthy_str token then the token else newToken)"
  note run = createNewShipCluster_run [OF tok_def, of slugify newId userId isAllUsers title now d]
  show ?thesis
  proof (cases "newId \<in> cl_id ` set (t_cluster d) \<or> Some tok \<in> cl_token ` set (t_cluster d)")
    case True
    then show ?thesis by (simp add: run)
  next
    case False
    let ?row = "new_ship_row slugify newId tok isAllUsers title now d"
    let ?d1 = "d\<lparr>t_cluster := t_cluster d @ [?row]\<rparr>"
    let ?d' = "if truthy_str userId then insert_user_cluster (the userId) newId ?d1 else ?d1"
    have t: "t_cluster ?d' = t_cluster d @ [?row]" "t_cluster_github ?d' = t_cluster_github d" by simp_all
    have row: "cl_id ?row = newId" "cl_slug ?row = cluster_slug (slugify title) d" "cl_token ?row = Some tok"
      "cl_cluster_type ?row = ''ship''" "cl_title ?row = title" by (simp_all add: new_ship_row_def)
    have get: "getCluster newId ?d' = Inr (mapCluster ?row (Some tok))"
      using False row t by (simp add: getCluster_def first_row_def cluster_of_type_def getShipOpsCluster_def
          select_append select_no_key [of newId cl_id] sql_select_def [of _ "[_]"])
    have slug: "getIdFromSlug_cluster (cluster_slug (slugify title) d) ?d' = Inr newId"
      using row t select_no_key [OF cluster_slug_fresh, of "slugify title" d]
      by (simp add: getIdFromSlug_cluster_def select_append sql_select_def [of _ "[_]"])
    have token: "getFromDeployToken tok ?d' = getCluster newId ?d'"
      using row t False by (simp add: getFromDeployToken_def select_append select_no_key [of "Some tok" cl_token]
          sql_select_def [of _ "[_]"])
    have other: "getCluster j ?d' = getCluster j d" if "j \<noteq> newId" for j
      using that row t by (intro getCluster_local) (simp_all add: select_append sql_select_def [of _ "[_]"])
    show ?thesis
      using False get slug token other cluster_slug_fresh [of "slugify title" d]
      by (auto simp: run Let_def mapCluster_def row tok_def [symmetric])
  qed
qed


text \<open>
  however clusters are created, one after the other, with or without an operator, no two have
  the same slug, as long as none had before.
\<close>

theorem created_clusters_have_distinct_slugs:
  assumes "distinct (map cl_slug (t_cluster d))"
  shows "distinct (map cl_slug (t_cluster (snd (createNewShipCluster slugify i t userId isAllUsers title token now d)))) \<and>
    distinct (map cl_slug (t_cluster (snd (createNewCluster slugify i t userId isAllUsers title type owner repo branch inst now d))))"
proof -
  have new: "distinct (map cl_slug (t_cluster d) @ [cluster_slug (slugify title) d])"
    using assms cluster_slug_fresh [of "slugify title" d] by simp
  have "map cl_slug (t_cluster (snd (createNewShipCluster slugify i t userId isAllUsers title token now d)))
      \<in> {map cl_slug (t_cluster d), map cl_slug (t_cluster d) @ [cluster_slug (slugify title) d]}"
    by (simp add: createNewShipCluster_run [OF refl] Let_def new_ship_row_def)
  moreover have "map cl_slug (t_cluster (snd (createNewCluster slugify i t userId isAllUsers title type owner repo branch inst now d)))
      \<in> {map cl_slug (t_cluster d), map cl_slug (t_cluster d) @ [cluster_slug (slugify title) d]}"
    by (auto simp: createNewCluster_def Let_def transaction_def tryE_def insert_cluster_def set_token_def
        insert_github_def share_with_run eff_simps map_sql_update bindR_def split: sum.splits prod.splits if_splits)
  ultimately show ?thesis using assms new by fastforce
qed

lemma created_clusters_have_distinct_slugs_witness:
  "distinct (map cl_slug (t_cluster (snd (createNewShipCluster (\<lambda>s. s) ''c'' ''t'' None True ''this'' None 1 empty_db))))"
  using created_clusters_have_distinct_slugs [of empty_db "\<lambda>s. s" "''c''" "''t''" None True "''this''" None 1]
  by (simp add: empty_db_def)

section \<open>Renaming\<close>

lemma remove_first_prefix: "remove_first p (p @ s) = s"
proof (cases "p @ s")
  case Nil
  then show ?thesis by simp
next
  case (Cons c cs)
  then have "remove_first p (p @ s) = (if starts_with p (p @ s) then drop (length p) (p @ s) else c # remove_first p cs)"
    by simp
  then show ?thesis by simp
qed

lemma show_int_nonempty [simp]: "show_int n \<noteq> []"
  by (simp add: show_int_def)

lemma slug_number_suffix: "0 \<le> n \<Longrightarrow> slug_number p (p @ ''-'' @ show_int n) = Some n"
  using remove_first_prefix [of p "''-'' @ show_int n"] remove_first_prefix [of "''-''" "show_int n"]
  by (simp add: slug_number_def)

lemma slug_number_self: "slug_number p p = Some 0"
  using remove_first_prefix [of p "[]"] by (simp add: slug_number_def)

lemma max_number_ge: "Some n \<in> set ns \<Longrightarrow> n \<le> max_number ns"
proof -
  assume n: "Some n \<in> set ns"
  let ?xs = "map the (filter (\<lambda>n. n \<noteq> None) ns)"
  have xs: "n \<in> set ?xs" using n by force
  then have "?xs \<noteq> []" by (metis empty_iff list.set(1))
  then have "max_number ns = Max (set ?xs)" by (simp add: max_number_def Let_def)
  with xs show ?thesis by simp
qed

lemma rename_slug_fresh: "rename_slug p slugs \<notin> set slugs"
proof
  assume in_slugs: "rename_slug p slugs \<in> set slugs"
  let ?m = "max_number (map (slug_number p) slugs)"
  have p: "p \<in> set slugs" using in_slugs by (auto simp: rename_slug_def split: if_splits)
  then have "Some 0 \<in> set (map (slug_number p) slugs)" using slug_number_self [of p] by force
  then have "0 \<le> ?m" by (rule max_number_ge)
  moreover have "p @ ''-'' @ show_int (?m + 1) \<in> set slugs" using in_slugs p by (simp add: rename_slug_def)
  ultimately have "Some (?m + 1) \<in> set (map (slug_number p) slugs)"
    using slug_number_suffix [of "?m + 1" p] by force
  then have "?m + 1 \<le> ?m" by (rule max_number_ge)
  then show False by simp
qed

text \<open>
  renaming a cluster gives it a slug that none of the clusters shared with the caller has (not
  even its own old one), or rejects and changes nothing when those cannot be read.
\<close>

theorem updateCluster_slug:
  "case updateCluster slugify userId clusterId clusterName now d of
     (Inl e, d') \<Rightarrow> d' = d
   | (Inr ok, d') \<Rightarrow> ok \<and>
       (\<exists>cs slug. listClusters userId d = Inr cs \<and> slug \<notin> c_slug ` set cs \<and>
          (slug = slugify clusterName \<or> slugify clusterName \<in> c_slug ` set cs) \<and>
          t_cluster d' = map (\<lambda>r. if cl_id r = clusterId
             then r\<lparr>cl_title := clusterName, cl_slug := slug, cl_updated_at := Some now\<rparr> else r) (t_cluster d))"
proof (cases "listClusters userId d")
  case (Inl e)
  then show ?thesis by (simp add: updateCluster_def)
next
  case (Inr cs)
  moreover have "rename_slug (slugify clusterName) (map c_slug cs) \<notin> c_slug ` set cs"
    using rename_slug_fresh [of "slugify clusterName" "map c_slug cs"] by simp
  moreover have "rename_slug (slugify clusterName) (map c_slug cs) = slugify clusterName \<or>
      slugify clusterName \<in> c_slug ` set cs" by (auto simp: rename_slug_def)
  ultimately show ?thesis by (auto simp: updateCluster_def Let_def sql_update_def)
qed

definition two_users_db :: db where
  "two_users_db = empty_db\<lparr>
     t_cluster := [\<lparr>cl_id = ''c1'', cl_title = ''Prod'', cl_slug = ''prod'', cl_created_at = 1, cl_updated_at = None,
                    cl_token = Some ''t1'', cl_cluster_type = ''ship'', cl_is_all_users = False\<rparr>,
                   \<lparr>cl_id = ''c2'', cl_title = ''Test'', cl_slug = ''test'', cl_created_at = 2, cl_updated_at = None,
                    cl_token = Some ''t2'', cl_cluster_type = ''ship'', cl_is_all_users = False\<rparr>],
     t_user_cluster := [\<lparr>uc_user_id = ''u1'', uc_cluster_id = ''c1''\<rparr>, \<lparr>uc_user_id = ''u2'', uc_cluster_id = ''c2''\<rparr>]\<rparr>"

text \<open>
  only the caller's clusters are looked at, so renaming can give a cluster the slug of
  another one, and then the slug leads to only one of the two.
\<close>

theorem rename_can_take_a_slug:
  "let (r, d') = updateCluster (\<lambda>s. if s = ''Prod'' then ''prod'' else s) ''u2'' ''c2'' ''Prod'' 3 two_users_db in
   r = Inr True \<and> map cl_slug (t_cluster d') = [''prod'', ''prod''] \<and> getIdFromSlug_cluster ''prod'' d' = Inr ''c1''"
  by code_simp

section \<open>Deletion\<close>

text \<open>
  a cluster is deleted only when no application is deployed to it and it can be read; then its
  id leads nowhere and every other cluster is as it was.  Otherwise nothing changes.
\<close>

theorem deleteCluster_exact:
  "case deleteCluster userId clusterId d of
     (Inl e, d') \<Rightarrow> d' = d \<and> (getApplicationCount clusterId d > 0 \<or> getCluster clusterId d = Inl e)
   | (Inr ok, d') \<Rightarrow> ok \<and> getApplicationCount clusterId d = 0 \<and> getCluster clusterId d' = Inl TypeError \<and>
       t_app d' = t_app d \<and> t_app_downstream d' = t_app_downstream d \<and>
       (\<forall>j. j = clusterId \<or> getCluster j d' = getCluster j d)"
proof (cases "getApplicationCount clusterId d > 0")
  case True
  then show ?thesis by (simp add: deleteCluster_def)
next
  case no_app: False
  let ?d' = "d\<lparr>t_cluster := sql_delete (\<lambda>r. cl_id r = clusterId) (t_cluster d),
    t_user_cluster := sql_delete (\<lambda>u. uc_user_id u = userId \<and> uc_cluster_id u = clusterId) (t_user_cluster d)\<rparr>"
  show ?thesis
  proof (cases "getCluster clusterId d")
    case (Inl e)
    with no_app show ?thesis by (simp add: deleteCluster_def transaction_def)
  next
    case (Inr c)
    have "getCluster j ?d' = getCluster j d" if "j \<noteq> clusterId" for j
      using that by (intro getCluster_local) (simp_all add: select_delete_other)
    with no_app Inr show ?thesis
      by (auto simp: deleteCluster_def transaction_def getCluster_def first_row_def)
  qed
qed

section \<open>Sharing\<close>

text \<open>
  after a cluster is shared with a user, the user's list holds it exactly as often as the table
  does, however often it was shared before, and the lists of the other users are as they were.
\<close>

theorem addUserToCluster_once:
  "filter (\<lambda>r. cl_id r = clusterId) (user_cluster_join userId (addUserToCluster clusterId userId d))
     = filter (\<lambda>r. cl_id r = clusterId) (t_cluster d) \<and>
   addUserToCluster clusterId userId (addUserToCluster clusterId userId d) = addUserToCluster clusterId userId d \<and>
   (\<forall>u. u = userId \<or> listClusters u (addUserToCluster clusterId userId d) = listClusters u d)"
proof (intro conjI allI)
  let ?d = "addUserToCluster clusterId userId d"
  have one: "sql_select (\<lambda>u. uc_cluster_id u = clusterId \<and> uc_user_id u = userId) (t_user_cluster ?d)
      = [\<lparr>uc_user_id = userId, uc_cluster_id = clusterId\<rparr>]"
    by (simp add: addUserToCluster_def insert_user_cluster_def sql_select_def sql_delete_def filter_empty_conv)
  have "filter (\<lambda>r. cl_id r = clusterId) (concat (map (\<lambda>r. map (\<lambda>_. r)
        (sql_select (\<lambda>u. uc_cluster_id u = cl_id r \<and> uc_user_id u = userId) (t_user_cluster ?d))) t))
      = filter (\<lambda>r. cl_id r = clusterId) t" for t :: "cluster_row list"
    by (induction t) (auto simp: one filter_empty_conv)
  then show "filter (\<lambda>r. cl_id r = clusterId) (user_cluster_join userId ?d)
     = filter (\<lambda>r. cl_id r = clusterId) (t_cluster d)"
    by (simp add: user_cluster_join_def addUserToCluster_def)
next
  show "addUserToCluster clusterId userId (addUserToCluster clusterId userId d) = addUserToCluster clusterId userId d"
    by (simp add: addUserToCluster_def insert_user_cluster_def sql_delete_def)
next
  fix u
  let ?d = "addUserToCluster clusterId userId d"
  have "sql_select (\<lambda>v. uc_cluster_id v = c \<and> uc_user_id v = u) (t_user_cluster ?d)
      = sql_select (\<lambda>v. uc_cluster_id v = c \<and> uc_user_id v = u) (t_user_cluster d)" if "u \<noteq> userId" for c
    using that by (auto simp: addUserToCluster_def insert_user_cluster_def sql_select_def sql_delete_def intro: filter_cong)
  moreover have "cluster_of_type ty j ?d = cluster_of_type ty j d" for ty j
    by (simp add: cluster_of_type_def getGitOpsCluster_def getShipOpsCluster_def addUserToCluster_def)
  moreover have "t_cluster ?d = t_cluster d" by (simp add: addUserToCluster_def)
  ultimately show "u = userId \<or> listClusters u ?d = listClusters u d"
    by (cases "u = userId") (simp_all add: listClusters_def load_clusters_def user_cluster_join_def)
qed


section \<open>Reported charts\<close>

definition sources_of :: "string \<Rightarrow> db \<Rightarrow> string list" where
  "sources_of chartId d = map hs_source (sql_select (\<lambda>s. hs_helm_chart_id s = chartId) (t_helm_chart_source d))"

definition source_rows :: "string \<Rightarrow> string list \<Rightarrow> helm_chart_source_row list" where
  "source_rows chartId sources = map (\<lambda>s. \<lparr>hs_helm_chart_id = chartId, hs_source = s\<rparr>) sources"

lemma insert_source_run:
  "insert_source c s d =
     (if s \<in> set (sources_of c d) then Inl UniqueViolation
      else Inr (d\<lparr>t_helm_chart_source := t_helm_chart_source d @ source_rows c [s]\<rparr>))"
  by (auto simp: insert_source_def sql_insert_def sources_of_def source_rows_def sql_select_def image_iff)

lemma sources_of_append [simp]:
  "sources_of c (d\<lparr>t_helm_chart_source := t @ source_rows c ss\<rparr>) =
     sources_of c (d\<lparr>t_helm_chart_source := t\<rparr>) @ ss"
  by (simp add: sources_of_def source_rows_def sql_select_def filter_map o_def)

lemma insert_sources_Cons:
  "insert_sources c (s # ss) d =
     (case insert_source c s d of Inl e \<Rightarrow> (Inl e, d) | Inr d' \<Rightarrow> insert_sources c ss d')"
  by (simp add: insert_sources_def eff_simps tryE_def split: sum.splits prod.splits)

text \<open>All of them, when none is there twice; otherwise those before the first that is.\<close>

lemma insert_sources_run:
  "\<exists>done. insert_sources c ss d =
      (if distinct ss \<and> set ss \<inter> set (sources_of c d) = {} then Inr () else Inl UniqueViolation,
       d\<lparr>t_helm_chart_source := t_helm_chart_source d @ source_rows c done\<rparr>) \<and>
     prefix done ss \<and> ((distinct ss \<and> set ss \<inter> set (sources_of c d) = {}) = (done = ss))"
proof (induction ss arbitrary: d)
  case Nil
  then show ?case by (auto simp: insert_sources_def source_rows_def thenE_def intro!: exI [of _ "[]"])
next
  case (Cons s ss)
  show ?case
  proof (cases "s \<in> set (sources_of c d)")
    case True
    then show ?thesis
      by (intro exI [of _ "[]"]) (simp add: insert_sources_Cons insert_source_run source_rows_def)
  next
    case False
    let ?d = "d\<lparr>t_helm_chart_source := t_helm_chart_source d @ source_rows c [s]\<rparr>"
    have src: "set (sources_of c ?d) = insert s (set (sources_of c d))"
      using sources_of_append [where c = c and d = d and t = "t_helm_chart_source d" and ss = "[s]"] by simp
    from Cons obtain ok where
      "insert_sources c ss ?d =
        (if distinct ss \<and> set ss \<inter> set (sources_of c ?d) = {} then Inr () else Inl UniqueViolation,
         ?d\<lparr>t_helm_chart_source := t_helm_chart_source ?d @ source_rows c ok\<rparr>)"
      "prefix ok ss" "(distinct ss \<and> set ss \<inter> set (sources_of c ?d) = {}) = (ok = ss)" by blast
    with False src show ?thesis
      by (intro exI [of _ "s # ok"])
        (auto simp: insert_sources_Cons insert_source_run source_rows_def)
  qed
qed

text \<open>What a report says of a chart.\<close>

definition chart_as_reported :: "helm_application \<Rightarrow> helm_chart_row \<Rightarrow> bool" where
  "chart_as_reported h r \<longleftrightarrow>
     hc_helm_name r = ha_name h \<and> hc_namespace r = ha_namespace h \<and> hc_version r = ha_version h \<and>
     hc_first_deployed_at r = ha_firstDeployedAt h \<and> hc_last_deployed_at r = ha_lastDeployedAt h \<and>
     hc_is_deleted r = ha_isDeleted h \<and> hc_chart_version r = ha_chartVersion h \<and> hc_app_version r = ha_appVersion h"

lemma insert_sources_reported:
  assumes "sources_of c d = []" and "row \<in> set (t_helm_chart d)" "hc_id row = c" "hc_cluster_id row = clusterId"
    and "chart_as_reported h row" and "insert_sources c (ha_sources h) d = (r, d')"
  shows "(r = (if distinct (ha_sources h) then Inr () else Inl UniqueViolation)) \<and>
    (\<exists>row \<in> set (t_helm_chart d'). hc_cluster_id row = clusterId \<and> chart_as_reported h row \<and>
       prefix (sources_of (hc_id row) d') (ha_sources h) \<and>
       (distinct (ha_sources h) = (sources_of (hc_id row) d' = ha_sources h)))"
proof -
  obtain ok where ok: "insert_sources c (ha_sources h) d =
      (if distinct (ha_sources h) \<and> set (ha_sources h) \<inter> set (sources_of c d) = {} then Inr () else Inl UniqueViolation,
       d\<lparr>t_helm_chart_source := t_helm_chart_source d @ source_rows c ok\<rparr>)"
     "prefix ok (ha_sources h)"
     "(distinct (ha_sources h) \<and> set (ha_sources h) \<inter> set (sources_of c d) = {}) = (ok = ha_sources h)"
    using insert_sources_run [of c "ha_sources h" d] by blast
  then have "r = (if distinct (ha_sources h) then Inr () else Inl UniqueViolation)"
    "d' = d\<lparr>t_helm_chart_source := t_helm_chart_source d @ source_rows c ok\<rparr>"
    using assms(1,6) by auto
  then show ?thesis
    using ok(2,3) assms sources_of_append [where c = c and d = d and t = "t_helm_chart_source d" and ss = ok]
    by (auto intro!: bexI [of _ row])
qed

text \<open>
  when an operator reports a Helm release, the chart of that cluster and name holds what was
  reported, whether it was known before or not.  The report is accepted exactly when no source is
  listed twice, and then those are its sources; otherwise it rejects with the chart already written
  and only the sources before the repeated one, as there is no transaction.
\<close>

theorem helm_report:
  assumes "newId \<notin> hc_id ` set (t_helm_chart d)" and "sources_of newId d = []"
  shows "let (r, d') = createOrUpdateHelmApplication newId clusterId h d in
    (r = (if distinct (ha_sources h) then Inr () else Inl UniqueViolation)) \<and>
    (\<exists>row \<in> set (t_helm_chart d'). hc_cluster_id row = clusterId \<and> chart_as_reported h row \<and>
       prefix (sources_of (hc_id row) d') (ha_sources h) \<and>
       (distinct (ha_sources h) = (sources_of (hc_id row) d' = ha_sources h)))"
proof (cases "sql_select (\<lambda>r. hc_cluster_id r = clusterId \<and> hc_helm_name r = ha_name h) (t_helm_chart d)")
  case Nil
  let ?row = "\<lparr>hc_id = newId, hc_cluster_id = clusterId, hc_helm_name = ha_name h, hc_namespace = ha_namespace h,
          hc_version = ha_version h, hc_first_deployed_at = ha_firstDeployedAt h,
          hc_last_deployed_at = ha_lastDeployedAt h, hc_is_deleted = ha_isDeleted h,
          hc_chart_version = ha_chartVersion h, hc_app_version = ha_appVersion h\<rparr>"
  let ?d = "d\<lparr>t_helm_chart := t_helm_chart d @ [?row]\<rparr>"
  have "createOrUpdateHelmApplication newId clusterId h d = insert_sources newId (ha_sources h) ?d"
    using Nil assms(1) by (simp add: createOrUpdateHelmApplication_def createHelmApplication_def eff_simps tryE_def
        sql_insert_def bindR_def)
  moreover have "sources_of newId ?d = []" using assms(2) by (simp add: sources_of_def)
  ultimately show ?thesis
    using insert_sources_reported [of newId ?d ?row clusterId h] by (auto simp: chart_as_reported_def)
next
  case (Cons r rs)
  then have r: "r \<in> set (t_helm_chart d)" "hc_cluster_id r = clusterId" "hc_helm_name r = ha_name h"
    by (auto dest: sql_select_Cons)
  let ?upd = "\<lambda>r. r\<lparr>hc_namespace := ha_namespace h, hc_version := ha_version h,
               hc_first_deployed_at := ha_firstDeployedAt h, hc_last_deployed_at := ha_lastDeployedAt h,
               hc_is_deleted := ha_isDeleted h, hc_chart_version := ha_chartVersion h,
               hc_app_version := ha_appVersion h\<rparr>"
  let ?d = "d\<lparr>t_helm_chart := sql_update (\<lambda>x. hc_id x = hc_id r) ?upd (t_helm_chart d),
    t_helm_chart_source := sql_delete (\<lambda>s. hs_helm_chart_id s = hc_id r) (t_helm_chart_source d)\<rparr>"
  have "sources_of (hc_id r) ?d = []" by (simp add: sources_of_def)
  moreover have "createOrUpdateHelmApplication newId clusterId h d = insert_sources (hc_id r) (ha_sources h) ?d"
    using Cons by (simp add: createOrUpdateHelmApplication_def updateHelmApplication_def)
  moreover have "?upd r \<in> set (t_helm_chart ?d)"
    using sql_updateI [OF r(1), of "\<lambda>x. hc_id x = hc_id r" ?upd] by simp
  moreover have "chart_as_reported h (?upd r)" using r by (simp add: chart_as_reported_def)
  ultimately show ?thesis
    using insert_sources_reported [of "hc_id r" ?d "?upd r" clusterId h] r by (auto split: prod.splits)
qed

lemma helm_report_witness:
  "let h = \<lparr>ha_name = ''pg'', ha_namespace = ''default'', ha_version = Some 1, ha_firstDeployedAt = 1, ha_lastDeployedAt = 2,
            ha_isDeleted = Some False, ha_chartVersion = ''1.0'', ha_appVersion = ''11'', ha_sources = [''a'', ''a'']\<rparr>
   in fst (createOrUpdateHelmApplication ''id'' ''c'' h empty_db) = Inl UniqueViolation"
  using helm_report [of "''id''" empty_db "''c''" "\<lparr>ha_name = ''pg'', ha_namespace = ''default'', ha_version = Some 1,
     ha_firstDeployedAt = 1, ha_lastDeployedAt = 2, ha_isDeleted = Some False, ha_chartVersion = ''1.0'',
     ha_appVersion = ''11'', ha_sources = [''a'', ''a'']\<rparr>"]
  by (simp add: empty_db_def sources_of_def sql_select_def split: prod.splits)

end
