(* ===== verification/Users.thy ===== *)
theory Users
  imports ClusterStore
begin

text \<open>
  Users, \<^verbatim>\<open>api/src/user/user_store.ts\<close>, the parameters and features of
  \<^verbatim>\<open>params_store.ts\<close> and \<^verbatim>\<open>feature_store.ts\<close>, and the start of the server
  (\<^verbatim>\<open>server.ts\<close>), which provisions the cluster and the shared password.  Random ids are
  arguments.  A user has no row in \<^verbatim>\<open>github_user\<close> or \<^verbatim>\<open>ship_user_local\<close> when that part is \<open>None\<close>.
\<close>

record GitHubUser =
  gu_login :: string
  gu_githubId :: int
  gu_avatarUrl :: "string option"
  gu_email :: "string option"

record ShipUser =
  sh_firstName :: "string option"
  sh_lastName :: "string option"
  sh_email :: string

record User =
  u_id :: string
  u_createdAt :: time
  u_githubUser :: "GitHubUser option"
  u_shipUser :: "ShipUser option"

section \<open>Reading\<close>

definition getUser :: "string \<Rightarrow> db \<Rightarrow> User result" where
  "getUser userId d =
     bindR (first_row (sql_select (\<lambda>r. su_id r = userId) (t_ship_user d))) (\<lambda>u.
       Inr \<lparr>u_id = su_id u, u_createdAt = su_created_at u,
            u_githubUser = (case sql_select (\<lambda>g. gh_user_id g = Some userId) (t_github_user d) of
                [] \<Rightarrow> None
              | g # _ \<Rightarrow> Some \<lparr>gu_login = gh_username g, gu_githubId = gh_github_id g,
                               gu_avatarUrl = gh_avatar_url g, gu_email = gh_email g\<rparr>),
            u_shipUser = (case sql_select (\<lambda>l. sl_user_id l = userId) (t_ship_user_local d) of
                [] \<Rightarrow> None
              | l # _ \<Rightarrow> Some \<lparr>sh_firstName = sl_first_name l, sh_lastName = sl_last_name l, sh_email = sl_email l\<rparr>)\<rparr>)"

definition listAllUsers :: "db \<Rightarrow> User list result" where
  "listAllUsers d = mapR (\<lambda>u. getUser (su_id u) d) (t_ship_user d)"

definition tryGetPasswordUser :: "string \<Rightarrow> db \<Rightarrow> User option result" where
  "tryGetPasswordUser email d =
     (case sql_select (\<lambda>l. sl_email l = email) (t_ship_user_local d) of
        [] \<Rightarrow> Inr None
      | l # _ \<Rightarrow> bindR (getUser (sl_user_id l) d) (\<lambda>u. Inr (Some u)))"

text \<open>A \<^verbatim>\<open>null\<close> user id matches no user.\<close>

definition tryGetGitHubUser :: "int \<Rightarrow> db \<Rightarrow> User option result" where
  "tryGetGitHubUser githubId d =
     (case sql_select (\<lambda>g. gh_github_id g = githubId) (t_github_user d) of
        [] \<Rightarrow> Inr None
      | g # _ \<Rightarrow> (case gh_user_id g of None \<Rightarrow> Inl TypeError
                 | Some uid \<Rightarrow> bindR (getUser uid d) (\<lambda>u. Inr (Some u))))"

definition getUsername :: "(string \<Rightarrow> string) \<Rightarrow> string \<Rightarrow> db \<Rightarrow> string result" where
  "getUsername slugify_lower userId d =
     bindR (getUser userId d) (\<lambda>shipUser.
       let text = (\<lambda>x. case x of None \<Rightarrow> ''null'' | Some s \<Rightarrow> s) in
       case u_githubUser shipUser of
         Some g \<Rightarrow> Inr (gu_login g)
       | None \<Rightarrow> (case u_shipUser shipUser of
             Some s \<Rightarrow> Inr (slugify_lower (text (sh_firstName s) @ ''-'' @ text (sh_lastName s)))
           | None \<Rightarrow> Inl (ReplicatedError ''unable to get username'')))"

section \<open>Writing\<close>

definition insert_ship_user :: "string \<Rightarrow> time \<Rightarrow> db \<Rightarrow> db result" where
  "insert_ship_user userId now d =
     bindR (sql_insert su_id \<lparr>su_id = userId, su_created_at = now, su_last_login = Some now, su_github_id = None\<rparr>
       (t_ship_user d)) (\<lambda>t. Inr (d\<lparr>t_ship_user := t\<rparr>))"

text \<open>\<^verbatim>\<open>github_id\<close> zero is falsy.\<close>

definition migrateUsers :: "db \<Rightarrow> db" where
  "migrateUsers d =
     fold (\<lambda>u d. case su_github_id u of
         None \<Rightarrow> d
       | Some gid \<Rightarrow> if gid = 0 then d
           else d\<lparr>t_github_user := sql_update (\<lambda>g. gh_github_id g = gid) (\<lambda>g. g\<lparr>gh_user_id := Some (su_id u)\<rparr>)
                  (t_github_user d)\<rparr>) (t_ship_user d) d"

definition createGitHubUser ::
  "string \<Rightarrow> int \<Rightarrow> string \<Rightarrow> string option \<Rightarrow> string option \<Rightarrow> time \<Rightarrow> (db, User) eff" where
  "createGitHubUser newId githubId githubLogin githubAvatar email now =
     bindE (transaction (thenE (tryE (insert_ship_user newId now))
       (tryE (\<lambda>d. bindR (sql_insert gh_username \<lparr>gh_user_id = Some newId, gh_username = githubLogin,
            gh_github_id = githubId, gh_avatar_url = githubAvatar, gh_email = email\<rparr> (t_github_user d))
            (\<lambda>t. Inr (d\<lparr>t_github_user := t\<rparr>))))))
       (\<lambda>_. queryE (getUser newId))"

definition default_email :: string where
  "default_email = ''default-user@none.com''"

text \<open>Insert with the conflict on the unique index of emails, and the primary key on user ids.\<close>

definition upsert_local :: "ship_user_local_row \<Rightarrow> db \<Rightarrow> db result" where
  "upsert_local row d =
     (if \<exists>l \<in> set (t_ship_user_local d). sl_email l \<noteq> sl_email row \<and> sl_user_id l = sl_user_id row
      then Inl UniqueViolation
      else Inr (d\<lparr>t_ship_user_local := sql_upsert sl_email
             (\<lambda>old new. old\<lparr>sl_password_bcrypt := sl_password_bcrypt new\<rparr>) row (t_ship_user_local d)\<rparr>))"

definition createAdminConsolePassword :: "string \<Rightarrow> string \<Rightarrow> time \<Rightarrow> (db, string) eff" where
  "createAdminConsolePassword newId passwordBcrypt now =
     transaction (bindE (queryE (\<lambda>d. Inr (sql_select (\<lambda>l. sl_email l = default_email) (t_ship_user_local d)))) (\<lambda>rows.
       thenE (if rows = [] then tryE (insert_ship_user newId now) else retE ())
      (thenE (tryE (upsert_local \<lparr>sl_user_id = newId, sl_password_bcrypt = passwordBcrypt,
              sl_first_name = Some ''Default'', sl_last_name = Some ''User'', sl_email = default_email\<rparr>))
       (retE newId))))"

section \<open>Parameters and features\<close>

definition getParam :: "string \<Rightarrow> db \<Rightarrow> string option" where
  "getParam name d = map_option kp_value (row_of kp_key name (t_kotsadm_params d))"

definition setParam :: "string \<Rightarrow> string \<Rightarrow> db \<Rightarrow> db" where
  "setParam name v d = d\<lparr>t_kotsadm_params :=
     sql_upsert kp_key (\<lambda>old new. old\<lparr>kp_value := kp_value new\<rparr>) \<lparr>kp_key = name, kp_value = v\<rparr> (t_kotsadm_params d)\<rparr>"

definition deleteParam :: "string \<Rightarrow> db \<Rightarrow> db" where
  "deleteParam name d = d\<lparr>t_kotsadm_params := sql_delete (\<lambda>p. kp_key p = name) (t_kotsadm_params d)\<rparr>"

definition listUserFeatures :: "string \<Rightarrow> db \<Rightarrow> string list" where
  "listUserFeatures userId d =
     concat (map (\<lambda>f. map (\<lambda>_. f) (sql_select (\<lambda>uf. uf_feature_id uf = f \<and> uf_user_id uf = userId) (t_user_feature d)))
       (t_feature d))"

section \<open>The start of the server\<close>

text \<open>What the start writes: the local cluster, when it is not there yet, and the shared password.
  Without a token the process exits.\<close>

definition provision_cluster :: "(string \<Rightarrow> string) \<Rightarrow> string \<Rightarrow> string \<Rightarrow> time \<Rightarrow> (db, unit) eff" where
  "provision_cluster slugify newCluster token now =
     bindE (queryE (maybeGetClusterWithTypeNameAndToken ''ship'' ''this-cluster'' token)) (\<lambda>cluster.
       if cluster = None
       then thenE (createNewShipCluster slugify newCluster [] None True ''this-cluster'' (Some token) now) (retE ())
       else retE ())"

definition provision_password :: "string \<Rightarrow> string option \<Rightarrow> time \<Rightarrow> (db, unit) eff" where
  "provision_password newUser envBcrypt now =
     (if truthy_str envBcrypt
      then thenE (createAdminConsolePassword newUser (the envBcrypt) now) (retE ())
      else retE ())"

definition provision ::
  "(string \<Rightarrow> string) \<Rightarrow> string \<Rightarrow> string \<Rightarrow> string option \<Rightarrow> string option \<Rightarrow> time \<Rightarrow> (db, unit) eff" where
  "provision slugify newCluster newUser envToken envBcrypt now =
     (if \<not> truthy_str envToken then throwE (JsError ''exit 1'')
      else thenE (provision_cluster slugify newCluster (the envToken) now)
             (provision_password newUser envBcrypt now))"

section \<open>Lemmas\<close>

interpretation params: keyed_table kp_key "\<lambda>old new. old\<lparr>kp_value := kp_value new\<rparr>"
  by unfold_locales simp

interpretation local_users: keyed_table sl_email "\<lambda>old new. old\<lparr>sl_password_bcrypt := sl_password_bcrypt new\<rparr>"
  by unfold_locales simp

text \<open>
  the parameters are a map: a name reads as it was last set, nothing after it was deleted, and
  setting or deleting a name changes no other.
\<close>

theorem params_map:
  "getParam j (setParam name v d) = (if j = name then Some v else getParam j d) \<and>
   getParam j (deleteParam name d) = (if j = name then None else getParam j d)"
proof -
  let ?r = "\<lparr>kp_key = name, kp_value = v\<rparr>"
  have "getParam j (setParam name v d) = (if j = name then Some v else getParam j d)"
    using params.row_of_upsert_same [of ?r "t_kotsadm_params d"] params.row_of_upsert_other [of j ?r "t_kotsadm_params d"]
    by (auto simp: getParam_def setParam_def split: option.splits)
  moreover have "getParam j (deleteParam name d) = (if j = name then None else getParam j d)"
    by (auto simp: getParam_def deleteParam_def row_of_delete_same row_of_delete_other)
  ultimately show ?thesis ..
qed

section \<open>The shared password\<close>

text \<open>Every local user has a row of its own in \<^verbatim>\<open>ship_user\<close>, and the indexes hold.\<close>

definition users_ok :: "db \<Rightarrow> bool" where
  "users_ok d \<longleftrightarrow> distinct (map su_id (t_ship_user d)) \<and> distinct (map sl_email (t_ship_user_local d)) \<and>
     sl_user_id ` set (t_ship_user_local d) \<subseteq> su_id ` set (t_ship_user d)"

lemma upsert_local_run:
  assumes "newId \<notin> sl_user_id ` set (t_ship_user_local d)"
  shows "upsert_local \<lparr>sl_user_id = newId, sl_password_bcrypt = h, sl_first_name = f, sl_last_name = l, sl_email = e\<rparr> d
     = Inr (d\<lparr>t_ship_user_local := sql_upsert sl_email (\<lambda>old new. old\<lparr>sl_password_bcrypt := sl_password_bcrypt new\<rparr>)
         \<lparr>sl_user_id = newId, sl_password_bcrypt = h, sl_first_name = f, sl_last_name = l, sl_email = e\<rparr>
         (t_ship_user_local d)\<rparr>)"
  using assms by (force simp: upsert_local_def)

lemma getUser_of_row:
  "uid \<in> su_id ` set (t_ship_user d) \<Longrightarrow> \<exists>u. getUser uid d = Inr u \<and> u_id u = uid"
proof -
  assume "uid \<in> su_id ` set (t_ship_user d)"
  then have "sql_select (\<lambda>r. su_id r = uid) (t_ship_user d) \<noteq> []" by (auto simp: sql_select_def filter_empty_conv)
  then obtain r rs where "sql_select (\<lambda>r. su_id r = uid) (t_ship_user d) = r # rs"
    by (cases "sql_select (\<lambda>r. su_id r = uid) (t_ship_user d)") auto
  moreover from this have "su_id r = uid" by (auto dest: sql_select_Cons)
  ultimately show ?thesis by (simp add: getUser_def first_row_def)
qed

lemma password_user_of_row:
  assumes "row_of sl_email e (t_ship_user_local d) = Some l" and "distinct (map sl_email (t_ship_user_local d))"
    and "sl_user_id l \<in> su_id ` set (t_ship_user d)"
  shows "\<exists>u. tryGetPasswordUser e d = Inr (Some u) \<and> u_id u = sl_user_id l"
  using getUser_of_row [OF assms(3)] select_key [OF assms(2), of e] assms(1)
  by (auto simp: tryGetPasswordUser_def)

definition default_row :: "string \<Rightarrow> string \<Rightarrow> ship_user_local_row" where
  "default_row newId hash = \<lparr>sl_user_id = newId, sl_password_bcrypt = hash, sl_first_name = Some ''Default'',
     sl_last_name = Some ''User'', sl_email = default_email\<rparr>"

definition with_password :: "string \<Rightarrow> string \<Rightarrow> db \<Rightarrow> db" where
  "with_password newId hash d = d\<lparr>t_ship_user_local :=
     sql_upsert sl_email (\<lambda>old new. old\<lparr>sl_password_bcrypt := sl_password_bcrypt new\<rparr>) (default_row newId hash)
       (t_ship_user_local d)\<rparr>"

definition with_user :: "string \<Rightarrow> time \<Rightarrow> db \<Rightarrow> db" where
  "with_user newId now d = d\<lparr>t_ship_user := t_ship_user d @
     [\<lparr>su_id = newId, su_created_at = now, su_last_login = Some now, su_github_id = None\<rparr>]\<rparr>"

lemma createAdminConsolePassword_run:
  assumes "users_ok d" and "newId \<notin> su_id ` set (t_ship_user d)"
  shows "createAdminConsolePassword newId hash now d =
    (Inr newId, with_password newId hash
       (if row_of sl_email default_email (t_ship_user_local d) = None then with_user newId now d else d))"
proof -
  from assms have "\<not> (\<exists>l \<in> set (t_ship_user_local d). sl_user_id l = newId)" by (auto simp: users_ok_def)
  moreover have "sql_select (\<lambda>l. sl_email l = default_email) (t_ship_user_local d) = [] \<longleftrightarrow>
      row_of sl_email default_email (t_ship_user_local d) = None"
    unfolding sql_select_def filter_empty_conv row_of_None by (auto simp: image_iff)
  ultimately show ?thesis using assms(2)
    by (auto simp: createAdminConsolePassword_def transaction_def eff_simps tryE_def insert_ship_user_def
        sql_insert_def upsert_local_def with_password_def with_user_def default_row_def)
qed

lemma with_password_ok:
  fixes d :: db and newId hash :: string and now :: time
  defines "old \<equiv> row_of sl_email default_email (t_ship_user_local d)"
  defines "d' \<equiv> with_password newId hash (if old = None then with_user newId now d else d)"
  assumes "users_ok d" and "newId \<notin> su_id ` set (t_ship_user d)"
  shows "users_ok d'" and "old \<noteq> None \<Longrightarrow> newId \<notin> su_id ` set (t_ship_user d')"
    and "t_ship_user_local d' = sql_upsert sl_email (\<lambda>old new. old\<lparr>sl_password_bcrypt := sl_password_bcrypt new\<rparr>)
      (default_row newId hash) (t_ship_user_local d)"
proof -
  let ?new = "default_row newId hash"
  let ?t = "sql_upsert sl_email (\<lambda>old new. old\<lparr>sl_password_bcrypt := sl_password_bcrypt new\<rparr>) ?new (t_ship_user_local d)"
  have email: "sl_email ?new = default_email" by (simp add: default_row_def)
  have dist: "distinct (map sl_email (t_ship_user_local d))" and su: "distinct (map su_id (t_ship_user d))"
    and sub: "sl_user_id ` set (t_ship_user_local d) \<subseteq> su_id ` set (t_ship_user d)"
    using assms(3) by (auto simp: users_ok_def)
  show "t_ship_user_local d' = ?t" by (simp add: d'_def with_password_def with_user_def)
  have dist': "distinct (map sl_email ?t)" using local_users.distinct_upsert [OF dist, of ?new] .
  have "users_ok d' \<and> (old \<noteq> None \<longrightarrow> newId \<notin> su_id ` set (t_ship_user d'))"
  proof (cases old)
    case None
    then have "?t = t_ship_user_local d @ [?new]" unfolding old_def row_of_None by (intro upsert_new) (simp add: email)
    with None sub su dist' assms(4) show ?thesis
      by (auto simp: d'_def users_ok_def with_password_def with_user_def default_row_def)
  next
    case (Some l)
    then have "l \<in> set (t_ship_user_local d)" "sl_email l = default_email" by (auto simp: old_def dest: row_of_Some)
    then have "sl_email ?new \<in> sl_email ` set (t_ship_user_local d)" by (force simp: email)
    then have "map sl_user_id ?t = map sl_user_id (t_ship_user_local d)" by (rule map_upsert_same) simp
    then have "sl_user_id ` set ?t = sl_user_id ` set (t_ship_user_local d)" by (metis list.set_map)
    with Some sub su dist' assms(4) show ?thesis
      by (auto simp: d'_def users_ok_def with_password_def)
  qed
  then show "users_ok d'" "old \<noteq> None \<Longrightarrow> newId \<notin> su_id ` set (t_ship_user d')" by blast+
qed

text \<open>
  provisioning the shared password with an id that is not in use succeeds and leaves the
  default user with exactly that password hash; the user can be read, and it is the same user as
  before when there was one.  But the id that is returned is that user's only the first time: later
  it is an id no user has.
\<close>

theorem admin_password:
  assumes "users_ok d" and "newId \<notin> su_id ` set (t_ship_user d)"
  shows "case createAdminConsolePassword newId hash now d of
      (Inl e, d') \<Rightarrow> False
    | (Inr returned, d') \<Rightarrow> users_ok d' \<and>
        map sl_password_bcrypt (sql_select (\<lambda>l. sl_email l = default_email) (t_ship_user_local d')) = [hash] \<and>
        (\<exists>u. tryGetPasswordUser default_email d' = Inr (Some u) \<and>
           (case row_of sl_email default_email (t_ship_user_local d) of
              None \<Rightarrow> u_id u = returned
            | Some old \<Rightarrow> u_id u = sl_user_id old \<and> returned \<notin> su_id ` set (t_ship_user d')))"
proof -
  let ?new = "default_row newId hash"
  let ?m = "\<lambda>old new. old\<lparr>sl_password_bcrypt := sl_password_bcrypt new\<rparr>"
  let ?old = "row_of sl_email default_email (t_ship_user_local d)"
  let ?d' = "with_password newId hash (if ?old = None then with_user newId now d else d)"
  let ?l = "case ?old of None \<Rightarrow> ?new | Some old \<Rightarrow> ?m old ?new"
  note ok = with_password_ok [OF assms, of hash now]
  have email: "sl_email ?new = default_email" by (simp add: default_row_def)
  have row: "row_of sl_email default_email (t_ship_user_local ?d') = Some ?l"
    unfolding ok(3) using local_users.row_of_upsert_same [of ?new "t_ship_user_local d"] unfolding email .
  have dist': "distinct (map sl_email (t_ship_user_local ?d'))"
    and sub: "sl_user_id ` set (t_ship_user_local ?d') \<subseteq> su_id ` set (t_ship_user ?d')"
    using ok(1) unfolding users_ok_def by blast+
  have owner: "sl_user_id ?l \<in> su_id ` set (t_ship_user ?d')" using row_of_Some [OF row] sub by blast
  have pw: "map sl_password_bcrypt (sql_select (\<lambda>l. sl_email l = default_email) (t_ship_user_local ?d')) = [hash]"
    unfolding select_key [OF dist'] row by (simp add: default_row_def split: option.splits)
  obtain u where u: "tryGetPasswordUser default_email ?d' = Inr (Some u)" "u_id u = sl_user_id ?l"
    using password_user_of_row [of default_email ?d' ?l] row dist' owner by blast
  have "case ?old of None \<Rightarrow> u_id u = newId | Some old \<Rightarrow> u_id u = sl_user_id old \<and> newId \<notin> su_id ` set (t_ship_user ?d')"
    using u(2) ok(2) by (cases ?old) (simp_all add: default_row_def)
  with ok(1) pw u(1) show ?thesis
    unfolding createAdminConsolePassword_run [OF assms] by simp
qed

lemma admin_password_witness:
  "case createAdminConsolePassword ''u2'' ''h2'' 2 (snd (createAdminConsolePassword ''u1'' ''h1'' 1 empty_db)) of
      (Inl e, d') \<Rightarrow> False
    | (Inr returned, d') \<Rightarrow> returned = ''u2'' \<and> map su_id (t_ship_user d') = [''u1''] \<and> users_ok d'"
proof -
  let ?d = "snd (createAdminConsolePassword ''u1'' ''h1'' 1 empty_db)"
  have 1: "users_ok ?d" "''u2'' \<notin> su_id ` set (t_ship_user ?d)"
    by (simp_all add: createAdminConsolePassword_run users_ok_def empty_db_def with_password_def with_user_def
        default_row_def row_of_def)
  have run: "createAdminConsolePassword ''u2'' ''h2'' 2 ?d = (Inr ''u2'', with_password ''u2'' ''h2'' ?d)"
    using 1 by (simp add: createAdminConsolePassword_run)
      (simp add: createAdminConsolePassword_run users_ok_def empty_db_def with_password_def with_user_def
        default_row_def row_of_def)
  have "map su_id (t_ship_user (with_password ''u2'' ''h2'' ?d)) = [''u1'']"
    by (simp add: createAdminConsolePassword_run users_ok_def empty_db_def with_password_def with_user_def
        default_row_def row_of_def)
  then show ?thesis using admin_password [OF 1, of "''h2''" 2] unfolding run by simp
qed


section \<open>Restarting\<close>

lemma createAdminConsolePassword_cluster [simp]:
  "t_cluster (snd (createAdminConsolePassword newId hash now d)) = t_cluster d"
  by (auto simp: createAdminConsolePassword_def transaction_def eff_simps tryE_def insert_ship_user_def
      upsert_local_def bindR_def split: sum.splits prod.splits if_splits)

lemma maybeGet_found:
  "(maybeGetClusterWithTypeNameAndToken ty title tok d = Inr None) =
     (\<not> (\<exists>r \<in> set (t_cluster d). cl_cluster_type r = ty \<and> cl_title r = title \<and> cl_token r = Some tok))"
  "\<exists>c. maybeGetClusterWithTypeNameAndToken ty title tok d = Inr c"
proof -
  let ?q = "sql_select (\<lambda>r. cl_cluster_type r = ty \<and> cl_title r = title \<and> cl_token r = Some tok) (t_cluster d)"
  have sel: "?q = [] \<longleftrightarrow> \<not> (\<exists>r \<in> set (t_cluster d). cl_cluster_type r = ty \<and> cl_title r = title \<and> cl_token r = Some tok)"
    by (auto simp: sql_select_def filter_empty_conv)
  have found: "\<exists>c. maybeGetClusterWithTypeNameAndToken ty title tok d = Inr (Some c)" if "?q = r # rs" for r rs
  proof -
    from that have "r \<in> set (t_cluster d)" by (auto dest: sql_select_Cons)
    then have "sql_select (\<lambda>x. cl_id x = cl_id r) (t_cluster d) \<noteq> []" by (auto simp: sql_select_def filter_empty_conv)
    then show ?thesis
      using that by (cases "sql_select (\<lambda>x. cl_id x = cl_id r) (t_cluster d)")
        (simp_all add: maybeGetClusterWithTypeNameAndToken_def getShipOpsCluster_def first_row_def)
  qed
  show "(maybeGetClusterWithTypeNameAndToken ty title tok d = Inr None) =
     (\<not> (\<exists>r \<in> set (t_cluster d). cl_cluster_type r = ty \<and> cl_title r = title \<and> cl_token r = Some tok))"
    using found sel by (cases ?q) (auto simp: maybeGetClusterWithTypeNameAndToken_def)
  show "\<exists>c. maybeGetClusterWithTypeNameAndToken ty title tok d = Inr c"
    using found by (cases ?q) (auto simp: maybeGetClusterWithTypeNameAndToken_def)
qed

definition local_cluster :: "string \<Rightarrow> db \<Rightarrow> bool" where
  "local_cluster token d \<longleftrightarrow>
     (\<exists>r \<in> set (t_cluster d). cl_cluster_type r = ''ship'' \<and> cl_title r = ''this-cluster'' \<and> cl_token r = Some token)"

lemma provision_cluster_again: "local_cluster token d \<Longrightarrow> provision_cluster slugify c token now d = (Inr (), d)"
  using maybeGet_found [of "''ship''" "''this-cluster''" token d]
  by (auto simp: provision_cluster_def local_cluster_def)

lemma provision_cluster_makes:
  assumes "token \<noteq> []" and "provision_cluster slugify c token now d = (Inr u, d')"
  shows "local_cluster token d'"
proof (cases "local_cluster token d")
  case True
  then show ?thesis using assms(2) by (simp add: provision_cluster_again)
next
  case False
  then have "maybeGetClusterWithTypeNameAndToken ''ship'' ''this-cluster'' token d = Inr None"
    using maybeGet_found(1) by (simp add: local_cluster_def)
  then show ?thesis using assms
    by (auto simp: provision_cluster_def eff_simps createNewShipCluster_run [OF refl] Let_def local_cluster_def
        new_ship_row_def split: if_splits)
qed

lemma provision_password_cluster [simp]: "t_cluster (snd (provision_password u bc now d)) = t_cluster d"
proof (cases "truthy_str bc")
  case True
  obtain r d' where rd: "createAdminConsolePassword u (the bc) now d = (r, d')" by (cases "createAdminConsolePassword u (the bc) now d")
  then have "t_cluster d' = t_cluster d" using createAdminConsolePassword_cluster [of u "the bc" now d] by simp
  with True rd show ?thesis by (auto simp: provision_password_def eff_simps split: sum.splits)
qed (simp add: provision_password_def)

text \<open>
  the start of the server, when it succeeds, leaves a cluster "this-cluster" with the token of
  the environment, and every later start with that token finds it: no further cluster is made.  With no token
  the start fails and writes nothing.
\<close>

theorem provision_once:
  "case provision slugify c u envToken envBcrypt now d of
     (Inl e, d1) \<Rightarrow> truthy_str envToken \<or> d1 = d
   | (Inr _, d1) \<Rightarrow> local_cluster (the envToken) d1 \<and>
       t_cluster (snd (provision slugify c' u' envToken envBcrypt' now' d1)) = t_cluster d1"
proof (cases "truthy_str envToken")
  case False
  then show ?thesis by (simp add: provision_def)
next
  case True
  then obtain token where token: "envToken = Some token" "token \<noteq> []" by (cases envToken) auto
  obtain r d0 where first: "provision_cluster slugify c token now d = (r, d0)" by fastforce
  show ?thesis
  proof (cases r)
    case (Inl e)
    with token first show ?thesis by (simp add: provision_def eff_simps)
  next
    case (Inr x)
    with first token have loc: "local_cluster token d0" using provision_cluster_makes by blast
    obtain r1 d1 where pw: "provision_password u envBcrypt now d0 = (r1, d1)" by fastforce
    then have t1: "t_cluster d1 = t_cluster d0" using provision_password_cluster [of u envBcrypt now d0] by simp
    then have loc1: "local_cluster token d1" using loc by (simp add: local_cluster_def)
    then have "t_cluster (snd (provision slugify c' u' envToken envBcrypt' now' d1)) = t_cluster d1"
      using token by (simp add: provision_def eff_simps provision_cluster_again)
    with loc1 token first Inr pw show ?thesis
      by (auto simp: provision_def eff_simps split: sum.splits)
  qed
qed

end
