(* ===== verification/BackupLogs.thy ===== *)
theory BackupLogs
  imports JsValue "HOL-Library.Multiset"
begin

text \<open>
  The log of a backup, \<^verbatim>\<open>api/src/snapshots/resolvers/parseBackupLogs.ts\<close>: its lines are
  grouped by the hooks that were executed.  The parser of a single line is the package logfmt and
  a parameter; a parsed line is an object.  The hooks that are running are kept in the order in which their
  keys were added, as the object \<^verbatim>\<open>openExecs\<close> keeps them (a key holds slashes, so it
  is no array index).  \<open>started_of\<close> is what a begin line says of its hook.
\<close>

record SnapshotError =
  er_title :: jsval
  er_message :: jsval

record SnapshotHook =
  hk_namespace :: jsval
  hk_podName :: jsval
  hk_containerName :: jsval
  hk_command :: jsval
  hk_hookName :: jsval
  hk_phase :: jsval
  hk_started :: jsval
  hk_stdout :: jsval
  hk_stderr :: jsval
  hk_finished :: jsval

record ParsedBackupLogs =
  pl_execs :: "SnapshotHook list"
  pl_errors :: "SnapshotError list"
  pl_warnings :: "SnapshotError list"

type_synonym log_line = "(string \<times> jsval) list"

definition line_text :: "log_line \<Rightarrow> string \<Rightarrow> string" where
  "line_text line k = js_to_string (own_prop line k)"

definition execKey :: "log_line \<Rightarrow> string" where
  "execKey line = line_text line ''namespace'' @ ''/'' @ line_text line ''name'' @ ''/'' @
     line_text line ''hookContainer'' @ ''/'' @ line_text line ''hookName'' @ ''/'' @
     line_text line ''hookPhase'' @ ''/'' @ line_text line ''hookCommand''"

definition stdoutPrefix :: string where
  "stdoutPrefix = ''stdout: ''"

definition stderrPrefix :: string where
  "stderrPrefix = ''stderr: ''"

text \<open>\<^verbatim>\<open>_.startsWith\<close> reads \<^verbatim>\<open>undefined\<close> and \<^verbatim>\<open>null\<close> as the empty string.\<close>

definition msg_text :: "log_line \<Rightarrow> string" where
  "msg_text line = (case own_prop line ''msg'' of JUndef \<Rightarrow> [] | JNull \<Rightarrow> [] | v \<Rightarrow> js_to_string v)"

definition isExecBegin :: "log_line \<Rightarrow> bool" where
  "isExecBegin line \<longleftrightarrow> own_prop line ''msg'' = JStr ''running exec hook''"

definition isExecStdout :: "log_line \<Rightarrow> bool" where
  "isExecStdout line \<longleftrightarrow> starts_with stdoutPrefix (msg_text line)"

definition isExecStderr :: "log_line \<Rightarrow> bool" where
  "isExecStderr line \<longleftrightarrow> starts_with stderrPrefix (msg_text line)"

definition isError :: "log_line \<Rightarrow> bool" where
  "isError line \<longleftrightarrow> own_prop line ''level'' = JStr ''error''"

definition isWarning :: "log_line \<Rightarrow> bool" where
  "isWarning line \<longleftrightarrow> own_prop line ''level'' = JStr ''warninng''"

definition isExec :: "log_line \<Rightarrow> bool" where
  "isExec line \<longleftrightarrow> truthy (own_prop line ''hookName'')"

record log_state =
  ls_execs :: "SnapshotHook list"
  ls_open :: "(string \<times> SnapshotHook) list"
  ls_errors :: "SnapshotError list"
  ls_warnings :: "SnapshotError list"

definition exec_of :: "log_line \<Rightarrow> SnapshotHook" where
  "exec_of line =
     \<lparr>hk_namespace = own_prop line ''namespace'', hk_podName = own_prop line ''name'',
      hk_containerName = own_prop line ''hookContainer'', hk_command = own_prop line ''hookCommand'',
      hk_hookName = own_prop line ''hookName'', hk_phase = own_prop line ''hookPhase'',
      hk_started = own_prop line ''time'', hk_stdout = JUndef, hk_stderr = JUndef, hk_finished = JUndef\<rparr>"

definition update_open :: "string \<Rightarrow> (SnapshotHook \<Rightarrow> SnapshotHook) \<Rightarrow> log_state \<Rightarrow> log_state" where
  "update_open key f s = s\<lparr>ls_open := map (\<lambda>(k, e). if k = key then (k, f e) else (k, e)) (ls_open s)\<rparr>"

text \<open>\<^verbatim>\<open>replace\<close> takes the prefix off; it is the method of a string, so any other message that
  starts with the prefix once it is text rejects.\<close>

definition cut_prefix :: "string \<Rightarrow> log_line \<Rightarrow> jsval result" where
  "cut_prefix p line = (case own_prop line ''msg'' of JStr m \<Rightarrow> Inr (JStr (drop (length p) m)) | _ \<Rightarrow> Inl TypeError)"

text \<open>The hook objects have no list of errors or of warnings, so pushing to one rejects.\<close>

definition log_step :: "log_state \<Rightarrow> log_line \<Rightarrow> log_state result" where
  "log_step s line =
     (let key = execKey line; opened = map_of (ls_open s) key in
      if isExecBegin line then
        (case opened of
           None \<Rightarrow> Inr (s\<lparr>ls_open := ls_open s @ [(key, exec_of line)]\<rparr>)
         | Some e \<Rightarrow> Inr (s\<lparr>ls_execs := ls_execs s @ [e],
              ls_open := filter (\<lambda>(k, _). k \<noteq> key) (ls_open s) @ [(key, exec_of line)]\<rparr>))
      else if isExecStdout line then
        (if opened = None then Inr s
         else bindR (cut_prefix stdoutPrefix line) (\<lambda>m.
           Inr (update_open key (\<lambda>e. e\<lparr>hk_stdout := m, hk_finished := own_prop line ''time''\<rparr>) s)))
      else if isExecStderr line then
        (if opened = None then Inr s
         else bindR (cut_prefix stderrPrefix line) (\<lambda>m.
           Inr (update_open key (\<lambda>e. e\<lparr>hk_stderr := m, hk_finished := own_prop line ''time''\<rparr>) s)))
      else if isError line \<and> isExec line then (if opened = None then Inr s else Inl TypeError)
      else if isWarning line \<and> isExec line then (if opened = None then Inr s else Inl TypeError)
      else if isError line then
        Inr (s\<lparr>ls_errors := ls_errors s @ [\<lparr>er_title = own_prop line ''msg'', er_message = own_prop line ''error''\<rparr>]\<rparr>)
      else if isWarning line then
        Inr (s\<lparr>ls_warnings := ls_warnings s @ [\<lparr>er_title = own_prop line ''msg'', er_message = own_prop line ''warning''\<rparr>]\<rparr>)
      else Inr s)"

fun log_lines :: "log_state \<Rightarrow> log_line list \<Rightarrow> log_state result" where
  "log_lines s [] = Inr s"
| "log_lines s (l # ls) = bindR (log_step s l) (\<lambda>s'. log_lines s' ls)"

definition empty_log :: log_state where
  "empty_log = \<lparr>ls_execs = [], ls_open = [], ls_errors = [], ls_warnings = []\<rparr>"

text \<open>Only the first escaped newline of a line is replaced.\<close>

fun unescape_newline :: "string \<Rightarrow> string" where
  "unescape_newline [] = []"
| "unescape_newline [c] = [c]"
| "unescape_newline (c # c' # cs) =
     (if c = CHR 0x5C \<and> c' = CHR ''n'' then CHR 0x0A # cs else c # unescape_newline (c' # cs))"

definition parsed_logs :: "log_line list \<Rightarrow> ParsedBackupLogs result" where
  "parsed_logs lines =
     bindR (log_lines empty_log lines) (\<lambda>s.
       Inr \<lparr>pl_execs = ls_execs s @ map snd (ls_open s), pl_errors = ls_errors s, pl_warnings = ls_warnings s\<rparr>)"

definition parseBackupLogs :: "(string \<Rightarrow> log_line) \<Rightarrow> string \<Rightarrow> ParsedBackupLogs result" where
  "parseBackupLogs logfmt buffer =
     parsed_logs (map (\<lambda>s. logfmt (unescape_newline s)) (js_split CHR 0x0A buffer))"

section \<open>Lemmas\<close>

text \<open>A hook without what it printed.\<close>

definition silent :: "SnapshotHook \<Rightarrow> SnapshotHook" where
  "silent e = e\<lparr>hk_stdout := JUndef, hk_stderr := JUndef, hk_finished := JUndef\<rparr>"

lemma silent_simps [simp]:
  "silent (e\<lparr>hk_stdout := m, hk_finished := t\<rparr>) = silent e"
  "silent (e\<lparr>hk_stderr := m, hk_finished := t\<rparr>) = silent e"
  "silent (exec_of l) = exec_of l"
  by (simp_all add: silent_def exec_of_def)

definition log_hooks :: "log_state \<Rightarrow> SnapshotHook multiset" where
  "log_hooks s = mset (map silent (ls_execs s @ map snd (ls_open s)))"

abbreviation open_keys :: "log_state \<Rightarrow> string list" where
  "open_keys s \<equiv> map fst (ls_open s)"

lemma update_open_simps [simp]:
  "ls_execs (update_open k f s) = ls_execs s"
  "ls_errors (update_open k f s) = ls_errors s"
  "ls_warnings (update_open k f s) = ls_warnings s"
  "open_keys (update_open k f s) = open_keys s"
  by (auto simp: update_open_def)

lemma update_open_hooks: "(\<And>e. silent (f e) = silent e) \<Longrightarrow> log_hooks (update_open k f s) = log_hooks s"
proof -
  assume f: "\<And>e. silent (f e) = silent e"
  have "map silent (map snd (ls_open (update_open k f s))) = map silent (map snd (ls_open s))"
    by (auto simp: update_open_def f)
  then show ?thesis by (simp add: log_hooks_def)
qed

lemma close_open:
  assumes "distinct (map fst xs)" and "map_of xs k = Some e"
  shows "add_mset (silent e) (mset (map (\<lambda>x. silent (snd x)) (filter (\<lambda>(k', _). k' \<noteq> k) xs)))
       = mset (map (\<lambda>x. silent (snd x)) xs)"
  using assms
proof (induction xs)
  case Nil
  then show ?case by simp
next
  case (Cons x xs)
  show ?case
  proof (cases "fst x = k")
    case True
    with Cons.prems have "filter (\<lambda>(k', _). k' \<noteq> k) xs = xs"
      by (auto simp: filter_id_conv image_iff)
    with True Cons.prems show ?thesis by (cases x) auto
  next
    case False
    with Cons show ?thesis by (cases x) (auto simp: add_mset_commute)
  qed
qed

lemma map_of_open: "map_of xs k = None \<longleftrightarrow> k \<notin> fst ` set xs"
  by (simp add: map_of_eq_None_iff)

lemma log_step_distinct:
  assumes "log_step s l = Inr s'" and "distinct (open_keys s)"
  shows "distinct (open_keys s')"
  using assms
  by (auto simp: log_step_def Let_def bindR_eq_Inr map_of_open distinct_map_filter split: if_splits option.splits)

lemma log_step_hooks:
  assumes "log_step s l = Inr s'" and "distinct (open_keys s)"
  shows "log_hooks s' = log_hooks s + (if isExecBegin l then {#exec_of l#} else {#})"
proof (cases "isExecBegin l")
  case True
  show ?thesis
  proof (cases "map_of (ls_open s) (execKey l)")
    case None
    with True assms(1) show ?thesis by (auto simp: log_step_def Let_def log_hooks_def)
  next
    case (Some e)
    with True assms show ?thesis
      using close_open [OF assms(2) Some] by (auto simp: log_step_def Let_def log_hooks_def comp_def)
  qed
next
  case False
  with assms(1) show ?thesis
    by (auto simp: log_step_def Let_def bindR_eq_Inr update_open_hooks split: if_splits) (simp_all add: log_hooks_def)
qed

lemma log_lines_hooks:
  "log_lines s ls = Inr s' \<Longrightarrow> distinct (open_keys s) \<Longrightarrow>
     log_hooks s' = log_hooks s + mset (map exec_of (filter isExecBegin ls))"
proof (induction ls arbitrary: s)
  case Nil
  then show ?case by simp
next
  case (Cons l ls)
  then obtain s1 where s1: "log_step s l = Inr s1" "log_lines s1 ls = Inr s'"
    by (auto simp: bindR_eq_Inr)
  with Cons.prems(2) have "distinct (open_keys s1)" by (blast intro: log_step_distinct)
  with Cons.IH [OF s1(2)] log_step_hooks [OF s1(1) Cons.prems(2)] show ?case by simp
qed

text \<open>A key that is open stays open.\<close>

lemma log_step_open:
  "log_step s l = Inr s' \<Longrightarrow> set (open_keys s) \<union> (if isExecBegin l then {execKey l} else {}) \<subseteq> set (open_keys s')"
proof -
  assume step: "log_step s l = Inr s'"
  consider "isExecBegin l" | "\<not> isExecBegin l" "open_keys s' = open_keys s"
    using step by (auto simp: log_step_def Let_def bindR_eq_Inr split: if_splits)
  then show ?thesis
  proof cases
    case 1
    then show ?thesis
      using step by (auto simp: log_step_def Let_def image_iff split: option.splits)
  next
    case 2
    then show ?thesis by simp
  qed
qed

lemma log_lines_open:
  "log_lines s ls = Inr s' \<Longrightarrow> set (open_keys s) \<union> execKey ` {l \<in> set ls. isExecBegin l} \<subseteq> set (open_keys s')"
proof (induction ls arbitrary: s)
  case Nil
  then show ?case by simp
next
  case (Cons l ls)
  then obtain s1 where s1: "log_step s l = Inr s1" "log_lines s1 ls = Inr s'"
    by (auto simp: bindR_eq_Inr)
  have "execKey ` {x \<in> set (l # ls). isExecBegin x} =
      (if isExecBegin l then {execKey l} else {}) \<union> execKey ` {x \<in> set ls. isExecBegin x}" by auto
  with Cons.IH [OF s1(2)] log_step_open [OF s1(1)] show ?case by (simp only:) blast
qed

lemma log_lines_append:
  "log_lines s (xs @ ys) = bindR (log_lines s xs) (\<lambda>s'. log_lines s' ys)"
  by (induction xs arbitrary: s) (auto simp: bindR_def split: sum.splits)

lemma log_hooks_empty [simp]:
  "ls_execs empty_log = []" "ls_open empty_log = []" "log_hooks empty_log = {#}"
  by (simp_all add: log_hooks_def empty_log_def)

section \<open>Properties\<close>

text \<open>
  C15: Every begin line of a log yields exactly one hook of the result, with the names and the start time
  of that line, also when two hooks share all their names.
\<close>

theorem logs_group_by_hook:
  assumes "parsed_logs lines = Inr r"
  shows "mset (map silent (pl_execs r)) = mset (map exec_of (filter isExecBegin lines))"
proof -
  from assms obtain s where s: "log_lines empty_log lines = Inr s" "pl_execs r = ls_execs s @ map snd (ls_open s)"
    by (auto simp: parsed_logs_def bindR_eq_Inr)
  from log_lines_hooks [OF s(1)] show ?thesis by (simp add: s(2) log_hooks_def)
qed

text \<open>An error of a hook that is running loses the log, with the errors and hooks of every other line.\<close>

lemma hook_error_rejects_log:
  assumes "isError l" and "isExec l" and "\<not> isExecBegin l" "\<not> isExecStdout l" "\<not> isExecStderr l"
    and "b \<in> set before" and "isExecBegin b" and "execKey b = execKey l"
  shows "\<exists>e. parsed_logs (before @ l # after) = Inl e"
proof (cases "log_lines empty_log before")
  case (Inl e)
  then show ?thesis by (simp add: parsed_logs_def log_lines_append)
next
  case (Inr s)
  have "execKey l \<in> execKey ` {x \<in> set before. isExecBegin x}"
    using assms(6-8) by (intro image_eqI [where x = b]) simp_all
  with log_lines_open [OF Inr] have "map_of (ls_open s) (execKey l) \<noteq> None"
    by (auto simp: map_of_open)
  with assms have "log_step s l = Inl TypeError" by (simp add: log_step_def Let_def)
  with Inr show ?thesis by (simp add: parsed_logs_def log_lines_append)
qed

definition example_begin :: log_line where
  "example_begin = [(''level'', JStr ''info''), (''msg'', JStr ''running exec hook''), (''name'', JStr ''postgres-0''),
     (''hookName'', JStr ''dump''), (''time'', JStr ''00:00:01'')]"

definition example_stdout :: log_line where
  "example_stdout = [(''level'', JStr ''info''), (''msg'', JStr ''stdout: ok''), (''name'', JStr ''postgres-0''),
     (''hookName'', JStr ''dump''), (''time'', JStr ''00:00:02'')]"

definition example_error :: log_line where
  "example_error = [(''level'', JStr ''error''), (''msg'', JStr ''hook failed''), (''name'', JStr ''postgres-0''),
     (''hookName'', JStr ''dump''), (''error'', JStr ''exit 1'')]"

lemmas log_defs = isExecBegin_def isExecStdout_def isExecStderr_def isError_def isExec_def isWarning_def
  execKey_def line_text_def msg_text_def stdoutPrefix_def stderrPrefix_def starts_with_def

lemmas log_examples = example_begin_def example_stdout_def example_error_def

theorem logs_group_by_hook_witness:
  "\<exists>r. parsed_logs [example_begin, example_stdout, example_begin] = Inr r \<and>
     mset (map silent (pl_execs r)) = {#exec_of example_begin, exec_of example_begin#}"
proof -
  have "\<exists>r. parsed_logs [example_begin, example_stdout, example_begin] = Inr r"
    by (simp add: parsed_logs_def log_step_def log_defs log_examples empty_log_def cut_prefix_def update_open_def)
  then obtain r where r: "parsed_logs [example_begin, example_stdout, example_begin] = Inr r" ..
  have "filter isExecBegin [example_begin, example_stdout, example_begin] = [example_begin, example_begin]"
    by (simp add: log_defs log_examples)
  with logs_group_by_hook [OF r] r show ?thesis by auto
qed

end
