(* ===== verification/Velero.thy ===== *)
theory Velero
  imports JsValue Base64 BackupLogs
begin

text \<open>
  The client of Velero, \<^verbatim>\<open>api/src/snapshots/resolvers/veleroClient.ts\<close>.

  The server of Kubernetes is a parameter: \<open>http\<close> is a request to it (method, path and body, on a
  state of any type), \<open>core\<close> the calls of the package @kubernetes/client-node on secrets.  Bodies
  are untyped values, so every property access keeps its \<^verbatim>\<open>TypeError\<close>.  The packages
  pretty-bytes, moment and crypto are parameters too; times of a call are arguments.  Percentages and remaining seconds
  are computed exactly where the source uses floating point; \<open>None\<close> stands for a result that is
  not finite.  Path handling is that of node on POSIX.
\<close>

record http_response =
  rsp_status :: int
  rsp_body :: jsval

type_synonym 'k http = "string \<Rightarrow> string \<Rightarrow> jsval \<Rightarrow> ('k, http_response) eff"

text \<open>A call on a secret resolves with its body, or rejects with the status of the response, if there was
  one.\<close>

datatype core_outcome = CoreOk http_response | CoreFail "int option"

type_synonym 'k core = "string \<Rightarrow> string \<Rightarrow> jsval \<Rightarrow> 'k \<Rightarrow> core_outcome \<times> 'k"

definition liftR :: "'a result \<Rightarrow> ('s, 'a) eff" where
  "liftR r = queryE (\<lambda>_. r)"

section \<open>Requests\<close>

definition unhandledRequest :: "'k http \<Rightarrow> string \<Rightarrow> string \<Rightarrow> string \<Rightarrow> jsval \<Rightarrow> ('k, http_response) eff" where
  "unhandledRequest http ns method path body =
     http method (''/apis/velero.io/v1/namespaces/'' @ ns @ ''/'' @ path) body"

definition response_error :: "http_response \<Rightarrow> error" where
  "response_error r =
     (case js_and (rsp_body r) (\<lambda>b. js_get b ''message'') of
        Inr m \<Rightarrow> if truthy m then ReplicatedError (js_to_string m) else JsError (show_int (rsp_status r))
      | Inl e \<Rightarrow> e)"

definition velero_request :: "'k http \<Rightarrow> string \<Rightarrow> string \<Rightarrow> string \<Rightarrow> jsval \<Rightarrow> ('k, jsval) eff" where
  "velero_request http ns method path body =
     bindE (unhandledRequest http ns method path body) (\<lambda>r.
       if rsp_status r \<in> {200, 201, 204} then retE (rsp_body r)
       else if rsp_status r = 403 then throwE (ReplicatedError
         (''Permission denied: RBAC may be misconfigured for '' @ method @ '' velero.io/v1 '' @ path @ '' in namespace '' @ ns))
       else if rsp_status r = 404 then throwE (ReplicatedError
         ''Not found: a requested resource may not exist or Velero may not be installed in this cluster'')
       else throwE (response_error r))"

definition isVeleroInstalled :: "'k http \<Rightarrow> ('k, bool) eff" where
  "isVeleroInstalled http =
     bindE (http ''GET'' ''/apis/velero.io/'' JUndef) (\<lambda>r.
       if rsp_status r = 200 then retE True
       else if rsp_status r = 404 then retE False
       else throwE (JsError (''GET /apis/velero.io/: '' @ show_int (rsp_status r))))"

section \<open>Names and queries\<close>

definition getValidName :: "(string \<Rightarrow> string) \<Rightarrow> string \<Rightarrow> string" where
  "getValidName sha256 label =
     (if length label \<le> 63 then label else take (63 - 6) label @ take 6 (sha256 label))"

definition maybeParseInt :: "jsval \<Rightarrow> int option option" where
  "maybeParseInt v = (case v of JStr s \<Rightarrow> Some (parse_int s) | _ \<Rightarrow> None)"

text \<open>\<^verbatim>\<open>querystring.stringify\<close> of one string: letters, digits and some marks stay, every other
  byte is written in hexadecimal.\<close>

definition qs_plain :: "char \<Rightarrow> bool" where
  "qs_plain c \<longleftrightarrow> is_digit c \<or> (65 \<le> (of_char c :: nat) \<and> (of_char c :: nat) \<le> 90) \<or>
     (97 \<le> (of_char c :: nat) \<and> (of_char c :: nat) \<le> 122) \<or> c \<in> set ''-_.!~*()'' \<or> c = CHR 0x27"

definition upper_hex :: "nat \<Rightarrow> char" where
  "upper_hex n = (if n < 10 then char_of (48 + n) else char_of (55 + n))"

definition qs_escape :: "string \<Rightarrow> string" where
  "qs_escape s = concat (map (\<lambda>c. if qs_plain c then [c]
     else concat (map (\<lambda>b. [CHR ''%'', upper_hex (b div 16), upper_hex (b mod 16)]) (utf8_char c))) s)"

definition label_query :: "string \<Rightarrow> string \<Rightarrow> string" where
  "label_query kind selector = kind @ ''?labelSelector='' @ qs_escape selector"

section \<open>Backups\<close>

definition annotation :: "jsval \<Rightarrow> string \<Rightarrow> jsval result" where
  "annotation backup k =
     bindR (js_gets backup [''metadata'', ''annotations'']) (\<lambda>a. js_and a (\<lambda>a. js_get a k))"

definition kotsAppIdKey :: string where "kotsAppIdKey = ''kots.io/app-id''"
definition kotsAppSlugKey :: string where "kotsAppSlugKey = ''kots.io/app-slug''"
definition kotsAppSequenceKey :: string where "kotsAppSequenceKey = ''kots.io/app-sequence''"
definition kotsClusterIdKey :: string where "kotsClusterIdKey = ''kots.io/cluster-id''"
definition kotsadmLabelKey :: string where "kotsadmLabelKey = ''app.kubernetes.io/name''"
definition snapshotTriggerKey :: string where "snapshotTriggerKey = ''kots.io/snapshot-trigger''"
definition snapshotVolumeCountKey :: string where "snapshotVolumeCountKey = ''kots.io/snapshot-volume-count''"
definition snapshotVolumeSuccessCountKey :: string where
  "snapshotVolumeSuccessCountKey = ''kots.io/snapshot-volume-success-count''"
definition snapshotVolumeBytesKey :: string where "snapshotVolumeBytesKey = ''kots.io/snapshot-volume-bytes''"

definition unfinished_backup :: "string \<Rightarrow> jsval \<Rightarrow> bool result" where
  "unfinished_backup appId backup =
     bindR (annotation backup kotsAppIdKey) (\<lambda>backupAppId.
     bindR (js_get backup ''status'') (\<lambda>status.
     bindR (js_and status (\<lambda>st. js_get st ''phase'')) (\<lambda>phase.
       Inr (if \<not> truthy phase then True
            else backupAppId = JStr appId \<and> (phase = JStr ''New'' \<or> phase = JStr ''InProgress'')))))"

definition hasUnfinishedBackup :: "'k http \<Rightarrow> string \<Rightarrow> string \<Rightarrow> ('k, bool) eff" where
  "hasUnfinishedBackup http ns appId =
     (if appId = [] then retE False
      else bindE (velero_request http ns ''GET'' ''backups'' JUndef) (\<lambda>body.
        liftR (bindR (js_get body ''items'') (\<lambda>items. someR (unfinished_backup appId) (lodash_elems items)))))"

record VolumeSummary =
  vs_count :: int
  vs_success :: int
  vs_bytes :: int

definition pvb_numbers :: "jsval \<Rightarrow> (bool \<times> int) result" where
  "pvb_numbers pvb =
     bindR (js_gets pvb [''status'', ''phase'']) (\<lambda>phase.
     bindR (js_gets pvb [''status'', ''progress'', ''bytesDone'']) (\<lambda>bytesDone.
       Inr (phase = JStr ''Completed'', case bytesDone of JNum n \<Rightarrow> n | _ \<Rightarrow> 0)))"

definition getSnapshotVolumeSummary :: "'k http \<Rightarrow> string \<Rightarrow> (string \<Rightarrow> string) \<Rightarrow> string \<Rightarrow> ('k, VolumeSummary) eff" where
  "getSnapshotVolumeSummary http ns sha256 backupName =
     bindE (velero_request http ns ''GET''
         (label_query ''podvolumebackups'' (''velero.io/backup-name='' @ getValidName sha256 backupName)) JUndef) (\<lambda>body.
       liftR (bindR (js_get body ''items'') (\<lambda>items. bindR (mapR pvb_numbers (lodash_elems items)) (\<lambda>vs.
         Inr \<lparr>vs_count = int (length vs), vs_success = int (length (filter fst vs)),
              vs_bytes = sum_list (map snd vs)\<rparr>))))"

record Snapshot =
  sh_name :: jsval
  sh_status :: jsval
  sh_trigger :: "string option"
  sh_appSlug :: jsval
  sh_appVersion :: jsval
  sh_started :: jsval
  sh_finished :: jsval
  sh_expires :: jsval
  sh_volumeCount :: "int option"
  sh_volumeSuccessCount :: "int option"
  sh_volumeBytes :: "int option"
  sh_volumeSizeHuman :: string

definition backup_trigger :: "jsval \<Rightarrow> string option" where
  "backup_trigger v =
     (if v = JStr ''manual'' then Some ''manual''
      else if v = JStr ''pre_upgrade'' then Some ''pre_upgrade''
      else if v = JStr ''schedule'' then Some ''schedule'' else None)"

definition status_of :: "jsval \<Rightarrow> jsval result" where
  "status_of b = bindR (js_get b ''status'') (\<lambda>st. if truthy st then js_get st ''phase'' else Inr (JStr ''New''))"

definition status_field :: "jsval \<Rightarrow> string \<Rightarrow> jsval result" where
  "status_field b k = bindR (js_get b ''status'') (\<lambda>st. js_and st (\<lambda>st. js_get st k))"

text \<open>The summary as annotations of the backup, sent back.\<close>

definition annotate_summary :: "jsval \<Rightarrow> VolumeSummary \<Rightarrow> jsval result" where
  "annotate_summary backup sm =
     bindR (js_get backup ''metadata'') (\<lambda>metadata.
     bindR (js_get metadata ''annotations'') (\<lambda>annotations.
     bindR (js_set (if truthy annotations then annotations else JObj []) snapshotVolumeCountKey (JStr (show_int (vs_count sm)))) (\<lambda>a1.
     bindR (js_set a1 snapshotVolumeSuccessCountKey (JStr (show_int (vs_success sm)))) (\<lambda>a2.
     bindR (js_set a2 snapshotVolumeBytesKey (JStr (show_int (vs_bytes sm)))) (\<lambda>a3.
     bindR (js_set metadata ''annotations'' a3) (\<lambda>metadata'.
       js_set backup ''metadata'' metadata'))))))"

definition volume_summary ::
  "'k http \<Rightarrow> string \<Rightarrow> (string \<Rightarrow> string) \<Rightarrow> jsval \<Rightarrow> jsval \<Rightarrow> ('k, jsval \<times> int option \<times> int option \<times> int option) eff" where
  "volume_summary http ns sha256 backup status =
     bindE (liftR (annotation backup snapshotVolumeCountKey)) (\<lambda>c.
     bindE (liftR (annotation backup snapshotVolumeSuccessCountKey)) (\<lambda>s.
     bindE (liftR (annotation backup snapshotVolumeBytesKey)) (\<lambda>b.
       case (maybeParseInt c, maybeParseInt s, maybeParseInt b) of
         (Some c', Some s', Some b') \<Rightarrow> retE (backup, c', s', b')
       | _ \<Rightarrow>
           bindE (liftR (js_gets backup [''metadata'', ''name''])) (\<lambda>name.
           bindE (case name of JStr n \<Rightarrow> getSnapshotVolumeSummary http ns sha256 n | _ \<Rightarrow> throwE TypeError) (\<lambda>sm.
             if status \<noteq> JStr ''New'' \<and> status \<noteq> JStr ''InProgress''
             then bindE (liftR (annotate_summary backup sm)) (\<lambda>backup'.
                    thenE (velero_request http ns ''PUT'' (''backups/'' @ js_to_string name) backup')
                      (retE (backup', Some (vs_count sm), Some (vs_success sm), Some (vs_bytes sm))))
             else retE (backup, Some (vs_count sm), Some (vs_success sm), Some (vs_bytes sm)))))))"

definition snapshotFromBackup ::
  "'k http \<Rightarrow> string \<Rightarrow> (string \<Rightarrow> string) \<Rightarrow> (int option \<Rightarrow> string result) \<Rightarrow> jsval \<Rightarrow> ('k, Snapshot) eff" where
  "snapshotFromBackup http ns sha256 prettyBytes backup =
     bindE (liftR (annotation backup snapshotTriggerKey)) (\<lambda>trigger.
     bindE (liftR (status_of backup)) (\<lambda>status.
     bindE (volume_summary http ns sha256 backup status) (\<lambda>(backup', count, success, bytes).
     bindE (liftR (js_gets backup' [''metadata'', ''name''])) (\<lambda>name.
     bindE (liftR (annotation backup' kotsAppSlugKey)) (\<lambda>appSlug.
     bindE (liftR (annotation backup' kotsAppSequenceKey)) (\<lambda>appVersion.
     bindE (liftR (status_field backup' ''startTimestamp'')) (\<lambda>started.
     bindE (liftR (status_field backup' ''completionTimestamp'')) (\<lambda>finished.
     bindE (liftR (status_field backup' ''expiration'')) (\<lambda>expires.
     bindE (liftR (prettyBytes bytes)) (\<lambda>human.
       retE \<lparr>sh_name = name, sh_status = status, sh_trigger = backup_trigger trigger, sh_appSlug = appSlug,
             sh_appVersion = appVersion, sh_started = started, sh_finished = finished, sh_expires = expires,
             sh_volumeCount = count, sh_volumeSuccessCount = success, sh_volumeBytes = bytes,
             sh_volumeSizeHuman = human\<rparr>))))))))))"

definition createBackup :: "'k http \<Rightarrow> string \<Rightarrow> jsval \<Rightarrow> ('k, jsval) eff" where
  "createBackup http ns backup = velero_request http ns ''POST'' ''backups'' backup"

definition readBackup :: "'k http \<Rightarrow> string \<Rightarrow> string \<Rightarrow> ('k, jsval) eff" where
  "readBackup http ns name = velero_request http ns ''GET'' (''backups/'' @ name) JUndef"

definition deleteSnapshot :: "'k http \<Rightarrow> string \<Rightarrow> time \<Rightarrow> string \<Rightarrow> ('k, unit) eff" where
  "deleteSnapshot http ns now backupName =
     thenE (velero_request http ns ''POST'' ''deletebackuprequests''
       (JObj [(''apiVersion'', JStr ''velero.io/v1''), (''kind'', JStr ''DeleteBackupRequest''),
          (''metadata'', JObj [(''name'', JStr (backupName @ ''-'' @ show_int now)), (''namespace'', JStr ns)]),
          (''spec'', JObj [(''backupName'', JStr backupName)])])) (retE ())"

definition velero_restore :: "'k http \<Rightarrow> string \<Rightarrow> string \<Rightarrow> string \<Rightarrow> ('k, unit) eff" where
  "velero_restore http ns backupName restoreName =
     thenE (velero_request http ns ''POST'' ''restores''
       (JObj [(''apiVersion'', JStr ''velero.io/v1''), (''kind'', JStr ''Restore''),
          (''metadata'', JObj [(''name'', JStr restoreName), (''namespace'', JStr ''velero'')]),
          (''spec'', JObj [(''backupName'', JStr backupName)])])) (retE ())"

text \<open>\<^verbatim>\<open>null\<close> is \<open>None\<close>.\<close>

definition velero_readRestore :: "'k http \<Rightarrow> string \<Rightarrow> string \<Rightarrow> ('k, jsval option) eff" where
  "velero_readRestore http ns name =
     bindE (unhandledRequest http ns ''GET'' (''restores/'' @ name) JUndef) (\<lambda>r.
       if rsp_status r = 200 then retE (Some (rsp_body r))
       else if rsp_status r = 404 then retE None
       else if rsp_status r = 403 then
         throwE (ReplicatedError (''Permission denied reading Restore '' @ name @ '' from namespace '' @ ns))
       else case js_and (rsp_body r) (\<lambda>b. js_get b ''message'') of
           Inl e \<Rightarrow> throwE e
         | Inr m \<Rightarrow> if truthy m then throwE (ReplicatedError (js_to_string m))
             else throwE (JsError (''Read Restore '' @ name @ '' from namespace '' @ ns @ '': '' @ show_int (rsp_status r))))"

definition listBackends :: "'k http \<Rightarrow> string \<Rightarrow> ('k, jsval list) eff" where
  "listBackends http ns =
     bindE (velero_request http ns ''GET'' ''backupstoragelocations'' JUndef) (\<lambda>body.
       liftR (bindR (js_get body ''items'') (\<lambda>items.
         mapR (\<lambda>item. js_gets item [''metadata'', ''name'']) (lodash_elems items))))"

section \<open>Volumes\<close>

definition js_round_div :: "int \<Rightarrow> int \<Rightarrow> int" where
  "js_round_div a b = (2 * a + b) div (2 * b)"

definition completion_percent :: "jsval \<Rightarrow> jsval \<Rightarrow> int option" where
  "completion_percent bytesDone totalBytes =
     (case (bytesDone, totalBytes) of
        (JNum d, JNum t) \<Rightarrow> if t = 0 then None else Some (js_round_div (100 * d) t)
      | _ \<Rightarrow> None)"

text \<open>No byte done gives an infinite or undefined time, no second passed an infinite speed.\<close>

definition time_remaining :: "jsval \<Rightarrow> jsval \<Rightarrow> int option \<Rightarrow> int option" where
  "time_remaining bytesDone totalBytes elapsed =
     (case (bytesDone, totalBytes, elapsed) of
        (JNum d, JNum t, Some el) \<Rightarrow>
          if d = 0 then None else if el = 0 then Some 0 else Some (js_round_div ((t - d) * el) d)
      | _ \<Rightarrow> None)"

record volume_progress =
  vp_sizeBytesHuman :: string
  vp_doneBytesHuman :: string
  vp_completionPercent :: "int option"
  vp_timeRemainingSeconds :: "int option"

record pod_volume =
  vo_name :: jsval
  vo_phase :: jsval
  vo_started :: jsval
  vo_finished :: jsval
  vo_progress :: "volume_progress option"

definition human_bytes :: "(int option \<Rightarrow> string result) \<Rightarrow> jsval \<Rightarrow> string result" where
  "human_bytes prettyBytes v =
     (if truthy v then prettyBytes (case v of JNum n \<Rightarrow> Some n | _ \<Rightarrow> None) else Inr ''0 B'')"

definition progress_of ::
  "(int option \<Rightarrow> string result) \<Rightarrow> (jsval \<Rightarrow> int option) \<Rightarrow> jsval \<Rightarrow> volume_progress option result" where
  "progress_of prettyBytes elapsed status =
     bindR (js_get status ''progress'') (\<lambda>p.
       if \<not> truthy p then Inr None
       else bindR (js_get p ''totalBytes'') (\<lambda>total. bindR (js_get p ''bytesDone'') (\<lambda>done_bytes.
            bindR (js_get status ''startTimestamp'') (\<lambda>start.
            bindR (human_bytes prettyBytes total) (\<lambda>size. bindR (human_bytes prettyBytes done_bytes) (\<lambda>dn.
              Inr (Some \<lparr>vp_sizeBytesHuman = size, vp_doneBytesHuman = dn,
                vp_completionPercent = completion_percent done_bytes total,
                vp_timeRemainingSeconds = time_remaining done_bytes total (elapsed start)\<rparr>)))))))"

definition snapshot_volume ::
  "(int option \<Rightarrow> string result) \<Rightarrow> (jsval \<Rightarrow> int option) \<Rightarrow> jsval \<Rightarrow> pod_volume result" where
  "snapshot_volume prettyBytes elapsed pvb =
     bindR (js_gets pvb [''metadata'', ''name'']) (\<lambda>name.
     bindR (js_get pvb ''status'') (\<lambda>st.
       if \<not> truthy st
       then Inr \<lparr>vo_name = name, vo_phase = JUndef, vo_started = JUndef, vo_finished = JUndef, vo_progress = None\<rparr>
       else bindR (js_get st ''startTimestamp'') (\<lambda>started. bindR (js_get st ''completionTimestamp'') (\<lambda>finished.
            bindR (js_get st ''phase'') (\<lambda>phase. bindR (progress_of prettyBytes elapsed st) (\<lambda>p.
              Inr \<lparr>vo_name = name, vo_phase = phase, vo_started = started, vo_finished = finished, vo_progress = p\<rparr>))))))"

record RestoreVolume = pod_volume +
  rv_podName :: jsval
  rv_podNamespace :: jsval
  rv_podVolumeName :: jsval

definition restore_volume ::
  "(int option \<Rightarrow> string result) \<Rightarrow> (jsval \<Rightarrow> int option) \<Rightarrow> jsval \<Rightarrow> RestoreVolume result" where
  "restore_volume prettyBytes elapsed pvr =
     bindR (js_gets pvr [''metadata'', ''name'']) (\<lambda>name.
     bindR (js_gets pvr [''spec'', ''pod'', ''name'']) (\<lambda>podName.
     bindR (js_gets pvr [''spec'', ''pod'', ''namespace'']) (\<lambda>podNamespace.
     bindR (js_gets pvr [''spec'', ''volume'']) (\<lambda>volume.
     bindR (js_get pvr ''status'') (\<lambda>st.
       if \<not> truthy st
       then Inr \<lparr>vo_name = name, vo_phase = JStr ''New'', vo_started = JUndef, vo_finished = JUndef, vo_progress = None,
                 rv_podName = podName, rv_podNamespace = podNamespace, rv_podVolumeName = volume\<rparr>
       else bindR (js_get st ''startTimestamp'') (\<lambda>started. bindR (js_get st ''completionTimestamp'') (\<lambda>finished.
            bindR (js_get st ''phase'') (\<lambda>phase. bindR (progress_of prettyBytes elapsed st) (\<lambda>p.
              Inr \<lparr>vo_name = name, vo_phase = (if truthy phase then phase else JStr ''New''), vo_started = started,
                   vo_finished = (if truthy finished then finished else JUndef), vo_progress = p,
                   rv_podName = podName, rv_podNamespace = podNamespace, rv_podVolumeName = volume\<rparr>)))))))))"

definition listRestoreVolumes ::
  "'k http \<Rightarrow> string \<Rightarrow> (string \<Rightarrow> string) \<Rightarrow> (int option \<Rightarrow> string result) \<Rightarrow> (jsval \<Rightarrow> int option) \<Rightarrow> string \<Rightarrow>
   ('k, RestoreVolume list) eff" where
  "listRestoreVolumes http ns sha256 prettyBytes elapsed name =
     bindE (velero_request http ns ''GET''
         (label_query ''podvolumerestores'' (''velero.io/restore-name='' @ getValidName sha256 name)) JUndef) (\<lambda>body.
       liftR (bindR (js_get body ''items'') (\<lambda>items. mapR (restore_volume prettyBytes elapsed) (lodash_elems items))))"

section \<open>Downloads\<close>

text \<open>Thirty polls, a second apart.  \<open>clock\<close> is what \<^verbatim>\<open>Date.now()\<close> reads.\<close>

fun poll_download :: "'k http \<Rightarrow> string \<Rightarrow> string \<Rightarrow> nat \<Rightarrow> ('k, jsval option) eff" where
  "poll_download http ns drname 0 = retE None"
| "poll_download http ns drname (Suc n) =
     bindE (velero_request http ns ''GET'' (''downloadrequests/'' @ drname) JUndef) (\<lambda>body.
     bindE (liftR (status_field body ''downloadURL'')) (\<lambda>url.
       if truthy url
       then thenE (velero_request http ns ''DELETE'' (''downloadrequests/'' @ drname) JUndef) (retE (Some url))
       else poll_download http ns drname n))"

definition download_name :: "(string \<Rightarrow> string) \<Rightarrow> time \<Rightarrow> string \<Rightarrow> string \<Rightarrow> string" where
  "download_name sha256 now lowerKind name =
     getValidName sha256 (lowerKind @ ''-'' @ name @ ''-'' @ show_int now)"

definition getDownloadURL ::
  "'k http \<Rightarrow> string \<Rightarrow> (string \<Rightarrow> string) \<Rightarrow> time \<Rightarrow> string \<Rightarrow> string \<Rightarrow> ('k, jsval) eff" where
  "getDownloadURL http ns sha256 now kind name =
     (let drname = download_name sha256 now (toLowerCase kind) name in
      thenE (velero_request http ns ''POST'' ''downloadrequests''
        (JObj [(''apiVersion'', JStr ''velero.io/v1''), (''kind'', JStr ''DownloadRequest''),
           (''metadata'', JObj [(''name'', JStr drname)]),
           (''spec'', JObj [(''target'', JObj [(''kind'', JStr kind), (''name'', JStr name)])])]))
      (bindE (poll_download http ns drname 30) (\<lambda>url. case url of
           Some u \<Rightarrow> retE u
         | None \<Rightarrow> throwE (JsError (''Timed out waiting for DownloadRequest for '' @ kind @ ''/'' @ name @ '' logs'')))))"

end
