(* ===== verification/Deploy.thy ===== *)
theory Deploy
  imports AppStatusStore ClusterStore Preflight Velero
begin

text \<open>
  The service that keeps the operators of the clusters up to date,
  \<^verbatim>\<open>api/src/sockets/kots/DeploySocket.ts\<close>, and the two endpoints the operators report to,
  \<^verbatim>\<open>controllers/kots/DeployAPI.ts\<close> and \<^verbatim>\<open>RestoreAPI.ts\<close>.

  The state is the database with what the process itself keeps: the connected sockets with the
  sequence each was last sent for every application, the messages sent to the rooms of the clusters,
  the Velero restores, and the delayed writes of the undeploy endpoint.  Rendering an archive, reading a
  pull secret from it, parsing YAML, the text of an error and the backups of Velero, the endpoint and the flag of the environment are the services of the
  record \<open>services\<close>.  A loop runs without other calls in between; a call that is
  awaited outside \<^verbatim>\<open>try\<close> and rejects ends the loop with what it did so far.
\<close>

record services =
  sv_render :: "string \<Rightarrow> string \<Rightarrow> string \<Rightarrow> jsval \<Rightarrow> string result"
  sv_pullSecret :: "string \<Rightarrow> string \<Rightarrow> string result"
  sv_safeLoad :: "string \<Rightarrow> jsval result"
  sv_err_text :: "error \<Rightarrow> string"
  sv_readBackup :: "string \<Rightarrow> jsval result"
  sv_shipApiEndpoint :: string
  sv_annotateSlug :: bool

record deploy_args =
  da_app_id :: string
  da_app_slug :: string
  da_kubectl_version :: jsval
  da_additional_namespaces :: jsval
  da_image_pull_secret :: "string option"
  da_namespace :: string
  da_manifests :: string
  da_previous_manifests :: string
  da_result_callback :: string
  da_wait :: bool
  da_clear_namespaces :: jsval
  da_clear_pvcs :: bool
  da_annotate_slug :: "bool option"

datatype message = DeployMsg deploy_args | InformersMsg string jsval | SupportBundleMsg string

record ClusterSocketHistory =
  csh_clusterId :: string
  csh_socketId :: string
  csh_lastDeployedSequences :: "string \<rightharpoonup> int"

record restore =
  rs_name :: string
  rs_backupName :: string
  rs_phase :: "string option"

record server =
  sv_db :: db
  sv_history :: "ClusterSocketHistory list"
  sv_out :: "(string \<times> message) list"
  sv_restores :: "restore list"
  sv_timers :: "(string \<times> string) list"
  sv_lastUndeployTime :: time

definition atDb :: "(db, 'a) eff \<Rightarrow> (server, 'a) eff" where
  "atDb m s = (case m (sv_db s) of (r, d) \<Rightarrow> (r, s\<lparr>sv_db := d\<rparr>))"

definition readDb :: "(db \<Rightarrow> 'a result) \<Rightarrow> (server, 'a) eff" where
  "readDb q = queryE (\<lambda>s. q (sv_db s))"

definition emit :: "string \<Rightarrow> message \<Rightarrow> server \<Rightarrow> server" where
  "emit room m s = s\<lparr>sv_out := sv_out s @ [(room, m)]\<rparr>"

section \<open>Connections\<close>

definition onConnection :: "string \<Rightarrow> string \<Rightarrow> (server, unit) eff" where
  "onConnection token socketId =
     bindE (readDb (getFromDeployToken token)) (\<lambda>cluster.
       execE (\<lambda>s. s\<lparr>sv_history := sv_history s @
         [\<lparr>csh_clusterId = c_id cluster, csh_socketId = socketId, csh_lastDeployedSequences = (\<lambda>_. None)\<rparr>]\<rparr>))"

definition onDisconnect :: "string \<Rightarrow> server \<Rightarrow> server" where
  "onDisconnect socketId s = s\<lparr>sv_history := filter (\<lambda>csh. csh_socketId csh \<noteq> socketId) (sv_history s)\<rparr>"

section \<open>The deploy loop\<close>

text \<open>\<^verbatim>\<open>app.getKotsAppSpec(clusterId, store)\<close>: the spec of the version deployed to the cluster.\<close>

definition app_getKotsAppSpec :: "services \<Rightarrow> string \<Rightarrow> string \<Rightarrow> db \<Rightarrow> jsval result" where
  "app_getKotsAppSpec sv appId clusterId d =
     bindR (getCurrentVersion appId clusterId d) (\<lambda>v.
       case v of
         None \<Rightarrow> Inr JUndef
       | Some activeDownstream \<Rightarrow>
           (case kv_parentSequence activeDownstream of
              None \<Rightarrow> Inr JUndef
            | Some p \<Rightarrow> getKotsAppSpec (sv_safeLoad sv) appId p d))"

definition spec_field :: "jsval \<Rightarrow> string \<Rightarrow> jsval \<Rightarrow> jsval" where
  "spec_field spec field dflt =
     (if truthy spec then (case js_get spec field of Inr v \<Rightarrow> v | Inl _ \<Rightarrow> JUndef) else dflt)"

definition overlay_path :: "string \<Rightarrow> string" where
  "overlay_path title = ''overlays/downstreams/'' @ title"

definition render_manifests :: "services \<Rightarrow> string \<Rightarrow> Cluster \<Rightarrow> jsval \<Rightarrow> int \<Rightarrow> string result" where
  "render_manifests sv appId cluster spec s =
     bindR (sv_render sv appId (show_int s) (overlay_path (c_title cluster)) (spec_field spec ''kustomizeVersion'' (JStr [])))
       (\<lambda>rendered. Inr (base64Encode rendered))"

definition deploy_message ::
  "services \<Rightarrow> KotsApp \<Rightarrow> Cluster \<Rightarrow> string \<Rightarrow> int \<Rightarrow> db \<Rightarrow> message result" where
  "deploy_message sv app cluster clusterId s d =
     bindR (app_getKotsAppSpec sv (ka_id app) (c_id cluster) d) (\<lambda>spec.
     bindR (render_manifests sv (ka_id app) cluster spec s) (\<lambda>manifests.
     bindR (sv_pullSecret sv (ka_id app) (show_int s)) (\<lambda>imagePullSecret.
     bindR (case getPreviouslyDeployedSequence (ka_id app) clusterId s d of
              None \<Rightarrow> Inr []
            | Some p \<Rightarrow> render_manifests sv (ka_id app) cluster spec p) (\<lambda>previous.
     Inr (DeployMsg
       \<lparr>da_app_id = ka_id app, da_app_slug = ka_slug app,
        da_kubectl_version = spec_field spec ''kubectlVersion'' (JStr []),
        da_additional_namespaces = spec_field spec ''additionalNamespaces'' (JArr []),
        da_image_pull_secret = Some imagePullSecret, da_namespace = ''.'', da_manifests = manifests,
        da_previous_manifests = previous, da_result_callback = ''/api/v1/deploy/result'', da_wait = False,
        da_clear_namespaces = JUndef, da_clear_pvcs = False,
        da_annotate_slug = Some (sv_annotateSlug sv)\<rparr>)))))"

text \<open>The informers of the application, or the status "ready" when it has none; errors are logged.\<close>

definition send_informers :: "services \<Rightarrow> time \<Rightarrow> string \<Rightarrow> Cluster \<Rightarrow> KotsApp \<Rightarrow> server \<Rightarrow> server" where
  "send_informers sv now clusterId cluster app s =
     (case app_getKotsAppSpec sv (ka_id app) (c_id cluster) (sv_db s) of
        Inl _ \<Rightarrow> s
      | Inr spec \<Rightarrow>
          (let informers = spec_field spec ''statusInformers'' JUndef in
           if truthy informers then emit clusterId (InformersMsg (ka_id app) informers) s
           else s\<lparr>sv_db := setKotsAppStatus (ka_id app) (Some DefaultReadyState) now (sv_db s)\<rparr>))"

definition remember :: "nat \<Rightarrow> string \<Rightarrow> int \<Rightarrow> server \<Rightarrow> server" where
  "remember i appId n s =
     s\<lparr>sv_history := (sv_history s)[i := (sv_history s ! i)\<lparr>csh_lastDeployedSequences :=
        (csh_lastDeployedSequences (sv_history s ! i))(appId \<mapsto> n)\<rparr>]\<rparr>"

definition deploy_app :: "services \<Rightarrow> time \<Rightarrow> nat \<Rightarrow> KotsApp \<Rightarrow> (server, unit) eff" where
  "deploy_app sv now i app s =
     (let csh = sv_history s ! i; clusterId = csh_clusterId csh in
      if truthy_str (ka_restoreInProgressName app) then (Inr (), s)
      else case getCurrentVersion (ka_id app) clusterId (sv_db s) of
        Inl e \<Rightarrow> (Inl e, s)
      | Inr None \<Rightarrow> (Inr (), s)
      | Inr (Some deployed) \<Rightarrow>
          (let n = kv_sequence deployed in
           if n > -1 \<and> csh_lastDeployedSequences csh (ka_id app) \<noteq> Some n
           then case getCluster clusterId (sv_db s) of
               Inl e \<Rightarrow> (Inl e, s)
             | Inr cluster \<Rightarrow>
                 (case deploy_message sv app cluster clusterId n (sv_db s) of
                    Inl e \<Rightarrow> (Inr (), s\<lparr>sv_db := updateDownstreamsStatus (ka_id app) n ''failed'' (sv_err_text sv e) (sv_db s)\<rparr>)
                  | Inr m \<Rightarrow> (Inr (), send_informers sv now clusterId cluster app
                               (remember i (ka_id app) n (emit clusterId m s))))
           else (Inr (), s)))"

definition deployLoop :: "services \<Rightarrow> time \<Rightarrow> (server, unit) eff" where
  "deployLoop sv now s =
     thenE (forE (\<lambda>i. bindE (queryE (\<lambda>s. listAppsForCluster (csh_clusterId (sv_history s ! i)) (sv_db s)))
       (\<lambda>apps. forE (deploy_app sv now i) apps)) [0..<length (sv_history s)]) (retE ()) s"

section \<open>The restore loop\<close>

definition undeploy_message :: "services \<Rightarrow> KotsApp \<Rightarrow> Cluster \<Rightarrow> db \<Rightarrow> message result" where
  "undeploy_message sv app cluster d =
     bindR (app_getKotsAppSpec sv (ka_id app) (c_id cluster) d) (\<lambda>spec.
     bindR (case ka_currentSequence app of None \<Rightarrow> Inl TypeError | Some n \<Rightarrow> Inr n) (\<lambda>n.
     bindR (render_manifests sv (ka_id app) cluster spec n) (\<lambda>rendered.
     bindR (sv_readBackup sv (str_or_empty (ka_restoreInProgressName app))) (\<lambda>backup.
     bindR (js_get backup ''spec'') (\<lambda>backup_spec.
     bindR (js_get backup_spec ''includedNamespaces'') (\<lambda>namespaces.
       Inr (DeployMsg
         \<lparr>da_app_id = ka_id app, da_app_slug = ka_slug app,
          da_kubectl_version = spec_field spec ''kubectlVersion'' (JStr []),
          da_additional_namespaces = JUndef, da_image_pull_secret = None, da_namespace = ''.'',
          da_manifests = [], da_previous_manifests = rendered,
          da_result_callback = ''/api/v1/undeploy/result'', da_wait = True,
          da_clear_namespaces = namespaces, da_clear_pvcs = True, da_annotate_slug = None\<rparr>)))))))"

definition undeployApp :: "services \<Rightarrow> KotsApp \<Rightarrow> Cluster \<Rightarrow> (server, unit) eff" where
  "undeployApp sv app cluster s =
     (case undeploy_message sv app cluster (sv_db s) of
        Inl e \<Rightarrow> (Inl e, s)
      | Inr m \<Rightarrow>
          (let s1 = emit (c_id cluster) m s in
           (Inr (), s1\<lparr>sv_db := updateAppRestoreUndeployStatus (ka_id app) ''in_process'' (sv_db s1)\<rparr>)))"

definition readRestore :: "string \<Rightarrow> server \<Rightarrow> restore option" where
  "readRestore name s = find (\<lambda>r. rs_name r = name) (sv_restores s)"

definition startVeleroRestore :: "KotsApp \<Rightarrow> server \<Rightarrow> server" where
  "startVeleroRestore app s =
     (if \<not> truthy_str (ka_restoreInProgressName app) then s
      else (let name = str_or_empty (ka_restoreInProgressName app) in
        s\<lparr>sv_restores := sv_restores s @ [\<lparr>rs_name = name, rs_backupName = name, rs_phase = None\<rparr>]\<rparr>))"

definition backup_sequence :: "jsval \<Rightarrow> int result" where
  "backup_sequence backup =
     bindR (js_get backup ''metadata'') (\<lambda>metadata.
     bindR (js_get metadata ''annotations'') (\<lambda>annotations.
       if \<not> truthy annotations then Inl (ReplicatedError ''Backup is missing required annotations'')
       else bindR (js_get annotations kotsAppSequenceKey) (\<lambda>sequenceString.
         if \<not> truthy sequenceString then Inl (ReplicatedError ''Backup is missing sequence annotation'')
         else case (case sequenceString of JStr t \<Rightarrow> parse_int t | JNum n \<Rightarrow> Some n | _ \<Rightarrow> None) of
             None \<Rightarrow> Inl (ReplicatedError (''Failed to parse sequence from Backup: '' @ str_or_empty (pg_text sequenceString)))
           | Some n \<Rightarrow> Inr n)))"

definition checkRestoreComplete :: "services \<Rightarrow> time \<Rightarrow> restore \<Rightarrow> KotsApp \<Rightarrow> (server, unit) eff" where
  "checkRestoreComplete sv now r app s =
     (if rs_phase r = Some ''Completed''
      then (case bindR (sv_readBackup sv (rs_backupName r)) backup_sequence of
              Inl e \<Rightarrow> (Inl e, s)
            | Inr n \<Rightarrow> (Inr (), s\<lparr>sv_db := updateAppRestoreReset (ka_id app) (deployVersion (ka_id app) n now (sv_db s))\<rparr>))
      else if rs_phase r \<in> {Some ''PartiallyFailed'', Some ''Failed''}
      then (Inr (), s\<lparr>sv_db := updateAppRestoreReset (ka_id app) (sv_db s)\<rparr>)
      else (Inr (), s))"

definition handleUndeployCompleted :: "services \<Rightarrow> time \<Rightarrow> KotsApp \<Rightarrow> (server, unit) eff" where
  "handleUndeployCompleted sv now app s =
     (if \<not> truthy_str (ka_restoreInProgressName app) then (Inr (), s)
      else case readRestore (str_or_empty (ka_restoreInProgressName app)) s of
          None \<Rightarrow> (Inr (), startVeleroRestore app s)
        | Some r \<Rightarrow> checkRestoreComplete sv now r app s)"

definition handleRestoreInProgress :: "services \<Rightarrow> time \<Rightarrow> KotsApp \<Rightarrow> Cluster \<Rightarrow> (server, unit) eff" where
  "handleRestoreInProgress sv now app cluster =
     (if \<not> truthy_str (ka_restoreInProgressName app) then retE ()
      else if ka_restoreUndeployStatus app = Some ''in_process'' then retE ()
      else if ka_restoreUndeployStatus app = Some ''completed'' then handleUndeployCompleted sv now app
      else if ka_restoreUndeployStatus app = Some ''failed'' then retE ()
      else thenE (undeployApp sv app cluster) (execE (\<lambda>s. s\<lparr>sv_lastUndeployTime := now\<rparr>)))"

definition restore_app :: "services \<Rightarrow> time \<Rightarrow> string \<Rightarrow> KotsApp \<Rightarrow> (server, unit) eff" where
  "restore_app sv now clusterId app =
     (if \<not> truthy_str (ka_restoreInProgressName app) then retE ()
      else bindE (readDb (getCluster clusterId)) (\<lambda>cluster.
        catchE (handleRestoreInProgress sv now app cluster) (\<lambda>_. retE ())))"

definition restoreLoop :: "services \<Rightarrow> time \<Rightarrow> (server, unit) eff" where
  "restoreLoop sv now s =
     thenE (forE (\<lambda>csh. bindE (readDb (listAppsForCluster (csh_clusterId csh)))
       (\<lambda>apps. forE (restore_app sv now (csh_clusterId csh)) apps)) (sv_history s)) (retE ()) s"

section \<open>What the operators report\<close>

datatype 'a response = Unauthorized | Answer 'a

definition putDeployResult ::
  "string \<Rightarrow> string \<Rightarrow> bool option \<Rightarrow> deploy_output \<Rightarrow> (server, unit response) eff" where
  "putDeployResult pass appId is_error output s =
     (case getFromDeployToken pass (sv_db s) of
        Inl _ \<Rightarrow> (Inr Unauthorized, s)
      | Inr cluster \<Rightarrow>
          (case bindR (listAppsForCluster (c_id cluster) (sv_db s)) (\<lambda>_. getCurrentVersion appId (c_id cluster) (sv_db s)) of
             Inl e \<Rightarrow> (Inl e, s)
           | Inr None \<Rightarrow> (Inl TypeError, s)
           | Inr (Some v) \<Rightarrow> (Inr (Answer ()), s\<lparr>sv_db :=
               updateDownstreamDeployStatus appId (c_id cluster) (kv_sequence v) is_error output (sv_db s)\<rparr>)))"

text \<open>The status is written twenty seconds later.\<close>

definition putUndeployResult :: "string \<Rightarrow> string \<Rightarrow> bool \<Rightarrow> (server, unit response) eff" where
  "putUndeployResult pass appId is_error s =
     (case getFromDeployToken pass (sv_db s) of
        Inl _ \<Rightarrow> (Inr Unauthorized, s)
      | Inr cluster \<Rightarrow>
          (case getApp appId (sv_db s) of
             Inl e \<Rightarrow> (Inl e, s)
           | Inr app \<Rightarrow> (Inr (Answer ()),
               if truthy_str (ka_restoreInProgressName app)
               then s\<lparr>sv_timers := sv_timers s @ [(appId, if is_error then ''failed'' else ''completed'')]\<rparr> else s)))"

definition fire_timer :: "nat \<Rightarrow> server \<Rightarrow> server" where
  "fire_timer i s =
     (if i < length (sv_timers s)
      then s\<lparr>sv_timers := take i (sv_timers s) @ drop (Suc i) (sv_timers s),
             sv_db := updateAppRestoreUndeployStatus (fst (sv_timers s ! i)) (snd (sv_timers s ! i)) (sv_db s)\<rparr>
      else s)"

definition cancelRestore :: "string \<Rightarrow> db \<Rightarrow> db" where
  "cancelRestore appId = updateAppRestoreReset appId"


section \<open>Lemmas: what a write leaves of the current version\<close>

text \<open>All the deploy service reads of the current version.\<close>

definition current_key :: "string \<Rightarrow> string \<Rightarrow> db \<Rightarrow> (int \<times> int option) option result" where
  "current_key appId clusterId d =
     (case getCurrentVersion appId clusterId d of
        Inl e \<Rightarrow> Inl e
      | Inr None \<Rightarrow> Inr None
      | Inr (Some v) \<Rightarrow> Inr (Some (kv_sequence v, kv_parentSequence v)))"

lemma getCurrentVersion_cong:
  assumes "t_app_downstream d' = t_app_downstream d" "t_app_downstream_version d' = t_app_downstream_version d"
    and "t_app_downstream_output d' = t_app_downstream_output d" "t_app_version d' = t_app_version d"
  shows "getCurrentVersion a c d' = getCurrentVersion a c d"
proof -
  have "downstream_sequence a c d' = downstream_sequence a c d" by (simp add: downstream_sequence_def assms)
  moreover have "downstream_versions a c d' = downstream_versions a c d" by (simp add: downstream_versions_def assms)
  moreover have "join_output d' = join_output d" by (simp add: fun_eq_iff join_output_def assms)
  then have "shown_status d' = shown_status d" by (simp add: fun_eq_iff shown_status_def)
  moreover have "getReleaseNotes a p d' = getReleaseNotes a p d" for p by (cases p) (simp_all add: getReleaseNotes_def assms)
  then have "version_item d' a st r = version_item d a st r" for st r by (simp add: version_item_def)
  ultimately show ?thesis by (simp add: getCurrentVersion_def cong: option.case_cong list.case_cong)
qed

lemma current_key_status [simp]:
  "current_key a c (updateDownstreamsStatus i n st info d) = current_key a c d"
proof -
  let ?f = "\<lambda>r. if adv_app_id r = i \<and> adv_sequence r = n then r\<lparr>adv_status := Some st, adv_status_info := Some info\<rparr> else r"
  let ?d = "updateDownstreamsStatus i n st info d"
  have seq: "downstream_sequence a c ?d = downstream_sequence a c d"
    by (simp add: downstream_sequence_def updateDownstreamsStatus_def)
  have vs: "downstream_versions a c ?d = map ?f (downstream_versions a c d)"
    unfolding updateDownstreamsStatus_def by (subst downstream_versions_update) (simp_all add: sql_update_def)
  have "order_desc adv_sequence (sql_select (\<lambda>r. adv_sequence r = s) (map ?f t))
     = map ?f (order_desc adv_sequence (sql_select (\<lambda>r. adv_sequence r = s) t))" for s and t :: "app_downstream_version_row list"
  proof -
    have "sql_select (\<lambda>r. adv_sequence r = s) (map ?f t) = map ?f (sql_select (\<lambda>r. adv_sequence r = s) t)"
      by (induction t) (auto simp: sql_select_def)
    then show ?thesis by (simp add: order_desc_map)
  qed
  then show ?thesis
    by (auto simp: current_key_def getCurrentVersion_def seq vs version_item_def split: option.splits list.splits)
qed

lemma previously_deployed_status [simp]:
  "getPreviouslyDeployedSequence a c m (updateDownstreamsStatus i n st info d) = getPreviouslyDeployedSequence a c m d"
proof -
  let ?f = "\<lambda>r. if adv_app_id r = i \<and> adv_sequence r = n then r\<lparr>adv_status := Some st, adv_status_info := Some info\<rparr> else r"
  have vs: "downstream_versions a c (updateDownstreamsStatus i n st info d) = map ?f (downstream_versions a c d)"
    unfolding updateDownstreamsStatus_def by (subst downstream_versions_update) (simp_all add: sql_update_def)
  have sel: "sql_select (\<lambda>r. adv_applied_at r \<noteq> None) (map ?f t) = map ?f (sql_select (\<lambda>r. adv_applied_at r \<noteq> None) t)"
    for t :: "app_downstream_version_row list" by (induction t) (auto simp: sql_select_def)
  have "order_desc (\<lambda>r. the (adv_applied_at r)) (map ?f t) = map ?f (order_desc (\<lambda>r. the (adv_applied_at r)) t)"
    for t :: "app_downstream_version_row list" by (rule order_desc_map) simp
  then show ?thesis
    unfolding getPreviouslyDeployedSequence_def vs sel by (auto simp: take_map split: list.splits)
qed

lemma app_spec_key:
  "app_getKotsAppSpec sv a c d =
     bindR (current_key a c d) (\<lambda>v. case v of
         None \<Rightarrow> Inr JUndef
       | Some (_, None) \<Rightarrow> Inr JUndef
       | Some (_, Some p) \<Rightarrow> getKotsAppSpec (sv_safeLoad sv) a p d)"
  by (auto simp: app_getKotsAppSpec_def current_key_def bindR_def split: sum.splits option.splits)

lemma getKotsAppSpec_cong:
  "t_app_version d' = t_app_version d \<Longrightarrow> getKotsAppSpec l a p d' = getKotsAppSpec l a p d"
  by (simp add: getKotsAppSpec_def app_version_at_def)

lemma status_tables [simp]:
  "t_app_version (updateDownstreamsStatus i n st info d) = t_app_version d"
  "t_cluster (updateDownstreamsStatus i n st info d) = t_cluster d"
  "t_cluster_github (updateDownstreamsStatus i n st info d) = t_cluster_github d"
  by (simp_all add: updateDownstreamsStatus_def)

lemma setKotsAppStatus_tables [simp]:
  "t_app (setKotsAppStatus i rs t d) = t_app d"
  "t_app_downstream (setKotsAppStatus i rs t d) = t_app_downstream d"
  "t_app_downstream_version (setKotsAppStatus i rs t d) = t_app_downstream_version d"
  "t_app_downstream_output (setKotsAppStatus i rs t d) = t_app_downstream_output d"
  "t_app_version (setKotsAppStatus i rs t d) = t_app_version d"
  "t_cluster (setKotsAppStatus i rs t d) = t_cluster d"
  "t_cluster_github (setKotsAppStatus i rs t d) = t_cluster_github d"
  by (simp_all add: setKotsAppStatus_def)

lemma current_version_setKotsAppStatus [simp]:
  "getCurrentVersion a c (setKotsAppStatus i rs t d) = getCurrentVersion a c d"
  by (rule getCurrentVersion_cong) simp_all

lemma send_informers_simps [simp]:
  "sv_history (send_informers sv now c cl app s) = sv_history s"
  "sv_timers (send_informers sv now c cl app s) = sv_timers s"
  "sv_restores (send_informers sv now c cl app s) = sv_restores s"
  "getCurrentVersion a c' (sv_db (send_informers sv now c cl app s)) = getCurrentVersion a c' (sv_db s)"
  by (auto simp: send_informers_def emit_def Let_def split: sum.splits)

lemma remember_simps [simp]:
  "sv_db (remember i a n s) = sv_db s"
  "sv_out (remember i a n s) = sv_out s"
  "length (sv_history (remember i a n s)) = length (sv_history s)"
  by (simp_all add: remember_def)

lemma emit_simps [simp]:
  "sv_db (emit c m s) = sv_db s" "sv_history (emit c m s) = sv_history s"
  "sv_out (emit c m s) = sv_out s @ [(c, m)]"
  by (simp_all add: emit_def)

text \<open>\<open>deploy_app\<close> over the key of the current version.\<close>

lemma deploy_app_key:
  "deploy_app sv now i app s =
    (let csh = sv_history s ! i; c = csh_clusterId csh in
     if truthy_str (ka_restoreInProgressName app) then (Inr (), s)
     else case current_key (ka_id app) c (sv_db s) of
       Inl e \<Rightarrow> (Inl e, s)
     | Inr None \<Rightarrow> (Inr (), s)
     | Inr (Some (n, p)) \<Rightarrow>
         if n > -1 \<and> csh_lastDeployedSequences csh (ka_id app) \<noteq> Some n
         then case getCluster c (sv_db s) of
             Inl e \<Rightarrow> (Inl e, s)
           | Inr cluster \<Rightarrow>
               (case deploy_message sv app cluster c n (sv_db s) of
                  Inl e \<Rightarrow> (Inr (), s\<lparr>sv_db := updateDownstreamsStatus (ka_id app) n ''failed'' (sv_err_text sv e) (sv_db s)\<rparr>)
                | Inr m \<Rightarrow> (Inr (), send_informers sv now c cluster app
                             (remember i (ka_id app) n (emit c m s))))
         else (Inr (), s))"
  by (auto simp: deploy_app_def current_key_def Let_def split: sum.splits option.splits)

lemma app_spec_status [simp]:
  "app_getKotsAppSpec sv a c (updateDownstreamsStatus i n st info d) = app_getKotsAppSpec sv a c d"
  by (cases "current_key a c d")
    (simp_all add: app_spec_key getKotsAppSpec_cong [of "updateDownstreamsStatus i n st info d" d] split: option.split)

lemma deploy_message_status [simp]:
  "deploy_message sv app cl c m (updateDownstreamsStatus i n st info d) = deploy_message sv app cl c m d"
  by (simp add: deploy_message_def)

lemma updateDownstreamsStatus_twice [simp]:
  "updateDownstreamsStatus i n st info (updateDownstreamsStatus i n st info d) = updateDownstreamsStatus i n st info d"
  by (simp add: updateDownstreamsStatus_def sql_update_def o_def)

section \<open>The deploy loop\<close>



section \<open>A restore from start to end\<close>

text \<open>One turn of the restore loop for an application and a cluster, the application read anew.\<close>

definition restore_tick :: "services \<Rightarrow> time \<Rightarrow> string \<Rightarrow> string \<Rightarrow> server \<Rightarrow> server" where
  "restore_tick sv now clusterId appId s =
     (case getApp appId (sv_db s) of Inl _ \<Rightarrow> s | Inr app \<Rightarrow> snd (restore_app sv now clusterId app s))"

definition velero_phase :: "string \<Rightarrow> string \<Rightarrow> server \<Rightarrow> server" where
  "velero_phase name ph s =
     s\<lparr>sv_restores := map (\<lambda>r. if rs_name r = name then r\<lparr>rs_phase := Some ph\<rparr> else r) (sv_restores s)\<rparr>"

definition restoring :: "string \<Rightarrow> string \<Rightarrow> string option \<Rightarrow> server \<Rightarrow> bool" where
  "restoring appId name st s \<longleftrightarrow>
     (\<exists>row. app_of appId (sv_db s) = Some row \<and> app_restore_in_progress_name row = Some name \<and> name \<noteq> [] \<and>
        app_restore_undeploy_status row = st)"

lemma restoring_app:
  assumes "restoring appId name st s"
  shows "\<exists>app. getApp appId (sv_db s) = Inr app \<and> ka_id app = appId \<and> ka_restoreInProgressName app = Some name \<and>
    name \<noteq> [] \<and> ka_restoreUndeployStatus app = st"
proof -
  from assms obtain row where row: "app_of appId (sv_db s) = Some row" "app_restore_in_progress_name row = Some name"
    "name \<noteq> []" "app_restore_undeploy_status row = st" by (auto simp: restoring_def)
  moreover from row have "app_id row = appId" by (auto simp: app_of_def dest: row_of_Some)
  ultimately show ?thesis by (auto simp: getApp_def Let_def)
qed

lemma app_update_rows [simp]:
  "app_of i (updateAppRestoreUndeployStatus i st d) =
     map_option (\<lambda>r. r\<lparr>app_restore_undeploy_status := Some st\<rparr>) (app_of i d)"
  "app_of i (updateAppRestoreInProgressName i n d) =
     map_option (\<lambda>r. r\<lparr>app_restore_in_progress_name := Some n\<rparr>) (app_of i d)"
  "app_of i (updateAppRestoreReset i d) =
     map_option (\<lambda>r. r\<lparr>app_restore_in_progress_name := None, app_restore_undeploy_status := Some []\<rparr>) (app_of i d)"
  by (simp_all add: updateAppRestoreUndeployStatus_def updateAppRestoreInProgressName_def updateAppRestoreReset_def)

lemma update_app_clusters [simp]:
  "t_cluster (update_app i f d) = t_cluster d" "t_cluster_github (update_app i f d) = t_cluster_github d"
  "t_cluster (updateAppRestoreUndeployStatus i st d) = t_cluster d"
  "t_cluster_github (updateAppRestoreUndeployStatus i st d) = t_cluster_github d"
  by (simp_all add: update_app_def updateAppRestoreUndeployStatus_def)

lemma getCluster_undeploy [simp]: "getCluster j (updateAppRestoreUndeployStatus i st d) = getCluster j d"
  by (rule getCluster_local) simp_all

lemma getFromDeployToken_undeploy [simp]:
  "getFromDeployToken tok (updateAppRestoreUndeployStatus i st d) = getFromDeployToken tok d"
  by (simp add: getFromDeployToken_def cong: list.case_cong)

lemma downstream_sequence_update_app [simp]: "downstream_sequence a c (update_app i f d) = downstream_sequence a c d"
  by (simp add: downstream_sequence_def)

lemma undeploy_message_shape:
  "undeploy_message sv app cluster d = Inr m \<Longrightarrow>
   \<exists>a. m = DeployMsg a \<and> da_app_id a = ka_id app \<and> da_manifests a = [] \<and> da_wait a"
  unfolding undeploy_message_def bindR_eq_Inr
  by (elim exE conjE, simp only: sum.inject, intro exI conjI, rule sym, assumption) (simp_all only: deploy_args.simps)

lemma undeployApp_effect:
  "undeployApp sv app cluster s = (Inr u, s1) \<Longrightarrow>
   \<exists>a. da_app_id a = ka_id app \<and> da_manifests a = [] \<and> da_wait a \<and>
     s1 = (emit (c_id cluster) (DeployMsg a) s)\<lparr>sv_db := updateAppRestoreUndeployStatus (ka_id app) ''in_process'' (sv_db s)\<rparr>"
proof -
  assume u: "undeployApp sv app cluster s = (Inr u, s1)"
  show ?thesis
  proof (cases "undeploy_message sv app cluster (sv_db s)")
    case (Inl e)
    with u show ?thesis by (simp add: undeployApp_def)
  next
    case (Inr m)
    with u have "s1 = (emit (c_id cluster) m s)\<lparr>sv_db := updateAppRestoreUndeployStatus (ka_id app) ''in_process'' (sv_db s)\<rparr>"
      by (simp add: undeployApp_def Let_def)
    with undeploy_message_shape [OF Inr] show ?thesis by blast
  qed
qed

lemma restore_tick_completed:
  assumes "restoring appId name (Some ''completed'') s" and "getCluster c (sv_db s) = Inr cluster"
  shows "restore_tick sv now c appId s =
     (case readRestore name s of
        None \<Rightarrow> s\<lparr>sv_restores := sv_restores s @ [\<lparr>rs_name = name, rs_backupName = name, rs_phase = None\<rparr>]\<rparr>
      | Some r \<Rightarrow>
          if rs_phase r = Some ''Completed''
          then (case bindR (sv_readBackup sv (rs_backupName r)) backup_sequence of
                  Inl e \<Rightarrow> s
                | Inr n \<Rightarrow> s\<lparr>sv_db := updateAppRestoreReset appId (deployVersion appId n now (sv_db s))\<rparr>)
          else if rs_phase r \<in> {Some ''PartiallyFailed'', Some ''Failed''}
          then s\<lparr>sv_db := updateAppRestoreReset appId (sv_db s)\<rparr> else s)"
proof -
  from restoring_app [OF assms(1)] obtain app where app: "getApp appId (sv_db s) = Inr app" "ka_id app = appId"
    "ka_restoreInProgressName app = Some name" "name \<noteq> []" "ka_restoreUndeployStatus app = Some ''completed''" by blast
  then show ?thesis using assms(2)
    by (auto simp: restore_tick_def restore_app_def readDb_def catchE_def handleRestoreInProgress_def
        handleUndeployCompleted_def startVeleroRestore_def checkRestoreComplete_def split: option.splits sum.splits)
qed

lemma fire_last:
  "fire_timer (length ts) (s\<lparr>sv_timers := ts @ [(i, st)]\<rparr>) =
     s\<lparr>sv_timers := ts, sv_db := updateAppRestoreUndeployStatus i st (sv_db s)\<rparr>"
  by (simp add: fire_timer_def)

lemma undeploy_report:
  assumes "restoring appId name st s" and "getFromDeployToken tok (sv_db s) = Inr cluster"
  shows "fire_timer (length (sv_timers s)) (snd (putUndeployResult tok appId is_error s)) =
     s\<lparr>sv_db := updateAppRestoreUndeployStatus appId (if is_error then ''failed'' else ''completed'') (sv_db s)\<rparr>"
proof -
  from restoring_app [OF assms(1)] obtain app where app: "getApp appId (sv_db s) = Inr app"
    "ka_restoreInProgressName app = Some name" "name \<noteq> []" by blast
  then have "snd (putUndeployResult tok appId is_error s) =
     s\<lparr>sv_timers := sv_timers s @ [(appId, if is_error then ''failed'' else ''completed'')]\<rparr>"
    using assms(2) by (simp add: putUndeployResult_def)
  then show ?thesis by (simp add: fire_timer_def)
qed

lemma restoring_status:
  "restoring appId name st s \<Longrightarrow>
   restoring appId name (Some st') (s\<lparr>sv_db := updateAppRestoreUndeployStatus appId st' (sv_db s)\<rparr>)"
  by (auto simp: restoring_def)

lemma restoring_other [simp]:
  "restoring appId name st (s\<lparr>sv_out := x\<rparr>) = restoring appId name st s"
  "restoring appId name st (s\<lparr>sv_restores := y\<rparr>) = restoring appId name st s"
  "restoring appId name st (s\<lparr>sv_timers := z\<rparr>) = restoring appId name st s"
  "restoring appId name st (s\<lparr>sv_lastUndeployTime := w\<rparr>) = restoring appId name st s"
  "restoring appId name st (emit room m s) = restoring appId name st s"
  "restoring appId name st (velero_phase n ph s) = restoring appId name st s"
  by (simp_all add: restoring_def emit_def velero_phase_def)

lemma find_snoc: "find p (xs @ [x]) = (case find p xs of Some y \<Rightarrow> Some y | None \<Rightarrow> if p x then Some x else None)"
  by (induction xs) auto

lemma find_velero_new:
  "find (\<lambda>r. rs_name r = name) rs = None \<Longrightarrow>
   find (\<lambda>r. rs_name r = name) (map (\<lambda>r. if rs_name r = name then r\<lparr>rs_phase := Some ph\<rparr> else r)
     (rs @ [\<lparr>rs_name = name, rs_backupName = b, rs_phase = None\<rparr>])) =
     Some \<lparr>rs_name = name, rs_backupName = b, rs_phase = Some ph\<rparr>"
  by (induction rs) (auto split: if_splits)

lemma restore_starts:
  assumes start: "restoring appId name st s" "st \<notin> {Some ''in_process'', Some ''completed'', Some ''failed''}"
    and cluster: "getCluster clusterId (sv_db s) = Inr cluster"
    and app: "getApp appId (sv_db s) = Inr app" "undeployApp sv app cluster s = (Inr u, s0)"
  shows "\<exists>a. da_app_id a = appId \<and> da_manifests a = [] \<and> da_wait a \<and>
    restore_tick sv t1 clusterId appId s = (emit (c_id cluster) (DeployMsg a) s)
      \<lparr>sv_db := updateAppRestoreUndeployStatus appId ''in_process'' (sv_db s), sv_lastUndeployTime := t1\<rparr>"
proof -
  from restoring_app [OF start(1)] app(1) have ka: "ka_id app = appId" "ka_restoreInProgressName app = Some name"
    "name \<noteq> []" "ka_restoreUndeployStatus app = st" by auto
  have "restore_tick sv t1 clusterId appId s = s0\<lparr>sv_lastUndeployTime := t1\<rparr>"
    using start(2) cluster app ka
    by (simp add: restore_tick_def restore_app_def readDb_def catchE_def handleRestoreInProgress_def thenE_apply)
  with undeployApp_effect [OF app(2)] ka(1) show ?thesis by auto
qed

lemma restore_finishes:
  assumes rest: "restoring appId name (Some ''completed'') s" and cluster: "getCluster clusterId (sv_db s) = Inr cluster"
    and backup: "bindR (sv_readBackup sv name) backup_sequence = Inr n" and new: "readRestore name s = None"
  defines "s3 \<equiv> s\<lparr>sv_restores := sv_restores s @ [\<lparr>rs_name = name, rs_backupName = name, rs_phase = None\<rparr>]\<rparr>"
  shows "restore_tick sv t2 clusterId appId s = s3"
    and "readRestore name s3 = Some \<lparr>rs_name = name, rs_backupName = name, rs_phase = None\<rparr>"
    and "let v = velero_phase name ''Completed'' s3 in restore_tick sv t3 clusterId appId v =
      v\<lparr>sv_db := updateAppRestoreReset appId (deployVersion appId n t3 (sv_db s))\<rparr>"
proof -
  show "restore_tick sv t2 clusterId appId s = s3" using restore_tick_completed [OF rest cluster] new by (simp add: s3_def)
  show "readRestore name s3 = Some \<lparr>rs_name = name, rs_backupName = name, rs_phase = None\<rparr>"
    using new by (simp add: readRestore_def find_snoc s3_def)
  let ?v = "velero_phase name ''Completed'' s3"
  have "restoring appId name (Some ''completed'') ?v" using rest by (simp add: s3_def)
  moreover have "getCluster clusterId (sv_db ?v) = Inr cluster" using cluster by (simp add: velero_phase_def s3_def)
  moreover have "readRestore name ?v = Some \<lparr>rs_name = name, rs_backupName = name, rs_phase = Some ''Completed''\<rparr>"
    using find_velero_new [of name "sv_restores s" "''Completed''" name] new by (simp add: readRestore_def velero_phase_def s3_def)
  ultimately show "let v = ?v in restore_tick sv t3 clusterId appId v =
      v\<lparr>sv_db := updateAppRestoreReset appId (deployVersion appId n t3 (sv_db s))\<rparr>"
    using restore_tick_completed [of appId name ?v clusterId cluster sv t3] backup by (simp add: velero_phase_def s3_def)
qed

text \<open>
  C11: a restore that was started runs to its end: its first turn asks the operator to take the
  application down and waits; when the operator reports success, the turn after the delay creates the
  Velero restore; when Velero completes it, the next turn deploys, on every downstream, the sequence
  that the backup carries, and the restore is over.  Nothing else is sent to the operator meanwhile.
\<close>

theorem restore_completes:
  assumes start: "restoring appId name st s" "st \<notin> {Some ''in_process'', Some ''completed'', Some ''failed''}"
    and cluster: "getCluster clusterId (sv_db s) = Inr cluster" "getFromDeployToken token (sv_db s) = Inr cluster"
    and app: "getApp appId (sv_db s) = Inr app" "undeployApp sv app cluster s = (Inr u, s0)"
    and backup: "bindR (sv_readBackup sv name) backup_sequence = Inr n"
    and new: "readRestore name s = None"
  shows "let s1 = restore_tick sv t1 clusterId appId s;
             s2 = fire_timer (length (sv_timers s1)) (snd (putUndeployResult token appId False s1));
             s3 = restore_tick sv t2 clusterId appId s2;
             s4 = restore_tick sv t3 clusterId appId (velero_phase name ''Completed'' s3) in
    restoring appId name (Some ''in_process'') s1 \<and> restore_tick sv t clusterId appId s1 = s1 \<and>
    (\<exists>a. da_app_id a = appId \<and> da_manifests a = [] \<and> da_wait a \<and>
       sv_out s4 = sv_out s @ [(c_id cluster, DeployMsg a)]) \<and>
    readRestore name s3 = Some \<lparr>rs_name = name, rs_backupName = name, rs_phase = None\<rparr> \<and>
    (\<exists>row. app_of appId (sv_db s4) = Some row \<and> app_restore_in_progress_name row = None) \<and>
    (\<forall>c. downstream_sequence appId c (sv_db s4) = map_option (\<lambda>_. Some n) (downstream_sequence appId c (sv_db s)))"
proof -
  define s1 where "s1 = restore_tick sv t1 clusterId appId s"
  from restore_starts [OF start cluster(1) app, of t1] obtain a
    where a: "da_app_id a = appId" "da_manifests a = []" "da_wait a"
      and s1: "s1 = (emit (c_id cluster) (DeployMsg a) s)
        \<lparr>sv_db := updateAppRestoreUndeployStatus appId ''in_process'' (sv_db s), sv_lastUndeployTime := t1\<rparr>"
    unfolding s1_def by blast
  have rest1: "restoring appId name (Some ''in_process'') s1"
    using restoring_status [OF start(1), of "''in_process''"] by (simp add: s1 restoring_def)
  have idle: "restore_tick sv t clusterId appId s1 = s1"
    using restoring_app [OF rest1] cluster(1) s1
    by (auto simp: restore_tick_def restore_app_def readDb_def catchE_def handleRestoreInProgress_def)
  define s2 where "s2 = s1\<lparr>sv_db := updateAppRestoreUndeployStatus appId ''completed'' (sv_db s1)\<rparr>"
  have report: "fire_timer (length (sv_timers s1)) (snd (putUndeployResult token appId False s1)) = s2"
    using undeploy_report [OF rest1, of token cluster False] cluster(2) s1 by (simp add: s2_def)
  have rest2: "restoring appId name (Some ''completed'') s2"
    unfolding s2_def by (rule restoring_status [OF rest1])
  have c2: "getCluster clusterId (sv_db s2) = Inr cluster" using cluster(1) by (simp add: s2_def s1)
  have new2: "readRestore name s2 = None" using new by (simp add: readRestore_def s2_def s1 emit_def)
  note finish = restore_finishes [OF rest2 c2 backup new2]
  have "\<exists>row. app_of appId (updateAppRestoreReset appId (deployVersion appId n t3 (sv_db s2))) = Some row \<and>
      app_restore_in_progress_name row = None"
    using start(1) by (auto simp: s2_def s1 restoring_def)
  moreover have "downstream_sequence appId c (updateAppRestoreReset appId (deployVersion appId n t3 (sv_db s2))) =
      map_option (\<lambda>_. Some n) (downstream_sequence appId c (sv_db s))" for c
    by (simp add: updateAppRestoreReset_def s2_def s1 updateAppRestoreUndeployStatus_def)
  moreover have "sv_out s2 = sv_out s @ [(c_id cluster, DeployMsg a)]" by (simp add: s2_def s1 emit_def)
  ultimately show ?thesis
    unfolding Let_def s1_def [symmetric] report finish(1) finish(3) [unfolded Let_def]
    using rest1 idle finish(2) a by (auto simp: velero_phase_def)
qed


definition example_services :: services where
  "example_services =
     \<lparr>sv_render = (\<lambda>_ _ _ _. Inr ''kind: Service''), sv_pullSecret = (\<lambda>_ _. Inr []), sv_safeLoad = (\<lambda>_. Inr JUndef),
      sv_err_text = (\<lambda>_. ''error''),
      sv_readBackup = (\<lambda>_. Inr (JObj [(''metadata'', JObj [(''annotations'', JObj [(''kots.io/app-sequence'', JStr ''2'')])]),
                                     (''spec'', JObj [])])),
      sv_shipApiEndpoint = ''http://kotsadm'', sv_annotateSlug = False\<rparr>"

definition example_app :: app_row where
  "example_app = (new_app_row ''a'' ''App'' 1 ''app'' ''replicated://app'' ''lic'' False None)
     \<lparr>app_current_sequence := Some 1, app_restore_in_progress_name := Some ''backup1''\<rparr>"

definition example_cluster :: cluster_row where
  "example_cluster = \<lparr>cl_id = ''c'', cl_title = ''this-cluster'', cl_slug = ''this-cluster'', cl_created_at = 1,
     cl_updated_at = None, cl_token = Some ''tok'', cl_cluster_type = ''ship'', cl_is_all_users = True\<rparr>"

definition example_server :: server where
  "example_server = \<lparr>sv_db = example_db\<lparr>t_app := [example_app], t_cluster := [example_cluster]\<rparr>,
     sv_history = [\<lparr>csh_clusterId = ''c'', csh_socketId = ''s'', csh_lastDeployedSequences = (\<lambda>_. None)\<rparr>],
     sv_out = [], sv_restores = [], sv_timers = [], sv_lastUndeployTime = 0\<rparr>"

lemma example_getApp:
  "\<exists>app. getApp ''a'' (sv_db example_server) = Inr app \<and> ka_id app = ''a'' \<and> ka_restoreInProgressName app = Some ''backup1'' \<and>
     ka_currentSequence app = Some 1"
  by (simp add: getApp_def example_server_def app_of_def row_of_def example_app_def new_app_row_def Let_def)

lemma example_getCluster:
  "getCluster ''c'' (sv_db example_server) = Inr (mapCluster example_cluster (Some ''tok''))"
  "getFromDeployToken ''tok'' (sv_db example_server) = Inr (mapCluster example_cluster (Some ''tok''))"
  by code_simp+

lemma example_current: "current_key ''a'' ''c'' (sv_db example_server) = Inr (Some (1, Some 0))"
  by code_simp

lemma restore_completes_witness:
  "let s1 = restore_tick example_services 5 ''c'' ''a'' example_server;
       s2 = fire_timer (length (sv_timers s1)) (snd (putUndeployResult ''tok'' ''a'' False s1));
       s3 = restore_tick example_services 6 ''c'' ''a'' s2;
       s4 = restore_tick example_services 7 ''c'' ''a'' (velero_phase ''backup1'' ''Completed'' s3) in
   downstream_sequence ''a'' ''c'' (sv_db s4) = Some (Some 2) \<and> (\<exists>a. sv_out s4 = [(''c'', DeployMsg a)])"
proof -
  let ?cl = "mapCluster example_cluster (Some ''tok'')"
  obtain app where app: "getApp ''a'' (sv_db example_server) = Inr app" "ka_id app = ''a''"
    "ka_restoreInProgressName app = Some ''backup1''" "ka_currentSequence app = Some 1" using example_getApp by blast
  have c: "c_id ?cl = ''c''" by (simp add: mapCluster_def example_cluster_def)
  have v: "getKotsAppSpec l ''a'' 0 (sv_db example_server) = Inr JUndef" for l
    by (simp add: getKotsAppSpec_def app_version_at_def example_server_def example_db_def empty_db_def)
  obtain m where "undeploy_message example_services app ?cl (sv_db example_server) = Inr m"
    by (simp add: undeploy_message_def app_spec_key app c example_current v render_manifests_def example_services_def)
  then obtain s0 where u: "undeployApp example_services app ?cl example_server = (Inr (), s0)"
    by (simp add: undeployApp_def Let_def)
  have start: "restoring ''a'' ''backup1'' None example_server"
    by (simp add: restoring_def example_server_def app_of_def row_of_def example_app_def new_app_row_def)
  have b: "bindR (sv_readBackup example_services ''backup1'') backup_sequence = Inr 2"
    by code_simp
  have new: "readRestore ''backup1'' example_server = None" by (simp add: readRestore_def example_server_def)
  have d: "downstream_sequence ''a'' ''c'' (sv_db example_server) = Some (Some 1)" by code_simp
  show ?thesis
    using restore_completes [OF start _ example_getCluster app(1) u b new, of 5 6 7] d c
    by (auto simp: Let_def example_server_def)
qed


section \<open>Reports that come late\<close>

text \<open>
  the result of an undeploy is written twenty seconds after it arrives, to whatever restore is then in
  progress: when a restore is cancelled and another one started within that time, the other one
  goes straight to Velero, and the operator is never asked to take the application down.
\<close>

theorem late_undeploy_result_skips_undeploy:
  assumes "restoring appId name (Some ''in_process'') s" and "getCluster clusterId (sv_db s) = Inr cluster"
    and "getFromDeployToken token (sv_db s) = Inr cluster" and "other \<noteq> []" and "readRestore other s = None"
  shows "let s1 = snd (putUndeployResult token appId False s);
             s2 = s1\<lparr>sv_db := updateAppRestoreInProgressName appId other (cancelRestore appId (sv_db s1))\<rparr>;
             s3 = fire_timer (length (sv_timers s)) s2;
             s4 = restore_tick sv now clusterId appId s3 in
    restoring appId other (Some []) s2 \<and> sv_out s4 = sv_out s \<and>
    readRestore other s4 = Some \<lparr>rs_name = other, rs_backupName = other, rs_phase = None\<rparr>"
proof -
  from restoring_app [OF assms(1)] obtain app where app: "getApp appId (sv_db s) = Inr app"
    "ka_restoreInProgressName app = Some name" "name \<noteq> []" by blast
  define s1 where "s1 = snd (putUndeployResult token appId False s)"
  have s1: "s1 = s\<lparr>sv_timers := sv_timers s @ [(appId, ''completed'')]\<rparr>"
    using app assms(3) by (simp add: s1_def putUndeployResult_def)
  define s2 where "s2 = s1\<lparr>sv_db := updateAppRestoreInProgressName appId other (cancelRestore appId (sv_db s1))\<rparr>"
  have rest2: "restoring appId other (Some []) s2"
    using assms(1,4) by (auto simp: restoring_def s2_def s1 cancelRestore_def)
  define s3 where "s3 = fire_timer (length (sv_timers s)) s2"
  have s3: "s3 = s2\<lparr>sv_timers := sv_timers s, sv_db := updateAppRestoreUndeployStatus appId ''completed'' (sv_db s2)\<rparr>"
    by (simp add: s3_def s2_def s1 fire_timer_def)
  have rest3: "restoring appId other (Some ''completed'') s3"
    using restoring_status [OF rest2, of "''completed''"] by (simp add: s3 restoring_def)
  have "getCluster clusterId (sv_db s3) = getCluster clusterId (sv_db s)"
    by (rule getCluster_local)
      (simp_all add: s3 s2_def s1 cancelRestore_def updateAppRestoreInProgressName_def updateAppRestoreReset_def)
  then have c3: "getCluster clusterId (sv_db s3) = Inr cluster" using assms(2) by simp
  have new3: "readRestore other s3 = None" using assms(5) by (simp add: readRestore_def s3 s2_def s1)
  have tick: "restore_tick sv now clusterId appId s3 =
      s3\<lparr>sv_restores := sv_restores s3 @ [\<lparr>rs_name = other, rs_backupName = other, rs_phase = None\<rparr>]\<rparr>"
    using restore_tick_completed [OF rest3 c3] new3 by simp
  have "sv_out s3 = sv_out s" by (simp add: s3 s2_def s1)
  moreover have "find (\<lambda>r. rs_name r = other) (sv_restores s3) = None" using new3 by (simp add: readRestore_def)
  ultimately have "restoring appId other (Some []) s2 \<and>
      sv_out (restore_tick sv now clusterId appId s3) = sv_out s \<and>
      readRestore other (restore_tick sv now clusterId appId s3) = Some \<lparr>rs_name = other, rs_backupName = other, rs_phase = None\<rparr>"
    using rest2 by (simp add: tick readRestore_def find_snoc)
  then show ?thesis unfolding Let_def s3_def s2_def s1_def .
qed


definition undeploying_server :: server where
  "undeploying_server = example_server\<lparr>sv_db := updateAppRestoreUndeployStatus ''a'' ''in_process'' (sv_db example_server)\<rparr>"

lemma late_undeploy_result_skips_undeploy_witness:
  "let s1 = snd (putUndeployResult ''tok'' ''a'' False undeploying_server);
       s2 = s1\<lparr>sv_db := updateAppRestoreInProgressName ''a'' ''backup2'' (cancelRestore ''a'' (sv_db s1))\<rparr>;
       s4 = restore_tick example_services 9 ''c'' ''a'' (fire_timer 0 s2) in
   sv_out s4 = [] \<and> readRestore ''backup2'' s4 \<noteq> None"
proof -
  have r: "restoring ''a'' ''backup1'' (Some ''in_process'') undeploying_server"
    by (simp add: restoring_def undeploying_server_def example_server_def app_of_def row_of_def example_app_def
        new_app_row_def updateAppRestoreUndeployStatus_def update_app_def sql_update_def)
  have n: "readRestore ''backup2'' undeploying_server = None"
    by (simp add: readRestore_def undeploying_server_def example_server_def)
  have c: "getCluster ''c'' (sv_db undeploying_server) = Inr (mapCluster example_cluster (Some ''tok''))"
    "getFromDeployToken ''tok'' (sv_db undeploying_server) = Inr (mapCluster example_cluster (Some ''tok''))"
    by (simp_all add: undeploying_server_def example_getCluster)
  have "sv_out undeploying_server = []" "sv_timers undeploying_server = []"
    by (simp_all add: undeploying_server_def example_server_def)
  then show ?thesis
    using late_undeploy_result_skips_undeploy [OF r c _ n, of example_services 9] by (simp add: Let_def)
qed

text \<open>
  a result of the operator carries no sequence and is taken for the version that is current when it
  arrives.  If that is a late success of an earlier version, it settles the current version: the
  operator's own report of a failure is then ignored.
\<close>

theorem stale_report_settles_current:
  assumes "getFromDeployToken pass (sv_db s) = Inr cluster"
    and "listAppsForCluster (c_id cluster) (sv_db s) = Inr apps"
    and "getCurrentVersion appId (c_id cluster) (sv_db s) = Inr (Some v)"
    and "outputs_of appId (c_id cluster) (kv_sequence v) (sv_db s) = []"
  shows "let s1 = snd (putDeployResult pass appId (Some False) stale s);
             d2 = updateDownstreamDeployStatus appId (c_id cluster) (kv_sequence v) (Some True) real (sv_db s1) in
    outputs_of appId (c_id cluster) (kv_sequence v) (sv_db s1)
      = [output_row appId (c_id cluster) (kv_sequence v) (Some False) stale] \<and> d2 = sv_db s1"
proof -
  have "snd (putDeployResult pass appId (Some False) stale s) = s\<lparr>sv_db :=
      updateDownstreamDeployStatus appId (c_id cluster) (kv_sequence v) (Some False) stale (sv_db s)\<rparr>"
    using assms by (simp add: putDeployResult_def)
  moreover have "outputs_of appId (c_id cluster) (kv_sequence v)
      (updateDownstreamDeployStatus appId (c_id cluster) (kv_sequence v) (Some False) stale (sv_db s))
      = [output_row appId (c_id cluster) (kv_sequence v) (Some False) stale]"
    using assms(4) by (intro outputs_of_report) simp
  ultimately show ?thesis
    by (simp add: Let_def) (simp add: updateDownstreamDeployStatus_def Let_def)
qed

lemma stale_report_settles_current_witness:
  "let out = \<lparr>do_dryRun_stdout = None, do_dryRun_stderr = None, do_apply_stdout = None, do_apply_stderr = None\<rparr>;
       s1 = snd (putDeployResult ''tok'' ''a'' (Some False) out example_server) in
   outputs_of ''a'' ''c'' 1 (sv_db s1) = [output_row ''a'' ''c'' 1 (Some False) out]"
proof -
  let ?out = "\<lparr>do_dryRun_stdout = None, do_dryRun_stderr = None, do_apply_stdout = None, do_apply_stderr = None\<rparr>"
  let ?cl = "mapCluster example_cluster (Some ''tok'')"
  have c: "c_id ?cl = ''c''" by (simp add: mapCluster_def example_cluster_def)
  obtain app where app: "getApp ''a'' (sv_db example_server) = Inr app" using example_getApp by blast
  then have l: "listAppsForCluster (c_id ?cl) (sv_db example_server) = Inr [app]"
    unfolding c by (simp add: listAppsForCluster_def example_server_def example_db_def sql_select_def)
  obtain v where v: "getCurrentVersion ''a'' (c_id ?cl) (sv_db example_server) = Inr (Some v)" "kv_sequence v = 1"
    using example_current unfolding c by (auto simp: current_key_def split: sum.splits option.splits)
  have o: "outputs_of ''a'' (c_id ?cl) (kv_sequence v) (sv_db example_server) = []"
    by (simp add: outputs_of_def example_server_def example_db_def empty_db_def sql_select_def)
  show ?thesis
    using stale_report_settles_current [OF example_getCluster(2) l v(1) o, of ?out ?out] unfolding v(2) c
    by (simp add: Let_def)
qed

end
