(* ===== verification/Lifecycle.thy ===== *)
theory Lifecycle
  imports Deploy
begin

text \<open>
  The deploy service among everything else that writes its tables: a step of the whole is a loop of the
  service, a connection, a report of an operator, a delayed write, a change at Velero, or
  one of the calls of the stores that make, deploy, check and restore versions, in any order and
  with any arguments.  The theorems are about every state such steps can lead to.
\<close>

inductive server_step :: "services \<Rightarrow> server \<Rightarrow> server \<Rightarrow> bool" for sv where
  step_connect: "onConnection token socketId s = (r, s') \<Longrightarrow> server_step sv s s'"
| step_disconnect: "server_step sv s (onDisconnect socketId s)"
| step_deployLoop: "deployLoop sv now s = (r, s') \<Longrightarrow> server_step sv s s'"
| step_restoreLoop: "restoreLoop sv now s = (r, s') \<Longrightarrow> server_step sv s s'"
| step_deployResult: "putDeployResult pass appId err out s = (a, s') \<Longrightarrow> server_step sv s s'"
| step_undeployResult: "putUndeployResult pass appId is_error s = (a, s') \<Longrightarrow> server_step sv s s'"
| step_timer: "server_step sv s (fire_timer i s)"
| step_velero: "server_step sv s (s\<lparr>sv_restores := rs\<rparr>)"
| step_newVersion: "createDownstreamVersion appId c now args (sv_db s) = (r, d) \<Longrightarrow> server_step sv s (s\<lparr>sv_db := d\<rparr>)"
| step_midstream: "createMidstreamVersion appId n now m (sv_db s) = (r, d) \<Longrightarrow> server_step sv s (s\<lparr>sv_db := d\<rparr>)"
| step_deployVersion: "server_step sv s (s\<lparr>sv_db := deployVersion appId n now (sv_db s)\<rparr>)"
| step_downstream: "server_step sv s (s\<lparr>sv_db := createDownstream appId name c (sv_db s)\<rparr>)"
| step_preflight: "addKotsPreflight appId c n v now (sv_db s) = (r, d) \<Longrightarrow> server_step sv s (s\<lparr>sv_db := d\<rparr>)"
| step_retry: "server_step sv s (s\<lparr>sv_db := retryPreflights appId c n (sv_db s)\<rparr>)"
| step_ignore: "server_step sv s (s\<lparr>sv_db := ignorePreflightPermissionErrors appId c n (sv_db s)\<rparr>)"
| step_startRestore: "server_step sv s (s\<lparr>sv_db := updateAppRestoreInProgressName appId name (sv_db s)\<rparr>)"
| step_cancelRestore: "server_step sv s (s\<lparr>sv_db := cancelRestore appId (sv_db s)\<rparr>)"

inductive_cases server_stepE: "server_step sv s s'"

inductive reachable :: "services \<Rightarrow> server \<Rightarrow> server \<Rightarrow> bool" for sv s0 where
  reach_start: "reachable sv s0 s0"
| reach_step: "reachable sv s0 s \<Longrightarrow> server_step sv s s' \<Longrightarrow> reachable sv s0 s'"

section \<open>What always holds\<close>

definition all_numbered :: "db \<Rightarrow> bool" where
  "all_numbered d \<longleftrightarrow> (\<forall>a c. numbered a c d)"

text \<open>A message that makes the operator clear volumes is one that takes an application down, and the other way round.\<close>

definition message_ok :: "message \<Rightarrow> bool" where
  "message_ok m \<longleftrightarrow>
     (case m of
        DeployMsg a \<Rightarrow>
          (if da_clear_pvcs a
           then da_manifests a = [] \<and> da_wait a \<and> da_result_callback a = ''/api/v1/undeploy/result''
           else \<not> da_wait a \<and> da_clear_namespaces a = JUndef \<and> da_result_callback a = ''/api/v1/deploy/result'')
      | _ \<Rightarrow> True)"

text \<open>What a socket is recorded to have been sent was sent to its cluster.\<close>

definition was_sent :: "services \<Rightarrow> (string \<times> message) list \<Rightarrow> string \<Rightarrow> string \<Rightarrow> int \<Rightarrow> bool" where
  "was_sent sv out clusterId appId n \<longleftrightarrow>
     (\<exists>a path k rendered. (clusterId, DeployMsg a) \<in> set out \<and> da_app_id a = appId \<and> \<not> da_clear_pvcs a \<and>
        sv_render sv appId (show_int n) path k = Inr rendered \<and> da_manifests a = base64Encode rendered)"

definition sent_ok :: "services \<Rightarrow> server \<Rightarrow> bool" where
  "sent_ok sv s \<longleftrightarrow>
     (\<forall>csh \<in> set (sv_history s). \<forall>appId n. csh_lastDeployedSequences csh appId = Some n \<longrightarrow>
        was_sent sv (sv_out s) (csh_clusterId csh) appId n)"

definition good :: "services \<Rightarrow> server \<Rightarrow> bool" where
  "good sv s \<longleftrightarrow> all_numbered (sv_db s) \<and> (\<forall>(c, m) \<in> set (sv_out s). message_ok m) \<and> sent_ok sv s"

lemma was_sent_more: "was_sent sv out c a n \<Longrightarrow> set out \<subseteq> set out' \<Longrightarrow> was_sent sv out' c a n"
  unfolding was_sent_def by blast

lemma good_cong:
  "good sv s \<Longrightarrow> all_numbered (sv_db s') \<Longrightarrow> sv_out s' = sv_out s \<Longrightarrow> sv_history s' = sv_history s \<Longrightarrow> good sv s'"
  by (simp add: good_def sent_ok_def)

lemma good_db: "good sv s \<Longrightarrow> all_numbered d \<Longrightarrow> good sv (s\<lparr>sv_db := d\<rparr>)"
  by (rule good_cong) simp_all

lemma good_emit: "good sv s \<Longrightarrow> message_ok m \<Longrightarrow> good sv (emit c m s)"
proof -
  assume g: "good sv s" and m: "message_ok m"
  have "was_sent sv (sv_out (emit c m s)) (csh_clusterId csh) a n"
    if "csh \<in> set (sv_history s)" "csh_lastDeployedSequences csh a = Some n" for csh a n
    using g that was_sent_more [of sv "sv_out s" "csh_clusterId csh" a n "sv_out (emit c m s)"]
    by (auto simp: good_def sent_ok_def)
  with g m show ?thesis by (auto simp: good_def sent_ok_def)
qed

section \<open>The statements keep the numbering\<close>

lemma numbered_restore [simp]:
  "numbered a c (updateAppRestoreUndeployStatus i st d) = numbered a c d"
  "numbered a c (updateAppRestoreInProgressName i n d) = numbered a c d"
  "numbered a c (updateAppRestoreReset i d) = numbered a c d"
  "numbered a c (cancelRestore i d) = numbered a c d"
  by (simp_all add: updateAppRestoreUndeployStatus_def updateAppRestoreInProgressName_def
      updateAppRestoreReset_def cancelRestore_def)

lemma numbered_status [simp]: "numbered a c (setKotsAppStatus i rs t d) = numbered a c d"
  by (simp add: setKotsAppStatus_def)

lemma numbered_createDownstream [simp]: "numbered a c (createDownstream i name c' d) = numbered a c d"
  by (simp add: createDownstream_def)

lemma numbered_midstream: "createMidstreamVersion i n now m d = (r, d') \<Longrightarrow> numbered a c d' = numbered a c d"
  by (auto simp: createMidstreamVersion_def eff_simps split: if_splits list.splits sum.splits)

lemma all_numberedI: "all_numbered d \<Longrightarrow> (\<And>a c. numbered a c d' = numbered a c d) \<Longrightarrow> all_numbered d'"
  by (simp add: all_numbered_def)

lemma good_updateI: "good sv s \<Longrightarrow> (\<And>a c. numbered a c d = numbered a c (sv_db s)) \<Longrightarrow> good sv (s\<lparr>sv_db := d\<rparr>)"
  by (rule good_db) (auto simp: good_def intro: all_numberedI)

section \<open>The loops\<close>

lemma deploy_message_shape:
  "deploy_message sv app cluster c n d = Inr m \<Longrightarrow>
   \<exists>a path k rendered. m = DeployMsg a \<and> da_app_id a = ka_id app \<and> \<not> da_clear_pvcs a \<and> \<not> da_wait a \<and>
     da_clear_namespaces a = JUndef \<and> da_result_callback a = ''/api/v1/deploy/result'' \<and>
     sv_render sv (ka_id app) (show_int n) path k = Inr rendered \<and> da_manifests a = base64Encode rendered"
  unfolding deploy_message_def render_manifests_def bindR_eq_Inr
  by (elim exE conjE, simp only: sum.inject, intro exI conjI, rule sym, assumption)
    (auto simp only: deploy_args.simps)

lemma undeploy_message_ok: "undeploy_message sv app cluster d = Inr m \<Longrightarrow> message_ok m"
  unfolding undeploy_message_def bindR_eq_Inr message_ok_def
  by (elim exE conjE, simp only: sum.inject, hypsubst) (simp only: message.case deploy_args.simps if_True simp_thms)

lemma good_send_informers: "good sv s \<Longrightarrow> good sv (send_informers sv now c cl app s)"
  unfolding send_informers_def Let_def
  by (auto split: sum.split intro!: good_emit good_updateI simp: message_ok_def)

lemma good_sent:
  assumes "good sv s" and "deploy_message sv app cluster (csh_clusterId (sv_history s ! i)) n d = Inr m"
  shows "good sv (remember i (ka_id app) n (emit (csh_clusterId (sv_history s ! i)) m s))"
proof -
  let ?c = "csh_clusterId (sv_history s ! i)"
  from deploy_message_shape [OF assms(2)] obtain a path k rendered where
    a: "m = DeployMsg a" "da_app_id a = ka_id app" "\<not> da_clear_pvcs a" "\<not> da_wait a" "da_clear_namespaces a = JUndef"
      "da_result_callback a = ''/api/v1/deploy/result''" "sv_render sv (ka_id app) (show_int n) path k = Inr rendered"
      "da_manifests a = base64Encode rendered" by blast
  then have "message_ok m" by (simp add: message_ok_def)
  with assms(1) have g: "good sv (emit ?c m s)" by (rule good_emit)
  have sent: "was_sent sv (sv_out (emit ?c m s)) ?c (ka_id app) n"
    unfolding was_sent_def using a by (auto simp: emit_def)
  let ?h = "sv_history s"
  let ?new = "(?h ! i)\<lparr>csh_lastDeployedSequences := (csh_lastDeployedSequences (?h ! i))(ka_id app \<mapsto> n)\<rparr>"
  have old: "was_sent sv (sv_out (emit ?c m s)) (csh_clusterId csh) b j"
    if "csh \<in> set ?h" "csh_lastDeployedSequences csh b = Some j" for csh b j
    using g that by (auto simp: good_def sent_ok_def)
  have "was_sent sv (sv_out (emit ?c m s)) (csh_clusterId csh) b j"
    if csh: "csh \<in> set (?h[i := ?new])" "csh_lastDeployedSequences csh b = Some j" for csh b j
  proof (cases "csh \<in> set ?h")
    case True
    then show ?thesis using old csh(2) by blast
  next
    case False
    from csh(1) obtain q where q: "q < length ?h" "csh = ?h[i := ?new] ! q" by (auto simp: in_set_conv_nth)
    with False have "q = i" by (metis nth_list_update_neq nth_mem)
    with q have new: "csh = ?new" and i: "i < length ?h" by simp_all
    show ?thesis
    proof (cases "b = ka_id app")
      case True
      then show ?thesis using new csh(2) sent by simp
    next
      case False
      then show ?thesis using new csh(2) old [of "?h ! i" b j] i by simp
    qed
  qed
  then show ?thesis using g by (simp add: good_def sent_ok_def remember_def)
qed

lemma preserves_deploy_app: "preserves (good sv) (deploy_app sv now i app)"
  unfolding preserves_def
proof (intro allI impI)
  fix s assume g: "good sv s"
  show "good sv (snd (deploy_app sv now i app s))"
    using g by (auto simp: deploy_app_key Let_def split: sum.splits option.splits
        intro!: good_send_informers good_updateI dest: good_sent [OF g])
qed

lemma preserves_deployLoop: "preserves (good sv) (deployLoop sv now)"
proof -
  have "preserves (good sv) (thenE (forE (\<lambda>i. bindE (queryE (\<lambda>s. listAppsForCluster (csh_clusterId (sv_history s ! i)) (sv_db s)))
       (\<lambda>apps. forE (deploy_app sv now i) apps)) xs) (retE ()))" for xs
    by (intro preserve preserves_deploy_app)
  then show ?thesis unfolding preserves_def deployLoop_def by blast
qed

lemma good_tables:
  "good sv s \<Longrightarrow> good sv (s\<lparr>sv_restores := rs\<rparr>)" "good sv s \<Longrightarrow> good sv (s\<lparr>sv_timers := ts\<rparr>)"
  "good sv s \<Longrightarrow> good sv (s\<lparr>sv_lastUndeployTime := now\<rparr>)"
  by (simp_all add: good_def sent_ok_def)

lemma preserves_undeployApp: "preserves (good sv) (undeployApp sv app cluster)"
  unfolding preserves_def undeployApp_def
  by (auto simp: Let_def split: sum.splits intro!: good_updateI good_emit dest: undeploy_message_ok)

lemma preserves_handleUndeployCompleted: "preserves (good sv) (handleUndeployCompleted sv now app)"
  unfolding preserves_def handleUndeployCompleted_def startVeleroRestore_def checkRestoreComplete_def
  by (auto simp: Let_def split: sum.splits option.splits intro!: good_updateI good_tables)

lemma preserves_restore_app: "preserves (good sv) (restore_app sv now c app)"
  unfolding restore_app_def handleRestoreInProgress_def readDb_def
  by (auto intro!: preserve preserves_undeployApp preserves_handleUndeployCompleted good_tables)

lemma preserves_restoreLoop: "preserves (good sv) (restoreLoop sv now)"
proof -
  have "preserves (good sv) (thenE (forE (\<lambda>csh. bindE (readDb (listAppsForCluster (csh_clusterId csh)))
       (\<lambda>apps. forE (restore_app sv now (csh_clusterId csh)) apps)) xs) (retE ()))" for xs
    unfolding readDb_def by (intro preserve preserves_restore_app)
  then show ?thesis unfolding preserves_def restoreLoop_def by blast
qed

lemma good_step: "server_step sv s s' \<Longrightarrow> good sv s \<Longrightarrow> good sv s'"
proof (induction rule: server_step.induct)
  case (step_connect token socketId s r s')
  then show ?case
    by (auto simp: onConnection_def readDb_def good_def sent_ok_def eff_simps split: sum.splits)
next
  case (step_disconnect s socketId)
  then show ?case by (auto simp: onDisconnect_def good_def sent_ok_def)
next
  case (step_deployLoop now s r s')
  then show ?case using preservesD [OF preserves_deployLoop] by blast
next
  case (step_restoreLoop now s r s')
  then show ?case using preservesD [OF preserves_restoreLoop] by blast
next
  case (step_deployResult pass appId err out s a s')
  then show ?case by (auto simp: putDeployResult_def split: sum.splits option.splits intro!: good_updateI)
next
  case (step_undeployResult pass appId is_error s a s')
  then show ?case by (auto simp: putUndeployResult_def split: sum.splits if_splits intro!: good_tables)
next
  case (step_timer s i)
  then show ?case by (auto simp: fire_timer_def simp: good_def all_numbered_def sent_ok_def)
next
  case (step_newVersion appId c now args s r d)
  then have "numbered a c' (sv_db s)" for a c' by (simp add: good_def all_numbered_def)
  then have "all_numbered d"
    using step_newVersion(1) numbered_createDownstreamVersion [of _ _ "sv_db s" appId c now args]
    by (simp add: all_numbered_def)
  with step_newVersion(2) show ?case by (rule good_db)
next
  case (step_midstream appId n now m s r d)
  then show ?case by (auto intro!: good_updateI dest: numbered_midstream)
next
  case (step_preflight appId c n v now s r d)
  then have "d = snd (addKotsPreflight appId c n v now (sv_db s))" by simp
  with step_preflight(2) show ?case by (auto intro!: good_updateI)
qed (auto intro!: good_updateI good_tables)

text \<open>
  C10: whatever happens, in any order: the versions of every downstream stay numbered from zero without
  gaps; an operator is told to clear volumes only by a message that takes an application down and
  carries no manifests; and when a socket is recorded to have been sent a sequence of an
  application, a message with the rendering of that sequence went to its cluster.
\<close>

theorem reachable_good:
  assumes "all_numbered (sv_db s0)" and "sv_history s0 = []" and "sv_out s0 = []" and "reachable sv s0 s"
  shows "all_numbered (sv_db s) \<and> (\<forall>(c, m) \<in> set (sv_out s). message_ok m) \<and> sent_ok sv s"
proof -
  have "good sv s0" using assms(1-3) by (simp add: good_def sent_ok_def)
  with assms(4) have "good sv s" by (induction rule: reachable.induct) (auto dest: good_step)
  then show ?thesis by (simp add: good_def)
qed


lemma example_all_numbered: "all_numbered example_db"
proof -
  have "numbered a c example_db" for a c
  proof (cases "a = ''a'' \<and> c = ''c''")
    case True
    then show ?thesis using example_numbered by simp
  next
    case False
    then have "downstream_versions a c example_db = []"
      by (auto simp: downstream_versions_def example_db_def sql_select_def downstream_row_def)
    then show ?thesis by (simp add: numbered_def)
  qed
  then show ?thesis by (simp add: all_numbered_def)
qed

lemma reachable_good_witness:
  "let s0 = example_server\<lparr>sv_history := []\<rparr>;
       s1 = s0\<lparr>sv_db := snd (createDownstreamVersion ''a'' ''c'' 9 example_args (sv_db s0))\<rparr> in
   all_numbered (sv_db s1) \<and> length (downstream_versions ''a'' ''c'' (sv_db s1)) = 4"
proof -
  let ?s0 = "example_server\<lparr>sv_history := []\<rparr>"
  let ?r = "createDownstreamVersion ''a'' ''c'' 9 example_args (sv_db ?s0)"
  let ?s1 = "?s0\<lparr>sv_db := snd ?r\<rparr>"
  have "numbered a c (sv_db ?s0)" for a c
    using example_all_numbered by (simp add: example_server_def all_numbered_def numbered_def downstream_versions_def)
  then have 0: "all_numbered (sv_db ?s0)" by (simp add: all_numbered_def)
  have "server_step example_services ?s0 ?s1"
    by (rule step_newVersion [where r = "fst ?r"]) simp
  then have r: "reachable example_services ?s0 ?s1" by (intro reach_step [OF reach_start])
  have l: "length (downstream_versions ''a'' ''c'' (sv_db ?s1)) = 4" by code_simp
  show ?thesis
    using reachable_good [OF 0 _ _ r] l by (simp add: Let_def example_server_def)
qed

end
