(* ===== verification/FileTree.thy ===== *)
theory FileTree
  imports JsValue
begin

text \<open>
  Trees of files, as the API shows the contents of an archive (\<^verbatim>\<open>arrangeIntoTree\<close> of
  \<^verbatim>\<open>api/src/troubleshoot/supportbundle.ts\<close> and of \<^verbatim>\<open>kots_app/kots_app.ts\<close>), and the reading of
  an archive (\<^verbatim>\<open>TarballUnpacker\<close> of \<^verbatim>\<open>troubleshoot/util.ts\<close>).

  The abstract view of a tree is the map from the parts of a path to the path that its node
  shows.  An archive is the list of its entries.
\<close>

section \<open>Trees\<close>

datatype file_node = Node (nd_name: string) (nd_path: string) (nd_children: "file_node list")

definition path_parts :: "string \<Rightarrow> string list" where
  "path_parts path =
     (case js_split CHR ''/'' path of [] \<Rightarrow> [] | p # ps \<Rightarrow> if p = [] then ps else p # ps)"

fun update_first :: "('a \<Rightarrow> bool) \<Rightarrow> ('a \<Rightarrow> 'a) \<Rightarrow> 'a list \<Rightarrow> 'a list" where
  "update_first P f [] = []"
| "update_first P f (x # xs) = (if P x then f x # xs else x # update_first P f xs)"

fun tree_add :: "string \<Rightarrow> string list \<Rightarrow> file_node list \<Rightarrow> file_node list" where
  "tree_add path [] currentLevel = currentLevel"
| "tree_add path (part # parts) currentLevel =
     (case find (\<lambda>n. nd_name n = part) currentLevel of
        Some _ \<Rightarrow> update_first (\<lambda>n. nd_name n = part)
          (\<lambda>n. Node (nd_name n) (nd_path n) (tree_add path parts (nd_children n))) currentLevel
      | None \<Rightarrow> currentLevel @ [Node part path (tree_add path parts [])])"

definition arrangeIntoTree :: "string list \<Rightarrow> file_node list" where
  "arrangeIntoTree paths = foldl (\<lambda>tree path. tree_add path (path_parts path) tree) [] paths"

section \<open>Reading an archive\<close>

record FilesAsBuffers =
  fb_fakeIndex :: "string list"
  fb_files :: "(string \<times> string) list"

record tar_entry =
  te_name :: string
  te_isFile :: bool
  te_contents :: string

record RequestedFile =
  rf_path :: string
  rf_matcher :: "string \<Rightarrow> bool"

definition ends_with :: "string \<Rightarrow> string \<Rightarrow> bool" where
  "ends_with s suf \<longleftrightarrow> length suf \<le> length s \<and> drop (length s - length suf) s = suf"

definition isTgzByName :: "string \<Rightarrow> bool" where
  "isTgzByName filename \<longleftrightarrow> ends_with filename ''.tar.gz'' \<or> ends_with filename ''.tgz''"

definition eq_matcher :: "string \<Rightarrow> string \<Rightarrow> bool" where
  "eq_matcher f1 f2 \<longleftrightarrow> f1 = f2"

definition eqIgnoringLeadingSlash :: "string \<Rightarrow> string \<Rightarrow> bool" where
  "eqIgnoringLeadingSlash f1 f2 \<longleftrightarrow> (if take 1 f1 = ''/'' then drop 1 f1 else f1) = f2"

definition contains_matcher :: "string \<Rightarrow> string \<Rightarrow> bool" where
  "contains_matcher f1 f2 \<longleftrightarrow> sublist f1 f2"

text \<open>Assignment to a property of the object of files: the place of a key stays that of its first
  assignment.\<close>

fun put_file :: "string \<Rightarrow> string \<Rightarrow> (string \<times> string) list \<Rightarrow> (string \<times> string) list" where
  "put_file p c [] = [(p, c)]"
| "put_file p c ((q, b) # fs) = (if q = p then (q, c) # fs else (q, b) # put_file p c fs)"

text \<open>Without a list of requested files the paths are the name of the entry itself, a string, and the loop that
  stores the contents runs over its characters.\<close>

definition entry_paths :: "RequestedFile list option \<Rightarrow> tar_entry \<Rightarrow> string list" where
  "entry_paths filesWeCareAbout e =
     (case filesWeCareAbout of
        Some fs \<Rightarrow> map rf_path (filter (\<lambda>f. rf_matcher f (te_name e)) fs)
      | None \<Rightarrow> map (\<lambda>c. [c]) (te_name e))"

definition unpack_entry :: "RequestedFile list option \<Rightarrow> FilesAsBuffers \<Rightarrow> tar_entry \<Rightarrow> FilesAsBuffers" where
  "unpack_entry filesWeCareAbout acc e =
     (if te_isFile e
      then acc\<lparr>fb_fakeIndex := fb_fakeIndex acc @ [te_name e],
               fb_files := foldl (\<lambda>fs p. put_file p (te_contents e) fs) (fb_files acc) (entry_paths filesWeCareAbout e)\<rparr>
      else acc)"

definition unpackFrom :: "tar_entry list option \<Rightarrow> RequestedFile list option \<Rightarrow> FilesAsBuffers" where
  "unpackFrom tarStream filesWeCareAbout =
     (case tarStream of
        None \<Rightarrow> \<lparr>fb_fakeIndex = [], fb_files = []\<rparr>
      | Some es \<Rightarrow> foldl (unpack_entry filesWeCareAbout) \<lparr>fb_fakeIndex = [], fb_files = []\<rparr> es)"

definition packFiles :: "FilesAsBuffers \<Rightarrow> tar_entry list" where
  "packFiles files = map (\<lambda>(p, c). \<lparr>te_name = p, te_isFile = True, te_contents = c\<rparr>) (fb_files files)"

text \<open>The paths of an archive: those of its index, or of its entries when it has none.  \<open>json\<close> is
  \<^verbatim>\<open>JSON.parse\<close>.\<close>

definition index_paths :: "(string \<Rightarrow> jsval result) \<Rightarrow> FilesAsBuffers \<Rightarrow> string list result" where
  "index_paths json files =
     (case map_of (fb_files files) ''index.json'' of
        None \<Rightarrow> Inr (fb_fakeIndex files)
      | Some content \<Rightarrow>
          bindR (json content) (\<lambda>index.
            if \<not> truthy index then Inr (fb_fakeIndex files)
            else case index of
              JArr es \<Rightarrow> mapR (\<lambda>e. bindR (js_get e ''path'') (\<lambda>p. case p of JStr s \<Rightarrow> Inr s | _ \<Rightarrow> Inl TypeError)) es
            | _ \<Rightarrow> Inl TypeError))"

section \<open>The abstract view of a tree\<close>

fun node_at :: "file_node list \<Rightarrow> string list \<Rightarrow> file_node option" where
  "node_at ns [] = None"
| "node_at ns [p] = find (\<lambda>n. nd_name n = p) ns"
| "node_at ns (p # q # qs) =
     (case find (\<lambda>n. nd_name n = p) ns of None \<Rightarrow> None | Some n \<Rightarrow> node_at (nd_children n) (q # qs))"

definition tree_view :: "file_node list \<Rightarrow> string list \<Rightarrow> string option" where
  "tree_view ns q = map_option nd_path (node_at ns q)"

text \<open>The specification: what is shown at some parts is the first path of the list that goes through them.\<close>

definition first_through :: "string list \<Rightarrow> string list \<Rightarrow> string option" where
  "first_through paths q = (if q = [] then None else find (\<lambda>p. prefix q (path_parts p)) paths)"

function siblings_distinct :: "file_node list \<Rightarrow> bool" where
  "siblings_distinct ns \<longleftrightarrow> distinct (map nd_name ns) \<and> (\<forall>n \<in> set ns. siblings_distinct (nd_children n))"
  by pat_completeness auto
termination
proof (relation "measure (size_list size)")
  show "(nd_children n, ns) \<in> measure (size_list size)" if "n \<in> set ns" for n ns
  proof -
    have "size_list size (nd_children n) < size n" by (cases n) simp
    also have "size n \<le> size_list size ns" using that by (induction ns) auto
    finally show ?thesis by simp
  qed
qed simp

declare siblings_distinct.simps [simp del]

section \<open>Lemmas\<close>

lemma find_update_first:
  assumes "\<And>n. nd_name (f n) = nd_name n"
  shows "find (\<lambda>n. nd_name n = x) (update_first (\<lambda>n. nd_name n = p) f ns) =
    (if x = p then map_option f (find (\<lambda>n. nd_name n = p) ns) else find (\<lambda>n. nd_name n = x) ns)"
  using assms by (induction ns) auto

lemma find_append: "find P (xs @ ys) = (case find P xs of Some x \<Rightarrow> Some x | None \<Rightarrow> find P ys)"
  by (induction xs) auto

lemma findD: "find P xs = Some x \<Longrightarrow> x \<in> set xs \<and> P x"
  by (induction xs) (auto split: if_splits)

text \<open>The node a step leaves under a name.\<close>

lemma find_tree_add:
  "find (\<lambda>n. nd_name n = x) (tree_add path (p # ps) ns) =
    (if x \<noteq> p then find (\<lambda>n. nd_name n = x) ns
     else case find (\<lambda>n. nd_name n = p) ns of
         None \<Rightarrow> Some (Node p path (tree_add path ps []))
       | Some n \<Rightarrow> Some (Node p (nd_path n) (tree_add path ps (nd_children n))))"
proof (cases "find (\<lambda>n. nd_name n = p) ns")
  case None
  then show ?thesis by (simp add: find_append split: option.split)
next
  case (Some n)
  with findD [OF Some] show ?thesis by (simp add: find_update_first)
qed

lemma node_at_Nil [simp]: "node_at [] q = None"
  by (cases q rule: list.exhaust; cases "tl q") auto

lemma tree_view_Nil [simp]: "tree_view [] q = None" "tree_view ns [] = None"
  by (simp_all add: tree_view_def)

lemma tree_view_Cons:
  "tree_view ns (p # q) =
    (case find (\<lambda>n. nd_name n = p) ns of
       None \<Rightarrow> None | Some n \<Rightarrow> if q = [] then Some (nd_path n) else tree_view (nd_children n) q)"
  by (cases q) (auto simp: tree_view_def split: option.splits)

text \<open>Adding a path shows it wherever nothing was shown.\<close>

lemma tree_view_add:
  "tree_view (tree_add path ps ns) q =
    (case tree_view ns q of Some x \<Rightarrow> Some x | None \<Rightarrow> if q \<noteq> [] \<and> prefix q ps then Some path else None)"
proof (induction ps arbitrary: ns q)
  case Nil
  then show ?case by (auto split: option.splits)
next
  case (Cons p ps)
  show ?case
  proof (cases q)
    case Nil
    then show ?thesis by simp
  next
    case (Cons x xs)
    then show ?thesis
      by (cases "find (\<lambda>n. nd_name n = p) ns")
         (auto simp: tree_view_Cons find_tree_add Cons.IH simp del: tree_add.simps split: option.splits)
  qed
qed

lemma tree_view_arrange:
  "tree_view (foldl (\<lambda>t p. tree_add p (path_parts p) t) t paths) q =
    (case tree_view t q of Some x \<Rightarrow> Some x | None \<Rightarrow> first_through paths q)"
  by (induction paths arbitrary: t) (auto simp: tree_view_add first_through_def split: option.splits)

lemma names_tree_add:
  "nd_name ` set (tree_add path (p # ps) ns) = insert p (nd_name ` set ns)"
  "distinct (map nd_name ns) \<Longrightarrow> distinct (map nd_name (tree_add path (p # ps) ns))"
proof -
  have upd: "map nd_name (update_first (\<lambda>n. nd_name n = p) (\<lambda>n. Node (nd_name n) (nd_path n) (g n)) ns) = map nd_name ns" for g
    by (induction ns) auto
  have upd_set: "nd_name ` set (update_first (\<lambda>n. nd_name n = p) (\<lambda>n. Node (nd_name n) (nd_path n) (g n)) ns) = nd_name ` set ns" for g
    using arg_cong [OF upd [of g], of set] by (simp only: set_map)
  show "nd_name ` set (tree_add path (p # ps) ns) = insert p (nd_name ` set ns)"
  proof (cases "find (\<lambda>n. nd_name n = p) ns")
    case None
    then show ?thesis by auto
  next
    case (Some n)
    with findD [OF Some] show ?thesis by (auto simp: upd_set)
  qed
  show "distinct (map nd_name ns) \<Longrightarrow> distinct (map nd_name (tree_add path (p # ps) ns))"
    by (cases "find (\<lambda>n. nd_name n = p) ns") (simp_all add: upd, auto simp: find_None_iff)
qed

lemma set_update_first: "set (update_first P f xs) \<subseteq> set xs \<union> f ` {x \<in> set xs. P x}"
  by (induction xs) auto

lemma siblings_distinct_Nil [simp]: "siblings_distinct []"
  by (subst siblings_distinct.simps) simp

lemma siblings_distinct_child: "siblings_distinct ns \<Longrightarrow> n \<in> set ns \<Longrightarrow> siblings_distinct (nd_children n)"
  by (subst (asm) siblings_distinct.simps) blast

lemma siblings_distinct_add: "siblings_distinct ns \<Longrightarrow> siblings_distinct (tree_add path ps ns)"
proof (induction ps arbitrary: ns)
  case Nil
  then show ?case by simp
next
  case (Cons p ps)
  let ?f = "\<lambda>n. Node (nd_name n) (nd_path n) (tree_add path ps (nd_children n))"
  have "siblings_distinct (nd_children m)" if m: "m \<in> set (tree_add path (p # ps) ns)" for m
  proof (cases "find (\<lambda>n. nd_name n = p) ns")
    case None
    with m have "m \<in> set ns \<or> nd_children m = tree_add path ps []" by auto
    with Cons.IH [of "[]"] siblings_distinct_child [OF Cons.prems] show ?thesis by auto
  next
    case (Some n)
    with m set_update_first [of "\<lambda>n. nd_name n = p" ?f ns] have "m \<in> set ns \<or> (\<exists>n \<in> set ns. m = ?f n)" by auto
    with Cons.IH siblings_distinct_child [OF Cons.prems] show ?thesis by auto
  qed
  moreover have "distinct (map nd_name ns)" using Cons.prems by (subst (asm) siblings_distinct.simps) blast
  then have "distinct (map nd_name (tree_add path (p # ps) ns))" by (rule names_tree_add(2))
  ultimately show ?case by (subst siblings_distinct.simps) blast
qed

lemma siblings_distinct_arrange:
  "siblings_distinct t \<Longrightarrow> siblings_distinct (foldl (\<lambda>t p. tree_add p (path_parts p) t) t paths)"
  by (induction paths arbitrary: t) (simp_all add: siblings_distinct_add)

section \<open>Properties\<close>

text \<open>
  C17: The tree of a list of paths is exactly the map from the parts of a path to the first path of the list
  that goes through them: no path is lost or made up, siblings have different names, a file shows its own
  path and a directory the first path below it.
\<close>

theorem arrangeIntoTree_refines:
  "siblings_distinct (arrangeIntoTree paths) \<and> tree_view (arrangeIntoTree paths) q = first_through paths q"
  unfolding arrangeIntoTree_def by (simp add: siblings_distinct_arrange tree_view_arrange)

text \<open>Reading an archive: what a fold over the entries leaves.\<close>

lemma put_file_map: "map_of (put_file p c fs) = (map_of fs)(p \<mapsto> c)"
  by (induction fs) (auto simp: fun_eq_iff)

lemma put_files_map:
  "map_of (foldl (\<lambda>fs p. put_file p c fs) fs ps) q = (if q \<in> set ps then Some c else map_of fs q)"
  by (induction ps arbitrary: fs) (auto simp: put_file_map)

lemma unpack_index:
  "fb_fakeIndex (foldl (unpack_entry w) acc es) = fb_fakeIndex acc @ map te_name (filter te_isFile es)"
  by (induction es arbitrary: acc) (auto simp: unpack_entry_def)

definition last_for :: "(tar_entry \<Rightarrow> bool) \<Rightarrow> tar_entry list \<Rightarrow> string option" where
  "last_for P es = map_option te_contents (find P (rev es))"

lemma unpack_files:
  "map_of (fb_files (foldl (unpack_entry w) acc es)) q =
    (case last_for (\<lambda>e. te_isFile e \<and> q \<in> set (entry_paths w e)) es of
       Some c \<Rightarrow> Some c | None \<Rightarrow> map_of (fb_files acc) q)"
proof (induction es rule: rev_induct)
  case Nil
  then show ?case by (simp add: last_for_def)
next
  case (snoc e es)
  then show ?case by (auto simp: last_for_def unpack_entry_def put_files_map)
qed

text \<open>
  C18: An unpacked archive lists its files in order, and holds for a requested path the contents of the last
  file that the path asked for.  Asked for no particular files it holds, of each file, only entries under
  the single characters of its name.
\<close>

theorem unpackFrom_correct:
  "fb_fakeIndex (unpackFrom (Some es) w) = map te_name (filter te_isFile es) \<and>
   map_of (fb_files (unpackFrom (Some es) w)) q =
     (case w of
        Some fs \<Rightarrow> last_for (\<lambda>e. te_isFile e \<and> (\<exists>f \<in> set fs. rf_path f = q \<and> rf_matcher f (te_name e))) es
      | None \<Rightarrow> last_for (\<lambda>e. te_isFile e \<and> (\<exists>c \<in> set (te_name e). q = [c])) es)"
proof -
  have "(q \<in> set (entry_paths (Some fs) e)) = (\<exists>f \<in> set fs. rf_path f = q \<and> rf_matcher f (te_name e))" for fs e
    by (auto simp: entry_paths_def)
  moreover have "(q \<in> set (entry_paths None e)) = (\<exists>c \<in> set (te_name e). q = [c])" for e
    by (auto simp: entry_paths_def)
  ultimately show ?thesis
    by (cases w) (simp_all add: unpackFrom_def unpack_index unpack_files split: option.split)
qed

end
