(* ===== verification/Archives.thy ===== *)
theory Archives
  imports FileTree VersionStore
begin

text \<open>
  What is read out of the archive of a version (\<^verbatim>\<open>api/src/util/tar.ts\<close>).  Each function of that file walks
  over the entries and resolves with the first document of its kind; the walk goes on to the end,
  so an entry after the answer is still parsed, and an exception in it is thrown in the callback of
  a stream, where no promise sees it.

  An archive is what \<^verbatim>\<open>zlib\<close> and \<^verbatim>\<open>tar-stream\<close> make of it: its entries or an error; YAML is
  the parameter \<open>safeLoad\<close>, which throws on a file with several documents.
\<close>

type_synonym tarball = "tar_entry list result"

section \<open>Documents\<close>

definition isYaml :: "(string \<Rightarrow> jsval result) \<Rightarrow> string \<Rightarrow> bool" where
  "isYaml safeLoad content =
     (case safeLoad content of
        Inl _ \<Rightarrow> False
      | Inr doc \<Rightarrow> truthy doc \<and> (case js_get doc ''apiVersion'' of Inl _ \<Rightarrow> False | Inr v \<Rightarrow> truthy v))"

definition doc_is :: "string \<Rightarrow> string \<Rightarrow> jsval \<Rightarrow> bool" where
  "doc_is apiVersion kind doc \<longleftrightarrow>
     js_get doc ''apiVersion'' = Inr (JStr apiVersion) \<and> js_get doc ''kind'' = Inr (JStr kind)"

text \<open>One turn of the walk, given what was resolved before it.\<close>

definition visit_entry ::
  "(string \<Rightarrow> jsval result) \<Rightarrow> (jsval \<Rightarrow> bool) \<Rightarrow> (string \<Rightarrow> jsval \<Rightarrow> 'a result) \<Rightarrow> 'a option \<Rightarrow> tar_entry \<Rightarrow> 'a option result" where
  "visit_entry safeLoad wanted answer found e =
     (if \<not> isYaml safeLoad (te_contents e) then Inr found
      else case bindR (safeLoad (te_contents e)) (\<lambda>doc.
               if wanted doc then bindR (answer (te_contents e) doc) (\<lambda>v. Inr (Some v)) else Inr None) of
          Inl _ \<Rightarrow> Inl Uncaught
        | Inr None \<Rightarrow> Inr found
        | Inr (Some v) \<Rightarrow> Inr (case found of None \<Rightarrow> Some v | Some _ \<Rightarrow> found))"

fun walk_entries ::
  "(string \<Rightarrow> jsval result) \<Rightarrow> (jsval \<Rightarrow> bool) \<Rightarrow> (string \<Rightarrow> jsval \<Rightarrow> 'a result) \<Rightarrow> 'a option \<Rightarrow> tar_entry list \<Rightarrow>
   'a option result" where
  "walk_entries safeLoad wanted answer found [] = Inr found"
| "walk_entries safeLoad wanted answer found (e # es) =
     bindR (visit_entry safeLoad wanted answer found e) (\<lambda>found'. walk_entries safeLoad wanted answer found' es)"

definition extract_text :: "(string \<Rightarrow> jsval result) \<Rightarrow> string \<Rightarrow> string \<Rightarrow> tarball \<Rightarrow> string option result" where
  "extract_text safeLoad apiVersion kind tarball =
     bindR tarball (walk_entries safeLoad (doc_is apiVersion kind) (\<lambda>content _. Inr content) None)"

section \<open>The specs of a version\<close>

definition extractKotsAppSpecFromTarball :: "(string \<Rightarrow> jsval result) \<Rightarrow> tarball \<Rightarrow> string option result" where
  "extractKotsAppSpecFromTarball safeLoad = extract_text safeLoad ''kots.io/v1beta1'' ''Application''"

definition extractConfigSpecFromTarball :: "(string \<Rightarrow> jsval result) \<Rightarrow> tarball \<Rightarrow> string option result" where
  "extractConfigSpecFromTarball safeLoad = extract_text safeLoad ''kots.io/v1beta1'' ''Config''"

definition extractConfigValuesFromTarball :: "(string \<Rightarrow> jsval result) \<Rightarrow> tarball \<Rightarrow> string option result" where
  "extractConfigValuesFromTarball safeLoad = extract_text safeLoad ''kots.io/v1beta1'' ''ConfigValues''"

definition extractAppSpecFromTarball :: "(string \<Rightarrow> jsval result) \<Rightarrow> tarball \<Rightarrow> string option result" where
  "extractAppSpecFromTarball safeLoad = extract_text safeLoad ''app.k8s.io/v1beta1'' ''Application''"

definition extractPreflightSpecFromTarball :: "(string \<Rightarrow> jsval result) \<Rightarrow> tarball \<Rightarrow> string option result" where
  "extractPreflightSpecFromTarball safeLoad = extract_text safeLoad ''troubleshoot.replicated.com/v1beta1'' ''Preflight''"

definition extractBackupSpecFromTarball :: "(string \<Rightarrow> jsval result) \<Rightarrow> tarball \<Rightarrow> string option result" where
  "extractBackupSpecFromTarball safeLoad = extract_text safeLoad ''velero.io/v1'' ''Backup''"

definition extractAnalyzerSpecFromTarball :: "(string \<Rightarrow> jsval result) \<Rightarrow> tarball \<Rightarrow> string option result" where
  "extractAnalyzerSpecFromTarball safeLoad = extract_text safeLoad ''troubleshoot.replicated.com/v1beta1'' ''Analyzer''"

definition extractSupportBundleSpecFromTarball :: "(string \<Rightarrow> jsval result) \<Rightarrow> tarball \<Rightarrow> string option result" where
  "extractSupportBundleSpecFromTarball safeLoad = extract_text safeLoad ''troubleshoot.replicated.com/v1beta1'' ''Collector''"

definition extractKotsAppLicenseFromTarball :: "(string \<Rightarrow> jsval result) \<Rightarrow> tarball \<Rightarrow> string option result" where
  "extractKotsAppLicenseFromTarball safeLoad = extract_text safeLoad ''kots.io/v1beta1'' ''License''"

text \<open>The title and the icon are values of the document; a document without them answers \<open>undefined\<close>.\<close>

definition extractAppTitleFromTarball :: "(string \<Rightarrow> jsval result) \<Rightarrow> tarball \<Rightarrow> jsval option result" where
  "extractAppTitleFromTarball safeLoad tarball =
     bindR tarball (walk_entries safeLoad (doc_is ''kots.io/v1beta1'' ''Application'')
       (\<lambda>_ doc. js_gets doc [''spec'', ''title'']) None)"

definition extractAppIconFromTarball :: "(string \<Rightarrow> jsval result) \<Rightarrow> tarball \<Rightarrow> jsval option result" where
  "extractAppIconFromTarball safeLoad tarball =
     bindR tarball (walk_entries safeLoad (doc_is ''kots.io/v1beta1'' ''Application'')
       (\<lambda>_ doc. js_gets doc [''spec'', ''icon'']) None)"

record InstallationSpec =
  is_cursor :: jsval
  is_channelName :: jsval
  is_versionLabel :: jsval
  is_releaseNotes :: jsval
  is_encryptionKey :: jsval

definition no_installation :: InstallationSpec where
  "no_installation = \<lparr>is_cursor = JStr [], is_channelName = JStr [], is_versionLabel = JStr [], is_releaseNotes = JStr [],
     is_encryptionKey = JStr []\<rparr>"

definition js_or :: "jsval \<Rightarrow> jsval \<Rightarrow> jsval" where
  "js_or v w = (if truthy v then v else w)"

definition installation_of :: "jsval \<Rightarrow> InstallationSpec result" where
  "installation_of doc =
     bindR (js_get doc ''spec'') (\<lambda>spec.
     bindR (js_get spec ''updateCursor'') (\<lambda>cursor.
     bindR (js_get spec ''channelName'') (\<lambda>channelName.
     bindR (js_get spec ''versionLabel'') (\<lambda>versionLabel.
     bindR (js_get spec ''releaseNotes'') (\<lambda>releaseNotes.
     bindR (js_get spec ''encryptionKey'') (\<lambda>encryptionKey.
       Inr \<lparr>is_cursor = cursor, is_channelName = js_or channelName (JStr []),
            is_versionLabel = js_or versionLabel (JStr ''Unknown''),
            is_releaseNotes = js_or releaseNotes (JStr []), is_encryptionKey = js_or encryptionKey (JStr [])\<rparr>))))))"

definition extractInstallationSpecFromTarball :: "(string \<Rightarrow> jsval result) \<Rightarrow> tarball \<Rightarrow> InstallationSpec result" where
  "extractInstallationSpecFromTarball safeLoad tarball =
     bindR tarball (\<lambda>es.
     bindR (walk_entries safeLoad (doc_is ''kots.io/v1beta1'' ''Installation'') (\<lambda>_ doc. installation_of doc) None es) (\<lambda>found.
       Inr (case found of None \<Rightarrow> no_installation | Some i \<Rightarrow> i)))"

definition downstream_of_path :: "string \<Rightarrow> string option" where
  "downstream_of_path currentPath =
     (case filter (\<lambda>n. n \<noteq> []) (js_split CHR ''/'' currentPath) of
        [p0, p1, p2, p3] \<Rightarrow>
          if p0 = ''overlays'' \<and> p1 = ''downstreams'' \<and> p3 = ''kustomization.yaml'' then Some p2 else None
      | _ \<Rightarrow> None)"

definition extractDownstreamNamesFromTarball :: "tarball \<Rightarrow> string list result" where
  "extractDownstreamNamesFromTarball tarball =
     bindR tarball (\<lambda>es. Inr (List.map_filter (\<lambda>e. downstream_of_path (te_name e)) es))"

section \<open>Lemmas\<close>

definition wanted_entry :: "(string \<Rightarrow> jsval result) \<Rightarrow> (jsval \<Rightarrow> bool) \<Rightarrow> tar_entry \<Rightarrow> bool" where
  "wanted_entry safeLoad wanted e \<longleftrightarrow>
     isYaml safeLoad (te_contents e) \<and> (case safeLoad (te_contents e) of Inl _ \<Rightarrow> False | Inr doc \<Rightarrow> wanted doc)"

definition entry_answer :: "(string \<Rightarrow> jsval result) \<Rightarrow> (string \<Rightarrow> jsval \<Rightarrow> 'a result) \<Rightarrow> tar_entry \<Rightarrow> 'a result" where
  "entry_answer safeLoad answer e = bindR (safeLoad (te_contents e)) (answer (te_contents e))"

lemma isYaml_loads: "isYaml safeLoad content \<Longrightarrow> \<exists>doc. safeLoad content = Inr doc"
  by (auto simp: isYaml_def split: sum.splits)

lemma visit_entry_run:
  "visit_entry safeLoad wanted answer found e =
    (if \<not> wanted_entry safeLoad wanted e then Inr found
     else case entry_answer safeLoad answer e of
         Inl _ \<Rightarrow> Inl Uncaught
       | Inr v \<Rightarrow> Inr (case found of None \<Rightarrow> Some v | Some _ \<Rightarrow> found))"
proof (cases "isYaml safeLoad (te_contents e)")
  case True
  with isYaml_loads obtain doc where "safeLoad (te_contents e) = Inr doc" by blast
  with True show ?thesis
    by (cases "answer (te_contents e) doc") (auto simp: visit_entry_def wanted_entry_def entry_answer_def)
qed (simp add: visit_entry_def wanted_entry_def)

text \<open>The walk answers with the first entry of its kind, and throws when any of them throws.\<close>

lemma walk_entries_run:
  "walk_entries safeLoad wanted answer found es =
    (if \<exists>e \<in> set es. wanted_entry safeLoad wanted e \<and> isl (entry_answer safeLoad answer e) then Inl Uncaught
     else Inr (case found of
         Some v \<Rightarrow> Some v
       | None \<Rightarrow> map_option (\<lambda>e. projr (entry_answer safeLoad answer e)) (find (wanted_entry safeLoad wanted) es)))"
proof (induction es arbitrary: found)
  case (Cons e es)
  then show ?case
    by (cases "entry_answer safeLoad answer e") (auto simp: visit_entry_run split: option.splits)
qed (simp split: option.splits)

lemma entry_answer_content: "wanted_entry safeLoad wanted e \<Longrightarrow> entry_answer safeLoad (\<lambda>content _. Inr content) e = Inr (te_contents e)"
  by (auto simp: entry_answer_def wanted_entry_def dest!: isYaml_loads)

lemma extract_text_run:
  "extract_text safeLoad apiVersion kind (Inr es) =
    Inr (map_option te_contents (find (wanted_entry safeLoad (doc_is apiVersion kind)) es))"
proof -
  have "\<not> (\<exists>e \<in> set es. wanted_entry safeLoad wanted e \<and> isl (entry_answer safeLoad (\<lambda>content _. Inr content :: string result) e))"
    for wanted by (auto simp: entry_answer_content)
  moreover have "map_option (\<lambda>e. projr (entry_answer safeLoad (\<lambda>content _. Inr content) e)) (find P es) = map_option te_contents (find P es)"
    if "P = wanted_entry safeLoad (doc_is apiVersion kind)" for P
    using that by (intro option.map_cong refl) (auto simp: elem_set find_Some_iff entry_answer_content)
  ultimately show ?thesis by (simp add: extract_text_def walk_entries_run)
qed

text \<open>What the functions are meant to read, without the walk.\<close>

definition first_document :: "(string \<Rightarrow> jsval result) \<Rightarrow> string \<Rightarrow> string \<Rightarrow> tar_entry list \<Rightarrow> tar_entry option" where
  "first_document safeLoad apiVersion kind = find (wanted_entry safeLoad (doc_is apiVersion kind))"

definition first_answer ::
  "(string \<Rightarrow> jsval result) \<Rightarrow> string \<Rightarrow> string \<Rightarrow> (jsval \<Rightarrow> 'a result) \<Rightarrow> tar_entry list \<Rightarrow> 'a option result" where
  "first_answer safeLoad apiVersion kind get es =
     (if list_ex (\<lambda>e. wanted_entry safeLoad (doc_is apiVersion kind) e \<and> isl (bindR (safeLoad (te_contents e)) get)) es
      then Inl Uncaught
      else Inr (map_option (\<lambda>e. projr (bindR (safeLoad (te_contents e)) get)) (first_document safeLoad apiVersion kind es)))"

lemma walk_first_answer:
  "walk_entries safeLoad (doc_is apiVersion kind) (\<lambda>_. get) None es = first_answer safeLoad apiVersion kind get es"
  by (simp add: walk_entries_run first_answer_def first_document_def entry_answer_def list_ex_iff)

text \<open>
  Whatever else an archive holds, each of the nine specs read from it is the text of the first entry that
  parses to a document of its kind; the title, the icon and the installation are read from the
  first document of theirs, unless some document of that kind has no spec, which throws outside of
  the promise.
\<close>

theorem extractors_find_first:
  "extractKotsAppSpecFromTarball safeLoad (Inr es) = Inr (map_option te_contents (first_document safeLoad ''kots.io/v1beta1'' ''Application'' es)) \<and>
   extractConfigSpecFromTarball safeLoad (Inr es) = Inr (map_option te_contents (first_document safeLoad ''kots.io/v1beta1'' ''Config'' es)) \<and>
   extractConfigValuesFromTarball safeLoad (Inr es) = Inr (map_option te_contents (first_document safeLoad ''kots.io/v1beta1'' ''ConfigValues'' es)) \<and>
   extractKotsAppLicenseFromTarball safeLoad (Inr es) = Inr (map_option te_contents (first_document safeLoad ''kots.io/v1beta1'' ''License'' es)) \<and>
   extractAppSpecFromTarball safeLoad (Inr es) = Inr (map_option te_contents (first_document safeLoad ''app.k8s.io/v1beta1'' ''Application'' es)) \<and>
   extractPreflightSpecFromTarball safeLoad (Inr es) =
     Inr (map_option te_contents (first_document safeLoad ''troubleshoot.replicated.com/v1beta1'' ''Preflight'' es)) \<and>
   extractAnalyzerSpecFromTarball safeLoad (Inr es) =
     Inr (map_option te_contents (first_document safeLoad ''troubleshoot.replicated.com/v1beta1'' ''Analyzer'' es)) \<and>
   extractSupportBundleSpecFromTarball safeLoad (Inr es) =
     Inr (map_option te_contents (first_document safeLoad ''troubleshoot.replicated.com/v1beta1'' ''Collector'' es)) \<and>
   extractBackupSpecFromTarball safeLoad (Inr es) = Inr (map_option te_contents (first_document safeLoad ''velero.io/v1'' ''Backup'' es)) \<and>
   extractAppTitleFromTarball safeLoad (Inr es) =
     first_answer safeLoad ''kots.io/v1beta1'' ''Application'' (\<lambda>doc. js_gets doc [''spec'', ''title'']) es \<and>
   extractAppIconFromTarball safeLoad (Inr es) =
     first_answer safeLoad ''kots.io/v1beta1'' ''Application'' (\<lambda>doc. js_gets doc [''spec'', ''icon'']) es \<and>
   extractInstallationSpecFromTarball safeLoad (Inr es) =
     bindR (first_answer safeLoad ''kots.io/v1beta1'' ''Installation'' installation_of es)
       (\<lambda>found. Inr (case found of None \<Rightarrow> no_installation | Some i \<Rightarrow> i))"
  by (simp add: extractKotsAppSpecFromTarball_def extractConfigSpecFromTarball_def extractConfigValuesFromTarball_def
      extractKotsAppLicenseFromTarball_def extractAppSpecFromTarball_def extractPreflightSpecFromTarball_def
      extractAnalyzerSpecFromTarball_def extractSupportBundleSpecFromTarball_def extractBackupSpecFromTarball_def
      extract_text_run first_document_def walk_first_answer
      extractAppTitleFromTarball_def extractAppIconFromTarball_def extractInstallationSpecFromTarball_def)

lemma downstream_of_path_iff:
  assumes "n \<noteq> []" and "CHR ''/'' \<notin> set n"
  shows "downstream_of_path (''overlays/downstreams/'' @ n @ ''/kustomization.yaml'') = Some n"
proof -
  have "js_split CHR ''/'' (''overlays/downstreams/'' @ n @ ''/kustomization.yaml'') =
      [''overlays'', ''downstreams'', n, ''kustomization.yaml'']"
    using js_split_append_sep [of "CHR ''/''" "''overlays''" "''downstreams/'' @ n @ ''/kustomization.yaml''"]
      js_split_append_sep [of "CHR ''/''" "''downstreams''" "n @ ''/kustomization.yaml''"]
      js_split_append_sep [of "CHR ''/''" n "''kustomization.yaml''"] js_split_single [of "CHR ''/''" "''kustomization.yaml''"] assms(2)
    by simp
  with assms(1) show ?thesis by (simp add: downstream_of_path_def)
qed

end
