(* ===== verification/ObjectStore.thy ===== *)
theory ObjectStore
  imports Archives
begin

text \<open>
  The object store: the client (\<^verbatim>\<open>api/src/util/s3.ts\<close>) and the keys under which the rest of the API
  writes and reads the archives of applications and support bundles.  Writers build a key with
  \<^verbatim>\<open>path.join\<close>, readers with a template, and the two agree only for some settings.

  The parameters are strings of the environment, empty when unset (\<^verbatim>\<open>util/params/index.ts\<close>).
\<close>

section \<open>Paths\<close>

definition js_trim :: "string \<Rightarrow> string" where
  "js_trim s = rev (dropWhile is_blank (rev (dropWhile is_blank s)))"

text \<open>\<^verbatim>\<open>normalizeString\<close> of Node's \<^verbatim>\<open>path\<close>, over the segments between slashes; the accumulator is reversed.\<close>

fun normalize_segments :: "bool \<Rightarrow> string list \<Rightarrow> string list \<Rightarrow> string list" where
  "normalize_segments allowAboveRoot acc [] = rev acc"
| "normalize_segments allowAboveRoot acc (p # ps) =
     (if p = [] \<or> p = ''.'' then normalize_segments allowAboveRoot acc ps
      else if p = ''..'' then
        (case acc of
           [] \<Rightarrow> normalize_segments allowAboveRoot (if allowAboveRoot then [''..''] else []) ps
         | q # qs \<Rightarrow> normalize_segments allowAboveRoot (if q = ''..'' then ''..'' # q # qs else qs) ps)
      else normalize_segments allowAboveRoot (p # acc) ps)"

definition path_normalize :: "string \<Rightarrow> string" where
  "path_normalize s =
     (if s = [] then ''.''
      else let isAbsolute = hd s = CHR ''/''; trailing = last s = CHR ''/'';
               body = js_join ''/'' (normalize_segments (\<not> isAbsolute) [] (js_split CHR ''/'' s));
               body' = (if body = [] \<and> \<not> isAbsolute then ''.'' else body)
           in (if isAbsolute then ''/'' else []) @ body' @ (if body' \<noteq> [] \<and> trailing then ''/'' else []))"

definition path_join :: "string list \<Rightarrow> string" where
  "path_join parts = path_normalize (js_join ''/'' (filter (\<lambda>p. p \<noteq> []) parts))"

section \<open>The client\<close>

record s3_params =
  sp_shipOutputBucket :: string
  sp_s3Endpoint :: "string option"
  sp_s3AccessKeyId :: string
  sp_s3SecretAccessKey :: string
  sp_s3BucketEndpoint :: string

record ClientConfiguration =
  cc_endpoint :: "string option"
  cc_accessKeyId :: "string option"
  cc_secretAccessKey :: "string option"
  cc_s3BucketEndpoint :: bool

definition getS3 :: "s3_params \<Rightarrow> ClientConfiguration" where
  "getS3 p =
     (let keys = js_trim (sp_s3AccessKeyId p) \<noteq> [] \<and> js_trim (sp_s3SecretAccessKey p) \<noteq> [] in
      \<lparr>cc_endpoint = (case sp_s3Endpoint p of None \<Rightarrow> None | Some e \<Rightarrow> if js_trim e = [] then None else Some (js_trim e)),
       cc_accessKeyId = (if keys then Some (js_trim (sp_s3AccessKeyId p)) else None),
       cc_secretAccessKey = (if keys then Some (js_trim (sp_s3SecretAccessKey p)) else None),
       cc_s3BucketEndpoint = (js_trim (sp_s3BucketEndpoint p) \<noteq> [])\<rparr>)"

text \<open>
  The store keeps one object for a key of the bucket; \<open>refused\<close> says which requests the server rejects, and
  with which code.
\<close>

type_synonym 'b objects = "string \<Rightarrow> 'b option"

definition putObject :: "(string \<Rightarrow> error option) \<Rightarrow> string \<Rightarrow> 'b \<Rightarrow> ('b objects, unit) eff" where
  "putObject refused filepath body objs =
     (case refused filepath of Some e \<Rightarrow> (Inl e, objs) | None \<Rightarrow> (Inr (), objs(filepath \<mapsto> body)))"

definition getObject :: "(string \<Rightarrow> error option) \<Rightarrow> string \<Rightarrow> 'b objects \<Rightarrow> 'b result" where
  "getObject refused key objs =
     (case refused key of
        Some e \<Rightarrow> Inl e
      | None \<Rightarrow> (case objs key of None \<Rightarrow> Inl (ExternalError ''NoSuchKey'') | Some b \<Rightarrow> Inr b))"

definition head_key :: "s3_params \<Rightarrow> string \<Rightarrow> string" where
  "head_key p key =
     (if js_trim (sp_s3BucketEndpoint p) \<noteq> [] then js_trim (sp_shipOutputBucket p) @ ''/'' @ key else key)"

definition checkExists :: "s3_params \<Rightarrow> (string \<Rightarrow> error option) \<Rightarrow> string \<Rightarrow> 'b objects \<Rightarrow> bool" where
  "checkExists p refused key objs = (case getObject refused (head_key p key) objs of Inl _ \<Rightarrow> False | Inr _ \<Rightarrow> True)"

definition getFileInfo :: "s3_params \<Rightarrow> (string \<Rightarrow> error option) \<Rightarrow> ('b \<Rightarrow> int) \<Rightarrow> string \<Rightarrow> 'b objects \<Rightarrow> int result" where
  "getFileInfo p refused contentLength key objs = bindR (getObject refused (head_key p key) objs) (\<lambda>b. Inr (contentLength b))"

text \<open>The callback reads the code of the error, and there is none when the probed object exists.\<close>

definition bucketExists :: "(string \<Rightarrow> string option) \<Rightarrow> bool result" where
  "bucketExists head_error_code =
     (case head_error_code ''no_such_file.tar.gz'' of
        None \<Rightarrow> Inl Uncaught
      | Some code \<Rightarrow> Inr (code = ''NotFound''))"

definition already_owned :: string where
  "already_owned = ''Your previous request to create the named bucket succeeded and you already own it''"

definition ensureBucket :: "string option \<Rightarrow> bool result" where
  "ensureBucket makeBucket_error =
     (case makeBucket_error of
        None \<Rightarrow> Inr True
      | Some msg \<Rightarrow> if sublist already_owned msg then Inr True else Inl (ExternalError msg))"

section \<open>Keys\<close>

definition archive_file :: "string \<Rightarrow> string" where
  "archive_file sequence = sequence @ ''.tar.gz''"

text \<open>Written by \<^verbatim>\<open>KotsAPI.ts\<close> and \<^verbatim>\<open>kots_ffi.ts\<close>, read by \<^verbatim>\<open>kots_app.ts\<close>.\<close>

definition objectStorePath :: "s3_params \<Rightarrow> string \<Rightarrow> string \<Rightarrow> string" where
  "objectStorePath p appId sequence = path_join [js_trim (sp_shipOutputBucket p), appId, archive_file sequence]"

definition bucket_prefix :: "s3_params \<Rightarrow> string" where
  "bucket_prefix p = (if sp_s3BucketEndpoint p \<noteq> [] then sp_shipOutputBucket p @ ''/'' else [])"

definition archiveKey :: "s3_params \<Rightarrow> string \<Rightarrow> string \<Rightarrow> string" where
  "archiveKey p appId sequence = bucket_prefix p @ appId @ ''/'' @ archive_file sequence"

text \<open>Written by \<^verbatim>\<open>bundleUpload\<close>, read by \<^verbatim>\<open>downloadFiles\<close> and \<^verbatim>\<open>getSupportBundleFileInfo\<close>.\<close>

definition bundleStorePath :: "s3_params \<Rightarrow> string \<Rightarrow> string" where
  "bundleStorePath p supportBundleId =
     path_join [js_trim (sp_shipOutputBucket p), ''supportbundles'', supportBundleId, ''supportbundle.tar.gz'']"

definition bundleKey :: "s3_params \<Rightarrow> string \<Rightarrow> string" where
  "bundleKey p supportBundleId = bucket_prefix p @ ''supportbundles/'' @ supportBundleId @ ''/supportbundle.tar.gz''"

definition getSupportBundleFileInfo ::
  "s3_params \<Rightarrow> (string \<Rightarrow> error option) \<Rightarrow> ('b \<Rightarrow> int) \<Rightarrow> string \<Rightarrow> 'b objects \<Rightarrow> int result" where
  "getSupportBundleFileInfo p refused contentLength supportBundleId =
     getFileInfo p refused contentLength (''supportbundles/'' @ supportBundleId @ ''/supportbundle.tar.gz'')"

section \<open>Lemmas\<close>

definition plain :: "string \<Rightarrow> bool" where
  "plain s \<longleftrightarrow> s \<noteq> [] \<and> CHR ''/'' \<notin> set s \<and> s \<noteq> ''.'' \<and> s \<noteq> ''..''"

lemma normalize_plain: "list_all plain ps \<Longrightarrow> normalize_segments a acc ps = rev acc @ ps"
  by (induction ps arbitrary: acc) (auto simp: plain_def)

lemma js_split_join_plain: "ps \<noteq> [] \<Longrightarrow> list_all plain ps \<Longrightarrow> js_split CHR ''/'' (js_join ''/'' ps) = ps"
proof (induction ps)
  case (Cons p ps)
  then show ?case
    by (cases ps) (auto simp: plain_def js_split_single js_split_append_sep)
qed simp

lemma js_join_plain_ends:
  assumes "ps \<noteq> []" and "list_all plain ps"
  shows "js_join ''/'' ps \<noteq> [] \<and> hd (js_join ''/'' ps) \<noteq> CHR ''/'' \<and> last (js_join ''/'' ps) \<noteq> CHR ''/''"
  using assms
proof (induction ps)
  case (Cons p ps)
  then have p: "p \<noteq> []" "hd p \<noteq> CHR ''/''" "last p \<noteq> CHR ''/''"
    by (auto simp: plain_def dest: hd_in_set last_in_set)
  with Cons show ?case by (cases ps) auto
qed simp

lemma path_join_plain:
  assumes "ps \<noteq> []" and "list_all plain ps"
  shows "path_join ps = js_join ''/'' ps"
proof -
  have "filter (\<lambda>p. p \<noteq> []) ps = ps" using assms(2) by (induction ps) (auto simp: plain_def)
  with assms js_join_plain_ends [OF assms] show ?thesis
    by (simp add: path_join_def path_normalize_def js_split_join_plain normalize_plain Let_def)
qed

lemma plain_archive_file: "CHR ''/'' \<notin> set q \<Longrightarrow> plain (archive_file q)"
  by (auto simp: plain_def archive_file_def)

text \<open>
  The archive of a version is read back under the key it was written to exactly when the parameter for a
  bucket endpoint is set and the name of the bucket has no blanks around it; the size of a support
  bundle is looked up under the key it was written to exactly when that parameter is not blank.
\<close>

theorem archives_are_found_iff:
  assumes "plain (js_trim (sp_shipOutputBucket p))" and "plain appId" and "CHR ''/'' \<notin> set sequence"
  shows "(objectStorePath p appId sequence = archiveKey p appId sequence) =
      (sp_s3BucketEndpoint p \<noteq> [] \<and> js_trim (sp_shipOutputBucket p) = sp_shipOutputBucket p) \<and>
    (bundleStorePath p appId = bundleKey p appId) =
      (sp_s3BucketEndpoint p \<noteq> [] \<and> js_trim (sp_shipOutputBucket p) = sp_shipOutputBucket p) \<and>
    (bundleStorePath p appId = head_key p (''supportbundles/'' @ appId @ ''/supportbundle.tar.gz'')) =
      (js_trim (sp_s3BucketEndpoint p) \<noteq> [])"
proof -
  let ?b = "js_trim (sp_shipOutputBucket p)" and ?e = "sp_s3BucketEndpoint p"
  have "list_all plain [?b, appId, archive_file sequence]" using assms plain_archive_file by simp
  then have w: "objectStorePath p appId sequence = ?b @ ''/'' @ appId @ ''/'' @ archive_file sequence"
    unfolding objectStorePath_def by (subst path_join_plain) simp_all
  have "list_all plain [?b, ''supportbundles'', appId, ''supportbundle.tar.gz'']" using assms by (simp add: plain_def)
  then have wb: "bundleStorePath p appId = ?b @ ''/'' @ ''supportbundles'' @ ''/'' @ appId @ ''/'' @ ''supportbundle.tar.gz''"
    unfolding bundleStorePath_def by (subst path_join_plain) simp_all
  have longer: "?b @ ''/'' @ t \<noteq> t" for t by (metis append_assoc append_self_conv2 list.distinct(1) append_is_Nil_conv)
  have same: "(?b @ ''/'' @ t = bucket_prefix p @ t) = (?e \<noteq> [] \<and> ?b = sp_shipOutputBucket p)" for t
    using longer [of t] by (auto simp: bucket_prefix_def)
  have "(objectStorePath p appId sequence = archiveKey p appId sequence) = (?e \<noteq> [] \<and> ?b = sp_shipOutputBucket p)"
    unfolding w archiveKey_def by (rule same)
  moreover have "(bundleStorePath p appId = bundleKey p appId) = (?e \<noteq> [] \<and> ?b = sp_shipOutputBucket p)"
    unfolding wb bundleKey_def using same [of "''supportbundles/'' @ appId @ ''/supportbundle.tar.gz''"] by simp
  moreover have "(bundleStorePath p appId = head_key p (''supportbundles/'' @ appId @ ''/supportbundle.tar.gz'')) = (js_trim ?e \<noteq> [])"
    unfolding wb head_key_def using longer [of "''supportbundles/'' @ appId @ ''/supportbundle.tar.gz''"] by auto
  ultimately show ?thesis by blast
qed

definition example_params :: s3_params where
  "example_params = \<lparr>sp_shipOutputBucket = ''ship'', sp_s3Endpoint = None, sp_s3AccessKeyId = [], sp_s3SecretAccessKey = [],
     sp_s3BucketEndpoint = []\<rparr>"

lemma archives_are_found_iff_witness:
  "objectStorePath example_params ''a'' ''3'' \<noteq> archiveKey example_params ''a'' ''3'' \<and>
   objectStorePath (example_params\<lparr>sp_s3BucketEndpoint := ''true''\<rparr>) ''a'' ''3'' =
     archiveKey (example_params\<lparr>sp_s3BucketEndpoint := ''true''\<rparr>) ''a'' ''3''"
proof -
  have trim: "js_trim ''ship'' = ''ship''" by (simp add: js_trim_def is_blank_def)
  have "plain ''ship''" "plain ''a''" "CHR ''/'' \<notin> set ''3''" by (simp_all add: plain_def)
  then show ?thesis
    using archives_are_found_iff [of example_params "''a''" "''3''"]
      archives_are_found_iff [of "example_params\<lparr>sp_s3BucketEndpoint := ''true''\<rparr>" "''a''" "''3''"]
    by (simp add: example_params_def trim)
qed

end
