(* ===== verification/AppConfig.thy ===== *)
theory AppConfig
  imports Registry ObjectStore ClusterStore Base64
begin

text \<open>
  The logic of an application, \<^verbatim>\<open>api/src/kots_app/kots_app.ts\<close>: its configuration, the links and flags
  shown for it, and the files of its archives.

  Configuration groups come from YAML and from clients, so they are values of JavaScript; the
  callback that visits an item is \<^verbatim>\<open>async\<close>, so what it throws is lost and the next item is
  visited.  YAML, the templating of the native library and \<^verbatim>\<open>kustomize\<close> are parameters.
\<close>

section \<open>Values of JavaScript\<close>

text \<open>\<^verbatim>\<open>===\<close>: two objects that were made apart are never the same.\<close>

fun strict_eq :: "jsval \<Rightarrow> jsval \<Rightarrow> bool" where
  "strict_eq (JArr _) _ = False"
| "strict_eq (JObj _) _ = False"
| "strict_eq v w = (v = w)"

text \<open>\<^verbatim>\<open>k in v\<close> for a key that is no property of the prototypes.\<close>

fun js_in :: "string \<Rightarrow> jsval \<Rightarrow> bool result" where
  "js_in k (JObj kvs) = Inr (k \<in> fst ` set kvs)"
| "js_in k (JArr xs) = Inr (k = ''length'' \<or> k \<in> show_nat ` {..<length xs})"
| "js_in k _ = Inl TypeError"

text \<open>The elements a loop over the indices below \<^verbatim>\<open>length\<close> visits.\<close>

fun js_indexed :: "jsval \<Rightarrow> jsval list result" where
  "js_indexed JUndef = Inl TypeError"
| "js_indexed JNull = Inl TypeError"
| "js_indexed (JArr xs) = Inr xs"
| "js_indexed (JStr s) = Inr (map (\<lambda>c. JStr [c]) s)"
| "js_indexed _ = Inr []"

text \<open>\<^verbatim>\<open>v.forEach\<close>, a method of arrays.\<close>

fun js_forEach :: "jsval \<Rightarrow> jsval list result" where
  "js_forEach (JArr xs) = Inr xs"
| "js_forEach _ = Inl TypeError"

section \<open>Configuration\<close>

fun find_item :: "jsval \<Rightarrow> jsval list \<Rightarrow> jsval option result" where
  "find_item itemName [] = Inr None"
| "find_item itemName (item # items) =
     bindR (js_get item ''name'') (\<lambda>n. if strict_eq n itemName then Inr (Some item) else find_item itemName items)"

fun getOriginalItem :: "jsval list \<Rightarrow> jsval \<Rightarrow> jsval option result" where
  "getOriginalItem [] itemName = Inr None"
| "getOriginalItem (grp # groups) itemName =
     bindR (js_get grp ''items'') (\<lambda>v. bindR (js_indexed v) (\<lambda>items.
     bindR (find_item itemName items) (\<lambda>found.
       case found of Some item \<Rightarrow> Inr (Some item) | None \<Rightarrow> getOriginalItem groups itemName)))"

definition config_hidden :: "jsval \<Rightarrow> bool result" where
  "config_hidden item =
     bindR (js_get item ''hidden'') (\<lambda>hidden. bindR (js_get item ''when'') (\<lambda>w.
     bindR (js_get item ''type'') (\<lambda>type. bindR (js_get item ''value'') (\<lambda>value.
       Inr (truthy hidden \<or> w = JStr ''false'' \<or> (type = JStr ''password'' \<and> value = JStr getPasswordMask))))))"

definition differs_from_original :: "jsval \<Rightarrow> jsval option \<Rightarrow> bool result" where
  "differs_from_original value originalItem =
     (case originalItem of
        None \<Rightarrow> Inr False
      | Some orig \<Rightarrow>
          if \<not> truthy value then Inr False
          else bindR (js_get orig ''value'') (\<lambda>v. bindR (js_get orig ''default'') (\<lambda>dflt.
            Inr (if truthy v then \<not> strict_eq value v
                 else if truthy dflt then \<not> strict_eq value dflt
                 else True))))"

definition shouldUpdateConfigValues :: "jsval \<Rightarrow> jsval \<Rightarrow> jsval \<Rightarrow> bool result" where
  "shouldUpdateConfigValues configGroups configValues item =
     bindR (config_hidden item) (\<lambda>h.
       if h then Inr False
       else bindR (js_get item ''name'') (\<lambda>name. bindR (js_get item ''value'') (\<lambda>value.
            bindR (js_in (js_to_string name) configValues) (\<lambda>present.
              if present
              then bindR (js_get configValues (js_to_string name)) (\<lambda>stored. Inr (\<not> strict_eq value stored))
              else bindR (js_indexed configGroups) (\<lambda>gs.
                   bindR (getOriginalItem gs name) (differs_from_original value))))))"

definition config_value :: "jsval \<Rightarrow> jsval \<Rightarrow> jsval" where
  "config_value value dflt =
     JObj ((if truthy value then [(''value'', value)] else []) @ (if truthy dflt then [(''default'', dflt)] else []))"

text \<open>The callback of one item; an exception leaves the values as they were.\<close>

definition update_item :: "jsval \<Rightarrow> jsval \<Rightarrow> jsval \<Rightarrow> jsval" where
  "update_item specConfigGroups specConfigValues item =
     (case bindR (shouldUpdateConfigValues specConfigGroups specConfigValues item) (\<lambda>should.
             if \<not> should then Inr specConfigValues
             else bindR (js_get item ''name'') (\<lambda>name. bindR (js_get item ''value'') (\<lambda>value.
                  bindR (js_get item ''default'') (\<lambda>dflt.
                    js_set specConfigValues (js_to_string name) (config_value value dflt))))) of
        Inl _ \<Rightarrow> specConfigValues
      | Inr values \<Rightarrow> values)"

fun update_groups :: "jsval \<Rightarrow> jsval list \<Rightarrow> jsval \<Rightarrow> jsval result" where
  "update_groups specConfigGroups [] specConfigValues = Inr specConfigValues"
| "update_groups specConfigGroups (grp # groups) specConfigValues =
     bindR (js_get grp ''items'') (\<lambda>v. bindR (js_forEach v) (\<lambda>items.
       update_groups specConfigGroups groups (foldl (update_item specConfigGroups) specConfigValues items)))"

record config_env =
  ce_safeLoad :: "string \<Rightarrow> jsval result"
  ce_safeDump :: "jsval \<Rightarrow> string result"
  ce_template :: "string \<Rightarrow> string \<Rightarrow> string \<Rightarrow> KotsAppRegistryDetails \<Rightarrow> string"
  ce_err_text :: "error \<Rightarrow> string"
  ce_encrypt :: cipher
  ce_decrypt :: cipher
  ce_key :: string

definition kotsTemplateConfig ::
  "config_env \<Rightarrow> string \<Rightarrow> string \<Rightarrow> string \<Rightarrow> KotsAppRegistryDetails \<Rightarrow> jsval result" where
  "kotsTemplateConfig env configSpec configValues license registryInfo =
     (let templated = ce_template env configSpec configValues license registryInfo in
      if templated = [] then Inl (ReplicatedError ''failed to template config'')
      else case ce_safeLoad env templated of
          Inl e \<Rightarrow> Inl (ReplicatedError (''Failed to parse templated config '' @ ce_err_text env e))
        | Inr v \<Rightarrow> Inr v)"

definition applyConfigValues ::
  "config_env \<Rightarrow> string \<Rightarrow> string \<Rightarrow> string \<Rightarrow> KotsAppRegistryDetails \<Rightarrow> jsval result" where
  "applyConfigValues env configSpec configValues license registryInfo =
     bindR (kotsTemplateConfig env configSpec configValues license registryInfo) (\<lambda>templatedConfig.
     bindR (js_get templatedConfig ''spec'') (\<lambda>spec.
     bindR (js_and spec (\<lambda>s. js_get s ''groups'')) (\<lambda>groups.
       if \<not> truthy groups then Inl (ReplicatedError ''Config groups not found'') else Inr groups)))"

text \<open>\<^verbatim>\<open>String(app.license)\<close>; destructuring no data is an error.\<close>

definition license_text :: "KotsApp \<Rightarrow> string" where
  "license_text app = (case ka_license app of None \<Rightarrow> ''null'' | Some l \<Rightarrow> l)"

definition config_data :: "string \<Rightarrow> int \<Rightarrow> (db, string \<times> string) eff" where
  "config_data appId sequence =
     queryE (\<lambda>d. bindR (getAppConfigData appId sequence d) (\<lambda>c. case c of None \<Rightarrow> Inl TypeError | Some x \<Rightarrow> Inr x))"

definition registry_details :: "config_env \<Rightarrow> string \<Rightarrow> (db, KotsAppRegistryDetails) eff" where
  "registry_details env appId = getAppRegistryDetails (ce_encrypt env) (ce_decrypt env) (ce_key env) appId False"

definition getAppConfigGroups :: "config_env \<Rightarrow> string \<Rightarrow> int \<Rightarrow> (db, jsval) eff" where
  "getAppConfigGroups env appId sequence =
     catchE
       (bindE (queryE (getApp appId)) (\<lambda>app.
        bindE (registry_details env (ka_id app)) (\<lambda>registryInfo.
        bindE (config_data appId sequence) (\<lambda>(configSpec, configValues).
          queryE (\<lambda>_. applyConfigValues env configSpec configValues (license_text app) registryInfo)))))
       (\<lambda>e. throwE (ReplicatedError (''Failed to get config groups '' @ ce_err_text env e)))"

definition updated_values :: "jsval \<Rightarrow> jsval \<Rightarrow> jsval list \<Rightarrow> jsval result" where
  "updated_values parsedConfig parsedConfigValues configGroups =
     bindR (js_gets parsedConfigValues [''spec'', ''values'']) (\<lambda>specConfigValues.
     bindR (js_gets parsedConfig [''spec'', ''groups'']) (\<lambda>specConfigGroups.
     bindR (update_groups specConfigGroups configGroups specConfigValues) (\<lambda>values.
       Inr (if values = specConfigValues then parsedConfigValues
            else lodash_set parsedConfigValues [''spec'', ''values''] values))))"

definition templateConfigGroups :: "config_env \<Rightarrow> string \<Rightarrow> int \<Rightarrow> jsval list \<Rightarrow> (db, jsval) eff" where
  "templateConfigGroups env appId sequence configGroups =
     bindE (queryE (getApp appId)) (\<lambda>app.
     bindE (config_data appId sequence) (\<lambda>(configSpec, configValues).
     bindE (queryE (\<lambda>_. ce_safeLoad env configSpec)) (\<lambda>parsedConfig.
     bindE (queryE (\<lambda>_. ce_safeLoad env configValues)) (\<lambda>parsedConfigValues.
     bindE (queryE (\<lambda>_. updated_values parsedConfig parsedConfigValues configGroups)) (\<lambda>updated.
     bindE (queryE (\<lambda>_. ce_safeDump env updated)) (\<lambda>updatedConfigValues.
     bindE (registry_details env (ka_id app)) (\<lambda>registryInfo.
       queryE (\<lambda>_. applyConfigValues env configSpec updatedConfigValues (license_text app) registryInfo))))))))"

record ConfigData =
  cd_configSpec :: string
  cd_configValues :: string
  cd_configValuesPath :: string

definition config_file :: "(string \<Rightarrow> jsval result) \<Rightarrow> ConfigData \<Rightarrow> string \<times> string \<Rightarrow> ConfigData" where
  "config_file safeLoad acc f =
     (case safeLoad (snd f) of
        Inl _ \<Rightarrow> acc
      | Inr doc \<Rightarrow>
          if doc_is ''kots.io/v1beta1'' ''Config'' doc then acc\<lparr>cd_configSpec := snd f\<rparr>
          else if doc_is ''kots.io/v1beta1'' ''ConfigValues'' doc
               then acc\<lparr>cd_configValues := snd f, cd_configValuesPath := fst f\<rparr>
          else acc)"

definition getConfigDataFromFiles :: "(string \<Rightarrow> jsval result) \<Rightarrow> FilesAsBuffers \<Rightarrow> ConfigData" where
  "getConfigDataFromFiles safeLoad files =
     foldl (config_file safeLoad) \<lparr>cd_configSpec = [], cd_configValues = [], cd_configValuesPath = []\<rparr> (fb_files files)"

section \<open>Links and flags\<close>

record KotsAppLink =
  li_title :: jsval
  li_uri :: jsval

text \<open>\<^verbatim>\<open>_.find\<close> of the first port of an application URL.\<close>

fun find_port :: "jsval \<Rightarrow> jsval list \<Rightarrow> jsval option result" where
  "find_port url [] = Inr None"
| "find_port url (port # ports) =
     bindR (js_get port ''applicationUrl'') (\<lambda>u. if strict_eq u url then Inr (Some port) else find_port url ports)"

definition spec_ports :: "jsval \<Rightarrow> jsval option" where
  "spec_ports spec =
     (if \<not> truthy spec then None
      else case js_get spec ''ports'' of Inr ports \<Rightarrow> if truthy ports then Some ports else None | Inl _ \<Rightarrow> None)"

definition realize_link :: "jsval \<Rightarrow> jsval \<Rightarrow> KotsAppLink result" where
  "realize_link parsedKotsAppSpec link =
     bindR (js_get link ''url'') (\<lambda>url.
     bindR (case spec_ports parsedKotsAppSpec of
              None \<Rightarrow> Inr url
            | Some ports \<Rightarrow> bindR (find_port url (lodash_elems ports)) (\<lambda>mapped.
                case mapped of
                  None \<Rightarrow> Inr url
                | Some port \<Rightarrow> bindR (js_get port ''localPort'') (\<lambda>p. Inr (JStr (''http://localhost:'' @ js_to_string p))))) (\<lambda>uri.
     bindR (js_get link ''description'') (\<lambda>title. Inr \<lparr>li_title = title, li_uri = uri\<rparr>)))"

definition links_of :: "(string \<Rightarrow> jsval result) \<Rightarrow> string \<Rightarrow> jsval \<Rightarrow> KotsAppLink list result" where
  "links_of safeLoad appSpec parsedKotsAppSpec =
     bindR (safeLoad appSpec) (\<lambda>doc.
     bindR (js_gets doc [''spec'', ''descriptor'']) (\<lambda>descriptor.
     bindR (js_and descriptor (\<lambda>v. js_get v ''links'')) (\<lambda>links.
       if \<not> truthy links then Inr []
       else bindR (js_iter links) (mapR (realize_link parsedKotsAppSpec)))))"

definition getRealizedLinksFromAppSpec ::
  "(string \<Rightarrow> jsval result) \<Rightarrow> string \<Rightarrow> string \<Rightarrow> db \<Rightarrow> KotsAppLink list result" where
  "getRealizedLinksFromAppSpec safeLoad appId clusterId d =
     bindR (getCurrentVersion appId clusterId d) (\<lambda>v.
       case v of
         None \<Rightarrow> Inr []
       | Some activeDownstream \<Rightarrow>
           (case Option.bind (kv_parentSequence activeDownstream) (\<lambda>p. getAppSpec appId p d) of
              None \<Rightarrow> Inr []
            | Some appSpec \<Rightarrow>
                if appSpec = [] then Inr []
                else bindR (getKotsAppSpec safeLoad appId (the (kv_parentSequence activeDownstream)) d) (\<lambda>parsedKotsAppSpec.
                  case links_of safeLoad appSpec parsedKotsAppSpec of Inl _ \<Rightarrow> Inr [] | Inr links \<Rightarrow> Inr links)))"

definition app_isGitOpsSupported :: "(string \<Rightarrow> jsval result) \<Rightarrow> bool \<Rightarrow> KotsApp \<Rightarrow> db \<Rightarrow> bool result" where
  "app_isGitOpsSupported safeLoad secretExists app d =
     isGitOpsSupported safeLoad secretExists (ka_id app) (case ka_currentSequence app of None \<Rightarrow> 0 | Some s \<Rightarrow> s) d"

definition isAllowRollback :: "(string \<Rightarrow> jsval result) \<Rightarrow> KotsApp \<Rightarrow> db \<Rightarrow> bool result" where
  "isAllowRollback safeLoad app d =
     bindR (case ka_currentSequence app of None \<Rightarrow> Inr JUndef | Some s \<Rightarrow> getKotsAppSpec safeLoad (ka_id app) s d) (\<lambda>spec.
       case js_and spec (\<lambda>v. js_get v ''allowRollback'') of Inl _ \<Rightarrow> Inr False | Inr r \<Rightarrow> Inr (truthy r))"

definition snapshots_allowed :: "jsval \<Rightarrow> bool" where
  "snapshots_allowed backup =
     (case lodash_get backup [''metadata'', ''annotations''] of
        JObj annotations \<Rightarrow>
          own_prop annotations ''kots.io/exclude'' \<notin> {JStr ''true'', JBool True} \<and>
          own_prop annotations ''kots.io/when'' \<notin> {JStr ''false'', JBool False}
      | _ \<Rightarrow> True)"

definition isAllowSnapshots ::
  "config_env \<Rightarrow> (string \<Rightarrow> KotsAppRegistryDetails \<Rightarrow> string result) \<Rightarrow> KotsApp \<Rightarrow> Cluster list \<Rightarrow> (db, bool) eff" where
  "isAllowSnapshots env kotsRenderFile app downstreams =
     (case downstreams of
        [] \<Rightarrow> retE False
      | c # _ \<Rightarrow>
          bindE (queryE (\<lambda>d. Inr (getDeployedVersionBackup (ka_id app) (c_id c) d))) (\<lambda>tmpl.
            if \<not> truthy_str tmpl then retE False
            else bindE (registry_details env (ka_id app)) (\<lambda>registryInfo.
                 bindE (queryE (\<lambda>_. kotsRenderFile (str_or_empty tmpl) registryInfo)) (\<lambda>rendered.
                 bindE (queryE (\<lambda>_. ce_safeLoad env rendered)) (\<lambda>backup. retE (snapshots_allowed backup))))))"

text \<open>With no version the greatest sequence is \<open>NaN\<close>, which the database refuses as a number.\<close>

definition getKotsLicenseType :: "(string \<Rightarrow> jsval result) \<Rightarrow> KotsApp \<Rightarrow> db \<Rightarrow> jsval result" where
  "getKotsLicenseType safeLoad app d =
     bindR (getIdFromSlug (ka_slug app) d) (\<lambda>i.
       case getMaxSequence i d of
         None \<Rightarrow> Inl (ExternalError ''invalid input syntax for integer: NaN'')
       | Some s \<Rightarrow> getKotsAppLicenseType safeLoad i s d)"

section \<open>The files of an archive\<close>

type_synonym archives = "tar_entry list objects"

definition app_downloadFiles ::
  "s3_params \<Rightarrow> (string \<Rightarrow> error option) \<Rightarrow> string \<Rightarrow> string \<Rightarrow> RequestedFile list \<Rightarrow> archives \<Rightarrow> FilesAsBuffers result" where
  "app_downloadFiles p refused appId sequence filesWeCareAbout objs =
     bindR (getObject refused (archiveKey p appId sequence) objs) (\<lambda>entries.
       Inr (unpackFrom (Some entries) (Some filesWeCareAbout)))"

definition getArchive :: "s3_params \<Rightarrow> (string \<Rightarrow> error option) \<Rightarrow> string \<Rightarrow> string \<Rightarrow> archives \<Rightarrow> tar_entry list result" where
  "getArchive p refused appId sequence = getObject refused (archiveKey p appId sequence)"

definition getFilesPaths ::
  "s3_params \<Rightarrow> (string \<Rightarrow> error option) \<Rightarrow> (string \<Rightarrow> jsval result) \<Rightarrow> string \<Rightarrow> string \<Rightarrow> archives \<Rightarrow> string list result" where
  "getFilesPaths p refused json appId sequence objs =
     bindR (app_downloadFiles p refused appId sequence [\<lparr>rf_path = ''index.json'', rf_matcher = eq_matcher ''index.json''\<rparr>] objs)
       (index_paths json)"

definition app_generateFileTreeIndex ::
  "s3_params \<Rightarrow> (string \<Rightarrow> error option) \<Rightarrow> (string \<Rightarrow> jsval result) \<Rightarrow> string \<Rightarrow> string \<Rightarrow> archives \<Rightarrow> file_node list result" where
  "app_generateFileTreeIndex p refused json appId sequence objs =
     bindR (getFilesPaths p refused json appId sequence objs) (\<lambda>paths. Inr (arrangeIntoTree paths))"

definition app_getFiles ::
  "s3_params \<Rightarrow> (string \<Rightarrow> error option) \<Rightarrow> string \<Rightarrow> string \<Rightarrow> string list \<Rightarrow> archives \<Rightarrow> FilesAsBuffers result" where
  "app_getFiles p refused appId sequence fileNames =
     app_downloadFiles p refused appId sequence
       (map (\<lambda>f. \<lparr>rf_path = f, rf_matcher = eqIgnoringLeadingSlash f\<rparr>) fileNames)"

text \<open>The contents of an archive inside the archive are its bytes, shown in base 64.\<close>

definition file_text :: "string \<Rightarrow> string \<Rightarrow> string" where
  "file_text path content = (if isTgzByName path then b64_encode (map of_char content) else content)"

definition app_getFilesJSON ::
  "s3_params \<Rightarrow> (string \<Rightarrow> error option) \<Rightarrow> string \<Rightarrow> string \<Rightarrow> string list \<Rightarrow> archives \<Rightarrow> string result" where
  "app_getFilesJSON p refused appId sequence fileNames objs =
     bindR (app_getFiles p refused appId sequence fileNames objs) (\<lambda>files.
       Inr (json_stringify (JObj (map (\<lambda>(path, content). (path, JStr (file_text path content))) (fb_files files)))))"

text \<open>Writing the files of an archive under a directory: what a file then holds is the last one written to it.\<close>

definition written_file :: "string \<Rightarrow> string list \<Rightarrow> tar_entry list \<Rightarrow> string option" where
  "written_file dir path entries =
     map_option te_contents
       (find (\<lambda>e. te_isFile e \<and> path_join [dir, te_name e] = path_join (dir # path)) (rev entries))"

definition getImagePullSecretFromArchive ::
  "s3_params \<Rightarrow> (string \<Rightarrow> error option) \<Rightarrow> string \<Rightarrow> string \<Rightarrow> string \<Rightarrow> archives \<Rightarrow> string result" where
  "getImagePullSecretFromArchive p refused tmpDir appId sequence objs =
     bindR (getObject refused (archiveKey p appId sequence) objs) (\<lambda>entries.
       Inr (str_or_empty (written_file tmpDir [''overlays'', ''midstream'', ''secret.yaml''] entries)))"

definition kustomize_binary :: "jsval \<Rightarrow> string" where
  "kustomize_binary kustomizeVersion =
     (if truthy kustomizeVersion \<and> kustomizeVersion \<noteq> JStr ''latest'' then ''kustomize'' @ js_to_string kustomizeVersion
      else ''kustomize3.5.4'')"

definition app_render ::
  "s3_params \<Rightarrow> (string \<Rightarrow> error option) \<Rightarrow> (string \<Rightarrow> tar_entry list \<Rightarrow> string result) \<Rightarrow> string \<Rightarrow> string \<Rightarrow> string \<Rightarrow> string \<Rightarrow>
   jsval \<Rightarrow> archives \<Rightarrow> string result" where
  "app_render p refused exec tmpDir appId sequence overlayPath kustomizeVersion objs =
     bindR (getObject refused (archiveKey p appId sequence) objs) (\<lambda>entries.
       exec (kustomize_binary kustomizeVersion @ '' build '' @ path_join [tmpDir, overlayPath]) (filter te_isFile entries))"

section \<open>Lemmas: the values of a configuration\<close>

definition group_items :: "jsval \<Rightarrow> jsval list" where
  "group_items grp = (case js_get grp ''items'' of Inr (JArr xs) \<Rightarrow> xs | _ \<Rightarrow> [])"

definition has_items :: "jsval \<Rightarrow> bool" where
  "has_items grp \<longleftrightarrow> (case js_get grp ''items'' of Inr (JArr xs) \<Rightarrow> True | _ \<Rightarrow> False)"

definition is_item :: "jsval \<Rightarrow> bool" where
  "is_item it \<longleftrightarrow> it \<noteq> JNull \<and> it \<noteq> JUndef"

definition item_field :: "string \<Rightarrow> jsval \<Rightarrow> jsval" where
  "item_field k it = (case js_get it k of Inr v \<Rightarrow> v | Inl _ \<Rightarrow> JUndef)"

abbreviation item_name :: "jsval \<Rightarrow> string" where
  "item_name it \<equiv> js_to_string (item_field ''name'' it)"

abbreviation masked :: "jsval \<Rightarrow> bool" where
  "masked it \<equiv> item_field ''type'' it = JStr ''password'' \<and> item_field ''value'' it = JStr getPasswordMask"

definition item_shown :: "jsval \<Rightarrow> bool" where
  "item_shown it \<longleftrightarrow> \<not> truthy (item_field ''hidden'' it) \<and> item_field ''when'' it \<noteq> JStr ''false'' \<and> \<not> masked it"

lemma js_get_item: "is_item it \<Longrightarrow> js_get it k = Inr (item_field k it)"
  by (cases it) (auto simp: is_item_def item_field_def)

lemma config_hidden_item: "is_item it \<Longrightarrow> config_hidden it = Inr (\<not> item_shown it)"
  by (auto simp: config_hidden_def item_shown_def js_get_item)

lemma update_groups_fold:
  "list_all has_items gs \<Longrightarrow> update_groups G gs v = Inr (foldl (update_item G) v (concat (map group_items gs)))"
  by (induction gs arbitrary: v) (auto simp: has_items_def group_items_def split: sum.splits jsval.splits)

lemma own_prop_present: "k \<in> fst ` set kvs \<Longrightarrow> own_prop kvs k = the (map_of kvs k)"
  by (cases "map_of kvs k") (auto simp: own_prop.simps map_of_eq_None_iff)

lemma fst_obj_set: "fst ` set (obj_set k v kvs) = insert k (fst ` set kvs)"
  by (induction k v kvs rule: obj_set.induct) auto

text \<open>Whether an item is written depends on what is stored under its name alone.\<close>

lemma shouldUpdate_cong:
  assumes "is_item it" and "(item_name it \<in> fst ` set kvs) = (item_name it \<in> fst ` set kvs')"
    and "own_prop kvs (item_name it) = own_prop kvs' (item_name it)"
  shows "shouldUpdateConfigValues G (JObj kvs) it = shouldUpdateConfigValues G (JObj kvs') it"
  using assms by (simp add: shouldUpdateConfigValues_def config_hidden_item js_get_item)

lemma update_item_obj:
  assumes "is_item it"
  shows "update_item G (JObj kvs) it =
    (if shouldUpdateConfigValues G (JObj kvs) it = Inr True
     then JObj (obj_set (item_name it) (config_value (item_field ''value'' it) (item_field ''default'' it)) kvs)
     else JObj kvs)"
  using assms
  by (cases "shouldUpdateConfigValues G (JObj kvs) it") (auto simp: update_item_def js_get_item)

lemma update_items:
  assumes "list_all is_item items" and "distinct (map item_name items)"
  shows "\<exists>kvs'. foldl (update_item G) (JObj kvs) items = JObj kvs' \<and>
    (\<forall>n. own_prop kvs' n = (case find (\<lambda>it. item_name it = n) items of
        None \<Rightarrow> own_prop kvs n
      | Some it \<Rightarrow> if shouldUpdateConfigValues G (JObj kvs) it = Inr True
                   then config_value (item_field ''value'' it) (item_field ''default'' it) else own_prop kvs n))"
  using assms
proof (induction items arbitrary: kvs)
  case (Cons it items)
  define kvs1 where "kvs1 = (if shouldUpdateConfigValues G (JObj kvs) it = Inr True
     then obj_set (item_name it) (config_value (item_field ''value'' it) (item_field ''default'' it)) kvs else kvs)"
  have first: "update_item G (JObj kvs) it = JObj kvs1" using Cons.prems(1) by (simp add: update_item_obj kvs1_def)
  have new: "item_name x \<noteq> item_name it" if "x \<in> set items" for x
  proof -
    have "item_name x \<in> set (map item_name items)" using that by simp
    then show ?thesis using Cons.prems(2) by (auto simp del: set_map)
  qed
  have other: "own_prop kvs1 n = own_prop kvs n \<and> (n \<in> fst ` set kvs1) = (n \<in> fst ` set kvs)" if "n \<noteq> item_name it" for n
    using that by (auto simp: kvs1_def fst_obj_set)
  have same: "shouldUpdateConfigValues G (JObj kvs1) x = shouldUpdateConfigValues G (JObj kvs) x" if "x \<in> set items" for x
  proof (rule shouldUpdate_cong)
    show "is_item x" using Cons.prems(1) that by (simp add: list_all_iff)
    have "item_name x \<noteq> item_name it" using new [OF that] .
    with other show "(item_name x \<in> fst ` set kvs1) = (item_name x \<in> fst ` set kvs)" "own_prop kvs1 (item_name x) = own_prop kvs (item_name x)"
      by blast+
  qed
  obtain kvs' where rest: "foldl (update_item G) (JObj kvs1) items = JObj kvs'"
    "\<And>n. own_prop kvs' n = (case find (\<lambda>it. item_name it = n) items of
        None \<Rightarrow> own_prop kvs1 n
      | Some it \<Rightarrow> if shouldUpdateConfigValues G (JObj kvs1) it = Inr True
                   then config_value (item_field ''value'' it) (item_field ''default'' it) else own_prop kvs1 n)"
    using Cons.IH [of kvs1] Cons.prems by auto
  have "own_prop kvs' n = (case find (\<lambda>it. item_name it = n) (it # items) of
        None \<Rightarrow> own_prop kvs n
      | Some it \<Rightarrow> if shouldUpdateConfigValues G (JObj kvs) it = Inr True
                   then config_value (item_field ''value'' it) (item_field ''default'' it) else own_prop kvs n)" for n
  proof (cases "item_name it = n")
    case True
    then have "find (\<lambda>it. item_name it = n) items = None" using new by (auto simp: find_None_iff)
    with True rest(2) show ?thesis by (simp add: kvs1_def)
  next
    case False
    show ?thesis
    proof (cases "find (\<lambda>it. item_name it = n) items")
      case None
      with False rest(2) [of n] other [of n] show ?thesis by simp
    next
      case (Some x)
      then have "x \<in> set items" by (auto simp: find_Some_iff)
      with False Some rest(2) [of n] other [of n] same show ?thesis by simp
    qed
  qed
  with rest(1) first show ?case by auto
qed simp

lemma stored_value_is_rewritten:
  assumes "is_item it" and "item_shown it" and "item_name it \<in> fst ` set kvs" and "own_prop kvs (item_name it) = JObj stored"
  shows "shouldUpdateConfigValues G (JObj kvs) it = Inr True"
proof -
  have "\<not> strict_eq v (JObj stored)" for v by (cases v) auto
  with assms show ?thesis by (simp add: shouldUpdateConfigValues_def config_hidden_item js_get_item)
qed

lemma hidden_value_is_kept:
  assumes "is_item it" and "\<not> item_shown it"
  shows "shouldUpdateConfigValues G (JObj kvs) it = Inr False"
  using assms by (simp add: shouldUpdateConfigValues_def config_hidden_item)

text \<open>
  Templating a configuration with the groups a client sends changes the stored values under the names of the
  items alone: an item that is hidden, switched off or a masked password keeps what is stored, one
  that is shown and has something stored is always written anew, changed or not, and any other one
  is written when the rule of \<^verbatim>\<open>shouldUpdateConfigValues\<close> says so.
\<close>

theorem config_values_update:
  assumes "list_all has_items gs" and "items = concat (map group_items gs)"
    and "list_all is_item items" and "distinct (map item_name items)"
    and "lodash_get (JObj doc) [''spec'', ''values''] = JObj kvs" and "js_gets config [''spec'', ''groups''] = Inr G"
  shows "\<exists>doc' kvs'. updated_values config (JObj doc) gs = Inr (JObj doc') \<and>
    lodash_get (JObj doc') [''spec'', ''values''] = JObj kvs' \<and>
    (\<forall>n. own_prop kvs' n = (case find (\<lambda>it. item_name it = n) items of
        None \<Rightarrow> own_prop kvs n
      | Some it \<Rightarrow>
          if \<not> item_shown it then own_prop kvs n
          else if (n \<in> fst ` set kvs \<and> (\<exists>stored. own_prop kvs n = JObj stored)) \<or>
                  shouldUpdateConfigValues G (JObj kvs) it = Inr True
          then config_value (item_field ''value'' it) (item_field ''default'' it) else own_prop kvs n))"
proof -
  obtain kvs' where kvs': "foldl (update_item G) (JObj kvs) items = JObj kvs'"
    "\<And>n. own_prop kvs' n = (case find (\<lambda>it. item_name it = n) items of
        None \<Rightarrow> own_prop kvs n
      | Some it \<Rightarrow> if shouldUpdateConfigValues G (JObj kvs) it = Inr True
                   then config_value (item_field ''value'' it) (item_field ''default'' it) else own_prop kvs n)"
    using update_items [OF assms(3,4), of G kvs] by blast
  have "js_gets (JObj doc) [''spec'', ''values''] = Inr (JObj kvs)"
    using assms(5) by (cases "own_prop doc ''spec''") auto
  then have run: "updated_values config (JObj doc) gs =
      Inr (if JObj kvs' = JObj kvs then JObj doc else lodash_set (JObj doc) [''spec'', ''values''] (JObj kvs'))"
    using assms(1,2,6) kvs'(1) by (simp add: updated_values_def update_groups_fold)
  have "\<exists>doc'. updated_values config (JObj doc) gs = Inr (JObj doc') \<and> lodash_get (JObj doc') [''spec'', ''values''] = JObj kvs'"
  proof (cases "kvs' = kvs")
    case True
    with run assms(5) show ?thesis by auto
  next
    case False
    obtain doc' where d: "lodash_set (JObj doc) [''spec'', ''values''] (JObj kvs') = JObj doc'"
      using lodash_set_is_obj by blast
    have "lodash_get (lodash_set (JObj doc) [''spec'', ''values''] (JObj kvs')) [''spec'', ''values''] = JObj kvs'"
      by (rule lodash_get_set) simp
    with False run d show ?thesis by auto
  qed
  moreover have "own_prop kvs' n = (case find (\<lambda>it. item_name it = n) items of
        None \<Rightarrow> own_prop kvs n
      | Some it \<Rightarrow>
          if \<not> item_shown it then own_prop kvs n
          else if (n \<in> fst ` set kvs \<and> (\<exists>stored. own_prop kvs n = JObj stored)) \<or>
                  shouldUpdateConfigValues G (JObj kvs) it = Inr True
          then config_value (item_field ''value'' it) (item_field ''default'' it) else own_prop kvs n)" for n
  proof (cases "find (\<lambda>it. item_name it = n) items")
    case (Some it)
    then have "it \<in> set items" "item_name it = n" by (auto simp: find_Some_iff)
    with assms(3) have "is_item it" by (simp add: list_all_iff)
    with Some kvs'(2) [of n] \<open>item_name it = n\<close> show ?thesis
      using hidden_value_is_kept [of it G kvs] stored_value_is_rewritten [of it kvs _ G] by auto
  qed (simp add: kvs'(2))
  ultimately show ?thesis by blast
qed

lemma config_values_update_witness:
  "let host = JObj [(''name'', JStr ''host''), (''value'', JStr ''new'')];
       gs = [JObj [(''items'', JArr [host])]];
       doc = [(''spec'', JObj [(''values'', JObj [(''host'', JObj [(''value'', JStr ''old'')])])])];
       config = JObj [(''spec'', JObj [(''groups'', JArr gs)])] in
   \<exists>doc' kvs'. updated_values config (JObj doc) gs = Inr (JObj doc') \<and>
     lodash_get (JObj doc') [''spec'', ''values''] = JObj kvs' \<and> own_prop kvs' ''host'' = JObj [(''value'', JStr ''new'')]"
proof -
  define host where "host = JObj [(''name'', JStr ''host''), (''value'', JStr ''new'')]"
  let ?gs = "[JObj [(''items'', JArr [host])]]" and ?kvs = "[(''host'', JObj [(''value'', JStr ''old'')])]"
  let ?config = "JObj [(''spec'', JObj [(''groups'', JArr ?gs)])]"
  have item: "item_name host = ''host''" "item_field ''value'' host = JStr ''new''" "item_field ''default'' host = JUndef"
    "is_item host" "item_shown host"
    by (simp_all add: host_def item_field_def is_item_def item_shown_def own_prop.simps)
  have "list_all has_items ?gs" "[host] = concat (map group_items ?gs)" "list_all is_item [host]" "distinct (map item_name [host])"
    "lodash_get (JObj [(''spec'', JObj [(''values'', JObj ?kvs)])]) [''spec'', ''values''] = JObj ?kvs"
    "js_gets ?config [''spec'', ''groups''] = Inr (JArr ?gs)"
    using item(4) by (simp_all add: has_items_def group_items_def own_prop.simps)
  from config_values_update [OF this] obtain doc' kvs' where
    "updated_values ?config (JObj [(''spec'', JObj [(''values'', JObj ?kvs)])]) ?gs = Inr (JObj doc')"
    "lodash_get (JObj doc') [''spec'', ''values''] = JObj kvs'"
    "own_prop kvs' ''host'' = config_value (item_field ''value'' host) (item_field ''default'' host)"
    using item by (auto simp: own_prop.simps)
  then show ?thesis unfolding Let_def host_def [symmetric] by (simp add: item config_value_def)
qed

end
