(* ===== verification/Releases.thy ===== *)
theory Releases
  imports AppConfig GitOps TaskStatus Sessions
begin

text \<open>
  How versions come into being: \<^verbatim>\<open>api/src/kots_app/kots_ffi.ts\<close> and \<^verbatim>\<open>controllers/kots/KotsAPI.ts\<close> store
  an archive, read its specs and make the rows of the version and of every downstream;
  \<^verbatim>\<open>kots_app/gitops.ts\<close> commits it to a repository; \<^verbatim>\<open>airgap/status.ts\<close> listens to the native library
  while it works; \<^verbatim>\<open>getDiffSummary\<close> of \<^verbatim>\<open>util/utilities.ts\<close> compares two archives.

  The native library is a parameter: what it writes to its status socket, and the archive it leaves.
  So are the object store's refusals, \<^verbatim>\<open>kustomize\<close>, the comparison of two texts and the operations on
  a git repository.
\<close>

section \<open>The status server\<close>

text \<open>A handler sees every line as an object, may change the state, and may settle the promise.  What it throws, and
  a line that is no JSON, is thrown in the callback of a stream; a client that disconnects without
  a word settles nothing, because the event the code waits for is one a server does not have.\<close>

type_synonym ('s, 'a) handler = "jsval \<Rightarrow> ('s, 'a result option) eff"

fun termination_of :: "('s, 'a) handler \<Rightarrow> jsval result list \<Rightarrow> ('s, 'a) eff" where
  "termination_of handler [] = throwE Unsettled"
| "termination_of handler (line # lines) =
     (case line of
        Inl _ \<Rightarrow> throwE Uncaught
      | Inr obj \<Rightarrow>
          (\<lambda>s. case handler obj s of
              (Inl _, s') \<Rightarrow> (Inl Uncaught, s')
            | (Inr None, s') \<Rightarrow> termination_of handler lines s'
            | (Inr (Some r), s') \<Rightarrow> (r, s')))"

record ffi_run =
  fr_connects :: bool
  fr_lines :: "jsval result list"

definition run_ffi :: "ffi_run \<Rightarrow> ('s, 'a) handler \<Rightarrow> ('s, 'a) eff" where
  "run_ffi run handler =
     (if \<not> fr_connects run then throwE (JsError ''Timeout waiting for FFI client to connect'')
      else termination_of handler (fr_lines run))"

definition shown_text :: "jsval \<Rightarrow> string" where
  "shown_text v = str_or_empty (pg_text v)"

section \<open>The state\<close>

record rworld =
  rw_db :: db
  rw_k8s :: k8s
  rw_objects :: archives

definition inDb :: "(db, 'a) eff \<Rightarrow> (rworld, 'a) eff" where
  "inDb m w = (case m (rw_db w) of (r, d) \<Rightarrow> (r, w\<lparr>rw_db := d\<rparr>))"

definition askDb :: "(db \<Rightarrow> 'a result) \<Rightarrow> (rworld, 'a) eff" where
  "askDb q = queryE (\<lambda>w. q (rw_db w))"

record 'g git_ops =
  git_clone :: "GitOpsCreds \<Rightarrow> string \<Rightarrow> 'g result"
  git_references :: "'g \<Rightarrow> string list"
  git_createBranch :: "string \<Rightarrow> string \<Rightarrow> 'g \<Rightarrow> 'g result"
  git_checkout :: "string \<Rightarrow> 'g \<Rightarrow> 'g result"
  git_pull :: "string \<Rightarrow> 'g \<Rightarrow> 'g result"
  git_add :: "string \<times> string \<Rightarrow> 'g \<Rightarrow> 'g result"
  git_patches :: "'g \<Rightarrow> nat"
  git_commit :: "string \<Rightarrow> 'g \<Rightarrow> (string \<times> 'g) result"
  git_push :: "string \<Rightarrow> 'g \<Rightarrow> 'g result"

record 'g release_env =
  re_params :: s3_params
  re_refusedPut :: "string \<Rightarrow> error option"
  re_refusedGet :: "string \<Rightarrow> error option"
  re_safeLoad :: "string \<Rightarrow> jsval result"
  re_json :: "string \<Rightarrow> jsval result"
  re_err_text :: "error \<Rightarrow> string"
  re_kustomize :: "string \<Rightarrow> tar_entry list \<Rightarrow> string result"
  re_tmpDir :: string
  re_diffLines :: "string \<Rightarrow> string \<Rightarrow> (bool \<times> bool \<times> int) list"
  re_decrypt :: cipher
  re_encrypt :: cipher
  re_key :: string
  re_git :: "'g git_ops"
  re_shipApiEndpoint :: string
  re_now :: time

section \<open>Commits\<close>

definition getGitProviderCommitUrl :: "string \<Rightarrow> string \<Rightarrow> string \<Rightarrow> string" where
  "getGitProviderCommitUrl repoUri commitHash provider =
     (if provider = ''github'' then repoUri @ ''/commit/'' @ commitHash
      else if provider = ''bitbucket'' then repoUri @ ''/commits/'' @ commitHash
      else repoUri @ ''/commit/'' @ commitHash)"

text \<open>The branch to work on, and whether it is new: a local one, else one made from the remote, else from the head.\<close>

definition prepare_branch :: "'g git_ops \<Rightarrow> string \<Rightarrow> 'g \<Rightarrow> ('g \<times> bool) result" where
  "prepare_branch git branch repo =
     (let refs = git_references git repo in
      if ''refs/heads/'' @ branch \<in> set refs then Inr (repo, False)
      else if ''refs/remotes/origin/'' @ branch \<in> set refs
      then bindR (git_createBranch git branch (''refs/remotes/origin/'' @ branch) repo) (\<lambda>r. Inr (r, False))
      else bindR (git_createBranch git branch ''HEAD'' repo) (\<lambda>r. Inr (r, True)))"

fun add_files :: "'g git_ops \<Rightarrow> (string \<times> string) list \<Rightarrow> 'g \<Rightarrow> 'g result" where
  "add_files git [] repo = Inr repo"
| "add_files git (f # fs) repo = bindR (git_add git f repo) (add_files git fs)"

definition commit_tree :: "'g git_ops \<Rightarrow> GitOpsCreds \<Rightarrow> string \<Rightarrow> string \<Rightarrow> (string \<times> string) list \<Rightarrow> string \<Rightarrow> string result" where
  "commit_tree git creds key branch tree commitMessage =
     bindR (git_clone git creds key) (\<lambda>repo.
     bindR (prepare_branch git branch repo) (\<lambda>(repo, isNewBranch).
     bindR (git_checkout git (''refs/heads/'' @ branch) repo) (\<lambda>repo.
     bindR (if isNewBranch then Inr repo else git_pull git branch repo) (\<lambda>repo.
     bindR (add_files git tree repo) (\<lambda>repo.
       if git_patches git repo = 0 then Inr []
       else bindR (git_commit git commitMessage repo) (\<lambda>(commitHash, repo).
            bindR (git_push git branch repo) (\<lambda>_.
              Inr (getGitProviderCommitUrl (gc_uri creds) commitHash (gc_provider creds)))))))))"

definition createGitCommit :: "'g release_env \<Rightarrow> GitOpsCreds \<Rightarrow> string \<Rightarrow> (string \<times> string) list \<Rightarrow> string \<Rightarrow> string result" where
  "createGitCommit env creds branch tree commitMessage =
     bindR (re_decrypt env (re_key env) (gc_privKey creds)) (\<lambda>key.
       case commit_tree (re_git env) creds key branch tree commitMessage of
         Inl e \<Rightarrow> Inl (ReplicatedError (''Failed to create git commit '' @ re_err_text env e))
       | Inr url \<Rightarrow> Inr url)"

definition strip_slash :: "string \<Rightarrow> string" where
  "strip_slash s = (case s of [] \<Rightarrow> [] | c # cs \<Rightarrow> if c = CHR ''/'' then cs else s)"

definition commit_filename :: "jsval \<Rightarrow> string \<Rightarrow> string result" where
  "commit_filename gitopsPath slug =
     (if \<not> truthy gitopsPath then Inr (slug @ ''.yaml'')
      else case gitopsPath of JStr p \<Rightarrow> Inr (strip_slash (path_join [p, slug @ ''.yaml''])) | _ \<Rightarrow> Inl TypeError)"

definition gitops_of :: "'g release_env \<Rightarrow> string \<Rightarrow> string \<Rightarrow> (rworld, DownstreamGitOps) eff" where
  "gitops_of env appId clusterId =
     queryE (\<lambda>w. Inr (getDownstreamGitOps (re_err_text env) (re_json env) appId clusterId (rw_k8s w)))"

definition render_version :: "'g release_env \<Rightarrow> string \<Rightarrow> string \<Rightarrow> string \<Rightarrow> jsval \<Rightarrow> (rworld, string) eff" where
  "render_version env appId sequence overlayPath kustomizeVersion =
     queryE (\<lambda>w. app_render (re_params env) (re_refusedGet env) (re_kustomize env) (re_tmpDir env) appId sequence overlayPath
       kustomizeVersion (rw_objects w))"

definition createGitCommitForVersion ::
  "'g release_env \<Rightarrow> string \<Rightarrow> string \<Rightarrow> int \<Rightarrow> string \<Rightarrow> (rworld, string) eff" where
  "createGitCommitForVersion env appId clusterId parentSequence commitMessage =
     bindE (askDb (getApp appId)) (\<lambda>app.
     bindE (askDb (getCluster clusterId)) (\<lambda>cluster.
     bindE (queryE (\<lambda>w. getGitOpsCreds (re_err_text env) (re_json env) (ka_id app) (c_id cluster) (rw_k8s w))) (\<lambda>creds.
     bindE (gitops_of env appId clusterId) (\<lambda>gitops.
     bindE (askDb (\<lambda>d. case ka_currentSequence app of
               None \<Rightarrow> Inr JUndef | Some s \<Rightarrow> getKotsAppSpec (re_safeLoad env) appId s d)) (\<lambda>spec.
     bindE (queryE (\<lambda>_. if truthy spec then js_get spec ''kustomizeVersion'' else Inr (JStr []))) (\<lambda>kustomizeVersion.
     bindE (render_version env (ka_id app) (show_int parentSequence) (''overlays/downstreams/'' @ c_title cluster) kustomizeVersion)
       (\<lambda>rendered.
     bindE (queryE (\<lambda>_. commit_filename (case dg_info gitops of None \<Rightarrow> JUndef | Some i \<Rightarrow> gi_path i) (ka_slug app))) (\<lambda>filename.
       queryE (\<lambda>_. createGitCommit env creds
         (js_to_string (case dg_info gitops of None \<Rightarrow> JUndef | Some i \<Rightarrow> gi_branch i)) [(filename, rendered)] commitMessage)))))))))"

definition initial_commit :: "'g release_env \<Rightarrow> KotsApp \<Rightarrow> string \<Rightarrow> string \<Rightarrow> DownstreamGitOps \<Rightarrow> KotsVersion \<Rightarrow> (rworld, unit) eff" where
  "initial_commit env app appId clusterId gitops v =
     (if (case dg_info gitops of None \<Rightarrow> False | Some i \<Rightarrow> gi_format i = JStr ''single'')
      then (case kv_parentSequence v of
              None \<Rightarrow> throwE (ExternalError ''NoSuchKey'')
            | Some p \<Rightarrow> thenE (createGitCommitForVersion env appId clusterId p (''Initial commit of '' @ ka_name app)) (retE ()))
      else throwE (JsError ''unsupported gitops format''))"

definition pending_commit :: "'g release_env \<Rightarrow> KotsApp \<Rightarrow> string \<Rightarrow> string \<Rightarrow> KotsVersion \<Rightarrow> (rworld, unit) eff" where
  "pending_commit env app appId clusterId v =
     (case kv_parentSequence v of
        None \<Rightarrow> throwE (ExternalError ''NoSuchKey'')
      | Some p \<Rightarrow> thenE (createGitCommitForVersion env appId clusterId p
            (''Updating '' @ ka_name app @ '' to version '' @ show_int (kv_sequence v))) (retE ()))"

definition sendInitialGitCommitsForAppDownstream :: "'g release_env \<Rightarrow> string \<Rightarrow> string \<Rightarrow> (rworld, unit) eff" where
  "sendInitialGitCommitsForAppDownstream env appId clusterId =
     bindE (askDb (getApp appId)) (\<lambda>app.
     bindE (gitops_of env appId clusterId) (\<lambda>gitops.
     bindE (askDb (getCurrentVersion appId clusterId)) (\<lambda>currentVersion.
     thenE (case currentVersion of None \<Rightarrow> retE () | Some v \<Rightarrow> initial_commit env app appId clusterId gitops v)
     (bindE (askDb (listPendingVersions appId clusterId)) (\<lambda>pendingVersions.
     thenE (forE (pending_commit env app appId clusterId) pendingVersions) (retE ()))))))"

section \<open>The difference between two versions\<close>

record diff_count =
  df_filesChanged :: int
  df_linesAdded :: int
  df_linesRemoved :: int

definition line_count :: "string \<Rightarrow> int" where
  "line_count s = int (length (js_split (CHR 0x0A) s))"

fun count_parts :: "(bool \<times> bool \<times> int) list \<Rightarrow> diff_count \<Rightarrow> diff_count" where
  "count_parts [] c = c"
| "count_parts ((added, removed, count) # parts) c =
     count_parts parts (c\<lparr>df_linesAdded := df_linesAdded c + (if added then count else 0),
       df_linesRemoved := df_linesRemoved c + (if removed then count else 0)\<rparr>)"

definition count_old :: "(string \<Rightarrow> string \<Rightarrow> (bool \<times> bool \<times> int) list) \<Rightarrow> FilesAsBuffers \<Rightarrow> diff_count \<Rightarrow> string \<times> string \<Rightarrow> diff_count" where
  "count_old diffLines newFiles c f =
     (case map_of (fb_files newFiles) (fst f) of
        None \<Rightarrow> c\<lparr>df_filesChanged := df_filesChanged c + 1, df_linesRemoved := df_linesRemoved c + line_count (snd f)\<rparr>
      | Some content \<Rightarrow>
          (let diffs = diffLines (snd f) content;
               c' = count_parts diffs c
           in if list_ex (\<lambda>(added, removed, _). added \<or> removed) diffs
              then c'\<lparr>df_filesChanged := df_filesChanged c' + 1\<rparr> else c'))"

definition count_new :: "FilesAsBuffers \<Rightarrow> diff_count \<Rightarrow> string \<times> string \<Rightarrow> diff_count" where
  "count_new oldFiles c f =
     (case map_of (fb_files oldFiles) (fst f) of
        None \<Rightarrow> c\<lparr>df_filesChanged := df_filesChanged c + 1, df_linesAdded := df_linesAdded c + line_count (snd f)\<rparr>
      | Some _ \<Rightarrow> c)"

definition diff_counts ::
  "(string \<Rightarrow> string \<Rightarrow> (bool \<times> bool \<times> int) list) \<Rightarrow> FilesAsBuffers \<Rightarrow> FilesAsBuffers \<Rightarrow> diff_count" where
  "diff_counts diffLines oldFiles newFiles =
     foldl (count_new oldFiles)
       (foldl (count_old diffLines newFiles) \<lparr>df_filesChanged = 0, df_linesAdded = 0, df_linesRemoved = 0\<rparr> (fb_files oldFiles))
       (fb_files newFiles)"

definition all_files :: "'g release_env \<Rightarrow> string \<Rightarrow> string \<Rightarrow> archives \<Rightarrow> FilesAsBuffers result" where
  "all_files env appId sequence objs =
     bindR (getFilesPaths (re_params env) (re_refusedGet env) (re_json env) appId sequence objs) (\<lambda>paths.
       app_getFiles (re_params env) (re_refusedGet env) appId sequence paths objs)"

definition getDiffSummary :: "'g release_env \<Rightarrow> KotsApp \<Rightarrow> archives \<Rightarrow> string result" where
  "getDiffSummary env app objs =
     (case ka_currentSequence app of
        None \<Rightarrow> Inr []
      | Some n \<Rightarrow>
          bindR (all_files env (ka_id app) (show_int n) objs) (\<lambda>oldFiles.
          bindR (all_files env (ka_id app) (show_int (n + 1)) objs) (\<lambda>newFiles.
            let c = diff_counts (re_diffLines env) oldFiles newFiles in
            Inr (json_stringify (JObj [(''filesChanged'', JNum (df_filesChanged c)), (''linesAdded'', JNum (df_linesAdded c)),
                                       (''linesRemoved'', JNum (df_linesRemoved c))])))))"

section \<open>Storing a version\<close>

text \<open>The specs read from an archive; the functions differ in the order they read them, which no result depends on.\<close>

definition read_specs :: "(string \<Rightarrow> jsval result) \<Rightarrow> tarball \<Rightarrow> (InstallationSpec \<times> midstream_args) result" where
  "read_specs safeLoad buffer =
     bindR (extractInstallationSpecFromTarball safeLoad buffer) (\<lambda>installationSpec.
     bindR (extractSupportBundleSpecFromTarball safeLoad buffer) (\<lambda>supportBundleSpec.
     bindR (extractAnalyzerSpecFromTarball safeLoad buffer) (\<lambda>analyzersSpec.
     bindR (extractPreflightSpecFromTarball safeLoad buffer) (\<lambda>preflightSpec.
     bindR (extractAppSpecFromTarball safeLoad buffer) (\<lambda>appSpec.
     bindR (extractKotsAppSpecFromTarball safeLoad buffer) (\<lambda>kotsAppSpec.
     bindR (extractAppTitleFromTarball safeLoad buffer) (\<lambda>appTitle.
     bindR (extractAppIconFromTarball safeLoad buffer) (\<lambda>appIcon.
     bindR (extractKotsAppLicenseFromTarball safeLoad buffer) (\<lambda>kotsAppLicense.
     bindR (extractConfigSpecFromTarball safeLoad buffer) (\<lambda>configSpec.
     bindR (extractConfigValuesFromTarball safeLoad buffer) (\<lambda>configValues.
     bindR (extractBackupSpecFromTarball safeLoad buffer) (\<lambda>backupSpec.
       Inr (installationSpec,
         \<lparr>ms_versionLabel = shown_text (is_versionLabel installationSpec),
          ms_releaseNotes = pg_text (is_releaseNotes installationSpec), ms_updateCursor = pg_text (is_cursor installationSpec),
          ms_channelName = pg_text (is_channelName installationSpec), ms_encryptionKey = pg_text (is_encryptionKey installationSpec),
          ms_supportBundleSpec = supportBundleSpec, ms_analyzersSpec = analyzersSpec, ms_preflightSpec = preflightSpec,
          ms_appSpec = appSpec, ms_kotsAppSpec = kotsAppSpec, ms_kotsAppLicense = kotsAppLicense, ms_configSpec = configSpec,
          ms_configValues = configValues,
          ms_appTitle = (case appTitle of None \<Rightarrow> None | Some t \<Rightarrow> if truthy t then pg_text t else None),
          ms_appIcon = Option.bind appIcon pg_text, ms_backupSpec = backupSpec\<rparr>)))))))))))))"

definition store_archive :: "'g release_env \<Rightarrow> string \<Rightarrow> string \<Rightarrow> tar_entry list \<Rightarrow> (rworld, unit) eff" where
  "store_archive env appId sequence entries w =
     (case putObject (re_refusedPut env) (objectStorePath (re_params env) appId sequence) entries (rw_objects w) of
        (r, objs) \<Rightarrow> (r, w\<lparr>rw_objects := objs\<rparr>))"

text \<open>One downstream of a new version: committed when its GitOps is on, then entered as pending.\<close>

definition downstream_commit :: "'g release_env \<Rightarrow> string \<Rightarrow> int \<Rightarrow> string \<Rightarrow> string \<Rightarrow> (rworld, string) eff" where
  "downstream_commit env appId newSequence commitMessage clusterId =
     bindE (gitops_of env appId clusterId) (\<lambda>downstreamGitops.
       if dg_enabled downstreamGitops then createGitCommitForVersion env appId clusterId newSequence commitMessage
       else retE [])"

definition update_downstream ::
  "'g release_env \<Rightarrow> KotsApp \<Rightarrow> int \<Rightarrow> midstream_args \<Rightarrow> string \<Rightarrow> string \<Rightarrow> string \<Rightarrow> (rworld, unit) eff" where
  "update_downstream env app newSequence specs source commitMessage clusterId =
     bindE (downstream_commit env (ka_id app) newSequence commitMessage clusterId) (\<lambda>commitUrl.
     bindE (queryE (\<lambda>w. getDiffSummary env app (rw_objects w))) (\<lambda>diffSummary.
       inDb (createDownstreamVersion (ka_id app) clusterId (re_now env)
         \<lparr>ds_parentSequence = newSequence, ds_versionLabel = ms_versionLabel specs,
          ds_status = (if truthy_str (ms_preflightSpec specs) then ''pending_preflight'' else ''pending''),
          ds_source = source, ds_diffSummary = diffSummary, ds_commitUrl = commitUrl, ds_gitDeployable = (commitUrl \<noteq> [])\<rparr>)))"

definition release_version ::
  "'g release_env \<Rightarrow> KotsApp \<Rightarrow> int \<Rightarrow> tar_entry list \<Rightarrow> string \<Rightarrow> string \<Rightarrow> (rworld, unit) eff" where
  "release_version env app newSequence entries source commitMessage =
     thenE (store_archive env (ka_id app) (show_int newSequence) entries)
     (bindE (queryE (\<lambda>_. read_specs (re_safeLoad env) (Inr entries))) (\<lambda>(installationSpec, specs).
     (thenE (inDb (createMidstreamVersion (ka_id app) newSequence (re_now env) specs))
     (bindE (askDb (\<lambda>d. Inr (listClusterIDsForApp (ka_id app) d))) (\<lambda>clusterIds.
     (thenE (forE (update_downstream env app newSequence specs source commitMessage) clusterIds) (retE ())))))))"

text \<open>With no version yet the next sequence is \<open>NaN\<close>: the archive is stored, and the row is refused.\<close>

definition no_sequence :: "'g release_env \<Rightarrow> string \<Rightarrow> tar_entry list \<Rightarrow> (rworld, unit) eff" where
  "no_sequence env appId entries =
     thenE (store_archive env appId ''NaN'' entries)
     (thenE (queryE (\<lambda>_. read_specs (re_safeLoad env) (Inr entries)))
       (throwE (ExternalError ''invalid input syntax for integer: NaN'')))"

definition saveUpdateVersion :: "'g release_env \<Rightarrow> tar_entry list \<Rightarrow> KotsApp \<Rightarrow> string \<Rightarrow> (rworld, unit) eff" where
  "saveUpdateVersion env archive app updateSource =
     bindE (askDb (\<lambda>d. Inr (getMaxSequence (ka_id app) d))) (\<lambda>m.
       case m of
         None \<Rightarrow> no_sequence env (ka_id app) archive
       | Some n \<Rightarrow> release_version env app (n + 1) archive updateSource (''Updates to the upstream of '' @ ka_name app))"

definition uploadUpdate :: "'g release_env \<Rightarrow> string \<Rightarrow> tar_entry list \<Rightarrow> string \<Rightarrow> (rworld, string) eff" where
  "uploadUpdate env slug buffer source =
     bindE (askDb (getIdFromSlug slug)) (\<lambda>appId.
     bindE (askDb (getApp appId)) (\<lambda>kotsApp.
     thenE (case ka_currentSequence kotsApp of
              None \<Rightarrow> no_sequence env (ka_id kotsApp) buffer
            | Some n \<Rightarrow> release_version env kotsApp (n + 1) buffer source (source @ '' for '' @ ka_name kotsApp))
       (retE (re_shipApiEndpoint env @ ''/app/'' @ ka_slug kotsApp))))"

section \<open>Installing an application\<close>

definition install_downstream ::
  "'g release_env \<Rightarrow> string \<Rightarrow> string \<Rightarrow> string \<Rightarrow> string \<Rightarrow> Cluster list \<Rightarrow> string \<Rightarrow> (rworld, unit) eff" where
  "install_downstream env appId versionLabel state source clusters downstream =
     (case find (\<lambda>c. c_title c = downstream) clusters of
        None \<Rightarrow> retE ()
      | Some cluster \<Rightarrow>
          thenE (inDb (execE (createDownstream appId downstream (c_id cluster))))
            (inDb (createDownstreamVersion appId (c_id cluster) (re_now env)
              \<lparr>ds_parentSequence = 0, ds_versionLabel = versionLabel, ds_status = state, ds_source = source,
               ds_diffSummary = [], ds_commitUrl = [], ds_gitDeployable = False\<rparr>)))"

definition install_downstreams ::
  "'g release_env \<Rightarrow> string \<Rightarrow> tar_entry list \<Rightarrow> string \<Rightarrow> string \<Rightarrow> string \<Rightarrow> (rworld, unit) eff" where
  "install_downstreams env appId entries versionLabel state source =
     bindE (queryE (\<lambda>_. extractDownstreamNamesFromTarball (Inr entries))) (\<lambda>downstreams.
     bindE (askDb listAllUsersClusters) (\<lambda>clusters.
       thenE (forE (install_downstream env appId versionLabel state source clusters) downstreams) (retE ())))"

record install_flags =
  if_hasPreflight :: bool
  if_isConfigurable :: bool

definition kotsAppFromData :: "'g release_env \<Rightarrow> tar_entry list \<Rightarrow> KotsApp \<Rightarrow> (rworld, install_flags) eff" where
  "kotsAppFromData env out kotsApp =
     thenE (store_archive env (ka_id kotsApp) ''0'' out)
     (bindE (queryE (\<lambda>_. read_specs (re_safeLoad env) (Inr out))) (\<lambda>(installationSpec, specs).
       let isConfigurable = truthy_str (ms_configSpec specs); hasPreflight = truthy_str (ms_preflightSpec specs) in
       thenE (if truthy_str (ms_kotsAppLicense specs)
              then inDb (execE (updateKotsAppLicense (ka_id kotsApp) (str_or_empty (ms_kotsAppLicense specs)))) else retE ())
       (thenE (inDb (createMidstreamVersion (ka_id kotsApp) 0 (re_now env) specs))
       (thenE (install_downstreams env (ka_id kotsApp) out (ms_versionLabel specs)
           (if isConfigurable then ''pending_config'' else if hasPreflight then ''pending_preflight'' else ''deployed'') ''Kots Install'')
         (retE \<lparr>if_hasPreflight = hasPreflight, if_isConfigurable = isConfigurable\<rparr>)))))"

definition kotsAppFromAirgapData :: "'g release_env \<Rightarrow> tar_entry list \<Rightarrow> KotsApp \<Rightarrow> (rworld, install_flags) eff" where
  "kotsAppFromAirgapData env out app =
     thenE (store_archive env (ka_id app) ''0'' out)
     (bindE (queryE (\<lambda>_. read_specs (re_safeLoad env) (Inr out))) (\<lambda>(installationSpec, specs).
       thenE (inDb (createMidstreamVersion (ka_id app) 0 (re_now env) specs))
       (thenE (install_downstreams env (ka_id app) out (ms_versionLabel specs) ''deployed'' ''Airgap Upload'')
       (thenE (inDb (execE (setKotsAirgapAppInstalled (ka_id app))))
         (retE \<lparr>if_hasPreflight = truthy_str (ms_preflightSpec specs), if_isConfigurable = truthy_str (ms_configSpec specs)\<rparr>)))))"

section \<open>Downloading updates\<close>

text \<open>What the native library does with an archive: the lines it writes, and the archive it leaves.\<close>

record download_run = ffi_run +
  fr_archive :: "tar_entry list"

record Update =
  up_cursor :: string
  up_versionLabel :: string

definition download_handler :: "time \<Rightarrow> (rworld, jsval) handler" where
  "download_handler now obj =
     bindE (queryE (\<lambda>_. js_get obj ''status'')) (\<lambda>status.
     bindE (queryE (\<lambda>_. js_get obj ''display_message'')) (\<lambda>message.
     bindE (queryE (\<lambda>_. js_get obj ''exit_code'')) (\<lambda>exit_code.
       if status = JStr ''running''
       then thenE (inDb (execE (setUpdateDownloadStatus (shown_text message) ''running'' now))) (retE None)
       else if status = JStr ''terminated''
       then retE (Some (if exit_code \<noteq> JNum (-1) then Inr exit_code else Inl (JsError (js_to_string message))))
       else retE None)))"

definition above_zero :: "jsval \<Rightarrow> bool" where
  "above_zero v = (case v of JNum n \<Rightarrow> n > 0 | _ \<Rightarrow> False)"

definition below_zero :: "jsval \<Rightarrow> bool" where
  "below_zero v = (case v of JNum n \<Rightarrow> n < 0 | _ \<Rightarrow> False)"

definition current_archive :: "'g release_env \<Rightarrow> KotsApp \<Rightarrow> (rworld, tar_entry list) eff" where
  "current_archive env app =
     queryE (\<lambda>w. getArchive (re_params env) (re_refusedGet env) (ka_id app)
       (case ka_currentSequence app of None \<Rightarrow> ''undefined'' | Some n \<Rightarrow> show_int n) (rw_objects w))"

definition kotsAppDownloadUpdate ::
  "'g release_env \<Rightarrow> (tar_entry list \<Rightarrow> string \<Rightarrow> download_run) \<Rightarrow> string \<Rightarrow> KotsApp \<Rightarrow> (rworld, bool) eff" where
  "kotsAppDownloadUpdate env updateDownload cursor app =
     bindE (current_archive env app) (\<lambda>archive.
       let run = updateDownload archive cursor in
       bindE (run_ffi (ffi_run.truncate run) (download_handler (re_now env))) (\<lambda>isUpdateAvailable.
         if below_zero isUpdateAvailable then retE False
         else thenE (if above_zero isUpdateAvailable then saveUpdateVersion env (fr_archive run) app ''Upstream Update'' else retE ())
                (retE (above_zero isUpdateAvailable))))"

text \<open>\<^verbatim>\<open>catch\<close> sees what the awaited promise rejects with, not a promise that never settles, and not what is thrown
  in the callback of a stream.\<close>

definition try_await :: "('s, 'a) eff \<Rightarrow> (error \<Rightarrow> ('s, 'a) eff) \<Rightarrow> ('s, 'a) eff" where
  "try_await m h = catchE m (\<lambda>e. if e = Unsettled \<or> e = Uncaught then throwE e else h e)"

fun download_updates ::
  "'g release_env \<Rightarrow> (tar_entry list \<Rightarrow> string \<Rightarrow> download_run) \<Rightarrow> KotsApp \<Rightarrow> Update list \<Rightarrow> (rworld, unit) eff" where
  "download_updates env updateDownload app [] = retE ()"
| "download_updates env updateDownload app (update # updates) =
     thenE (try_await
         (thenE (inDb (execE (setUpdateDownloadStatus (''Downloading release '' @ up_versionLabel update) ''running'' (re_now env))))
           (thenE (kotsAppDownloadUpdate env updateDownload (up_cursor update) app) (retE ())))
         (\<lambda>err. if updates = [] then throwE err else retE ()))
       (download_updates env updateDownload app updates)"

definition kotsAppDownloadUpdates ::
  "'g release_env \<Rightarrow> (tar_entry list \<Rightarrow> string \<Rightarrow> download_run) \<Rightarrow> Update list \<Rightarrow> KotsApp \<Rightarrow> (rworld, unit) eff" where
  "kotsAppDownloadUpdates env updateDownload updatesAvailable app =
     thenE (inDb (getAppRegistryDetails (re_encrypt env) (re_decrypt env) (re_key env) (ka_id app) False))
       (download_updates env updateDownload app updatesAvailable)"

definition kotsAppDownloadUpdateFromAirgap ::
  "'g release_env \<Rightarrow> (tar_entry list \<Rightarrow> string \<Rightarrow> download_run) \<Rightarrow> string \<Rightarrow> KotsApp \<Rightarrow> (rworld, unit) eff" where
  "kotsAppDownloadUpdateFromAirgap env updateDownload airgapFile app =
     bindE (current_archive env app) (\<lambda>archive.
       let run = updateDownload archive airgapFile in
       bindE (run_ffi (ffi_run.truncate run) (download_handler (re_now env))) (\<lambda>isUpdateAvailable.
         if truthy isUpdateAvailable then saveUpdateVersion env (fr_archive run) app ''Airgap Upload'' else retE ()))"

section \<open>Other calls of the native library\<close>

definition render_handler :: "(rworld, unit) handler" where
  "render_handler obj =
     bindE (queryE (\<lambda>_. js_get obj ''status'')) (\<lambda>status.
     bindE (queryE (\<lambda>_. js_get obj ''display_message'')) (\<lambda>message.
     bindE (queryE (\<lambda>_. js_get obj ''exit_code'')) (\<lambda>exit_code.
       retE (if status = JStr ''terminated''
             then Some (if exit_code \<noteq> JNum (-1) then Inr () else Inl (JsError (js_to_string message))) else None))))"

definition kotsRenderFile ::
  "'g release_env \<Rightarrow> (tar_entry list \<Rightarrow> string \<Rightarrow> ffi_run \<times> string) \<Rightarrow> KotsApp \<Rightarrow> string \<Rightarrow> (rworld, string) eff" where
  "kotsRenderFile env renderFile app input =
     bindE (current_archive env app) (\<lambda>archive.
       let (run, rendered) = renderFile archive input in thenE (run_ffi run render_handler) (retE rendered))"

text \<open>The answer of a test is the message of a run that did not end with 0; \<open>None\<close> stands for no message.\<close>

definition exit_handler :: "(rworld, string) handler" where
  "exit_handler obj =
     bindE (queryE (\<lambda>_. js_get obj ''status'')) (\<lambda>status.
     bindE (queryE (\<lambda>_. js_get obj ''display_message'')) (\<lambda>message.
     bindE (queryE (\<lambda>_. js_get obj ''exit_code'')) (\<lambda>exit_code.
       retE (if status = JStr ''terminated''
             then Some (Inr (if exit_code \<noteq> JNum 0 then shown_text message else [])) else None))))"

definition kotsTestRegistryCredentials :: "ffi_run \<Rightarrow> (rworld, string) eff" where
  "kotsTestRegistryCredentials run = run_ffi run exit_handler"

definition rewrite_handler :: "time \<Rightarrow> (rworld, string) handler" where
  "rewrite_handler now obj =
     bindE (queryE (\<lambda>_. js_get obj ''status'')) (\<lambda>status.
     bindE (queryE (\<lambda>_. js_get obj ''display_message'')) (\<lambda>message.
       if status = JStr ''running''
       then thenE (inDb (execE (setImageRewriteStatus (shown_text message) ''running'' now))) (retE None)
       else exit_handler obj))"

definition kotsRewriteVersion :: "'g release_env \<Rightarrow> ffi_run \<Rightarrow> (rworld, string) eff" where
  "kotsRewriteVersion env run =
     bindE (run_ffi run (rewrite_handler (re_now env))) (\<lambda>errorMessage.
       if errorMessage \<noteq> []
       then thenE (inDb (execE (setImageRewriteStatus errorMessage ''failed'' (re_now env)))) (throwE (ReplicatedError errorMessage))
       else retE [])"

definition kotsEncryptString :: "(string \<Rightarrow> string \<Rightarrow> string option) \<Rightarrow> cipher" where
  "kotsEncryptString encryptString cipherString msg =
     (case encryptString cipherString msg of
        None \<Rightarrow> Inl (ReplicatedError ''Failed to encrypt string via FFI call'') | Some s \<Rightarrow> Inr s)"

definition kotsDecryptString :: "(string \<Rightarrow> string \<Rightarrow> string option) \<Rightarrow> cipher" where
  "kotsDecryptString decryptString cipherString msg =
     (case decryptString cipherString msg of
        None \<Rightarrow> Inl (ReplicatedError ''Failed to encrypt string via FFI call'') | Some s \<Rightarrow> Inr s)"

section \<open>The endpoints\<close>

datatype 'a answer = Status int | Answer 'a

definition signed_in :: "Session \<Rightarrow> bool" where
  "signed_in s \<longleftrightarrow> truthy_str (s_userId s)"

definition ports_of :: "(string \<Rightarrow> jsval result) \<Rightarrow> string \<Rightarrow> jsval \<Rightarrow> jsval list result" where
  "ports_of safeLoad appSpec parsedKotsAppSpec =
     bindR (safeLoad appSpec) (\<lambda>doc.
       if \<not> truthy parsedKotsAppSpec then Inr []
       else bindR (js_gets doc [''spec'', ''descriptor'', ''links'']) (\<lambda>links. bindR (js_iter links) (\<lambda>ls.
            bindR (mapR (\<lambda>link. bindR (js_get parsedKotsAppSpec ''ports'') (\<lambda>ports.
                if \<not> truthy ports \<or> lodash_elems ports = [] then Inr []
                else bindR (js_get link ''url'') (\<lambda>url. bindR (find_port url (lodash_elems ports)) (\<lambda>mapped.
                     Inr (case mapped of None \<Rightarrow> [] | Some p \<Rightarrow> [p]))))) ls) (\<lambda>pss. Inr (concat pss)))))"

definition kotsPorts :: "(string \<Rightarrow> jsval result) \<Rightarrow> Session \<Rightarrow> db \<Rightarrow> jsval list answer result" where
  "kotsPorts safeLoad session d =
     (if \<not> signed_in session then Inr (Status 401)
      else bindR (listInstalledKotsApps None d) (\<lambda>apps.
        case apps of
          [] \<Rightarrow> Inr (Answer [])
        | app # _ \<Rightarrow>
            (case Option.bind (ka_currentSequence app) (\<lambda>n. getAppSpec (ka_id app) n d) of
               None \<Rightarrow> Inr (Answer [])
             | Some appSpec \<Rightarrow>
                 if appSpec = [] then Inr (Answer [])
                 else bindR (getKotsAppSpec safeLoad (ka_id app) (the (ka_currentSequence app)) d) (\<lambda>spec.
                   Inr (Answer (case ports_of safeLoad appSpec spec of Inl _ \<Rightarrow> [] | Inr ports \<Rightarrow> ports))))))"

definition kotsDownload :: "'g release_env \<Rightarrow> Session \<Rightarrow> string \<Rightarrow> (rworld, tar_entry list answer) eff" where
  "kotsDownload env session slug =
     (if \<not> signed_in session then retE (Status 401)
      else bindE (askDb (listInstalledKotsApps None)) (\<lambda>apps.
        case find (\<lambda>a. ka_slug a = slug) apps of
          None \<Rightarrow> retE (Status 404)
        | Some app \<Rightarrow> bindE (current_archive env app) (\<lambda>a. retE (Answer a))))"

record app_metadata =
  md_name :: string
  md_upstreamURI :: string
  md_license :: string
  md_slug :: string
  md_registryEndpoint :: string
  md_registryUsername :: string
  md_registryPassword :: string
  md_registryNamespace :: string

definition install_uploaded ::
  "'g release_env \<Rightarrow> (string \<Rightarrow> string) \<Rightarrow> string \<Rightarrow> app_metadata \<Rightarrow> tar_entry list \<Rightarrow> (rworld, string) eff" where
  "install_uploaded env slugify newId metadata buffer =
     bindE (inDb (createKotsApp slugify newId (re_now env) (md_name metadata) (md_upstreamURI metadata) (md_license metadata) False None))
       (\<lambda>kotsApp.
     thenE (inDb (updateRegistryDetails (re_encrypt env) (re_key env) (ka_id kotsApp) (md_registryEndpoint metadata)
         (md_registryUsername metadata) (md_registryPassword metadata) (md_registryNamespace metadata) (re_now env)))
     (thenE (store_archive env (ka_id kotsApp) ''0'' buffer)
     (bindE (queryE (\<lambda>_. read_specs (re_safeLoad env) (Inr buffer))) (\<lambda>(installationSpec, specs).
     (thenE (inDb (createMidstreamVersion (ka_id kotsApp) 0 (re_now env) specs))
     (thenE (install_downstreams env (ka_id kotsApp) buffer (ms_versionLabel specs) ''deployed'' ''Kots Install'')
       (retE (re_shipApiEndpoint env @ ''/app/'' @ ka_slug kotsApp))))))))"

text \<open>The first application may be installed by anyone.\<close>

definition kotsUploadCreate ::
  "'g release_env \<Rightarrow> (string \<Rightarrow> string) \<Rightarrow> string \<Rightarrow> string option \<Rightarrow> (db \<Rightarrow> Session) \<Rightarrow> app_metadata \<Rightarrow> tar_entry list \<Rightarrow>
   (rworld, string answer) eff" where
  "kotsUploadCreate env slugify newId auth decode_session metadata buffer =
     bindE (askDb (listInstalledKotsApps None)) (\<lambda>apps.
     bindE (askDb (\<lambda>d. Inr (signed_in (decode_session d)))) (\<lambda>ok.
       if apps \<noteq> [] \<and> (\<not> truthy_str auth \<or> \<not> ok) then retE (Status 401)
       else bindE (install_uploaded env slugify newId metadata buffer) (\<lambda>uri. retE (Answer uri))))"

definition kotsUploadUpdate ::
  "'g release_env \<Rightarrow> Session \<Rightarrow> app_metadata \<Rightarrow> tar_entry list \<Rightarrow> (rworld, string answer) eff" where
  "kotsUploadUpdate env session metadata buffer =
     (if \<not> signed_in session then retE (Status 401)
      else bindE (uploadUpdate env (md_slug metadata) buffer ''Kots Upload'') (\<lambda>uri. retE (Answer uri)))"

definition kotsResetAirgapUpload :: "Session \<Rightarrow> string \<Rightarrow> (db, unit answer) eff" where
  "kotsResetAirgapUpload session slug =
     (if \<not> signed_in session then retE (Status 401)
      else bindE (queryE (getIdFromSlug slug)) (\<lambda>appId.
        thenE (execE (resetAirgapInstallInProgress appId)) (retE (Status 200))))"

text \<open>The status that is sent, and the error in the body.\<close>

definition kotsValidateRegistryAuth :: "Session \<Rightarrow> ffi_run \<Rightarrow> (rworld, int \<times> string option) eff" where
  "kotsValidateRegistryAuth session run =
     (if \<not> signed_in session then retE (401, None)
      else bindE (kotsTestRegistryCredentials run) (\<lambda>testError.
        retE (if testError = [] then 200 else 401, Some testError)))"

section \<open>Lemmas: numbering\<close>

definition all_numbered_db :: "db \<Rightarrow> bool" where
  "all_numbered_db d \<longleftrightarrow> (\<forall>a c. numbered a c d)"

definition numbered_world :: "rworld \<Rightarrow> bool" where
  "numbered_world w \<longleftrightarrow> all_numbered_db (rw_db w)"

lemma preserves_cases:
  "preserves I m \<Longrightarrow> preserves I k \<Longrightarrow> preserves I (if b then m else k)"
  "preserves I n \<Longrightarrow> (\<And>x. preserves I (f x)) \<Longrightarrow> preserves I (case opt of None \<Rightarrow> n | Some x \<Rightarrow> f x)"
  "(\<And>x y. preserves I (g x y)) \<Longrightarrow> preserves I (case p of (x, y) \<Rightarrow> g x y)"
  by (auto split: option.splits prod.splits)

lemma preserves_inDb: "preserves all_numbered_db m \<Longrightarrow> preserves numbered_world (inDb m)"
  unfolding preserves_def inDb_def numbered_world_def by (auto split: prod.splits)

lemma preserves_askDb: "preserves I (askDb q)"
  unfolding askDb_def by (rule preserve)

lemma numbered_taskE: "preserves all_numbered_db (execE (setApiTaskStatus i msg st now))"
  by (rule preserve) (simp add: all_numbered_db_def setApiTaskStatus_def)

lemma numbered_newDownstream: "preserves all_numbered_db (createDownstreamVersion i c now a)"
  by (simp add: preserves_def all_numbered_db_def numbered_createDownstreamVersion)

lemma numbered_newVersion: "preserves all_numbered_db (createMidstreamVersion i s now m)"
  unfolding createMidstreamVersion_def
  by (intro preserve) (auto simp: all_numbered_db_def preserves_def split: list.splits)

lemma numbered_updateApp: "preserves all_numbered_db (execE (update_app i f))"
  by (rule preserve) (simp add: all_numbered_db_def update_app_def)

lemma numbered_registry: "preserves all_numbered_db (getAppRegistryDetails enc dec key i b)"
  unfolding getAppRegistryDetails_def migrationEncryptRegistryCredentials_def
  by (intro preserve preserves_cases numbered_updateApp)

lemma numbered_updateRegistry: "preserves all_numbered_db (updateRegistryDetails enc key i h u p n now)"
  unfolding updateRegistryDetails_def by (intro preserve preserves_cases numbered_updateApp)

lemma numbered_install: "preserves all_numbered_db (execE (createDownstream i name c))"
  by (rule preserve) (simp add: all_numbered_db_def createDownstream_def)

text \<open>Reading leaves everything as it is.\<close>

lemma preserves_reading:
  "preserves I (gitops_of env i c)" "preserves I (render_version env i s path v)" "preserves I (current_archive env app)"
  by (simp_all add: gitops_of_def render_version_def current_archive_def preserve)

lemma preserves_createGitCommit: "preserves I (createGitCommitForVersion env i c p m)"
  unfolding createGitCommitForVersion_def by (intro preserve preserves_askDb preserves_reading)

lemma preserves_downstream_commit: "preserves I (downstream_commit env i n m c)"
  unfolding downstream_commit_def by (intro preserve preserves_cases preserves_reading preserves_createGitCommit)

lemma preserves_store_archive: "preserves numbered_world (store_archive env i s entries)"
  by (auto simp: preserves_def store_archive_def numbered_world_def split: prod.splits)

lemma preserves_release_version: "preserves numbered_world (release_version env app n entries source m)"
  unfolding release_version_def update_downstream_def
  by (intro preserve preserves_cases preserves_askDb preserves_inDb preserves_store_archive preserves_downstream_commit
      numbered_newDownstream numbered_newVersion)

lemma preserves_no_sequence: "preserves numbered_world (no_sequence env i entries)"
  unfolding no_sequence_def by (intro preserve preserves_store_archive)

lemma preserves_saveUpdateVersion: "preserves numbered_world (saveUpdateVersion env entries app source)"
  unfolding saveUpdateVersion_def
  by (intro preserve preserves_cases preserves_askDb preserves_no_sequence preserves_release_version)

lemma preserves_uploadUpdate: "preserves numbered_world (uploadUpdate env slug buffer source)"
  unfolding uploadUpdate_def
  by (intro preserve preserves_cases preserves_askDb preserves_no_sequence preserves_release_version)

lemma preserves_install_downstreams: "preserves numbered_world (install_downstreams env i entries label st source)"
  unfolding install_downstreams_def install_downstream_def
  by (intro preserve preserves_cases preserves_askDb preserves_inDb numbered_install numbered_newDownstream)

lemma preserves_kotsAppFromData: "preserves numbered_world (kotsAppFromData env out app)"
  unfolding kotsAppFromData_def Let_def updateKotsAppLicense_def
  by (intro preserve preserves_cases preserves_inDb preserves_store_archive preserves_install_downstreams numbered_updateApp
      numbered_newVersion)

lemma preserves_kotsAppFromAirgapData: "preserves numbered_world (kotsAppFromAirgapData env out app)"
  unfolding kotsAppFromAirgapData_def setKotsAirgapAppInstalled_def
  by (intro preserve preserves_cases preserves_inDb preserves_store_archive preserves_install_downstreams numbered_updateApp
      numbered_newVersion)

lemma preserves_termination:
  assumes h: "\<And>obj. preserves I (h obj)"
  shows "preserves I (termination_of h lines)"
proof (induction lines)
  case Nil
  then show ?case by (simp only: termination_of.simps preserve)
next
  case (Cons line lines)
  have "I (snd (termination_of h (line # lines) s))" if s: "I s" for s
  proof (cases line)
    case (Inl e)
    with s show ?thesis by simp
  next
    case (Inr obj)
    obtain x s1 where run: "h obj s = (x, s1)" by fastforce
    with preservesD [OF h s] have "I s1" by blast
    with Inr run Cons show ?thesis by (auto simp: preserves_def split: sum.splits option.splits)
  qed
  then show ?case by (simp only: preserves_def) blast
qed

lemma preserves_run_ffi: "(\<And>obj. preserves I (h obj)) \<Longrightarrow> preserves I (run_ffi run h)"
  unfolding run_ffi_def by (intro preserves_cases preserve preserves_termination)

lemma preserves_download_handler: "preserves numbered_world (download_handler now obj)"
  unfolding download_handler_def setUpdateDownloadStatus_def
  by (intro preserve preserves_cases preserves_inDb numbered_taskE)

lemma preserves_download: "preserves numbered_world (kotsAppDownloadUpdate env lib cursor app)"
  unfolding kotsAppDownloadUpdate_def Let_def
  by (intro preserve preserves_cases preserves_reading preserves_run_ffi preserves_download_handler preserves_saveUpdateVersion)

lemma preserves_download_updates: "preserves numbered_world (download_updates env lib app us)"
proof (induction us)
  case (Cons u us)
  then show ?case
    unfolding download_updates.simps try_await_def setUpdateDownloadStatus_def
    by (intro preserve preserves_cases preserves_inDb numbered_taskE preserves_download)
qed (simp only: download_updates.simps preserve)

lemma numbered_createKotsApp: "preserves all_numbered_db (createKotsApp slugify i now name uri license air user)"
  unfolding createKotsApp_def
  by (intro preserve preserves_cases; auto simp: preserves_def insert_app_def insert_user_app_def all_numbered_db_def numbered_def
      downstream_versions_def split: sum.splits)

text \<open>
  C22: Whatever stores a version -- an update from the vendor, one from an airgap bundle, an upload, a first
  install, online or not -- and wherever it fails on the way, the versions of every downstream stay
  numbered from 0 without gaps.
\<close>

theorem releases_keep_numbering:
  "preserves numbered_world (saveUpdateVersion env entries app source) \<and>
   preserves numbered_world (kotsAppDownloadUpdates env lib us app) \<and>
   preserves numbered_world (kotsAppDownloadUpdateFromAirgap env lib file app) \<and>
   preserves numbered_world (uploadUpdate env slug entries source) \<and>
   preserves numbered_world (kotsAppFromData env entries app) \<and>
   preserves numbered_world (kotsAppFromAirgapData env entries app) \<and>
   preserves numbered_world (kotsUploadCreate env slugify i auth session metadata entries)"
proof (intro conjI)
  show "preserves numbered_world (kotsAppDownloadUpdates env lib us app)"
    unfolding kotsAppDownloadUpdates_def by (intro preserve preserves_inDb numbered_registry preserves_download_updates)
  show "preserves numbered_world (kotsAppDownloadUpdateFromAirgap env lib file app)"
    unfolding kotsAppDownloadUpdateFromAirgap_def Let_def
    by (intro preserve preserves_cases preserves_reading preserves_run_ffi preserves_download_handler preserves_saveUpdateVersion)
  show "preserves numbered_world (kotsUploadCreate env slugify i auth session metadata entries)"
    unfolding kotsUploadCreate_def install_uploaded_def
    by (intro preserve preserves_cases preserves_askDb preserves_inDb numbered_createKotsApp numbered_updateRegistry
        preserves_store_archive numbered_newVersion preserves_install_downstreams)
qed (fact preserves_saveUpdateVersion preserves_uploadUpdate preserves_kotsAppFromData preserves_kotsAppFromAirgapData)+

section \<open>Lemmas: what a new version leaves behind\<close>

definition new_rows :: "string \<Rightarrow> int \<Rightarrow> midstream_args \<Rightarrow> app_downstream_version_row list \<Rightarrow> bool" where
  "new_rows appId n specs vs \<longleftrightarrow>
     list_all (\<lambda>v. adv_app_id v = appId \<and> adv_parent_sequence v = Some n \<and> adv_version_label v = ms_versionLabel specs \<and>
       adv_status v = Some (if truthy_str (ms_preflightSpec specs) then ''pending_preflight'' else ''pending'')) vs"

lemma createDownstreamVersion_Inr:
  "createDownstreamVersion i c now a d = (Inr (), d') \<Longrightarrow>
   d' = d\<lparr>t_app_downstream_version := t_app_downstream_version d @ [downstream_row i c (next_sequence i c d) now a]\<rparr>"
  by (auto simp: createDownstreamVersion_def transaction_def sql_insert_def Let_def split: if_splits)

lemma update_downstream_effect:
  assumes "update_downstream env app n specs source m c w = (Inr (), w')"
  shows "\<exists>v. w' = w\<lparr>rw_db := (rw_db w)\<lparr>t_app_downstream_version := t_app_downstream_version (rw_db w) @ [v]\<rparr>\<rparr> \<and>
    adv_cluster_id v = c \<and> new_rows (ka_id app) n specs [v]"
proof -
  obtain r w1 where commit: "downstream_commit env (ka_id app) n m c w = (r, w1)" by fastforce
  with preservesD [OF preserves_downstream_commit [of "\<lambda>x. x = w"]] have "w1 = w" by blast
  with assms commit obtain url summary where
    "inDb (createDownstreamVersion (ka_id app) c (re_now env)
       \<lparr>ds_parentSequence = n, ds_versionLabel = ms_versionLabel specs,
        ds_status = (if truthy_str (ms_preflightSpec specs) then ''pending_preflight'' else ''pending''),
        ds_source = source, ds_diffSummary = summary, ds_commitUrl = url, ds_gitDeployable = (url \<noteq> [])\<rparr>) w = (Inr (), w')"
    by (auto simp: update_downstream_def bindE_def queryE_def split: sum.splits)
  then obtain d' a where "createDownstreamVersion (ka_id app) c (re_now env) a (rw_db w) = (Inr (), d')" "w' = w\<lparr>rw_db := d'\<rparr>"
    "ds_parentSequence a = n" "ds_versionLabel a = ms_versionLabel specs"
    "ds_status a = (if truthy_str (ms_preflightSpec specs) then ''pending_preflight'' else ''pending'')"
    by (fastforce simp: inDb_def split: prod.splits)
  with createDownstreamVersion_Inr show ?thesis
    by (fastforce simp: new_rows_def downstream_row_def)
qed

lemma update_downstreams_effect:
  assumes "forE (update_downstream env app n specs source m) cs w = (Inr us, w')"
  shows "\<exists>vs. w' = w\<lparr>rw_db := (rw_db w)\<lparr>t_app_downstream_version := t_app_downstream_version (rw_db w) @ vs\<rparr>\<rparr> \<and>
    map adv_cluster_id vs = cs \<and> new_rows (ka_id app) n specs vs"
  using assms
proof (induction cs arbitrary: w us)
  case Nil
  then show ?case by (auto simp: new_rows_def retE_def)
next
  case (Cons c cs)
  then obtain w1 us1 where first: "update_downstream env app n specs source m c w = (Inr (), w1)"
    and rest: "forE (update_downstream env app n specs source m) cs w1 = (Inr us1, w')"
    by (auto simp: bindE_def retE_def split: prod.splits sum.splits)
  from update_downstream_effect [OF first] obtain v where
    v: "w1 = w\<lparr>rw_db := (rw_db w)\<lparr>t_app_downstream_version := t_app_downstream_version (rw_db w) @ [v]\<rparr>\<rparr>"
      "adv_cluster_id v = c" "new_rows (ka_id app) n specs [v]" by blast
  from Cons.IH [OF rest] obtain vs where
    "w' = w1\<lparr>rw_db := (rw_db w1)\<lparr>t_app_downstream_version := t_app_downstream_version (rw_db w1) @ vs\<rparr>\<rparr>"
    "map adv_cluster_id vs = cs" "new_rows (ka_id app) n specs vs" by blast
  with v show ?case by (intro exI [of _ "v # vs"]) (simp add: new_rows_def)
qed

lemma createMidstreamVersion_new:
  assumes "createMidstreamVersion i s now m d = (Inr (), d')" and "(i, s) \<notin> av_key ` set (t_app_version d)"
  shows "app_version_at i s d' = Some (midstream_row i s now m)" and "t_app_downstream d' = t_app_downstream d"
    and "t_app_downstream_version d' = t_app_downstream_version d"
    and "\<exists>f. t_app d' = sql_update (\<lambda>r. app_id r = i) f (t_app d) \<and> (\<forall>r. app_current_sequence (f r) = Some s \<and> app_id (f r) = app_id r)"
proof -
  have "av_key (midstream_row i s now m) \<notin> av_key ` set (t_app_version d)"
    using assms(2) by (simp add: midstream_row_def)
  then have up: "sql_upsert av_key av_merge (midstream_row i s now m) (t_app_version d) = t_app_version d @ [midstream_row i s now m]"
    by (rule upsert_new)
  obtain f where d': "d' = d\<lparr>t_app_version := t_app_version d @ [midstream_row i s now m],
      t_app := sql_update (\<lambda>r. app_id r = i) f (t_app d)\<rparr>" "\<forall>r. app_current_sequence (f r) = Some s \<and> app_id (f r) = app_id r"
    using assms(1) up by (auto simp: createMidstreamVersion_def eff_simps split: if_splits list.splits sum.splits)
  have "find (\<lambda>r. av_app_id r = i \<and> av_sequence r = s) (t_app_version d) = None"
    using assms(2) by (auto simp: find_None_iff image_iff)
  then have "find (\<lambda>r. av_app_id r = i \<and> av_sequence r = s) (t_app_version d @ [midstream_row i s now m]) =
      Some (midstream_row i s now m)"
    by (induction "t_app_version d") (auto simp: find_append midstream_row_def)
  with d' show "app_version_at i s d' = Some (midstream_row i s now m)" by (simp add: app_version_at_def)
  show "t_app_downstream d' = t_app_downstream d" "t_app_downstream_version d' = t_app_downstream_version d"
    "\<exists>f. t_app d' = sql_update (\<lambda>r. app_id r = i) f (t_app d) \<and> (\<forall>r. app_current_sequence (f r) = Some s \<and> app_id (f r) = app_id r)"
    using d' by auto
qed

lemma next_is_free: "getMaxSequence i d = Some m \<Longrightarrow> (i, m + 1) \<notin> av_key ` set (t_app_version d)"
proof
  assume m: "getMaxSequence i d = Some m" and "(i, m + 1) \<in> av_key ` set (t_app_version d)"
  then obtain r where r: "r \<in> set (sql_select (\<lambda>r. av_app_id r = i) (t_app_version d))" "av_sequence r = m + 1"
    by (auto simp: sql_select_def)
  then have "av_sequence r \<le> Max (av_sequence ` set (sql_select (\<lambda>r. av_app_id r = i) (t_app_version d)))"
    using r(1) by (intro Max_ge imageI) simp_all
  with m r show False by (auto simp: getMaxSequence_def max_opt_Max split: if_splits)
qed

text \<open>What a released version leaves behind.\<close>

definition released :: "'g release_env \<Rightarrow> string \<Rightarrow> int \<Rightarrow> tar_entry list \<Rightarrow> midstream_args \<Rightarrow> rworld \<Rightarrow> rworld \<Rightarrow> bool" where
  "released env appId n entries specs w w' \<longleftrightarrow>
     rw_objects w' (objectStorePath (re_params env) appId (show_int n)) = Some entries \<and>
     app_version_at appId n (rw_db w') = Some (midstream_row appId n (re_now env) specs) \<and>
     (\<exists>f. t_app (rw_db w') = sql_update (\<lambda>r. app_id r = appId) f (t_app (rw_db w)) \<and>
        (\<forall>r. app_current_sequence (f r) = Some n)) \<and>
     (\<exists>vs. t_app_downstream_version (rw_db w') = t_app_downstream_version (rw_db w) @ vs \<and>
        map adv_cluster_id vs = listClusterIDsForApp appId (rw_db w) \<and> new_rows appId n specs vs)"

lemma release_version_effect:
  assumes "release_version env app n entries source m w = (Inr (), w')" and "(ka_id app, n) \<notin> av_key ` set (t_app_version (rw_db w))"
  shows "\<exists>inst specs. read_specs (re_safeLoad env) (Inr entries) = Inr (inst, specs) \<and> released env (ka_id app) n entries specs w w'"
proof -
  let ?key = "objectStorePath (re_params env) (ka_id app) (show_int n)"
  obtain inst specs d' us where specs: "read_specs (re_safeLoad env) (Inr entries) = Inr (inst, specs)"
    and mid: "createMidstreamVersion (ka_id app) n (re_now env) specs (rw_db w) = (Inr (), d')"
    and loop: "forE (update_downstream env app n specs source m) (listClusterIDsForApp (ka_id app) d')
        (w\<lparr>rw_objects := (rw_objects w)(?key \<mapsto> entries), rw_db := d'\<rparr>) = (Inr us, w')"
    using assms(1)
    by (auto simp: release_version_def store_archive_def putObject_def inDb_def askDb_def bindE_def thenE_def queryE_def retE_def
        split: prod.splits sum.splits option.splits)
  note new = createMidstreamVersion_new [OF mid assms(2)]
  from update_downstreams_effect [OF loop] obtain vs where
    "w' = (w\<lparr>rw_objects := (rw_objects w)(?key \<mapsto> entries), rw_db := d'\<rparr>)
        \<lparr>rw_db := d'\<lparr>t_app_downstream_version := t_app_downstream_version d' @ vs\<rparr>\<rparr>"
    "map adv_cluster_id vs = listClusterIDsForApp (ka_id app) d'" "new_rows (ka_id app) n specs vs" by auto
  with new specs have "released env (ka_id app) n entries specs w w'"
    unfolding released_def by (auto simp: listClusterIDsForApp_def app_version_at_def)
  with specs show ?thesis by blast
qed

text \<open>
  C21: When an update is saved, its archive is stored, the version after the greatest one has the specs of the
  archive, the application is at it, and every downstream, and no other, gains one version of it:
  one that waits for the preflight checks when the archive has any.
\<close>

theorem saveUpdateVersion_correct:
  assumes "getMaxSequence (ka_id app) (rw_db w) = Some n" and "saveUpdateVersion env entries app source w = (Inr (), w')"
  shows "\<exists>inst specs. read_specs (re_safeLoad env) (Inr entries) = Inr (inst, specs) \<and>
    released env (ka_id app) (n + 1) entries specs w w'"
proof -
  have "release_version env app (n + 1) entries source (''Updates to the upstream of '' @ ka_name app) w = (Inr (), w')"
    using assms by (simp add: saveUpdateVersion_def askDb_def bindE_def queryE_def)
  from release_version_effect [OF this next_is_free [OF assms(1)]] show ?thesis .
qed

section \<open>An example\<close>

definition no_specs :: midstream_args where
  "no_specs = \<lparr>ms_versionLabel = [], ms_releaseNotes = Some [], ms_updateCursor = Some [], ms_channelName = Some [],
     ms_encryptionKey = Some [], ms_supportBundleSpec = None, ms_analyzersSpec = None, ms_preflightSpec = None, ms_appSpec = None,
     ms_kotsAppSpec = None, ms_kotsAppLicense = None, ms_configSpec = None, ms_configValues = None, ms_appTitle = None,
     ms_appIcon = None, ms_backupSpec = None\<rparr>"

definition example_git :: "unit git_ops" where
  "example_git = \<lparr>git_clone = (\<lambda>_ _. Inr ()), git_references = (\<lambda>_. []), git_createBranch = (\<lambda>_ _ _. Inr ()),
     git_checkout = (\<lambda>_ _. Inr ()), git_pull = (\<lambda>_ _. Inr ()), git_add = (\<lambda>_ _. Inr ()), git_patches = (\<lambda>_. 0),
     git_commit = (\<lambda>_ _. Inr (''hash'', ())), git_push = (\<lambda>_ _. Inr ())\<rparr>"

definition example_env :: "unit release_env" where
  "example_env = \<lparr>re_params = example_params, re_refusedPut = (\<lambda>_. None), re_refusedGet = (\<lambda>_. None), re_safeLoad = (\<lambda>_. Inr JUndef),
     re_json = (\<lambda>_. Inr JUndef), re_err_text = (\<lambda>_. []), re_kustomize = (\<lambda>_ _. Inr []), re_tmpDir = ''/tmp'', re_diffLines = (\<lambda>_ _. []),
     re_decrypt = (\<lambda>_ s. Inr s), re_encrypt = (\<lambda>_ s. Inr s), re_key = ''key'', re_git = example_git, re_shipApiEndpoint = [], re_now = 5\<rparr>"

definition example_kots_app :: KotsApp where
  "example_kots_app = \<lparr>ka_id = ''a'', ka_name = ''App'', ka_license = None, ka_isAirgap = False, ka_upstreamUri = [], ka_iconUri = None,
     ka_createdAt = 0, ka_updatedAt = None, ka_slug = ''app'', ka_currentSequence = None, ka_lastUpdateCheckAt = None,
     ka_bundleCommand = [], ka_hasPreflight = False, ka_isConfigurable = False, ka_snapshotTTL = [], ka_snapshotSchedule = None,
     ka_restoreInProgressName = None, ka_restoreUndeployStatus = None\<rparr>"

definition example_rworld :: rworld where
  "example_rworld = \<lparr>rw_db = empty_db\<lparr>t_app := [new_app_row ''a'' ''App'' 1 ''app'' [] ''lic'' False None],
       t_app_version := [midstream_row ''a'' 0 1 no_specs],
       t_app_downstream := [\<lparr>ad_app_id = ''a'', ad_cluster_id = ''c'', ad_downstream_name = ''this'', ad_current_sequence = None\<rparr>]\<rparr>,
     rw_k8s = \<lparr>gitops_secret = None, gitops_configmap = None\<rparr>, rw_objects = (\<lambda>_. None)\<rparr>"

lemma example_specs: "read_specs (re_safeLoad example_env) (Inr []) = Inr (no_installation, no_specs)"
  by (simp add: read_specs_def no_specs_def no_installation_def shown_text_def extractInstallationSpecFromTarball_def
      extractSupportBundleSpecFromTarball_def extractAnalyzerSpecFromTarball_def extractPreflightSpecFromTarball_def
      extractAppSpecFromTarball_def extractKotsAppSpecFromTarball_def extractAppTitleFromTarball_def extractAppIconFromTarball_def
      extractKotsAppLicenseFromTarball_def extractConfigSpecFromTarball_def extractConfigValuesFromTarball_def
      extractBackupSpecFromTarball_def extract_text_def)

lemma example_store:
  "\<exists>objs. store_archive example_env ''a'' (show_int 1) [] example_rworld = (Inr (), example_rworld\<lparr>rw_objects := objs\<rparr>)"
  by (simp add: store_archive_def putObject_def example_env_def example_rworld_def)

lemma example_midstream:
  "createMidstreamVersion ''a'' 1 5 no_specs (rw_db example_rworld) =
     (Inr (), (rw_db example_rworld)\<lparr>t_app_version := [midstream_row ''a'' 0 1 no_specs, midstream_row ''a'' 1 5 no_specs],
        t_app := [(new_app_row ''a'' ''App'' 1 ''app'' [] ''lic'' False None)
          \<lparr>app_current_sequence := Some 1, app_name := ''app'', app_icon_uri := None\<rparr>]\<rparr>)"
  by (simp add: createMidstreamVersion_def example_rworld_def thenE_apply no_specs_def midstream_row_def sql_select_def
      new_app_row_def sql_update_def)

lemma example_downstream_update:
  assumes "t_app_downstream_version (rw_db w) = []" and "rw_k8s w = \<lparr>gitops_secret = None, gitops_configmap = None\<rparr>"
  shows "\<exists>w'. update_downstream example_env example_kots_app 1 no_specs ''Upstream Update'' m ''c'' w = (Inr (), w')"
proof -
  have "\<not> dg_enabled (getDownstreamGitOps e p ''a'' ''c'' (rw_k8s w))" for e p
    using assms(2) by (simp add: getDownstreamGitOps_def getGitopsInfo_def read_secret_def)
  then show ?thesis using assms(1)
    by (simp add: update_downstream_def downstream_commit_def gitops_of_def bindE_apply example_kots_app_def getDiffSummary_def
        inDb_def createDownstreamVersion_def transaction_def sql_insert_def)
qed

lemma example_update_saved: "\<exists>w. saveUpdateVersion example_env [] example_kots_app ''Upstream Update'' example_rworld = (Inr (), w)"
proof -
  have id: "ka_id example_kots_app = ''a''" "re_now example_env = 5" by (simp_all add: example_kots_app_def example_env_def)
  obtain objs where store: "store_archive example_env ''a'' (show_int 1) [] example_rworld = (Inr (), example_rworld\<lparr>rw_objects := objs\<rparr>)"
    using example_store ..
  define d where "d = snd (createMidstreamVersion ''a'' 1 5 no_specs (rw_db example_rworld))"
  have d: "listClusterIDsForApp ''a'' d = [''c'']" "t_app_downstream_version d = []"
    unfolding d_def example_midstream by (simp_all add: listClusterIDsForApp_def sql_select_def example_rworld_def empty_db_def)
  have mid: "createMidstreamVersion ''a'' 1 5 no_specs (rw_db example_rworld) = (Inr (), d)"
    unfolding d_def example_midstream by simp
  obtain w where "update_downstream example_env example_kots_app 1 no_specs ''Upstream Update'' (''Updates to the upstream of '' @ ka_name example_kots_app)
      ''c'' (example_rworld\<lparr>rw_objects := objs, rw_db := d\<rparr>) = (Inr (), w)"
    using example_downstream_update d(2) by (fastforce simp: example_rworld_def)
  with mid store d(1) example_specs
  have "release_version example_env example_kots_app 1 [] ''Upstream Update'' (''Updates to the upstream of '' @ ka_name example_kots_app)
      example_rworld = (Inr (), w)"
    by (simp add: release_version_def id thenE_apply bindE_apply inDb_def askDb_def)
  moreover have "getMaxSequence ''a'' (rw_db example_rworld) = Some 0"
    by (simp add: getMaxSequence_def max_opt_def sql_select_def example_rworld_def midstream_row_def)
  ultimately show ?thesis by (simp add: saveUpdateVersion_def askDb_def id)
qed

theorem saveUpdateVersion_correct_witness:
  "\<exists>w. saveUpdateVersion example_env [] example_kots_app ''Upstream Update'' example_rworld = (Inr (), w) \<and>
    released example_env ''a'' 1 [] no_specs example_rworld w"
proof -
  obtain w where w: "saveUpdateVersion example_env [] example_kots_app ''Upstream Update'' example_rworld = (Inr (), w)"
    using example_update_saved ..
  have "getMaxSequence (ka_id example_kots_app) (rw_db example_rworld) = Some 0"
    by (simp add: getMaxSequence_def max_opt_def sql_select_def example_rworld_def midstream_row_def example_kots_app_def)
  from saveUpdateVersion_correct [OF this w] example_specs w show ?thesis by (simp add: example_kots_app_def)
qed

section \<open>Several updates\<close>

text \<open>The outcome of each update when it starts from what the one before it left.\<close>

definition one_update ::
  "'g release_env \<Rightarrow> (tar_entry list \<Rightarrow> string \<Rightarrow> download_run) \<Rightarrow> KotsApp \<Rightarrow> Update \<Rightarrow> (rworld, unit) eff" where
  "one_update env updateDownload app update =
     thenE (inDb (execE (setUpdateDownloadStatus (''Downloading release '' @ up_versionLabel update) ''running'' (re_now env))))
       (thenE (kotsAppDownloadUpdate env updateDownload (up_cursor update) app) (retE ()))"

primrec outcomes ::
  "'g release_env \<Rightarrow> (tar_entry list \<Rightarrow> string \<Rightarrow> download_run) \<Rightarrow> KotsApp \<Rightarrow> Update list \<Rightarrow> rworld \<Rightarrow> unit result list" where
  "outcomes env lib app [] w = []"
| "outcomes env lib app (u # us) w =
     fst (one_update env lib app u w) # outcomes env lib app us (snd (one_update env lib app u w))"

definition stuck :: "unit result \<Rightarrow> bool" where
  "stuck r \<longleftrightarrow> r = Inl Unsettled \<or> r = Inl Uncaught"

lemma download_updates_step:
  "download_updates env lib app (u # us) w =
     (case one_update env lib app u w of
        (Inr _, w') \<Rightarrow> download_updates env lib app us w'
      | (Inl e, w') \<Rightarrow> if stuck (Inl e) \<or> us = [] then (Inl e, w') else download_updates env lib app us w')"
proof -
  have "download_updates env lib app (u # us) =
      thenE (try_await (one_update env lib app u) (\<lambda>err. if us = [] then throwE err else retE ())) (download_updates env lib app us)"
    by (simp only: download_updates.simps one_update_def)
  moreover obtain r w1 where "one_update env lib app u w = (r, w1)" by fastforce
  ultimately show ?thesis
    by (cases r) (simp_all del: download_updates.simps add: try_await_def catchE_def thenE_apply stuck_def)
qed

declare download_updates.simps (2) [simp del]

lemma outcomes_Nil [simp]: "outcomes env lib app us w = [] \<longleftrightarrow> us = []"
  by (cases us) auto

text \<open>
  Of several updates the last one alone decides whether downloading them succeeds: the failure of an earlier
  one is dropped and the next is tried in the state it left; but an update whose download never settles, or
  throws outside of its promise, stops everything, and the ones after it are never tried.
\<close>

theorem last_update_decides:
  "fst (download_updates env lib app us w) =
     (case find stuck (outcomes env lib app us w) of
        Some r \<Rightarrow> r
      | None \<Rightarrow> if us = [] then Inr () else last (outcomes env lib app us w))"
proof (induction us arbitrary: w)
  case (Cons u us)
  obtain r w1 where run: "one_update env lib app u w = (r, w1)" by fastforce
  show ?case
  proof (cases r)
    case (Inl e)
    with Cons [of w1] run show ?thesis
      by (cases "us = []"; cases "stuck r") (auto simp: download_updates_step split: option.splits)
  next
    case (Inr x)
    with Cons [of w1] run show ?thesis
      by (cases "us = []") (auto simp: download_updates_step stuck_def split: option.splits)
  qed
qed simp

end
