(* ===== verification/SnapshotTTL.thy ===== *)
theory SnapshotTTL
  imports JsValue
begin

text \<open>
  The retention of snapshots, \<^verbatim>\<open>formatTTL\<close> and \<^verbatim>\<open>parseTTL\<close> of
  \<^verbatim>\<open>api/src/snapshots/backup.ts\<close>: a quantity and a unit are stored as a duration of seconds,
  minutes or hours, and read back in the largest unit that divides it.  The quantity is an
  \<^verbatim>\<open>Int!\<close> of the GraphQL schema, so every product stays below 2^53 and is exact.
  \<open>unit_seconds\<close> and \<open>duration_seconds\<close> say what the two representations mean.
\<close>

record ParsedTTL =
  ttl_quantity :: nat
  ttl_unit :: string

definition ttl_error :: "string \<Rightarrow> error" where
  "ttl_error s = ReplicatedError (''Invalid snapshot TTL: '' @ s)"

definition formatTTL :: "string \<Rightarrow> string \<Rightarrow> string result" where
  "formatTTL quantity u =
     (case parse_int quantity of
        None \<Rightarrow> Inl (ttl_error (quantity @ '' '' @ u))
      | Some n \<Rightarrow>
          if u = ''seconds'' then Inr (show_int n @ ''s'')
          else if u = ''minutes'' then Inr (show_int n @ ''m'')
          else if u = ''hours'' then Inr (show_int n @ ''h'')
          else if u = ''days'' then Inr (show_int (n * 24) @ ''h'')
          else if u = ''weeks'' then Inr (show_int (n * 168) @ ''h'')
          else if u = ''months'' then Inr (show_int (n * 720) @ ''h'')
          else if u = ''years'' then Inr (show_int (n * 8766) @ ''h'')
          else Inl (ttl_error (quantity @ '' '' @ u)))"

definition hours_ttl :: "nat \<Rightarrow> ParsedTTL" where
  "hours_ttl n =
     (if 8766 \<le> n \<and> n mod 8766 = 0 then \<lparr>ttl_quantity = n div 8766, ttl_unit = ''years''\<rparr>
      else if 720 \<le> n \<and> n mod 720 = 0 then \<lparr>ttl_quantity = n div 720, ttl_unit = ''months''\<rparr>
      else if 168 \<le> n \<and> n mod 168 = 0 then \<lparr>ttl_quantity = n div 168, ttl_unit = ''weeks''\<rparr>
      else if 24 \<le> n \<and> n mod 24 = 0 then \<lparr>ttl_quantity = n div 24, ttl_unit = ''days''\<rparr>
      else \<lparr>ttl_quantity = n, ttl_unit = ''hours''\<rparr>)"

text \<open>The match against \<^verbatim>\<open>/^\d+(s|m|h)$/\<close> is one or more digits and one of the three letters.\<close>

definition parseTTL :: "string \<Rightarrow> ParsedTTL result" where
  "parseTTL s =
     (let digits = takeWhile is_digit s; rest = dropWhile is_digit s; quantity = digits_val 0 digits in
      if digits = [] then Inl (ttl_error s)
      else if rest = ''s'' then Inr \<lparr>ttl_quantity = quantity, ttl_unit = ''seconds''\<rparr>
      else if rest = ''m'' then Inr \<lparr>ttl_quantity = quantity, ttl_unit = ''minutes''\<rparr>
      else if rest = ''h'' then Inr (hours_ttl quantity)
      else Inl (ttl_error s))"

section \<open>What the two representations mean\<close>

definition unit_seconds :: "string \<Rightarrow> int" where
  "unit_seconds u =
     (if u = ''seconds'' then 1 else if u = ''minutes'' then 60 else if u = ''hours'' then 3600
      else if u = ''days'' then 24 * 3600 else if u = ''weeks'' then 7 * 24 * 3600
      else if u = ''months'' then 30 * 24 * 3600 else if u = ''years'' then 8766 * 3600 else 0)"

definition ttl_seconds :: "ParsedTTL \<Rightarrow> int" where
  "ttl_seconds p = int (ttl_quantity p) * unit_seconds (ttl_unit p)"

section \<open>Lemmas\<close>

lemma takeWhile_show_nat_unit [simp]:
  assumes "\<not> is_digit c"
  shows "takeWhile is_digit (show_nat n @ [c]) = show_nat n"
    and "dropWhile is_digit (show_nat n @ [c]) = [c]"
proof -
  have "\<forall>d \<in> set (show_nat n). is_digit d" using show_nat_digits [of n] by (simp add: list_all_iff)
  then show "takeWhile is_digit (show_nat n @ [c]) = show_nat n" "dropWhile is_digit (show_nat n @ [c]) = [c]"
    using assms by (simp_all add: takeWhile_append2 dropWhile_append2)
qed

lemma unit_letters [simp]: "\<not> is_digit CHR ''s''" "\<not> is_digit CHR ''m''" "\<not> is_digit CHR ''h''"
  by (simp_all add: is_digit_def)

lemma parseTTL_shown [simp]:
  "parseTTL (show_nat n @ ''s'') = Inr \<lparr>ttl_quantity = n, ttl_unit = ''seconds''\<rparr>"
  "parseTTL (show_nat n @ ''m'') = Inr \<lparr>ttl_quantity = n, ttl_unit = ''minutes''\<rparr>"
  "parseTTL (show_nat n @ ''h'') = Inr (hours_ttl n)"
  by (simp_all add: parseTTL_def Let_def)

lemma show_int_nonneg: "0 \<le> i \<Longrightarrow> show_int i = show_nat (nat i)"
  by (simp add: show_int_def)

lemma parseTTL_negative: "i < 0 \<Longrightarrow> parseTTL (show_int i @ u) = Inl (ttl_error (show_int i @ u))"
  by (simp add: parseTTL_def show_int_def is_digit_def)

lemma hours_ttl_seconds: "ttl_seconds (hours_ttl n) = int n * 3600"
proof -
  have div: "int (n div k) * (int k * 3600) = int n * 3600" if "n mod k = 0" for k
  proof -
    have "n div k * k = n" using that by (simp add: mod_0_imp_dvd)
    then have "int (n div k) * int k = int n" by (metis of_nat_mult)
    then show ?thesis by (metis mult.assoc)
  qed
  show ?thesis
    using div [of 8766] div [of 720] div [of 168] div [of 24]
    by (auto simp: hours_ttl_def ttl_seconds_def unit_seconds_def)
qed

lemma formatTTL_hours: "formatTTL (show_int (int (ttl_quantity (hours_ttl n)))) (ttl_unit (hours_ttl n)) = Inr (show_nat n @ ''h'')"
proof -
  have div: "show_int (int (n div k) * int k) = show_nat n" if "n mod k = 0" for k
  proof -
    have "n div k * k = n" using that by (simp add: mod_0_imp_dvd)
    then have "int (n div k) * int k = int n" by (metis of_nat_mult)
    then show ?thesis by (simp add: show_int_def)
  qed
  show ?thesis
    using div [of 8766] div [of 720] div [of 168] div [of 24]
    by (auto simp: hours_ttl_def formatTTL_def show_int_nonneg)
qed

lemma hours_quantity_le: "ttl_quantity (hours_ttl n) \<le> n"
  by (simp add: hours_ttl_def div_le_dividend)

text \<open>The duration written for a quantity that is not negative is that of the quantity, in one of three
  shapes.\<close>

lemma formatTTL_shape:
  assumes "formatTTL q u = Inr s" and "parse_int q = Some n" and "0 \<le> n"
  obtains m where "s = show_nat m @ ''s''" and "int m = n * unit_seconds u"
    | m where "s = show_nat m @ ''m''" and "int m * 60 = n * unit_seconds u"
    | m where "s = show_nat m @ ''h''" and "int m * 3600 = n * unit_seconds u"
proof -
  have h: "show_int (n * k) = show_nat (nat (n * k)) \<and> int (nat (n * k)) = n * k" if "0 \<le> k" for k
  proof -
    have "0 \<le> n * k" using assms(3) that by simp
    then show ?thesis by (simp add: show_int_def)
  qed
  show thesis
    using assms that(1) [of "nat n"] that(2) [of "nat n"] that(3) [of "nat n"]
      that(3) [of "nat (n * 24)"] that(3) [of "nat (n * 168)"] that(3) [of "nat (n * 720)"] that(3) [of "nat (n * 8766)"]
      h [of 24] h [of 168] h [of 720] h [of 8766]
    by (auto simp: formatTTL_def unit_seconds_def show_int_nonneg split: if_splits)
qed

lemma ttl_seconds_simps [simp]:
  "ttl_seconds \<lparr>ttl_quantity = m, ttl_unit = ''seconds''\<rparr> = int m"
  "ttl_seconds \<lparr>ttl_quantity = m, ttl_unit = ''minutes''\<rparr> = int m * 60"
  by (simp_all add: ttl_seconds_def unit_seconds_def)

lemma ttl_reads_back:
  assumes "formatTTL q u = Inr s" and "parse_int q = Some n" and "0 \<le> n"
  shows "\<exists>p. parseTTL s = Inr p \<and> ttl_seconds p = n * unit_seconds u \<and>
           formatTTL (show_int (int (ttl_quantity p))) (ttl_unit p) = Inr s"
  using assms
proof (cases rule: formatTTL_shape)
  case (1 m)
  then show ?thesis by (simp add: formatTTL_def show_int_nonneg)
next
  case (2 m)
  then show ?thesis by (simp add: formatTTL_def show_int_nonneg)
next
  case (3 m)
  then show ?thesis by (simp add: hours_ttl_seconds formatTTL_hours)
qed

text \<open>
  Reading a retention back gives the same time span, in a unit that formats to the same text.  A
  negative quantity is accepted and stored, and the stored text is then rejected by every reader.
\<close>

theorem ttl_roundtrip:
  assumes "formatTTL q u = Inr s" and "parse_int q = Some n"
  shows "(0 \<le> n \<longrightarrow> (\<exists>p. parseTTL s = Inr p \<and> ttl_seconds p = n * unit_seconds u \<and>
            formatTTL (show_int (int (ttl_quantity p))) (ttl_unit p) = Inr s))
       \<and> (n < 0 \<longrightarrow> parseTTL s = Inl (ttl_error s))"
proof (intro conjI impI)
  assume "0 \<le> n"
  with assms show "\<exists>p. parseTTL s = Inr p \<and> ttl_seconds p = n * unit_seconds u \<and>
      formatTTL (show_int (int (ttl_quantity p))) (ttl_unit p) = Inr s" by (rule ttl_reads_back)
next
  assume "n < 0"
  then have "n * 24 < 0" "n * 168 < 0" "n * 720 < 0" "n * 8766 < 0" by simp_all
  with \<open>n < 0\<close> assms show "parseTTL s = Inl (ttl_error s)"
    by (auto simp: formatTTL_def parseTTL_negative split: if_splits)
qed

theorem ttl_roundtrip_witness:
  "parseTTL ''26298h'' = Inr \<lparr>ttl_quantity = 3, ttl_unit = ''years''\<rparr> \<and>
   (\<exists>p. parseTTL ''336h'' = Inr p \<and> ttl_seconds p = 14 * unit_seconds ''days'' \<and>
     formatTTL (show_int (int (ttl_quantity p))) (ttl_unit p) = Inr ''336h'')"
proof
  show "parseTTL ''26298h'' = Inr \<lparr>ttl_quantity = 3, ttl_unit = ''years''\<rparr>"
    by (simp add: parseTTL_def is_digit_def digit_val_def hours_ttl_def)
  have "show_nat 336 = ''336''" by (simp add: show_nat.simps digit_char_def char_of_def bit_0)
  moreover have "parse_int ''14'' = Some 14"
    by (simp add: parse_int_def parse_nat_def is_blank_def is_digit_def digit_val_def)
  ultimately have "formatTTL ''14'' ''days'' = Inr ''336h''" "parse_int ''14'' = Some 14"
    by (simp_all add: formatTTL_def show_int_def)
  from ttl_roundtrip [OF this]
  show "\<exists>p. parseTTL ''336h'' = Inr p \<and> ttl_seconds p = 14 * unit_seconds ''days'' \<and>
     formatTTL (show_int (int (ttl_quantity p))) (ttl_unit p) = Inr ''336h''" by simp
qed

end
