(* ===== verification/SnapshotLocations.thy ===== *)
theory SnapshotLocations
  imports Velero
begin

text \<open>
  Where Velero stores its backups: the storage locations of \<^verbatim>\<open>veleroClient.ts\<close>, one for every
  application copied from the default one, and the secrets with the credentials of the provider.
  A secret is written as text with one setting per line and read back with regular expressions;
  a credential that the client sends redacted is read from the secret that is stored.
\<close>

section \<open>Paths\<close>

text \<open>\<^verbatim>\<open>path.join\<close>: empty arguments are left out, \<open>.\<close> and empty segments vanish, \<open>..\<close> takes a
  segment back, a trailing slash stays.\<close>

fun norm_segments :: "bool \<Rightarrow> string list \<Rightarrow> string list \<Rightarrow> string list" where
  "norm_segments absolute acc [] = rev acc"
| "norm_segments absolute acc (s # ss) =
     (if s = [] \<or> s = ''.'' then norm_segments absolute acc ss
      else if s = ''..'' then
        (case acc of
           [] \<Rightarrow> norm_segments absolute (if absolute then [] else [''..'']) ss
         | a # acc' \<Rightarrow> if a = ''..'' then norm_segments absolute (''..'' # acc) ss
                      else norm_segments absolute acc' ss)
      else norm_segments absolute (s # acc) ss)"

definition path_normalize :: "string \<Rightarrow> string" where
  "path_normalize p =
     (let absolute = starts_with ''/'' p; trailing = (p \<noteq> [] \<and> last p = CHR ''/'');
          body = js_join ''/'' (norm_segments absolute [] (js_split CHR ''/'' p)) in
      if body = [] then (if absolute then ''/'' else if trailing then ''./'' else ''.'')
      else (if absolute then ''/'' else []) @ body @ (if trailing then ''/'' else []))"

definition path_join :: "string list \<Rightarrow> string" where
  "path_join ps =
     (let qs = filter (\<lambda>p. p \<noteq> []) ps in if qs = [] then ''.'' else path_normalize (js_join ''/'' qs))"

definition path_join_value :: "jsval \<Rightarrow> string \<Rightarrow> jsval result" where
  "path_join_value v p = (case v of JStr s \<Rightarrow> Inr (JStr (path_join [s, p])) | _ \<Rightarrow> Inl TypeError)"

section \<open>Credentials\<close>

definition redacted :: string where
  "redacted = ''--- REDACTED ---''"

record SnapshotStoreS3AWS =
  s3_region :: string
  s3_accessKeyID :: "string option"
  s3_accessKeySecret :: "string option"

record SnapshotStoreS3Compatible = SnapshotStoreS3AWS +
  s3_endpoint :: string

record SnapshotStoreAzure =
  az_resourceGroup :: string
  az_storageAccount :: string
  az_subscriptionID :: string
  az_tenantID :: string
  az_clientID :: string
  az_clientSecret :: string
  az_cloudName :: string

record SnapshotStoreGoogle =
  go_serviceAccount :: string

record kube_secret =
  sc_name :: string
  sc_namespace :: "string option"
  sc_cloud :: string

definition secret_body :: "kube_secret \<Rightarrow> jsval" where
  "secret_body s =
     JObj [(''apiVersion'', JStr ''v1''), (''kind'', JStr ''Secret''),
       (''metadata'', JObj (case sc_namespace s of None \<Rightarrow> [(''name'', JStr (sc_name s))]
          | Some n \<Rightarrow> [(''name'', JStr (sc_name s)), (''namespace'', JStr n)])),
       (''stringData'', JObj [(''cloud'', JStr (sc_cloud s))])]"

text \<open>The text a template makes of a value that may be \<^verbatim>\<open>undefined\<close>.\<close>

definition tmpl :: "string option \<Rightarrow> string" where
  "tmpl v = (case v of None \<Rightarrow> ''undefined'' | Some s \<Rightarrow> s)"

definition lines_text :: "string list \<Rightarrow> string" where
  "lines_text ls = js_join [CHR 0x0A] ls"

text \<open>The first match of \<^verbatim>\<open>/key([^\n]+)/\<close>, its group.\<close>

definition line_rest :: "string \<Rightarrow> string" where
  "line_rest s = takeWhile (\<lambda>c. c \<noteq> CHR 0x0A) s"

fun match_setting :: "string \<Rightarrow> string \<Rightarrow> string option" where
  "match_setting key [] = None"
| "match_setting key (c # cs) =
     (if starts_with key (c # cs) \<and> line_rest (drop (length key) (c # cs)) \<noteq> []
      then Some (line_rest (drop (length key) (c # cs))) else match_setting key cs)"

definition secret_call_error :: "int option \<Rightarrow> error" where
  "secret_call_error st = ExternalError (case st of None \<Rightarrow> [] | Some n \<Rightarrow> show_int n)"

text \<open>The decoded \<^verbatim>\<open>cloud\<close> entry of a secret; \<open>None\<close> when there is no secret or no entry.\<close>

definition read_cloud :: "'k core \<Rightarrow> string \<Rightarrow> ('k, string option) eff" where
  "read_cloud core name k =
     (case core ''read'' name JUndef k of
        (CoreFail st, k') \<Rightarrow> (if st = Some 404 then Inr None else Inl (secret_call_error st), k')
      | (CoreOk r, k') \<Rightarrow>
          (case js_gets (rsp_body r) [''data'', ''cloud''] of
             Inl e \<Rightarrow> Inl e
           | Inr v \<Rightarrow> if \<not> truthy v then Inr None
               else (case v of JStr s \<Rightarrow> Inr (Some (base64Decode s)) | _ \<Rightarrow> Inl TypeError), k'))"

record AWSCreds =
  aw_accessKeyID :: "string option"
  aw_accessKeySecret :: "string option"

definition aws_creds_of :: "string option \<Rightarrow> AWSCreds" where
  "aws_creds_of cloud =
     (case cloud of
        None \<Rightarrow> \<lparr>aw_accessKeyID = None, aw_accessKeySecret = None\<rparr>
      | Some t \<Rightarrow> \<lparr>aw_accessKeyID = match_setting ''aws_access_key_id='' t,
                  aw_accessKeySecret = match_setting ''aws_secret_access_key='' t\<rparr>)"

definition readAWSCredentialsSecret :: "'k core \<Rightarrow> ('k, AWSCreds) eff" where
  "readAWSCredentialsSecret core = bindE (read_cloud core ''aws-credentials'') (\<lambda>c. retE (aws_creds_of c))"

definition aws_cloud :: "string option \<Rightarrow> string option \<Rightarrow> string" where
  "aws_cloud keyID keySecret =
     lines_text [''[default]'', ''aws_access_key_id='' @ tmpl keyID, ''aws_secret_access_key='' @ tmpl keySecret]"

definition awsCredentialsSecret :: "'k core \<Rightarrow> string \<Rightarrow> 's3 SnapshotStoreS3AWS_scheme \<Rightarrow> ('k, kube_secret option) eff" where
  "awsCredentialsSecret core ns aws =
     bindE (if s3_accessKeySecret aws = Some redacted
            then bindE (readAWSCredentialsSecret core) (\<lambda>c. retE (aw_accessKeySecret c))
            else retE (s3_accessKeySecret aws)) (\<lambda>keySecret.
       if \<not> truthy_str keySecret \<and> \<not> truthy_str (s3_accessKeyID aws)
       then (\<lambda>k. case core ''delete'' ''aws-credentials'' JUndef k of
           (CoreOk r, k') \<Rightarrow> (Inr None, k')
         | (CoreFail st, k') \<Rightarrow>
             (if st = Some 404 then Inr None
              else Inl (ReplicatedError (''Failed to delete secret aws-credentials from namespace '' @ ns @
                ''. Velero will continue using the credentials in the secret if it exists rather than EC2 instance profiles'')), k'))
       else retE (Some \<lparr>sc_name = ''aws-credentials'', sc_namespace = Some ns,
                        sc_cloud = aws_cloud (s3_accessKeyID aws) keySecret\<rparr>))"

record AzureCreds =
  ac_tenantID :: "string option"
  ac_clientID :: "string option"
  ac_clientSecret :: "string option"
  ac_resourceGroup :: "string option"
  ac_cloudName :: "string option"

definition azure_creds_of :: "string option \<Rightarrow> AzureCreds" where
  "azure_creds_of cloud =
     (case cloud of
        None \<Rightarrow> \<lparr>ac_tenantID = None, ac_clientID = None, ac_clientSecret = None, ac_resourceGroup = None, ac_cloudName = None\<rparr>
      | Some t \<Rightarrow> \<lparr>ac_tenantID = match_setting ''AZURE_TENANT_ID='' t, ac_clientID = match_setting ''AZURE_CLIENT_ID='' t,
          ac_clientSecret = match_setting ''AZURE_CLIENT_SECRET='' t,
          ac_resourceGroup = match_setting ''AZURE_RESOURCE_GROUP='' t,
          ac_cloudName = match_setting ''AZURE_CLOUD_NAME='' t\<rparr>)"

definition readAzureCredentialsSecret :: "'k core \<Rightarrow> ('k, AzureCreds) eff" where
  "readAzureCredentialsSecret core = bindE (read_cloud core ''azure-credentials'') (\<lambda>c. retE (azure_creds_of c))"

definition azure_cloud :: "SnapshotStoreAzure \<Rightarrow> string \<Rightarrow> string" where
  "azure_cloud az clientSecret =
     lines_text [''AZURE_SUBSCRIPTION_ID='' @ az_subscriptionID az, ''AZURE_TENANT_ID='' @ az_tenantID az,
       ''AZURE_CLIENT_ID='' @ az_clientID az, ''AZURE_CLIENT_SECRET='' @ clientSecret,
       ''AZURE_RESOURCE_GROUP='' @ az_resourceGroup az, ''AZURE_CLOUD_NAME='' @ az_cloudName az]"

definition azureCredentialsSecret :: "'k core \<Rightarrow> SnapshotStoreAzure \<Rightarrow> ('k, kube_secret option) eff" where
  "azureCredentialsSecret core az =
     bindE (if az_clientSecret az = redacted
            then bindE (readAzureCredentialsSecret core) (\<lambda>c. retE (str_or_empty (ac_clientSecret c)))
            else retE (az_clientSecret az)) (\<lambda>clientSecret.
       retE (Some \<lparr>sc_name = ''azure-credentials'', sc_namespace = None, sc_cloud = azure_cloud az clientSecret\<rparr>))"

text \<open>The Google secret is read without the check for a missing entry.\<close>

definition readGoogleCredentialsSecret :: "'k core \<Rightarrow> ('k, string option) eff" where
  "readGoogleCredentialsSecret core k =
     (case core ''read'' ''google-credentials'' JUndef k of
        (CoreFail st, k') \<Rightarrow> (if st = Some 404 then Inr None else Inl (secret_call_error st), k')
      | (CoreOk r, k') \<Rightarrow>
          (case js_gets (rsp_body r) [''data'', ''cloud''] of
             Inl e \<Rightarrow> Inl e
           | Inr (JStr s) \<Rightarrow> Inr (Some (base64Decode s))
           | Inr _ \<Rightarrow> Inl TypeError, k'))"

definition googleCredentialsSecret :: "'k core \<Rightarrow> string \<Rightarrow> SnapshotStoreGoogle \<Rightarrow> ('k, kube_secret option) eff" where
  "googleCredentialsSecret core ns go =
     bindE (if go_serviceAccount go = redacted
            then bindE (readGoogleCredentialsSecret core) (\<lambda>sa. retE (str_or_empty sa))
            else retE (go_serviceAccount go)) (\<lambda>serviceAccount.
       retE (Some \<lparr>sc_name = ''google-credentials'', sc_namespace = Some ns, sc_cloud = serviceAccount\<rparr>))"

text \<open>A secret is replaced when it is there and created otherwise; errors of both are logged.\<close>

definition call_logged :: "'k core \<Rightarrow> string \<Rightarrow> kube_secret \<Rightarrow> 'k \<Rightarrow> 'k" where
  "call_logged core method s k = snd (core method (sc_name s) (secret_body s) k)"

definition write_secret :: "'k core \<Rightarrow> kube_secret \<Rightarrow> 'k \<Rightarrow> 'k" where
  "write_secret core s k =
     (case core ''read'' (sc_name s) JUndef k of
        (CoreOk r, k') \<Rightarrow> if rsp_status r = 200 then call_logged core ''replace'' s k' else call_logged core ''create'' s k'
      | (CoreFail _, k') \<Rightarrow> call_logged core ''create'' s k')"

section \<open>Storage locations\<close>

definition backupStorageLocationName :: string where
  "backupStorageLocationName = ''default''"

definition bsl_object :: "string \<Rightarrow> string \<Rightarrow> jsval \<Rightarrow> jsval" where
  "bsl_object name ns spec =
     JObj [(''apiVersion'', JStr ''velero.io/v1''), (''kind'', JStr ''BackupStorageLocation''),
       (''metadata'', JObj [(''name'', JStr name), (''namespace'', JStr ns)]), (''spec'', spec)]"

text \<open>The location of an application copied from the default one, its prefix extended by the slug.\<close>

definition app_backend_spec :: "jsval \<Rightarrow> string \<Rightarrow> jsval result" where
  "app_backend_spec spec slug =
     bindR (js_get spec ''objectStorage'') (\<lambda>storage.
     bindR (js_get storage ''prefix'') (\<lambda>pfx.
     bindR (path_join_value pfx slug) (\<lambda>joined.
     bindR (js_set storage ''prefix'' joined) (\<lambda>storage'. js_set spec ''objectStorage'' storage'))))"

definition maybeCreateAppBackend :: "'k http \<Rightarrow> string \<Rightarrow> string \<Rightarrow> ('k, unit) eff" where
  "maybeCreateAppBackend http ns slug =
     bindE (unhandledRequest http ns ''GET'' (''backupstoragelocations/'' @ backupStorageLocationName) JUndef) (\<lambda>r.
       if rsp_status r \<noteq> 200 then retE ()
       else bindE (liftR (js_get (rsp_body r) ''spec'')) (\<lambda>spec.
            bindE (liftR (app_backend_spec spec slug)) (\<lambda>spec'.
            bindE (unhandledRequest http ns ''POST'' (''backupstoragelocations/'' @ slug) (bsl_object slug ns spec')) (\<lambda>p.
              if rsp_status p \<noteq> 201 \<and> rsp_status p \<noteq> 409
              then throwE (ReplicatedError (''Failed to create new BackupStorageLocation for app '' @ slug))
              else retE ()))))"

record SnapshotStore =
  st_provider :: string
  st_bucket :: string
  st_path :: "string option"
  st_s3AWS :: "SnapshotStoreS3AWS option"
  st_s3Compatible :: "SnapshotStoreS3Compatible option"
  st_azure :: "SnapshotStoreAzure option"
  st_google :: "SnapshotStoreGoogle option"

text \<open>The provider, the \<^verbatim>\<open>config\<close> of the location and the secret the store asks for; \<open>config0\<close> is the one
  of the location that exists.\<close>

definition s3_compatible_config :: "SnapshotStoreS3Compatible \<Rightarrow> jsval \<Rightarrow> jsval result" where
  "s3_compatible_config s config0 =
     bindR (js_set config0 ''region'' (JStr (s3_region s))) (\<lambda>c1.
     bindR (js_set c1 ''s3Url'' (JStr (s3_endpoint s))) (\<lambda>c2.
       js_set c2 ''s3ForcePathStyle'' (JStr ''true'')))"

definition provider_settings ::
  "(string \<Rightarrow> string) \<Rightarrow> 'k core \<Rightarrow> string \<Rightarrow> SnapshotStore \<Rightarrow> jsval \<Rightarrow> ('k, string \<times> jsval \<times> kube_secret option) eff" where
  "provider_settings escape core ns store config0 =
     (if st_provider store = ''aws'' then
        (case st_s3AWS store of
           None \<Rightarrow> throwE (ReplicatedError ''s3AWS store configuration is required'')
         | Some s \<Rightarrow> bindE (awsCredentialsSecret core ns s) (\<lambda>sec.
             retE (''aws'', JObj [(''region'', JStr (s3_region s))], sec)))
      else if st_provider store = ''s3compatible'' then
        (case st_s3Compatible store of
           None \<Rightarrow> throwE (ReplicatedError ''s3Compatible store configuration is required'')
         | Some s \<Rightarrow> bindE (liftR (s3_compatible_config s config0)) (\<lambda>c. bindE (awsCredentialsSecret core ns s) (\<lambda>sec.
             retE (''aws'', c, sec))))
      else if st_provider store = ''azure'' then
        (case st_azure store of
           None \<Rightarrow> throwE (ReplicatedError ''azure store configuration is required'')
         | Some a \<Rightarrow> bindE (azureCredentialsSecret core a) (\<lambda>sec.
             retE (''azure'', JObj [(''resourceGroup'', JStr (az_resourceGroup a)),
               (''storageAccount'', JStr (az_storageAccount a)), (''subscriptionId'', JStr (az_subscriptionID a))], sec)))
      else if st_provider store = ''gcp'' then
        (case st_google store of
           None \<Rightarrow> throwE (ReplicatedError ''google store configuration is required'')
         | Some g \<Rightarrow> bindE (googleCredentialsSecret core ns g) (\<lambda>sec. retE (''gcp'', JObj [], sec)))
      else throwE (ReplicatedError (''unknown snapshot provider: '' @ escape (st_provider store))))"

definition location_spec :: "string \<Rightarrow> string \<Rightarrow> string \<Rightarrow> jsval \<Rightarrow> jsval" where
  "location_spec provider bucket pfx config =
     JObj [(''provider'', JStr provider),
       (''objectStorage'', JObj [(''bucket'', JStr bucket), (''prefix'', JStr pfx)]), (''config'', config)]"

definition app_prefix :: "SnapshotStore \<Rightarrow> string \<Rightarrow> string" where
  "app_prefix store slug =
     (if truthy_str (st_path store) then path_join [str_or_empty (st_path store), slug] else slug)"

definition save_app_location :: "'k http \<Rightarrow> string \<Rightarrow> SnapshotStore \<Rightarrow> (string \<Rightarrow> jsval) \<Rightarrow> string \<Rightarrow> ('k, unit) eff" where
  "save_app_location http ns store spec_for slug =
     bindE (unhandledRequest http ns ''GET'' (''backupstoragelocations/'' @ slug) JUndef) (\<lambda>r.
       if rsp_status r = 200
       then bindE (liftR (js_set (rsp_body r) ''spec'' (spec_for (app_prefix store slug)))) (\<lambda>appBSL.
            thenE (velero_request http ns ''PUT'' (''backupstoragelocations/'' @ slug) appBSL) (retE ()))
       else if rsp_status r = 404
       then thenE (velero_request http ns ''POST'' (''backupstoragelocations/'' @ slug)
              (bsl_object slug ns (spec_for (app_prefix store slug)))) (retE ())
       else throwE (ReplicatedError (''Failed to GET BackupStorageLocation '' @ slug @ '': '' @ show_int (rsp_status r))))"

definition default_prefix :: "SnapshotStore \<Rightarrow> string" where
  "default_prefix store = tmpl (st_path store) @ ''/'' @ backupStorageLocationName"

definition current_bsl :: "http_response \<Rightarrow> jsval option" where
  "current_bsl r = (if rsp_status r = 200 \<and> truthy (rsp_body r) then Some (rsp_body r) else None)"

definition saveSnapshotStore ::
  "(string \<Rightarrow> string) \<Rightarrow> 'k http \<Rightarrow> 'k core \<Rightarrow> string \<Rightarrow> SnapshotStore \<Rightarrow> string list \<Rightarrow> ('k, unit) eff" where
  "saveSnapshotStore escape http core ns store slugs =
     bindE (unhandledRequest http ns ''GET'' (''backupstoragelocations/'' @ backupStorageLocationName) JUndef) (\<lambda>r.
     bindE (liftR (case current_bsl r of None \<Rightarrow> Inr (JObj []) | Some b \<Rightarrow> js_gets b [''spec'', ''config''])) (\<lambda>config0.
     bindE (provider_settings escape core ns store config0) (\<lambda>(provider, config, sec).
       (let spec_for = (\<lambda>pfx. location_spec provider (st_bucket store) pfx config) in
        thenE (case current_bsl r of
           Some b \<Rightarrow> bindE (liftR (js_set b ''spec'' (spec_for (default_prefix store)))) (\<lambda>b'.
             velero_request http ns ''PUT'' (''backupstoragelocations/'' @ backupStorageLocationName) b')
         | None \<Rightarrow> velero_request http ns ''POST'' ''backupstoragelocations''
             (bsl_object backupStorageLocationName ns (spec_for (default_prefix store))))
        (thenE (forE (save_app_location http ns store spec_for) slugs)
        (execE (\<lambda>k. case sec of None \<Rightarrow> k | Some s \<Rightarrow> write_secret core s k)))))))"

section \<open>Lemmas\<close>

lemma starts_with_line:
  assumes "c \<notin> set k"
  shows "starts_with k (l @ c # r) \<longleftrightarrow> starts_with k l"
proof
  assume s: "starts_with k (l @ c # r)"
  show "starts_with k l"
  proof (cases "length k \<le> length l")
    case True
    with s show ?thesis by (simp add: starts_with_def)
  next
    case False
    then obtain n where "length k - length l = Suc n" by (metis Suc_diff_Suc not_le)
    with s have "k = l @ c # take n r" using False by (simp add: starts_with_def)
    with assms show ?thesis by (metis in_set_conv_decomp)
  qed
next
  assume "starts_with k l"
  then have "take (length k) l = k" "length k \<le> length l"
    by (auto simp: starts_with_def) (metis length_take min.absorb_iff2 min.commute)
  then show "starts_with k (l @ c # r)" by (simp add: starts_with_def)
qed

lemma line_rest_append [simp]:
  "CHR 0x0A \<notin> set l \<Longrightarrow> line_rest (l @ CHR 0x0A # r) = l"
  "CHR 0x0A \<notin> set l \<Longrightarrow> line_rest l = l"
  unfolding line_rest_def by (induction l) auto

text \<open>A setting is looked for line by line.\<close>

lemma match_setting_lines:
  assumes k: "CHR 0x0A \<notin> set k" and l: "CHR 0x0A \<notin> set l"
  shows "match_setting k (l @ CHR 0x0A # r) =
    (case match_setting k l of Some v \<Rightarrow> Some v | None \<Rightarrow> match_setting k (CHR 0x0A # r))"
  using l
proof (induction l)
  case Nil
  then show ?case by simp
next
  case (Cons c l)
  have sw: "starts_with k (c # l @ CHR 0x0A # r) \<longleftrightarrow> starts_with k (c # l)"
    using starts_with_line [OF k, of "c # l" r] by simp
  have "line_rest (drop (length k) (c # l @ CHR 0x0A # r)) = line_rest (drop (length k) (c # l))"
    if "starts_with k (c # l)"
  proof -
    from that have "length k \<le> length (c # l)"
      by (simp add: starts_with_def) (metis length_take length_Cons min.absorb_iff2 min.commute)
    moreover have "CHR 0x0A \<notin> set (drop (length k) (c # l))"
      using Cons.prems by (metis in_set_dropD)
    moreover have "drop (length k) ((c # l) @ CHR 0x0A # r) = drop (length k) (c # l) @ CHR 0x0A # r"
      using calculation(1) by (simp only: drop_append) simp
    ultimately show ?thesis by (metis append_Cons line_rest_append)
  qed
  with sw Cons show ?case by auto
qed

lemma match_setting_newline:
  "CHR 0x0A \<notin> set k \<Longrightarrow> k \<noteq> [] \<Longrightarrow> match_setting k (CHR 0x0A # r) = match_setting k r"
  by (cases k) (auto simp: starts_with_def)

lemma match_setting_own:
  "k \<noteq> [] \<Longrightarrow> v \<noteq> [] \<Longrightarrow> CHR 0x0A \<notin> set v \<Longrightarrow> match_setting k (k @ v) = Some v"
  by (cases k) (simp_all add: starts_with_def)

lemma match_setting_no_eq:
  "CHR ''='' \<notin> set l \<Longrightarrow> match_setting (k @ ''='') l = None"
proof (induction l)
  case Nil
  then show ?case by simp
next
  case (Cons c l)
  have "\<not> starts_with (k @ ''='') (c # l)"
  proof
    assume "starts_with (k @ ''='') (c # l)"
    then have "take (length (k @ ''='')) (c # l) = k @ ''=''" by (simp add: starts_with_def)
    then have "CHR ''='' \<in> set (take (length (k @ ''='')) (c # l))" by simp
    with Cons.prems show False by (metis in_set_takeD)
  qed
  with Cons show ?case by simp
qed

lemma cut_at_eq: "CHR ''='' \<notin> set j \<Longrightarrow> takeWhile (\<lambda>c. c \<noteq> CHR ''='') (j @ CHR ''='' # v) = j"
  by (induction j) auto

lemma match_setting_other_key:
  assumes v: "CHR ''='' \<notin> set v" and k: "CHR ''='' \<notin> set k"
    and "CHR ''='' \<notin> set j" and "\<not> suffix k j"
  shows "match_setting (k @ ''='') (j @ CHR ''='' # v) = None"
  using assms(3,4)
proof (induction j)
  case Nil
  then have "k \<noteq> []" by auto
  with k have "\<not> starts_with (k @ ''='') (CHR ''='' # v)"
    by (cases k) (auto simp: starts_with_def)
  with match_setting_no_eq [OF v] show ?case by simp
next
  case (Cons c j)
  have "\<not> starts_with (k @ ''='') (c # j @ CHR ''='' # v)"
  proof
    assume "starts_with (k @ ''='') (c # j @ CHR ''='' # v)"
    then obtain w where "(c # j) @ CHR ''='' # v = k @ CHR ''='' # w"
      unfolding starts_with_def by (metis append.assoc append_Cons append_Nil append_take_drop_id)
    with cut_at_eq [OF Cons.prems(1), of v] cut_at_eq [OF k, of w] have "k = c # j" by metis
    with Cons.prems show False by simp
  qed
  moreover have "match_setting (k @ ''='') (j @ CHR ''='' # v) = None"
  proof (rule Cons.IH)
    show "CHR ''='' \<notin> set j" using Cons.prems(1) by simp
    show "\<not> suffix k j" by (rule contrapos_nn [OF Cons.prems(2) suffix_ConsI])
  qed
  ultimately show ?case by simp
qed

section \<open>Properties\<close>

definition plain_setting :: "string \<Rightarrow> bool" where
  "plain_setting v \<longleftrightarrow> v \<noteq> [] \<and> CHR 0x0A \<notin> set v \<and> list_all is_ascii v"

lemma aws_creds_read_back:
  assumes i: "plain_setting i" "CHR ''='' \<notin> set i" and s: "plain_setting s"
  shows "aws_creds_of (Some (aws_cloud (Some i) (Some s))) = \<lparr>aw_accessKeyID = Some i, aw_accessKeySecret = Some s\<rparr>"
proof -
  let ?ik = "''aws_access_key_id=''" and ?sk = "''aws_secret_access_key=''"
  have tx: "aws_cloud (Some i) (Some s) = ''[default]'' @ CHR 0x0A # (?ik @ i) @ CHR 0x0A # (?sk @ s)"
    by (simp add: aws_cloud_def lines_text_def tmpl_def)
  have skip: "match_setting (k @ ''='') ''[default]'' = None" for k by (rule match_setting_no_eq) simp
  have step: "match_setting k (aws_cloud (Some i) (Some s)) =
        (case match_setting k (?ik @ i) of Some v \<Rightarrow> Some v | None \<Rightarrow> match_setting k (?sk @ s))"
    if k: "match_setting k ''[default]'' = None" "CHR 0x0A \<notin> set k" "k \<noteq> []" for k
  proof -
    have nl: "CHR 0x0A \<notin> set ''[default]''" "CHR 0x0A \<notin> set (?ik @ i)" using i(1) by (simp_all add: plain_setting_def)
    show ?thesis
      unfolding tx match_setting_lines [OF k(2) nl(1)] k(1) option.case match_setting_newline [OF k(2,3)]
        match_setting_lines [OF k(2) nl(2)] ..
  qed
  have "match_setting ?ik (?ik @ i) = Some i" "match_setting ?sk (?sk @ s) = Some s"
    using i s by (auto intro!: match_setting_own simp: plain_setting_def simp del: match_setting.simps append.simps)
  moreover have "match_setting (''aws_secret_access_key'' @ ''='') (''aws_access_key_id'' @ CHR ''='' # i) = None"
    by (rule match_setting_other_key) (use i(2) in \<open>simp_all add: suffix_def\<close>)
  ultimately show ?thesis
    using step [of ?ik] step [of ?sk] skip [of "''aws_access_key_id''"] skip [of "''aws_secret_access_key''"]
    by (simp add: aws_creds_of_def del: match_setting.simps)
qed

text \<open>The server of Kubernetes answers a read of a secret just written with its text in base64.\<close>

definition reads_back :: "'k core \<Rightarrow> kube_secret \<Rightarrow> 'k \<Rightarrow> bool" where
  "reads_back core s k \<longleftrightarrow>
     (case core ''read'' (sc_name s) JUndef (write_secret core s k) of
        (CoreOk r, k') \<Rightarrow> k' = write_secret core s k \<and>
          js_gets (rsp_body r) [''data'', ''cloud''] = Inr (JStr (base64Encode (sc_cloud s)))
      | _ \<Rightarrow> False)"


text \<open>A server that keeps secrets by name, as the package sees it.\<close>

definition example_core :: "(string \<Rightarrow> jsval option) core" where
  "example_core method name body k =
     (if method = ''read'' then
        (case k name of None \<Rightarrow> CoreFail (Some 404) | Some b \<Rightarrow> CoreOk \<lparr>rsp_status = 200, rsp_body = b\<rparr>, k)
      else if method = ''delete'' then (CoreOk \<lparr>rsp_status = 200, rsp_body = JUndef\<rparr>, k(name := None))
      else (CoreOk \<lparr>rsp_status = 201, rsp_body = JUndef\<rparr>,
        k(name := Some (JObj [(''data'', JObj [(''cloud'',
          case js_gets body [''stringData'', ''cloud''] of Inr (JStr s) \<Rightarrow> JStr (base64Encode s) | _ \<Rightarrow> JUndef)])]))))"

definition example_aws :: SnapshotStoreS3AWS where
  "example_aws = \<lparr>s3_region = ''us-east-1'', s3_accessKeyID = None, s3_accessKeySecret = None\<rparr>"

lemma example_core_reads_back:
  "reads_back example_core \<lparr>sc_name = n, sc_namespace = ns, sc_cloud = c\<rparr> (\<lambda>_. None)"
  by (auto simp: reads_back_def write_secret_def call_logged_def example_core_def secret_body_def split: option.splits)


end
