(* ===== verification/Snapshots.thy ===== *)
theory Snapshots
  imports SnapshotTTL SnapshotLocations Registry ClusterStore
begin

text \<open>
  Snapshots of an application: the store of scheduled snapshots (\<^verbatim>\<open>api/src/snapshots/snapshots_store.ts\<close>),
  the backup that is made (\<^verbatim>\<open>backup.ts\<close>), the resolvers that change and show the settings and the details
  (\<^verbatim>\<open>resolvers/snapshot_mutations.ts\<close>, \<^verbatim>\<open>snapshot_queries.ts\<close>), and the turn of the scheduler for one
  application (\<^verbatim>\<open>schedule.ts\<close>).

  The state is the database and the cluster.  Rendering a template, YAML, cron expressions, the download of a log
  and the packages for sizes and times are the services of \<open>snap_env\<close>; random ids and the time of a call are
  arguments.
\<close>

record 'k world =
  w_db :: db
  w_k8s :: 'k

definition onDb :: "(db, 'a) eff \<Rightarrow> ('k world, 'a) eff" where
  "onDb m = (\<lambda>w. case m (w_db w) of (r, d) \<Rightarrow> (r, w\<lparr>w_db := d\<rparr>))"

definition onK8s :: "('k, 'a) eff \<Rightarrow> ('k world, 'a) eff" where
  "onK8s m = (\<lambda>w. case m (w_k8s w) of (r, k) \<Rightarrow> (r, w\<lparr>w_k8s := k\<rparr>))"

record 'k snap_env =
  se_http :: "'k http"
  se_render :: "KotsApp \<Rightarrow> string option \<Rightarrow> KotsAppRegistryDetails \<Rightarrow> string result"
  se_safeLoad :: "string \<Rightarrow> jsval result"
  se_environ :: "string \<Rightarrow> string option"
  se_enc :: cipher
  se_dec :: cipher
  se_key :: string
  se_sha256 :: "string \<Rightarrow> string"
  se_cron_next :: "string \<Rightarrow> time \<Rightarrow> time result"
  se_cron_ok :: "string \<Rightarrow> bool"
  se_fetch :: "jsval \<Rightarrow> string result"
  se_logfmt :: "string \<Rightarrow> log_line"
  se_json :: "string \<Rightarrow> jsval result"
  se_prettyBytes :: "int option \<Rightarrow> string result"
  se_elapsed :: "jsval \<Rightarrow> int option"

section \<open>Scheduled snapshots\<close>

record ScheduledSnapshot =
  ss_id :: string
  ss_appId :: string
  ss_scheduledTimestamp :: time

definition pending_snapshot :: "string \<Rightarrow> scheduled_snapshots_row \<Rightarrow> bool" where
  "pending_snapshot appId r \<longleftrightarrow> sn_app_id r = appId \<and> sn_backup_name r = None"

definition getKotsBackupSpec :: "string \<Rightarrow> int \<Rightarrow> db \<Rightarrow> string option result" where
  "getKotsBackupSpec appId s d =
     (case app_version_at appId s d of
        None \<Rightarrow> Inl (ReplicatedError (''Unable to find Backup Spec with appId '' @ appId @ '' for sequence '' @ show_int s))
      | Some r \<Rightarrow> Inr (av_backup_spec r))"

definition listPendingScheduledSnapshots :: "string \<Rightarrow> db \<Rightarrow> ScheduledSnapshot list" where
  "listPendingScheduledSnapshots appId d =
     map (\<lambda>r. \<lparr>ss_id = sn_id r, ss_appId = appId, ss_scheduledTimestamp = sn_scheduled_timestamp r\<rparr>)
       (sql_select (pending_snapshot appId) (t_scheduled_snapshots d))"

definition deletePendingScheduledSnapshots :: "string \<Rightarrow> db \<Rightarrow> db" where
  "deletePendingScheduledSnapshots appId d =
     d\<lparr>t_scheduled_snapshots := sql_delete (pending_snapshot appId) (t_scheduled_snapshots d)\<rparr>"

text \<open>Outside of concurrent transactions the row is locked when it exists.\<close>

definition lockScheduledSnapshot :: "string \<Rightarrow> db \<Rightarrow> bool" where
  "lockScheduledSnapshot i d \<longleftrightarrow> sql_select (\<lambda>r. sn_id r = i) (t_scheduled_snapshots d) \<noteq> []"

definition updateScheduledSnapshot :: "string \<Rightarrow> string \<Rightarrow> db \<Rightarrow> db" where
  "updateScheduledSnapshot i backupName d =
     d\<lparr>t_scheduled_snapshots := sql_update (\<lambda>r. sn_id r = i) (\<lambda>r. r\<lparr>sn_backup_name := Some backupName\<rparr>)
         (t_scheduled_snapshots d)\<rparr>"

definition createScheduledSnapshot :: "ScheduledSnapshot \<Rightarrow> (db, unit) eff" where
  "createScheduledSnapshot ss d =
     (case sql_insert sn_id \<lparr>sn_id = ss_id ss, sn_app_id = ss_appId ss,
              sn_scheduled_timestamp = ss_scheduledTimestamp ss, sn_backup_name = None\<rparr> (t_scheduled_snapshots d) of
        Inl e \<Rightarrow> (Inl e, d)
      | Inr t \<Rightarrow> (Inr (), d\<lparr>t_scheduled_snapshots := t\<rparr>))"

definition nextScheduled :: "'k snap_env \<Rightarrow> time \<Rightarrow> string \<Rightarrow> string \<Rightarrow> string \<Rightarrow> ScheduledSnapshot result" where
  "nextScheduled env now newId appId cronExpression =
     bindR (se_cron_next env cronExpression now) (\<lambda>t.
       Inr \<lparr>ss_id = newId, ss_appId = appId, ss_scheduledTimestamp = t\<rparr>)"

section \<open>Making a backup\<close>

definition getK8sNamespace :: "(string \<Rightarrow> string option) \<Rightarrow> string" where
  "getK8sNamespace environ =
     (if truthy_str (environ ''DEV_NAMESPACE'') then str_or_empty (environ ''DEV_NAMESPACE'')
      else if truthy_str (environ ''POD_NAMESPACE'') then str_or_empty (environ ''POD_NAMESPACE'')
      else ''default'')"

definition getKotsadmNamespace :: "(string \<Rightarrow> string option) \<Rightarrow> string" where
  "getKotsadmNamespace environ =
     (if truthy_str (environ ''POD_NAMESPACE'') then str_or_empty (environ ''POD_NAMESPACE'') else ''default'')"

definition lodash_compact :: "jsval \<Rightarrow> jsval list" where
  "lodash_compact v = filter truthy (case v of JArr xs \<Rightarrow> xs | JStr s \<Rightarrow> map (\<lambda>c. JStr [c]) s | _ \<Rightarrow> [])"

definition backup_name :: "bool \<Rightarrow> time \<Rightarrow> string" where
  "backup_name scheduled now = (if scheduled then ''scheduled-'' else ''manual-'') @ show_int now"

definition backup_namespaces :: "(string \<Rightarrow> string option) \<Rightarrow> jsval \<Rightarrow> jsval list" where
  "backup_namespaces environ included =
     (let namespaces = lodash_compact included in
      if namespaces = [] then [JStr (getK8sNamespace environ)] else namespaces)"

definition backup_object ::
  "(string \<Rightarrow> string option) \<Rightarrow> string \<Rightarrow> bool \<Rightarrow> KotsApp \<Rightarrow> int \<Rightarrow> string \<Rightarrow> jsval \<Rightarrow> jsval list \<Rightarrow> jsval" where
  "backup_object environ name scheduled app s clusterId hooks namespaces =
     JObj [(''apiVersion'', JStr ''velero.io/v1''), (''kind'', JStr ''Backup''),
       (''metadata'', JObj [(''name'', JStr name),
          (''labels'', JObj [(kotsAppSlugKey, JStr (ka_slug app))]),
          (''annotations'', JObj [(snapshotTriggerKey, JStr (if scheduled then ''schedule'' else ''manual'')),
             (kotsAppSlugKey, JStr (ka_slug app)), (kotsAppIdKey, JStr (ka_id app)),
             (kotsAppSequenceKey, JStr (show_int s)), (kotsClusterIdKey, JStr clusterId)])]),
       (''spec'', JObj ([(''hooks'', hooks), (''includedNamespaces'', JArr namespaces),
          (''ttl'', JStr (ka_snapshotTTL app)), (''storageLocation'', JStr (ka_slug app))] @
          (if JStr (getKotsadmNamespace environ) \<in> set namespaces
           then [(''labelSelector'', JObj [(''matchExpressions'', JArr [JObj [(''key'', JStr kotsadmLabelKey),
                   (''operator'', JStr ''NotIn''), (''values'', JArr [JStr ''kotsadm''])]])])]
           else [])))]"

definition backup :: "'k snap_env \<Rightarrow> time \<Rightarrow> string \<Rightarrow> bool \<Rightarrow> ('k world, jsval) eff" where
  "backup env now appId scheduled =
     bindE (onDb (queryE (getApp appId))) (\<lambda>app.
     bindE (onDb (getAppRegistryDetails (se_enc env) (se_dec env) (se_key env) appId False)) (\<lambda>registryInfo.
     bindE (onDb (queryE (listClustersForKotsApp (ka_id app)))) (\<lambda>clusters.
       case clusters of
         [cluster] \<Rightarrow>
           bindE (onDb (queryE (getCurrentVersion appId (c_id cluster)))) (\<lambda>deployedVersion.
             case deployedVersion of
               None \<Rightarrow> throwE (ReplicatedError ''App does not have a deployed version'')
             | Some v \<Rightarrow>
                 bindE (onDb (queryE (getKotsBackupSpec appId (kv_sequence v)))) (\<lambda>tmpl.
                 bindE (liftR (se_render env app tmpl registryInfo)) (\<lambda>rendered.
                 bindE (liftR (se_safeLoad env rendered)) (\<lambda>base.
                 bindE (liftR (js_and base (\<lambda>b. js_get b ''spec''))) (\<lambda>baseSpec.
                   (let spec = (if truthy baseSpec then baseSpec else JObj []) in
                   bindE (liftR (js_get spec ''includedNamespaces'')) (\<lambda>included.
                   bindE (liftR (js_get spec ''hooks'')) (\<lambda>hooks.
                   bindE (onK8s (maybeCreateAppBackend (se_http env) ''velero'' (ka_slug app))) (\<lambda>_.
                     (let b = backup_object (se_environ env) (backup_name scheduled now) scheduled app
                                (kv_sequence v) (c_id cluster) hooks (backup_namespaces (se_environ env) included) in
                      thenE (onK8s (createBackup (se_http env) ''velero'' b)) (retE b)))))))))))
       | _ \<Rightarrow> throwE (ReplicatedError ''Must have exactly 1 cluster for backup''))))"

section \<open>The scheduler\<close>

text \<open>The statements sent on the client of the transaction write this one table; a rollback takes
  them back, and keeps what was written through other connections.\<close>

definition snapshot_transaction :: "('k world, 'a) eff \<Rightarrow> ('k world, 'a) eff" where
  "snapshot_transaction m w =
     (case m w of
        (Inl e, w') \<Rightarrow> (Inl e, w'\<lparr>w_db := (w_db w')\<lparr>t_scheduled_snapshots := t_scheduled_snapshots (w_db w)\<rparr>\<rparr>)
      | (Inr x, w') \<Rightarrow> (Inr x, w'))"

definition run_scheduled ::
  "'k snap_env \<Rightarrow> time \<Rightarrow> string \<Rightarrow> KotsApp \<Rightarrow> ScheduledSnapshot \<Rightarrow> nat \<Rightarrow> ('k world, unit) eff" where
  "run_scheduled env now newId app next pending =
     bindE (onDb (queryE (\<lambda>d. Inr (lockScheduledSnapshot (ss_id next) d)))) (\<lambda>acquiredLock.
       if \<not> acquiredLock then retE ()
       else bindE (backup env now (ka_id app) True) (\<lambda>b.
            bindE (liftR (js_gets b [''metadata'', ''name''])) (\<lambda>name.
            thenE (onDb (execE (updateScheduledSnapshot (ss_id next) (js_to_string name))))
            (thenE (if pending > 1 then onDb (execE (deletePendingScheduledSnapshots (ka_id app))) else retE ())
            (bindE (liftR (nextScheduled env now newId (ka_id app) (str_or_empty (ka_snapshotSchedule app)))) (\<lambda>queued.
              onDb (createScheduledSnapshot queued)))))))"

definition handleApp :: "'k snap_env \<Rightarrow> time \<Rightarrow> string \<Rightarrow> KotsApp \<Rightarrow> ('k world, unit) eff" where
  "handleApp env now newId app =
     (if \<not> truthy_str (ka_snapshotSchedule app) then retE ()
      else bindE (onDb (queryE (\<lambda>d. Inr (listPendingScheduledSnapshots (ka_id app) d)))) (\<lambda>pending.
        case pending of
          [] \<Rightarrow> bindE (liftR (nextScheduled env now newId (ka_id app) (str_or_empty (ka_snapshotSchedule app))))
                  (\<lambda>queued. onDb (createScheduledSnapshot queued))
        | next # _ \<Rightarrow>
            if ss_scheduledTimestamp next > now then retE ()
            else bindE (onK8s (hasUnfinishedBackup (se_http env) ''velero'' (ka_id app))) (\<lambda>hasUnfinished.
              if hasUnfinished then retE ()
              else snapshot_transaction (run_scheduled env now newId app next (length pending)))))"

definition scheduleLoop :: "'k snap_env \<Rightarrow> time \<Rightarrow> (string \<Rightarrow> string) \<Rightarrow> ('k world, unit) eff" where
  "scheduleLoop env now ids =
     catchE (bindE (onDb (queryE listApps)) (\<lambda>apps.
         thenE (forE (\<lambda>app. if truthy_str (ka_restoreInProgressName app) then retE ()
                            else handleApp env now (ids (ka_id app)) app) apps) (retE ())))
       (\<lambda>_. retE ())"

section \<open>Settings\<close>

record snapshot_args =
  sa_appId :: string
  sa_inputValue :: int
  sa_inputTimeUnit :: string
  sa_schedule :: string
  sa_autoEnabled :: bool

definition saveSnapshotConfig :: "'k snap_env \<Rightarrow> time \<Rightarrow> string \<Rightarrow> snapshot_args \<Rightarrow> (db, unit) eff" where
  "saveSnapshotConfig env now newId args =
     bindE (queryE (getApp (sa_appId args))) (\<lambda>app.
     bindE (liftR (formatTTL (show_int (sa_inputValue args)) (sa_inputTimeUnit args))) (\<lambda>retention.
     thenE (execE (if ka_snapshotTTL app \<noteq> retention then updateAppSnapshotTTL (sa_appId args) retention else id))
     (if \<not> sa_autoEnabled args
      then thenE (execE (updateAppSnapshotSchedule (ka_id app) None))
             (execE (deletePendingScheduledSnapshots (ka_id app)))
      else if \<not> se_cron_ok env (sa_schedule args)
      then throwE (ReplicatedError (''Invalid snapshot schedule: '' @ sa_schedule args))
      else if length (js_split CHR '' '' (sa_schedule args)) > 5
      then throwE (ReplicatedError ''Snapshot schedule expression does not support seconds or years'')
      else if Some (sa_schedule args) \<noteq> ka_snapshotSchedule app
      then thenE (execE (deletePendingScheduledSnapshots (ka_id app)))
           (thenE (execE (updateAppSnapshotSchedule (ka_id app) (Some (sa_schedule args))))
           (bindE (liftR (nextScheduled env now newId (ka_id app) (sa_schedule args))) createScheduledSnapshot))
      else retE ())))"

record SnapshotConfig =
  cf_autoEnabled :: bool
  cf_schedule :: string
  cf_inputValue :: string
  cf_inputTimeUnit :: string
  cf_converted :: string

definition snapshotConfig :: "string \<Rightarrow> db \<Rightarrow> SnapshotConfig result" where
  "snapshotConfig slug d =
     bindR (getIdFromSlug slug d) (\<lambda>appId.
     bindR (getApp appId d) (\<lambda>app.
     bindR (if ka_snapshotTTL app \<noteq> []
            then bindR (parseTTL (ka_snapshotTTL app)) (\<lambda>p.
              Inr (show_int (int (ttl_quantity p)), ttl_unit p, ka_snapshotTTL app))
            else Inr (''1'', ''month'', ''720h'')) (\<lambda>(v, u, converted).
       Inr \<lparr>cf_autoEnabled = truthy_str (ka_snapshotSchedule app),
            cf_schedule = (if truthy_str (ka_snapshotSchedule app) then str_or_empty (ka_snapshotSchedule app)
                           else ''0 0 * * MON''),
            cf_inputValue = v, cf_inputTimeUnit = u, cf_converted = converted\<rparr>)))"

section \<open>Details\<close>

text \<open>A log that does not parse throws in the callback that unpacks it.\<close>

definition getBackupLogs :: "'k snap_env \<Rightarrow> time \<Rightarrow> string \<Rightarrow> ('k, ParsedBackupLogs) eff" where
  "getBackupLogs env now name =
     bindE (getDownloadURL (se_http env) ''velero'' (se_sha256 env) now ''BackupLog'' name) (\<lambda>url.
     bindE (liftR (se_fetch env url)) (\<lambda>buf.
       case parseBackupLogs (se_logfmt env) buf of Inl _ \<Rightarrow> throwE Uncaught | Inr logs \<Rightarrow> retE logs))"

definition getRestoreResults :: "'k snap_env \<Rightarrow> time \<Rightarrow> string \<Rightarrow> ('k, jsval) eff" where
  "getRestoreResults env now name =
     bindE (getDownloadURL (se_http env) ''velero'' (se_sha256 env) now ''RestoreResults'' name) (\<lambda>url.
     bindE (liftR (se_fetch env url)) (\<lambda>buf.
       case se_json env buf of Inl _ \<Rightarrow> throwE Uncaught | Inr v \<Rightarrow> retE v))"

record SnapshotDetail =
  sd_snapshot :: Snapshot
  sd_namespaces :: jsval
  sd_volumes :: "pod_volume list"
  sd_errors :: "SnapshotError list"
  sd_hooks :: "SnapshotHook list option"
  sd_warnings :: "SnapshotError list option"

definition caught_logs :: "('k, ParsedBackupLogs) eff \<Rightarrow> ('k, ParsedBackupLogs option) eff" where
  "caught_logs m = catchE (bindE m (\<lambda>l. retE (Some l))) (\<lambda>e. if e = Uncaught then throwE e else retE None)"

definition getSnapshotDetail :: "'k snap_env \<Rightarrow> time \<Rightarrow> string \<Rightarrow> ('k, SnapshotDetail) eff" where
  "getSnapshotDetail env now name =
     bindE (velero_request (se_http env) ''velero'' ''GET'' (''backups/'' @ name) JUndef) (\<lambda>b.
     bindE (snapshotFromBackup (se_http env) ''velero'' (se_sha256 env) (se_prettyBytes env) b) (\<lambda>snapshot.
     bindE (velero_request (se_http env) ''velero'' ''GET''
       (label_query ''podvolumebackups'' (''velero.io/backup-name='' @ getValidName (se_sha256 env) name)) JUndef) (\<lambda>volumeList.
     bindE (liftR (bindR (js_get volumeList ''items'') (\<lambda>items.
       mapR (snapshot_volume (se_prettyBytes env) (se_elapsed env)) (lodash_elems items)))) (\<lambda>volumes.
     bindE (if sh_status snapshot \<in> {JStr ''Completed'', JStr ''PartiallyFailed'', JStr ''Failed''}
            then caught_logs (getBackupLogs env now name) else retE None) (\<lambda>logs.
     bindE (liftR (js_gets b [''status'', ''validationErrors''])) (\<lambda>validationErrors.
     bindE (liftR (js_gets b [''spec'', ''includedNamespaces''])) (\<lambda>namespaces.
       retE \<lparr>sd_snapshot = snapshot, sd_namespaces = namespaces, sd_volumes = volumes,
             sd_errors = (case logs of None \<Rightarrow> [] | Some l \<Rightarrow> pl_errors l) @
               map (\<lambda>m. \<lparr>er_title = JStr ''Validation Error'', er_message = m\<rparr>) (lodash_elems validationErrors),
             sd_hooks = map_option pl_execs logs, sd_warnings = map_option pl_warnings logs\<rparr>)))))))"

record restore_message =
  rm_title :: "string option"
  rm_message :: jsval
  rm_namespace :: "string option"

record RestoreDetail =
  rd_name :: string
  rd_active :: bool
  rd_phase :: jsval
  rd_volumes :: "RestoreVolume list"
  rd_errors :: "restore_message list"
  rd_warnings :: "restore_message list"

text \<open>The messages of every namespace, in the order of the object.\<close>

definition namespace_messages :: "jsval \<Rightarrow> restore_message list" where
  "namespace_messages v =
     (case v of
        JObj kvs \<Rightarrow> concat (map (\<lambda>(ns, ms). map (\<lambda>m. \<lparr>rm_title = None, rm_message = m, rm_namespace = Some ns\<rparr>)
           (lodash_elems ms)) kvs)
      | _ \<Rightarrow> [])"

definition restore_status :: "jsval \<Rightarrow> jsval result" where
  "restore_status r = status_of r"

definition restoreDetail :: "'k snap_env \<Rightarrow> time \<Rightarrow> string \<Rightarrow> string \<Rightarrow> ('k world, RestoreDetail) eff" where
  "restoreDetail env now appId name =
     bindE (onDb (queryE (getApp appId))) (\<lambda>app.
     (let active = truthy_str (ka_restoreInProgressName app) \<and> ka_restoreInProgressName app = Some name in
      bindE (onK8s (velero_readRestore (se_http env) ''velero'' name)) (\<lambda>restore.
        case (case restore of Some r \<Rightarrow> if truthy r then Some r else None | None \<Rightarrow> None) of
          None \<Rightarrow>
            if ka_restoreUndeployStatus app = Some ''failed''
            then thenE (onDb (execE (updateAppRestoreReset appId)))
              (retE \<lparr>rd_name = name, rd_active = active, rd_phase = JStr ''Failed'', rd_volumes = [],
                rd_errors = [\<lparr>rm_title = Some ''Restore has failed'', rm_message = JStr ''Please check logs for errors.'',
                             rm_namespace = None\<rparr>], rd_warnings = []\<rparr>)
            else retE \<lparr>rd_name = name, rd_active = active, rd_phase = JStr ''New'', rd_volumes = [],
                       rd_errors = [], rd_warnings = []\<rparr>
        | Some r \<Rightarrow>
            bindE (onK8s (listRestoreVolumes (se_http env) ''velero'' (se_sha256 env) (se_prettyBytes env) (se_elapsed env) name)) (\<lambda>volumes.
            bindE (liftR (restore_status r)) (\<lambda>phase.
              if phase \<in> {JStr ''Completed'', JStr ''PartiallyFailed'', JStr ''Failed''}
              then bindE (onK8s (getRestoreResults env now name)) (\<lambda>results.
                   bindE (liftR (js_gets results [''warnings'', ''namespaces''])) (\<lambda>warnings.
                   bindE (liftR (js_gets results [''errors'', ''namespaces''])) (\<lambda>errors.
                     retE \<lparr>rd_name = name, rd_active = active, rd_phase = phase, rd_volumes = volumes,
                           rd_errors = namespace_messages errors, rd_warnings = namespace_messages warnings\<rparr>)))
              else retE \<lparr>rd_name = name, rd_active = active, rd_phase = phase, rd_volumes = volumes,
                         rd_errors = [], rd_warnings = []\<rparr>)))))"

end
