(* ===== verification/SnapshotSchedule.thy ===== *)
theory SnapshotSchedule
  imports Snapshots
begin

text \<open>
  What the scheduler of snapshots and the form of its settings keep: one pending snapshot for an
  application whose snapshots are scheduled, none for one whose are not, and settings that read back as saved.
\<close>

abbreviation snap_rows :: "'k world \<Rightarrow> scheduled_snapshots_row list" where
  "snap_rows w \<equiv> t_scheduled_snapshots (w_db w)"

abbreviation pending_of :: "string \<Rightarrow> db \<Rightarrow> ScheduledSnapshot list" where
  "pending_of \<equiv> listPendingScheduledSnapshots"

section \<open>A backup writes no scheduled snapshot\<close>

definition keeps_rows :: "scheduled_snapshots_row list \<Rightarrow> 'k world \<Rightarrow> bool" where
  "keeps_rows T w \<longleftrightarrow> snap_rows w = T"

lemma keeps_onK8s [preserve]: "preserves (keeps_rows T) (onK8s m)"
  by (auto simp: preserves_def keeps_rows_def onK8s_def split: prod.splits)

lemma keeps_liftR [preserve]: "preserves I (liftR r)"
  by (simp add: preserves_def liftR_def)

lemma keeps_onDb:
  "preserves (\<lambda>d. t_scheduled_snapshots d = T) m \<Longrightarrow> preserves (keeps_rows T) (onDb m)"
  by (fastforce simp: preserves_def keeps_rows_def onDb_def split: prod.splits)

lemma keeps_onDb_query [preserve]: "preserves (keeps_rows T) (onDb (queryE q))"
  by (intro keeps_onDb preserve)

lemma keeps_registry [preserve]:
  "preserves (keeps_rows T) (onDb (getAppRegistryDetails enc dec key appId m))"
  unfolding getAppRegistryDetails_def migrationEncryptRegistryCredentials_def
  by (intro keeps_onDb) (auto intro!: preserve simp: update_app_def)

lemma keeps_if [preserve]: "preserves I m \<Longrightarrow> preserves I n \<Longrightarrow> preserves I (if b then m else n)"
  by simp

lemma keeps_backup: "preserves (keeps_rows T) (backup env now appId scheduled)"
  unfolding backup_def Let_def
  by (intro preserve | simp only: split: list.split option.split | rule conjI allI impI)+

lemma backup_rows: "backup env now appId scheduled w = (r, w') \<Longrightarrow> snap_rows w' = snap_rows w"
  using preservesD [OF keeps_backup [of "snap_rows w" env now appId scheduled], of w r w'] by (simp add: keeps_rows_def)

section \<open>The table of scheduled snapshots\<close>

lemma pending_update:
  "pending_of appId (updateScheduledSnapshot i n d) = filter (\<lambda>s. ss_id s \<noteq> i) (pending_of appId d)"
proof -
  let ?f = "\<lambda>r. \<lparr>ss_id = sn_id r, ss_appId = appId, ss_scheduledTimestamp = sn_scheduled_timestamp r\<rparr>"
  have "map ?f (sql_select (pending_snapshot appId)
          (sql_update (\<lambda>r. sn_id r = i) (\<lambda>r. r\<lparr>sn_backup_name := Some n\<rparr>) t))
      = filter (\<lambda>s. ss_id s \<noteq> i) (map ?f (sql_select (pending_snapshot appId) t))" for t
    by (induction t) (auto simp: sql_select_def sql_update_def pending_snapshot_def)
  then show ?thesis by (simp add: listPendingScheduledSnapshots_def updateScheduledSnapshot_def)
qed

lemma pending_delete: "pending_of appId (deletePendingScheduledSnapshots appId d) = []"
  by (simp add: listPendingScheduledSnapshots_def deletePendingScheduledSnapshots_def)

lemma pending_create:
  assumes "createScheduledSnapshot q d = (Inr (), d')"
  shows "pending_of (ss_appId q) d' = pending_of (ss_appId q) d @ [q]"
  using assms
  by (auto simp: createScheduledSnapshot_def listPendingScheduledSnapshots_def sql_insert_def sql_select_def
      pending_snapshot_def split: if_splits)

lemma pending_cong: "t_scheduled_snapshots d' = t_scheduled_snapshots d \<Longrightarrow> pending_of a d' = pending_of a d"
  by (simp add: listPendingScheduledSnapshots_def)

lemma pending_lock: "s \<in> set (pending_of a d) \<Longrightarrow> lockScheduledSnapshot (ss_id s) d"
  by (auto simp: listPendingScheduledSnapshots_def lockScheduledSnapshot_def sql_select_def filter_empty_conv)

lemma nextScheduled_app: "nextScheduled env now i a sched = Inr q \<Longrightarrow> ss_appId q = a"
  by (auto simp: nextScheduled_def bindR_eq_Inr)

section \<open>The turn of an application\<close>

text \<open>What \<^verbatim>\<open>handleApp\<close> leaves: the pending snapshots as they were, or the one just queued.\<close>

definition requeued :: "'k snap_env \<Rightarrow> time \<Rightarrow> string \<Rightarrow> KotsApp \<Rightarrow> db \<Rightarrow> bool" where
  "requeued env now newId app d \<longleftrightarrow>
     (\<exists>q. nextScheduled env now newId (ka_id app) (str_or_empty (ka_snapshotSchedule app)) = Inr q \<and>
        pending_of (ka_id app) d = [q])"

lemma queue_next:
  assumes "bindE (liftR (nextScheduled env now newId (ka_id app) (str_or_empty (ka_snapshotSchedule app))))
             (\<lambda>q. onDb (createScheduledSnapshot q)) w = (Inr (), w')"
    and "pending_of (ka_id app) (w_db w) = []"
  shows "requeued env now newId app (w_db w')"
proof -
  from assms(1) obtain q where q: "nextScheduled env now newId (ka_id app) (str_or_empty (ka_snapshotSchedule app)) = Inr q"
    and c: "createScheduledSnapshot q (w_db w) = (Inr (), w_db w')"
    by (auto simp: liftR_def onDb_def eff_simps split: sum.splits prod.splits)
  from pending_create [OF c] assms(2) nextScheduled_app [OF q] q show ?thesis
    by (auto simp: requeued_def)
qed

lemma run_scheduled_requeues:
  assumes "run_scheduled env now newId app next (length (pending_of (ka_id app) (w_db w))) w = (Inr (), w')"
    and "next \<in> set (pending_of (ka_id app) (w_db w))"
  shows "requeued env now newId app (w_db w')"
proof -
  let ?P = "pending_of (ka_id app)"
  have lock: "lockScheduledSnapshot (ss_id next) (w_db w)" by (rule pending_lock [OF assms(2)])
  with assms(1) obtain b w1 name where b: "backup env now (ka_id app) True w = (Inr b, w1)"
    and name: "js_gets b [''metadata'', ''name''] = Inr name"
    by (auto simp: run_scheduled_def liftR_def onDb_def eff_simps split: sum.splits prod.splits)
  let ?d1 = "updateScheduledSnapshot (ss_id next) (js_to_string name) (w_db w1)"
  let ?d2 = "if length (?P (w_db w)) > 1 then deletePendingScheduledSnapshots (ka_id app) ?d1 else ?d1"
  have rest: "bindE (liftR (nextScheduled env now newId (ka_id app) (str_or_empty (ka_snapshotSchedule app))))
             (\<lambda>q. onDb (createScheduledSnapshot q)) (w1\<lparr>w_db := ?d2\<rparr>) = (Inr (), w')"
    using assms(1) lock b name
    by (auto simp: run_scheduled_def liftR_def onDb_def eff_simps split: if_splits)
  have "?P (w_db w1) = ?P (w_db w)" using backup_rows [OF b] by (rule pending_cong)
  then have "?P ?d1 = filter (\<lambda>s. ss_id s \<noteq> ss_id next) (?P (w_db w))" by (simp add: pending_update)
  moreover have "length (?P (w_db w)) > 1 \<or> ?P (w_db w) = [next]"
    using assms(2) by (cases "?P (w_db w)"; cases "tl (?P (w_db w))") auto
  ultimately have "?P ?d2 = []" by (auto simp: pending_delete)
  with queue_next [OF rest] show ?thesis by simp
qed

lemma handleApp_none_pending:
  assumes "truthy_str (ka_snapshotSchedule app)" and "handleApp env now newId app w = (r, w')"
    and "pending_of (ka_id app) (w_db w) = []"
  shows "case r of Inr _ \<Rightarrow> requeued env now newId app (w_db w') | Inl _ \<Rightarrow> snap_rows w' = snap_rows w"
proof -
  have turn: "bindE (liftR (nextScheduled env now newId (ka_id app) (str_or_empty (ka_snapshotSchedule app))))
             (\<lambda>q. onDb (createScheduledSnapshot q)) w = (r, w')"
    using assms by (simp add: handleApp_def onDb_def eff_simps)
  show ?thesis
  proof (cases r)
    case (Inr u)
    with queue_next [of env now newId app w w'] turn assms(3) show ?thesis by simp
  next
    case (Inl e)
    with turn show ?thesis
      by (auto simp: liftR_def onDb_def createScheduledSnapshot_def eff_simps split: sum.splits prod.splits)
  qed
qed


section \<open>The form of the settings\<close>

lemma getApp_row:
  "getApp i d = Inr app \<Longrightarrow> \<exists>row. app_of i d = Some row \<and> app_id row = i \<and> ka_id app = i \<and>
     ka_slug app = app_slug row \<and> ka_snapshotTTL app = app_snapshot_ttl_new row \<and>
     ka_snapshotSchedule app = app_snapshot_schedule row"
  by (auto simp: getApp_def app_of_def row_of_def Let_def find_Some_iff split: option.splits)

lemma getIdFromSlug_update_app:
  assumes "\<And>r. app_id (f r) = app_id r \<and> app_slug (f r) = app_slug r"
  shows "getIdFromSlug slug (update_app i f d) = getIdFromSlug slug d"
proof -
  have "map app_id (sql_select (\<lambda>a. app_slug a = slug) (sql_update (\<lambda>r. app_id r = i) f t))
      = map app_id (sql_select (\<lambda>a. app_slug a = slug) t)" for t
    using assms by (induction t) (auto simp: sql_select_def sql_update_def)
  from this [of "t_app d"] show ?thesis
    by (auto simp: getIdFromSlug_def update_app_def split: list.splits)
qed

text \<open>What reading the settings needs of a database.\<close>

lemma snapshotConfig_row:
  assumes "getIdFromSlug slug d = Inr i" and "app_of i d = Some row"
    and "parseTTL (app_snapshot_ttl_new row) = Inr p" and "app_snapshot_ttl_new row \<noteq> []"
  shows "snapshotConfig slug d = Inr
    \<lparr>cf_autoEnabled = truthy_str (app_snapshot_schedule row),
     cf_schedule = (if truthy_str (app_snapshot_schedule row) then str_or_empty (app_snapshot_schedule row) else ''0 0 * * MON''),
     cf_inputValue = show_int (int (ttl_quantity p)), cf_inputTimeUnit = ttl_unit p,
     cf_converted = app_snapshot_ttl_new row\<rparr>"
  using assms by (auto simp: snapshotConfig_def getApp_def Let_def)

lemma snapshot_table_frame [simp]:
  "t_scheduled_snapshots (update_app i f d) = t_scheduled_snapshots d"
  "app_of i (d\<lparr>t_scheduled_snapshots := t\<rparr>) = app_of i d"
  "getIdFromSlug slug (d\<lparr>t_scheduled_snapshots := t\<rparr>) = getIdFromSlug slug d"
  by (simp_all add: update_app_def app_of_def getIdFromSlug_def)

lemma createScheduledSnapshot_effect:
  assumes "createScheduledSnapshot q d = (Inr (), d')"
  obtains t where "d' = d\<lparr>t_scheduled_snapshots := t\<rparr>"
  using assms that by (auto simp: createScheduledSnapshot_def split: sum.splits)

text \<open>The row the form leaves, and the pending snapshots.\<close>

lemma requeue_effect:
  assumes "nextScheduled env now newId i schedule = Inr q"
    and "createScheduledSnapshot q (updateAppSnapshotSchedule i (Some schedule) (deletePendingScheduledSnapshots i d)) = (Inr (), d')"
  shows "pending_of i d' = [q]" and "app_of j d' = app_of j (updateAppSnapshotSchedule i (Some schedule) d)"
    and "getIdFromSlug slug d' = getIdFromSlug slug d"
proof -
  let ?d2 = "updateAppSnapshotSchedule i (Some schedule) (deletePendingScheduledSnapshots i d)"
  have "pending_of i ?d2 = []"
    using pending_delete [of i d] pending_cong [of ?d2 "deletePendingScheduledSnapshots i d" i]
    by (simp add: updateAppSnapshotSchedule_def)
  then show "pending_of i d' = [q]"
    using pending_create [OF assms(2)] nextScheduled_app [OF assms(1)] by simp
  show "app_of j d' = app_of j (updateAppSnapshotSchedule i (Some schedule) d)" "getIdFromSlug slug d' = getIdFromSlug slug d"
    using assms(2) by (elim createScheduledSnapshot_effect;
        simp add: updateAppSnapshotSchedule_def deletePendingScheduledSnapshots_def getIdFromSlug_update_app)+
qed

lemma saveSnapshotConfig_effect:
  assumes "saveSnapshotConfig env now newId args d = (Inr (), d')"
    and "getApp (sa_appId args) d = Inr app" and "app_of (sa_appId args) d = Some row"
  shows "\<exists>retention. formatTTL (show_int (sa_inputValue args)) (sa_inputTimeUnit args) = Inr retention \<and>
    app_of (sa_appId args) d' = Some (row\<lparr>app_snapshot_ttl_new := retention,
      app_snapshot_schedule := (if sa_autoEnabled args then Some (sa_schedule args) else None)\<rparr>) \<and>
    getIdFromSlug slug d' = getIdFromSlug slug d \<and>
    (\<not> sa_autoEnabled args \<longrightarrow> pending_of (sa_appId args) d' = []) \<and>
    (sa_autoEnabled args \<and> Some (sa_schedule args) \<noteq> ka_snapshotSchedule app \<longrightarrow>
       (\<exists>q. pending_of (sa_appId args) d' = [q]))"
proof -
  let ?i = "sa_appId args"
  obtain retention where ttl: "formatTTL (show_int (sa_inputValue args)) (sa_inputTimeUnit args) = Inr retention"
    using assms(1,2) by (auto simp: saveSnapshotConfig_def liftR_def split: sum.splits)
  have app: "ka_id app = ?i" "ka_snapshotTTL app = app_snapshot_ttl_new row" "ka_snapshotSchedule app = app_snapshot_schedule row"
    using getApp_row [OF assms(2)] assms(3) by auto
  define d1 where "d1 = (if ka_snapshotTTL app \<noteq> retention then updateAppSnapshotTTL ?i retention d else d)"
  have d1: "app_of ?i d1 = Some (row\<lparr>app_snapshot_ttl_new := retention\<rparr>)" "getIdFromSlug slug d1 = getIdFromSlug slug d"
    using assms(3) app by (auto simp: d1_def updateAppSnapshotTTL_def getIdFromSlug_update_app)
  show ?thesis
  proof (cases "sa_autoEnabled args")
    case False
    then have "d' = deletePendingScheduledSnapshots ?i (updateAppSnapshotSchedule ?i None d1)"
      using assms(1,2) ttl app by (auto simp: d1_def saveSnapshotConfig_def liftR_def id_def split: if_splits)
    with False d1 ttl show ?thesis
      by (simp add: pending_delete) (simp add: deletePendingScheduledSnapshots_def updateAppSnapshotSchedule_def
          getIdFromSlug_update_app)
  next
    case True
    show ?thesis
    proof (cases "Some (sa_schedule args) = ka_snapshotSchedule app")
      case same: True
      have "d' = d1" using assms(1,2) ttl True same
        by (auto simp: d1_def saveSnapshotConfig_def liftR_def id_def split: if_splits)
      moreover have "row\<lparr>app_snapshot_ttl_new := retention\<rparr> =
          row\<lparr>app_snapshot_ttl_new := retention, app_snapshot_schedule := Some (sa_schedule args)\<rparr>"
        using same app by (cases row) simp
      ultimately show ?thesis using True same d1 ttl by simp
    next
      case changed: False
      let ?d2 = "updateAppSnapshotSchedule ?i (Some (sa_schedule args)) (deletePendingScheduledSnapshots ?i d1)"
      have "\<exists>q. nextScheduled env now newId ?i (sa_schedule args) = Inr q \<and> createScheduledSnapshot q ?d2 = (Inr (), d')"
        using assms(1,2) ttl app True changed
        by (auto simp: d1_def saveSnapshotConfig_def liftR_def id_def split: if_splits sum.splits)
      then obtain q where q: "nextScheduled env now newId ?i (sa_schedule args) = Inr q" "createScheduledSnapshot q ?d2 = (Inr (), d')"
        by blast
      show ?thesis
        using requeue_effect [OF q] d1 ttl True by (simp add: updateAppSnapshotSchedule_def)
    qed
  qed
qed

text \<open>
  Settings that are saved read back: whether snapshots are scheduled, the schedule, and a retention of the
  same time span.  Saving them leaves no pending snapshot when scheduling is off, and exactly one when the
  schedule changed.
\<close>

theorem snapshot_settings_roundtrip:
  assumes "saveSnapshotConfig env now newId args d = (Inr (), d')" and "getApp (sa_appId args) d = Inr app"
    and "getIdFromSlug (ka_slug app) d = Inr (sa_appId args)"
    and "0 \<le> sa_inputValue args" and "sa_schedule args \<noteq> []"
  shows "\<exists>c p. snapshotConfig (ka_slug app) d' = Inr c \<and>
    cf_autoEnabled c = sa_autoEnabled args \<and> (sa_autoEnabled args \<longrightarrow> cf_schedule c = sa_schedule args) \<and>
    parseTTL (cf_converted c) = Inr p \<and> cf_inputValue c = show_int (int (ttl_quantity p)) \<and>
    cf_inputTimeUnit c = ttl_unit p \<and> ttl_seconds p = sa_inputValue args * unit_seconds (sa_inputTimeUnit args) \<and>
    (\<not> sa_autoEnabled args \<longrightarrow> pending_of (sa_appId args) d' = []) \<and>
    (sa_autoEnabled args \<and> Some (sa_schedule args) \<noteq> ka_snapshotSchedule app \<longrightarrow>
       (\<exists>q. pending_of (sa_appId args) d' = [q]))"
proof -
  obtain row where row: "app_of (sa_appId args) d = Some row" using getApp_row [OF assms(2)] by blast
  from saveSnapshotConfig_effect [OF assms(1,2) row, of "ka_slug app"] obtain retention where
    r: "formatTTL (show_int (sa_inputValue args)) (sa_inputTimeUnit args) = Inr retention"
    and row': "app_of (sa_appId args) d' = Some (row\<lparr>app_snapshot_ttl_new := retention,
      app_snapshot_schedule := (if sa_autoEnabled args then Some (sa_schedule args) else None)\<rparr>)"
    and slug: "getIdFromSlug (ka_slug app) d' = getIdFromSlug (ka_slug app) d"
    and pending: "\<not> sa_autoEnabled args \<longrightarrow> pending_of (sa_appId args) d' = []"
      "sa_autoEnabled args \<and> Some (sa_schedule args) \<noteq> ka_snapshotSchedule app \<longrightarrow> (\<exists>q. pending_of (sa_appId args) d' = [q])"
    by blast
  from ttl_reads_back [OF r _ assms(4)] obtain p where p: "parseTTL retention = Inr p"
    "ttl_seconds p = sa_inputValue args * unit_seconds (sa_inputTimeUnit args)" by auto
  then have "retention \<noteq> []" by (auto simp: parseTTL_def)
  with snapshotConfig_row [of "ka_slug app" d' "sa_appId args", OF _ row'] slug assms(3) p(1)
  have "snapshotConfig (ka_slug app) d' = Inr
    \<lparr>cf_autoEnabled = sa_autoEnabled args,
     cf_schedule = (if sa_autoEnabled args then sa_schedule args else ''0 0 * * MON''),
     cf_inputValue = show_int (int (ttl_quantity p)), cf_inputTimeUnit = ttl_unit p, cf_converted = retention\<rparr>"
    using assms(5) by simp
  with p pending show ?thesis by auto
qed

section \<open>Examples\<close>

definition example_app_row :: app_row where
  "example_app_row = new_app_row ''a'' ''App'' 0 ''app'' ''replicated://app'' ''lic'' False None"

definition example_snap_db :: db where
  "example_snap_db = empty_db\<lparr>t_app := [example_app_row]\<rparr>"

definition example_env :: "unit snap_env" where
  "example_env = \<lparr>se_http = (\<lambda>m p b. retE \<lparr>rsp_status = 200, rsp_body = JObj [(''items'', JArr [])]\<rparr>),
     se_render = (\<lambda>app t r. Inr (str_or_empty t)), se_safeLoad = (\<lambda>s. Inr JNull), se_environ = (\<lambda>_. None),
     se_enc = (\<lambda>k p. Inr p), se_dec = (\<lambda>k p. Inr p), se_key = [], se_sha256 = (\<lambda>s. s),
     se_cron_next = (\<lambda>e now. Inr (now + 60)), se_cron_ok = (\<lambda>e. e \<noteq> []), se_fetch = (\<lambda>_. Inr []),
     se_logfmt = (\<lambda>_. []), se_json = (\<lambda>_. Inl (ExternalError [])), se_prettyBytes = (\<lambda>_. Inr ''0 B''),
     se_elapsed = (\<lambda>_. None)\<rparr>"

definition example_snapshot_args :: snapshot_args where
  "example_snapshot_args = \<lparr>sa_appId = ''a'', sa_inputValue = 2, sa_inputTimeUnit = ''weeks'',
     sa_schedule = ''0 0 * * 0'', sa_autoEnabled = True\<rparr>"

lemma example_snap_app: "\<exists>app. getApp ''a'' example_snap_db = Inr app \<and> ka_slug app = ''app''"
  by (simp add: getApp_def app_of_def row_of_def example_snap_db_def example_app_row_def)

lemma example_saved: "\<exists>d. saveSnapshotConfig example_env 0 ''s'' example_snapshot_args example_snap_db = (Inr (), d)"
  by (simp add: saveSnapshotConfig_def example_snapshot_args_def example_env_def example_snap_db_def example_app_row_def
      getApp_def app_of_def row_of_def new_app_row_def liftR_def formatTTL_def nextScheduled_def createScheduledSnapshot_def
      updateAppSnapshotTTL_def updateAppSnapshotSchedule_def deletePendingScheduledSnapshots_def sql_insert_def
      sql_delete_def empty_db_def)

theorem snapshot_settings_roundtrip_witness:
  "\<exists>d c. saveSnapshotConfig example_env 0 ''s'' example_snapshot_args example_snap_db = (Inr (), d) \<and>
     snapshotConfig ''app'' d = Inr c \<and> cf_autoEnabled c \<and> cf_schedule c = ''0 0 * * 0''"
proof -
  obtain app where app: "getApp ''a'' example_snap_db = Inr app" "ka_slug app = ''app''" using example_snap_app by blast
  obtain d where d: "saveSnapshotConfig example_env 0 ''s'' example_snapshot_args example_snap_db = (Inr (), d)"
    using example_saved by blast
  have "getIdFromSlug ''app'' example_snap_db = Inr ''a''"
    by (simp add: getIdFromSlug_def example_snap_db_def example_app_row_def sql_select_def)
  with snapshot_settings_roundtrip [OF d, of app] app d show ?thesis
    by (auto simp: example_snapshot_args_def)
qed


end
