(* ===== verification/SnapshotRace.thy ===== *)
theory SnapshotRace
  imports SnapshotSchedule
begin

text \<open>
  Several replicas of the API, or a loop that takes longer than its minute, run
  \<^verbatim>\<open>handleApp\<close> of \<^verbatim>\<open>api/src/snapshots/schedule.ts\<close> for the same application at the same time.  The
  steps between two calls that await are the transitions of a replica: it lists the pending
  snapshots, looks for an unfinished backup, locks the row with \<^verbatim>\<open>FOR UPDATE SKIP LOCKED\<close>, makes the
  backup and commits.  A backup carries the row it was made for; Velero finishes backups on its own.
  The writes of a transaction appear when it commits, and wait for rows that another replica has locked.
\<close>

datatype progress =
    Idle
  | Listed "ScheduledSnapshot list"
  | Checked ScheduledSnapshot nat
  | Locked ScheduledSnapshot nat
  | BackedUp ScheduledSnapshot nat string

record made_backup =
  mb_name :: string
  mb_row :: string
  mb_finished :: bool

record replicas =
  rc_db :: db
  rc_backups :: "made_backup list"
  rc_lock :: "string \<rightharpoonup> nat"
  rc_at :: "nat \<Rightarrow> progress"

definition at_progress :: "nat \<Rightarrow> progress \<Rightarrow> replicas \<Rightarrow> replicas" where
  "at_progress r p s = s\<lparr>rc_at := (rc_at s)(r := p)\<rparr>"

definition unfinished :: "replicas \<Rightarrow> bool" where
  "unfinished s \<longleftrightarrow> list_ex (\<lambda>b. \<not> mb_finished b) (rc_backups s)"

text \<open>The writes of the transaction, in their order.\<close>

definition commit_writes :: "string \<Rightarrow> ScheduledSnapshot \<Rightarrow> nat \<Rightarrow> string \<Rightarrow> ScheduledSnapshot \<Rightarrow> (db, unit) eff" where
  "commit_writes a nx pending name queued =
     thenE (execE (updateScheduledSnapshot (ss_id nx) name))
       (thenE (if pending > 1 then execE (deletePendingScheduledSnapshots a) else retE ())
         (createScheduledSnapshot queued))"

definition release :: "ScheduledSnapshot \<Rightarrow> replicas \<Rightarrow> replicas" where
  "release nx s = s\<lparr>rc_lock := (rc_lock s)(ss_id nx := None)\<rparr>"

inductive sched_step :: "string \<Rightarrow> replicas \<Rightarrow> replicas \<Rightarrow> bool" for a where
  step_list: "rc_at s r = Idle \<Longrightarrow> sched_step a s (at_progress r (Listed (pending_of a (rc_db s))) s)"
| step_queue: "rc_at s r = Listed [] \<Longrightarrow> ss_appId q = a \<Longrightarrow> createScheduledSnapshot q (rc_db s) = (Inr (), d) \<Longrightarrow>
    sched_step a s (at_progress r Idle (s\<lparr>rc_db := d\<rparr>))"
| step_later: "rc_at s r = Listed (nx # ps) \<Longrightarrow> ss_scheduledTimestamp nx > now \<Longrightarrow> sched_step a s (at_progress r Idle s)"
| step_check: "rc_at s r = Listed (nx # ps) \<Longrightarrow> ss_scheduledTimestamp nx \<le> now \<Longrightarrow> \<not> unfinished s \<Longrightarrow>
    sched_step a s (at_progress r (Checked nx (length (nx # ps))) s)"
| step_postpone: "rc_at s r = Listed (nx # ps) \<Longrightarrow> unfinished s \<Longrightarrow> sched_step a s (at_progress r Idle s)"
| step_lock: "rc_at s r = Checked nx n \<Longrightarrow> lockScheduledSnapshot (ss_id nx) (rc_db s) \<Longrightarrow> rc_lock s (ss_id nx) = None \<Longrightarrow>
    sched_step a s (at_progress r (Locked nx n) (s\<lparr>rc_lock := (rc_lock s)(ss_id nx \<mapsto> r)\<rparr>))"
| step_skip: "rc_at s r = Checked nx n \<Longrightarrow> rc_lock s (ss_id nx) \<noteq> None \<or> \<not> lockScheduledSnapshot (ss_id nx) (rc_db s) \<Longrightarrow>
    sched_step a s (at_progress r Idle s)"
| step_backup: "rc_at s r = Locked nx n \<Longrightarrow>
    sched_step a s (at_progress r (BackedUp nx n name)
      (s\<lparr>rc_backups := rc_backups s @ [\<lparr>mb_name = name, mb_row = ss_id nx, mb_finished = False\<rparr>]\<rparr>))"
| step_fail: "rc_at s r = Locked nx n \<Longrightarrow> sched_step a s (at_progress r Idle (release nx s))"
| step_rollback: "rc_at s r = BackedUp nx n name \<Longrightarrow> sched_step a s (at_progress r Idle (release nx s))"
| step_commit: "rc_at s r = BackedUp nx n name \<Longrightarrow> ss_appId q = a \<Longrightarrow>
    n > 1 \<Longrightarrow> (\<forall>p \<in> set (pending_of a (rc_db s)). rc_lock s (ss_id p) \<in> {None, Some r}) \<Longrightarrow>
    commit_writes a nx n name q (rc_db s) = (Inr (), d) \<Longrightarrow>
    sched_step a s (at_progress r Idle (release nx (s\<lparr>rc_db := d\<rparr>)))"
| step_commit_one: "rc_at s r = BackedUp nx n name \<Longrightarrow> ss_appId q = a \<Longrightarrow> \<not> n > 1 \<Longrightarrow>
    commit_writes a nx n name q (rc_db s) = (Inr (), d) \<Longrightarrow>
    sched_step a s (at_progress r Idle (release nx (s\<lparr>rc_db := d\<rparr>)))"
| step_finish: "i < length (rc_backups s) \<Longrightarrow>
    sched_step a s (s\<lparr>rc_backups := (rc_backups s)[i := (rc_backups s ! i)\<lparr>mb_finished := True\<rparr>]\<rparr>)"

inductive sched_steps :: "string \<Rightarrow> replicas \<Rightarrow> replicas \<Rightarrow> bool" for a where
  steps_refl: "sched_steps a s s"
| steps_step: "sched_steps a s t \<Longrightarrow> sched_step a t u \<Longrightarrow> sched_steps a s u"

inductive_cases sched_stepE: "sched_step a s t"

section \<open>The lock excludes\<close>

fun holds_row :: "progress \<Rightarrow> string option" where
  "holds_row (Locked nx n) = Some (ss_id nx)"
| "holds_row (BackedUp nx n name) = Some (ss_id nx)"
| "holds_row _ = None"

definition lock_ok :: "replicas \<Rightarrow> bool" where
  "lock_ok s \<longleftrightarrow> (\<forall>r i. holds_row (rc_at s r) = Some i \<longrightarrow> rc_lock s i = Some r)"

lemma at_progress_simps [simp]:
  "rc_at (at_progress r p s) = (rc_at s)(r := p)"
  "rc_db (at_progress r p s) = rc_db s"
  "rc_lock (at_progress r p s) = rc_lock s"
  "rc_backups (at_progress r p s) = rc_backups s"
  by (simp_all add: at_progress_def)

lemma release_simps [simp]:
  "rc_at (release nx s) = rc_at s"
  "rc_db (release nx s) = rc_db s"
  "rc_lock (release nx s) = (rc_lock s)(ss_id nx := None)"
  "rc_backups (release nx s) = rc_backups s"
  by (simp_all add: release_def)

lemma lock_okD: "lock_ok s \<Longrightarrow> holds_row (rc_at s r) = Some i \<Longrightarrow> rc_lock s i = Some r"
  by (simp add: lock_ok_def)

lemma lock_ok_release:
  assumes "lock_ok s" and "holds_row (rc_at s r) = Some (ss_id nx)"
  shows "lock_ok (at_progress r Idle (release nx (s\<lparr>rc_db := d\<rparr>)))"
proof -
  have "rc_lock s i = Some r' \<and> i \<noteq> ss_id nx" if "r' \<noteq> r" "holds_row (rc_at s r') = Some i" for r' i
    using that lock_okD [OF assms(1) that(2)] lock_okD [OF assms] by auto
  then show ?thesis by (simp add: lock_ok_def)
qed

lemma lock_ok_frame:
  assumes "lock_ok s" and "rc_at t = rc_at s" and "rc_lock t = rc_lock s" and "holds_row p = None"
  shows "lock_ok (at_progress r p t)"
  using assms by (auto simp: lock_ok_def)

lemma lock_ok_step: "sched_step a s t \<Longrightarrow> lock_ok s \<Longrightarrow> lock_ok t"
proof (induction rule: sched_step.induct)
  case (step_lock s r nx n)
  then show ?case by (fastforce simp: lock_ok_def)
next
  case (step_backup s r nx n name)
  then show ?case by (force simp: lock_ok_def)
next
  case (step_fail s r nx n)
  then show ?case using lock_ok_release [of s r nx "rc_db s"] by simp
next
  case (step_rollback s r nx n name)
  then show ?case using lock_ok_release [of s r nx "rc_db s"] by simp
next
  case (step_commit s r nx n name q d)
  then show ?case by (intro lock_ok_release) simp_all
next
  case (step_commit_one s r nx n name q d)
  then show ?case by (intro lock_ok_release) simp_all
next
  case (step_finish i s)
  then show ?case by (simp add: lock_ok_def)
qed (erule lock_ok_frame; simp)+

lemma lock_exclusive:
  assumes "sched_steps a s t" and "lock_ok s"
    and "holds_row (rc_at t r) = Some i" and "holds_row (rc_at t r') = Some i"
  shows "r = r'"
proof -
  have "lock_ok t" using assms(1,2) by (induction rule: sched_steps.induct) (auto dest: lock_ok_step)
  with assms(3,4) have "Some r = Some r'" unfolding lock_ok_def by metis
  then show ?thesis by simp
qed

section \<open>It does not prevent a second backup\<close>

definition due_row :: scheduled_snapshots_row where
  "due_row = \<lparr>sn_id = ''p'', sn_app_id = ''a'', sn_scheduled_timestamp = 0, sn_backup_name = None\<rparr>"

definition one_due :: replicas where
  "one_due = \<lparr>rc_db = empty_db\<lparr>t_scheduled_snapshots := [due_row]\<rparr>, rc_backups = [], rc_lock = (\<lambda>_. None),
     rc_at = (\<lambda>_. Idle)\<rparr>"

definition due :: ScheduledSnapshot where
  "due = \<lparr>ss_id = ''p'', ss_appId = ''a'', ss_scheduledTimestamp = 0\<rparr>"

definition queued_by :: "string \<Rightarrow> ScheduledSnapshot" where
  "queued_by i = \<lparr>ss_id = i, ss_appId = ''a'', ss_scheduledTimestamp = 60\<rparr>"

definition queued_row :: "string \<Rightarrow> scheduled_snapshots_row" where
  "queued_row i = \<lparr>sn_id = i, sn_app_id = ''a'', sn_scheduled_timestamp = 60, sn_backup_name = None\<rparr>"

definition rows_db :: "scheduled_snapshots_row list \<Rightarrow> db" where
  "rows_db rows = empty_db\<lparr>t_scheduled_snapshots := rows\<rparr>"

lemmas race_defs = one_due_def due_row_def due_def queued_by_def queued_row_def rows_db_def

lemma pending_due: "pending_of ''a'' (rows_db [due_row]) = [due]"
  by (simp add: race_defs listPendingScheduledSnapshots_def sql_select_def pending_snapshot_def)

text \<open>A replica that has locked the row commits and queues the next snapshot.\<close>

definition handled_row :: "string \<Rightarrow> scheduled_snapshots_row" where
  "handled_row name = due_row\<lparr>sn_backup_name := Some name\<rparr>"

lemma commit_first:
  "commit_writes ''a'' due 1 name (queued_by ''q'') (rows_db [due_row]) =
     (Inr (), rows_db [handled_row name, queued_row ''q''])"
  by (simp add: race_defs handled_row_def commit_writes_def updateScheduledSnapshot_def createScheduledSnapshot_def
      sql_update_def sql_insert_def)

lemma commit_second:
  "commit_writes ''a'' due 1 name (queued_by ''r'') (rows_db [handled_row other, queued_row ''q'']) =
     (Inr (), rows_db [handled_row name, queued_row ''q'', queued_row ''r''])"
  by (simp add: race_defs handled_row_def commit_writes_def updateScheduledSnapshot_def createScheduledSnapshot_def
      sql_update_def sql_insert_def)

lemma lock_due: "lockScheduledSnapshot (ss_id due) (rows_db [due_row])"
  "lockScheduledSnapshot (ss_id due) (rows_db [handled_row n, queued_row i])"
  by (simp_all add: race_defs handled_row_def lockScheduledSnapshot_def sql_select_def)

definition race_state :: "scheduled_snapshots_row list \<Rightarrow> made_backup list \<Rightarrow> (string \<rightharpoonup> nat) \<Rightarrow> (nat \<Rightarrow> progress) \<Rightarrow> replicas" where
  "race_state rows bs l at = \<lparr>rc_db = rows_db rows, rc_backups = bs, rc_lock = l, rc_at = at\<rparr>"

lemma race_state_simps [simp]:
  "rc_db (race_state rows bs l at) = rows_db rows" "rc_backups (race_state rows bs l at) = bs"
  "rc_lock (race_state rows bs l at) = l" "rc_at (race_state rows bs l at) = at"
  "at_progress r p (race_state rows bs l at) = race_state rows bs l (at(r := p))"
  "release nx (race_state rows bs l at) = race_state rows bs (l(ss_id nx := None)) at"
  "(race_state rows bs l at)\<lparr>rc_db := rows_db rows'\<rparr> = race_state rows' bs l at"
  "(race_state rows bs l at)\<lparr>rc_backups := bs'\<rparr> = race_state rows bs' l at"
  "(race_state rows bs l at)\<lparr>rc_lock := l'\<rparr> = race_state rows bs l' at"
  by (simp_all add: race_state_def at_progress_def release_def)

abbreviation backup_of_due :: "string \<Rightarrow> made_backup" where
  "backup_of_due n \<equiv> \<lparr>mb_name = n, mb_row = ''p'', mb_finished = False\<rparr>"

text \<open>One replica runs from the lock to the commit, whatever backups there are.\<close>

lemma lock_backup_commit:
  assumes at: "at r = Checked due 1" and free: "l ''p'' = None"
    and lock: "lockScheduledSnapshot (ss_id due) (rows_db rows)"
    and commit: "commit_writes ''a'' due 1 name (queued_by i) (rows_db rows) = (Inr (), rows_db rows')"
    and s: "sched_steps ''a'' s (race_state rows bs l at)"
  shows "sched_steps ''a'' s (race_state rows' (bs @ [backup_of_due name]) (l(''p'' := None)) (at(r := Idle)))"
proof -
  have id: "ss_id due = ''p''" by (simp add: due_def)
  note s
  moreover have "sched_step ''a'' (race_state rows bs l at) (race_state rows bs (l(''p'' \<mapsto> r)) (at(r := Locked due 1)))"
    using step_lock [of "race_state rows bs l at" r due 1 "''a''"] at lock free id by simp
  moreover have "sched_step ''a'' (race_state rows bs (l(''p'' \<mapsto> r)) (at(r := Locked due 1)))
      (race_state rows (bs @ [backup_of_due name]) (l(''p'' \<mapsto> r)) (at(r := BackedUp due 1 name)))"
    using step_backup [of "race_state rows bs (l(''p'' \<mapsto> r)) (at(r := Locked due 1))" r due 1 "''a''" name] id by simp
  moreover have "sched_step ''a'' (race_state rows (bs @ [backup_of_due name]) (l(''p'' \<mapsto> r)) (at(r := BackedUp due 1 name)))
      (race_state rows' (bs @ [backup_of_due name]) (l(''p'' := None)) (at(r := Idle)))"
    using step_commit_one [of "race_state rows (bs @ [backup_of_due name]) (l(''p'' \<mapsto> r)) (at(r := BackedUp due 1 name))"
        r due 1 name "queued_by i" "''a''" "rows_db rows'"] commit id by (simp add: queued_by_def)
  ultimately show ?thesis by (blast intro: steps_step)
qed

text \<open>
  C14: No two replicas hold the same scheduled snapshot at a time, and yet one snapshot can be backed up
  twice: the lock does not look again whether the row was handled since it was listed.  Two backups are
  made for it and two snapshots are then pending.
\<close>

theorem race_two_backups:
  "(\<nexists>t r r' i. sched_steps ''a'' one_due t \<and> holds_row (rc_at t r) = Some i \<and> holds_row (rc_at t r') = Some i \<and> r \<noteq> r') \<and>
   (\<exists>t. sched_steps ''a'' one_due t \<and>
      length (filter (\<lambda>b. mb_row b = ''p'') (rc_backups t)) = 2 \<and> length (pending_of ''a'' (rc_db t)) = 2)"
proof
  have "lock_ok one_due" by (simp add: lock_ok_def one_due_def)
  then show "\<nexists>t r r' i. sched_steps ''a'' one_due t \<and> holds_row (rc_at t r) = Some i \<and> holds_row (rc_at t r') = Some i \<and> r \<noteq> r'"
    by (blast intro: lock_exclusive)
next
  let ?idle = "\<lambda>_. Idle" and ?l = "\<lambda>_. None"
  let ?at = "(\<lambda>_. Idle)(0 := Checked due 1, 1 := Checked due 1)"
  have init: "one_due = race_state [due_row] [] ?l ?idle" by (simp add: one_due_def race_state_def rows_db_def)
  have listed: "sched_steps ''a'' s (race_state [due_row] [] ?l (at(r := Checked due 1)))"
    if "sched_steps ''a'' s (race_state [due_row] [] ?l at)" "at r = Idle" for s at and r :: nat
  proof -
    have "sched_step ''a'' (race_state [due_row] [] ?l at) (race_state [due_row] [] ?l (at(r := Listed [due])))"
      using step_list [of "race_state [due_row] [] ?l at" r "''a''"] that(2) pending_due by simp
    moreover have "sched_step ''a'' (race_state [due_row] [] ?l (at(r := Listed [due]))) (race_state [due_row] [] ?l (at(r := Checked due 1)))"
      using step_check [of "race_state [due_row] [] ?l (at(r := Listed [due]))" r due "[]" 0 "''a''"]
      by (simp add: unfinished_def due_def)
    ultimately show ?thesis using that(1) by (blast intro: steps_step)
  qed
  have "sched_steps ''a'' one_due (race_state [due_row] [] ?l ?idle)" by (simp only: init steps_refl)
  then have "sched_steps ''a'' one_due (race_state [due_row] [] ?l ((\<lambda>_. Idle)(0 := Checked due 1)))"
    by (rule listed) simp
  then have "sched_steps ''a'' one_due (race_state [due_row] [] ?l ?at)" by (rule listed) simp
  from lock_backup_commit [of ?at 0, OF _ _ lock_due(1) commit_first this, of "''b0''"]
  have "sched_steps ''a'' one_due (race_state [handled_row ''b0'', queued_row ''q''] [backup_of_due ''b0''] ?l (?at(0 := Idle)))"
    by (simp add: fun_upd_def)
  from lock_backup_commit [of "?at(0 := Idle)" 1, OF _ _ lock_due(2) commit_second this, of "''b1''"]
  have "sched_steps ''a'' one_due (race_state [handled_row ''b1'', queued_row ''q'', queued_row ''r'']
      [backup_of_due ''b0'', backup_of_due ''b1''] ?l (?at(0 := Idle, 1 := Idle)))"
    by (simp add: fun_upd_def)
  moreover have "length (pending_of ''a'' (rows_db [handled_row ''b1'', queued_row ''q'', queued_row ''r''])) = 2"
    by (simp add: race_defs handled_row_def listPendingScheduledSnapshots_def sql_select_def pending_snapshot_def)
  ultimately show "\<exists>t. sched_steps ''a'' one_due t \<and>
      length (filter (\<lambda>b. mb_row b = ''p'') (rc_backups t)) = 2 \<and> length (pending_of ''a'' (rc_db t)) = 2"
    by (intro exI conjI) (assumption, simp_all)
qed

end
