(* ===== verification/SnapshotDetails.thy ===== *)
theory SnapshotDetails
  imports SnapshotRace
begin

text \<open>
  The details of a snapshot when something is missing or went wrong: a backup that has no status
  yet, and a log in which a hook reports an error.
\<close>

definition rejects :: "('s, 'a) eff \<Rightarrow> bool" where
  "rejects m \<longleftrightarrow> (\<forall>s. \<exists>e. fst (m s) = Inl e)"

named_theorems rejecting \<open>rules for operations that always reject\<close>

lemma rejects_bindE [rejecting]: "(\<And>x. rejects (f x)) \<Longrightarrow> rejects (bindE m f)"
  unfolding rejects_def bindE_def by (fastforce split: prod.splits sum.splits)

lemma rejects_liftR [rejecting]: "rejects (bindE (liftR (Inl e)) f)"
  by (simp add: rejects_def liftR_def)

lemma rejectsD: "rejects m \<Longrightarrow> \<exists>e s'. m s = (Inl e, s')"
  unfolding rejects_def by (metis prod.collapse)

text \<open>
  A backup that Velero has not begun with has no status: it is listed as new, and its details always
  reject.
\<close>

theorem new_backup_has_no_details:
  assumes "velero_request (se_http env) ''velero'' ''GET'' (''backups/'' @ name) JUndef k = (Inr b, k1)"
    and "js_get b ''status'' = Inr JUndef"
  shows "status_of b = Inr (JStr ''New'') \<and> (\<exists>e k'. getSnapshotDetail env now name k = (Inl e, k'))"
proof
  show "status_of b = Inr (JStr ''New'')" using assms(2) by (simp add: status_of_def)
  have missing: "js_gets b [''status'', ''validationErrors''] = Inl TypeError" using assms(2) by simp
  show "\<exists>e k'. getSnapshotDetail env now name k = (Inl e, k')"
    unfolding getSnapshotDetail_def
    by (subst bindE_apply) (simp only: assms(1) prod.case sum.case missing, intro rejectsD rejecting)
qed

definition fresh_backup :: jsval where
  "fresh_backup = JObj [(''metadata'', JObj [(''name'', JStr ''b'')]), (''spec'', JObj [])]"

theorem new_backup_has_no_details_witness:
  "\<exists>e k'. getSnapshotDetail (example_env\<lparr>se_http := (\<lambda>m p b. retE \<lparr>rsp_status = 200, rsp_body = fresh_backup\<rparr>)\<rparr>)
      0 ''b'' () = (Inl e, k')"
proof -
  let ?env = "example_env\<lparr>se_http := (\<lambda>m p b. retE \<lparr>rsp_status = 200, rsp_body = fresh_backup\<rparr>)\<rparr>"
  have "velero_request (se_http ?env) ''velero'' ''GET'' (''backups/'' @ ''b'') JUndef () = (Inr fresh_backup, ())"
    by (simp add: velero_request_def unhandledRequest_def bindE_apply)
  then show ?thesis using new_backup_has_no_details [of ?env "''b''" "()" fresh_backup "()" 0]
    by (simp add: fresh_backup_def)
qed

text \<open>
  When a hook that is running logs an error, reading the log throws in a callback: the exception is not one
  the details catch, as they do for a log that cannot be fetched.
\<close>

theorem hook_error_is_uncaught:
  assumes "getDownloadURL (se_http env) ''velero'' (se_sha256 env) now ''BackupLog'' name k = (Inr url, k')"
    and "se_fetch env url = Inr buf"
    and "map (\<lambda>s. se_logfmt env (unescape_newline s)) (js_split CHR 0x0A buf) = before @ l # after"
    and "isError l" "isExec l" "\<not> isExecBegin l" "\<not> isExecStdout l" "\<not> isExecStderr l"
    and "b \<in> set before" "isExecBegin b" "execKey b = execKey l"
  shows "caught_logs (getBackupLogs env now name) k = (Inl Uncaught, k')"
proof -
  obtain e where "parseBackupLogs (se_logfmt env) buf = Inl e"
    using hook_error_rejects_log [OF assms(4-11)] assms(3) by (auto simp: parseBackupLogs_def)
  with assms(1,2) show ?thesis
    by (simp add: caught_logs_def getBackupLogs_def catchE_def bindE_apply liftR_def)
qed

text \<open>A cluster whose download is at once ready, and a log of two lines.\<close>

definition log_env :: "unit snap_env" where
  "log_env = example_env\<lparr>
     se_http := (\<lambda>m p b. retE \<lparr>rsp_status = 200,
       rsp_body = JObj [(''status'', JObj [(''downloadURL'', JStr ''https://velero'')])]\<rparr>),
     se_fetch := (\<lambda>_. Inr [CHR ''x'', CHR 0x0A, CHR ''y'']),
     se_logfmt := (\<lambda>s. if s = ''x'' then example_begin else example_error)\<rparr>"

theorem hook_error_is_uncaught_witness:
  "caught_logs (getBackupLogs log_env 0 ''b'') () = (Inl Uncaught, ())"
proof (rule hook_error_is_uncaught [where b = example_begin and before = "[example_begin]" and l = example_error and after = "[]"])
  let ?body = "JObj [(''status'', JObj [(''downloadURL'', JStr ''https://velero'')])]"
  have req: "velero_request (se_http log_env) ns m p b () = (Inr ?body, ())" for ns m p b
    by (simp add: log_env_def velero_request_def unhandledRequest_def bindE_apply)
  have poll: "poll_download (se_http log_env) ns n 30 () = (Inr (Some (JStr ''https://velero'')), ())" for ns n
    by (simp add: numeral_eq_Suc req bindE_apply liftR_def status_field_def js_and_def thenE_apply)
  show "getDownloadURL (se_http log_env) ''velero'' (se_sha256 log_env) 0 ''BackupLog'' ''b'' () = (Inr (JStr ''https://velero''), ())"
    by (simp add: getDownloadURL_def Let_def thenE_apply bindE_apply req poll)
  show "map (\<lambda>s. se_logfmt log_env (unescape_newline s)) (js_split CHR 0x0A [CHR ''x'', CHR 0x0A, CHR ''y''])
      = [example_begin] @ example_error # []"
    by (simp add: log_env_def)
qed (simp_all add: log_env_def log_defs log_examples)

end
