(* ===== verification/Troubleshoot.thy ===== *)
theory Troubleshoot
  imports Deploy FileTree "HOL-Library.Multiset"
begin

text \<open>
  Support bundles: their store (\<^verbatim>\<open>api/src/troubleshoot/troubleshoot_store.ts\<close>), the analyzers that are
  added to those of an application (\<^verbatim>\<open>analyzer.ts\<close>), the analysis (\<^verbatim>\<open>troubleshoot_ffi.ts\<close>), the
  endpoints (\<^verbatim>\<open>controllers/troubleshoot/TroubleshootAPI.ts\<close>), and the loop of
  \<^verbatim>\<open>DeploySocket.ts\<close> that asks the operators to collect one.

  Object storage, YAML, JSON and the native analysis are the services of \<open>bundle_env\<close>.  A
  join that gives several rows gives them in the order of the tables, and the code reads the first.
\<close>

record bundle_env =
  be_json :: "string \<Rightarrow> jsval result"
  be_safeLoad :: "string \<Rightarrow> jsval result"
  be_download :: "string \<Rightarrow> tar_entry list result"
  be_fileSize :: "string \<Rightarrow> int result"
  be_put :: "string \<Rightarrow> unit result"
  be_analyze :: "string \<Rightarrow> jsval \<Rightarrow> string result"
  be_environ :: "string \<Rightarrow> string option"
  be_bucket :: string
  be_bucketEndpoint :: string

section \<open>The store\<close>

record SupportBundleInsight =
  in_key :: jsval
  in_severity :: jsval
  in_primary :: jsval
  in_detail :: jsval
  in_icon :: jsval
  in_iconKey :: jsval
  in_desiredPosition :: jsval

record SupportBundleAnalysis =
  ba_id :: string
  ba_error :: "string option"
  ba_maxSeverity :: "string option"
  ba_insights :: "SupportBundleInsight list"
  ba_createdAt :: time

record SupportBundle =
  bu_id :: string
  bu_slug :: string
  bu_watchId :: string
  bu_name :: "string option"
  bu_size :: "int option"
  bu_status :: string
  bu_treeIndex :: "string option"
  bu_createdAt :: time
  bu_uploadedAt :: "time option"
  bu_isArchived :: "bool option"
  bu_kotsLicenseType :: jsval
  bu_analysis :: "SupportBundleAnalysis option"
  bu_watchSlug :: "string option"
  bu_watchName :: "string option"

text \<open>The version an application is at, joined to it.\<close>

definition current_app_version :: "(app_row \<Rightarrow> bool) \<Rightarrow> db \<Rightarrow> app_version_row option" where
  "current_app_version P d =
     (case concat (map (\<lambda>a. sql_select (\<lambda>v. av_app_id v = app_id a \<and> Some (av_sequence v) = app_current_sequence a)
             (t_app_version d)) (sql_select P (t_app d))) of
        [] \<Rightarrow> None | v # _ \<Rightarrow> Some v)"

definition tryGetAnalyzersForKotsApp :: "string \<Rightarrow> db \<Rightarrow> string option" where
  "tryGetAnalyzersForKotsApp i d = Option.bind (current_app_version (\<lambda>a. app_id a = i) d) av_analyzer_spec"

definition tryGetCollectorForKotsSlug :: "string \<Rightarrow> db \<Rightarrow> string option" where
  "tryGetCollectorForKotsSlug slug d = Option.bind (current_app_version (\<lambda>a. app_slug a = slug) d) av_supportbundle_spec"

definition setAnalysisResult :: "string \<Rightarrow> time \<Rightarrow> string \<Rightarrow> string \<Rightarrow> (db, unit) eff" where
  "setAnalysisResult newId now supportBundleId insights d =
     (case sql_insert sa_id \<lparr>sa_id = newId, sa_supportbundle_id = supportBundleId, sa_error = None,
              sa_max_severity = None, sa_insights = Some insights, sa_created_at = now\<rparr> (t_supportbundle_analysis d) of
        Inl e \<Rightarrow> (Inl e, d)
      | Inr t \<Rightarrow> (Inr (), d\<lparr>t_supportbundle_analysis := t\<rparr>))"

definition getLicenseType :: "(string \<Rightarrow> jsval result) \<Rightarrow> string option \<Rightarrow> jsval result" where
  "getLicenseType safeLoad license =
     (if \<not> truthy_str license then Inr (JStr [])
      else bindR (safeLoad (str_or_empty license)) (\<lambda>doc.
           bindR (js_get doc ''spec'') (\<lambda>spec. bindR (js_and spec (\<lambda>s. js_get s ''licenseType'')) (\<lambda>t.
             Inr (if truthy t then t else JStr [])))))"

text \<open>\<open>rand\<close> gives the key of the n-th insight when it has no name.\<close>

definition insight_of :: "string \<Rightarrow> jsval \<Rightarrow> SupportBundleInsight result" where
  "insight_of rand m =
     bindR (js_get m ''name'') (\<lambda>name. bindR (js_get m ''severity'') (\<lambda>severity.
     bindR (js_gets m [''insight'', ''primary'']) (\<lambda>primary. bindR (js_gets m [''insight'', ''detail'']) (\<lambda>detail.
     bindR (js_gets m [''labels'', ''iconUri'']) (\<lambda>icon. bindR (js_gets m [''labels'', ''iconKey'']) (\<lambda>iconKey.
     bindR (js_gets m [''labels'', ''desiredPosition'']) (\<lambda>desired.
       Inr \<lparr>in_key = (if truthy name then name else JStr rand), in_severity = severity, in_primary = primary,
            in_detail = detail, in_icon = icon, in_iconKey = iconKey, in_desiredPosition = desired\<rparr>)))))))"

definition insights_of :: "bundle_env \<Rightarrow> (nat \<Rightarrow> string) \<Rightarrow> string \<Rightarrow> SupportBundleInsight list result" where
  "insights_of env rand marshaled =
     (case be_json env marshaled of
        Inl _ \<Rightarrow> Inr []
      | Inr v \<Rightarrow> bindR (js_iter v) (\<lambda>ms. mapR (\<lambda>(i, m). insight_of (rand i) m) (zip [0..<length ms] ms)))"

definition analysis_of :: "bundle_env \<Rightarrow> (nat \<Rightarrow> string) \<Rightarrow> supportbundle_analysis_row option \<Rightarrow>
    SupportBundleAnalysis option result" where
  "analysis_of env rand r =
     (case r of
        None \<Rightarrow> Inr None
      | Some a \<Rightarrow>
          if truthy_str (sa_insights a)
          then bindR (insights_of env rand (str_or_empty (sa_insights a))) (\<lambda>insights.
            Inr (Some \<lparr>ba_id = sa_id a, ba_error = sa_error a, ba_maxSeverity = sa_max_severity a,
                       ba_insights = insights, ba_createdAt = sa_created_at a\<rparr>))
          else Inr None)"

definition getSupportBundle :: "bundle_env \<Rightarrow> (nat \<Rightarrow> string) \<Rightarrow> string \<Rightarrow> db \<Rightarrow> SupportBundle result" where
  "getSupportBundle env rand i d =
     (case find (\<lambda>b. sb_id b = i) (t_supportbundle d) of
        None \<Rightarrow> Inl (ReplicatedError (''Support Bundle '' @ i @ '' not found''))
      | Some b \<Rightarrow>
          bindR (getLicenseType (be_safeLoad env)
                  (Option.bind (find (\<lambda>v. av_app_id v = sb_watch_id b) (t_app_version d)) av_kots_license)) (\<lambda>licenseType.
          bindR (analysis_of env rand (find (\<lambda>a. sa_supportbundle_id a = i) (t_supportbundle_analysis d))) (\<lambda>analysis.
            Inr \<lparr>bu_id = sb_id b, bu_slug = sb_slug b, bu_watchId = sb_watch_id b, bu_name = sb_name b,
                 bu_size = sb_size b, bu_status = sb_status b, bu_treeIndex = sb_tree_index b,
                 bu_createdAt = sb_created_at b, bu_uploadedAt = sb_uploaded_at b, bu_isArchived = sb_is_archived b,
                 bu_kotsLicenseType = licenseType, bu_analysis = analysis,
                 bu_watchSlug = map_option wa_slug (find (\<lambda>w. wa_id w = sb_watch_id b) (t_watch d)),
                 bu_watchName = map_option app_name (find (\<lambda>a. app_id a = sb_watch_id b) (t_app d))\<rparr>)))"

definition clearPendingSupportBundle :: "string \<Rightarrow> db \<Rightarrow> db" where
  "clearPendingSupportBundle i d = d\<lparr>t_pending_supportbundle := sql_delete (\<lambda>r. ps_id r = i) (t_pending_supportbundle d)\<rparr>"

definition listPendingSupportBundlesForCluster :: "string \<Rightarrow> db \<Rightarrow> pending_supportbundle_row list" where
  "listPendingSupportBundlesForCluster clusterId d = sql_select (\<lambda>r. ps_cluster_id r = clusterId) (t_pending_supportbundle d)"

definition queueSupportBundleCollection :: "string \<Rightarrow> time \<Rightarrow> string \<Rightarrow> string \<Rightarrow> (db, string) eff" where
  "queueSupportBundleCollection newId now appId clusterId d =
     (case sql_insert ps_id \<lparr>ps_id = newId, ps_app_id = appId, ps_cluster_id = clusterId, ps_created_at = now\<rparr>
             (t_pending_supportbundle d) of
        Inl e \<Rightarrow> (Inl e, d)
      | Inr t \<Rightarrow> (Inr newId, d\<lparr>t_pending_supportbundle := t\<rparr>))"

definition supportBundleExists :: "string \<Rightarrow> db \<Rightarrow> bool" where
  "supportBundleExists i d \<longleftrightarrow> length (sql_select (\<lambda>b. sb_id b = i) (t_supportbundle d)) = 1"

definition update_bundle :: "string \<Rightarrow> (supportbundle_row \<Rightarrow> supportbundle_row) \<Rightarrow> db \<Rightarrow> db" where
  "update_bundle i f d = d\<lparr>t_supportbundle := sql_update (\<lambda>b. sb_id b = i) f (t_supportbundle d)\<rparr>"

text \<open>An update returns no rows, so the answer is always false.\<close>

definition assignTreeIndex :: "string \<Rightarrow> string \<Rightarrow> (db, bool) eff" where
  "assignTreeIndex i index d = (Inr False, update_bundle i (\<lambda>b. b\<lparr>sb_tree_index := Some index\<rparr>) d)"

definition listSupportBundles :: "bundle_env \<Rightarrow> (nat \<Rightarrow> string) \<Rightarrow> string \<Rightarrow> db \<Rightarrow> SupportBundle list result" where
  "listSupportBundles env rand appOrWatchId d =
     mapR (\<lambda>b. getSupportBundle env rand (sb_id b) d)
       (sort_key sb_created_at (sql_select (\<lambda>b. sb_watch_id b = appOrWatchId) (t_supportbundle d)))"

definition createSupportBundle ::
  "bundle_env \<Rightarrow> (nat \<Rightarrow> string) \<Rightarrow> string \<Rightarrow> time \<Rightarrow> string \<Rightarrow> int \<Rightarrow> string option \<Rightarrow> (db, SupportBundle) eff" where
  "createSupportBundle env rand newId now appOrWatchId bytes i d =
     (let i' = (if truthy_str i then str_or_empty i else newId) in
      case sql_insert sb_id \<lparr>sb_id = i', sb_slug = i', sb_watch_id = appOrWatchId, sb_name = None, sb_size = Some bytes,
              sb_status = ''pending'', sb_tree_index = None, sb_analysis_id = None, sb_created_at = now,
              sb_uploaded_at = None, sb_is_archived = None\<rparr> (t_supportbundle d) of
        Inl e \<Rightarrow> (Inl e, d)
      | Inr t \<Rightarrow> (let d' = d\<lparr>t_supportbundle := t\<rparr> in (getSupportBundle env rand i' d', d')))"

definition markSupportBundleUploaded :: "time \<Rightarrow> string \<Rightarrow> db \<Rightarrow> db" where
  "markSupportBundleUploaded now i = update_bundle i (\<lambda>b. b\<lparr>sb_status := ''uploaded'', sb_uploaded_at := Some now\<rparr>)"

definition updateSupportBundleStatus :: "string \<Rightarrow> string \<Rightarrow> db \<Rightarrow> db" where
  "updateSupportBundleStatus i st = update_bundle i (\<lambda>b. b\<lparr>sb_status := st\<rparr>)"

definition store_getSupportBundleCommand :: "string option \<Rightarrow> string" where
  "store_getSupportBundleCommand watchSlug =
     newline @ ''    curl https://krew.sh/support-bundle | bash'' @ newline @ ''    kubectl support-bundle '' @
     ''API_ADDRESS/api/v1/troubleshoot'' @ (if truthy_str watchSlug then ''/'' @ str_or_empty watchSlug else []) @
     newline @ ''    ''"

section \<open>Analyzers\<close>

definition getCollectorNamespace :: "(string \<Rightarrow> string option) \<Rightarrow> string" where
  "getCollectorNamespace environ =
     (if truthy_str (environ ''DEV_NAMESPACE'') then str_or_empty (environ ''DEV_NAMESPACE'')
      else if truthy_str (environ ''POD_NAMESPACE'') then str_or_empty (environ ''POD_NAMESPACE'')
      else ''default'')"

definition analyzers_path :: "string list" where
  "analyzers_path = [''spec'', ''analyzers'']"

definition analyzers_or_new :: "jsval \<Rightarrow> jsval" where
  "analyzers_or_new parsedSpec =
     (let a = lodash_get parsedSpec analyzers_path in if truthy a then a else JArr [])"

definition push_analyzer :: "jsval \<Rightarrow> jsval \<Rightarrow> jsval result" where
  "push_analyzer newAnalyzer parsedSpec =
     (case analyzers_or_new parsedSpec of
        JArr xs \<Rightarrow> Inr (lodash_set parsedSpec analyzers_path (JArr (xs @ [newAnalyzer])))
      | _ \<Rightarrow> Inl TypeError)"

definition outcome :: "string \<Rightarrow> string option \<Rightarrow> string \<Rightarrow> jsval" where
  "outcome word condition msg =
     JObj [(word, JObj ((case condition of None \<Rightarrow> [] | Some w \<Rightarrow> [(''when'', JStr w)]) @ [(''message'', JStr msg)]))]"

definition api_replicas_analyzer :: "string \<Rightarrow> jsval" where
  "api_replicas_analyzer namespace =
     JObj [(''deploymentStatus'', JObj [(''name'', JStr ''kotsadm-api''), (''namespace'', JStr namespace),
       (''outcomes'', JArr [outcome ''pass'' (Some ''> 1'') ''At least 2 replicas of the Admin Console API is running and ready'',
          outcome ''warn'' (Some ''= 1'') ''Only 1 replica of the Admin Console API is running and ready'',
          outcome ''pass'' (Some ''= 0'') ''There are no replicas of the Admin Console API running and ready''])])]"

definition operator_replicas_analyzer :: "string \<Rightarrow> jsval" where
  "operator_replicas_analyzer namespace =
     JObj [(''deploymentStatus'', JObj [(''name'', JStr ''kotsadm-operator''), (''namespace'', JStr namespace),
       (''outcomes'', JArr [outcome ''pass'' (Some ''= 1'') ''Exactly 1 replica of the Admin Console Operator is running and ready'',
          outcome ''fail'' None ''There is not exactly 1 replica of the Admin Console Operator running and ready''])])]"

definition no_gvisor_analyzer :: jsval where
  "no_gvisor_analyzer =
     JObj [(''containerRuntime'', JObj [(''outcomes'', JArr
       [outcome ''fail'' (Some ''== gvisor'') ''The Admin Console does not support using the gvisor runtime'',
        outcome ''pass'' None ''A supported container runtime is present on all nodes''])])]"

definition cluster_version_analyzer :: jsval where
  "cluster_version_analyzer =
     JObj [(''clusterVersion'', JObj [(''outcomes'', JArr
       [outcome ''fail'' (Some ''< 1.14.0'') ''The Admin Console requires at least Kubernetes 1.14.0, and recommends 1.16.0'',
        outcome ''warn'' (Some ''< 1.16.0'')
          ''Your cluster meets the minimum required version of Kubernetes, but we recommend using 1.15.0 or later'',
        outcome ''pass'' (Some ''>= 1.16.0'') ''Your cluster meets the recommended and required versions of Kubernetes''])])]"

definition injectAPIReplicasAnalyzer :: "(string \<Rightarrow> string option) \<Rightarrow> jsval \<Rightarrow> jsval result" where
  "injectAPIReplicasAnalyzer environ = push_analyzer (api_replicas_analyzer (getCollectorNamespace environ))"

definition injectOperatorReplicasAnalyzer :: "(string \<Rightarrow> string option) \<Rightarrow> jsval \<Rightarrow> jsval result" where
  "injectOperatorReplicasAnalyzer environ = push_analyzer (operator_replicas_analyzer (getCollectorNamespace environ))"

definition injectNoGvisorAnalyzer :: "jsval \<Rightarrow> jsval result" where
  "injectNoGvisorAnalyzer = push_analyzer no_gvisor_analyzer"

definition injectIfMissingKubernetesVersionAnalyzer :: "jsval \<Rightarrow> jsval result" where
  "injectIfMissingKubernetesVersionAnalyzer parsedSpec =
     bindR (someR (\<lambda>a. bindR (js_get a ''clusterVersion'') (\<lambda>v. Inr (truthy v)))
              (lodash_elems (analyzers_or_new parsedSpec))) (\<lambda>found.
       if found then Inr parsedSpec else push_analyzer cluster_version_analyzer parsedSpec)"

definition default_analyzers :: jsval where
  "default_analyzers =
     JObj [(''apiVersion'', JStr ''troubleshoot.replicated.com/v1beta1''), (''kind'', JStr ''Analyzer''),
       (''metadata'', JObj [(''name'', JStr ''default-analyzers'')]), (''spec'', JObj [(''analyzers'', JArr [])])]"

definition injectKotsAnalyzers :: "(string \<Rightarrow> string option) \<Rightarrow> jsval \<Rightarrow> jsval result" where
  "injectKotsAnalyzers environ parsedSpec =
     bindR (injectAPIReplicasAnalyzer environ (if truthy parsedSpec then parsedSpec else default_analyzers)) (\<lambda>s1.
     bindR (injectOperatorReplicasAnalyzer environ s1) (\<lambda>s2.
     bindR (injectNoGvisorAnalyzer s2) injectIfMissingKubernetesVersionAnalyzer))"

section \<open>The analysis\<close>

definition bundle_key :: "bundle_env \<Rightarrow> string \<Rightarrow> string" where
  "bundle_key env bundleId =
     (if be_bucketEndpoint env \<noteq> [] then be_bucket env @ ''/'' else []) @ ''supportbundles/'' @ bundleId @ ''/supportbundle.tar.gz''"

definition downloadFiles :: "bundle_env \<Rightarrow> string \<Rightarrow> RequestedFile list \<Rightarrow> FilesAsBuffers result" where
  "downloadFiles env bundleId filesWeCareAbout =
     bindR (be_download env (bundle_key env bundleId)) (\<lambda>entries. Inr (unpackFrom (Some entries) (Some filesWeCareAbout)))"

definition generateFileTreeIndex :: "bundle_env \<Rightarrow> string \<Rightarrow> file_node list result" where
  "generateFileTreeIndex env bundleId =
     bindR (downloadFiles env bundleId [\<lparr>rf_path = ''index.json'', rf_matcher = eq_matcher ''index.json''\<rparr>]) (\<lambda>files.
     bindR (index_paths (be_json env) files) (\<lambda>paths. Inr (arrangeIntoTree paths)))"

primrec node_json :: "file_node \<Rightarrow> jsval" where
  "node_json (Node n p cs) = JObj [(''name'', JStr n), (''path'', JStr p), (''children'', JArr (map node_json cs))]"

definition tree_text :: "file_node list \<Rightarrow> string" where
  "tree_text tree = json_stringify (JArr (map node_json tree))"

text \<open>An analysis without a result returns from the callback and settles nothing.\<close>

definition analyzeSupportBundle :: "bundle_env \<Rightarrow> string \<Rightarrow> time \<Rightarrow> string \<Rightarrow> string option \<Rightarrow> (db, bool) eff" where
  "analyzeSupportBundle env newId now supportBundleId analyzerSpec =
     bindE (queryE (\<lambda>_. be_safeLoad env (str_or_empty analyzerSpec))) (\<lambda>parsedSpec.
     bindE (queryE (\<lambda>_. injectKotsAnalyzers (be_environ env) parsedSpec)) (\<lambda>injectedSpec.
       case be_analyze env (bundle_key env supportBundleId) injectedSpec of
         Inl _ \<Rightarrow> retE False
       | Inr analysisResult \<Rightarrow>
           if analysisResult = []
           then thenE (execE (updateSupportBundleStatus supportBundleId ''analysis_error'')) (throwE Unsettled)
           else catchE (thenE (setAnalysisResult newId now supportBundleId analysisResult)
                  (thenE (execE (updateSupportBundleStatus supportBundleId ''analyzed'')) (retE True)))
                (\<lambda>_. retE False)))"

definition performAnalysis ::
  "bundle_env \<Rightarrow> (nat \<Rightarrow> string) \<Rightarrow> string \<Rightarrow> time \<Rightarrow> string \<Rightarrow> string option \<Rightarrow> (db, unit) eff" where
  "performAnalysis env rand newId now supportBundleId analyzers =
     thenE (execE (markSupportBundleUploaded now supportBundleId))
     (thenE (queryE (getSupportBundle env rand supportBundleId))
     (bindE (queryE (\<lambda>_. generateFileTreeIndex env supportBundleId)) (\<lambda>dirTree.
     (thenE (assignTreeIndex supportBundleId (tree_text dirTree))
     (thenE (analyzeSupportBundle env newId now supportBundleId analyzers) (retE ()))))))"

section \<open>The endpoints\<close>

record sent =
  sn_status :: int
  sn_bundle :: "SupportBundle option"

definition bundle_received ::
  "bundle_env \<Rightarrow> (nat \<Rightarrow> string) \<Rightarrow> string \<Rightarrow> time \<Rightarrow> string \<Rightarrow> string \<Rightarrow> (db, SupportBundle) eff" where
  "bundle_received env rand newId now appId supportBundleId =
     thenE (queryE (\<lambda>_. be_put env supportBundleId))
     (bindE (queryE (\<lambda>_. be_fileSize env supportBundleId)) (\<lambda>size.
     (thenE (createSupportBundle env rand newId now appId size (Some supportBundleId))
     (bindE (queryE (\<lambda>d. Inr (tryGetAnalyzersForKotsApp appId d))) (\<lambda>analyzers.
     (thenE (performAnalysis env rand newId now supportBundleId analyzers)
     (queryE (getSupportBundle env rand supportBundleId)))))))) "

text \<open>\<^verbatim>\<open>finally\<close> answers 200 whatever happened, also after the 403, unless nothing settles.\<close>

definition bundleUpload ::
  "bundle_env \<Rightarrow> (nat \<Rightarrow> string) \<Rightarrow> string \<Rightarrow> time \<Rightarrow> string \<Rightarrow> string \<Rightarrow> db \<Rightarrow> (sent list \<times> unit result) \<times> db" where
  "bundleUpload env rand newId now appId supportBundleId d =
     (if supportBundleExists supportBundleId d
      then (([\<lparr>sn_status = 403, sn_bundle = None\<rparr>, \<lparr>sn_status = 200, sn_bundle = None\<rparr>], Inr ()), d)
      else case bundle_received env rand newId now appId supportBundleId d of
        (Inl e, d') \<Rightarrow>
          (if e = Unsettled then (([], Inl Unsettled), d') else (([\<lparr>sn_status = 200, sn_bundle = None\<rparr>], Inl e), d'))
      | (Inr b, d') \<Rightarrow> (([\<lparr>sn_status = 200, sn_bundle = Some b\<rparr>], Inr ()), d'))"

definition analyzeBundle ::
  "bundle_env \<Rightarrow> (nat \<Rightarrow> string) \<Rightarrow> string \<Rightarrow> time \<Rightarrow> string \<Rightarrow> (db, sent) eff" where
  "analyzeBundle env rand newId now supportBundleId =
     bindE (queryE (\<lambda>d. Inr (supportBundleExists supportBundleId d))) (\<lambda>exists.
       if \<not> exists then retE \<lparr>sn_status = 404, sn_bundle = None\<rparr>
       else bindE (queryE (getSupportBundle env rand supportBundleId)) (\<lambda>b.
            bindE (queryE (\<lambda>d. Inr (tryGetAnalyzersForKotsApp (bu_watchId b) d))) (\<lambda>analyzers.
            thenE (performAnalysis env rand newId now supportBundleId analyzers)
            (bindE (queryE (getSupportBundle env rand supportBundleId)) (\<lambda>b'.
              retE \<lparr>sn_status = 200, sn_bundle = Some b'\<rparr>)))))"

definition bundleUploaded ::
  "bundle_env \<Rightarrow> (nat \<Rightarrow> string) \<Rightarrow> string \<Rightarrow> time \<Rightarrow> string \<Rightarrow> string \<Rightarrow> (db, sent) eff" where
  "bundleUploaded env rand newId now watchId supportBundleId =
     bindE (queryE (\<lambda>d. Inr (supportBundleExists supportBundleId d))) (\<lambda>exists.
       if exists then retE \<lparr>sn_status = 403, sn_bundle = None\<rparr>
       else bindE (queryE (\<lambda>_. be_fileSize env supportBundleId)) (\<lambda>size.
            thenE (createSupportBundle env rand newId now watchId size (Some supportBundleId))
            (thenE (performAnalysis env rand newId now supportBundleId (Some []))
              (retE \<lparr>sn_status = 204, sn_bundle = None\<rparr>))))"

section \<open>Asking for a bundle\<close>

definition collectSupportBundle :: "string \<Rightarrow> time \<Rightarrow> string \<Rightarrow> string \<Rightarrow> (db, unit) eff" where
  "collectSupportBundle newId now appId clusterId =
     bindE (queryE (getApp appId)) (\<lambda>app.
       thenE (queueSupportBundleCollection newId now (ka_id app) clusterId) (retE ()))"

definition bundle_uri :: "services \<Rightarrow> KotsApp \<Rightarrow> string" where
  "bundle_uri sv app = sv_shipApiEndpoint sv @ ''/api/v1/troubleshoot/'' @ ka_slug app @ ''?incluster=true''"

definition send_bundle_request :: "services \<Rightarrow> string \<Rightarrow> pending_supportbundle_row \<Rightarrow> (server, unit) eff" where
  "send_bundle_request sv clusterId p =
     bindE (readDb (getApp (ps_app_id p))) (\<lambda>app.
       thenE (execE (emit clusterId (SupportBundleMsg (bundle_uri sv app))))
         (execE (\<lambda>s. s\<lparr>sv_db := clearPendingSupportBundle (ps_id p) (sv_db s)\<rparr>)))"

definition request_bundles :: "services \<Rightarrow> ClusterSocketHistory \<Rightarrow> (server, unit list) eff" where
  "request_bundles sv csh =
     bindE (readDb (\<lambda>d. Inr (listPendingSupportBundlesForCluster (csh_clusterId csh) d)))
       (\<lambda>ps. forE (send_bundle_request sv (csh_clusterId csh)) ps)"

definition supportBundleLoop :: "services \<Rightarrow> (server, unit) eff" where
  "supportBundleLoop sv s = thenE (forE (request_bundles sv) (sv_history s)) (retE ()) s"

section \<open>Lemmas: the loop\<close>

abbreviation pendings :: "server \<Rightarrow> pending_supportbundle_row list" where
  "pendings s \<equiv> t_pending_supportbundle (sv_db s)"

definition with_pendings :: "server \<Rightarrow> pending_supportbundle_row list \<Rightarrow> (string \<times> message) list \<Rightarrow> server" where
  "with_pendings s ps out = s\<lparr>sv_db := (sv_db s)\<lparr>t_pending_supportbundle := ps\<rparr>, sv_out := sv_out s @ out\<rparr>"

lemma with_pendings_simps [simp]:
  "pendings (with_pendings s ps out) = ps"
  "sv_out (with_pendings s ps out) = sv_out s @ out"
  "sv_history (with_pendings s ps out) = sv_history s"
  "getApp i (sv_db (with_pendings s ps out)) = getApp i (sv_db s)"
  "with_pendings (with_pendings s ps out) ps' out' = with_pendings s ps' (out @ out')"
  "with_pendings s (pendings s) [] = s"
  by (simp_all add: with_pendings_def getApp_def app_of_def app_version_at_def cong: option.case_cong)

lemma send_bundle_request_run:
  "send_bundle_request sv c p s =
    (case getApp (ps_app_id p) (sv_db s) of
       Inl e \<Rightarrow> (Inl e, s)
     | Inr app \<Rightarrow> (Inr (), with_pendings s (sql_delete (\<lambda>r. ps_id r = ps_id p) (pendings s))
                   [(c, SupportBundleMsg (bundle_uri sv app))]))"
  by (auto simp: send_bundle_request_def readDb_def emit_def with_pendings_def clearPendingSupportBundle_def split: sum.splits)

text \<open>How far a loop over pending bundles came: all the way, or up to one whose application is missing.\<close>

lemma send_requests:
  assumes "distinct (map ps_id (pendings s))" and "set ps \<subseteq> set (pendings s)" and "distinct (map ps_id ps)"
    and "forE (send_bundle_request sv c) ps s = (r, s')"
  shows "\<exists>sent_rows rest out. ps = sent_rows @ rest \<and> length out = length sent_rows \<and>
    s' = with_pendings s (filter (\<lambda>p. ps_id p \<notin> ps_id ` set sent_rows) (pendings s)) out \<and>
    (case r of Inr _ \<Rightarrow> rest = [] | Inl e \<Rightarrow> \<exists>p rest'. rest = p # rest' \<and> getApp (ps_app_id p) (sv_db s) = Inl e)"
  using assms
proof (induction ps arbitrary: s r s')
  case Nil
  then show ?case by (auto intro!: exI [of _ "[]"])
next
  case (Cons p ps)
  show ?case
  proof (cases "getApp (ps_app_id p) (sv_db s)")
    case (Inl e)
    with Cons.prems(4) have "r = Inl e" "s' = s" by (auto simp: bindE_apply send_bundle_request_run [of sv c p s])
    with Inl show ?thesis
      by (intro exI [of _ "[]"] exI [of _ "p # ps"] exI [of _ "[]"]) auto
  next
    case (Inr app)
    let ?t = "with_pendings s (sql_delete (\<lambda>r. ps_id r = ps_id p) (pendings s)) [(c, SupportBundleMsg (bundle_uri sv app))]"
    obtain r1 s1 where r1: "forE (send_bundle_request sv c) ps ?t = (r1, s1)" by fastforce
    have run: "send_bundle_request sv c p s = (Inr (), ?t)" using Inr by (simp add: send_bundle_request_run)
    have out: "s' = s1" "(\<exists>e. r1 = Inl e \<and> r = Inl e) \<or> (\<exists>x y. r1 = Inr x \<and> r = Inr y)"
      using Cons.prems(4) r1 by (auto simp: bindE_apply run split: sum.splits)
    have "distinct (map ps_id (pendings ?t))" using Cons.prems(1) by (simp add: distinct_sql_delete)
    moreover have "set ps \<subseteq> set (pendings ?t)" using Cons.prems(2,3) by (auto simp: sql_simps) (metis imageI)
    moreover have "distinct (map ps_id ps)" using Cons.prems(3) by simp
    ultimately obtain sent_rows rest out where IH: "ps = sent_rows @ rest" "length out = length sent_rows"
      "s1 = with_pendings ?t (filter (\<lambda>p. ps_id p \<notin> ps_id ` set sent_rows) (pendings ?t)) out"
      "case r1 of Inr _ \<Rightarrow> rest = [] | Inl e \<Rightarrow> \<exists>p rest'. rest = p # rest' \<and> getApp (ps_app_id p) (sv_db ?t) = Inl e"
      using Cons.IH [OF _ _ _ r1] by blast
    have "filter (\<lambda>q. ps_id q \<notin> ps_id ` set sent_rows) (sql_delete (\<lambda>r. ps_id r = ps_id p) (pendings s))
        = filter (\<lambda>q. ps_id q \<notin> ps_id ` set (p # sent_rows)) (pendings s)"
      by (auto simp: sql_delete_def intro: filter_cong)
    with IH out show ?thesis
      by (intro exI [of _ "p # sent_rows"] exI [of _ rest] exI [of _ "(c, SupportBundleMsg (bundle_uri sv app)) # out"])
         (auto split: sum.splits)
  qed
qed

lemma filter_sent_length:
  assumes "distinct (map ps_id t)" and "set qs \<subseteq> set t" and "distinct (map ps_id qs)"
  shows "length (filter (\<lambda>p. ps_id p \<notin> ps_id ` set qs) t) + length qs = length t"
proof -
  have "mset (filter (\<lambda>p. ps_id p \<in> ps_id ` set qs) t) = mset qs"
  proof (rule set_eq_iff_mset_eq_distinct [THEN iffD1])
    show "distinct (filter (\<lambda>p. ps_id p \<in> ps_id ` set qs) t)" using assms(1) by (simp add: distinct_map)
    show "distinct qs" using assms(3) by (simp add: distinct_map)
    have "inj_on ps_id (set t)" using assms(1) by (simp add: distinct_map)
    then show "set (filter (\<lambda>p. ps_id p \<in> ps_id ` set qs) t) = set qs"
      using assms(2) by (auto dest: inj_onD)
  qed
  then have "length (filter (\<lambda>p. ps_id p \<in> ps_id ` set qs) t) = length qs" by (metis size_mset)
  with sum_length_filter_compl [of "\<lambda>p. ps_id p \<in> ps_id ` set qs" t] show ?thesis by simp
qed

text \<open>What the loop keeps: the requests that are pending or were sent, and the applications.\<close>

definition loop_effect :: "server \<Rightarrow> server \<Rightarrow> bool" where
  "loop_effect s s' \<longleftrightarrow> distinct (map ps_id (pendings s')) \<and> set (pendings s') \<subseteq> set (pendings s) \<and>
     length (sv_out s') + length (pendings s') = length (sv_out s) + length (pendings s) \<and>
     (\<forall>i. getApp i (sv_db s') = getApp i (sv_db s))"

lemma loop_effect_trans: "loop_effect s t \<Longrightarrow> loop_effect t u \<Longrightarrow> loop_effect s u"
  by (auto simp: loop_effect_def)

abbreviation pending_for :: "string \<Rightarrow> server \<Rightarrow> pending_supportbundle_row list" where
  "pending_for c s \<equiv> listPendingSupportBundlesForCluster c (sv_db s)"

lemma cluster_requests:
  assumes "distinct (map ps_id (pendings s))" and "forE (send_bundle_request sv c) (pending_for c s) s = (r, s')"
  shows "loop_effect s s' \<and>
    (case r of Inr _ \<Rightarrow> pending_for c s' = []
     | Inl e \<Rightarrow> \<exists>p \<in> set (pending_for c s'). getApp (ps_app_id p) (sv_db s) = Inl e)"
proof -
  let ?ps = "pending_for c s"
  have ps: "set ?ps \<subseteq> set (pendings s)" "distinct (map ps_id ?ps)"
    using assms(1) by (auto simp: listPendingSupportBundlesForCluster_def sql_select_def distinct_map_filter)
  from send_requests [OF assms(1) ps assms(2)] obtain sent_rows rest out where
    e: "?ps = sent_rows @ rest" "length out = length sent_rows"
    "s' = with_pendings s (filter (\<lambda>p. ps_id p \<notin> ps_id ` set sent_rows) (pendings s)) out"
    "case r of Inr _ \<Rightarrow> rest = [] | Inl e \<Rightarrow> \<exists>p rest'. rest = p # rest' \<and> getApp (ps_app_id p) (sv_db s) = Inl e" by blast
  have sub: "set sent_rows \<subseteq> set (pendings s)" "distinct (map ps_id sent_rows)" using ps e(1) by auto
  have "loop_effect s s'"
    using filter_sent_length [OF assms(1) sub] e(2) assms(1) by (auto simp: loop_effect_def e(3) distinct_map_filter)
  moreover have left: "pending_for c s' = filter (\<lambda>p. ps_id p \<notin> ps_id ` set sent_rows) ?ps"
    by (auto simp: e(3) listPendingSupportBundlesForCluster_def sql_select_def intro: filter_cong)
  have "pending_for c s' = []" if "rest = []" using that e(1) by (auto simp: left filter_empty_conv)
  moreover have "p \<in> set (pending_for c s')" if "rest = p # rest'" for p rest'
    using that e(1) ps(2) by (auto simp: left)
  ultimately show ?thesis using e(4) by (auto split: sum.splits)
qed

lemma request_bundles_run:
  "request_bundles sv csh s = forE (send_bundle_request sv (csh_clusterId csh)) (pending_for (csh_clusterId csh) s) s"
  by (simp add: request_bundles_def readDb_def)

lemma cluster_loop:
  assumes "distinct (map ps_id (pendings s))" and "forE (request_bundles sv) cshs s = (r, s')"
  shows "loop_effect s s' \<and>
    (case r of Inr _ \<Rightarrow> \<forall>csh \<in> set cshs. pending_for (csh_clusterId csh) s' = []
     | Inl e \<Rightarrow> \<exists>csh \<in> set cshs. \<exists>p \<in> set (pending_for (csh_clusterId csh) s'). getApp (ps_app_id p) (sv_db s) = Inl e)"
  using assms
proof (induction cshs arbitrary: s r s')
  case Nil
  then show ?case by (auto simp: loop_effect_def)
next
  case (Cons csh cshs)
  let ?c = "csh_clusterId csh"
  obtain r1 s1 where one: "request_bundles sv csh s = (r1, s1)" by fastforce
  note step = cluster_requests [OF Cons.prems(1) one [unfolded request_bundles_run]]
  show ?case
  proof (cases r1)
    case (Inl e)
    with Cons.prems(2) one have "r = Inl e" "s' = s1" by (auto simp: bindE_apply)
    with step Inl show ?thesis by auto
  next
    case (Inr x)
    obtain r2 s2 where two: "forE (request_bundles sv) cshs s1 = (r2, s2)" by fastforce
    with Cons.prems(2) one Inr have out: "s' = s2" "(\<exists>e. r2 = Inl e \<and> r = Inl e) \<or> (\<exists>x y. r2 = Inr x \<and> r = Inr y)"
      by (auto simp: bindE_apply split: sum.splits)
    have e1: "loop_effect s s1" and none: "pending_for ?c s1 = []" using step Inr by auto
    have "distinct (map ps_id (pendings s1))" using e1 by (simp add: loop_effect_def)
    note IH = Cons.IH [OF this two]
    then have "pending_for ?c s2 = []"
      using none by (auto simp: loop_effect_def listPendingSupportBundlesForCluster_def sql_select_def filter_empty_conv)
    moreover have "getApp i (sv_db s1) = getApp i (sv_db s)" for i using e1 by (simp add: loop_effect_def)
    ultimately show ?thesis using IH out loop_effect_trans [OF e1] by (auto split: sum.splits)
  qed
qed


section \<open>Lemmas: the analysis\<close>

lemma find_update_bundle:
  assumes "\<And>b. sb_id (f b) = sb_id b"
  shows "find (\<lambda>b. sb_id b = i) (t_supportbundle (update_bundle i f d)) =
    map_option f (find (\<lambda>b. sb_id b = i) (t_supportbundle d))"
proof -
  have "find (\<lambda>b. sb_id b = i) (sql_update (\<lambda>b. sb_id b = i) f t) = map_option f (find (\<lambda>b. sb_id b = i) t)" for t
    using assms by (induction t) (auto simp: sql_update_def)
  then show ?thesis by (simp add: update_bundle_def)
qed

lemma update_bundle_analyses [simp]: "t_supportbundle_analysis (update_bundle i f d) = t_supportbundle_analysis d"
  by (simp add: update_bundle_def)

text \<open>
  C20: An analysis with a result leaves the bundle analyzed, with the tree of its files and the insights stored;
  one without a result marks the bundle and never settles, so the request that started it is not answered.
\<close>

theorem analysis_outcome:
  assumes "find (\<lambda>b. sb_id b = i) (t_supportbundle d) = Some b"
    and "getSupportBundle env rand i (markSupportBundleUploaded now i d) = Inr shown"
    and "generateFileTreeIndex env i = Inr tree"
    and "be_safeLoad env (str_or_empty analyzers) = Inr spec" and "injectKotsAnalyzers (be_environ env) spec = Inr injected"
    and "be_analyze env (bundle_key env i) injected = Inr insights"
    and "newId \<notin> sa_id ` set (t_supportbundle_analysis d)"
    and "performAnalysis env rand newId now i analyzers d = (r, d')"
  shows "\<exists>b'. find (\<lambda>b. sb_id b = i) (t_supportbundle d') = Some b' \<and> sb_tree_index b' = Some (tree_text tree) \<and>
    (if insights = [] then r = Inl Unsettled \<and> sb_status b' = ''analysis_error'' \<and>
        t_supportbundle_analysis d' = t_supportbundle_analysis d
     else r = Inr () \<and> sb_status b' = ''analyzed'' \<and>
        t_supportbundle_analysis d' = t_supportbundle_analysis d @
          [\<lparr>sa_id = newId, sa_supportbundle_id = i, sa_error = None, sa_max_severity = None,
            sa_insights = Some insights, sa_created_at = now\<rparr>])"
proof -
  define d2 where "d2 = update_bundle i (\<lambda>b. b\<lparr>sb_tree_index := Some (tree_text tree)\<rparr>) (markSupportBundleUploaded now i d)"
  have "find (\<lambda>b. sb_id b = i) (t_supportbundle d2) =
      Some (b\<lparr>sb_status := ''uploaded'', sb_uploaded_at := Some now, sb_tree_index := Some (tree_text tree)\<rparr>)"
    using assms(1) by (simp add: d2_def find_update_bundle markSupportBundleUploaded_def)
  then obtain b2 where b2: "find (\<lambda>b. sb_id b = i) (t_supportbundle d2) = Some b2" "sb_tree_index b2 = Some (tree_text tree)"
    by simp
  have a2: "t_supportbundle_analysis d2 = t_supportbundle_analysis d" by (simp add: d2_def markSupportBundleUploaded_def)
  have run: "performAnalysis env rand newId now i analyzers d =
      thenE (analyzeSupportBundle env newId now i analyzers) (retE ()) d2"
    using assms(2,3) by (simp add: d2_def performAnalysis_def thenE_apply bindE_apply assignTreeIndex_def)
  show ?thesis
  proof (cases "insights = []")
    case True
    with run assms(4-6,8) have "r = Inl Unsettled" "d' = updateSupportBundleStatus i ''analysis_error'' d2"
      by (simp_all add: analyzeSupportBundle_def thenE_apply bindE_apply)
    with True b2 a2 show ?thesis by (simp add: updateSupportBundleStatus_def find_update_bundle)
  next
    case False
    define d3 where "d3 = d2\<lparr>t_supportbundle_analysis := t_supportbundle_analysis d @
      [\<lparr>sa_id = newId, sa_supportbundle_id = i, sa_error = None, sa_max_severity = None,
            sa_insights = Some insights, sa_created_at = now\<rparr>]\<rparr>"
    have "setAnalysisResult newId now i insights d2 = (Inr (), d3)"
      using assms(7) a2 by (simp add: setAnalysisResult_def sql_insert_def d3_def)
    with False run assms(4-6,8) have "r = Inr ()" "d' = updateSupportBundleStatus i ''analyzed'' d3"
      by (simp_all add: analyzeSupportBundle_def thenE_apply bindE_apply catchE_def)
    moreover have "find (\<lambda>b. sb_id b = i) (t_supportbundle d3) = Some b2" using b2 by (simp add: d3_def)
    ultimately show ?thesis
      using False b2(2) by (simp add: updateSupportBundleStatus_def find_update_bundle) (simp add: d3_def)
  qed
qed

section \<open>Lemmas: the analyzers of the admin console\<close>

lemma push_analyzer_object:
  assumes "lodash_get (JObj kvs) analyzers_path = JArr xs \<or> (\<not> truthy (lodash_get (JObj kvs) analyzers_path) \<and> xs = [])"
  shows "\<exists>kvs'. push_analyzer a (JObj kvs) = Inr (JObj kvs') \<and> lodash_get (JObj kvs') analyzers_path = JArr (xs @ [a])"
proof -
  have "analyzers_or_new (JObj kvs) = JArr xs" using assms by (auto simp: analyzers_or_new_def Let_def)
  moreover have "lodash_get (lodash_set (JObj kvs) analyzers_path (JArr (xs @ [a]))) analyzers_path = JArr (xs @ [a])"
    by (rule lodash_get_set) (simp add: analyzers_path_def)
  ultimately show ?thesis
    using lodash_set_is_obj [of kvs analyzers_path "JArr (xs @ [a])"] by (auto simp: push_analyzer_def)
qed

definition has_cluster_version :: "jsval \<Rightarrow> bool" where
  "has_cluster_version a \<longleftrightarrow> (case js_get a ''clusterVersion'' of Inl _ \<Rightarrow> False | Inr v \<Rightarrow> truthy v)"

lemma find_cluster_version:
  assumes "\<forall>a \<in> set xs. a \<noteq> JNull \<and> a \<noteq> JUndef"
  shows "someR (\<lambda>a. bindR (js_get a ''clusterVersion'') (\<lambda>v. Inr (truthy v))) xs = Inr (list_ex has_cluster_version xs)"
  using assms
proof (induction xs)
  case (Cons a xs)
  then have "\<exists>v. js_get a ''clusterVersion'' = Inr v" by (cases a) auto
  with Cons show ?case by (auto simp: has_cluster_version_def)
qed simp

lemma no_cluster_version [simp]:
  "\<not> has_cluster_version (api_replicas_analyzer ns)" "\<not> has_cluster_version (operator_replicas_analyzer ns)"
  "\<not> has_cluster_version no_gvisor_analyzer"
  by (simp_all add: has_cluster_version_def api_replicas_analyzer_def operator_replicas_analyzer_def no_gvisor_analyzer_def)

lemma admin_console_analyzers_not_null [simp]:
  "api_replicas_analyzer ns \<noteq> JNull \<and> api_replicas_analyzer ns \<noteq> JUndef"
  "operator_replicas_analyzer ns \<noteq> JNull \<and> operator_replicas_analyzer ns \<noteq> JUndef"
  "no_gvisor_analyzer \<noteq> JNull \<and> no_gvisor_analyzer \<noteq> JUndef"
  by (simp_all add: api_replicas_analyzer_def operator_replicas_analyzer_def no_gvisor_analyzer_def)

text \<open>
  The analyzers of the application come first, in their order, followed by the three of the admin
  console and, when the application has none for the version of the cluster, one for it.
\<close>

theorem injectKotsAnalyzers_appends:
  assumes "lodash_get (JObj kvs) analyzers_path = JArr xs" and "\<forall>a \<in> set xs. a \<noteq> JNull \<and> a \<noteq> JUndef"
  shows "\<exists>kvs'. injectKotsAnalyzers environ (JObj kvs) = Inr (JObj kvs') \<and>
    lodash_get (JObj kvs') analyzers_path =
      JArr (xs @ [api_replicas_analyzer (getCollectorNamespace environ), operator_replicas_analyzer (getCollectorNamespace environ),
              no_gvisor_analyzer] @
            (if list_ex has_cluster_version xs then [] else [cluster_version_analyzer]))"
proof -
  let ?ns = "getCollectorNamespace environ"
  let ?ys = "xs @ [api_replicas_analyzer ?ns, operator_replicas_analyzer ?ns, no_gvisor_analyzer]"
  obtain k1 where 1: "push_analyzer (api_replicas_analyzer ?ns) (JObj kvs) = Inr (JObj k1)"
    "lodash_get (JObj k1) analyzers_path = JArr (xs @ [api_replicas_analyzer ?ns])"
    using push_analyzer_object assms(1) by blast
  then obtain k2 where 2: "push_analyzer (operator_replicas_analyzer ?ns) (JObj k1) = Inr (JObj k2)"
    "lodash_get (JObj k2) analyzers_path = JArr (xs @ [api_replicas_analyzer ?ns] @ [operator_replicas_analyzer ?ns])"
    using push_analyzer_object by (metis append.assoc)
  then obtain k3 where 3: "push_analyzer no_gvisor_analyzer (JObj k2) = Inr (JObj k3)"
    "lodash_get (JObj k3) analyzers_path = JArr ?ys"
    using push_analyzer_object by (metis append.assoc append_Cons append_Nil)
  obtain k4 where 4: "push_analyzer cluster_version_analyzer (JObj k3) = Inr (JObj k4)"
    "lodash_get (JObj k4) analyzers_path = JArr (?ys @ [cluster_version_analyzer])"
    using push_analyzer_object 3(2) by blast
  have "someR (\<lambda>a. bindR (js_get a ''clusterVersion'') (\<lambda>v. Inr (truthy v))) (lodash_elems (analyzers_or_new (JObj k3))) =
      Inr (list_ex has_cluster_version xs)"
    using find_cluster_version [of ?ys] assms(2) 3(2) by (simp add: analyzers_or_new_def)
  then have "injectIfMissingKubernetesVersionAnalyzer (JObj k3) =
      (if list_ex has_cluster_version xs then Inr (JObj k3) else Inr (JObj k4))"
    using 4(1) by (simp add: injectIfMissingKubernetesVersionAnalyzer_def)
  then have "injectKotsAnalyzers environ (JObj kvs) = Inr (JObj (if list_ex has_cluster_version xs then k3 else k4))"
    using 1(1) 2(1) 3(1)
    by (simp add: injectKotsAnalyzers_def injectAPIReplicasAnalyzer_def injectOperatorReplicasAnalyzer_def injectNoGvisorAnalyzer_def)
  with 3(2) 4(2) show ?thesis by simp
qed

lemma injectKotsAnalyzers_appends_witness:
  "\<exists>kvs'. injectKotsAnalyzers (\<lambda>_. None) default_analyzers = Inr (JObj kvs') \<and>
    lodash_get (JObj kvs') analyzers_path =
      JArr [api_replicas_analyzer ''default'', operator_replicas_analyzer ''default'', no_gvisor_analyzer, cluster_version_analyzer]"
proof -
  have "getCollectorNamespace (\<lambda>_. None) = ''default''" by (simp add: getCollectorNamespace_def)
  then show ?thesis
    using injectKotsAnalyzers_appends [of "[(''apiVersion'', JStr ''troubleshoot.replicated.com/v1beta1''), (''kind'', JStr ''Analyzer''),
       (''metadata'', JObj [(''name'', JStr ''default-analyzers'')]), (''spec'', JObj [(''analyzers'', JArr [])])]" "[]" "\<lambda>_. None"]
    by (simp add: default_analyzers_def analyzers_path_def)
qed


definition example_bundle :: supportbundle_row where
  "example_bundle = \<lparr>sb_id = ''b'', sb_slug = ''b'', sb_watch_id = ''a'', sb_name = None, sb_size = Some 10, sb_status = ''pending'',
     sb_tree_index = None, sb_analysis_id = None, sb_created_at = 1, sb_uploaded_at = None, sb_is_archived = None\<rparr>"

definition example_bundle_env :: bundle_env where
  "example_bundle_env = \<lparr>be_json = (\<lambda>_. Inr JNull), be_safeLoad = (\<lambda>_. Inr default_analyzers), be_download = (\<lambda>_. Inr []),
     be_fileSize = (\<lambda>_. Inr 10), be_put = (\<lambda>_. Inr ()), be_analyze = (\<lambda>_ _. Inr ''[]''), be_environ = (\<lambda>_. None),
     be_bucket = ''ship'', be_bucketEndpoint = []\<rparr>"

lemma analysis_outcome_witness:
  "let (r, d') = performAnalysis example_bundle_env (\<lambda>_. ''k'') ''n'' 5 ''b'' None (example_db\<lparr>t_supportbundle := [example_bundle]\<rparr>) in
   r = Inr () \<and> (\<exists>b'. find (\<lambda>b. sb_id b = ''b'') (t_supportbundle d') = Some b' \<and> sb_status b' = ''analyzed'')"
proof -
  let ?d = "example_db\<lparr>t_supportbundle := [example_bundle]\<rparr>"
  obtain r d' where run: "performAnalysis example_bundle_env (\<lambda>_. ''k'') ''n'' 5 ''b'' None ?d = (r, d')" by fastforce
  have f: "find (\<lambda>b. sb_id b = ''b'') (t_supportbundle ?d) = Some example_bundle" by (simp add: example_bundle_def)
  obtain b where g: "getSupportBundle example_bundle_env (\<lambda>_. ''k'') ''b'' (markSupportBundleUploaded 5 ''b'' ?d) = Inr b"
    by (simp add: getSupportBundle_def markSupportBundleUploaded_def update_bundle_def sql_update_def example_bundle_def
        getLicenseType_def analysis_of_def example_db_def empty_db_def)
  obtain tree where t: "generateFileTreeIndex example_bundle_env ''b'' = Inr tree"
    by (simp add: generateFileTreeIndex_def downloadFiles_def index_paths_def example_bundle_env_def unpackFrom_def)
  have "\<not> isl (injectKotsAnalyzers (be_environ example_bundle_env) default_analyzers)" by code_simp
  then obtain spec where i: "injectKotsAnalyzers (be_environ example_bundle_env) default_analyzers = Inr spec"
    by (cases "injectKotsAnalyzers (be_environ example_bundle_env) default_analyzers") auto
  have "be_analyze example_bundle_env (bundle_key example_bundle_env ''b'') spec = Inr ''[]''"
    "be_safeLoad example_bundle_env (str_or_empty None) = Inr default_analyzers"
    "''n'' \<notin> sa_id ` set (t_supportbundle_analysis ?d)"
    by (simp_all add: example_bundle_env_def example_db_def empty_db_def)
  from analysis_outcome [OF f g t this(2) i this(1,3) run] run show ?thesis by auto
qed

end
