(* ===== verification/Kurl.thy ===== *)
theory Kurl
  imports Sessions
begin

text \<open>
  Nodes of an embedded cluster, \<^verbatim>\<open>api/src/kurl/resolvers/kurl_mutations.ts\<close>: draining a node, and purging it
  with its storage daemon and its member of etcd.

  The API server, the operator's pod and etcd answer every call with a status and a body, or reject; what they
  answer may depend on all the calls made before, so the services are a function of the history of calls, and
  the state of an operation is that history.  Objects are values of JavaScript.  YAML is a parameter.
\<close>

datatype kurl_call =
    ReadNode string
  | ReplaceNode string jsval
  | DeleteNode string
  | ListPods string string
  | EvictPod jsval jsval
  | ReadConfigMap string string
  | ReplaceConfigMap string string jsval
  | ListDeployments string string
  | DeleteDeployment jsval string
  | ListNamespacedPods string string
  | ExecPod string jsval string "string list"
  | MemberList "string list"
  | MemberRemove "string list" jsval

type_synonym services = "kurl_call list \<Rightarrow> kurl_call \<Rightarrow> (int \<times> jsval) result"

definition request :: "services \<Rightarrow> kurl_call \<Rightarrow> (kurl_call list, int \<times> jsval) eff" where
  "request sv c h = (sv h c, h @ [c])"

definition pureE :: "'a result \<Rightarrow> ('s, 'a) eff" where
  "pureE r = queryE (\<lambda>_. r)"

section \<open>Which pods a drain evicts\<close>

definition isFinished :: "jsval \<Rightarrow> bool" where
  "isFinished pod \<longleftrightarrow>
     (let phase = lodash_get pod [''status'', ''phase''] in phase = JStr ''Succeeded'' \<or> phase = JStr ''Failed'')"

text \<open>\<^verbatim>\<open>_.has\<close> with a key that has dots: as a key of its own.\<close>

definition lodash_has :: "jsval \<Rightarrow> string \<Rightarrow> bool" where
  "lodash_has v k = (case v of JObj kvs \<Rightarrow> k \<in> fst ` set kvs | _ \<Rightarrow> False)"

definition isMirror :: "jsval \<Rightarrow> bool result" where
  "isMirror pod =
     bindR (js_get pod ''metadata'') (\<lambda>metadata.
     bindR (js_and metadata (\<lambda>m. js_get m ''annotations'')) (\<lambda>annotations.
       Inr (truthy annotations \<and> lodash_has annotations ''kubernetes.io/config.mirror'')))"

definition isDaemonSetPod :: "jsval \<Rightarrow> bool result" where
  "isDaemonSetPod pod =
     someR (\<lambda>ownerRef. bindR (js_get ownerRef ''controller'') (\<lambda>c.
         if truthy c then bindR (js_get ownerRef ''kind'') (\<lambda>k. Inr (k = JStr ''DaemonSet'')) else Inr False))
       (lodash_elems (lodash_get pod [''metadata'', ''ownerReferences'']))"

definition shouldDrain :: "jsval \<Rightarrow> bool result" where
  "shouldDrain pod =
     (if isFinished pod then Inr True
      else bindR (isMirror pod) (\<lambda>m. if m then Inr False
      else bindR (isDaemonSetPod pod) (\<lambda>d. Inr (\<not> d))))"

section \<open>Draining\<close>

record drainResult =
  waitAndRetry :: bool
  misconfiguredPolicyDisruptionBudget :: bool

definition get_or_empty :: "jsval \<Rightarrow> string list \<Rightarrow> jsval" where
  "get_or_empty v path = (if lodash_get v path = JUndef then JStr [] else lodash_get v path)"

definition eviction_of :: "jsval \<Rightarrow> kurl_call" where
  "eviction_of pod = EvictPod (get_or_empty pod [''metadata'', ''name'']) (get_or_empty pod [''metadata'', ''namespace''])"

definition evict :: "services \<Rightarrow> jsval \<Rightarrow> (kurl_call list, drainResult) eff" where
  "evict sv pod =
     bindE (request sv (eviction_of pod)) (\<lambda>(statusCode, _).
       if statusCode = 200 \<or> statusCode = 201
       then retE \<lparr>waitAndRetry = False, misconfiguredPolicyDisruptionBudget = False\<rparr>
       else if statusCode = 429 then retE \<lparr>waitAndRetry = True, misconfiguredPolicyDisruptionBudget = False\<rparr>
       else if statusCode = 500 then retE \<lparr>waitAndRetry = False, misconfiguredPolicyDisruptionBudget = True\<rparr>
       else throwE (JsError (''Unexpected response code '' @ show_int statusCode)))"

definition label_selectors :: "string list" where
  "label_selectors =
     [''app notin (rook-ceph-mon,rook-ceph-osd,rook-ceph-operator,kotsadm-api),k8s-app!=kube-dns'',
      ''app in (rook-ceph-mon,rook-ceph-osd,rook-ceph-operator)'',
      ''k8s-app=kube-dns'',
      ''app=kotsadm-api'']"

definition merge_result :: "drainResult \<Rightarrow> drainResult \<Rightarrow> drainResult" where
  "merge_result r s = \<lparr>waitAndRetry = waitAndRetry r \<or> waitAndRetry s,
     misconfiguredPolicyDisruptionBudget = misconfiguredPolicyDisruptionBudget r \<or> misconfiguredPolicyDisruptionBudget s\<rparr>"

fun evict_pods :: "services \<Rightarrow> jsval list \<Rightarrow> drainResult \<Rightarrow> (kurl_call list, drainResult) eff" where
  "evict_pods sv [] r = retE r"
| "evict_pods sv (pod # pods) r =
     bindE (pureE (shouldDrain pod)) (\<lambda>b.
       if b then bindE (evict sv pod) (\<lambda>s. evict_pods sv pods (merge_result r s))
       else evict_pods sv pods r)"

definition pod_items :: "jsval \<Rightarrow> jsval list result" where
  "pod_items pods = bindR (js_get pods ''items'') js_iter"

fun drain_selectors :: "services \<Rightarrow> string \<Rightarrow> string list \<Rightarrow> drainResult \<Rightarrow> (kurl_call list, drainResult) eff" where
  "drain_selectors sv name [] r = retE r"
| "drain_selectors sv name (sel # sels) r =
     bindE (request sv (ListPods (''spec.nodeName='' @ name) sel)) (\<lambda>(statusCode, pods).
       if statusCode \<noteq> 200 then throwE (JsError (''List pods response status: '' @ show_int statusCode))
       else bindE (pureE (pod_items pods)) (\<lambda>items.
            bindE (evict_pods sv items r) (\<lambda>r'. drain_selectors sv name sels r')))"

definition cordon :: "services \<Rightarrow> string \<Rightarrow> (kurl_call list, unit) eff" where
  "cordon sv name =
     bindE (request sv (ReadNode name)) (\<lambda>(statusCode, node).
       if statusCode \<noteq> 200 then throwE (ReplicatedError ''Node not found'')
       else bindE (pureE (js_get node ''spec'')) (\<lambda>spec.
         if \<not> truthy spec then throwE (ReplicatedError ''Node spec not found'')
         else bindE (pureE (bindR (js_set spec ''unschedulable'' (JBool True)) (js_set node ''spec''))) (\<lambda>node'.
              bindE (request sv (ReplaceNode name node')) (\<lambda>(statusCode, _).
                if statusCode \<noteq> 200 then throwE (ReplicatedError (''Cordon node: '' @ show_int statusCode)) else retE ()))))"

definition drain :: "services \<Rightarrow> string \<Rightarrow> (kurl_call list, drainResult) eff" where
  "drain sv name =
     thenE (cordon sv name)
       (drain_selectors sv name label_selectors \<lparr>waitAndRetry = False, misconfiguredPolicyDisruptionBudget = False\<rparr>)"

text \<open>What the drain reports is dropped.\<close>

definition drainNode :: "services \<Rightarrow> Session option \<Rightarrow> string \<Rightarrow> (kurl_call list, bool) eff" where
  "drainNode sv session name =
     thenE (pureE (requireSingleTenantSession session)) (thenE (drain sv name) (retE False))"

section \<open>Purging a storage daemon\<close>

text \<open>The first deployment whose node selector names the node.\<close>

fun find_osd :: "string \<Rightarrow> jsval list \<Rightarrow> jsval option result" where
  "find_osd nodeName [] = Inr None"
| "find_osd nodeName (deploy # ds) =
     bindR (js_gets deploy [''spec'', ''template'', ''spec'', ''nodeSelector'', ''kubernetes.io/hostname'']) (\<lambda>hostname.
       if hostname = JStr nodeName then Inr (Some deploy) else find_osd nodeName ds)"

definition delete_osd :: "services \<Rightarrow> string \<Rightarrow> jsval list \<Rightarrow> (kurl_call list, jsval) eff" where
  "delete_osd sv nodeName deployments =
     bindE (pureE (find_osd nodeName deployments)) (\<lambda>found.
       case found of
         None \<Rightarrow> retE (JStr [])
       | Some deploy \<Rightarrow>
           bindE (pureE (js_gets deploy [''metadata'', ''labels'', ''ceph-osd-id''])) (\<lambda>osdID.
           bindE (pureE (js_gets deploy [''metadata'', ''name''])) (\<lambda>name.
           bindE (request sv (DeleteDeployment name ''rook-ceph'')) (\<lambda>(statusCode, _).
             if statusCode \<noteq> 200 then throwE (JsError (''Got response status code '' @ show_int statusCode)) else retE osdID))))"

definition osd_purge_command :: "jsval \<Rightarrow> string list" where
  "osd_purge_command osdID = [''ceph'', ''osd'', ''purge'', js_to_string osdID, ''--force'']"

text \<open>The command runs in the operator's pod when there is exactly one.\<close>

definition exec_purge :: "services \<Rightarrow> jsval \<Rightarrow> jsval list \<Rightarrow> (kurl_call list, unit) eff" where
  "exec_purge sv osdID pods =
     (case pods of
        [pod] \<Rightarrow>
          bindE (pureE (js_gets pod [''metadata'', ''name''])) (\<lambda>name.
          bindE (request sv (ExecPod ''rook-ceph'' name ''rook-ceph-operator'' (osd_purge_command osdID))) (\<lambda>(_, v1Status).
          bindE (pureE (js_get v1Status ''status'')) (\<lambda>st.
            if st = JStr ''Failure'' then throwE (JsError (js_to_string (lodash_get v1Status [''message'']))) else retE ())))
      | _ \<Rightarrow> retE ())"

definition purgeOSD :: "services \<Rightarrow> string \<Rightarrow> (kurl_call list, unit) eff" where
  "purgeOSD sv nodeName =
     bindE (request sv (ListDeployments ''rook-ceph'' ''app=rook-ceph-osd'')) (\<lambda>(statusCode, deployments).
       if statusCode = 404 then retE ()
       else if statusCode \<noteq> 200
       then throwE (JsError (''List osd deployments in rook-ceph namespace returned status code '' @ show_int statusCode))
       else bindE (pureE (pod_items deployments)) (\<lambda>items.
            bindE (delete_osd sv nodeName items) (\<lambda>osdID.
              if osdID = JStr [] then retE ()
              else bindE (request sv (ListNamespacedPods ''rook-ceph'' ''app=rook-ceph-operator'')) (\<lambda>(statusCode, pods).
                   if statusCode \<noteq> 200
                   then throwE (JsError (''List operator pod in rook-ceph namespace returned status code '' @ show_int statusCode))
                   else bindE (pureE (pod_items pods)) (exec_purge sv osdID)))))"

section \<open>Purging a master\<close>

text \<open>\<^verbatim>\<open>_.each\<close> over the endpoints: the address of the node (the last one of its name), and those of the others.\<close>

fun split_endpoints :: "jsval \<Rightarrow> (string \<times> jsval) list \<Rightarrow> jsval \<times> jsval list \<Rightarrow> (jsval \<times> jsval list) result" where
  "split_endpoints name [] acc = Inr acc"
| "split_endpoints name ((nodeName, obj) # kvs) (purged, remaining) =
     bindR (js_get obj ''advertiseAddress'') (\<lambda>ip.
       if JStr nodeName = name then split_endpoints name kvs (ip, remaining)
       else split_endpoints name kvs (purged, remaining @ [ip]))"

definition endpoint_list :: "jsval \<Rightarrow> (string \<times> jsval) list" where
  "endpoint_list v = (case v of JObj kvs \<Rightarrow> kvs | _ \<Rightarrow> [])"

definition js_delete :: "string \<Rightarrow> jsval \<Rightarrow> jsval result" where
  "js_delete k v = (case v of JUndef \<Rightarrow> Inl TypeError | JNull \<Rightarrow> Inl TypeError
     | JObj kvs \<Rightarrow> Inr (JObj (filter (\<lambda>kv. fst kv \<noteq> k) kvs)) | _ \<Rightarrow> Inr v)"

record master_plan =
  mp_purgedMasterIP :: jsval
  mp_remainingMasterIPs :: "jsval list"
  mp_configMap :: jsval

definition plan_master :: "(string \<Rightarrow> jsval result) \<Rightarrow> (jsval \<Rightarrow> string) \<Rightarrow> jsval \<Rightarrow> jsval \<Rightarrow> master_plan result" where
  "plan_master safeLoad safeDump node cm =
     bindR (js_gets cm [''data'', ''ClusterStatus'']) (\<lambda>statusText.
     bindR (safeLoad (js_to_string statusText)) (\<lambda>clusterStatus.
     bindR (js_get clusterStatus ''apiEndpoints'') (\<lambda>eps.
     bindR (js_gets node [''metadata'', ''name'']) (\<lambda>name.
     bindR (split_endpoints name (endpoint_list eps) (JStr [], [])) (\<lambda>(purged, remaining).
     bindR (js_delete (js_to_string name) eps) (\<lambda>eps'.
     bindR (js_set clusterStatus ''apiEndpoints'' eps') (\<lambda>clusterStatus'.
     bindR (js_get cm ''data'') (\<lambda>dat.
     bindR (js_set dat ''ClusterStatus'' (JStr (safeDump clusterStatus'))) (\<lambda>dat'.
     bindR (js_set cm ''data'' dat') (\<lambda>cm'.
       Inr \<lparr>mp_purgedMasterIP = purged, mp_remainingMasterIPs = remaining, mp_configMap = cm'\<rparr>))))))))))"

definition etcd_hosts :: "jsval list \<Rightarrow> string list" where
  "etcd_hosts ips = map (\<lambda>ip. ''https://'' @ js_to_string ip @ '':2379'') ips"

definition peer_url :: "jsval \<Rightarrow> string" where
  "peer_url ip = ''https://'' @ js_to_string ip @ '':2380''"

fun find_member :: "string \<Rightarrow> jsval list \<Rightarrow> jsval option result" where
  "find_member url [] = Inr None"
| "find_member url (m # ms) =
     bindR (js_get m ''peerURLs'') (\<lambda>urls. if JStr url \<in> set (lodash_elems urls) then Inr (Some m) else find_member url ms)"

definition remove_member :: "services \<Rightarrow> jsval \<Rightarrow> jsval list \<Rightarrow> (kurl_call list, unit) eff" where
  "remove_member sv purged remaining =
     bindE (request sv (MemberList (etcd_hosts remaining))) (\<lambda>(_, answer).
     bindE (pureE (bindR (js_get answer ''members'') (\<lambda>ms. find_member (peer_url purged) (lodash_elems ms)))) (\<lambda>found.
       case found of
         None \<Rightarrow> retE ()
       | Some m \<Rightarrow>
           bindE (pureE (js_get m ''ID'')) (\<lambda>i.
             thenE (request sv (MemberRemove (etcd_hosts remaining) i)) (retE ()))))"

text \<open>The status of the replacement is not looked at.\<close>

definition purgeMaster ::
  "(string \<Rightarrow> jsval result) \<Rightarrow> (jsval \<Rightarrow> string) \<Rightarrow> services \<Rightarrow> jsval \<Rightarrow> (kurl_call list, unit) eff" where
  "purgeMaster safeLoad safeDump sv node =
     bindE (request sv (ReadConfigMap ''kubeadm-config'' ''kube-system'')) (\<lambda>(statusCode, cm).
       if statusCode \<noteq> 200
       then throwE (JsError (''Get kubeadm-config map from kube-system namespace: '' @ show_int statusCode))
       else bindE (pureE (plan_master safeLoad safeDump node cm)) (\<lambda>plan.
            thenE (request sv (ReplaceConfigMap ''kubeadm-config'' ''kube-system'' (mp_configMap plan)))
              (if \<not> truthy (mp_purgedMasterIP plan) then retE ()
               else if mp_remainingMasterIPs plan = [] then retE ()
               else remove_member sv (mp_purgedMasterIP plan) (mp_remainingMasterIPs plan))))"

definition purge ::
  "(string \<Rightarrow> jsval result) \<Rightarrow> (jsval \<Rightarrow> string) \<Rightarrow> services \<Rightarrow> string \<Rightarrow> (kurl_call list, unit) eff" where
  "purge safeLoad safeDump sv name =
     bindE (request sv (ReadNode name)) (\<lambda>(statusCode, node).
       if statusCode \<noteq> 200 then throwE (ReplicatedError (''get node '' @ name @ '' response: '' @ show_int statusCode))
       else bindE (request sv (DeleteNode name)) (\<lambda>(statusCode, _).
            if statusCode \<noteq> 200 then throwE (JsError (''Delete node returned status code '' @ show_int statusCode))
            else thenE (purgeOSD sv name)
                   (bindE (pureE (js_gets node [''metadata'', ''labels''])) (\<lambda>labels.
                      if lodash_has labels ''node-role.kubernetes.io/master'' then purgeMaster safeLoad safeDump sv node
                      else retE ()))))"

definition deleteNode ::
  "(string \<Rightarrow> jsval result) \<Rightarrow> (jsval \<Rightarrow> string) \<Rightarrow> services \<Rightarrow> Session option \<Rightarrow> string \<Rightarrow> (kurl_call list, bool) eff" where
  "deleteNode safeLoad safeDump sv session name =
     thenE (pureE (requireSingleTenantSession session)) (thenE (purge safeLoad safeDump sv name) (retE False))"

section \<open>Lemmas: what is called\<close>

lemma request_run [simp]: "request sv c h = (sv h c, h @ [c])"
  by (simp add: request_def)

lemma pureE_run [simp]: "pureE r h = (r, h)"
  by (simp add: pureE_def)

lemma evict_run:
  assumes "evict sv pod h = (Inr r, h')"
  shows "h' = h @ [eviction_of pod]"
  using assms by (auto simp: evict_def bindE_apply split: sum.splits prod.splits if_splits)

definition drained :: "jsval list \<Rightarrow> jsval list" where
  "drained pods = filter (\<lambda>p. shouldDrain p = Inr True) pods"

lemma evict_pods_run:
  "evict_pods sv pods r h = (Inr r', h') \<Longrightarrow> h' = h @ map eviction_of (drained pods)"
proof (induction pods arbitrary: r h)
  case (Cons pod pods)
  from Cons.prems obtain b where b: "shouldDrain pod = Inr b"
    by (auto simp: bindE_apply split: sum.splits)
  show ?case
  proof (cases b)
    case True
    with Cons.prems b obtain s h1 where "evict sv pod h = (Inr s, h1)" "evict_pods sv pods (merge_result r s) h1 = (Inr r', h')"
      by (auto simp: bindE_apply split: sum.splits prod.splits)
    with Cons.IH evict_run b True show ?thesis by (fastforce simp: drained_def)
  qed (use Cons b in \<open>auto simp: bindE_apply drained_def\<close>)
qed (simp add: drained_def)

lemma drain_selectors_step:
  assumes "drain_selectors sv name (sel # sels) r h = (Inr r', h')"
    and "sv h (ListPods (''spec.nodeName='' @ name) sel) = Inr (200, JObj [(''items'', JArr items)])"
  obtains r1 where "drain_selectors sv name sels r1
    (h @ ListPods (''spec.nodeName='' @ name) sel # map eviction_of (drained items)) = (Inr r', h')"
proof -
  obtain r1 h1 where "evict_pods sv items r (h @ [ListPods (''spec.nodeName='' @ name) sel]) = (Inr r1, h1)"
    "drain_selectors sv name sels r1 h1 = (Inr r', h')"
    using assms by (auto simp: bindE_apply pod_items_def split: sum.splits prod.splits)
  with evict_pods_run show thesis using that by fastforce
qed

text \<open>How the API server selects by labels, for the four selectors of the source.\<close>

definition label_of :: "jsval \<Rightarrow> string \<Rightarrow> jsval" where
  "label_of pod k = lodash_get pod [''metadata'', ''labels'', k]"

definition rook_apps :: "jsval list" where
  "rook_apps = [JStr ''rook-ceph-mon'', JStr ''rook-ceph-osd'', JStr ''rook-ceph-operator'']"

definition selects :: "nat \<Rightarrow> jsval \<Rightarrow> bool" where
  "selects i pod =
     [label_of pod ''app'' \<notin> set (JStr ''kotsadm-api'' # rook_apps) \<and> label_of pod ''k8s-app'' \<noteq> JStr ''kube-dns'',
      label_of pod ''app'' \<in> set rook_apps,
      label_of pod ''k8s-app'' = JStr ''kube-dns'',
      label_of pod ''app'' = JStr ''kotsadm-api''] ! i"

text \<open>The server lists the pods of the node that a selector takes; only a pod that was evicted may have left.\<close>

definition listed :: "(jsval \<Rightarrow> bool) \<Rightarrow> nat \<Rightarrow> jsval list \<Rightarrow> jsval list" where
  "listed gone i P = filter (\<lambda>p. selects i p \<and> \<not> gone p) P"

definition lists_pods :: "services \<Rightarrow> string \<Rightarrow> jsval list \<Rightarrow> bool" where
  "lists_pods sv name P \<longleftrightarrow>
     (\<forall>h. \<forall>i < 4. \<exists>gone. (\<forall>p \<in> set P. gone p \<longrightarrow> eviction_of p \<in> set h) \<and>
        sv h (ListPods (''spec.nodeName='' @ name) (label_selectors ! i)) = Inr (200, JObj [(''items'', JArr (listed gone i P))]))"

lemma every_pod_is_selected: "selects 0 p \<or> selects 1 p \<or> selects 2 p \<or> selects 3 p"
  by (auto simp: selects_def numeral_2_eq_2 numeral_3_eq_3)

lemma label_selectors_four:
  "label_selectors = [label_selectors ! 0, label_selectors ! 1, label_selectors ! 2, label_selectors ! 3]"
  by (simp add: label_selectors_def)

lemma evictions_listed:
  assumes "p \<in> set P" and "shouldDrain p = Inr True" and "selects i p" and "gone p \<longrightarrow> eviction_of p \<in> set h"
  shows "eviction_of p \<in> set h \<union> eviction_of ` set (drained (listed gone i P))"
  using assms by (auto simp: drained_def listed_def)

lemma cordon_run:
  assumes "cordon sv name h = (Inr (), h')"
  shows "\<exists>node. h' = h @ [ReadNode name, ReplaceNode name node]"
  using assms by (auto simp: cordon_def bindE_apply split: sum.splits prod.splits if_splits)


definition pod_of :: "string \<Rightarrow> jsval" where
  "pod_of app = JObj [(''metadata'', JObj [(''name'', JStr app), (''namespace'', JStr ''default''),
     (''labels'', JObj [(''app'', JStr app)])])]"

definition example_pods :: "jsval list" where
  "example_pods = [pod_of ''kotsadm-api'', pod_of ''web'']"

definition kurl_services :: services where
  "kurl_services h c =
     (case c of
        ReadNode _ \<Rightarrow> Inr (200, JObj [(''spec'', JObj [])])
      | ListPods _ s \<Rightarrow>
          (case map_of (zip label_selectors [0..<4]) s of
             None \<Rightarrow> Inr (404, JUndef)
           | Some i \<Rightarrow> Inr (200, JObj [(''items'', JArr (listed (\<lambda>_. False) i example_pods))]))
      | _ \<Rightarrow> Inr (200, JUndef))"

lemma length_label_selectors: "length label_selectors = 4"
  by (simp add: label_selectors_def)

lemma selector_index: "i < 4 \<Longrightarrow> map_of (zip label_selectors [0..<4]) (label_selectors ! i) = Some i"
  using map_of_zip_nth [of label_selectors "[0..<4]" i] by (simp add: label_selectors_def)

lemma kurl_lists: "lists_pods kurl_services ''node1'' example_pods"
  unfolding lists_pods_def by (auto simp: kurl_services_def selector_index intro!: exI [of _ "\<lambda>_. False"])

lemma pod_of_drained: "shouldDrain (pod_of app) = Inr True"
  by (simp add: shouldDrain_def isFinished_def isMirror_def isDaemonSetPod_def pod_of_def js_and_def)

lemma kurl_drains: "\<exists>r h. drain kurl_services ''node1'' [] = (Inr r, h)"
proof -
  have evicts: "\<exists>r' h'. evict_pods kurl_services pods r h = (Inr r', h')" if "set pods \<subseteq> set example_pods" for pods r h
    using that
  proof (induction pods arbitrary: r h)
    case (Cons p ps)
    then have "shouldDrain p = Inr True" by (auto simp: example_pods_def pod_of_drained)
    moreover have "\<exists>s. evict kurl_services p h = (Inr s, h @ [eviction_of p])"
      by (simp add: evict_def bindE_apply kurl_services_def eviction_of_def)
    ultimately show ?case using Cons by (auto simp: bindE_apply)
  qed simp
  have "\<exists>r' h'. drain_selectors kurl_services ''node1'' sels r h = (Inr r', h')" if "set sels \<subseteq> set label_selectors" for sels r h
    using that
  proof (induction sels arbitrary: r h)
    case (Cons s ss)
    then have "s \<in> set label_selectors" by simp
    then obtain i where i: "i < 4" "s = label_selectors ! i" by (metis in_set_conv_nth length_label_selectors)
    then have "map_of (zip label_selectors [0..<4]) s = Some i" by (simp add: selector_index)
    then have lists: "kurl_services h1 (ListPods f s) = Inr (200, JObj [(''items'', JArr (listed (\<lambda>_. False) i example_pods))])" for h1 f
      by (simp add: kurl_services_def)
    have "set (listed (\<lambda>_. False) i example_pods) \<subseteq> set example_pods" by (auto simp: listed_def)
    from evicts [OF this, of r "h @ [ListPods (''spec.nodeName='' @ ''node1'') s]"] obtain r1 h1 where
      "evict_pods kurl_services (listed (\<lambda>_. False) i example_pods) r (h @ [ListPods (''spec.nodeName='' @ ''node1'') s]) = (Inr r1, h1)"
      by blast
    moreover from Cons obtain r2 h2 where "drain_selectors kurl_services ''node1'' ss r1 h1 = (Inr r2, h2)" by fastforce
    ultimately show ?case by (simp add: bindE_apply lists pod_items_def)
  qed simp
  then show ?thesis
    by (simp add: drain_def cordon_def thenE_apply bindE_apply kurl_services_def)
qed


section \<open>What purging a master may touch\<close>

definition address :: "jsval \<Rightarrow> jsval" where
  "address obj = (case js_get obj ''advertiseAddress'' of Inl _ \<Rightarrow> JUndef | Inr ip \<Rightarrow> ip)"

lemma split_endpoints_run:
  "split_endpoints name kvs (p, r) = Inr (p', r') \<Longrightarrow>
   r' = r @ map (address \<circ> snd) (filter (\<lambda>kv. JStr (fst kv) \<noteq> name) kvs) \<and>
   (p' = p \<or> (\<exists>kv \<in> set kvs. JStr (fst kv) = name \<and> p' = address (snd kv)))"
proof (induction kvs arbitrary: p r)
  case (Cons kv kvs)
  obtain n obj where kv: "kv = (n, obj)" by (cases kv)
  with Cons.prems obtain ip where "js_get obj ''advertiseAddress'' = Inr ip"
    by (auto simp: bindR_def split: sum.splits)
  moreover from this have "address obj = ip" by (simp add: address_def)
  ultimately show ?case using Cons.prems Cons.IH [of ip r] Cons.IH [of p "r @ [ip]"] kv by (auto split: if_splits)
qed simp

lemma find_member_Some:
  "find_member url ms = Inr (Some m) \<Longrightarrow> m \<in> set ms \<and> (\<exists>urls. js_get m ''peerURLs'' = Inr urls \<and> JStr url \<in> set (lodash_elems urls))"
  by (induction ms) (auto simp: bindR_def split: sum.splits if_splits)

definition endpoints_of :: "(string \<Rightarrow> jsval result) \<Rightarrow> jsval \<Rightarrow> (string \<times> jsval) list" where
  "endpoints_of safeLoad cm =
     (case bindR (js_gets cm [''data'', ''ClusterStatus'']) (\<lambda>t. bindR (safeLoad (js_to_string t)) (\<lambda>st. js_get st ''apiEndpoints'')) of
        Inl _ \<Rightarrow> [] | Inr eps \<Rightarrow> endpoint_list eps)"

lemma plan_master_run:
  assumes "plan_master safeLoad safeDump node cm = Inr plan" and "js_gets node [''metadata'', ''name''] = Inr (JStr name)"
  shows "mp_remainingMasterIPs plan = map (address \<circ> snd) (filter (\<lambda>kv. fst kv \<noteq> name) (endpoints_of safeLoad cm))"
    and "truthy (mp_purgedMasterIP plan) \<Longrightarrow> \<exists>obj. (name, obj) \<in> set (endpoints_of safeLoad cm) \<and> mp_purgedMasterIP plan = address obj"
proof -
  obtain t st eps where eps: "js_gets cm [''data'', ''ClusterStatus''] = Inr t" "safeLoad (js_to_string t) = Inr st"
      "js_get st ''apiEndpoints'' = Inr eps"
    and split: "split_endpoints (JStr name) (endpoint_list eps) (JStr [], []) = Inr (mp_purgedMasterIP plan, mp_remainingMasterIPs plan)"
    using assms by (auto simp: plan_master_def bindR_eq_Inr split: prod.splits)
  then have "endpoints_of safeLoad cm = endpoint_list eps" by (simp add: endpoints_of_def)
  with split_endpoints_run [OF split]
  show "mp_remainingMasterIPs plan = map (address \<circ> snd) (filter (\<lambda>kv. fst kv \<noteq> name) (endpoints_of safeLoad cm))"
    and "truthy (mp_purgedMasterIP plan) \<Longrightarrow> \<exists>obj. (name, obj) \<in> set (endpoints_of safeLoad cm) \<and> mp_purgedMasterIP plan = address obj"
    by auto
qed

lemma remove_member_calls:
  "\<exists>rest. snd (remove_member sv purged remaining h) = h @ MemberList (etcd_hosts remaining) # rest \<and>
     (rest = [] \<or> (\<exists>m i urls. rest = [MemberRemove (etcd_hosts remaining) i] \<and> js_get m ''ID'' = Inr i \<and>
        js_get m ''peerURLs'' = Inr urls \<and> JStr (peer_url purged) \<in> set (lodash_elems urls)))"
  by (auto simp: remove_member_def bindE_apply thenE_apply bindR_eq_Inr dest!: find_member_Some split: sum.splits prod.splits option.splits)


definition master_services :: services where
  "master_services h c =
     (case c of
        ReadConfigMap _ _ \<Rightarrow> Inr (200, JObj [(''data'', JObj [(''ClusterStatus'', JStr ''endpoints'')])])
      | MemberList _ \<Rightarrow> Inr (200, JObj [(''members'', JArr [JObj [(''ID'', JStr ''7''), (''peerURLs'', JArr [JStr ''https://10.0.0.1:2380''])]])])
      | _ \<Rightarrow> Inr (200, JUndef))"

definition two_masters :: jsval where
  "two_masters = JObj [(''apiEndpoints'', JObj [(''m1'', JObj [(''advertiseAddress'', JStr ''10.0.0.1'')]),
     (''m2'', JObj [(''advertiseAddress'', JStr ''10.0.0.2'')])])]"

definition first_master :: jsval where
  "first_master = JObj [(''metadata'', JObj [(''name'', JStr ''m1'')])]"


end
