(* ===== verification/KurlNodes.thy ===== *)
theory KurlNodes
  imports Kurl Complex_Main
begin

text \<open>
  What is shown of the nodes of an embedded cluster, \<^verbatim>\<open>api/src/kurl/resolvers/kurl_queries.ts\<close> and
  \<^verbatim>\<open>readKurlConfigMap.ts\<close>.

  The list of nodes, the statistics of a kubelet and the configuration map are read from services, which are
  parameters.  Numbers with a fraction are rationals, without the rounding of floating point; \<open>None\<close> is
  \<^verbatim>\<open>NaN\<close>.
\<close>

section \<open>Numbers\<close>

definition fraction_part :: "string \<Rightarrow> string \<times> string" where
  "fraction_part s =
     (case s of [] \<Rightarrow> ([], [])
      | c # cs \<Rightarrow> if c = CHR ''.'' then (takeWhile is_digit cs, dropWhile is_digit cs) else ([], s))"

text \<open>An exponent, 0 when there is none.\<close>

definition exponent_part :: "string \<Rightarrow> int" where
  "exponent_part s =
     (case s of [] \<Rightarrow> 0
      | c # cs \<Rightarrow>
          if c \<noteq> CHR ''e'' \<and> c \<noteq> CHR ''E'' then 0
          else (case cs of [] \<Rightarrow> 0
            | d # ds \<Rightarrow>
                if d = CHR ''-'' then (case parse_nat ds of None \<Rightarrow> 0 | Some n \<Rightarrow> - int n)
                else if d = CHR ''+'' then (case parse_nat ds of None \<Rightarrow> 0 | Some n \<Rightarrow> int n)
                else (case parse_nat cs of None \<Rightarrow> 0 | Some n \<Rightarrow> int n)))"

definition power_of_ten :: "int \<Rightarrow> rat" where
  "power_of_ten e = (if e < 0 then 1 / 10 ^ nat (- e) else 10 ^ nat e)"

definition unsigned_float :: "string \<Rightarrow> rat option" where
  "unsigned_float s =
     (let ip = takeWhile is_digit s; (fp, rest) = fraction_part (dropWhile is_digit s) in
      if ip = [] \<and> fp = [] then None
      else Some (of_nat (digits_val 0 (ip @ fp)) / 10 ^ length fp * power_of_ten (exponent_part rest)))"

text \<open>\<^verbatim>\<open>parseFloat\<close>, but for the word \<^verbatim>\<open>Infinity\<close>.\<close>

definition parseFloat :: "string \<Rightarrow> rat option" where
  "parseFloat s =
     (case dropWhile is_blank s of
        [] \<Rightarrow> None
      | c # cs \<Rightarrow>
          if c = CHR ''-'' then map_option uminus (unsigned_float cs)
          else if c = CHR ''+'' then unsigned_float cs
          else unsigned_float (c # cs))"

definition parseFloat_value :: "jsval \<Rightarrow> rat option" where
  "parseFloat_value v = parseFloat (js_to_string v)"

text \<open>A number the kubelet sends; what is not there is \<^verbatim>\<open>NaN\<close>.\<close>

definition js_number :: "jsval \<Rightarrow> rat option" where
  "js_number v = (case v of JNum n \<Rightarrow> Some (of_int n) | JNull \<Rightarrow> Some 0 | JBool b \<Rightarrow> Some (if b then 1 else 0) | _ \<Rightarrow> None)"

definition minus_nan :: "rat option \<Rightarrow> rat option \<Rightarrow> rat option" where
  "minus_nan x y = (case x of None \<Rightarrow> None | Some a \<Rightarrow> (case y of None \<Rightarrow> None | Some b \<Rightarrow> Some (a - b)))"

definition over :: "rat option \<Rightarrow> rat \<Rightarrow> rat option" where
  "over x y = map_option (\<lambda>a. a / y) x"

section \<open>One node\<close>

record usageStats =
  availableCPUs :: "rat option"
  availableMemory :: "rat option"
  availablePods :: "rat option"

record node_conditions =
  nc_memoryPressure :: bool
  nc_diskPressure :: bool
  nc_pidPressure :: bool
  nc_ready :: bool

record kurl_node =
  kn_name :: jsval
  kn_isConnected :: bool
  kn_canDelete :: bool
  kn_kubeletVersion :: jsval
  kn_cpu :: "jsval \<times> rat option"
  kn_memory :: "rat option \<times> rat option"
  kn_pods :: "jsval \<times> rat option"
  kn_conditions :: node_conditions

definition find_type :: "string \<Rightarrow> jsval \<Rightarrow> jsval option" where
  "find_type t v = find (\<lambda>x. js_get x ''type'' = Inr (JStr t)) (lodash_elems v)"

definition no_usage :: usageStats where
  "no_usage = \<lparr>availableCPUs = Some (-1), availableMemory = Some (-1), availablePods = Some (-1)\<rparr>"

text \<open>The fields are set one after the other: the ones before a failure keep what was read.\<close>

definition kubelet_uri :: "bool \<Rightarrow> string \<Rightarrow> string" where
  "kubelet_uri has_client_cert nodeIP =
     (if has_client_cert then ''https://'' @ nodeIP @ '':10250/stats/summary'' else ''http://'' @ nodeIP @ '':10255/stats/summary'')"

definition js_length :: "jsval \<Rightarrow> rat option result" where
  "js_length v = (case v of JUndef \<Rightarrow> Inl TypeError | JNull \<Rightarrow> Inl TypeError | JArr xs \<Rightarrow> Inr (Some (of_nat (length xs)))
     | JStr s \<Rightarrow> Inr (Some (of_nat (length s))) | _ \<Rightarrow> Inr None)"

definition read_usage :: "jsval \<Rightarrow> jsval \<Rightarrow> usageStats" where
  "read_usage item stats =
     (let cpu = bindR (js_gets item [''status'', ''capacity'', ''cpu'']) (\<lambda>total.
            bindR (js_gets stats [''node'', ''cpu'', ''usageNanoCores'']) (\<lambda>used.
              Inr (minus_nan (parseFloat_value total) (over (js_number used) 1000000000))));
          memory = bindR (js_gets stats [''node'', ''memory'', ''availableBytes'']) (\<lambda>b. Inr (over (js_number b) 1073741824));
          pods = bindR (js_gets item [''status'', ''capacity'', ''pods'']) (\<lambda>capacity.
            bindR (bindR (js_get stats ''pods'') js_length) (\<lambda>n.
              Inr (minus_nan (map_option of_int (parse_int (js_to_string capacity))) n)))
      in case cpu of
           Inl _ \<Rightarrow> no_usage
         | Inr c \<Rightarrow>
             (case memory of
                Inl _ \<Rightarrow> no_usage\<lparr>availableCPUs := c\<rparr>
              | Inr m \<Rightarrow>
                  (case pods of
                     Inl _ \<Rightarrow> no_usage\<lparr>availableCPUs := c, availableMemory := m\<rparr>
                   | Inr p \<Rightarrow> \<lparr>availableCPUs = c, availableMemory = m, availablePods = p\<rparr>)))"

definition node_usage :: "bool \<Rightarrow> (string \<Rightarrow> string result) \<Rightarrow> (string \<Rightarrow> jsval result) \<Rightarrow> jsval \<Rightarrow> jsval option \<Rightarrow> usageStats" where
  "node_usage has_client_cert kubelet json item addr =
     (case addr of
        None \<Rightarrow> no_usage
      | Some a \<Rightarrow>
          (case bindR (js_get a ''address'') (\<lambda>ip. kubelet (kubelet_uri has_client_cert (js_to_string ip))) of
             Inl _ \<Rightarrow> no_usage
           | Inr response \<Rightarrow>
               if response = [] then no_usage
               else (case json response of Inl _ \<Rightarrow> no_usage | Inr stats \<Rightarrow> read_usage item stats)))"

definition condition_true :: "jsval \<Rightarrow> string \<Rightarrow> bool" where
  "condition_true conditions t =
     (case find_type t conditions of None \<Rightarrow> False | Some c \<Rightarrow> js_get c ''status'' = Inr (JStr ''True''))"

definition conditions_of :: "jsval \<Rightarrow> node_conditions" where
  "conditions_of conditions =
     \<lparr>nc_memoryPressure = condition_true conditions ''MemoryPressure'', nc_diskPressure = condition_true conditions ''DiskPressure'',
      nc_pidPressure = condition_true conditions ''PIDPressure'', nc_ready = condition_true conditions ''Ready''\<rparr>"

text \<open>\<^verbatim>\<open>substring\<close> is a method of strings.\<close>

definition memory_capacity :: "jsval \<Rightarrow> rat option result" where
  "memory_capacity v =
     (case v of JStr s \<Rightarrow> Inr (over (parseFloat (take (length s - 2) s)) (1953125 / 2)) | _ \<Rightarrow> Inl TypeError)"

definition node_of :: "bool \<Rightarrow> (string \<Rightarrow> string result) \<Rightarrow> (string \<Rightarrow> jsval result) \<Rightarrow> jsval \<Rightarrow> kurl_node result" where
  "node_of has_client_cert kubelet json item =
     bindR (js_gets item [''status'', ''addresses'']) (\<lambda>addresses.
     bindR (js_gets item [''status'', ''conditions'']) (\<lambda>conditions.
     bindR (bindR (js_gets item [''status'', ''capacity'', ''memory'']) memory_capacity) (\<lambda>memoryCapacity.
     bindR (js_gets item [''metadata'', ''name'']) (\<lambda>name.
     bindR (js_gets item [''spec'', ''unschedulable'']) (\<lambda>unschedulable.
     bindR (js_gets item [''status'', ''nodeInfo'', ''kubeletVersion'']) (\<lambda>version.
     bindR (js_gets item [''status'', ''capacity'', ''cpu'']) (\<lambda>cpu.
     bindR (js_gets item [''status'', ''capacity'', ''pods'']) (\<lambda>pods.
       let usage = node_usage has_client_cert kubelet json item (find_type ''InternalIP'' addresses) in
       Inr \<lparr>kn_name = name, kn_isConnected = True, kn_canDelete = truthy unschedulable, kn_kubeletVersion = version,
            kn_cpu = (cpu, availableCPUs usage), kn_memory = (memoryCapacity, availableMemory usage),
            kn_pods = (pods, availablePods usage), kn_conditions = conditions_of conditions\<rparr>))))))))"

section \<open>The cluster\<close>

text \<open>What the API server answers: an error with the body of its response, or a status and the map.\<close>

type_synonym config_answer = "jsval + int \<times> jsval"

definition readKurlConfigMap :: "config_answer \<Rightarrow> jsval result" where
  "readKurlConfigMap answer =
     (case answer of
        Inl body \<Rightarrow>
          if truthy body \<and> lodash_get body [''code''] = JNum 404 then Inl (ReplicatedError ''Config map not found'')
          else Inl (ReplicatedError (''Failed to read ConfigMap kurl-config '' @
                 (if truthy body then js_to_string (lodash_get body [''message'']) else [])))
      | Inr (statusCode, configMap) \<Rightarrow>
          if statusCode \<noteq> 200 \<or> \<not> truthy configMap then Inl (ReplicatedError ''Config map not found'')
          else if \<not> truthy (lodash_get configMap [''data'']) then Inl (ReplicatedError ''Config map data not found'')
          else Inr (lodash_get configMap [''data'']))"

record kurl_answer =
  kq_nodes :: "kurl_node result list"
  kq_isKurlEnabled :: "bool option"
  kq_ha :: bool

definition kurl ::
  "jsval list result \<Rightarrow> bool \<Rightarrow> (string \<Rightarrow> string result) \<Rightarrow> (string \<Rightarrow> jsval result) \<Rightarrow> config_answer \<Rightarrow> Session option \<Rightarrow>
   kurl_answer result" where
  "kurl listNode has_client_cert kubelet json config session =
     bindR (requireSingleTenantSession session) (\<lambda>_.
       case listNode of
         Inl _ \<Rightarrow> Inr \<lparr>kq_nodes = [], kq_isKurlEnabled = None, kq_ha = False\<rparr>
       | Inr items \<Rightarrow>
           Inr \<lparr>kq_nodes = map (node_of has_client_cert kubelet json) items,
                kq_isKurlEnabled = Some (\<not> isl (readKurlConfigMap config)),
                kq_ha = (case readKurlConfigMap config of Inl _ \<Rightarrow> False | Inr dat \<Rightarrow> truthy (lodash_get dat [''ha'']))\<rparr>)"

end
