(* ===== verification/Licenses.thy ===== *)
theory Licenses
  imports AppStore
begin

text \<open>
  Licenses: the facts shown of one (\<^verbatim>\<open>getLicenseInfoFromYaml\<close> of \<^verbatim>\<open>api/src/util/utilities.ts\<close>), where it
  comes from (\<^verbatim>\<open>klicenses/klicense_store.ts\<close>) and what the application itself is told of it
  (\<^verbatim>\<open>controllers/titled/LicenseAPI.ts\<close>).  YAML is a parameter; a license is a value of JavaScript.
\<close>

section \<open>What is shown of a license\<close>

record KEntitlement =
  en_title :: jsval
  en_value :: jsval
  en_label :: string

record KLicense =
  kl_id :: jsval
  kl_expiresAt :: jsval
  kl_channelName :: jsval
  kl_licenseSequence :: jsval
  kl_licenseType :: jsval
  kl_entitlements :: "KEntitlement list"

text \<open>\<^verbatim>\<open>Object.keys\<close> with the value of each key.\<close>

definition js_entries :: "jsval \<Rightarrow> (string \<times> jsval) list" where
  "js_entries v =
     (case v of JObj kvs \<Rightarrow> kvs
      | JArr xs \<Rightarrow> zip (map show_nat [0..<length xs]) xs
      | JStr s \<Rightarrow> zip (map show_nat [0..<length s]) (map (\<lambda>c. JStr [c]) s)
      | _ \<Rightarrow> [])"

fun shown_entitlements :: "(string \<times> jsval) list \<Rightarrow> KEntitlement list result" where
  "shown_entitlements [] = Inr []"
| "shown_entitlements ((key, entitlement) # es) =
     bindR (js_get entitlement ''isHidden'') (\<lambda>isHidden.
       if truthy isHidden \<or> key = ''expires_at'' then shown_entitlements es
       else bindR (js_get entitlement ''title'') (\<lambda>title. bindR (js_get entitlement ''value'') (\<lambda>v.
            bindR (shown_entitlements es) (\<lambda>rest. Inr (\<lparr>en_title = title, en_value = v, en_label = key\<rparr> # rest)))))"

definition js_or_empty :: "jsval \<Rightarrow> jsval" where
  "js_or_empty v = (if truthy v then v else JStr [])"

definition js_if_truthy :: "jsval \<Rightarrow> jsval" where
  "js_if_truthy v = (if truthy v then v else JUndef)"

definition license_of :: "jsval \<Rightarrow> KLicense result" where
  "license_of licenseJson =
     bindR (js_get licenseJson ''spec'') (\<lambda>spec.
     bindR (js_get spec ''licenseID'') (\<lambda>licenseID.
     bindR (js_get spec ''channelName'') (\<lambda>channelName.
     bindR (js_get spec ''entitlements'') (\<lambda>entitlements.
     bindR (js_and entitlements (\<lambda>e. js_get e ''expires_at'')) (\<lambda>expires_at.
     bindR (if truthy expires_at then js_get expires_at ''value'' else Inr (JStr [])) (\<lambda>expiresAt.
     bindR (js_get spec ''licenseSequence'') (\<lambda>licenseSequence.
     bindR (js_get spec ''licenseType'') (\<lambda>licenseType.
     bindR (if truthy entitlements then shown_entitlements (js_entries entitlements) else Inr []) (\<lambda>shown.
       Inr \<lparr>kl_id = licenseID, kl_expiresAt = expiresAt, kl_channelName = js_or_empty channelName,
            kl_licenseSequence = js_if_truthy licenseSequence, kl_licenseType = js_if_truthy licenseType,
            kl_entitlements = shown\<rparr>)))))))))"

definition getLicenseInfoFromYaml :: "(error \<Rightarrow> string) \<Rightarrow> (string \<Rightarrow> jsval result) \<Rightarrow> string option \<Rightarrow> KLicense result" where
  "getLicenseInfoFromYaml err_text safeLoad licenseData =
     (case bindR (case licenseData of None \<Rightarrow> Inr JNull | Some t \<Rightarrow> safeLoad t) license_of of
        Inl e \<Rightarrow> Inl (ReplicatedError (''Error getting license info from yaml file '' @ err_text e))
      | Inr l \<Rightarrow> Inr l)"

section \<open>Where it comes from\<close>

definition latest_license :: "string \<Rightarrow> db \<Rightarrow> string option list" where
  "latest_license appId d =
     map av_kots_license (take 1 (order_desc av_sequence (sql_select (\<lambda>r. av_app_id r = appId) (t_app_version d))))"

text \<open>The license of the newest version, or of the application when that version has none.\<close>

definition license_text_of :: "string \<Rightarrow> db \<Rightarrow> string option result" where
  "license_text_of appId d =
     (case latest_license appId d of
        Some t # _ \<Rightarrow> if t \<noteq> [] then Inr (Some t) else
            (case row_of app_id appId (t_app d) of
               None \<Rightarrow> Inl (ReplicatedError (''No license found for app with an ID of '' @ appId)) | Some r \<Rightarrow> Inr (app_license r))
      | _ \<Rightarrow> (case row_of app_id appId (t_app d) of
               None \<Rightarrow> Inl (ReplicatedError (''No license found for app with an ID of '' @ appId)) | Some r \<Rightarrow> Inr (app_license r)))"

definition getAppLicense :: "(error \<Rightarrow> string) \<Rightarrow> (string \<Rightarrow> jsval result) \<Rightarrow> string \<Rightarrow> db \<Rightarrow> KLicense result" where
  "getAppLicense err_text safeLoad appId d =
     (case bindR (license_text_of appId d) (getLicenseInfoFromYaml err_text safeLoad) of
        Inl e \<Rightarrow> Inl (ReplicatedError (''Failed to get app license '' @ err_text e))
      | Inr l \<Rightarrow> Inr l)"

definition getAppLicenseSpec :: "string \<Rightarrow> db \<Rightarrow> string option result" where
  "getAppLicenseSpec appId d =
     (case latest_license appId d of
        [] \<Rightarrow> Inl (ReplicatedError (''No license found for app with an ID of '' @ appId))
      | l # _ \<Rightarrow> Inr l)"

section \<open>What the application is told\<close>

record platform_field =
  pf_field :: string
  pf_title :: jsval
  pf_type :: jsval
  pf_value :: jsval
  pf_hide_from_customer :: jsval

record platformLicense =
  pl_license_id :: jsval
  pl_installation_id :: string
  pl_assignee :: jsval
  pl_release_channel :: jsval
  pl_license_type :: jsval
  pl_expiration_time :: "jsval option"
  pl_fields :: "platform_field list"

fun platform_fields :: "(string \<times> jsval) list \<Rightarrow> (jsval option \<times> platform_field list) result" where
  "platform_fields [] = Inr (None, [])"
| "platform_fields ((key, entitlement) # es) =
     (if key = ''expires_at''
      then bindR (js_get entitlement ''value'') (\<lambda>v. bindR (platform_fields es) (\<lambda>(expiry, fields).
           Inr (case expiry of Some e \<Rightarrow> Some e | None \<Rightarrow> if truthy v then Some v else None, fields)))
      else bindR (js_get entitlement ''title'') (\<lambda>title. bindR (js_get entitlement ''valueType'') (\<lambda>t.
           bindR (js_get entitlement ''value'') (\<lambda>v. bindR (js_get entitlement ''isHidden'') (\<lambda>hidden.
           bindR (platform_fields es) (\<lambda>(expiry, fields).
             Inr (expiry, \<lparr>pf_field = key, pf_title = title, pf_type = t, pf_value = v, pf_hide_from_customer = hidden\<rparr> # fields)))))))"

definition platform_license :: "string \<Rightarrow> jsval \<Rightarrow> platformLicense result" where
  "platform_license appId licenseDoc =
     bindR (js_get licenseDoc ''spec'') (\<lambda>spec.
     bindR (js_get spec ''licenseID'') (\<lambda>licenseID.
     bindR (js_get spec ''customerName'') (\<lambda>customerName.
     bindR (js_get spec ''channelName'') (\<lambda>channelName.
     bindR (js_get spec ''licenseType'') (\<lambda>licenseType.
     bindR (js_get spec ''entitlements'') (\<lambda>entitlements.
     bindR (if truthy entitlements then platform_fields (js_entries entitlements) else Inr (None, [])) (\<lambda>(expiry, fields).
       Inr \<lparr>pl_license_id = licenseID, pl_installation_id = appId, pl_assignee = customerName,
            pl_release_channel = channelName, pl_license_type = licenseType, pl_expiration_time = expiry, pl_fields = fields\<rparr>)))))))"

text \<open>The status, and the body with it.\<close>

definition license_endpoint :: "(string \<Rightarrow> jsval result) \<Rightarrow> db \<Rightarrow> (int \<times> platformLicense option) result" where
  "license_endpoint safeLoad d =
     bindR (listInstalledKotsApps None d) (\<lambda>apps.
       case apps of
         [] \<Rightarrow> Inr (404, None)
       | [app] \<Rightarrow>
           bindR (getAppLicenseSpec (ka_id app) d) (\<lambda>licenseYaml.
           bindR (case licenseYaml of None \<Rightarrow> Inr JNull | Some t \<Rightarrow> safeLoad t) (\<lambda>licenseDoc.
           bindR (platform_license (ka_id app) licenseDoc) (\<lambda>l. Inr (200, Some l))))
       | _ \<Rightarrow> Inr (400, None))"

section \<open>Lemmas\<close>

definition present :: "jsval \<Rightarrow> bool" where
  "present v \<longleftrightarrow> v \<noteq> JUndef \<and> v \<noteq> JNull"

definition js_field :: "jsval \<Rightarrow> string \<Rightarrow> jsval" where
  "js_field v k = (case v of JObj kvs \<Rightarrow> own_prop kvs k | _ \<Rightarrow> JUndef)"

lemma js_get_field: "js_get v k = (if present v then Inr (js_field v k) else Inl TypeError)"
  by (cases v) (auto simp: present_def js_field_def)

definition entitlement_of :: "string \<times> jsval \<Rightarrow> KEntitlement" where
  "entitlement_of e = \<lparr>en_title = js_field (snd e) ''title'', en_value = js_field (snd e) ''value'', en_label = fst e\<rparr>"

definition field_of :: "string \<times> jsval \<Rightarrow> platform_field" where
  "field_of e = \<lparr>pf_field = fst e, pf_title = js_field (snd e) ''title'', pf_type = js_field (snd e) ''valueType'',
     pf_value = js_field (snd e) ''value'', pf_hide_from_customer = js_field (snd e) ''isHidden''\<rparr>"

definition is_shown :: "string \<times> jsval \<Rightarrow> bool" where
  "is_shown e \<longleftrightarrow> \<not> truthy (js_field (snd e) ''isHidden'') \<and> fst e \<noteq> ''expires_at''"

lemma entry_simps [simp]:
  "entitlement_of (k, v) = \<lparr>en_title = js_field v ''title'', en_value = js_field v ''value'', en_label = k\<rparr>"
  "field_of (k, v) = \<lparr>pf_field = k, pf_title = js_field v ''title'', pf_type = js_field v ''valueType'',
     pf_value = js_field v ''value'', pf_hide_from_customer = js_field v ''isHidden''\<rparr>"
  "is_shown (k, v) \<longleftrightarrow> \<not> truthy (js_field v ''isHidden'') \<and> k \<noteq> ''expires_at''"
  by (simp_all add: entitlement_of_def field_of_def is_shown_def)

lemma shown_of_told:
  "map entitlement_of (filter is_shown es) =
   map (\<lambda>f. \<lparr>en_title = pf_title f, en_value = pf_value f, en_label = pf_field f\<rparr>)
     (filter (\<lambda>f. \<not> truthy (pf_hide_from_customer f)) (map field_of (filter (\<lambda>e. fst e \<noteq> ''expires_at'') es)))"
  by (induction es) auto

lemma shown_entitlements_run:
  "shown_entitlements es =
     (if list_all (present \<circ> snd) es then Inr (map entitlement_of (filter is_shown es)) else Inl TypeError)"
proof (induction es)
  case (Cons e es)
  obtain k v where "e = (k, v)" by (cases e)
  with Cons show ?case by (simp add: js_get_field)
qed simp

fun expiry_of :: "(string \<times> jsval) list \<Rightarrow> jsval option" where
  "expiry_of [] = None"
| "expiry_of ((k, v) # es) =
     (case expiry_of es of
        Some x \<Rightarrow> Some x
      | None \<Rightarrow> if k = ''expires_at'' \<and> truthy (js_field v ''value'') then Some (js_field v ''value'') else None)"

lemma platform_fields_run:
  "platform_fields es =
     (if list_all (present \<circ> snd) es then Inr (expiry_of es, map field_of (filter (\<lambda>e. fst e \<noteq> ''expires_at'') es)) else Inl TypeError)"
proof (induction es)
  case (Cons e es)
  obtain k v where "e = (k, v)" by (cases e)
  with Cons show ?case by (simp add: js_get_field split: option.split)
qed simp

lemma expiry_of_no: "''expires_at'' \<notin> fst ` set es \<Longrightarrow> expiry_of es = None"
  by (induction es rule: expiry_of.induct) auto

lemma expiry_of_distinct:
  "distinct (map fst es) \<Longrightarrow>
   expiry_of es = (case map_of es ''expires_at'' of
      None \<Rightarrow> None | Some v \<Rightarrow> if truthy (js_field v ''value'') then Some (js_field v ''value'') else None)"
proof (induction es rule: expiry_of.induct)
  case (2 k v es)
  then show ?case by (cases "k = ''expires_at''") (auto simp: expiry_of_no split: option.splits)
qed simp

text \<open>What both readers take from a license document.\<close>

definition license_readable :: "jsval \<Rightarrow> bool" where
  "license_readable doc \<longleftrightarrow>
     present doc \<and> present (js_field doc ''spec'') \<and>
     (let es = js_field (js_field doc ''spec'') ''entitlements'' in truthy es \<longrightarrow> list_all (present \<circ> snd) (js_entries es))"

lemma truthy_present: "truthy v \<Longrightarrow> present v"
  by (cases v) (auto simp: present_def)

lemma license_of_run:
  "license_of doc =
     (if \<not> license_readable doc then Inl TypeError
      else let spec = js_field doc ''spec''; es = js_field spec ''entitlements''; expires = js_field es ''expires_at'' in
        Inr \<lparr>kl_id = js_field spec ''licenseID'',
             kl_expiresAt = (if truthy es \<and> truthy expires then js_field expires ''value'' else JStr []),
             kl_channelName = js_or_empty (js_field spec ''channelName''),
             kl_licenseSequence = js_if_truthy (js_field spec ''licenseSequence''),
             kl_licenseType = js_if_truthy (js_field spec ''licenseType''),
             kl_entitlements = (if truthy es then map entitlement_of (filter is_shown (js_entries es)) else [])\<rparr>)"
  by (auto simp: license_of_def license_readable_def js_get_field js_and_def shown_entitlements_run truthy_present Let_def)

lemma platform_license_run:
  "platform_license i doc =
     (if \<not> license_readable doc then Inl TypeError
      else let spec = js_field doc ''spec''; es = js_field spec ''entitlements'' in
        Inr \<lparr>pl_license_id = js_field spec ''licenseID'', pl_installation_id = i, pl_assignee = js_field spec ''customerName'',
             pl_release_channel = js_field spec ''channelName'', pl_license_type = js_field spec ''licenseType'',
             pl_expiration_time = (if truthy es then expiry_of (js_entries es) else None),
             pl_fields = (if truthy es then map field_of (filter (\<lambda>e. fst e \<noteq> ''expires_at'') (js_entries es)) else [])\<rparr>)"
  by (auto simp: platform_license_def license_readable_def js_get_field platform_fields_run Let_def)

lemma numeral_key: "show_nat n \<noteq> ''expires_at''"
proof
  assume "show_nat n = ''expires_at''"
  with show_nat_digits [of n] show False by (simp add: is_digit_def)
qed

lemma truthy_js_field: "truthy (js_field v k) \<Longrightarrow> truthy v"
  by (cases v) (simp_all add: js_field_def)

lemma expiry_of_value:
  assumes "\<And>kvs. v = JObj kvs \<Longrightarrow> distinct (map fst kvs)"
  shows "expiry_of (js_entries v) =
    (if truthy (js_field v ''expires_at'') \<and> truthy (js_field (js_field v ''expires_at'') ''value'')
     then Some (js_field (js_field v ''expires_at'') ''value'') else None)"
proof (cases "\<exists>kvs. v = JObj kvs")
  case True
  then obtain kvs where kvs: "v = JObj kvs" by blast
  with assms expiry_of_distinct have "expiry_of kvs = (case map_of kvs ''expires_at'' of
      None \<Rightarrow> None | Some v \<Rightarrow> if truthy (js_field v ''value'') then Some (js_field v ''value'') else None)" by blast
  moreover have "js_entries v = kvs" "js_field v ''expires_at'' = own_prop kvs ''expires_at''"
    by (simp_all add: kvs js_entries_def js_field_def)
  ultimately show ?thesis
    by (cases "map_of kvs ''expires_at''") (auto simp: own_prop.simps dest: truthy_js_field)
next
  case False
  then have "js_field v k = JUndef" for k by (cases v) (auto simp: js_field_def)
  moreover have "''expires_at'' \<notin> fst ` set (js_entries v)"
    using False by (cases v) (auto simp: js_entries_def numeral_key [symmetric] dest!: set_zip_leftD)
  ultimately show ?thesis by (simp add: expiry_of_no)
qed

text \<open>
  The admin console and the application read the same license: each fails on the documents on which the other
  does; otherwise the entitlements shown to the user are those told to the application that are not
  hidden, in the same order and with the same values, and they name the same expiry, license and type.
\<close>

theorem license_readers_agree:
  assumes "\<And>kvs. js_gets doc [''spec'', ''entitlements''] = Inr (JObj kvs) \<Longrightarrow> distinct (map fst kvs)"
  shows "(\<exists>l p. license_of doc = Inr l \<and> platform_license i doc = Inr p \<and>
      kl_entitlements l = map (\<lambda>f. \<lparr>en_title = pf_title f, en_value = pf_value f, en_label = pf_field f\<rparr>)
        (filter (\<lambda>f. \<not> truthy (pf_hide_from_customer f)) (pl_fields p)) \<and>
      pl_expiration_time p = (if truthy (kl_expiresAt l) then Some (kl_expiresAt l) else None) \<and>
      kl_id l = pl_license_id p \<and> kl_licenseType l = js_if_truthy (pl_license_type p)) \<or>
    license_of doc = Inl TypeError \<and> platform_license i doc = Inl TypeError"
proof (cases "license_readable doc")
  case True
  let ?es = "js_field (js_field doc ''spec'') ''entitlements''"
  have "js_gets doc [''spec'', ''entitlements''] = Inr ?es" using True by (simp add: license_readable_def js_get_field)
  with assms have "\<And>kvs. ?es = JObj kvs \<Longrightarrow> distinct (map fst kvs)" by simp
  note expiry = expiry_of_value [OF this]
  with True show ?thesis
    by (simp add: license_of_run platform_license_run Let_def shown_of_told expiry del: filter_map)
next
  case False
  then show ?thesis by (simp add: license_of_run platform_license_run)
qed

definition example_license :: jsval where
  "example_license = JObj [(''spec'', JObj [(''licenseID'', JStr ''l1''), (''licenseType'', JStr ''trial''),
     (''entitlements'', JObj [(''expires_at'', JObj [(''value'', JStr ''2030'')]), (''seats'', JObj [(''title'', JStr ''Seats''), (''value'', JNum 5)]),
       (''secret'', JObj [(''title'', JStr ''Secret''), (''isHidden'', JBool True)])])])]"

lemma license_readers_agree_witness:
  "\<exists>l p. license_of example_license = Inr l \<and> platform_license ''app'' example_license = Inr p \<and>
     kl_entitlements l = map (\<lambda>f. \<lparr>en_title = pf_title f, en_value = pf_value f, en_label = pf_field f\<rparr>)
       (filter (\<lambda>f. \<not> truthy (pf_hide_from_customer f)) (pl_fields p)) \<and>
     pl_expiration_time p = Some (JStr ''2030'') \<and> length (pl_fields p) = 2"
proof -
  have "\<And>kvs. js_gets example_license [''spec'', ''entitlements''] = Inr (JObj kvs) \<Longrightarrow> distinct (map fst kvs)"
    by (auto simp: example_license_def)
  from license_readers_agree [of example_license, OF this] show ?thesis
    by (auto simp: example_license_def license_of_def platform_license_def js_and_def js_entries_def)
qed

end
