(* ===== verification/ServerParams.thy ===== *)
theory ServerParams
  imports ObjectStore
begin

text \<open>
  The parameters of the server (\<^verbatim>\<open>api/src/server/params.ts\<close> and \<^verbatim>\<open>util/params/index.ts\<close>) and what a client is
  told of an error (\<^verbatim>\<open>api/src/server/errors.ts\<close>).

  The environment is a map; the parameter service of the cloud answers a list of names with a list of pairs,
  or rejects; \<^verbatim>\<open>JSON.parse\<close> is a parameter.
\<close>

section \<open>Looking parameters up\<close>

type_synonym environment = "string \<Rightarrow> string option"
type_synonym ParamLookup = "(string \<times> string) list"
type_synonym ssm = "string list \<Rightarrow> (string \<times> string) list result"

definition env_value :: "environment \<Rightarrow> string \<Rightarrow> string" where
  "env_value env k = str_or_empty (env k)"

definition getParamsFromEnv :: "environment \<Rightarrow> ParamLookup \<Rightarrow> string \<Rightarrow> string option" where
  "getParamsFromEnv env paramLookup = map_of (map (\<lambda>(k, _). (k, env_value env k)) paramLookup)"

text \<open>\<^verbatim>\<open>_.chunk\<close>\<close>

fun chunk :: "nat \<Rightarrow> 'a list \<Rightarrow> 'a list list" where
  "chunk n [] = []"
| "chunk n (x # xs) = (if n = 0 then [] else take n (x # xs) # chunk n (drop (n - 1) xs))"

definition ssm_names :: "ParamLookup \<Rightarrow> string list" where
  "ssm_names paramLookup = filter (\<lambda>n. n \<noteq> []) (map snd paramLookup)"

definition reverseLookup :: "ParamLookup \<Rightarrow> string \<Rightarrow> string option" where
  "reverseLookup paramLookup = map_of (rev (map (\<lambda>(k, n). (n, k)) (filter (\<lambda>(_, n). n \<noteq> []) paramLookup)))"

definition put_param :: "ParamLookup \<Rightarrow> (string \<Rightarrow> string option) \<Rightarrow> string \<times> string \<Rightarrow> string \<Rightarrow> string option" where
  "put_param paramLookup params p =
     params((case reverseLookup paramLookup (fst p) of None \<Rightarrow> ''undefined'' | Some k \<Rightarrow> k) \<mapsto> snd p)"

definition getParamsFromSsm :: "environment \<Rightarrow> ssm \<Rightarrow> ParamLookup \<Rightarrow> (string \<Rightarrow> string option) result" where
  "getParamsFromSsm env service paramLookup =
     bindR (mapR service (chunk 10 (ssm_names paramLookup))) (\<lambda>answers.
       Inr (foldl (put_param paramLookup)
         (map_of (map (\<lambda>(k, _). (k, env_value env k)) (filter (\<lambda>(_, n). n = []) paramLookup))) (concat answers)))"

definition lookupParams :: "environment \<Rightarrow> ssm \<Rightarrow> ParamLookup \<Rightarrow> (string \<Rightarrow> string option) result" where
  "lookupParams env service paramLookup =
     (if truthy_str (env ''USE_EC2_PARAMETERS'') then getParamsFromSsm env service paramLookup
      else Inr (getParamsFromEnv env paramLookup))"

section \<open>The parameters of the server\<close>

definition paramLookup :: ParamLookup where
  "paramLookup =
     [(''POSTGRES_URI'', ''/shipcloud/postgres/uri''),
      (''API_ENCRYPTION_KEY'', []),
      (''GITHUB_APP_INSTALL_URL'', ''/shipcloud/github/app_install_url''),
      (''GITHUB_CLIENT_ID'', ''/shipcloud/github/app_client_id''),
      (''GITHUB_CLIENT_SECRET'', ''/shipcloud/github/app_client_secret''),
      (''GITHUB_INTEGRATION_ID'', ''/shipcloud/github/app_integration_id''),
      (''GITHUB_PRIVATE_KEY_FILE'', ''/shipcloud/github/app_private_key_file''),
      (''GITHUB_PRIVATE_KEY_CONTENTS'', ''/shipcloud/github/app_private_key''),
      (''INIT_SERVER_URI'', ''/shipcloud/initserver/baseURL''),
      (''UPDATE_SERVER_URI'', ''/shipcloud/updateserver/baseURL''),
      (''EDIT_BASE_URI'', ''/shipcloud/editserver/baseURL''),
      (''BUGSNAG_KEY'', ''/shipcloud/bugsnag/key''),
      (''SESSION_KEY'', ''/shipcloud/session/key''),
      (''S3_BUCKET_NAME'', ''/shipcloud/s3/ship_output_bucket''),
      (''SIGSCI_RPC_ADDRESS'', ''/shipcloud/sigsci_rpc_address''),
      (''SHIP_API_ENDPOINT'', []),
      (''OBJECT_STORE_IN_DATABASE'', []),
      (''S3_ENDPOINT'', []),
      (''S3_ACCESS_KEY_ID'', ''/shipcloud/s3/access_key_id''),
      (''S3_SECRET_ACCESS_KEY'', ''/shipcloud/s3/secret_access_key''),
      (''S3_BUCKET_ENDPOINT'', ''/shipcloud/s3/bucket_endpoint''),
      (''SHIP_API_ADVERTISE_ENDPOINT'', []),
      (''GRAPHQL_PREM_ENDPOINT'', ''/graphql/prem_endpoint''),
      (''SEGMENTIO_ANALYTICS_WRITE_KEY'', ''/shipcloud/segmentio/analytics_write_key''),
      (''ENABLE_KURL'', [])]"

definition loadParams :: "environment \<Rightarrow> ssm \<Rightarrow> (string \<Rightarrow> string option) result" where
  "loadParams env service = lookupParams env service paramLookup"

record Params =
  postgresUri :: "string option"
  apiEncryptionKey :: "string option"
  githubAppInstallURL :: "string option"
  githubClientId :: "string option"
  githubClientSecret :: "string option"
  githubIntegrationID :: "string option"
  githubPrivateKeyFile :: "string option"
  githubPrivateKeyContents :: "string option"
  bugsnagKey :: "string option"
  sessionKey :: "string option"
  shipOutputBucket :: "string option"
  sigsciRpcAddress :: "string option"
  shipApiEndpoint :: "string option"
  objectStoreInDatabase :: "string option"
  s3Endpoint :: "string option"
  s3AccessKeyId :: "string option"
  s3SecretAccessKey :: "string option"
  s3BucketEndpoint :: "string option"
  s3Region :: string
  s3SkipEnsureBucket :: bool
  apiAdvertiseEndpoint :: "string option"
  graphqlPremEndpoint :: "string option"
  segmentioAnalyticsKey :: "string option"
  enableKurl :: bool
  prometheusAddress :: "string option"

definition new_params :: "environment \<Rightarrow> (string \<Rightarrow> string option) \<Rightarrow> Params" where
  "new_params env params =
     \<lparr>postgresUri = params ''POSTGRES_URI'',
      apiEncryptionKey = params ''API_ENCRYPTION_KEY'',
      githubAppInstallURL = params ''GITHUB_APP_INSTALL_URL'',
      githubClientId = params ''GITHUB_CLIENT_ID'',
      githubClientSecret = params ''GITHUB_CLIENT_SECRET'',
      githubIntegrationID = params ''GITHUB_INTEGRATION_ID'',
      githubPrivateKeyFile = params ''GITHUB_PRIVATE_KEY_FILE'',
      githubPrivateKeyContents = params ''GITHUB_PRIVATE_KEY_CONTENTS'',
      bugsnagKey = params ''BUGSNAG_KEY'',
      sessionKey = params ''SESSION_KEY'',
      shipOutputBucket = params ''S3_BUCKET_NAME'',
      sigsciRpcAddress = params ''SIGSCI_RPC_ADDRESS'',
      shipApiEndpoint = env ''SHIP_API_ENDPOINT'',
      objectStoreInDatabase = env ''OBJECT_STORE_IN_DATABASE'',
      s3Endpoint = env ''S3_ENDPOINT'',
      s3AccessKeyId = params ''S3_ACCESS_KEY_ID'',
      s3SecretAccessKey = params ''S3_SECRET_ACCESS_KEY'',
      s3BucketEndpoint = params ''S3_BUCKET_ENDPOINT'',
      s3Region = (if truthy_str (env ''S3_REGION'') then str_or_empty (env ''S3_REGION'') else ''us-east-1''),
      s3SkipEnsureBucket = (env ''S3_SKIP_ENSURE_BUCKET'' = Some ''1''),
      apiAdvertiseEndpoint = env ''SHIP_API_ADVERTISE_ENDPOINT'',
      graphqlPremEndpoint = params ''GRAPHQL_PREM_ENDPOINT'',
      segmentioAnalyticsKey = params ''SEGMENTIO_ANALYTICS_WRITE_KEY'',
      enableKurl = (env ''ENABLE_KURL'' = Some ''1''),
      prometheusAddress = env ''PROMETHEUS_ADDRESS''\<rparr>"

text \<open>The first answer is kept for the life of the process; a lookup that fails is tried again by the next call.\<close>

definition getParams :: "environment \<Rightarrow> ssm \<Rightarrow> (Params option, Params) eff" where
  "getParams env service s =
     (case s of
        Some p \<Rightarrow> (Inr p, s)
      | None \<Rightarrow> (case loadParams env service of
            Inl e \<Rightarrow> (Inl e, None)
          | Inr params \<Rightarrow> (Inr (new_params env params), Some (new_params env params))))"

section \<open>What a client is told of an error\<close>

definition INTERNAL_ERROR_MESSAGE :: string where
  "INTERNAL_ERROR_MESSAGE = ''An internal server error has occurred.''"

text \<open>An error as GraphQL hands it over: its message, and whether it wraps one that a resolver raised.\<close>

record graphql_error =
  ge_message :: string
  ge_originalError :: bool

definition replicated_message :: "string \<Rightarrow> string" where
  "replicated_message msg =
     json_stringify (JObj [(''replicatedMessage'', JStr (if msg = [] then INTERNAL_ERROR_MESSAGE else msg))])"

definition notFound :: error where
  "notFound = ReplicatedError ''not found''"

definition forbidden :: error where
  "forbidden = ReplicatedError ''Forbidden''"

definition isNotFound :: "error \<Rightarrow> bool" where
  "isNotFound err \<longleftrightarrow> err = ReplicatedError ''not found''"

text \<open>The message of each error of a resolver, and what the client gets.\<close>

definition getDetails :: "(string \<Rightarrow> jsval result) \<Rightarrow> graphql_error \<Rightarrow> jsval" where
  "getDetails json err =
     (case json (ge_message err) of
        Inr (JObj kvs) \<Rightarrow>
          if ''replicatedMessage'' \<in> fst ` set kvs then own_prop kvs ''replicatedMessage''
          else if \<not> ge_originalError err then JStr (ge_message err) else JStr INTERNAL_ERROR_MESSAGE
      | _ \<Rightarrow> if \<not> ge_originalError err then JStr (ge_message err) else JStr INTERNAL_ERROR_MESSAGE)"

definition graphQLUnauthorizedError :: jsval where
  "graphQLUnauthorizedError =
     JObj [(''errors'', JArr [JObj [(''message'', JStr ''Unauthorized''), (''locations'', JArr [])]])]"

section \<open>Lemmas\<close>

lemma concat_chunk: "n > 0 \<Longrightarrow> concat (chunk n xs) = xs"
proof (induction n xs rule: chunk.induct)
  case (2 n x xs)
  then have "concat (chunk n (drop (n - 1) xs)) = drop (n - 1) xs" by simp
  with 2(2) show ?case by (cases n) simp_all
qed simp

lemma chunk_bound: "n > 0 \<Longrightarrow> c \<in> set (chunk n xs) \<Longrightarrow> c \<noteq> [] \<and> length c \<le> n"
  by (induction n xs rule: chunk.induct) (auto split: if_splits)

text \<open>A service that knows every parameter answers a request of at most ten names.\<close>

definition knows :: "ssm \<Rightarrow> (string \<Rightarrow> string) \<Rightarrow> bool" where
  "knows service value \<longleftrightarrow> (\<forall>names. length names \<le> 10 \<longrightarrow> service names = Inr (map (\<lambda>n. (n, value n)) names))"

lemma mapR_knows:
  "knows service value \<Longrightarrow> (\<And>c. c \<in> set cs \<Longrightarrow> length c \<le> 10) \<Longrightarrow> mapR service cs = Inr (map (map (\<lambda>n. (n, value n))) cs)"
  by (induction cs) (simp_all add: knows_def)

lemma ssm_run:
  assumes "knows service value"
  shows "getParamsFromSsm env service lk =
    Inr (foldl (put_param lk) (map_of (map (\<lambda>(k, _). (k, env_value env k)) (filter (\<lambda>(_, n). n = []) lk)))
      (map (\<lambda>n. (n, value n)) (ssm_names lk)))"
proof -
  have "mapR service (chunk 10 (ssm_names lk)) = Inr (map (map (\<lambda>n. (n, value n))) (chunk 10 (ssm_names lk)))"
    using chunk_bound [of 10] by (intro mapR_knows [OF assms]) auto
  moreover have "concat (map (map (\<lambda>n. (n, value n))) (chunk 10 (ssm_names lk))) = map (\<lambda>n. (n, value n)) (ssm_names lk)"
    using concat_chunk [of 10 "ssm_names lk"] by (simp flip: map_concat)
  ultimately show ?thesis by (simp add: getParamsFromSsm_def)
qed

lemma put_params:
  "foldl (put_param lk) m (map (\<lambda>n. (n, value n)) ns) k =
     (if \<exists>n \<in> set ns. (case reverseLookup lk n of None \<Rightarrow> ''undefined'' | Some k' \<Rightarrow> k') = k
      then Some (value (last (filter (\<lambda>n. (case reverseLookup lk n of None \<Rightarrow> ''undefined'' | Some k' \<Rightarrow> k') = k) ns)))
      else m k)"
  by (induction ns rule: rev_induct) (auto simp: put_param_def split: option.splits)

lemma reverse_of:
  assumes "distinct (ssm_names lk)" and "(k, n) \<in> set lk" and "n \<noteq> []"
  shows "reverseLookup lk n = Some k"
proof -
  let ?r = "rev (map (\<lambda>(k, n). (n, k)) (filter (\<lambda>(_, n). n \<noteq> []) lk))"
  have "map fst ?r = rev (ssm_names lk)"
    by (induction lk) (auto simp: ssm_names_def)
  with assms(1) have "distinct (map fst ?r)" by simp
  moreover have "(n, k) \<in> set ?r" using assms(2,3) by force
  ultimately show ?thesis by (simp only: reverseLookup_def map_of_eq_Some_iff)
qed

lemma map_of_plain:
  "distinct (map fst lk) \<Longrightarrow>
   map_of (map (\<lambda>(k, _). (k, f k)) (filter (\<lambda>(_, n). n = []) lk)) k = (if map_of lk k = Some [] then Some (f k) else None)"
proof (induction lk)
  case (Cons p lk)
  obtain j n where p: "p = (j, n)" by (cases p)
  with Cons.prems have "map_of lk j = None" by (simp add: map_of_eq_None_iff)
  with Cons p show ?case by (cases "k = j"; cases "n = []") simp_all
qed simp

lemma ssm_params:
  assumes "knows service value" and "distinct (map fst lk)" and "distinct (ssm_names lk)"
  shows "getParamsFromSsm env service lk =
    Inr (\<lambda>k. map_option (\<lambda>n. if n = [] then env_value env k else value n) (map_of lk k))"
proof -
  let ?key = "\<lambda>n. case reverseLookup lk n of None \<Rightarrow> ''undefined'' | Some k' \<Rightarrow> k'"
  let ?env = "map_of (map (\<lambda>(k, _). (k, env_value env k)) (filter (\<lambda>(_, n). n = []) lk))"
  have key: "?key n = k" if "(k, n) \<in> set lk" "n \<noteq> []" for k n
    using reverse_of [OF assms(3) that] by simp
  have names: "n \<in> set (ssm_names lk) \<longleftrightarrow> n \<noteq> [] \<and> (\<exists>k. (k, n) \<in> set lk)" for n
    by (force simp: ssm_names_def)
  have env: "?env k = (if map_of lk k = Some [] then Some (env_value env k) else None)" for k
    by (rule map_of_plain [OF assms(2)])
  have "foldl (put_param lk) ?env (map (\<lambda>n. (n, value n)) (ssm_names lk)) k =
      map_option (\<lambda>n. if n = [] then env_value env k else value n) (map_of lk k)" for k
  proof (cases "\<exists>n. n \<noteq> [] \<and> (k, n) \<in> set lk")
    case True
    then obtain n where n: "n \<noteq> []" "(k, n) \<in> set lk" by blast
    then have k: "map_of lk k = Some n" using assms(2) by simp
    have "filter (\<lambda>m. ?key m = k) (ssm_names lk) = filter (\<lambda>m. m = n) (ssm_names lk)"
    proof (intro filter_cong refl)
      fix m assume "m \<in> set (ssm_names lk)"
      then obtain j where j: "(j, m) \<in> set lk" "m \<noteq> []" unfolding names by blast
      then show "(?key m = k) = (m = n)" using key [OF j] n k assms(2) by (metis map_of_eq_Some_iff option.inject key)
    qed
    moreover have "n \<in> set (ssm_names lk)" using n names by blast
    ultimately have ne: "filter (\<lambda>m. ?key m = k) (ssm_names lk) \<noteq> []" and
      all: "set (filter (\<lambda>m. ?key m = k) (ssm_names lk)) \<subseteq> {n}" by (auto simp: filter_empty_conv)
    then have "last (filter (\<lambda>m. ?key m = k) (ssm_names lk)) = n" using last_in_set by blast
    moreover from ne have "\<exists>m \<in> set (ssm_names lk). ?key m = k" by (simp add: filter_empty_conv)
    ultimately have "last (filter (\<lambda>m. ?key m = k) (ssm_names lk)) = n" "\<exists>m \<in> set (ssm_names lk). ?key m = k" by blast+
    with k n show ?thesis unfolding put_params by simp
  next
    case False
    then have "\<not> (\<exists>m \<in> set (ssm_names lk). ?key m = k)" using key names by blast
    moreover have "map_of lk k = None \<or> map_of lk k = Some []" using False by (metis map_of_SomeD option.exhaust)
    ultimately show ?thesis unfolding put_params using env [of k] by auto
  qed
  then show ?thesis unfolding ssm_run [OF assms(1)] by (intro arg_cong [where f = Inr] ext)
qed





end
