(* ===== verification/Metrics.thy ===== *)
theory Metrics
  imports Deploy Users KurlNodes Licenses ServerParams
begin

text \<open>
  The dashboard of an application: its status and its metrics, \<^verbatim>\<open>api/src/monitoring/metric_store.ts\<close> and
  \<^verbatim>\<open>kots_app/resolvers/kots_app_dashboard_queries.ts\<close>.

  Graphs are values of JavaScript, since an application brings its own.  Prometheus is a parameter: what it
  answers to a request.  The numbers it sends are handed on as they are.
\<close>

section \<open>The range query\<close>

record range_query =
  rq_address :: string
  rq_query :: jsval
  rq_start :: "rat option"
  rq_end :: rat
  rq_step :: "rat option"

text \<open>A body, an answer with another status and its error, or another failure of the request.\<close>

datatype prom_answer = Body jsval | BadStatus jsval | Failed error

type_synonym prometheus = "range_query \<Rightarrow> prom_answer"

text \<open>\<^verbatim>\<open>v == s\<close> for a text \<open>s\<close> that is no numeral.\<close>

definition loosely_equals :: "jsval \<Rightarrow> string \<Rightarrow> bool" where
  "loosely_equals v s =
     (case v of JStr t \<Rightarrow> t = s | JArr xs \<Rightarrow> js_to_string v = s | JObj kvs \<Rightarrow> js_to_string v = s | _ \<Rightarrow> False)"

definition prometheusQueryRange :: "prometheus \<Rightarrow> range_query \<Rightarrow> jsval result" where
  "prometheusQueryRange prom rq =
     (case prom rq of
        Body response \<Rightarrow>
          bindR (js_gets response [''data'', ''resultType'']) (\<lambda>resultType.
            if loosely_equals resultType ''matrix'' then js_gets response [''data'', ''result'']
            else Inl (JsError (''unexpected response retsult type '' @ js_to_string resultType)))
      | BadStatus e \<Rightarrow> Inl (JsError (js_to_string e))
      | Failed e \<Rightarrow> Inl e)"

section \<open>Series and charts\<close>

record ValuePair =
  vp_timestamp :: jsval
  vp_value :: jsval

record Metric =
  me_name :: string
  me_value :: jsval

record Series =
  se_legendTemplate :: jsval
  se_metric :: "Metric list"
  se_data :: "ValuePair list"

record MetricChart =
  mc_title :: jsval
  mc_tickFormat :: jsval
  mc_tickTemplate :: jsval
  mc_series :: "Series list"

text \<open>\<^verbatim>\<open>v[n]\<close> and \<^verbatim>\<open>v.map\<close>, which only an array has.\<close>

definition js_index :: "jsval \<Rightarrow> nat \<Rightarrow> jsval result" where
  "js_index v n =
     (case v of
        JArr xs \<Rightarrow> Inr (if n < length xs then xs ! n else JUndef)
      | JStr s \<Rightarrow> Inr (if n < length s then JStr [s ! n] else JUndef)
      | _ \<Rightarrow> js_get v (show_nat n))"

definition array_map :: "(jsval \<Rightarrow> 'a result) \<Rightarrow> jsval \<Rightarrow> 'a list result" where
  "array_map f v = (case v of JArr xs \<Rightarrow> mapR f xs | _ \<Rightarrow> Inl TypeError)"

definition value_pair :: "jsval \<Rightarrow> ValuePair result" where
  "value_pair v = bindR (js_index v 0) (\<lambda>t. bindR (js_index v 1) (\<lambda>x. Inr \<lparr>vp_timestamp = t, vp_value = x\<rparr>))"

text \<open>\<^verbatim>\<open>Object.entries\<close> raises for what is no object.\<close>

definition entries :: "jsval \<Rightarrow> (string \<times> jsval) list result" where
  "entries v = (if v = JUndef \<or> v = JNull then Inl TypeError else Inr (js_entries v))"

definition metrics_of :: "(string \<times> jsval) list \<Rightarrow> Metric list" where
  "metrics_of kvs = map (\<lambda>(k, v). \<lparr>me_name = k, me_value = v\<rparr>) kvs"

definition series_of :: "jsval \<Rightarrow> jsval \<Rightarrow> Series result" where
  "series_of legend sampleStream =
     bindR (bindR (js_get sampleStream ''values'') (array_map value_pair)) (\<lambda>pairs.
     bindR (bindR (js_get sampleStream ''metric'') entries) (\<lambda>kvs.
       Inr \<lparr>se_legendTemplate = js_or_empty legend, se_metric = metrics_of kvs, se_data = pairs\<rparr>))"

definition DefaultQueryDurationSeconds :: int where
  "DefaultQueryDurationSeconds = 15 * 60"

definition DefaultGraphStepPoints :: rat where
  "DefaultGraphStepPoints = 80"

definition graph_duration :: "jsval \<Rightarrow> rat option result" where
  "graph_duration graph =
     bindR (js_get graph ''durationSeconds'') (\<lambda>d.
       Inr (if truthy d then js_number d else Some (of_int DefaultQueryDurationSeconds)))"

definition range_query_of :: "string \<Rightarrow> rat \<Rightarrow> rat option \<Rightarrow> jsval \<Rightarrow> range_query" where
  "range_query_of addr endTime duration q =
     \<lparr>rq_address = addr, rq_query = q, rq_start = minus_nan (Some endTime) duration, rq_end = endTime,
      rq_step = over duration DefaultGraphStepPoints\<rparr>"

definition query_series :: "prometheus \<Rightarrow> string \<Rightarrow> rat \<Rightarrow> jsval \<Rightarrow> jsval \<Rightarrow> Series list result" where
  "query_series prom addr endTime graph query =
     bindR (graph_duration graph) (\<lambda>duration.
     bindR (js_get query ''query'') (\<lambda>q.
     bindR (prometheusQueryRange prom (range_query_of addr endTime duration q)) (\<lambda>matrix.
     bindR (js_get query ''legend'') (\<lambda>legend. array_map (series_of legend) matrix))))"

text \<open>The single query of a graph, then its list of queries.\<close>

definition graph_queries :: "jsval \<Rightarrow> jsval list result" where
  "graph_queries graph =
     bindR (js_get graph ''query'') (\<lambda>q.
     bindR (js_get graph ''legend'') (\<lambda>legend.
     bindR (js_get graph ''queries'') (\<lambda>qs.
     bindR (if truthy q then Inr [JObj [(''query'', q), (''legend'', legend)]] else Inr []) (\<lambda>single.
     bindR (if truthy qs then array_map Inr qs else Inr []) (\<lambda>more. Inr (single @ more))))))"

definition render_chart :: "prometheus \<Rightarrow> string \<Rightarrow> rat \<Rightarrow> jsval \<Rightarrow> MetricChart result" where
  "render_chart prom addr endTime graph =
     bindR (graph_queries graph) (\<lambda>queries.
     bindR (mapR (query_series prom addr endTime graph) queries) (\<lambda>series.
     bindR (js_get graph ''title'') (\<lambda>title.
     bindR (js_get graph ''yAxisFormat'') (\<lambda>yAxisFormat.
     bindR (js_get graph ''yAxisTemplate'') (\<lambda>yAxisTemplate.
       Inr \<lparr>mc_title = title, mc_tickFormat = js_or_empty yAxisFormat, mc_tickTemplate = js_or_empty yAxisTemplate,
            mc_series = concat series\<rparr>)))))"

text \<open>A graph that fails is left out; its title is read for the log.\<close>

definition graph_chart :: "prometheus \<Rightarrow> string \<Rightarrow> rat \<Rightarrow> jsval \<Rightarrow> MetricChart option result" where
  "graph_chart prom addr endTime graph =
     (case render_chart prom addr endTime graph of
        Inr chart \<Rightarrow> Inr (Some chart)
      | Inl _ \<Rightarrow> bindR (js_get graph ''title'') (\<lambda>_. Inr None))"

definition metrics_address :: "Params \<Rightarrow> db \<Rightarrow> string option" where
  "metrics_address params d =
     (if truthy_str (getParam ''PROMETHEUS_ADDRESS'' d) then getParam ''PROMETHEUS_ADDRESS'' d
      else prometheusAddress params)"

definition getKotsAppMetricCharts :: "prometheus \<Rightarrow> Params \<Rightarrow> time \<Rightarrow> jsval \<Rightarrow> db \<Rightarrow> MetricChart list result" where
  "getKotsAppMetricCharts prom params now graphs d =
     (if \<not> truthy_str (metrics_address params d) then Inr []
      else bindR (array_map (graph_chart prom (str_or_empty (metrics_address params d)) (of_int now / 1000)) graphs)
             (\<lambda>charts. Inr (map the (filter (\<lambda>c. c \<noteq> None) charts))))"

section \<open>The dashboard\<close>

definition disk_graph :: jsval where
  "disk_graph = JObj
     [(''title'', JStr ''Disk Usage''),
      (''queries'', JArr
        [JObj [(''query'', JStr (''sum((node_filesystem_size_bytes{job=\"node-exporter\",fstype!=\"\",instance!=\"\"} - '' @
                 ''node_filesystem_avail_bytes{job=\"node-exporter\", fstype!=\"\"})) by (instance)'')),
               (''legend'', JStr ''Used: {{ instance }}'')],
         JObj [(''query'', JStr (''sum((node_filesystem_avail_bytes{job=\"node-exporter\",fstype!=\"\",instance!=\"\"})) '' @
                 ''by (instance)'')),
               (''legend'', JStr ''Available: {{ instance }}'')]]),
      (''yAxisFormat'', JStr ''bytes''),
      (''yAxisTemplate'', JStr ''{{ value }} bytes'')]"

definition cpu_graph :: jsval where
  "cpu_graph = JObj
     [(''title'', JStr ''CPU Usage''),
      (''query'', JStr (''sum(rate(container_cpu_usage_seconds_total{namespace=\"default\",container!=\"POD\",'' @
         ''pod!=\"\"}[5m])) by (pod)'')),
      (''legend'', JStr ''{{ pod }}'')]"

definition memory_graph :: jsval where
  "memory_graph = JObj
     [(''title'', JStr ''Memory Usage''),
      (''query'', JStr (''sum(container_memory_usage_bytes{namespace=\"default\",container!=\"POD\",pod!=\"\"}) '' @ ''by (pod)'')),
      (''legend'', JStr ''{{ pod }}''),
      (''yAxisFormat'', JStr ''bytes'')]"

definition DefaultMetricGraphs :: jsval where
  "DefaultMetricGraphs = JArr [disk_graph, cpu_graph, memory_graph]"

text \<open>The graphs of the deployed version; the failure to read its spec is logged.\<close>

definition dashboard_graphs :: "Deploy.services \<Rightarrow> string \<Rightarrow> string \<Rightarrow> db \<Rightarrow> jsval result" where
  "dashboard_graphs sv appId clusterId d =
     (let kotsAppSpec = (case app_getKotsAppSpec sv appId clusterId d of Inl _ \<Rightarrow> JUndef | Inr v \<Rightarrow> v) in
      bindR (js_and kotsAppSpec (\<lambda>v. js_get v ''graphs'')) (\<lambda>graphs.
        Inr (if truthy graphs then graphs else DefaultMetricGraphs)))"

definition dashboard_charts ::
  "Deploy.services \<Rightarrow> prometheus \<Rightarrow> Params \<Rightarrow> time \<Rightarrow> string \<Rightarrow> string \<Rightarrow> db \<Rightarrow> MetricChart list result" where
  "dashboard_charts sv prom params now slug clusterId d =
     bindR (getIdFromSlug slug d) (\<lambda>appId.
     bindR (getApp appId d) (\<lambda>app.
     bindR (dashboard_graphs sv (ka_id app) clusterId d) (\<lambda>graphs.
       getKotsAppMetricCharts prom params now graphs d)))"

record app_status_schema =
  ss_appId :: string
  ss_updatedAt :: "time option"
  ss_resourceStates :: "ResourceState list option"
  ss_state :: State

definition status_toSchema :: "KotsAppStatus \<Rightarrow> app_status_schema" where
  "status_toSchema s =
     \<lparr>ss_appId = kst_appId s, ss_updatedAt = kst_updatedAt s, ss_resourceStates = kst_resourceStates s,
      ss_state = getState (kst_resourceStates s)\<rparr>"

definition dashboard_status :: "time \<Rightarrow> string \<Rightarrow> db \<Rightarrow> app_status_schema result" where
  "dashboard_status now slug d =
     bindR (getIdFromSlug slug d) (\<lambda>appId.
     bindR (getApp appId d) (\<lambda>app.
       case getKotsAppStatus (ka_id app) d of
         Inr s \<Rightarrow> Inr (status_toSchema s)
       | Inl e \<Rightarrow>
           if isNotFound e
           then Inr \<lparr>ss_appId = appId, ss_updatedAt = Some now, ss_resourceStates = Some [], ss_state = Missing\<rparr>
           else Inl e))"

record KotsAppDashboard =
  db_appStatus :: "app_status_schema result"
  db_metrics :: "MetricChart list result"
  db_prometheusAddress :: "string option"

definition getKotsAppDashboard ::
  "Deploy.services \<Rightarrow> prometheus \<Rightarrow> Params \<Rightarrow> time \<Rightarrow> string \<Rightarrow> string \<Rightarrow> db \<Rightarrow> KotsAppDashboard" where
  "getKotsAppDashboard sv prom params now slug clusterId d =
     \<lparr>db_appStatus = dashboard_status now slug d,
      db_metrics = (case dashboard_charts sv prom params now slug clusterId d of
                      Inl _ \<Rightarrow> Inr [] | Inr charts \<Rightarrow> Inr charts),
      db_prometheusAddress = metrics_address params d\<rparr>"

section \<open>Lemmas\<close>

text \<open>Eighty steps lead from the start of a query to its end, when they are numbers at all.\<close>

definition eighty_steps :: "rat \<Rightarrow> range_query \<Rightarrow> bool" where
  "eighty_steps endTime rq \<longleftrightarrow> rq_end rq = endTime \<and>
     (case rq_start rq of
        None \<Rightarrow> rq_step rq = None
      | Some s \<Rightarrow> (case rq_step rq of None \<Rightarrow> False | Some t \<Rightarrow> s + 80 * t = endTime))"

definition only_eighty :: "rat \<Rightarrow> prometheus \<Rightarrow> prometheus" where
  "only_eighty endTime prom rq = (if eighty_steps endTime rq then prom rq else Failed Uncaught)"

lemma range_query_eighty: "eighty_steps endTime (range_query_of addr endTime duration q)"
  by (simp add: eighty_steps_def range_query_of_def minus_nan_def over_def DefaultGraphStepPoints_def split: option.split)

lemma query_series_eighty: "query_series (only_eighty e prom) addr e graph = query_series prom addr e graph"
  by (rule ext) (simp add: query_series_def prometheusQueryRange_def only_eighty_def range_query_eighty)

lemma graph_chart_eighty: "graph_chart (only_eighty e prom) addr e graph = graph_chart prom addr e graph"
  by (simp add: graph_chart_def render_chart_def query_series_eighty)

definition chart_or_none :: "prometheus \<Rightarrow> string \<Rightarrow> rat \<Rightarrow> jsval \<Rightarrow> MetricChart option" where
  "chart_or_none prom addr e graph = (case render_chart prom addr e graph of Inl _ \<Rightarrow> None | Inr chart \<Rightarrow> Some chart)"

lemma graph_chart_object: "is_object graph \<Longrightarrow> graph_chart prom addr e graph = Inr (chart_or_none prom addr e graph)"
  using is_object_get [of graph "''title''"]
  by (auto simp: graph_chart_def chart_or_none_def split: sum.splits)

lemma mapR_graph_chart:
  "list_all is_object graphs \<Longrightarrow>
   mapR (graph_chart prom addr e) graphs = Inr (map (chart_or_none prom addr e) graphs)"
  by (induction graphs) (simp_all add: graph_chart_object)

lemma shown_charts: "map the (filter (\<lambda>c. c \<noteq> None) (map f xs)) = List.map_filter f xs"
  by (induction xs) (auto simp: List.map_filter_simps split: option.splits)

lemma chart_or_none_eighty: "chart_or_none (only_eighty e prom) addr e = chart_or_none prom addr e"
  by (rule ext) (simp add: chart_or_none_def render_chart_def query_series_eighty)

lemma metrics_charts:
  "metrics_address params d = Some addr \<Longrightarrow> addr \<noteq> [] \<Longrightarrow> list_all is_object graphs \<Longrightarrow>
   getKotsAppMetricCharts prom params now (JArr graphs) d =
     Inr (List.map_filter (chart_or_none prom addr (of_int now / 1000)) graphs)"
  by (simp add: getKotsAppMetricCharts_def array_map_def mapR_graph_chart shown_charts del: not_None_eq)

section \<open>Properties\<close>

text \<open>
  With an address of Prometheus, the charts of a dashboard are those of the graphs whose queries all succeed,
  in the order of the graphs: a graph that fails takes no other with it. Prometheus is asked for no more
  than eighty steps up to the present, whatever the graph asks for: its answers to other requests make no
  difference.
\<close>

theorem metrics_keep_good_graphs:
  assumes "metrics_address params d = Some addr" and "addr \<noteq> []" and "list_all is_object graphs"
  shows "getKotsAppMetricCharts prom params now (JArr graphs) d =
           Inr (List.map_filter (chart_or_none prom addr (of_int now / 1000)) graphs) \<and>
         getKotsAppMetricCharts (only_eighty (of_int now / 1000) prom) params now (JArr graphs) d =
           getKotsAppMetricCharts prom params now (JArr graphs) d"
  using assms metrics_charts [OF assms, of prom now] metrics_charts [OF assms, of "only_eighty (of_int now / 1000) prom" now]
  by (simp add: chart_or_none_eighty)

definition example_prometheus :: prometheus where
  "example_prometheus rq =
     (if rq_query rq = JStr ''up'' \<and> rq_start rq = Some 100 \<and> rq_step rq = Some (45 / 4)
      then Body (JObj [(''data'', JObj [(''resultType'', JStr ''matrix''),
             (''result'', JArr [JObj [(''metric'', JObj [(''pod'', JStr ''a'')]), (''values'', JArr [JArr [JNum 100, JStr ''1'']])]])])])
      else BadStatus (JStr ''no such query''))"

definition up_graph :: jsval where
  "up_graph = JObj [(''title'', JStr ''Up''), (''query'', JStr ''up'')]"

definition example_metrics_params :: Params where
  "example_metrics_params = (new_params (\<lambda>_. None) (\<lambda>_. None))\<lparr>prometheusAddress := Some ''http://prom''\<rparr>"

theorem metrics_keep_good_graphs_witness:
  "getKotsAppMetricCharts example_prometheus example_metrics_params 1000000 (JArr [JObj [(''title'', JStr ''x''), (''query'', JStr ''y'')], up_graph]) example_db =
     Inr [\<lparr>mc_title = JStr ''Up'', mc_tickFormat = JStr [], mc_tickTemplate = JStr [],
           mc_series = [\<lparr>se_legendTemplate = JStr [], se_metric = [\<lparr>me_name = ''pod'', me_value = JStr ''a''\<rparr>],
             se_data = [\<lparr>vp_timestamp = JNum 100, vp_value = JStr ''1''\<rparr>]\<rparr>]\<rparr>]"
proof -
  have "metrics_address example_metrics_params example_db = Some ''http://prom''"
    by (simp add: metrics_address_def example_metrics_params_def getParam_def row_of_def sql_select_def example_db_def empty_db_def)
  from metrics_keep_good_graphs [OF this, of "[JObj [(''title'', JStr ''x''), (''query'', JStr ''y'')], up_graph]" example_prometheus 1000000]
  show ?thesis
    by (simp add: is_object_def up_graph_def List.map_filter_simps chart_or_none_def render_chart_def graph_queries_def
        query_series_def graph_duration_def range_query_of_def prometheusQueryRange_def example_prometheus_def
        minus_nan_def over_def js_number_def DefaultQueryDurationSeconds_def DefaultGraphStepPoints_def own_prop.simps
        loosely_equals_def array_map_def series_of_def value_pair_def js_index_def entries_def js_entries_def metrics_of_def
        js_or_empty_def)
qed

end
