(* ===== verification/Queries.thy ===== *)
theory Queries
  imports Releases Metrics Troubleshoot
begin

text \<open>
  The queries of the server: the resolvers of \<^verbatim>\<open>apps\<close>, \<^verbatim>\<open>cluster\<close>, \<^verbatim>\<open>kots_app\<close>, \<^verbatim>\<open>preflight\<close>,
  \<^verbatim>\<open>troubleshoot\<close>, \<^verbatim>\<open>user\<close>, \<^verbatim>\<open>klicenses\<close>, \<^verbatim>\<open>feature\<close>, \<^verbatim>\<open>monitoring\<close> and \<^verbatim>\<open>healthz\<close> under \<^verbatim>\<open>api/src\<close>, and
  \<^verbatim>\<open>toSchema\<close> of applications and support bundles.

  The fields a client may select are functions in the source, called when they are selected; here they are
  the outcome of each function.  An argument that the schema does not declare is never given: it is an option.
\<close>

section \<open>An application as shown\<close>

definition context_getApp :: "string \<Rightarrow> db \<Rightarrow> KotsApp result" where
  "context_getApp i d = getApp i d"

definition app_by_slug :: "string \<Rightarrow> db \<Rightarrow> KotsApp result" where
  "app_by_slug slug d = bindR (getIdFromSlug slug d) (\<lambda>i. context_getApp i d)"

record cluster_schema =
  cs_cluster :: Cluster
  cs_currentVersion :: "KotsVersion option result"

definition toKotsAppSchema :: "string \<Rightarrow> Cluster \<Rightarrow> db \<Rightarrow> cluster_schema" where
  "toKotsAppSchema appId cluster d =
     \<lparr>cs_cluster = cluster, cs_currentVersion = getCurrentVersion appId (c_id cluster) d\<rparr>"

record downstream_schema =
  ds_name :: string
  ds_gitops :: DownstreamGitOps
  ds_links :: "KotsAppLink list result"
  ds_currentVersion :: "KotsVersion option result"
  ds_pastVersions :: "KotsVersion list result"
  ds_pendingVersions :: "KotsVersion list result"
  ds_cluster :: cluster_schema

record app_schema =
  sc_app :: KotsApp
  sc_isGitOpsSupported :: "bool result"
  sc_allowRollback :: "bool result"
  sc_allowSnapshots :: "(db, bool) eff"
  sc_currentVersion :: "KotsVersion option result"
  sc_licenseType :: "jsval result"
  sc_downstreams :: "downstream_schema list"

definition downstream_toSchema :: "'g release_env \<Rightarrow> KotsApp \<Rightarrow> rworld \<Rightarrow> Cluster \<Rightarrow> downstream_schema" where
  "downstream_toSchema env app w downstream =
     \<lparr>ds_name = c_title downstream,
      ds_gitops = getDownstreamGitOps (re_err_text env) (re_json env) (ka_id app) (c_id downstream) (rw_k8s w),
      ds_links = getRealizedLinksFromAppSpec (re_safeLoad env) (ka_id app) (c_id downstream) (rw_db w),
      ds_currentVersion = getCurrentVersion (ka_id app) (c_id downstream) (rw_db w),
      ds_pastVersions = listPastVersions (ka_id app) (c_id downstream) (rw_db w),
      ds_pendingVersions = listPendingVersions (ka_id app) (c_id downstream) (rw_db w),
      ds_cluster = toKotsAppSchema (ka_id app) downstream (rw_db w)\<rparr>"

definition app_toSchema ::
  "'g release_env \<Rightarrow> config_env \<Rightarrow> (string \<Rightarrow> KotsAppRegistryDetails \<Rightarrow> string result) \<Rightarrow> KotsApp \<Rightarrow> Cluster list \<Rightarrow>
   rworld \<Rightarrow> app_schema" where
  "app_toSchema env cenv renderFile app downstreams w =
     \<lparr>sc_app = app,
      sc_isGitOpsSupported = app_isGitOpsSupported (re_safeLoad env) (gitops_secret (rw_k8s w) \<noteq> None) app (rw_db w),
      sc_allowRollback = isAllowRollback (re_safeLoad env) app (rw_db w),
      sc_allowSnapshots = isAllowSnapshots cenv renderFile app downstreams,
      sc_currentVersion = getCurrentAppVersion (ka_id app) (rw_db w),
      sc_licenseType = getKotsLicenseType (re_safeLoad env) app (rw_db w),
      sc_downstreams = map (downstream_toSchema env app w) downstreams\<rparr>"

definition app_shown ::
  "'g release_env \<Rightarrow> config_env \<Rightarrow> (string \<Rightarrow> KotsAppRegistryDetails \<Rightarrow> string result) \<Rightarrow> KotsApp \<Rightarrow> rworld \<Rightarrow> app_schema result" where
  "app_shown env cenv renderFile app w =
     bindR (listClustersForKotsApp (ka_id app) (rw_db w)) (\<lambda>downstreams.
       Inr (app_toSchema env cenv renderFile app downstreams w))"

section \<open>Applications\<close>

definition getKotsApp ::
  "'g release_env \<Rightarrow> config_env \<Rightarrow> (string \<Rightarrow> KotsAppRegistryDetails \<Rightarrow> string result) \<Rightarrow> string option \<Rightarrow> string option \<Rightarrow>
   rworld \<Rightarrow> app_schema result" where
  "getKotsApp env cenv renderFile slug i w =
     (if \<not> truthy_str i \<and> \<not> truthy_str slug then Inl (ReplicatedError ''One of slug or id is required'')
      else bindR (if truthy_str slug then getIdFromSlug (str_or_empty slug) (rw_db w) else Inr (str_or_empty i)) (\<lambda>i'.
           bindR (context_getApp i' (rw_db w)) (\<lambda>app. app_shown env cenv renderFile app w)))"

text \<open>Each application of the list is shown or fails on its own.\<close>

record apps_answer =
  aq_kotsApps :: "app_schema result list result"
  aq_pendingUnforks :: "unit list"

definition listApps_query ::
  "'g release_env \<Rightarrow> config_env \<Rightarrow> (string \<Rightarrow> KotsAppRegistryDetails \<Rightarrow> string result) \<Rightarrow> Session \<Rightarrow> rworld \<Rightarrow> apps_answer" where
  "listApps_query env cenv renderFile session w =
     \<lparr>aq_kotsApps = bindR (listInstalledKotsApps (s_userId session) (rw_db w)) (\<lambda>apps.
        Inr (map (\<lambda>app. app_shown env cenv renderFile app w) apps)),
      aq_pendingUnforks = []\<rparr>"

definition getGitOpsRepo_query :: "rworld \<Rightarrow> GitOpsRepo" where
  "getGitOpsRepo_query w = getGitOpsRepo (rw_k8s w)"

definition listDownstreamsForApp_query :: "string \<Rightarrow> db \<Rightarrow> cluster_schema list result" where
  "listDownstreamsForApp_query slug d =
     bindR (app_by_slug slug d) (\<lambda>app.
     bindR (listClustersForKotsApp (ka_id app) d) (\<lambda>downstreams.
       Inr (map (\<lambda>c. toKotsAppSchema (ka_id app) c d) downstreams)))"

text \<open>A comparison with an argument that is not given holds for no row.\<close>

definition for_cluster :: "(string \<Rightarrow> db \<Rightarrow> 'a result) \<Rightarrow> string option \<Rightarrow> db \<Rightarrow> 'a result" where
  "for_cluster q clusterId d =
     (case clusterId of
        Some c \<Rightarrow> q c d
      | None \<Rightarrow> q ''undefined'' (d\<lparr>t_app_downstream := [], t_app_downstream_version := []\<rparr>))"

definition listPendingKotsVersions :: "string \<Rightarrow> string option \<Rightarrow> db \<Rightarrow> KotsVersion list result" where
  "listPendingKotsVersions slug clusterId d =
     bindR (app_by_slug slug d) (\<lambda>app. for_cluster (listPendingVersions (ka_id app)) clusterId d)"

definition listPastKotsVersions :: "string \<Rightarrow> string option \<Rightarrow> db \<Rightarrow> KotsVersion list result" where
  "listPastKotsVersions slug clusterId d =
     bindR (app_by_slug slug d) (\<lambda>app. for_cluster (listPastVersions (ka_id app)) clusterId d)"

definition getCurrentKotsVersion :: "string \<Rightarrow> string option \<Rightarrow> db \<Rightarrow> KotsVersion option result" where
  "getCurrentKotsVersion slug clusterId d =
     bindR (app_by_slug slug d) (\<lambda>app. for_cluster (getCurrentVersion (ka_id app)) clusterId d)"

definition getKotsDownstreamHistory :: "string \<Rightarrow> string \<Rightarrow> db \<Rightarrow> KotsVersion list result" where
  "getKotsDownstreamHistory upstreamSlug clusterSlug d =
     bindR (getIdFromSlug upstreamSlug d) (\<lambda>idFromSlug.
     bindR (getIdFromSlug_cluster clusterSlug d) (\<lambda>clusterId.
     bindR (context_getApp idFromSlug d) (\<lambda>app.
     bindR (getCurrentVersion (ka_id app) clusterId d) (\<lambda>current.
     bindR (listPastVersions (ka_id app) clusterId d) (\<lambda>past.
     bindR (listPendingVersions (ka_id app) clusterId d) (\<lambda>pending.
       Inr (case current of None \<Rightarrow> pending @ past | Some v \<Rightarrow> pending @ v # past)))))))"

text \<open>No host name, no details.\<close>

definition getAppRegistryDetails_query ::
  "cipher \<Rightarrow> cipher \<Rightarrow> string \<Rightarrow> string \<Rightarrow> (db, KotsAppRegistryDetails option) eff" where
  "getAppRegistryDetails_query enc dec key slug =
     bindE (queryE (app_by_slug slug)) (\<lambda>app.
     bindE (getAppRegistryDetails enc dec key (ka_id app) True) (\<lambda>details.
       retE (if truthy_str (rg_registryHostname details) then Some details else None)))"

section \<open>Files and configuration\<close>

definition file_limit :: nat where
  "file_limit = 5000000"

definition limited :: "string \<Rightarrow> string result" where
  "limited jsonFiles =
     (if length jsonFiles \<ge> file_limit
      then Inl (ReplicatedError (''File is too large, the maximum allowed length is 5000000 but found '' @ show_nat (length jsonFiles)))
      else Inr jsonFiles)"

definition getKotsApplicationTree ::
  "s3_params \<Rightarrow> (string \<Rightarrow> error option) \<Rightarrow> (string \<Rightarrow> jsval result) \<Rightarrow> string \<Rightarrow> int \<Rightarrow> rworld \<Rightarrow> string result" where
  "getKotsApplicationTree p refused json slug sequence w =
     bindR (app_by_slug slug (rw_db w)) (\<lambda>app.
     bindR (app_generateFileTreeIndex p refused json (ka_id app) (show_int sequence) (rw_objects w)) (\<lambda>tree.
       if tree = [] then Inl (ReplicatedError (''Unable to get files for app with ID of '' @ ka_id app)) else Inr (tree_text tree)))"

definition getKotsFiles ::
  "s3_params \<Rightarrow> (string \<Rightarrow> error option) \<Rightarrow> string \<Rightarrow> int \<Rightarrow> string list \<Rightarrow> rworld \<Rightarrow> string result" where
  "getKotsFiles p refused slug sequence fileNames w =
     bindR (app_by_slug slug (rw_db w)) (\<lambda>app.
     bindR (app_getFilesJSON p refused (ka_id app) (show_int sequence) fileNames (rw_objects w)) limited)"

definition getAppConfigGroups_query :: "config_env \<Rightarrow> string \<Rightarrow> int \<Rightarrow> (db, jsval) eff" where
  "getAppConfigGroups_query cenv slug sequence =
     bindE (queryE (app_by_slug slug)) (\<lambda>app. getAppConfigGroups cenv (ka_id app) sequence)"

definition templateConfigGroups_query :: "config_env \<Rightarrow> string \<Rightarrow> int \<Rightarrow> jsval list \<Rightarrow> (db, jsval) eff" where
  "templateConfigGroups_query cenv slug sequence configGroups =
     bindE (queryE (app_by_slug slug)) (\<lambda>app. templateConfigGroups cenv (ka_id app) sequence configGroups)"

definition getKotsDownstreamOutput :: "string \<Rightarrow> string \<Rightarrow> int \<Rightarrow> db \<Rightarrow> KotsDownstreamOutput result" where
  "getKotsDownstreamOutput appSlug clusterSlug sequence d =
     bindR (app_by_slug appSlug d) (\<lambda>app.
     bindR (getIdFromSlug_cluster clusterSlug d) (\<lambda>clusterId.
       Inr (getDownstreamOutput (ka_id app) clusterId sequence d)))"

section \<open>Support bundles\<close>

text \<open>\<open>toISO\<close> writes a time as \<^verbatim>\<open>toISOString\<close> does.\<close>

record insight_schema =
  is_key :: jsval
  is_severity :: jsval
  is_primary :: jsval
  is_detail :: jsval
  is_icon :: jsval
  is_icon_key :: jsval
  is_desiredPosition :: jsval

definition insight_toSchema :: "SupportBundleInsight \<Rightarrow> insight_schema" where
  "insight_toSchema i =
     \<lparr>is_key = in_key i, is_severity = in_severity i, is_primary = in_primary i, is_detail = in_detail i,
      is_icon = in_icon i, is_icon_key = in_iconKey i, is_desiredPosition = in_desiredPosition i\<rparr>"

record analysis_schema =
  an_id :: string
  an_error :: "string option"
  an_maxSeverity :: "string option"
  an_insights :: "insight_schema list"
  an_createdAt :: string

definition analysis_toSchema :: "(time \<Rightarrow> string) \<Rightarrow> SupportBundleAnalysis \<Rightarrow> analysis_schema" where
  "analysis_toSchema toISO a =
     \<lparr>an_id = ba_id a, an_error = ba_error a, an_maxSeverity = ba_maxSeverity a,
      an_insights = map insight_toSchema (ba_insights a), an_createdAt = toISO (ba_createdAt a)\<rparr>"

record bundle_schema =
  bs_id :: string
  bs_slug :: string
  bs_name :: "string option"
  bs_size :: "int option"
  bs_status :: string
  bs_treeIndex :: "string option"
  bs_createdAt :: string
  bs_uploadedAt :: "string option"
  bs_isArchived :: "bool option"
  bs_kotsLicenseType :: jsval
  bs_analysis :: "analysis_schema option"

definition bundle_toSchema :: "(time \<Rightarrow> string) \<Rightarrow> SupportBundle \<Rightarrow> bundle_schema" where
  "bundle_toSchema toISO b =
     \<lparr>bs_id = bu_id b, bs_slug = bu_slug b, bs_name = bu_name b, bs_size = bu_size b, bs_status = bu_status b,
      bs_treeIndex = bu_treeIndex b, bs_createdAt = toISO (bu_createdAt b),
      bs_uploadedAt = map_option toISO (bu_uploadedAt b), bs_isArchived = bu_isArchived b,
      bs_kotsLicenseType = bu_kotsLicenseType b, bs_analysis = map_option (analysis_toSchema toISO) (bu_analysis b)\<rparr>"

definition listKotsSupportBundles ::
  "bundle_env \<Rightarrow> (nat \<Rightarrow> string) \<Rightarrow> (time \<Rightarrow> string) \<Rightarrow> string \<Rightarrow> db \<Rightarrow> bundle_schema list result" where
  "listKotsSupportBundles env rand toISO kotsSlug d =
     bindR (getIdFromSlug kotsSlug d) (\<lambda>kotsAppId.
     bindR (listSupportBundles env rand kotsAppId d) (\<lambda>bundles. Inr (map (bundle_toSchema toISO) bundles)))"

definition listSupportBundles_query ::
  "bundle_env \<Rightarrow> (nat \<Rightarrow> string) \<Rightarrow> (time \<Rightarrow> string) \<Rightarrow> string \<Rightarrow> db \<Rightarrow> bundle_schema list result" where
  "listSupportBundles_query env rand toISO watchSlug d =
     bindR (app_by_slug watchSlug d) (\<lambda>app.
     bindR (listSupportBundles env rand (ka_id app) d) (\<lambda>bundles. Inr (map (bundle_toSchema toISO) bundles)))"

definition getSupportBundle_query ::
  "bundle_env \<Rightarrow> (nat \<Rightarrow> string) \<Rightarrow> (time \<Rightarrow> string) \<Rightarrow> string \<Rightarrow> db \<Rightarrow> bundle_schema result" where
  "getSupportBundle_query env rand toISO watchSlug d =
     bindR (getSupportBundle env rand watchSlug d) (\<lambda>b. Inr (bundle_toSchema toISO b))"

definition bundle_getFilesJSON :: "bundle_env \<Rightarrow> string \<Rightarrow> string list \<Rightarrow> string result" where
  "bundle_getFilesJSON env bundleId fileNames =
     bindR (downloadFiles env bundleId (map (\<lambda>f. \<lparr>rf_path = f, rf_matcher = eqIgnoringLeadingSlash f\<rparr>) fileNames)) (\<lambda>files.
       Inr (json_stringify (JObj (map (\<lambda>(path, content). (path, JStr content)) (fb_files files)))))"

definition supportBundleFiles ::
  "bundle_env \<Rightarrow> (nat \<Rightarrow> string) \<Rightarrow> string \<Rightarrow> string list \<Rightarrow> db \<Rightarrow> string result" where
  "supportBundleFiles env rand bundleId fileNames d =
     bindR (getSupportBundle env rand bundleId d) (\<lambda>bundle.
     bindR (bundle_getFilesJSON env (bu_id bundle) fileNames) limited)"

definition getSupportBundleCommand_query :: "string option \<Rightarrow> db \<Rightarrow> string result" where
  "getSupportBundleCommand_query watchSlug d =
     (if \<not> truthy_str watchSlug then Inr (store_getSupportBundleCommand None)
      else bindR (app_by_slug (str_or_empty watchSlug) d) (\<lambda>app.
           Inr (store_getSupportBundleCommand (Some (ka_slug app)))))"

section \<open>The other queries\<close>

definition getKotsPreflightResult_query :: "string \<Rightarrow> string \<Rightarrow> int \<Rightarrow> db \<Rightarrow> PreflightResult result" where
  "getKotsPreflightResult_query appSlug clusterSlug sequence d =
     bindR (getIdFromSlug appSlug d) (\<lambda>appId.
     bindR (getIdFromSlug_cluster clusterSlug d) (\<lambda>clusterId. getKotsPreflightResult appId clusterId sequence d))"

definition getAppLicense_query ::
  "(error \<Rightarrow> string) \<Rightarrow> (string \<Rightarrow> jsval result) \<Rightarrow> string \<Rightarrow> db \<Rightarrow> KLicense result" where
  "getAppLicense_query err_text safeLoad appId d =
     bindR (context_getApp appId d) (\<lambda>app. getAppLicense err_text safeLoad (ka_id app) d)"

text \<open>A masked password stands for the stored one.\<close>

definition validateRegistryInfo ::
  "cipher \<Rightarrow> cipher \<Rightarrow> string \<Rightarrow> (error \<Rightarrow> string) \<Rightarrow> (string option \<Rightarrow> string result) \<Rightarrow> string \<Rightarrow> string \<Rightarrow> (db, string) eff" where
  "validateRegistryInfo enc dec key err_text testCredentials slug password =
     bindE (if password = getPasswordMask
            then bindE (queryE (getIdFromSlug slug)) (\<lambda>appId.
                 bindE (getAppRegistryDetails enc dec key appId False) (\<lambda>details. retE (rg_registryPassword details)))
            else retE (Some password)) (\<lambda>password'.
       queryE (\<lambda>_. case testCredentials password' of
           Inl e \<Rightarrow> Inl (ReplicatedError (''Error: '' @ err_text e))
         | Inr errorText \<Rightarrow> Inr errorText))"

definition toSchemaCluster :: "Cluster \<Rightarrow> nat \<Rightarrow> Cluster \<times> nat" where
  "toSchemaCluster cluster applicationCount = (cluster, applicationCount)"

definition listClusters_query :: "Session \<Rightarrow> db \<Rightarrow> (Cluster \<times> nat) list result" where
  "listClusters_query session d =
     bindR (case s_userId session of None \<Rightarrow> listAllUsersClusters d | Some u \<Rightarrow> context_listClusters u d) (\<lambda>clusters.
       Inr (map (\<lambda>c. toSchemaCluster c (getApplicationCount (c_id c) d)) clusters))"

definition userFeatures :: "Session \<Rightarrow> db \<Rightarrow> string list" where
  "userFeatures session d = (case s_userId session of None \<Rightarrow> [] | Some u \<Rightarrow> listUserFeatures u d)"

definition getPrometheusAddress :: "db \<Rightarrow> string option" where
  "getPrometheusAddress d = getParam ''PROMETHEUS_ADDRESS'' d"

definition healthz :: "environment \<Rightarrow> string" where
  "healthz env = (if truthy_str (env ''VERSION'') then str_or_empty (env ''VERSION'') else ''unknown'')"

definition ping :: string where
  "ping = ''pong''"

record DatabaseInfo =
  hz_connected :: bool
  hz_available :: bool

definition getHealthz :: "unit result \<Rightarrow> (string \<Rightarrow> string option) \<Rightarrow> DatabaseInfo result" where
  "getHealthz select_count head_error_code =
     bindR select_count (\<lambda>_. bindR (bucketExists head_error_code) (\<lambda>storageReady.
       Inr \<lparr>hz_connected = True, hz_available = storageReady\<rparr>))"

section \<open>Lemmas\<close>

definition all_sequences :: "string \<Rightarrow> string \<Rightarrow> db \<Rightarrow> int list" where
  "all_sequences appId clusterId d = rev (map int [0..<length (downstream_versions appId clusterId d)])"

definition sequence_in_range :: "string \<Rightarrow> string \<Rightarrow> int option \<Rightarrow> db \<Rightarrow> bool" where
  "sequence_in_range appId clusterId cur d \<longleftrightarrow>
     (case cur of None \<Rightarrow> True | Some s \<Rightarrow> 0 \<le> s \<and> s < int (length (downstream_versions appId clusterId d)))"

lemma getApp_id: "getApp i d = Inr app \<Longrightarrow> ka_id app = i"
  by (auto simp: getApp_def app_of_def row_of_def Let_def find_Some_iff split: option.splits)

lemma app_by_slug_id: "app_by_slug slug d = Inr app \<Longrightarrow> getIdFromSlug slug d = Inr (ka_id app)"
  by (auto simp: app_by_slug_def context_getApp_def bindR_eq_Inr getApp_id)

text \<open>With a current version, the versions after it, it and those before it; without, all of them.\<close>

lemma history_deployed:
  assumes num: "numbered a c d" and cur: "downstream_sequence a c d = Some (Some s)" and s: "sequence_in_range a c (Some s) d"
  shows "\<exists>pending current past. listPendingVersions a c d = Inr pending \<and> getCurrentVersion a c d = Inr (Some current) \<and>
           listPastVersions a c d = Inr past \<and> map kv_sequence (pending @ current # past) = all_sequences a c d"
proof -
  let ?vs = "downstream_versions a c d"
  have r: "0 \<le> s" "s < int (length ?vs)" using s by (simp_all add: sequence_in_range_def)
  note split = order_desc_select_split [OF numbered_order_desc [OF num] r]
  obtain row where row: "order_desc adv_sequence (sql_select (\<lambda>r. adv_sequence r = s) ?vs) = [row]" "adv_sequence row = s"
    using split(2) by (auto simp: map_eq_Cons_conv)
  have n: "[0..<length ?vs] = [0..<nat s] @ nat s # [Suc (nat s)..<length ?vs]"
    using r by (metis le_add_diff_inverse less_imp_le nat_int nat_less_iff upt_add_eq_append upt_conv_Cons zero_le)
  show ?thesis
    using cur row split(1,3) r(1) n
    by (simp add: listPendingVersions_def getCurrentVersion_def listPastVersions_def all_sequences_def)
qed

lemma history_undeployed:
  assumes num: "numbered a c d" and cur: "downstream_sequence a c d = Some None"
  shows "\<exists>pending. listPendingVersions a c d = Inr pending \<and> getCurrentVersion a c d = Inr None \<and>
           listPastVersions a c d = Inr [] \<and> map kv_sequence pending = all_sequences a c d"
proof -
  let ?vs = "downstream_versions a c d"
  have m: "map adv_sequence (order_desc adv_sequence ?vs) = all_sequences a c d"
    using numbered_order_desc [OF num] by (simp add: all_sequences_def)
  then have "set (map adv_sequence (order_desc adv_sequence ?vs)) = set (all_sequences a c d)" by simp
  then have "sql_select (\<lambda>r. -1 < adv_sequence r) ?vs = ?vs"
    by (auto simp: sql_select_def filter_id_conv all_sequences_def dest: equalityD1 [THEN subsetD])
  then show ?thesis
    using cur m by (simp add: listPendingVersions_def getCurrentVersion_def listPastVersions_def version_item_def o_def)
qed

section \<open>Properties\<close>

text \<open>
  C27: The history of a downstream is complete: for an application and a cluster found by their slugs, whether
  something is deployed or not, it lists every version exactly once, newest first.
\<close>

theorem downstream_history_complete:
  assumes app: "app_by_slug upstreamSlug d = Inr app" and cluster: "getIdFromSlug_cluster clusterSlug d = Inr c"
    and num: "numbered (ka_id app) c d"
    and cur: "downstream_sequence (ka_id app) c d = Some cur" and range: "sequence_in_range (ka_id app) c cur d"
  shows "\<exists>versions. getKotsDownstreamHistory upstreamSlug clusterSlug d = Inr versions \<and>
           map kv_sequence versions = all_sequences (ka_id app) c d"
proof -
  have app': "getIdFromSlug upstreamSlug d = Inr (ka_id app)" "context_getApp (ka_id app) d = Inr app"
    using app app_by_slug_id [OF app] by (auto simp: app_by_slug_def)
  show ?thesis
    using history_deployed [OF num] history_undeployed [OF num] cur range
    by (cases cur) (auto simp: getKotsDownstreamHistory_def app' cluster)
qed

definition history_db :: db where
  "history_db = example_db
     \<lparr>t_app := [new_app_row ''a'' ''App'' 0 ''app'' ''uri'' ''license'' False None], t_cluster := [example_cluster]\<rparr>"

lemma history_db_versions:
  "downstream_versions a c history_db = downstream_versions a c example_db"
  "downstream_sequence a c history_db = downstream_sequence a c example_db"
  by (simp_all add: history_db_def downstream_versions_def downstream_sequence_def)

theorem downstream_history_complete_witness:
  "\<exists>versions. getKotsDownstreamHistory ''app'' ''this-cluster'' history_db = Inr versions \<and> map kv_sequence versions = [2, 1, 0]"
proof -
  obtain app where app: "getApp ''a'' history_db = Inr app"
    by (simp add: getApp_def app_of_def row_of_def history_db_def Let_def)
  have slug: "app_by_slug ''app'' history_db = Inr app" "ka_id app = ''a''"
    using app getApp_id [OF app] by (simp_all add: app_by_slug_def context_getApp_def getIdFromSlug_def sql_select_def history_db_def)
  have cluster: "getIdFromSlug_cluster ''this-cluster'' history_db = Inr ''c''"
    by (simp add: getIdFromSlug_cluster_def sql_select_def history_db_def example_cluster_def)
  have num: "numbered ''a'' ''c'' history_db"
    using example_numbered by (simp add: numbered_def history_db_versions)
  have cur: "downstream_sequence ''a'' ''c'' history_db = Some (Some 1)"
    by (simp add: history_db_versions example_downstream)
  have range: "sequence_in_range ''a'' ''c'' (Some 1) history_db"
    by (simp add: sequence_in_range_def history_db_versions example_versions)
  show ?thesis
    using downstream_history_complete [OF slug(1) cluster, unfolded slug(2), OF num cur range]
    by (simp add: all_sequences_def history_db_versions example_versions upt_rec)
qed

text \<open>
  The three queries of one kind of version cannot succeed as the schema declares them: the argument they
  read for the cluster is not one of theirs, and without it they find no downstream.
\<close>

theorem version_queries_reject:
  "(\<exists>e. listPendingKotsVersions slug None d = Inl e) \<and> (\<exists>e. listPastKotsVersions slug None d = Inl e) \<and>
   (\<exists>e. getCurrentKotsVersion slug None d = Inl e)"
  by (cases "app_by_slug slug d")
    (simp_all add: listPendingKotsVersions_def listPastKotsVersions_def getCurrentKotsVersion_def for_cluster_def
      listPendingVersions_def listPastVersions_def getCurrentVersion_def downstream_sequence_def)

end
