(* ===== verification/Mutations.thy ===== *)
theory Mutations
  imports Queries
begin

text \<open>
  The mutations of the server (the resolvers of \<^verbatim>\<open>apps\<close>, \<^verbatim>\<open>kots_app\<close>, \<^verbatim>\<open>troubleshoot\<close> and \<^verbatim>\<open>monitoring\<close>
  under \<^verbatim>\<open>api/src\<close>), the endpoints operators and installers call (\<^verbatim>\<open>controllers/kots/AppStatusAPI.ts\<close>,
  \<^verbatim>\<open>CurrentAPI.ts\<close>, \<^verbatim>\<open>InstallAPI.ts\<close>, \<^verbatim>\<open>controllers/troubleshoot/PreflightAPI.ts\<close>), and the repeated call
  \<^verbatim>\<open>util/repeater.ts\<close>.

  Keys, clones and ciphers are parameters; a call that nobody awaits happens after the answer.
\<close>

section \<open>Applications\<close>

definition createKotsDownstream :: "Session option \<Rightarrow> string \<Rightarrow> string \<Rightarrow> (db, bool) eff" where
  "createKotsDownstream session appId clusterId =
     thenE (queryE (\<lambda>_. requireSingleTenantSession session))
     (bindE (queryE listAllUsersClusters) (\<lambda>clusters.
        case find (\<lambda>c. c_id c = clusterId) clusters of
          None \<Rightarrow> throwE (ReplicatedError (''Cluster with the ID of '' @ clusterId @
                    '' was either not found or you do not have permission to access it.''))
        | Some cluster \<Rightarrow> thenE (execE (createDownstream appId (c_title cluster) clusterId)) (retE True)))"

text \<open>The cluster of the request is not looked at: the version is deployed to every downstream.\<close>

definition deployKotsVersion :: "string \<Rightarrow> int \<Rightarrow> string \<Rightarrow> time \<Rightarrow> (db, bool) eff" where
  "deployKotsVersion upstreamSlug sequence clusterSlug now =
     bindE (queryE (app_by_slug upstreamSlug)) (\<lambda>app.
       thenE (execE (deployVersion (ka_id app) sequence now)) (retE True))"

definition deleteKotsDownstream :: "string \<Rightarrow> string \<Rightarrow> (db, bool) eff" where
  "deleteKotsDownstream slug clusterId =
     bindE (queryE (app_by_slug slug)) (\<lambda>app. thenE (deleteDownstream (ka_id app) clusterId) (retE True))"

definition deleteKotsApp :: "string \<Rightarrow> (db, bool) eff" where
  "deleteKotsApp slug = bindE (queryE (app_by_slug slug)) (\<lambda>app. thenE (deleteApp (ka_id app)) (retE True))"

definition updateKotsApp :: "string \<Rightarrow> string option \<Rightarrow> string option \<Rightarrow> (db, bool) eff" where
  "updateKotsApp appId appName iconUri =
     bindE (queryE (context_getApp appId)) (\<lambda>app. thenE (execE (updateApp (ka_id app) appName iconUri)) (retE True))"

definition updateDownstreamsStatus_mutation :: "string \<Rightarrow> int \<Rightarrow> string \<Rightarrow> (db, bool) eff" where
  "updateDownstreamsStatus_mutation slug sequence status =
     bindE (queryE (app_by_slug slug)) (\<lambda>app.
       thenE (execE (updateDownstreamsStatus (ka_id app) sequence status [])) (retE True))"

text \<open>These two look up the application without \<^verbatim>\<open>getApp\<close>.\<close>

definition ignorePreflight_mutation :: "string \<Rightarrow> string \<Rightarrow> int \<Rightarrow> (db, bool) eff" where
  "ignorePreflight_mutation appSlug clusterSlug sequence =
     bindE (queryE (getIdFromSlug appSlug)) (\<lambda>appId.
     bindE (queryE (getIdFromSlug_cluster clusterSlug)) (\<lambda>clusterId.
       thenE (execE (ignorePreflightPermissionErrors appId clusterId sequence)) (retE True)))"

definition retryPreflights_mutation :: "string \<Rightarrow> string \<Rightarrow> int \<Rightarrow> (db, bool) eff" where
  "retryPreflights_mutation appSlug clusterSlug sequence =
     bindE (queryE (getIdFromSlug appSlug)) (\<lambda>appId.
     bindE (queryE (getIdFromSlug_cluster clusterSlug)) (\<lambda>clusterId.
       thenE (execE (retryPreflights appId clusterId sequence)) (retE True)))"

definition collectSupportBundle :: "string \<Rightarrow> time \<Rightarrow> string \<Rightarrow> string \<Rightarrow> (db, unit) eff" where
  "collectSupportBundle newId now appId clusterId =
     bindE (queryE (context_getApp appId)) (\<lambda>app.
       thenE (queueSupportBundleCollection newId now (ka_id app) clusterId) (retE ()))"

definition setPrometheusAddress :: "string \<Rightarrow> (db, bool) eff" where
  "setPrometheusAddress v = thenE (execE (setParam ''PROMETHEUS_ADDRESS'' v)) (retE True)"

definition deletePrometheusAddress :: "(db, bool) eff" where
  "deletePrometheusAddress = thenE (execE (deleteParam ''PROMETHEUS_ADDRESS'')) (retE True)"

section \<open>Git\<close>

record gitops_input =
  gin_provider :: string
  gin_uri :: string
  gin_hostname :: string
  gin_branch :: string
  gin_path :: string
  gin_format :: string
  gin_action :: string

definition inK8s :: "(k8s, 'a) eff \<Rightarrow> (rworld, 'a) eff" where
  "inK8s m w = (case m (rw_k8s w) of (r, k) \<Rightarrow> (r, w\<lparr>rw_k8s := k\<rparr>))"

text \<open>The key pair, the public half as a line of ssh.\<close>

definition createGitOpsRepo_mutation ::
  "'g release_env \<Rightarrow> string \<times> string \<Rightarrow> gitops_input \<Rightarrow> (rworld, bool) eff" where
  "createGitOpsRepo_mutation env keys i =
     (let (sshPublishKey, privateKey) = keys in
      bindE (queryE (\<lambda>_. re_encrypt env (re_key env) privateKey)) (\<lambda>encryptedPrivateKey.
        thenE (inK8s (execE (createGitOpsRepo (gin_provider i) (gin_uri i) (gin_hostname i) encryptedPrivateKey sshPublishKey))) (retE True)))"

definition updateGitOpsRepo_mutation :: "string \<Rightarrow> gitops_input \<Rightarrow> (rworld, bool) eff" where
  "updateGitOpsRepo_mutation uriToUpdate i =
     thenE (inK8s (updateGitOpsRepo uriToUpdate (gin_uri i) (gin_hostname i))) (retE True)"

definition resetGitOpsData_mutation :: "(rworld, bool) eff" where
  "resetGitOpsData_mutation = thenE (inK8s (execE resetGitOpsData)) (retE True)"

definition updateAppGitOps :: "'g release_env \<Rightarrow> string \<Rightarrow> string \<Rightarrow> gitops_input \<Rightarrow> (rworld, bool) eff" where
  "updateAppGitOps env appId clusterId i =
     bindE (askDb (context_getApp appId)) (\<lambda>app.
       thenE (inK8s (setDownstreamGitOps (re_err_text env) (re_json env) (ka_id app) clusterId (gin_uri i) (gin_branch i)
                (gin_path i) (gin_format i) (gin_action i)))
         (retE True))"

definition disableAppGitops :: "'g release_env \<Rightarrow> string \<Rightarrow> string \<Rightarrow> (rworld, bool) eff" where
  "disableAppGitops env appId clusterId =
     bindE (askDb (context_getApp appId)) (\<lambda>app.
     bindE (gitops_of env (ka_id app) clusterId) (\<lambda>downstreamGitops.
       thenE (if dg_enabled downstreamGitops then inK8s (disableDownstreamGitOps appId clusterId) else retE ()) (retE True)))"

definition git_error_text :: "string option \<Rightarrow> string" where
  "git_error_text errno = (case errno of Some n \<Rightarrow> ''Error code '' @ n | None \<Rightarrow> ''Unknown error connecting to repo'')"

text \<open>
  \<open>errno\<close> is the number of an error, if it has one that is not 0.  The first commits are sent after the answer,
  and what they throw is lost.
\<close>

definition connect_repo :: "'g release_env \<Rightarrow> GitOpsCreds \<Rightarrow> string \<Rightarrow> string \<Rightarrow> string \<Rightarrow> (rworld, string) eff" where
  "connect_repo env creds key appId clusterId =
     thenE (queryE (\<lambda>_. git_clone (re_git env) creds key))
     (thenE (inK8s (setGitOpsError (re_json env) appId clusterId (JStr [])))
     (bindE (askDb (\<lambda>d. Inr (listClusterIDsForApp appId d))) (\<lambda>clusterIDs.
        case clusterIDs of [] \<Rightarrow> throwE (JsError ''no clusters to transition for application'') | c # _ \<Rightarrow> retE c)))"

definition testGitOpsConnection ::
  "'g release_env \<Rightarrow> (error \<Rightarrow> string option) \<Rightarrow> string \<Rightarrow> string \<Rightarrow> (rworld, bool) eff" where
  "testGitOpsConnection env errno appId clusterId =
     bindE (queryE (\<lambda>w. getGitOpsCreds (re_err_text env) (re_json env) appId clusterId (rw_k8s w))) (\<lambda>creds.
     bindE (queryE (\<lambda>_. re_decrypt env (re_key env) (gc_privKey creds))) (\<lambda>key.
       catchE
         (bindE (connect_repo env creds key appId clusterId) (\<lambda>c w.
            (Inr True, snd (sendInitialGitCommitsForAppDownstream env appId c w))))
         (\<lambda>err. thenE (inK8s (setGitOpsError (re_json env) appId clusterId (JStr (git_error_text (errno err))))) (retE False))))"

section \<open>Endpoints\<close>

text \<open>The password of the basic authentication is the token of a cluster.\<close>

definition putAppStatus :: "string \<Rightarrow> string \<Rightarrow> ResourceState list option \<Rightarrow> time \<Rightarrow> (db, int) eff" where
  "putAppStatus pass appId resourceStates updatedAt d =
     (case getFromDeployToken pass d of
        Inl _ \<Rightarrow> (Inr 401, d)
      | Inr _ \<Rightarrow> (Inr 204, setKotsAppStatus appId resourceStates updatedAt d))"

definition current_getDesiredState :: "string \<Rightarrow> (string \<times> helm_application) list \<Rightarrow> (db, int) eff" where
  "current_getDesiredState pass helmApplications d =
     (case getFromDeployToken pass d of
        Inl _ \<Rightarrow> (Inr 401, d)
      | Inr cluster \<Rightarrow>
          thenE (forE (\<lambda>(newId, a). createOrUpdateHelmApplication newId (c_id cluster) a) helmApplications) (retE 200) d)"

definition manifest_lines :: "string \<Rightarrow> string \<Rightarrow> string list" where
  "manifest_lines endpoint token =
     [''apiVersion: apps/v1'', ''kind: Deployment'', ''metadata:'', ''  name: kotsadm-operator'', ''spec:'', ''  selector:'',
      ''    matchLabels:'', ''      app: kotsadm-operator'', ''  template:'', ''    metadata:'', ''      labels:'',
      ''        app: kotsadm-operator'', ''    spec:'', ''      containers:'', ''      - env:'',
      ''        - name: KOTSADM_API_ENDPOINT'', ''          value: '' @ endpoint, ''        - name: KOTSADM_TOKEN'',
      ''          value: '' @ token, ''        image: kotsadm-operator'', ''        imagePullPolicy: Always'',
      ''        name: kotsadm-operator'', ''        resources:'', ''          limits:'', ''            cpu: 200m'',
      ''            memory: 1000Mi'', ''          requests:'', ''            cpu: 100m'', ''            memory: 500Mi'',
      ''      restartPolicy: Always'', [], []]"

definition getOperatorInstallationManifests :: "string \<Rightarrow> string \<Rightarrow> db \<Rightarrow> string result" where
  "getOperatorInstallationManifests endpoint clusterId d =
     bindR (getShipOpsCluster clusterId d) (\<lambda>cluster.
       case c_shipOpsRef cluster of
         None \<Rightarrow> Inl TypeError
       | Some token \<Rightarrow> Inr (js_join newline (manifest_lines endpoint token)))"

text \<open>The status, and the manifests that are sent.\<close>

definition renderedOperatorInstall :: "string \<Rightarrow> string \<Rightarrow> string \<Rightarrow> db \<Rightarrow> (int \<times> string option) result" where
  "renderedOperatorInstall endpoint clusterId token d =
     bindR (getCluster clusterId d) (\<lambda>cluster.
       case c_shipOpsRef cluster of
         None \<Rightarrow> Inl TypeError
       | Some t \<Rightarrow>
           if t \<noteq> token then Inr (404, None)
           else bindR (getOperatorInstallationManifests endpoint (c_id cluster) d) (\<lambda>m. Inr (200, Some m)))"

text \<open>What a cluster should run, for an operator that asks. The list of preflights is added once for every application.\<close>

record desired_app =
  de_app_id :: string
  de_kubectl_version :: jsval
  de_namespace :: string
  de_manifests :: string

record desired_state =
  de_present :: "desired_app list"
  de_preflight :: "PreflightParams list"

text \<open>The version that is rendered is the current one of the application, not the one deployed to the cluster.\<close>

definition desired_app_of :: "Deploy.services \<Rightarrow> Cluster \<Rightarrow> KotsApp \<Rightarrow> db \<Rightarrow> desired_app result" where
  "desired_app_of sv cluster app d =
     bindR (app_getKotsAppSpec sv (ka_id app) (c_id cluster) d) (\<lambda>spec.
     bindR (sv_render sv (ka_id app) (case ka_currentSequence app of None \<Rightarrow> ''null'' | Some s \<Rightarrow> show_int s)
              (overlay_path (c_title cluster)) (spec_field spec ''kustomizeVersion'' (JStr []))) (\<lambda>rendered.
       Inr \<lparr>de_app_id = ka_id app, de_kubectl_version = spec_field spec ''kubectlVersion'' (JStr []),
            de_namespace = ''.'', de_manifests = base64Encode rendered\<rparr>))"

fun desired_apps ::
  "Deploy.services \<Rightarrow> PreflightParams list \<Rightarrow> Cluster \<Rightarrow> KotsApp list \<Rightarrow> db \<Rightarrow> desired_state \<Rightarrow> desired_state result" where
  "desired_apps sv urls cluster [] d acc = Inr acc"
| "desired_apps sv urls cluster (app # apps) d acc =
     bindR (getCurrentVersion (ka_id app) (c_id cluster) d) (\<lambda>deployed.
     (let acc1 = acc\<lparr>de_preflight := de_preflight acc @ urls\<rparr> in
      if (case deployed of None \<Rightarrow> False | Some v \<Rightarrow> kv_sequence v > -1)
      then bindR (desired_app_of sv cluster app d) (\<lambda>a.
             desired_apps sv urls cluster apps d (acc1\<lparr>de_present := de_present acc1 @ [a]\<rparr>))
      else desired_apps sv urls cluster apps d acc1))"

definition deploy_getDesiredState ::
  "Deploy.services \<Rightarrow> string \<Rightarrow> string \<Rightarrow> string \<Rightarrow> db \<Rightarrow> int \<times> desired_state option" where
  "deploy_getDesiredState sv endpoint advertised pass d =
     (case getFromDeployToken pass d of
        Inl _ \<Rightarrow> (401, None)
      | Inr cluster \<Rightarrow>
          (case bindR (listAppsForCluster (c_id cluster) d) (\<lambda>apps.
                  desired_apps sv (getPendingPreflightParams endpoint advertised True d) cluster apps d
                    \<lparr>de_present = [], de_preflight = []\<rparr>) of
             Inl _ \<Rightarrow> (500, None)
           | Inr desired \<Rightarrow> (200, Some desired)))"

section \<open>Preflights\<close>

text \<open>The statuses that are sent, in order; sending a second answer raises in the framework, after the work was done.\<close>

definition missing_path_part :: "string \<Rightarrow> string \<Rightarrow> string \<Rightarrow> bool" where
  "missing_path_part appSlug clusterSlug sequence \<longleftrightarrow> appSlug = [] \<or> clusterSlug = [] \<or> sequence = []"

definition upload_url :: "Params \<Rightarrow> string option \<Rightarrow> string \<Rightarrow> string \<Rightarrow> string \<Rightarrow> string" where
  "upload_url params inCluster appSlug clusterSlug sequence =
     preflight_url
       (case (if inCluster = Some ''true'' then shipApiEndpoint params else apiAdvertiseEndpoint params) of
          None \<Rightarrow> ''undefined'' | Some e \<Rightarrow> e)
       appSlug clusterSlug sequence"

definition set_upload :: "string \<Rightarrow> jsval \<Rightarrow> jsval result" where
  "set_upload putUrl specJson =
     bindR (js_get specJson ''spec'') (\<lambda>spec.
     bindR (js_set spec ''uploadResultsTo'' (JStr putUrl)) (\<lambda>spec'. js_set specJson ''spec'' spec'))"

definition getPreflightStatus ::
  "(string \<Rightarrow> jsval result) \<Rightarrow> cipher \<Rightarrow> cipher \<Rightarrow> string \<Rightarrow> (KotsApp \<Rightarrow> string \<Rightarrow> KotsAppRegistryDetails \<Rightarrow> string result) \<Rightarrow>
   Params \<Rightarrow> string option \<Rightarrow> string \<Rightarrow> string \<Rightarrow> string \<Rightarrow> (db, (int \<times> jsval option) list) eff" where
  "getPreflightStatus safeLoad enc dec key renderFile params inCluster appSlug clusterSlug sequence =
     (let early = (if missing_path_part appSlug clusterSlug sequence then [(400, None)] else []) in
      bindE (queryE (getIdFromSlug appSlug)) (\<lambda>appId.
      bindE (queryE (getApp appId)) (\<lambda>app.
      bindE (getAppRegistryDetails enc dec key appId False) (\<lambda>registryInfo.
      bindE (queryE (\<lambda>d. case parse_int sequence of None \<Rightarrow> Inl (ExternalError ''invalid input syntax for integer: NaN'')
                        | Some s \<Rightarrow> getKotsPreflightSpec appId s d)) (\<lambda>spec.
        if \<not> truthy_str spec then retE (early @ [(404, None)])
        else bindE (queryE (\<lambda>_. renderFile app (str_or_empty spec) registryInfo)) (\<lambda>rendered.
             bindE (queryE (\<lambda>_. bindR (safeLoad rendered)
                      (set_upload (upload_url params inCluster appSlug clusterSlug sequence)))) (\<lambda>specJson.
               retE (early @ [(200, Some specJson)]))))))))"

definition putPreflightStatus :: "string \<Rightarrow> string \<Rightarrow> string \<Rightarrow> jsval \<Rightarrow> time \<Rightarrow> (db, int list) eff" where
  "putPreflightStatus appSlug clusterSlug sequence preflightResult now =
     bindE (queryE (getIdFromSlug appSlug)) (\<lambda>appId.
     bindE (queryE (getIdFromSlug_cluster clusterSlug)) (\<lambda>clusterId.
     bindE (queryE (\<lambda>_. case parse_int sequence of None \<Rightarrow> Inl (ExternalError ''invalid input syntax for integer: NaN'')
                        | Some s \<Rightarrow> Inr s)) (\<lambda>seqInt.
       thenE (addKotsPreflight appId clusterId seqInt preflightResult now)
         (retE ((if missing_path_part appSlug clusterSlug sequence then [400] else []) @
                (if appId = [] \<or> clusterId = [] then [400] else []) @ [200])))))"

section \<open>Lemmas\<close>

definition is_deployed :: "Cluster \<Rightarrow> db \<Rightarrow> KotsApp \<Rightarrow> bool" where
  "is_deployed cluster d app \<longleftrightarrow>
     (case getCurrentVersion (ka_id app) (c_id cluster) d of Inr (Some v) \<Rightarrow> kv_sequence v > -1 | _ \<Rightarrow> False)"

lemma desired_apps_result:
  "desired_apps sv urls cluster apps d acc = Inr desired \<Longrightarrow>
     de_preflight desired = de_preflight acc @ concat (replicate (length apps) urls) \<and>
     (\<exists>new. de_present desired = de_present acc @ new \<and>
        map Inr new = map (\<lambda>app. desired_app_of sv cluster app d) (filter (is_deployed cluster d) apps))"
proof (induction sv urls cluster apps d acc arbitrary: desired rule: desired_apps.induct)
  case (1 sv urls cluster d acc) then show ?case by simp
next
  case (2 sv urls cluster app apps d acc)
  from "2.prems" obtain deployed where deployed: "getCurrentVersion (ka_id app) (c_id cluster) d = Inr deployed"
    by (auto simp: bindR_eq_Inr)
  show ?case
  proof (cases "is_deployed cluster d app")
    case True
    then have c: "(case deployed of None \<Rightarrow> False | Some v \<Rightarrow> kv_sequence v > -1)"
      using deployed by (auto simp: is_deployed_def split: option.splits)
    from "2.prems" deployed c obtain a where a: "desired_app_of sv cluster app d = Inr a"
      and rest: "desired_apps sv urls cluster apps d
        (acc\<lparr>de_preflight := de_preflight acc @ urls, de_present := de_present acc @ [a]\<rparr>) = Inr desired"
      by (auto simp: bindR_eq_Inr Let_def)
    from "2.IH"(1) [OF refl c, of a desired] rest
    obtain new where "de_preflight desired = (de_preflight acc @ urls) @ concat (replicate (length apps) urls)"
      and "de_present desired = de_present acc @ a # new"
      and "map Inr new = map (\<lambda>app. desired_app_of sv cluster app d) (filter (is_deployed cluster d) apps)"
      by auto
    then show ?thesis using True a by (intro conjI exI [of _ "a # new"]) simp_all
  next
    case False
    then have c: "\<not> (case deployed of None \<Rightarrow> False | Some v \<Rightarrow> kv_sequence v > -1)"
      using deployed by (auto simp: is_deployed_def split: option.splits)
    from "2.prems" deployed c
    have rest: "desired_apps sv urls cluster apps d (acc\<lparr>de_preflight := de_preflight acc @ urls\<rparr>) = Inr desired"
      by (simp add: Let_def)
    from "2.IH"(2) [OF refl c rest] False show ?thesis by simp
  qed
qed

section \<open>Properties\<close>

text \<open>
  An operator that asks what to run is told of exactly the applications that are deployed to its cluster, in
  the order they are listed, each rendered; the pending preflights of all applications come once for every application of the cluster.
\<close>

theorem desired_state_lists_deployed:
  assumes "deploy_getDesiredState sv endpoint advertised pass d = (200, Some desired)"
    and "getFromDeployToken pass d = Inr cluster" and "listAppsForCluster (c_id cluster) d = Inr apps"
  shows "map Inr (de_present desired) =
           map (\<lambda>app. desired_app_of sv cluster app d) (filter (is_deployed cluster d) apps) \<and>
         de_preflight desired = concat (replicate (length apps) (getPendingPreflightParams endpoint advertised True d))"
  using assms by (auto simp: deploy_getDesiredState_def dest: desired_apps_result split: sum.splits)

definition desired_db :: db where
  "desired_db = history_db\<lparr>t_app := [(new_app_row ''a'' ''App'' 0 ''app'' ''uri'' ''license'' False None)\<lparr>app_current_sequence := Some 2\<rparr>]\<rparr>"

text \<open>The version deployed is 1, the application is at 2: version 2 is what the operator gets.\<close>

definition render_sequence :: Deploy.services where
  "render_sequence = example_services\<lparr>sv_render := (\<lambda>_ sequence _ _. Inr sequence)\<rparr>"

lemma desired_db_facts:
  "getCluster ''c'' desired_db = Inr (mapCluster example_cluster (Some ''tok''))"
  "getFromDeployToken ''tok'' desired_db = Inr (mapCluster example_cluster (Some ''tok''))"
  "\<exists>v. getCurrentVersion ''a'' ''c'' desired_db = Inr (Some v) \<and> kv_sequence v = 1 \<and> app_getKotsAppSpec render_sequence ''a'' ''c'' desired_db = Inr JUndef"
  "\<exists>app. listAppsForCluster ''c'' desired_db = Inr [app] \<and> ka_id app = ''a'' \<and> ka_currentSequence app = Some 2"
proof -
  show 1: "getCluster ''c'' desired_db = Inr (mapCluster example_cluster (Some ''tok''))"
    by (simp add: getCluster_def desired_db_def history_db_def sql_select_def first_row_def example_cluster_def
        cluster_of_type_def getShipOpsCluster_def)
  then show "getFromDeployToken ''tok'' desired_db = Inr (mapCluster example_cluster (Some ''tok''))"
    by (simp add: getFromDeployToken_def desired_db_def history_db_def sql_select_def example_cluster_def)
  have v: "downstream_versions ''a'' ''c'' desired_db = map (\<lambda>s. downstream_row ''a'' ''c'' s (100 + s) example_args) [0, 1, 2]"
    "downstream_sequence ''a'' ''c'' desired_db = Some (Some 1)"
    using example_versions example_downstream
    by (simp_all add: desired_db_def history_db_def downstream_versions_def downstream_sequence_def)
  have no: "app_version_at i s desired_db = None" for i s
    by (simp add: app_version_at_def desired_db_def history_db_def example_db_def empty_db_def)
  show "\<exists>v. getCurrentVersion ''a'' ''c'' desired_db = Inr (Some v) \<and> kv_sequence v = 1 \<and>
      app_getKotsAppSpec render_sequence ''a'' ''c'' desired_db = Inr JUndef"
    by (simp add: getCurrentVersion_def v order_desc_def sql_select_def downstream_row_def version_item_def
        app_getKotsAppSpec_def getKotsAppSpec_def no split: option.split)
  show "\<exists>app. listAppsForCluster ''c'' desired_db = Inr [app] \<and> ka_id app = ''a'' \<and> ka_currentSequence app = Some 2"
    by (simp add: listAppsForCluster_def desired_db_def history_db_def example_db_def sql_select_def getApp_def app_of_def
        row_of_def Let_def)
qed

theorem desired_state_lists_deployed_witness:
  "\<exists>desired. deploy_getDesiredState render_sequence ''e'' ''adv'' ''tok'' desired_db = (200, Some desired) \<and>
     map de_manifests (de_present desired) = [base64Encode ''2'']"
proof -
  let ?c = "mapCluster example_cluster (Some ''tok'')"
  obtain app where apps: "listAppsForCluster ''c'' desired_db = Inr [app]" and app: "ka_id app = ''a''" "ka_currentSequence app = Some 2"
    using desired_db_facts(4) by blast
  obtain v where cur: "getCurrentVersion ''a'' ''c'' desired_db = Inr (Some v)" "kv_sequence v = 1"
    and spec: "app_getKotsAppSpec render_sequence ''a'' ''c'' desired_db = Inr JUndef"
    using desired_db_facts(3) by blast
  have c: "c_id ?c = ''c''" by (simp add: mapCluster_def example_cluster_def)
  have one: "\<exists>a. desired_app_of render_sequence ?c app desired_db = Inr a \<and> de_manifests a = base64Encode ''2''"
    by (simp add: desired_app_of_def app c spec, simp add: render_sequence_def spec_field_def show_int_def show_nat.simps digit_char_def
        char_of_def bit_0)
  obtain desired where desired: "deploy_getDesiredState render_sequence ''e'' ''adv'' ''tok'' desired_db = (200, Some desired)"
    using one by (auto simp: deploy_getDesiredState_def desired_db_facts(2) c apps app cur Let_def)
  from desired_state_lists_deployed [OF desired desired_db_facts(2) apps [folded c]] one
  have "map Inr (de_present desired) = map (\<lambda>app. desired_app_of render_sequence ?c app desired_db) [app]"
    by (simp add: is_deployed_def app c cur)
  with one desired show ?thesis by auto
qed

end
