(* ===== verification/Repeater.thy ===== *)
theory Repeater
  imports Prelude
begin

text \<open>
  A call that is repeated until it is stopped, \<^verbatim>\<open>api/src/util/repeater.ts\<close>: the handler is called, and when it
  has settled a timer leads to the next call.  The state is the flag of the class and what is under way: handlers that
  have not settled and timers that have not fired.  The handlers called so far are counted.
\<close>

record repeater =
  doNotRun :: bool
  running :: nat
  timers :: nat
  calls :: nat

definition new_repeater :: repeater where
  "new_repeater = \<lparr>doNotRun = True, running = 0, timers = 0, calls = 0\<rparr>"

definition repeat :: "repeater \<Rightarrow> repeater" where
  "repeat r = (if doNotRun r then r else r\<lparr>running := Suc (running r), calls := Suc (calls r)\<rparr>)"

definition start :: "repeater \<Rightarrow> repeater" where
  "start r = repeat (r\<lparr>doNotRun := False\<rparr>)"

definition stop :: "repeater \<Rightarrow> repeater" where
  "stop r = r\<lparr>doNotRun := True\<rparr>"

text \<open>A handler settles, either way; a timer fires.\<close>

inductive settles :: "repeater \<Rightarrow> repeater \<Rightarrow> bool" where
  handler_settles: "running r = Suc n \<Longrightarrow> settles r (r\<lparr>running := n, timers := Suc (timers r)\<rparr>)"
| timer_fires: "timers r = Suc n \<Longrightarrow> settles r (repeat (r\<lparr>timers := n\<rparr>))"

code_pred settles .

inductive_cases settlesE: "settles r r'"

inductive settles_run :: "nat \<Rightarrow> repeater \<Rightarrow> repeater \<Rightarrow> bool" where
  run_nil: "settles_run 0 r r"
| run_step: "settles r r' \<Longrightarrow> settles_run n r' r'' \<Longrightarrow> settles_run (Suc n) r r''"

section \<open>Lemmas\<close>

definition pending :: "repeater \<Rightarrow> nat" where
  "pending r = 2 * running r + timers r"

lemma settles_stopped:
  assumes "settles r r'" and "doNotRun r"
  shows "doNotRun r' \<and> calls r' = calls r \<and> pending r = Suc (pending r')"
  using assms by (auto elim!: settlesE simp: repeat_def pending_def)

lemma settles_possible: "(\<exists>r'. settles r r') \<longleftrightarrow> pending r \<noteq> 0"
proof
  assume "\<exists>r'. settles r r'" then show "pending r \<noteq> 0" by (auto elim!: settlesE simp: pending_def)
next
  assume "pending r \<noteq> 0"
  then have "running r \<noteq> 0 \<or> timers r \<noteq> 0" by (simp add: pending_def)
  then show "\<exists>r'. settles r r'"
    by (auto simp: gr0_conv_Suc dest!: not0_implies_Suc intro: settles.intros)
qed

lemma settles_run_stopped:
  "settles_run n r r' \<Longrightarrow> doNotRun r \<Longrightarrow> doNotRun r' \<and> calls r' = calls r \<and> pending r = n + pending r'"
  by (induction rule: settles_run.induct) (auto dest: settles_stopped)

section \<open>Properties\<close>

text \<open>
  C28: A repeater that was stopped comes to rest: whatever order its handlers and timers end in, the handler is not
  called again, what is left to happen shrinks with every event, and once nothing can happen any more
  exactly two events for every handler and one for every timer have happened.
\<close>

theorem repeater_stops:
  assumes "settles_run n (stop r) r'"
  shows "calls r' = calls r \<and> n \<le> 2 * running r + timers r \<and>
         ((\<nexists>r''. settles r' r'') \<longleftrightarrow> n = 2 * running r + timers r)"
  using settles_run_stopped [OF assms] settles_possible [of r'] by (auto simp: stop_def pending_def)

theorem repeater_stops_witness:
  "\<exists>r'. settles_run 2 (stop (start new_repeater)) r' \<and> calls r' = 1 \<and> (\<nexists>r''. settles r' r'')"
proof -
  let ?r0 = "stop (start new_repeater)"
  let ?r1 = "?r0\<lparr>running := 0, timers := Suc (timers ?r0)\<rparr>"
  have "settles ?r0 ?r1" by (rule handler_settles) (simp add: stop_def start_def repeat_def new_repeater_def)
  moreover have "settles ?r1 (repeat (?r1\<lparr>timers := 0\<rparr>))"
    by (rule timer_fires) (simp add: stop_def start_def repeat_def new_repeater_def)
  ultimately have run: "settles_run (Suc (Suc 0)) ?r0 (repeat (?r1\<lparr>timers := 0\<rparr>))"
    by (blast intro: settles_run.intros)
  from repeater_stops [OF run] show ?thesis
    using run by (simp add: numeral_2_eq_2 start_def repeat_def new_repeater_def) blast
qed

end
