(* ===== verification/Schema.thy ===== *)
theory Schema
  imports VersionStore
begin

text \<open>
  The GraphQL schema of the API server: the types of \<^verbatim>\<open>api/src/*/graphql/*.ts\<close>, the queries and mutations of
  \<^verbatim>\<open>api/src/schema/query.ts\<close> and \<^verbatim>\<open>mutation.ts\<close>, the list of all of them (\<^verbatim>\<open>schemaTypes.ts\<close>) and the
  resolvers put together in \<^verbatim>\<open>resolvers.ts\<close>.

  A type of the language is built from a name with \<open>NonNull\<close> and \<open>ListOf\<close>; a definition is an object type,
  with the arguments and the type of every field, or an input type.
\<close>

datatype gtype = Named string | NonNull gtype | ListOf gtype

type_synonym gfield = "string \<times> (string \<times> gtype) list \<times> gtype"

datatype gdef = ObjectType (gd_name: string) "gfield list" | InputType (gd_name: string) "(string \<times> gtype) list"

section \<open>Types\<close>

definition KotsApp_type :: gdef where
  "KotsApp_type = ObjectType ''KotsApp''
     [(''id'', [], Named ''String''),
      (''name'', [], Named ''String''),
      (''iconUri'', [], Named ''String''),
      (''createdAt'', [], Named ''String''),
      (''updatedAt'', [], Named ''String''),
      (''slug'', [], Named ''String''),
      (''upstreamUri'', [], Named ''String''),
      (''currentSequence'', [], Named ''Int''),
      (''lastUpdateCheckAt'', [], Named ''String''),
      (''bundleCommand'', [], Named ''String''),
      (''isAirgap'', [], Named ''Boolean''),
      (''downstreams'', [], ListOf (Named ''KotsDownstream'')),
      (''currentVersion'', [], Named ''KotsVersion''),
      (''hasPreflight'', [], Named ''Boolean''),
      (''isConfigurable'', [], Named ''Boolean''),
      (''isGitOpsSupported'', [], Named ''Boolean''),
      (''allowRollback'', [], Named ''Boolean''),
      (''kubectlVersion'', [], Named ''String''),
      (''kustomizeVersion'', [], Named ''String''),
      (''allowSnapshots'', [], Named ''Boolean''),
      (''licenseType'', [], Named ''String'')]"

definition KotsGitOps_type :: gdef where
  "KotsGitOps_type = ObjectType ''KotsGitOps''
     [(''enabled'', [], Named ''Boolean''),
      (''provider'', [], Named ''String''),
      (''uri'', [], Named ''String''),
      (''path'', [], Named ''String''),
      (''branch'', [], Named ''String''),
      (''hostname'', [], Named ''String''),
      (''format'', [], Named ''String''),
      (''action'', [], Named ''String''),
      (''deployKey'', [], Named ''String''),
      (''isConnected'', [], Named ''Boolean'')]"

definition KotsAppLink_type :: gdef where
  "KotsAppLink_type = ObjectType ''KotsAppLink''
     [(''title'', [], Named ''String''),
      (''uri'', [], Named ''String'')]"

definition KotsDownstream_type :: gdef where
  "KotsDownstream_type = ObjectType ''KotsDownstream''
     [(''name'', [], Named ''String''),
      (''currentVersion'', [], Named ''KotsVersion''),
      (''pendingVersions'', [], ListOf (Named ''KotsVersion'')),
      (''pastVersions'', [], ListOf (Named ''KotsVersion'')),
      (''cluster'', [], Named ''Cluster''),
      (''links'', [], ListOf (Named ''KotsAppLink'')),
      (''gitops'', [], Named ''KotsGitOps'')]"

definition KotsGitOpsInput_type :: gdef where
  "KotsGitOpsInput_type = InputType ''KotsGitOpsInput''
     [(''provider'', Named ''String''),
      (''uri'', Named ''String''),
      (''owner'', Named ''String''),
      (''branch'', Named ''String''),
      (''hostname'', Named ''String''),
      (''path'', Named ''String''),
      (''format'', Named ''String''),
      (''action'', Named ''String''),
      (''otherServiceName'', Named ''String'')]"

definition KotsVersion_type :: gdef where
  "KotsVersion_type = ObjectType ''KotsVersion''
     [(''title'', [], NonNull (Named ''String'')),
      (''status'', [], NonNull (Named ''String'')),
      (''createdOn'', [], NonNull (Named ''String'')),
      (''sequence'', [], Named ''Int''),
      (''parentSequence'', [], Named ''Int''),
      (''releaseNotes'', [], Named ''String''),
      (''deployedAt'', [], Named ''String''),
      (''source'', [], Named ''String''),
      (''diffSummary'', [], Named ''String''),
      (''preflightResult'', [], Named ''String''),
      (''preflightResultCreatedAt'', [], Named ''String''),
      (''commitUrl'', [], Named ''String''),
      (''gitDeployable'', [], Named ''Boolean''),
      (''hasError'', [], Named ''Boolean'')]"

definition AppRegistryDetails_type :: gdef where
  "AppRegistryDetails_type = InputType ''AppRegistryDetails''
     [(''appSlug'', NonNull (Named ''String'')),
      (''hostname'', NonNull (Named ''String'')),
      (''username'', NonNull (Named ''String'')),
      (''password'', NonNull (Named ''String'')),
      (''namespace'', NonNull (Named ''String''))]"

definition KotsAppRegistryDetails_type :: gdef where
  "KotsAppRegistryDetails_type = ObjectType ''KotsAppRegistryDetails''
     [(''registryHostname'', [], Named ''String''),
      (''registryUsername'', [], Named ''String''),
      (''registryPassword'', [], Named ''String''),
      (''namespace'', [], Named ''String''),
      (''lastSyncedAt'', [], Named ''String'')]"

definition InstallStatus_type :: gdef where
  "InstallStatus_type = ObjectType ''InstallStatus''
     [(''installStatus'', [], Named ''String''),
      (''currentMessage'', [], Named ''String'')]"

definition ImageRewriteStatus_type :: gdef where
  "ImageRewriteStatus_type = ObjectType ''ImageRewriteStatus''
     [(''status'', [], Named ''String''),
      (''currentMessage'', [], Named ''String'')]"

definition UpdateDownloadStatus_type :: gdef where
  "UpdateDownloadStatus_type = ObjectType ''UpdateDownloadStatus''
     [(''status'', [], Named ''String''),
      (''currentMessage'', [], Named ''String'')]"

definition KotsConfigChildItem_type :: gdef where
  "KotsConfigChildItem_type = ObjectType ''KotsConfigChildItem''
     [(''name'', [], Named ''String''),
      (''title'', [], Named ''String''),
      (''recommended'', [], Named ''Boolean''),
      (''default'', [], Named ''String''),
      (''value'', [], Named ''String'')]"

definition KotsConfigChildItemInput_type :: gdef where
  "KotsConfigChildItemInput_type = InputType ''KotsConfigChildItemInput''
     [(''name'', Named ''String''),
      (''title'', Named ''String''),
      (''recommended'', Named ''Boolean''),
      (''default'', Named ''String''),
      (''value'', Named ''String'')]"

definition KotsConfigItem_type :: gdef where
  "KotsConfigItem_type = ObjectType ''KotsConfigItem''
     [(''name'', [], Named ''String''),
      (''type'', [], Named ''String''),
      (''title'', [], Named ''String''),
      (''help_text'', [], Named ''String''),
      (''recommended'', [], Named ''Boolean''),
      (''default'', [], Named ''String''),
      (''value'', [], Named ''String''),
      (''error'', [], Named ''String''),
      (''data'', [], Named ''String''),
      (''multi_value'', [], ListOf (Named ''String'')),
      (''readonly'', [], Named ''Boolean''),
      (''write_once'', [], Named ''Boolean''),
      (''when'', [], Named ''String''),
      (''multiple'', [], Named ''Boolean''),
      (''hidden'', [], Named ''Boolean''),
      (''position'', [], Named ''Int''),
      (''affix'', [], Named ''String''),
      (''required'', [], Named ''Boolean''),
      (''items'', [], ListOf (Named ''KotsConfigChildItem''))]"

definition KotsConfigItemInput_type :: gdef where
  "KotsConfigItemInput_type = InputType ''KotsConfigItemInput''
     [(''name'', Named ''String''),
      (''type'', Named ''String''),
      (''title'', Named ''String''),
      (''help_text'', Named ''String''),
      (''recommended'', Named ''Boolean''),
      (''default'', Named ''String''),
      (''value'', Named ''String''),
      (''error'', Named ''String''),
      (''data'', Named ''String''),
      (''multi_value'', ListOf (Named ''String'')),
      (''readonly'', Named ''Boolean''),
      (''write_once'', Named ''Boolean''),
      (''when'', Named ''String''),
      (''multiple'', Named ''Boolean''),
      (''hidden'', Named ''Boolean''),
      (''position'', Named ''Int''),
      (''affix'', Named ''String''),
      (''required'', Named ''Boolean''),
      (''items'', ListOf (Named ''KotsConfigChildItemInput''))]"

definition KotsConfigGroup_type :: gdef where
  "KotsConfigGroup_type = ObjectType ''KotsConfigGroup''
     [(''name'', [], NonNull (Named ''String'')),
      (''title'', [], Named ''String''),
      (''description'', [], Named ''String''),
      (''items'', [], ListOf (Named ''KotsConfigItem''))]"

definition KotsConfigGroupInput_type :: gdef where
  "KotsConfigGroupInput_type = InputType ''KotsConfigGroupInput''
     [(''name'', NonNull (Named ''String'')),
      (''title'', Named ''String''),
      (''description'', Named ''String''),
      (''items'', ListOf (Named ''KotsConfigItemInput''))]"

definition KotsDownstreamOutput_type :: gdef where
  "KotsDownstreamOutput_type = ObjectType ''KotsDownstreamOutput''
     [(''dryrunStdout'', [], Named ''String''),
      (''dryrunStderr'', [], Named ''String''),
      (''applyStdout'', [], Named ''String''),
      (''applyStderr'', [], Named ''String''),
      (''renderError'', [], Named ''String'')]"

definition ResourceState_type :: gdef where
  "ResourceState_type = ObjectType ''ResourceState''
     [(''kind'', [], NonNull (Named ''String'')),
      (''name'', [], NonNull (Named ''String'')),
      (''namespace'', [], NonNull (Named ''String'')),
      (''state'', [], NonNull (Named ''String''))]"

definition KotsAppStatus_type :: gdef where
  "KotsAppStatus_type = ObjectType ''KotsAppStatus''
     [(''appId'', [], NonNull (Named ''String'')),
      (''updatedAt'', [], NonNull (Named ''String'')),
      (''resourceStates'', [], NonNull (ListOf (NonNull (Named ''ResourceState'')))),
      (''state'', [], NonNull (Named ''String''))]"

definition KotsAppDashboard_type :: gdef where
  "KotsAppDashboard_type = ObjectType ''KotsAppDashboard''
     [(''appStatus'', [], Named ''KotsAppStatus''),
      (''metrics'', [], ListOf (Named ''MetricChart'')),
      (''prometheusAddress'', [], Named ''String'')]"

definition kots_app_types :: "gdef list" where
  "kots_app_types = [KotsApp_type, KotsAppLink_type, KotsDownstream_type, KotsVersion_type, KotsDownstreamOutput_type, ResourceState_type, KotsGitOps_type, KotsGitOpsInput_type, AppRegistryDetails_type, KotsAppRegistryDetails_type, InstallStatus_type, ImageRewriteStatus_type, UpdateDownloadStatus_type, KotsConfigChildItem_type, KotsConfigChildItemInput_type, KotsConfigItem_type, KotsConfigItemInput_type, KotsConfigGroup_type, KotsConfigGroupInput_type, KotsAppStatus_type, KotsAppDashboard_type]"

definition SnapshotConfig_type :: gdef where
  "SnapshotConfig_type = ObjectType ''SnapshotConfig''
     [(''autoEnabled'', [], Named ''Boolean''),
      (''autoSchedule'', [], Named ''SnapshotSchedule''),
      (''ttl'', [], Named ''SnapshotTTl'')]"

definition SnapshotSettings_type :: gdef where
  "SnapshotSettings_type = ObjectType ''SnapshotSettings''
     [(''store'', [], Named ''SnapshotStore'')]"

definition SnapshotSchedule_type :: gdef where
  "SnapshotSchedule_type = ObjectType ''SnapshotSchedule''
     [(''schedule'', [], Named ''String'')]"

definition SnapshotTTl_type :: gdef where
  "SnapshotTTl_type = ObjectType ''SnapshotTTl''
     [(''inputValue'', [], Named ''String''),
      (''inputTimeUnit'', [], Named ''String''),
      (''converted'', [], Named ''String'')]"

definition SnapshotStore_type :: gdef where
  "SnapshotStore_type = ObjectType ''SnapshotStore''
     [(''provider'', [], Named ''String''),
      (''bucket'', [], Named ''String''),
      (''path'', [], Named ''String''),
      (''s3AWS'', [], Named ''SnapshotStoreS3AWS''),
      (''azure'', [], Named ''SnapshotStoreAzure''),
      (''s3Compatible'', [], Named ''SnapshotStoreS3Compatible''),
      (''google'', [], Named ''SnapshotStoreGoogle'')]"

definition SnapshotStoreS3AWS_type :: gdef where
  "SnapshotStoreS3AWS_type = ObjectType ''SnapshotStoreS3AWS''
     [(''region'', [], Named ''String''),
      (''accessKeyID'', [], Named ''String''),
      (''accessKeySecret'', [], Named ''String'')]"

definition SnapshotStoreS3Compatible_type :: gdef where
  "SnapshotStoreS3Compatible_type = ObjectType ''SnapshotStoreS3Compatible''
     [(''endpoint'', [], Named ''String''),
      (''region'', [], Named ''String''),
      (''accessKeyID'', [], Named ''String''),
      (''accessKeySecret'', [], Named ''String'')]"

definition SnapshotStoreAzure_type :: gdef where
  "SnapshotStoreAzure_type = ObjectType ''SnapshotStoreAzure''
     [(''tenantID'', [], Named ''String''),
      (''resourceGroup'', [], Named ''String''),
      (''storageAccount'', [], Named ''String''),
      (''subscriptionID'', [], Named ''String''),
      (''clientID'', [], Named ''String''),
      (''clientSecret'', [], Named ''String''),
      (''cloudName'', [], Named ''String'')]"

definition SnapshotStoreGoogle_type :: gdef where
  "SnapshotStoreGoogle_type = ObjectType ''SnapshotStoreGoogle''
     [(''serviceAccount'', [], Named ''String'')]"

definition Snapshot_type :: gdef where
  "Snapshot_type = ObjectType ''Snapshot''
     [(''name'', [], Named ''String''),
      (''status'', [], Named ''String''),
      (''trigger'', [], Named ''String''),
      (''appVersion'', [], Named ''String''),
      (''started'', [], Named ''String''),
      (''finished'', [], Named ''String''),
      (''expires'', [], Named ''String''),
      (''volumeCount'', [], Named ''Int''),
      (''volumeSuccessCount'', [], Named ''Int''),
      (''volumeSizeHuman'', [], Named ''String'')]"

definition SnapshotDetail_type :: gdef where
  "SnapshotDetail_type = ObjectType ''SnapshotDetail''
     [(''name'', [], Named ''String''),
      (''status'', [], Named ''String''),
      (''volumeSizeHuman'', [], Named ''String''),
      (''namespaces'', [], ListOf (Named ''String'')),
      (''hooks'', [], ListOf (Named ''SnapshotHook'')),
      (''volumes'', [], ListOf (Named ''SnapshotVolume'')),
      (''errors'', [], ListOf (Named ''SnapshotError'')),
      (''warnings'', [], ListOf (Named ''SnapshotError''))]"

definition SnapshotError_type :: gdef where
  "SnapshotError_type = ObjectType ''SnapshotError''
     [(''title'', [], Named ''String''),
      (''message'', [], Named ''String''),
      (''namespace'', [], Named ''String'')]"

definition SnapshotVolume_type :: gdef where
  "SnapshotVolume_type = ObjectType ''SnapshotVolume''
     [(''name'', [], Named ''String''),
      (''sizeBytesHuman'', [], Named ''String''),
      (''doneBytesHuman'', [], Named ''String''),
      (''completionPercent'', [], Named ''Int''),
      (''timeRemainingSeconds'', [], Named ''Int''),
      (''started'', [], Named ''String''),
      (''finished'', [], Named ''String''),
      (''phase'', [], Named ''String'')]"

definition SnapshotHook_type :: gdef where
  "SnapshotHook_type = ObjectType ''SnapshotHook''
     [(''hookName'', [], Named ''String''),
      (''namespace'', [], Named ''String''),
      (''phase'', [], Named ''String''),
      (''podName'', [], Named ''String''),
      (''command'', [], Named ''String''),
      (''containerName'', [], Named ''String''),
      (''stdout'', [], Named ''String''),
      (''stderr'', [], Named ''String''),
      (''started'', [], Named ''String''),
      (''finished'', [], Named ''String''),
      (''errors'', [], ListOf (Named ''SnapshotError'')),
      (''warnings'', [], ListOf (Named ''SnapshotError''))]"

definition RestoreDetail_type :: gdef where
  "RestoreDetail_type = ObjectType ''RestoreDetail''
     [(''name'', [], Named ''String''),
      (''phase'', [], Named ''String''),
      (''volumes'', [], ListOf (Named ''RestoreVolume'')),
      (''errors'', [], ListOf (Named ''SnapshotError'')),
      (''warnings'', [], ListOf (Named ''SnapshotError'')),
      (''active'', [], Named ''Boolean'')]"

definition RestoreVolume_type :: gdef where
  "RestoreVolume_type = ObjectType ''RestoreVolume''
     [(''name'', [], Named ''String''),
      (''phase'', [], Named ''String''),
      (''podName'', [], Named ''String''),
      (''podNamespace'', [], Named ''String''),
      (''podVolumeName'', [], Named ''String''),
      (''sizeBytesHuman'', [], Named ''String''),
      (''doneBytesHuman'', [], Named ''String''),
      (''completionPercent'', [], Named ''Int''),
      (''timeRemainingSeconds'', [], Named ''Int''),
      (''started'', [], Named ''String''),
      (''finished'', [], Named ''String'')]"

definition snapshot_types :: "gdef list" where
  "snapshot_types = [SnapshotConfig_type, SnapshotSettings_type, SnapshotStore_type, SnapshotSchedule_type, SnapshotTTl_type, SnapshotStoreS3AWS_type, SnapshotStoreS3Compatible_type, SnapshotStoreAzure_type, SnapshotStoreGoogle_type, Snapshot_type, SnapshotDetail_type, SnapshotError_type, SnapshotVolume_type, SnapshotHook_type, RestoreDetail_type, RestoreVolume_type]"

definition TroubleshootCollectSpec_type :: gdef where
  "TroubleshootCollectSpec_type = ObjectType ''TroubleshootCollectSpec''
     [(''spec'', [], Named ''String''),
      (''hydrated'', [], Named ''String'')]"

definition TroubleshootAnalyzeSpec_type :: gdef where
  "TroubleshootAnalyzeSpec_type = ObjectType ''TroubleshootAnalyzeSpec''
     [(''spec'', [], Named ''String'')]"

definition SupportBundle_type :: gdef where
  "SupportBundle_type = ObjectType ''SupportBundle''
     [(''id'', [], NonNull (Named ''ID'')),
      (''slug'', [], NonNull (Named ''String'')),
      (''watchId'', [], NonNull (Named ''String'')),
      (''name'', [], Named ''String''),
      (''size'', [], NonNull (Named ''Int'')),
      (''notes'', [], Named ''String''),
      (''status'', [], NonNull (Named ''String'')),
      (''resolution'', [], Named ''String''),
      (''treeIndex'', [], Named ''String''),
      (''viewed'', [], NonNull (Named ''Boolean'')),
      (''createdAt'', [], NonNull (Named ''String'')),
      (''uploadedAt'', [], Named ''String''),
      (''isArchived'', [], Named ''Boolean''),
      (''analysis'', [], Named ''SupportBundleAnalysis''),
      (''watchSlug'', [], NonNull (Named ''String'')),
      (''watchName'', [], NonNull (Named ''String'')),
      (''kotsLicenseType'', [], Named ''String'')]"

definition SupportBundleAnalysis_type :: gdef where
  "SupportBundleAnalysis_type = ObjectType ''SupportBundleAnalysis''
     [(''id'', [], NonNull (Named ''ID'')),
      (''error'', [], Named ''String''),
      (''maxSeverity'', [], Named ''String''),
      (''insights'', [], ListOf (Named ''SupportBundleInsight'')),
      (''createdAt'', [], Named ''String'')]"

definition SupportBundleInsight_type :: gdef where
  "SupportBundleInsight_type = ObjectType ''SupportBundleInsight''
     [(''key'', [], NonNull (Named ''String'')),
      (''severity'', [], NonNull (Named ''String'')),
      (''primary'', [], NonNull (Named ''String'')),
      (''detail'', [], Named ''String''),
      (''icon'', [], Named ''String''),
      (''icon_key'', [], Named ''String''),
      (''desiredPosition'', [], Named ''Int'')]"

definition SupportBundleUpload_type :: gdef where
  "SupportBundleUpload_type = ObjectType ''SupportBundleUpload''
     [(''uploadUri'', [], NonNull (Named ''String'')),
      (''supportBundle'', [], Named ''SupportBundle'')]"

definition troubleshoot_types :: "gdef list" where
  "troubleshoot_types = [TroubleshootCollectSpec_type, TroubleshootAnalyzeSpec_type, SupportBundle_type, SupportBundleAnalysis_type, SupportBundleInsight_type, SupportBundleUpload_type]"

definition Kurl_type :: gdef where
  "Kurl_type = ObjectType ''Kurl''
     [(''nodes'', [], ListOf (Named ''Node'')),
      (''ha'', [], Named ''Boolean''),
      (''isKurlEnabled'', [], Named ''Boolean'')]"

definition Node_type :: gdef where
  "Node_type = ObjectType ''Node''
     [(''name'', [], Named ''String''),
      (''isConnected'', [], Named ''Boolean''),
      (''canDelete'', [], Named ''Boolean''),
      (''kubeletVersion'', [], Named ''String''),
      (''cpu'', [], Named ''CapacityAvailable''),
      (''memory'', [], Named ''CapacityAvailable''),
      (''pods'', [], Named ''CapacityAvailable''),
      (''conditions'', [], Named ''NodeConditions'')]"

definition CapacityAvailable_type :: gdef where
  "CapacityAvailable_type = ObjectType ''CapacityAvailable''
     [(''capacity'', [], Named ''Float''),
      (''available'', [], Named ''Float'')]"

definition NodeConditions_type :: gdef where
  "NodeConditions_type = ObjectType ''NodeConditions''
     [(''memoryPressure'', [], Named ''Boolean''),
      (''diskPressure'', [], Named ''Boolean''),
      (''pidPressure'', [], Named ''Boolean''),
      (''ready'', [], Named ''Boolean'')]"

definition Command_type :: gdef where
  "Command_type = ObjectType ''Command''
     [(''command'', [], NonNull (ListOf (Named ''String''))),
      (''expiry'', [], NonNull (Named ''Float''))]"

definition kurl_types :: "gdef list" where
  "kurl_types = [Kurl_type, Node_type, CapacityAvailable_type, NodeConditions_type, Command_type]"

definition KEntitlement_type :: gdef where
  "KEntitlement_type = ObjectType ''KEntitlement''
     [(''title'', [], Named ''String''),
      (''value'', [], Named ''String''),
      (''label'', [], Named ''String'')]"

definition KLicense_type :: gdef where
  "KLicense_type = ObjectType ''KLicense''
     [(''id'', [], Named ''String''),
      (''expiresAt'', [], Named ''String''),
      (''channelName'', [], Named ''String''),
      (''licenseSequence'', [], Named ''Int''),
      (''licenseType'', [], Named ''String''),
      (''entitlements'', [], ListOf (Named ''KEntitlement''))]"

definition klicense_types :: "gdef list" where
  "klicense_types = [KEntitlement_type, KLicense_type]"

definition PreflightResult_type :: gdef where
  "PreflightResult_type = ObjectType ''PreflightResult''
     [(''appId'', [], NonNull (Named ''String'')),
      (''appSlug'', [], NonNull (Named ''String'')),
      (''clusterId'', [], NonNull (Named ''String'')),
      (''clusterSlug'', [], NonNull (Named ''String'')),
      (''result'', [], Named ''String''),
      (''createdAt'', [], Named ''String'')]"

definition preflight_types :: "gdef list" where
  "preflight_types = [PreflightResult_type]"

definition MetricChart_type :: gdef where
  "MetricChart_type = ObjectType ''MetricChart''
     [(''title'', [], NonNull (Named ''String'')),
      (''tickFormat'', [], Named ''String''),
      (''tickTemplate'', [], Named ''String''),
      (''series'', [], NonNull (ListOf (Named ''Series'')))]"

definition Metric_type :: gdef where
  "Metric_type = ObjectType ''Metric''
     [(''name'', [], NonNull (Named ''String'')),
      (''value'', [], NonNull (Named ''String''))]"

definition Series_type :: gdef where
  "Series_type = ObjectType ''Series''
     [(''legendTemplate'', [], Named ''String''),
      (''metric'', [], NonNull (ListOf (Named ''Metric''))),
      (''data'', [], NonNull (ListOf (Named ''ValuePair'')))]"

definition ValuePair_type :: gdef where
  "ValuePair_type = ObjectType ''ValuePair''
     [(''timestamp'', [], NonNull (Named ''Float'')),
      (''value'', [], NonNull (Named ''Float''))]"

definition metric_types :: "gdef list" where
  "metric_types = [MetricChart_type, Series_type, Metric_type, ValuePair_type]"

definition Cluster_type :: gdef where
  "Cluster_type = ObjectType ''Cluster''
     [(''id'', [], Named ''ID''),
      (''title'', [], Named ''String''),
      (''slug'', [], Named ''String''),
      (''lastUpdated'', [], Named ''String''),
      (''createdOn'', [], Named ''String''),
      (''shipOpsRef'', [], Named ''ShipOpsRef''),
      (''totalApplicationCount'', [], Named ''Int''),
      (''enabled'', [], Named ''Boolean''),
      (''currentVersion'', [], Named ''KotsVersion'')]"

definition ShipOpsRef_type :: gdef where
  "ShipOpsRef_type = ObjectType ''ShipOpsRef''
     [(''token'', [], NonNull (Named ''String''))]"

definition cluster_types :: "gdef list" where
  "cluster_types = [Cluster_type, ShipOpsRef_type]"

definition HelmChart_type :: gdef where
  "HelmChart_type = ObjectType ''HelmChart''
     [(''id'', [], Named ''ID''),
      (''clusterId'', [], Named ''String''),
      (''helmName'', [], Named ''String''),
      (''namespace'', [], Named ''String''),
      (''version'', [], Named ''Int''),
      (''firstDeployedAt'', [], Named ''String''),
      (''lastDeployedAt'', [], Named ''String''),
      (''isDeleted'', [], Named ''Boolean''),
      (''chartVersion'', [], Named ''String''),
      (''appVersion'', [], Named ''String'')]"

definition helmchart_types :: "gdef list" where
  "helmchart_types = [HelmChart_type]"

definition GQLAccessToken_type :: gdef where
  "GQLAccessToken_type = ObjectType ''AccessToken''
     [(''access_token'', [], NonNull (Named ''String''))]"

definition AdminSignupInfo_type :: gdef where
  "AdminSignupInfo_type = ObjectType ''AdminSignupInfo''
     [(''token'', [], NonNull (Named ''String'')),
      (''userId'', [], NonNull (Named ''String''))]"

definition user_types :: "gdef list" where
  "user_types = [GQLAccessToken_type, AdminSignupInfo_type]"

definition Feature_type :: gdef where
  "Feature_type = ObjectType ''Feature''
     [(''id'', [], Named ''ID'')]"

definition feature_types :: "gdef list" where
  "feature_types = [Feature_type]"

definition Apps_type :: gdef where
  "Apps_type = ObjectType ''Apps''
     [(''kotsApps'', [], ListOf (Named ''KotsApp'')),
      (''pendingUnforks'', [], ListOf (Named ''HelmChart''))]"

definition apps_types :: "gdef list" where
  "apps_types = [Apps_type]"

definition Mutation_type :: gdef where
  "Mutation_type = ObjectType ''Mutation''
     [(''ping'', [], Named ''String''),
      (''logout'', [], Named ''String''),
      (''updateCluster'', [(''clusterId'', NonNull (Named ''String'')), (''clusterName'', NonNull (Named ''String''))], Named ''Cluster''),
      (''deleteCluster'', [(''clusterId'', NonNull (Named ''String''))], Named ''Boolean''),
      (''collectSupportBundle'', [(''appId'', Named ''String''), (''clusterId'', Named ''String'')], Named ''Boolean''),
      (''createKotsDownstream'', [(''appId'', NonNull (Named ''String'')), (''clusterId'', NonNull (Named ''String''))], Named ''Boolean''),
      (''deleteKotsDownstream'', [(''slug'', NonNull (Named ''String'')), (''clusterId'', NonNull (Named ''String''))], Named ''Boolean''),
      (''deleteKotsApp'', [(''slug'', NonNull (Named ''String''))], Named ''Boolean''),
      (''deployKotsVersion'', [(''upstreamSlug'', NonNull (Named ''String'')), (''sequence'', NonNull (Named ''Int'')), (''clusterSlug'', NonNull (Named ''String''))], Named ''Boolean''),
      (''updateRegistryDetails'', [(''registryDetails'', NonNull (Named ''AppRegistryDetails''))], Named ''Boolean''),
      (''updateDownstreamsStatus'', [(''slug'', NonNull (Named ''String'')), (''sequence'', NonNull (Named ''Int'')), (''status'', NonNull (Named ''String''))], Named ''Boolean''),
      (''updateKotsApp'', [(''appId'', NonNull (Named ''String'')), (''appName'', Named ''String''), (''iconUri'', Named ''String'')], Named ''Boolean''),
      (''createGitOpsRepo'', [(''gitOpsInput'', NonNull (Named ''KotsGitOpsInput''))], Named ''Boolean''),
      (''updateGitOpsRepo'', [(''gitOpsInput'', NonNull (Named ''KotsGitOpsInput'')), (''uriToUpdate'', Named ''String'')], Named ''Boolean''),
      (''updateAppGitOps'', [(''appId'', NonNull (Named ''String'')), (''clusterId'', NonNull (Named ''String'')), (''gitOpsInput'', NonNull (Named ''KotsGitOpsInput''))], Named ''Boolean''),
      (''testGitOpsConnection'', [(''appId'', NonNull (Named ''String'')), (''clusterId'', NonNull (Named ''String''))], Named ''Boolean''),
      (''disableAppGitops'', [(''appId'', NonNull (Named ''String'')), (''clusterId'', NonNull (Named ''String''))], Named ''Boolean''),
      (''ignorePreflightPermissionErrors'', [(''appSlug'', Named ''String''), (''clusterSlug'', Named ''String''), (''sequence'', Named ''Int'')], Named ''Boolean''),
      (''retryPreflights'', [(''appSlug'', Named ''String''), (''clusterSlug'', Named ''String''), (''sequence'', Named ''Int'')], Named ''Boolean''),
      (''resetGitOpsData'', [], Named ''Boolean''),
      (''drainNode'', [(''name'', Named ''String'')], Named ''Boolean''),
      (''deleteNode'', [(''name'', Named ''String'')], Named ''Boolean''),
      (''setPrometheusAddress'', [(''value'', NonNull (Named ''String''))], Named ''Boolean''),
      (''deletePrometheusAddress'', [], Named ''Boolean''),
      (''saveSnapshotConfig'', [(''appId'', NonNull (Named ''String'')), (''inputValue'', NonNull (Named ''Int'')), (''inputTimeUnit'', NonNull (Named ''String'')), (''schedule'', NonNull (Named ''String'')), (''autoEnabled'', NonNull (Named ''Boolean''))], Named ''Boolean''),
      (''deleteSnapshot'', [(''snapshotName'', NonNull (Named ''String''))], Named ''Boolean''),
      (''cancelRestore'', [(''appId'', NonNull (Named ''String''))], Named ''Boolean'')]"

definition Healthz_type :: gdef where
  "Healthz_type = ObjectType ''Healthz''
     [(''version'', [], Named ''String'')]"

definition Query_type :: gdef where
  "Query_type = ObjectType ''Query''
     [(''healthz'', [], NonNull (Named ''Healthz'')),
      (''ping'', [], NonNull (Named ''String'')),
      (''userFeatures'', [], ListOf (Named ''Feature'')),
      (''listClusters'', [], ListOf (Named ''Cluster'')),
      (''listApps'', [], Named ''Apps''),
      (''getGitOpsRepo'', [], Named ''KotsGitOps''),
      (''getKotsApp'', [(''slug'', NonNull (Named ''String''))], Named ''KotsApp''),
      (''getKotsAppDashboard'', [(''slug'', NonNull (Named ''String'')), (''clusterId'', Named ''String'')], Named ''KotsAppDashboard''),
      (''listDownstreamsForApp'', [(''slug'', NonNull (Named ''String''))], ListOf (Named ''Cluster'')),
      (''getKotsDownstreamHistory'', [(''clusterSlug'', NonNull (Named ''String'')), (''upstreamSlug'', NonNull (Named ''String''))], ListOf (Named ''KotsVersion'')),
      (''listPendingKotsVersions'', [(''slug'', NonNull (Named ''String''))], ListOf (Named ''KotsVersion'')),
      (''listPastKotsVersions'', [(''slug'', NonNull (Named ''String''))], ListOf (Named ''KotsVersion'')),
      (''getCurrentKotsVersion'', [(''slug'', NonNull (Named ''String''))], Named ''KotsVersion''),
      (''getAppRegistryDetails'', [(''slug'', NonNull (Named ''String''))], Named ''KotsAppRegistryDetails''),
      (''listHelmCharts'', [], ListOf (Named ''HelmChart'')),
      (''getHelmChart'', [(''id'', NonNull (Named ''String''))], Named ''HelmChart''),
      (''getAppLicense'', [(''appId'', NonNull (Named ''String''))], Named ''KLicense''),
      (''getFiles'', [(''slug'', NonNull (Named ''String'')), (''sequence'', NonNull (Named ''Int'')), (''fileNames'', ListOf (NonNull (Named ''String'')))], Named ''String''),
      (''getKotsApplicationTree'', [(''slug'', NonNull (Named ''String'')), (''sequence'', NonNull (Named ''Int''))], Named ''String''),
      (''getKotsFiles'', [(''slug'', NonNull (Named ''String'')), (''sequence'', NonNull (Named ''Int'')), (''fileNames'', ListOf (NonNull (Named ''String'')))], Named ''String''),
      (''getAppConfigGroups'', [(''slug'', NonNull (Named ''String'')), (''sequence'', NonNull (Named ''Int''))], ListOf (Named ''KotsConfigGroup'')),
      (''getKotsDownstreamOutput'', [(''appSlug'', NonNull (Named ''String'')), (''clusterSlug'', NonNull (Named ''String'')), (''sequence'', NonNull (Named ''Int''))], Named ''KotsDownstreamOutput''),
      (''templateConfigGroups'', [(''slug'', NonNull (Named ''String'')), (''sequence'', NonNull (Named ''Int'')), (''configGroups'', NonNull (ListOf (Named ''KotsConfigGroupInput'')))], ListOf (Named ''KotsConfigGroup'')),
      (''validateRegistryInfo'', [(''slug'', Named ''String''), (''endpoint'', Named ''String''), (''username'', Named ''String''), (''password'', Named ''String''), (''org'', Named ''String'')], NonNull (Named ''String'')),
      (''listKotsSupportBundles'', [(''kotsSlug'', NonNull (Named ''String''))], ListOf (Named ''SupportBundle'')),
      (''listSupportBundles'', [(''watchSlug'', NonNull (Named ''String''))], ListOf (Named ''SupportBundle'')),
      (''getSupportBundle'', [(''watchSlug'', NonNull (Named ''String''))], Named ''SupportBundle''),
      (''supportBundleFiles'', [(''bundleId'', NonNull (Named ''ID'')), (''fileNames'', ListOf (NonNull (Named ''String'')))], Named ''String''),
      (''getSupportBundleCommand'', [(''watchSlug'', Named ''String'')], Named ''String''),
      (''getKotsPreflightResult'', [(''appSlug'', NonNull (Named ''String'')), (''clusterSlug'', NonNull (Named ''String'')), (''sequence'', NonNull (Named ''Int''))], Named ''PreflightResult''),
      (''getLatestKotsPreflightResult'', [], Named ''PreflightResult''),
      (''getPreflightCommand'', [(''appSlug'', Named ''String''), (''clusterSlug'', Named ''String''), (''sequence'', Named ''String'')], Named ''String''),
      (''getAirgapInstallStatus'', [], Named ''InstallStatus''),
      (''getOnlineInstallStatus'', [], Named ''InstallStatus''),
      (''getImageRewriteStatus'', [], Named ''ImageRewriteStatus''),
      (''getUpdateDownloadStatus'', [], Named ''UpdateDownloadStatus''),
      (''kurl'', [], Named ''Kurl''),
      (''getPrometheusAddress'', [], Named ''String''),
      (''snapshotConfig'', [(''slug'', NonNull (Named ''String''))], Named ''SnapshotConfig''),
      (''snapshotDetail'', [(''slug'', NonNull (Named ''String'')), (''id'', NonNull (Named ''String''))], Named ''SnapshotDetail''),
      (''restoreDetail'', [(''appId'', NonNull (Named ''String'')), (''restoreName'', NonNull (Named ''String''))], Named ''RestoreDetail''),
      (''isVeleroInstalled'', [], Named ''Boolean'')]"

definition ShipClusterSchemaTypes :: "gdef list" where
  "ShipClusterSchemaTypes =
     [Query_type, Mutation_type, Healthz_type] @ apps_types @ user_types @ kots_app_types @ metric_types @ cluster_types @
     feature_types @ helmchart_types @ troubleshoot_types @ klicense_types @ preflight_types @ snapshot_types @ kurl_types"

section \<open>Resolvers\<close>

definition query_resolvers :: "string list" where
  "query_resolvers =
     [''userFeatures'',
      ''healthz'', ''ping'',
      ''listKotsSupportBundles'', ''listSupportBundles'', ''getSupportBundle'', ''supportBundleFiles'', ''getSupportBundleCommand'',
      ''getKotsPreflightResult'', ''getLatestKotsPreflightResult'', ''getPreflightCommand'',
      ''listApps'', ''getGitOpsRepo'',
      ''listClusters'',
      ''validateRegistryInfo'',
      ''getPrometheusAddress'',
      ''getKotsApp'', ''listDownstreamsForApp'', ''listPendingKotsVersions'', ''listPastKotsVersions'', ''getCurrentKotsVersion'',
      ''getKotsDownstreamHistory'', ''getAppRegistryDetails'', ''getKotsApplicationTree'', ''getKotsFiles'', ''getAppConfigGroups'',
      ''getOnlineInstallStatus'', ''getAirgapInstallStatus'', ''getImageRewriteStatus'', ''getUpdateDownloadStatus'',
      ''getKotsDownstreamOutput'', ''templateConfigGroups'',
      ''isVeleroInstalled'', ''snapshotConfig'', ''snapshotDetail'', ''restoreDetail'',
      ''getKotsAppDashboard'',
      ''getAppLicense'',
      ''kurl'']"

definition mutation_resolvers :: "string list" where
  "mutation_resolvers =
     [''updateCluster'', ''deleteCluster'',
      ''collectSupportBundle'',
      ''logout'',
      ''setPrometheusAddress'', ''deletePrometheusAddress'',
      ''updateAppGitOps'', ''disableAppGitops'', ''ignorePreflightPermissionErrors'', ''retryPreflights'', ''testGitOpsConnection'',
      ''createKotsDownstream'', ''deployKotsVersion'', ''deleteKotsDownstream'', ''deleteKotsApp'', ''updateKotsApp'',
      ''updateDownstreamsStatus'',
      ''saveSnapshotConfig'', ''cancelRestore'', ''deleteSnapshot'',
      ''drainNode'', ''deleteNode'',
      ''createGitOpsRepo'', ''updateGitOpsRepo'', ''resetGitOpsData'']"

section \<open>Well-formedness\<close>

definition scalars :: "string list" where
  "scalars = [''String'', ''Int'', ''Float'', ''Boolean'', ''ID'']"

fun base_name :: "gtype \<Rightarrow> string" where
  "base_name (Named n) = n"
| "base_name (NonNull t) = base_name t"
| "base_name (ListOf t) = base_name t"

fun is_input :: "gdef \<Rightarrow> bool" where
  "is_input (InputType _ _) = True"
| "is_input (ObjectType _ _) = False"

fun field_names :: "gdef \<Rightarrow> string list" where
  "field_names (ObjectType _ fs) = map fst fs"
| "field_names (InputType _ fs) = map fst fs"

definition output_names :: "gdef list \<Rightarrow> string list" where
  "output_names S = scalars @ map gd_name (filter (\<lambda>d. \<not> is_input d) S)"

definition input_names :: "gdef list \<Rightarrow> string list" where
  "input_names S = scalars @ map gd_name (filter is_input S)"

fun uses_known :: "string list \<Rightarrow> string list \<Rightarrow> gdef \<Rightarrow> bool" where
  "uses_known outputs inputs (ObjectType _ fs) =
     list_all (\<lambda>(_, args, t). base_name t \<in> set outputs \<and> list_all (\<lambda>(_, u). base_name u \<in> set inputs) args) fs"
| "uses_known outputs inputs (InputType _ fs) = list_all (\<lambda>(_, t). base_name t \<in> set inputs) fs"

definition well_formed :: "gdef list \<Rightarrow> bool" where
  "well_formed S \<longleftrightarrow>
     distinct (map gd_name S) \<and> list_all (\<lambda>d. distinct (field_names d)) S \<and>
     list_all (uses_known (output_names S) (input_names S)) S"

text \<open>Fields without a resolver: with no root value they answer \<open>null\<close>.\<close>

definition unresolved :: "gdef \<Rightarrow> string list \<Rightarrow> string list" where
  "unresolved d resolvers = filter (\<lambda>f. f \<notin> set resolvers) (field_names d)"

lemmas type_defs =
  KotsApp_type_def KotsGitOps_type_def KotsAppLink_type_def KotsDownstream_type_def KotsGitOpsInput_type_def
  KotsVersion_type_def AppRegistryDetails_type_def KotsAppRegistryDetails_type_def InstallStatus_type_def
  ImageRewriteStatus_type_def UpdateDownloadStatus_type_def KotsConfigChildItem_type_def
  KotsConfigChildItemInput_type_def KotsConfigItem_type_def KotsConfigItemInput_type_def KotsConfigGroup_type_def
  KotsConfigGroupInput_type_def KotsDownstreamOutput_type_def ResourceState_type_def KotsAppStatus_type_def
  KotsAppDashboard_type_def SnapshotConfig_type_def SnapshotSettings_type_def SnapshotSchedule_type_def
  SnapshotTTl_type_def SnapshotStore_type_def SnapshotStoreS3AWS_type_def SnapshotStoreS3Compatible_type_def
  SnapshotStoreAzure_type_def SnapshotStoreGoogle_type_def Snapshot_type_def SnapshotDetail_type_def
  SnapshotError_type_def SnapshotVolume_type_def SnapshotHook_type_def RestoreDetail_type_def
  RestoreVolume_type_def TroubleshootCollectSpec_type_def TroubleshootAnalyzeSpec_type_def SupportBundle_type_def
  SupportBundleAnalysis_type_def SupportBundleInsight_type_def SupportBundleUpload_type_def Kurl_type_def
  Node_type_def CapacityAvailable_type_def NodeConditions_type_def Command_type_def KEntitlement_type_def
  KLicense_type_def PreflightResult_type_def MetricChart_type_def Metric_type_def Series_type_def
  ValuePair_type_def Cluster_type_def ShipOpsRef_type_def HelmChart_type_def GQLAccessToken_type_def
  AdminSignupInfo_type_def Feature_type_def Apps_type_def Mutation_type_def Healthz_type_def Query_type_def

lemmas schema_types =
  ShipClusterSchemaTypes_def kots_app_types_def snapshot_types_def troubleshoot_types_def kurl_types_def klicense_types_def preflight_types_def metric_types_def cluster_types_def helmchart_types_def user_types_def feature_types_def apps_types_def

lemma type_names [simp]:
  "gd_name KotsApp_type = ''KotsApp''" "gd_name KotsGitOps_type = ''KotsGitOps''"
  "gd_name KotsAppLink_type = ''KotsAppLink''" "gd_name KotsDownstream_type = ''KotsDownstream''"
  "gd_name KotsGitOpsInput_type = ''KotsGitOpsInput''" "gd_name KotsVersion_type = ''KotsVersion''"
  "gd_name AppRegistryDetails_type = ''AppRegistryDetails''"
  "gd_name KotsAppRegistryDetails_type = ''KotsAppRegistryDetails''"
  "gd_name InstallStatus_type = ''InstallStatus''" "gd_name ImageRewriteStatus_type = ''ImageRewriteStatus''"
  "gd_name UpdateDownloadStatus_type = ''UpdateDownloadStatus''"
  "gd_name KotsConfigChildItem_type = ''KotsConfigChildItem''"
  "gd_name KotsConfigChildItemInput_type = ''KotsConfigChildItemInput''"
  "gd_name KotsConfigItem_type = ''KotsConfigItem''" "gd_name KotsConfigItemInput_type = ''KotsConfigItemInput''"
  "gd_name KotsConfigGroup_type = ''KotsConfigGroup''"
  "gd_name KotsConfigGroupInput_type = ''KotsConfigGroupInput''"
  "gd_name KotsDownstreamOutput_type = ''KotsDownstreamOutput''" "gd_name ResourceState_type = ''ResourceState''"
  "gd_name KotsAppStatus_type = ''KotsAppStatus''" "gd_name KotsAppDashboard_type = ''KotsAppDashboard''"
  "gd_name SnapshotConfig_type = ''SnapshotConfig''" "gd_name SnapshotSettings_type = ''SnapshotSettings''"
  "gd_name SnapshotSchedule_type = ''SnapshotSchedule''" "gd_name SnapshotTTl_type = ''SnapshotTTl''"
  "gd_name SnapshotStore_type = ''SnapshotStore''" "gd_name SnapshotStoreS3AWS_type = ''SnapshotStoreS3AWS''"
  "gd_name SnapshotStoreS3Compatible_type = ''SnapshotStoreS3Compatible''"
  "gd_name SnapshotStoreAzure_type = ''SnapshotStoreAzure''"
  "gd_name SnapshotStoreGoogle_type = ''SnapshotStoreGoogle''" "gd_name Snapshot_type = ''Snapshot''"
  "gd_name SnapshotDetail_type = ''SnapshotDetail''" "gd_name SnapshotError_type = ''SnapshotError''"
  "gd_name SnapshotVolume_type = ''SnapshotVolume''" "gd_name SnapshotHook_type = ''SnapshotHook''"
  "gd_name RestoreDetail_type = ''RestoreDetail''" "gd_name RestoreVolume_type = ''RestoreVolume''"
  "gd_name TroubleshootCollectSpec_type = ''TroubleshootCollectSpec''"
  "gd_name TroubleshootAnalyzeSpec_type = ''TroubleshootAnalyzeSpec''"
  "gd_name SupportBundle_type = ''SupportBundle''"
  "gd_name SupportBundleAnalysis_type = ''SupportBundleAnalysis''"
  "gd_name SupportBundleInsight_type = ''SupportBundleInsight''"
  "gd_name SupportBundleUpload_type = ''SupportBundleUpload''" "gd_name Kurl_type = ''Kurl''"
  "gd_name Node_type = ''Node''" "gd_name CapacityAvailable_type = ''CapacityAvailable''"
  "gd_name NodeConditions_type = ''NodeConditions''" "gd_name Command_type = ''Command''"
  "gd_name KEntitlement_type = ''KEntitlement''" "gd_name KLicense_type = ''KLicense''"
  "gd_name PreflightResult_type = ''PreflightResult''" "gd_name MetricChart_type = ''MetricChart''"
  "gd_name Metric_type = ''Metric''" "gd_name Series_type = ''Series''" "gd_name ValuePair_type = ''ValuePair''"
  "gd_name Cluster_type = ''Cluster''" "gd_name ShipOpsRef_type = ''ShipOpsRef''"
  "gd_name HelmChart_type = ''HelmChart''" "gd_name GQLAccessToken_type = ''AccessToken''"
  "gd_name AdminSignupInfo_type = ''AdminSignupInfo''" "gd_name Feature_type = ''Feature''"
  "gd_name Apps_type = ''Apps''" "gd_name Mutation_type = ''Mutation''" "gd_name Healthz_type = ''Healthz''"
  "gd_name Query_type = ''Query''"
  by (simp_all only: type_defs gdef.sel)

lemma type_kinds [simp]:
  "\<not> is_input KotsApp_type" "\<not> is_input KotsGitOps_type" "\<not> is_input KotsAppLink_type"
  "\<not> is_input KotsDownstream_type" "is_input KotsGitOpsInput_type" "\<not> is_input KotsVersion_type"
  "is_input AppRegistryDetails_type" "\<not> is_input KotsAppRegistryDetails_type"
  "\<not> is_input InstallStatus_type" "\<not> is_input ImageRewriteStatus_type"
  "\<not> is_input UpdateDownloadStatus_type" "\<not> is_input KotsConfigChildItem_type"
  "is_input KotsConfigChildItemInput_type" "\<not> is_input KotsConfigItem_type"
  "is_input KotsConfigItemInput_type" "\<not> is_input KotsConfigGroup_type" "is_input KotsConfigGroupInput_type"
  "\<not> is_input KotsDownstreamOutput_type" "\<not> is_input ResourceState_type"
  "\<not> is_input KotsAppStatus_type" "\<not> is_input KotsAppDashboard_type"
  "\<not> is_input SnapshotConfig_type" "\<not> is_input SnapshotSettings_type"
  "\<not> is_input SnapshotSchedule_type" "\<not> is_input SnapshotTTl_type" "\<not> is_input SnapshotStore_type"
  "\<not> is_input SnapshotStoreS3AWS_type" "\<not> is_input SnapshotStoreS3Compatible_type"
  "\<not> is_input SnapshotStoreAzure_type" "\<not> is_input SnapshotStoreGoogle_type"
  "\<not> is_input Snapshot_type" "\<not> is_input SnapshotDetail_type" "\<not> is_input SnapshotError_type"
  "\<not> is_input SnapshotVolume_type" "\<not> is_input SnapshotHook_type" "\<not> is_input RestoreDetail_type"
  "\<not> is_input RestoreVolume_type" "\<not> is_input TroubleshootCollectSpec_type"
  "\<not> is_input TroubleshootAnalyzeSpec_type" "\<not> is_input SupportBundle_type"
  "\<not> is_input SupportBundleAnalysis_type" "\<not> is_input SupportBundleInsight_type"
  "\<not> is_input SupportBundleUpload_type" "\<not> is_input Kurl_type" "\<not> is_input Node_type"
  "\<not> is_input CapacityAvailable_type" "\<not> is_input NodeConditions_type" "\<not> is_input Command_type"
  "\<not> is_input KEntitlement_type" "\<not> is_input KLicense_type" "\<not> is_input PreflightResult_type"
  "\<not> is_input MetricChart_type" "\<not> is_input Metric_type" "\<not> is_input Series_type"
  "\<not> is_input ValuePair_type" "\<not> is_input Cluster_type" "\<not> is_input ShipOpsRef_type"
  "\<not> is_input HelmChart_type" "\<not> is_input GQLAccessToken_type" "\<not> is_input AdminSignupInfo_type"
  "\<not> is_input Feature_type" "\<not> is_input Apps_type" "\<not> is_input Mutation_type"
  "\<not> is_input Healthz_type" "\<not> is_input Query_type"
  by (simp_all only: type_defs is_input.simps not_False_eq_True)

lemma types_named_apart: "distinct (map gd_name ShipClusterSchemaTypes)"
  by (simp add: schema_types)

lemma fields_apart:
  "distinct (field_names Query_type)" "distinct (field_names Mutation_type)" "distinct (field_names Healthz_type)"
  "list_all (\<lambda>d. distinct (field_names d)) kots_app_types"
  "list_all (\<lambda>d. distinct (field_names d)) snapshot_types"
  "list_all (\<lambda>d. distinct (field_names d)) troubleshoot_types"
  "list_all (\<lambda>d. distinct (field_names d)) kurl_types"
  "list_all (\<lambda>d. distinct (field_names d)) klicense_types"
  "list_all (\<lambda>d. distinct (field_names d)) preflight_types"
  "list_all (\<lambda>d. distinct (field_names d)) metric_types"
  "list_all (\<lambda>d. distinct (field_names d)) cluster_types"
  "list_all (\<lambda>d. distinct (field_names d)) helmchart_types"
  "list_all (\<lambda>d. distinct (field_names d)) user_types"
  "list_all (\<lambda>d. distinct (field_names d)) feature_types"
  "list_all (\<lambda>d. distinct (field_names d)) apps_types"
  by code_simp+

lemma fields_named_apart: "list_all (\<lambda>d. distinct (field_names d)) ShipClusterSchemaTypes"
  by (simp add: ShipClusterSchemaTypes_def fields_apart)

lemma output_members:
  "''Apps'' \<in> set (output_names ShipClusterSchemaTypes)"
  "''Boolean'' \<in> set (output_names ShipClusterSchemaTypes)"
  "''CapacityAvailable'' \<in> set (output_names ShipClusterSchemaTypes)"
  "''Cluster'' \<in> set (output_names ShipClusterSchemaTypes)"
  "''Feature'' \<in> set (output_names ShipClusterSchemaTypes)"
  "''Float'' \<in> set (output_names ShipClusterSchemaTypes)"
  "''Healthz'' \<in> set (output_names ShipClusterSchemaTypes)"
  "''HelmChart'' \<in> set (output_names ShipClusterSchemaTypes)"
  "''ID'' \<in> set (output_names ShipClusterSchemaTypes)"
  "''ImageRewriteStatus'' \<in> set (output_names ShipClusterSchemaTypes)"
  "''InstallStatus'' \<in> set (output_names ShipClusterSchemaTypes)"
  "''Int'' \<in> set (output_names ShipClusterSchemaTypes)"
  "''KEntitlement'' \<in> set (output_names ShipClusterSchemaTypes)"
  "''KLicense'' \<in> set (output_names ShipClusterSchemaTypes)"
  "''KotsApp'' \<in> set (output_names ShipClusterSchemaTypes)"
  "''KotsAppDashboard'' \<in> set (output_names ShipClusterSchemaTypes)"
  "''KotsAppLink'' \<in> set (output_names ShipClusterSchemaTypes)"
  "''KotsAppRegistryDetails'' \<in> set (output_names ShipClusterSchemaTypes)"
  "''KotsAppStatus'' \<in> set (output_names ShipClusterSchemaTypes)"
  "''KotsConfigChildItem'' \<in> set (output_names ShipClusterSchemaTypes)"
  "''KotsConfigGroup'' \<in> set (output_names ShipClusterSchemaTypes)"
  "''KotsConfigItem'' \<in> set (output_names ShipClusterSchemaTypes)"
  "''KotsDownstream'' \<in> set (output_names ShipClusterSchemaTypes)"
  "''KotsDownstreamOutput'' \<in> set (output_names ShipClusterSchemaTypes)"
  "''KotsGitOps'' \<in> set (output_names ShipClusterSchemaTypes)"
  "''KotsVersion'' \<in> set (output_names ShipClusterSchemaTypes)"
  "''Kurl'' \<in> set (output_names ShipClusterSchemaTypes)"
  "''Metric'' \<in> set (output_names ShipClusterSchemaTypes)"
  "''MetricChart'' \<in> set (output_names ShipClusterSchemaTypes)"
  "''Node'' \<in> set (output_names ShipClusterSchemaTypes)"
  "''NodeConditions'' \<in> set (output_names ShipClusterSchemaTypes)"
  "''PreflightResult'' \<in> set (output_names ShipClusterSchemaTypes)"
  "''ResourceState'' \<in> set (output_names ShipClusterSchemaTypes)"
  "''RestoreDetail'' \<in> set (output_names ShipClusterSchemaTypes)"
  "''RestoreVolume'' \<in> set (output_names ShipClusterSchemaTypes)"
  "''Series'' \<in> set (output_names ShipClusterSchemaTypes)"
  "''ShipOpsRef'' \<in> set (output_names ShipClusterSchemaTypes)"
  "''SnapshotConfig'' \<in> set (output_names ShipClusterSchemaTypes)"
  "''SnapshotDetail'' \<in> set (output_names ShipClusterSchemaTypes)"
  "''SnapshotError'' \<in> set (output_names ShipClusterSchemaTypes)"
  "''SnapshotHook'' \<in> set (output_names ShipClusterSchemaTypes)"
  "''SnapshotSchedule'' \<in> set (output_names ShipClusterSchemaTypes)"
  "''SnapshotStore'' \<in> set (output_names ShipClusterSchemaTypes)"
  "''SnapshotStoreAzure'' \<in> set (output_names ShipClusterSchemaTypes)"
  "''SnapshotStoreGoogle'' \<in> set (output_names ShipClusterSchemaTypes)"
  "''SnapshotStoreS3AWS'' \<in> set (output_names ShipClusterSchemaTypes)"
  "''SnapshotStoreS3Compatible'' \<in> set (output_names ShipClusterSchemaTypes)"
  "''SnapshotTTl'' \<in> set (output_names ShipClusterSchemaTypes)"
  "''SnapshotVolume'' \<in> set (output_names ShipClusterSchemaTypes)"
  "''String'' \<in> set (output_names ShipClusterSchemaTypes)"
  "''SupportBundle'' \<in> set (output_names ShipClusterSchemaTypes)"
  "''SupportBundleAnalysis'' \<in> set (output_names ShipClusterSchemaTypes)"
  "''SupportBundleInsight'' \<in> set (output_names ShipClusterSchemaTypes)"
  "''UpdateDownloadStatus'' \<in> set (output_names ShipClusterSchemaTypes)"
  "''ValuePair'' \<in> set (output_names ShipClusterSchemaTypes)"
  by (simp_all add: output_names_def schema_types scalars_def)

lemma input_members:
  "''AppRegistryDetails'' \<in> set (input_names ShipClusterSchemaTypes)"
  "''Boolean'' \<in> set (input_names ShipClusterSchemaTypes)"
  "''ID'' \<in> set (input_names ShipClusterSchemaTypes)" "''Int'' \<in> set (input_names ShipClusterSchemaTypes)"
  "''KotsConfigChildItemInput'' \<in> set (input_names ShipClusterSchemaTypes)"
  "''KotsConfigGroupInput'' \<in> set (input_names ShipClusterSchemaTypes)"
  "''KotsConfigItemInput'' \<in> set (input_names ShipClusterSchemaTypes)"
  "''KotsGitOpsInput'' \<in> set (input_names ShipClusterSchemaTypes)"
  "''String'' \<in> set (input_names ShipClusterSchemaTypes)"
  by (simp_all add: input_names_def schema_types scalars_def)

lemma type_uses: "list_all (uses_known (output_names ShipClusterSchemaTypes) (input_names ShipClusterSchemaTypes)) ShipClusterSchemaTypes"
  unfolding schema_types(2-)
  by (subst (3) ShipClusterSchemaTypes_def) (simp add: schema_types(2-) type_defs output_members input_members)

text \<open>
  The schema of the server is well formed: types have names of their own, fields too, and every type that is
  used is a scalar or declared, of the right kind. Every resolver has its field, none twice; the fields of
  queries and mutations without a resolver are exactly the five listed.
\<close>

theorem schema_well_formed:
  "well_formed ShipClusterSchemaTypes \<and>
   set query_resolvers \<subseteq> set (field_names Query_type) \<and> set mutation_resolvers \<subseteq> set (field_names Mutation_type) \<and>
   distinct query_resolvers \<and> distinct mutation_resolvers \<and>
   unresolved Query_type query_resolvers = [''listHelmCharts'', ''getHelmChart'', ''getFiles''] \<and>
   unresolved Mutation_type mutation_resolvers = [''ping'', ''updateRegistryDetails'']"
proof (intro conjI)
  show "well_formed ShipClusterSchemaTypes"
    using types_named_apart fields_named_apart type_uses by (simp only: well_formed_def)
  show "set query_resolvers \<subseteq> set (field_names Query_type)" by code_simp
  show "set mutation_resolvers \<subseteq> set (field_names Mutation_type)" by code_simp
  show "distinct query_resolvers" "distinct mutation_resolvers" by code_simp+
  show "unresolved Query_type query_resolvers = [''listHelmCharts'', ''getHelmChart'', ''getFiles'']" by code_simp
  show "unresolved Mutation_type mutation_resolvers = [''ping'', ''updateRegistryDetails'']" by code_simp
qed

end
