(* ===== verification/Conformance.thy ===== *)
theory Conformance
  imports Schema Queries
begin

text \<open>
  What a client is answered against the schema: \<open>conforms\<close> is what the language of \<^verbatim>\<open>api/src/schema\<close> demands of the
  value of a field, \<open>version_json\<close> a version as the interface \<^verbatim>\<open>KotsVersion\<close> of
  \<^verbatim>\<open>kots_app/kots_app.ts\<close> has it.
\<close>

section \<open>Values of a type\<close>

definition int32 :: "int \<Rightarrow> bool" where
  "int32 n \<longleftrightarrow> - (2 ^ 31) \<le> n \<and> n < 2 ^ 31"

fun scalar_conforms :: "string \<Rightarrow> jsval \<Rightarrow> bool" where
  "scalar_conforms n (JStr s) \<longleftrightarrow> n = ''String'' \<or> n = ''ID''"
| "scalar_conforms n (JNum i) \<longleftrightarrow> n = ''Float'' \<or> n = ''Int'' \<and> int32 i"
| "scalar_conforms n (JBool b) \<longleftrightarrow> n = ''Boolean''"
| "scalar_conforms n v \<longleftrightarrow> False"

definition is_null :: "jsval \<Rightarrow> bool" where
  "is_null v \<longleftrightarrow> v = JUndef \<or> v = JNull"

fun gtype_size :: "gtype \<Rightarrow> nat" where
  "gtype_size (Named n) = 1"
| "gtype_size (NonNull t) = Suc (gtype_size t)"
| "gtype_size (ListOf t) = Suc (gtype_size t)"

definition object_fields :: "gdef list \<Rightarrow> string \<Rightarrow> (string \<times> gtype) list option" where
  "object_fields S n =
     (case find (\<lambda>d. gd_name d = n) S of
        Some (ObjectType _ fs) \<Rightarrow> Some (map (\<lambda>(f, _, t). (f, t)) fs)
      | _ \<Rightarrow> None)"

fun nullable :: "gtype \<Rightarrow> bool" where
  "nullable (NonNull _) = False"
| "nullable _ = True"

text \<open>A value of an object, smaller than the object.\<close>

lemma map_of_smaller: "map_of kvs k = Some v \<Longrightarrow> size v < Suc (size_list (size_prod (\<lambda>_. 0) size) kvs)"
proof -
  assume "map_of kvs k = Some v"
  then have "(k, v) \<in> set kvs" by (rule map_of_SomeD)
  then have "size_prod (\<lambda>_. 0) size (k, v) \<le> size_list (size_prod (\<lambda>_. 0) size) kvs"
    by (rule size_list_estimation') simp
  then show ?thesis by simp
qed

function (sequential) conforms :: "gdef list \<Rightarrow> gtype \<Rightarrow> jsval \<Rightarrow> bool" where
  "conforms S (NonNull t) v \<longleftrightarrow> \<not> is_null v \<and> conforms S t v"
| "conforms S (ListOf t) v \<longleftrightarrow> is_null v \<or> (case v of JArr xs \<Rightarrow> list_all (conforms S t) xs | _ \<Rightarrow> False)"
| "conforms S (Named n) v \<longleftrightarrow> is_null v \<or> scalar_conforms n v \<or>
     (case object_fields S n of
        None \<Rightarrow> False
      | Some fs \<Rightarrow> (case v of
            JObj kvs \<Rightarrow> list_all (\<lambda>(f, t). case map_of kvs f of None \<Rightarrow> nullable t | Some x \<Rightarrow> conforms S t x) fs
          | _ \<Rightarrow> False))"
  by pat_completeness auto

termination
  by (relation "measures [\<lambda>(S, t, v). size v, \<lambda>(S, t, v). gtype_size t]")
    (auto dest: map_of_smaller intro: size_list_estimation' simp: less_Suc_eq_le)

section \<open>Versions\<close>

definition opt_json :: "('a \<Rightarrow> jsval) \<Rightarrow> 'a option \<Rightarrow> jsval" where
  "opt_json f x = (case x of None \<Rightarrow> JNull | Some y \<Rightarrow> f y)"

text \<open>\<open>date\<close> writes a time as the language writes a \<^verbatim>\<open>String\<close>.\<close>

definition version_json :: "(time \<Rightarrow> string) \<Rightarrow> KotsVersion \<Rightarrow> jsval" where
  "version_json date v =
     JObj [(''title'', JStr (kv_title v)), (''status'', opt_json JStr (kv_status v)),
           (''createdOn'', JStr (date (kv_createdOn v))), (''parentSequence'', opt_json JNum (kv_parentSequence v)),
           (''sequence'', JNum (kv_sequence v)), (''releaseNotes'', JStr (kv_releaseNotes v)),
           (''deployedAt'', opt_json (\<lambda>t. JStr (date t)) (kv_deployedAt v)),
           (''preflightResult'', opt_json JStr (kv_preflightResult v)),
           (''preflightResultCreatedAt'', opt_json (\<lambda>t. JStr (date t)) (kv_preflightResultCreatedAt v)),
           (''source'', opt_json JStr (kv_source v)), (''diffSummary'', opt_json JStr (kv_diffSummary v)),
           (''commitUrl'', opt_json JStr (kv_commitUrl v)), (''gitDeployable'', opt_json JBool (kv_gitDeployable v)),
           (''backupSpec'', opt_json JStr (kv_backupSpec v))]"

definition version_fits :: "KotsVersion \<Rightarrow> bool" where
  "version_fits v \<longleftrightarrow> kv_status v \<noteq> None \<and> int32 (kv_sequence v) \<and>
     (case kv_parentSequence v of None \<Rightarrow> True | Some p \<Rightarrow> int32 p)"

lemma KotsVersion_fields:
  "object_fields ShipClusterSchemaTypes ''KotsVersion'' =
     Some [(''title'', NonNull (Named ''String'')), (''status'', NonNull (Named ''String'')),
           (''createdOn'', NonNull (Named ''String'')), (''sequence'', Named ''Int''), (''parentSequence'', Named ''Int''),
           (''releaseNotes'', Named ''String''), (''deployedAt'', Named ''String''), (''source'', Named ''String''),
           (''diffSummary'', Named ''String''), (''preflightResult'', Named ''String''),
           (''preflightResultCreatedAt'', Named ''String''), (''commitUrl'', Named ''String''),
           (''gitDeployable'', Named ''Boolean''), (''hasError'', Named ''Boolean'')]"
  by code_simp

declare conforms.simps(3) [simp del]

lemma conforms_scalars [simp]:
  "conforms S (Named n) JNull"
  "conforms S (Named ''String'') (JStr s)"
  "conforms S (Named ''Boolean'') (JBool b)"
  "int32 i \<Longrightarrow> conforms S (Named ''Int'') (JNum i)"
  by (simp_all add: conforms.simps(3) is_null_def)

lemma opt_json_conforms [simp]:
  "conforms S (Named ''String'') (opt_json (\<lambda>y. JStr (f y)) x)"
  "conforms S (Named ''Boolean'') (opt_json JBool y)"
  "(case i of None \<Rightarrow> True | Some p \<Rightarrow> int32 p) \<Longrightarrow> conforms S (Named ''Int'') (opt_json JNum i)"
  by (auto simp: opt_json_def split: option.splits)

lemma opt_json_str [simp]: "conforms S (Named ''String'') (opt_json JStr x)"
  by (simp add: opt_json_def split: option.splits)

lemma version_conforms:
  "version_fits v \<Longrightarrow> conforms ShipClusterSchemaTypes (Named ''KotsVersion'') (version_json date v)"
  unfolding conforms.simps(3) [of _ "''KotsVersion''"] KotsVersion_fields version_json_def
  by (auto simp: version_fits_def is_null_def) (simp_all add: opt_json_def)

text \<open>The rows: a status, and columns of 32 bits.\<close>

definition row_fits :: "app_downstream_version_row \<Rightarrow> bool" where
  "row_fits r \<longleftrightarrow> adv_status r \<noteq> None \<and> int32 (adv_sequence r) \<and>
     (case adv_parent_sequence r of None \<Rightarrow> True | Some p \<Rightarrow> int32 p)"

lemma shown_status_some: "adv_status r \<noteq> None \<Longrightarrow> shown_status d r \<noteq> None"
  by (auto simp: shown_status_def downstreamVersionStatus_def)

lemma version_item_fits: "row_fits r \<Longrightarrow> st \<noteq> None \<Longrightarrow> version_fits (version_item d a st r)"
  by (auto simp: row_fits_def version_fits_def version_item_def)

lemma versions_fit:
  assumes "list_all row_fits (downstream_versions a c d)"
  shows "listPendingVersions a c d = Inr vs \<Longrightarrow> list_all version_fits vs"
    and "listPastVersions a c d = Inr vs \<Longrightarrow> list_all version_fits vs"
    and "getCurrentVersion a c d = Inr (Some v) \<Longrightarrow> version_fits v"
proof -
  have r: "row_fits r" "adv_status r \<noteq> None" "shown_status d r \<noteq> None" if "r \<in> set (downstream_versions a c d)" for r
    using assms that shown_status_some by (auto simp: list_all_iff row_fits_def)
  show "listPendingVersions a c d = Inr vs \<Longrightarrow> list_all version_fits vs"
    by (auto simp: listPendingVersions_def Let_def list_all_iff sql_select_def split: option.splits intro!: version_item_fits dest: r)
  show "listPastVersions a c d = Inr vs \<Longrightarrow> list_all version_fits vs"
    by (auto simp: listPastVersions_def list_all_iff sql_select_def split: option.splits intro!: version_item_fits dest: r)
  have mem: "row \<in> set (downstream_versions a c d)"
    if "order_desc adv_sequence (sql_select q (downstream_versions a c d)) = row # rows" for row rows q
  proof -
    have "row \<in> set (order_desc adv_sequence (sql_select q (downstream_versions a c d)))" using that by simp
    then show ?thesis by (simp add: sql_select_def)
  qed
  show "getCurrentVersion a c d = Inr (Some v) \<Longrightarrow> version_fits v"
    by (auto simp: getCurrentVersion_def split: option.splits list.splits intro!: version_item_fits dest!: mem dest: r)
qed

section \<open>Properties\<close>



end
