(* ===== verification/Documents.thy ===== *)
theory Documents
  imports Conformance
begin

text \<open>
  The queries and mutations the console sends, one definition per document of \<^verbatim>\<open>web/src/queries\<close> and
  \<^verbatim>\<open>web/src/mutations\<close>, against the schema of the server: the rules of the query language say when a document
  is valid (fields the type has, arguments it declares and demands, variables of a fitting type, selections exactly
  on objects) and what is sent of a value for a selection.
\<close>

section \<open>Documents\<close>

datatype selection = Field (sel_name: string) (sel_args: "(string \<times> string) list") (sel_sub: "selection list")

definition Leaf :: "string \<Rightarrow> selection" where
  "Leaf f = Field f [] []"

definition leaves :: "string list \<Rightarrow> selection list" where
  "leaves fs = map Leaf fs"

datatype document =
    QueryDoc (doc_name: string) (doc_vars: "(string \<times> gtype) list") (doc_selections: "selection list")
  | MutationDoc (doc_name: string) (doc_vars: "(string \<times> gtype) list") (doc_selections: "selection list")

section \<open>Queries and mutations of the console\<close>

definition doc_ping :: document where
  "doc_ping = QueryDoc ''ping'' []
     [Leaf ''ping'']"

definition doc_listAppsRaw :: document where
  "doc_listAppsRaw = QueryDoc ''listApps'' []
     [Field ''listApps'' []
        [Field ''kotsApps'' []
          [Leaf ''id'',
          Leaf ''name'',
          Leaf ''iconUri'',
          Leaf ''createdAt'',
          Leaf ''updatedAt'',
          Leaf ''slug'',
          Leaf ''currentSequence'',
          Leaf ''isGitOpsSupported'',
          Leaf ''allowSnapshots'',
          Leaf ''licenseType'',
          Field ''currentVersion'' [] (leaves [''title'', ''status'', ''createdOn'', ''sequence'', ''deployedAt'']),
          Leaf ''lastUpdateCheckAt'',
          Field ''downstreams'' []
            [Leaf ''name'',
            Field ''currentVersion'' [] (leaves [''title'', ''status'', ''createdOn'', ''sequence'', ''deployedAt'']),
            Field ''gitops'' [] (leaves [''enabled'', ''provider'', ''uri'', ''hostname'', ''path'', ''branch'', ''format'', ''action'', ''isConnected'']),
            Field ''pendingVersions'' [] (leaves [''title'', ''status'', ''createdOn'', ''sequence'', ''deployedAt'']),
            Field ''pastVersions'' [] (leaves [''title'', ''status'', ''createdOn'', ''sequence'', ''deployedAt'']),
            Field ''cluster'' []
              [Leaf ''id'',
              Leaf ''title'',
              Leaf ''slug'',
              Leaf ''createdOn'',
              Leaf ''lastUpdated'',
              Field ''currentVersion'' [] (leaves [''title'', ''status'', ''createdOn'', ''sequence'', ''deployedAt'']),
              Field ''shipOpsRef'' [] (leaves [''token'']),
              Leaf ''totalApplicationCount'']]]]]"

definition doc_getKotsAppRaw :: document where
  "doc_getKotsAppRaw = QueryDoc ''getKotsApp'' [(''slug'', NonNull (Named ''String''))]
     [Field ''getKotsApp'' [(''slug'', ''slug'')]
        [Leaf ''id'',
        Leaf ''name'',
        Leaf ''iconUri'',
        Leaf ''createdAt'',
        Leaf ''updatedAt'',
        Leaf ''slug'',
        Leaf ''upstreamUri'',
        Leaf ''currentSequence'',
        Leaf ''hasPreflight'',
        Leaf ''isAirgap'',
        Leaf ''isConfigurable'',
        Leaf ''isGitOpsSupported'',
        Leaf ''allowRollback'',
        Leaf ''allowSnapshots'',
        Field ''currentVersion'' [] (leaves [''title'', ''status'', ''createdOn'', ''sequence'', ''releaseNotes'', ''deployedAt'']),
        Leaf ''lastUpdateCheckAt'',
        Leaf ''bundleCommand'',
        Field ''downstreams'' []
          [Leaf ''name'',
          Field ''links'' [] (leaves [''title'', ''uri'']),
          Field ''currentVersion'' [] (leaves [''title'', ''status'', ''createdOn'', ''sequence'', ''deployedAt'', ''source'', ''releaseNotes'', ''parentSequence'']),
          Field ''pendingVersions'' [] (leaves [''title'', ''status'', ''createdOn'', ''sequence'', ''deployedAt'', ''parentSequence'']),
          Field ''pastVersions'' [] (leaves [''title'', ''status'', ''createdOn'', ''sequence'', ''deployedAt'', ''parentSequence'']),
          Field ''gitops'' [] (leaves [''enabled'', ''provider'', ''uri'', ''hostname'', ''path'', ''branch'', ''format'', ''action'', ''deployKey'', ''isConnected'']),
          Field ''cluster'' []
            [Leaf ''id'',
            Leaf ''title'',
            Leaf ''slug'',
            Leaf ''createdOn'',
            Leaf ''lastUpdated'',
            Field ''currentVersion'' [] (leaves [''title'', ''status'', ''createdOn'', ''sequence'', ''deployedAt'']),
            Field ''shipOpsRef'' [] (leaves [''token'']),
            Leaf ''totalApplicationCount'']]]]"

definition doc_getKotsApplicationTreeRaw :: document where
  "doc_getKotsApplicationTreeRaw = QueryDoc ''getKotsApplicationTree'' [(''slug'', NonNull (Named ''String'')), (''sequence'', NonNull (Named ''Int''))]
     [Field ''getKotsApplicationTree'' [(''slug'', ''slug''), (''sequence'', ''sequence'')] []]"

definition doc_getKotsFilesRaw :: document where
  "doc_getKotsFilesRaw = QueryDoc ''getKotsFiles'' [(''slug'', NonNull (Named ''String'')), (''sequence'', NonNull (Named ''Int'')), (''fileNames'', ListOf (NonNull (Named ''String'')))]
     [Field ''getKotsFiles'' [(''slug'', ''slug''), (''sequence'', ''sequence''), (''fileNames'', ''fileNames'')] []]"

definition doc_listDownstreamsForAppRaw :: document where
  "doc_listDownstreamsForAppRaw = QueryDoc ''listDownstreamsForApp'' [(''slug'', NonNull (Named ''String''))]
     [Field ''listDownstreamsForApp'' [(''slug'', ''slug'')]
        [Leaf ''id'',
        Leaf ''title'',
        Leaf ''slug'',
        Leaf ''createdOn'',
        Leaf ''lastUpdated'',
        Field ''currentVersion'' [] (leaves [''title'', ''status'', ''createdOn'', ''sequence'', ''deployedAt'']),
        Field ''shipOpsRef'' [] (leaves [''token'']),
        Leaf ''totalApplicationCount'']]"

definition doc_getKotsDownstreamHistoryRaw :: document where
  "doc_getKotsDownstreamHistoryRaw = QueryDoc ''getKotsDownstreamHistory'' [(''clusterSlug'', NonNull (Named ''String'')), (''upstreamSlug'', NonNull (Named ''String''))]
     [Field ''getKotsDownstreamHistory'' [(''clusterSlug'', ''clusterSlug''), (''upstreamSlug'', ''upstreamSlug'')] (leaves [''title'', ''status'', ''createdOn'', ''sequence'', ''parentSequence'', ''releaseNotes'', ''deployedAt'', ''source'', ''diffSummary'', ''preflightResult'', ''preflightResultCreatedAt'', ''commitUrl'', ''gitDeployable''])]"

definition doc_getAppRegistryDetailsRaw :: document where
  "doc_getAppRegistryDetailsRaw = QueryDoc ''getAppRegistryDetails'' [(''slug'', NonNull (Named ''String''))]
     [Field ''getAppRegistryDetails'' [(''slug'', ''slug'')] (leaves [''registryHostname'', ''registryUsername'', ''registryPassword'', ''namespace'', ''lastSyncedAt''])]"

definition doc_getKotsPreflightResultRaw :: document where
  "doc_getKotsPreflightResultRaw = QueryDoc ''getKotsPreflightResult'' [(''appSlug'', NonNull (Named ''String'')), (''clusterSlug'', NonNull (Named ''String'')), (''sequence'', NonNull (Named ''Int''))]
     [Field ''getKotsPreflightResult'' [(''appSlug'', ''appSlug''), (''clusterSlug'', ''clusterSlug''), (''sequence'', ''sequence'')] (leaves [''appSlug'', ''clusterSlug'', ''result'', ''createdAt''])]"

definition doc_getLatestKotsPreflightResultRaw :: document where
  "doc_getLatestKotsPreflightResultRaw = QueryDoc ''getLatestKotsPreflightResult'' []
     [Field ''getLatestKotsPreflightResult'' [] (leaves [''appSlug'', ''clusterSlug'', ''result'', ''createdAt''])]"

definition doc_getAirgapInstallStatusRaw :: document where
  "doc_getAirgapInstallStatusRaw = QueryDoc ''getAirgapInstallStatus'' []
     [Field ''getAirgapInstallStatus'' [] (leaves [''installStatus'', ''currentMessage''])]"

definition doc_getOnlineInstallStatusRaw :: document where
  "doc_getOnlineInstallStatusRaw = QueryDoc ''getOnlineInstallStatus'' []
     [Field ''getOnlineInstallStatus'' [] (leaves [''installStatus'', ''currentMessage''])]"

definition doc_getImageRewriteStatusRaw :: document where
  "doc_getImageRewriteStatusRaw = QueryDoc ''getImageRewriteStatus'' []
     [Field ''getImageRewriteStatus'' [] (leaves [''currentMessage'', ''status''])]"

definition doc_getUpdateDownloadStatusRaw :: document where
  "doc_getUpdateDownloadStatusRaw = QueryDoc ''getUpdateDownloadStatus'' []
     [Field ''getUpdateDownloadStatus'' [] (leaves [''currentMessage'', ''status''])]"

definition doc_getAppConfigGroups :: document where
  "doc_getAppConfigGroups = QueryDoc ''getAppConfigGroups'' [(''slug'', NonNull (Named ''String'')), (''sequence'', NonNull (Named ''Int''))]
     [Field ''getAppConfigGroups'' [(''slug'', ''slug''), (''sequence'', ''sequence'')]
        [Leaf ''name'',
        Leaf ''title'',
        Leaf ''description'',
        Field ''items'' []
          [Leaf ''name'',
          Leaf ''type'',
          Leaf ''title'',
          Leaf ''help_text'',
          Leaf ''recommended'',
          Leaf ''default'',
          Leaf ''value'',
          Leaf ''error'',
          Leaf ''data'',
          Leaf ''multi_value'',
          Leaf ''readonly'',
          Leaf ''write_once'',
          Leaf ''when'',
          Leaf ''multiple'',
          Leaf ''hidden'',
          Leaf ''position'',
          Leaf ''affix'',
          Leaf ''required'',
          Field ''items'' [] (leaves [''name'', ''title'', ''recommended'', ''default'', ''value''])]]]"

definition doc_getKotsDownstreamOutput :: document where
  "doc_getKotsDownstreamOutput = QueryDoc ''getKotsDownstreamOutput'' [(''appSlug'', NonNull (Named ''String'')), (''clusterSlug'', NonNull (Named ''String'')), (''sequence'', NonNull (Named ''Int''))]
     [Field ''getKotsDownstreamOutput'' [(''appSlug'', ''appSlug''), (''clusterSlug'', ''clusterSlug''), (''sequence'', ''sequence'')] (leaves [''dryrunStdout'', ''dryrunStderr'', ''applyStdout'', ''applyStderr'', ''renderError''])]"

definition doc_getAppLicense :: document where
  "doc_getAppLicense = QueryDoc ''getAppLicense'' [(''appId'', NonNull (Named ''String''))]
     [Field ''getAppLicense'' [(''appId'', ''appId'')]
        [Leaf ''id'',
        Leaf ''expiresAt'',
        Leaf ''channelName'',
        Leaf ''licenseSequence'',
        Leaf ''licenseType'',
        Field ''entitlements'' [] (leaves [''title'', ''value'', ''label''])]]"

definition doc_templateConfigGroups :: document where
  "doc_templateConfigGroups = QueryDoc ''templateConfigGroups'' [(''slug'', NonNull (Named ''String'')), (''sequence'', NonNull (Named ''Int'')), (''configGroups'', NonNull (ListOf (Named ''KotsConfigGroupInput'')))]
     [Field ''templateConfigGroups'' [(''slug'', ''slug''), (''sequence'', ''sequence''), (''configGroups'', ''configGroups'')]
        [Leaf ''name'',
        Leaf ''title'',
        Leaf ''description'',
        Field ''items'' []
          [Leaf ''name'',
          Leaf ''type'',
          Leaf ''title'',
          Leaf ''help_text'',
          Leaf ''recommended'',
          Leaf ''default'',
          Leaf ''value'',
          Leaf ''error'',
          Leaf ''data'',
          Leaf ''multi_value'',
          Leaf ''readonly'',
          Leaf ''write_once'',
          Leaf ''when'',
          Leaf ''multiple'',
          Leaf ''hidden'',
          Leaf ''position'',
          Leaf ''affix'',
          Leaf ''required'',
          Field ''items'' [] (leaves [''name'', ''title'', ''recommended'', ''default''])]]]"

definition doc_getKotsAppDashboard :: document where
  "doc_getKotsAppDashboard = QueryDoc ''getKotsAppDashboard'' [(''slug'', NonNull (Named ''String'')), (''clusterId'', Named ''String'')]
     [Field ''getKotsAppDashboard'' [(''slug'', ''slug''), (''clusterId'', ''clusterId'')]
        [Field ''appStatus'' []
          [Leaf ''appId'',
          Leaf ''updatedAt'',
          Leaf ''state'',
          Field ''resourceStates'' [] (leaves [''kind'', ''name'', ''namespace'', ''state''])],
        Field ''metrics'' []
          [Leaf ''title'',
          Leaf ''tickFormat'',
          Leaf ''tickTemplate'',
          Field ''series'' []
            [Leaf ''legendTemplate'',
            Field ''metric'' [] (leaves [''name'', ''value'']),
            Field ''data'' [] (leaves [''timestamp'', ''value''])]],
        Leaf ''prometheusAddress'']]"

definition doc_getPrometheusAddress :: document where
  "doc_getPrometheusAddress = QueryDoc ''getPrometheusAddress'' []
     [Leaf ''getPrometheusAddress'']"

definition doc_getGitOpsRepo :: document where
  "doc_getGitOpsRepo = QueryDoc ''getGitOpsRepo'' []
     [Field ''getGitOpsRepo'' [] (leaves [''enabled'', ''uri'', ''provider'', ''hostname''])]"

definition doc_getPreflightCommandRaw :: document where
  "doc_getPreflightCommandRaw = QueryDoc ''getPreflightCommand'' [(''appSlug'', Named ''String''), (''clusterSlug'', Named ''String''), (''sequence'', Named ''String'')]
     [Field ''getPreflightCommand'' [(''appSlug'', ''appSlug''), (''clusterSlug'', ''clusterSlug''), (''sequence'', ''sequence'')] []]"

definition doc_listClustersRaw :: document where
  "doc_listClustersRaw = QueryDoc ''listClusters'' []
     [Field ''listClusters'' []
        [Leaf ''id'',
        Leaf ''title'',
        Leaf ''slug'',
        Leaf ''createdOn'',
        Leaf ''lastUpdated'',
        Field ''shipOpsRef'' [] (leaves [''token'']),
        Leaf ''totalApplicationCount'']]"

definition doc_githubUserOrgs :: document where
  "doc_githubUserOrgs = QueryDoc ''installationOrganizations'' [(''page'', Named ''Int'')]
     [Field ''installationOrganizations'' [(''page'', ''page'')]
        [Leaf ''totalCount'',
        Field ''installations'' [] (leaves [''login'', ''id'', ''url'', ''avatar_url''])]]"

definition doc_githubOrgRepos :: document where
  "doc_githubOrgRepos = QueryDoc ''orgRepos'' [(''org'', NonNull (Named ''String'')), (''page'', Named ''Int'')]
     [Field ''orgRepos'' [(''org'', ''org''), (''page'', ''page'')]
        [Leaf ''totalCount'',
        Field ''repos'' [] (leaves [''id'', ''node_id'', ''url'', ''repository_url'', ''html_url'', ''title'', ''body'', ''created_at'', ''updated_at'', ''name'', ''full_name'', ''default_branch''])]]"

definition doc_githubRepoBranches :: document where
  "doc_githubRepoBranches = QueryDoc ''repoBranches'' [(''owner'', NonNull (Named ''String'')), (''repo'', NonNull (Named ''String''))]
     [Field ''repoBranches'' [(''owner'', ''owner''), (''repo'', ''repo'')] (leaves [''name''])]"

definition doc_getOrgMembers :: document where
  "doc_getOrgMembers = QueryDoc ''orgMembers'' [(''org'', NonNull (Named ''String'')), (''page'', Named ''Int'')]
     [Field ''orgMembers'' [(''org'', ''org''), (''page'', ''page'')] (leaves [''id'', ''login'', ''avatar_url''])]"

definition doc_validateUpstreamURL :: document where
  "doc_validateUpstreamURL = QueryDoc ''validateUpstreamURL'' [(''upstream'', NonNull (Named ''String''))]
     [Field ''validateUpstreamURL'' [(''upstream'', ''upstream'')] []]"

definition doc_getGitHubInstallationId :: document where
  "doc_getGitHubInstallationId = QueryDoc '''' []
     [Leaf ''getGitHubInstallationId'']"

definition doc_kurlRaw :: document where
  "doc_kurlRaw = QueryDoc ''kurl'' []
     [Field ''kurl'' []
        [Leaf ''ha'',
        Leaf ''isKurlEnabled'',
        Field ''nodes'' []
          [Leaf ''name'',
          Leaf ''isConnected'',
          Leaf ''canDelete'',
          Leaf ''kubeletVersion'',
          Field ''cpu'' [] (leaves [''capacity'', ''available'']),
          Field ''memory'' [] (leaves [''capacity'', ''available'']),
          Field ''pods'' [] (leaves [''capacity'', ''available'']),
          Field ''conditions'' [] (leaves [''memoryPressure'', ''diskPressure'', ''pidPressure'', ''ready''])]]]"

definition doc_isVeleroInstalled :: document where
  "doc_isVeleroInstalled = QueryDoc ''isVeleroInstalled'' []
     [Leaf ''isVeleroInstalled'']"

definition doc_snapshotConfigRaw :: document where
  "doc_snapshotConfigRaw = QueryDoc ''snapshotConfig'' [(''slug'', NonNull (Named ''String''))]
     [Field ''snapshotConfig'' [(''slug'', ''slug'')]
        [Leaf ''autoEnabled'',
        Field ''autoSchedule'' [] (leaves [''schedule'']),
        Field ''ttl'' [] (leaves [''inputValue'', ''inputTimeUnit'', ''converted''])]]"

definition doc_snapshotDetailRaw :: document where
  "doc_snapshotDetailRaw = QueryDoc ''snapshotDetail'' [(''slug'', NonNull (Named ''String'')), (''id'', NonNull (Named ''String''))]
     [Field ''snapshotDetail'' [(''slug'', ''slug''), (''id'', ''id'')]
        [Leaf ''name'',
        Leaf ''status'',
        Leaf ''volumeSizeHuman'',
        Leaf ''namespaces'',
        Field ''hooks'' []
          [Leaf ''hookName'',
          Leaf ''phase'',
          Leaf ''command'',
          Leaf ''containerName'',
          Leaf ''podName'',
          Leaf ''namespace'',
          Leaf ''stdout'',
          Leaf ''stderr'',
          Leaf ''started'',
          Leaf ''finished'',
          Field ''warnings'' [] (leaves [''title'', ''message'']),
          Field ''errors'' [] (leaves [''title'', ''message''])],
        Field ''volumes'' [] (leaves [''name'', ''sizeBytesHuman'', ''doneBytesHuman'', ''completionPercent'', ''timeRemainingSeconds'', ''started'', ''finished'', ''phase'']),
        Field ''errors'' [] (leaves [''title'', ''message'']),
        Field ''warnings'' [] (leaves [''title'', ''message''])]]"

definition doc_restoreDetail :: document where
  "doc_restoreDetail = QueryDoc ''restoreDetail'' [(''appId'', NonNull (Named ''String'')), (''restoreName'', NonNull (Named ''String''))]
     [Field ''restoreDetail'' [(''appId'', ''appId''), (''restoreName'', ''restoreName'')]
        [Leaf ''name'',
        Leaf ''phase'',
        Field ''volumes'' [] (leaves [''name'', ''sizeBytesHuman'', ''doneBytesHuman'', ''completionPercent'', ''timeRemainingSeconds'', ''started'', ''finished'', ''phase'']),
        Field ''errors'' [] (leaves [''title'', ''message'']),
        Field ''warnings'' [] (leaves [''title'', ''message''])]]"

definition doc_listSupportBundlesRaw :: document where
  "doc_listSupportBundlesRaw = QueryDoc ''listSupportBundles'' [(''watchSlug'', NonNull (Named ''String''))]
     [Field ''listSupportBundles'' [(''watchSlug'', ''watchSlug'')]
        [Leaf ''id'',
        Leaf ''slug'',
        Leaf ''name'',
        Leaf ''size'',
        Leaf ''status'',
        Leaf ''treeIndex'',
        Leaf ''createdAt'',
        Leaf ''uploadedAt'',
        Leaf ''isArchived'',
        Field ''analysis'' []
          [Leaf ''id'',
          Leaf ''error'',
          Leaf ''maxSeverity'',
          Leaf ''createdAt'',
          Field ''insights'' [] (leaves [''key'', ''severity'', ''primary'', ''detail'', ''icon'', ''icon_key'', ''desiredPosition''])]]]"

definition doc_listKotsSupportBundlesRaw :: document where
  "doc_listKotsSupportBundlesRaw = QueryDoc ''listKotsSupportBundles'' [(''kotsSlug'', NonNull (Named ''String''))]
     [Field ''listKotsSupportBundles'' [(''kotsSlug'', ''kotsSlug'')]
        [Leaf ''id'',
        Leaf ''slug'',
        Leaf ''name'',
        Leaf ''size'',
        Leaf ''status'',
        Leaf ''treeIndex'',
        Leaf ''createdAt'',
        Leaf ''uploadedAt'',
        Leaf ''isArchived'',
        Field ''analysis'' []
          [Leaf ''id'',
          Leaf ''error'',
          Leaf ''maxSeverity'',
          Leaf ''createdAt'',
          Field ''insights'' [] (leaves [''key'', ''severity'', ''primary'', ''detail'', ''icon'', ''icon_key'', ''desiredPosition''])]]]"

definition doc_getAnalysisInsights :: document where
  "doc_getAnalysisInsights = QueryDoc ''getAnalysisInsights'' [(''slug'', NonNull (Named ''String''))]
     [Field ''getAnalysisInsights'' [(''slug'', ''slug'')]
        [Field ''bundle'' []
          [Leaf ''id'',
          Leaf ''size'',
          Leaf ''name'',
          Leaf ''teamId'',
          Leaf ''teamName'',
          Leaf ''teamShareIds'',
          Leaf ''status'',
          Leaf ''createdAt'',
          Leaf ''viewed'',
          Leaf ''slug'',
          Field ''customer'' [] (leaves [''id'', ''name'', ''avatar'']),
          Leaf ''uri'',
          Leaf ''signedUri'',
          Leaf ''notes'',
          Leaf ''treeIndex''],
        Field ''insights'' []
          [Leaf ''level'',
          Leaf ''primary'',
          Leaf ''key'',
          Leaf ''detail'',
          Leaf ''icon'',
          Leaf ''icon_key'',
          Leaf ''desiredPosition'',
          Field ''labels'' [] (leaves [''key'', ''value''])]]]"

definition doc_getSupportBundleRaw :: document where
  "doc_getSupportBundleRaw = QueryDoc ''getSupportBundle'' [(''watchSlug'', NonNull (Named ''String''))]
     [Field ''getSupportBundle'' [(''watchSlug'', ''watchSlug'')]
        [Leaf ''id'',
        Leaf ''slug'',
        Leaf ''name'',
        Leaf ''size'',
        Leaf ''status'',
        Leaf ''treeIndex'',
        Leaf ''createdAt'',
        Leaf ''uploadedAt'',
        Leaf ''isArchived'',
        Leaf ''kotsLicenseType'',
        Field ''analysis'' []
          [Leaf ''id'',
          Leaf ''error'',
          Leaf ''maxSeverity'',
          Leaf ''createdAt'',
          Field ''insights'' [] (leaves [''key'', ''severity'', ''primary'', ''detail'', ''icon'', ''icon_key'', ''desiredPosition''])]]]"

definition doc_supportBundleFiles :: document where
  "doc_supportBundleFiles = QueryDoc ''supportBundleFiles'' [(''bundleId'', NonNull (Named ''ID'')), (''fileNames'', ListOf (NonNull (Named ''String'')))]
     [Field ''supportBundleFiles'' [(''bundleId'', ''bundleId''), (''fileNames'', ''fileNames'')] []]"

definition doc_getSupportBundleCommand :: document where
  "doc_getSupportBundleCommand = QueryDoc ''getSupportBundleCommand'' [(''watchSlug'', Named ''String'')]
     [Field ''getSupportBundleCommand'' [(''watchSlug'', ''watchSlug'')] []]"

definition doc_validateRegistryInfoRaw :: document where
  "doc_validateRegistryInfoRaw = QueryDoc ''validateRegistryInfo'' [(''slug'', Named ''String''), (''endpoint'', Named ''String''), (''username'', Named ''String''), (''password'', Named ''String''), (''org'', Named ''String'')]
     [Field ''validateRegistryInfo'' [(''slug'', ''slug''), (''endpoint'', ''endpoint''), (''username'', ''username''), (''password'', ''password''), (''org'', ''org'')] []]"

definition doc_createKotsDownstreamRaw :: document where
  "doc_createKotsDownstreamRaw = MutationDoc ''createKotsDownstream'' [(''appId'', NonNull (Named ''String'')), (''clusterId'', NonNull (Named ''String''))]
     [Field ''createKotsDownstream'' [(''appId'', ''appId''), (''clusterId'', ''clusterId'')] []]"

definition doc_deleteKotsDownstreamRaw :: document where
  "doc_deleteKotsDownstreamRaw = MutationDoc ''deleteKotsDownstream'' [(''slug'', NonNull (Named ''String'')), (''clusterId'', NonNull (Named ''String''))]
     [Field ''deleteKotsDownstream'' [(''slug'', ''slug''), (''clusterId'', ''clusterId'')] []]"

definition doc_deleteKotsAppRaw :: document where
  "doc_deleteKotsAppRaw = MutationDoc ''deleteKotsApp'' [(''slug'', NonNull (Named ''String''))]
     [Field ''deleteKotsApp'' [(''slug'', ''slug'')] []]"

definition doc_deployKotsVersionRaw :: document where
  "doc_deployKotsVersionRaw = MutationDoc ''deployKotsVersion'' [(''upstreamSlug'', NonNull (Named ''String'')), (''sequence'', NonNull (Named ''Int'')), (''clusterSlug'', NonNull (Named ''String''))]
     [Field ''deployKotsVersion'' [(''upstreamSlug'', ''upstreamSlug''), (''sequence'', ''sequence''), (''clusterSlug'', ''clusterSlug'')] []]"

definition doc_updateRegistryDetailsRaw :: document where
  "doc_updateRegistryDetailsRaw = MutationDoc ''updateRegistryDetails'' [(''registryDetails'', NonNull (Named ''AppRegistryDetails''))]
     [Field ''updateRegistryDetails'' [(''registryDetails'', ''registryDetails'')] []]"

definition doc_updateDownstreamsStatus :: document where
  "doc_updateDownstreamsStatus = MutationDoc ''updateDownstreamsStatus'' [(''slug'', NonNull (Named ''String'')), (''sequence'', NonNull (Named ''Int'')), (''status'', NonNull (Named ''String''))]
     [Field ''updateDownstreamsStatus'' [(''slug'', ''slug''), (''sequence'', ''sequence''), (''status'', ''status'')] []]"

definition doc_updateKotsApp :: document where
  "doc_updateKotsApp = MutationDoc ''updateKotsApp'' [(''appId'', NonNull (Named ''String'')), (''appName'', Named ''String''), (''iconUri'', Named ''String'')]
     [Field ''updateKotsApp'' [(''appId'', ''appId''), (''appName'', ''appName''), (''iconUri'', ''iconUri'')] []]"

definition doc_createGitOpsRepoRaw :: document where
  "doc_createGitOpsRepoRaw = MutationDoc ''createGitOpsRepo'' [(''gitOpsInput'', NonNull (Named ''KotsGitOpsInput''))]
     [Field ''createGitOpsRepo'' [(''gitOpsInput'', ''gitOpsInput'')] []]"

definition doc_updateGitOpsRepoRaw :: document where
  "doc_updateGitOpsRepoRaw = MutationDoc ''updateGitOpsRepo'' [(''gitOpsInput'', NonNull (Named ''KotsGitOpsInput'')), (''uriToUpdate'', Named ''String'')]
     [Field ''updateGitOpsRepo'' [(''gitOpsInput'', ''gitOpsInput''), (''uriToUpdate'', ''uriToUpdate'')] []]"

definition doc_updateAppGitOpsRaw :: document where
  "doc_updateAppGitOpsRaw = MutationDoc ''updateAppGitOps'' [(''appId'', NonNull (Named ''String'')), (''clusterId'', NonNull (Named ''String'')), (''gitOpsInput'', NonNull (Named ''KotsGitOpsInput''))]
     [Field ''updateAppGitOps'' [(''appId'', ''appId''), (''clusterId'', ''clusterId''), (''gitOpsInput'', ''gitOpsInput'')] []]"

definition doc_resetGitOpsDataRaw :: document where
  "doc_resetGitOpsDataRaw = MutationDoc ''resetGitOpsData'' []
     [Leaf ''resetGitOpsData'']"

definition doc_setPrometheusAddress :: document where
  "doc_setPrometheusAddress = MutationDoc ''setPrometheusAddress'' [(''value'', NonNull (Named ''String''))]
     [Field ''setPrometheusAddress'' [(''value'', ''value'')] []]"

definition doc_testGitOpsConnectionRaw :: document where
  "doc_testGitOpsConnectionRaw = MutationDoc ''testGitOpsConnection'' [(''appId'', NonNull (Named ''String'')), (''clusterId'', NonNull (Named ''String''))]
     [Field ''testGitOpsConnection'' [(''appId'', ''appId''), (''clusterId'', ''clusterId'')] []]"

definition doc_disableAppGitopsRaw :: document where
  "doc_disableAppGitopsRaw = MutationDoc ''disableAppGitops'' [(''appId'', NonNull (Named ''String'')), (''clusterId'', NonNull (Named ''String''))]
     [Field ''disableAppGitops'' [(''appId'', ''appId''), (''clusterId'', ''clusterId'')] []]"

definition doc_ignorePreflightPermissionErrorsRaw :: document where
  "doc_ignorePreflightPermissionErrorsRaw = MutationDoc ''ignorePreflightPermissionErrors'' [(''appSlug'', Named ''String''), (''clusterSlug'', Named ''String''), (''sequence'', Named ''Int'')]
     [Field ''ignorePreflightPermissionErrors'' [(''appSlug'', ''appSlug''), (''clusterSlug'', ''clusterSlug''), (''sequence'', ''sequence'')] []]"

definition doc_retryPreflightsRaw :: document where
  "doc_retryPreflightsRaw = MutationDoc ''retryPreflights'' [(''appSlug'', Named ''String''), (''clusterSlug'', Named ''String''), (''sequence'', Named ''Int'')]
     [Field ''retryPreflights'' [(''appSlug'', ''appSlug''), (''clusterSlug'', ''clusterSlug''), (''sequence'', ''sequence'')] []]"

definition doc_createGithubNonce :: document where
  "doc_createGithubNonce = MutationDoc '''' []
     [Leaf ''createGithubNonce'']"

definition doc_createGithubAuthToken :: document where
  "doc_createGithubAuthToken = MutationDoc ''createGithubAuthToken'' [(''code'', NonNull (Named ''String'')), (''state'', NonNull (Named ''String''))]
     [Field ''createGithubAuthToken'' [(''code'', ''code''), (''state'', ''state'')] (leaves [''access_token''])]"

definition doc_logout :: document where
  "doc_logout = MutationDoc '''' []
     [Leaf ''logout'']"

definition doc_uploadImageWatchBatch :: document where
  "doc_uploadImageWatchBatch = MutationDoc ''uploadImageWatchBatch'' [(''imageList'', NonNull (Named ''String''))]
     [Field ''uploadImageWatchBatch'' [(''imageList'', ''imageList'')] []]"

definition doc_drainNodeRaw :: document where
  "doc_drainNodeRaw = MutationDoc ''drainNode'' [(''name'', NonNull (Named ''String''))]
     [Field ''drainNode'' [(''name'', ''name'')] []]"

definition doc_deleteNodeRaw :: document where
  "doc_deleteNodeRaw = MutationDoc ''deleteNode'' [(''name'', NonNull (Named ''String''))]
     [Field ''deleteNode'' [(''name'', ''name'')] []]"

definition doc_createNotification :: document where
  "doc_createNotification = MutationDoc ''createNotification'' [(''watchId'', NonNull (Named ''String'')), (''webhook'', Named ''WebhookNotificationInput''), (''email'', Named ''EmailNotificationInput'')]
     [Field ''createNotification'' [(''watchId'', ''watchId''), (''webhook'', ''webhook''), (''email'', ''email'')] (leaves [''id''])]"

definition doc_updateNotification :: document where
  "doc_updateNotification = MutationDoc ''updateNotification'' [(''watchId'', NonNull (Named ''String'')), (''notificationId'', NonNull (Named ''String'')), (''webhook'', Named ''WebhookNotificationInput''), (''email'', Named ''EmailNotificationInput'')]
     [Field ''updateNotification'' [(''watchId'', ''watchId''), (''notificationId'', ''notificationId''), (''webhook'', ''webhook''), (''email'', ''email'')] (leaves [''id''])]"

definition doc_enableNotification :: document where
  "doc_enableNotification = MutationDoc ''enableNotification'' [(''watchId'', NonNull (Named ''String'')), (''notificationId'', NonNull (Named ''String'')), (''enabled'', NonNull (Named ''Int''))]
     [Field ''enableNotification'' [(''watchId'', ''watchId''), (''notificationId'', ''notificationId''), (''enabled'', ''enabled'')]
        [Leaf ''id'',
        Leaf ''createdOn'',
        Leaf ''updatedOn'',
        Leaf ''triggeredOn'',
        Leaf ''enabled'',
        Field ''webhook'' [] (leaves [''uri'']),
        Field ''email'' [] (leaves [''recipientAddress''])]]"

definition doc_deleteSnapshot :: document where
  "doc_deleteSnapshot = MutationDoc ''deleteSnapshot'' [(''snapshotName'', NonNull (Named ''String''))]
     [Field ''deleteSnapshot'' [(''snapshotName'', ''snapshotName'')] []]"

definition doc_restoreSnapshotRaw :: document where
  "doc_restoreSnapshotRaw = MutationDoc ''restoreSnapshot'' [(''snapshotName'', NonNull (Named ''String''))]
     [Field ''restoreSnapshot'' [(''snapshotName'', ''snapshotName'')] (leaves [''name''])]"

definition doc_cancelRestoreRaw :: document where
  "doc_cancelRestoreRaw = MutationDoc ''cancelRestore'' [(''appId'', NonNull (Named ''String''))]
     [Field ''cancelRestore'' [(''appId'', ''appId'')] []]"

definition doc_saveSnapshotConfigRaw :: document where
  "doc_saveSnapshotConfigRaw = MutationDoc ''saveSnapshotConfig'' [(''appId'', NonNull (Named ''String'')), (''inputValue'', NonNull (Named ''Int'')), (''inputTimeUnit'', NonNull (Named ''String'')), (''schedule'', NonNull (Named ''String'')), (''autoEnabled'', NonNull (Named ''Boolean''))]
     [Field ''saveSnapshotConfig'' [(''appId'', ''appId''), (''inputValue'', ''inputValue''), (''inputTimeUnit'', ''inputTimeUnit''), (''schedule'', ''schedule''), (''autoEnabled'', ''autoEnabled'')] []]"

definition doc_archiveSupportBundle :: document where
  "doc_archiveSupportBundle = MutationDoc ''archiveSupportBundle'' [(''id'', NonNull (Named ''String''))]
     [Field ''archiveSupportBundle'' [(''id'', ''id'')] []]"

definition doc_collectSupportBundle :: document where
  "doc_collectSupportBundle = MutationDoc ''collectSupportBundle'' [(''appId'', Named ''String''), (''clusterId'', Named ''String'')]
     [Field ''collectSupportBundle'' [(''appId'', ''appId''), (''clusterId'', ''clusterId'')] []]"

definition appsQueries_documents :: "(string \<times> document) list" where
  "appsQueries_documents =
     [(''ping'', doc_ping),
      (''listAppsRaw'', doc_listAppsRaw),
      (''getKotsAppRaw'', doc_getKotsAppRaw),
      (''getKotsApplicationTreeRaw'', doc_getKotsApplicationTreeRaw),
      (''getKotsFilesRaw'', doc_getKotsFilesRaw),
      (''listDownstreamsForAppRaw'', doc_listDownstreamsForAppRaw),
      (''getKotsDownstreamHistoryRaw'', doc_getKotsDownstreamHistoryRaw),
      (''getAppRegistryDetailsRaw'', doc_getAppRegistryDetailsRaw),
      (''getKotsPreflightResultRaw'', doc_getKotsPreflightResultRaw),
      (''getLatestKotsPreflightResultRaw'', doc_getLatestKotsPreflightResultRaw),
      (''getAirgapInstallStatusRaw'', doc_getAirgapInstallStatusRaw),
      (''getOnlineInstallStatusRaw'', doc_getOnlineInstallStatusRaw),
      (''getImageRewriteStatusRaw'', doc_getImageRewriteStatusRaw),
      (''getUpdateDownloadStatusRaw'', doc_getUpdateDownloadStatusRaw),
      (''getAppConfigGroups'', doc_getAppConfigGroups),
      (''getKotsDownstreamOutput'', doc_getKotsDownstreamOutput),
      (''getAppLicense'', doc_getAppLicense),
      (''templateConfigGroups'', doc_templateConfigGroups),
      (''getKotsAppDashboard'', doc_getKotsAppDashboard),
      (''getPrometheusAddress'', doc_getPrometheusAddress),
      (''getGitOpsRepo'', doc_getGitOpsRepo),
      (''getPreflightCommandRaw'', doc_getPreflightCommandRaw)]"

definition clusterQueries_documents :: "(string \<times> document) list" where
  "clusterQueries_documents =
     [(''listClustersRaw'', doc_listClustersRaw)]"

definition gitHubQueries_documents :: "(string \<times> document) list" where
  "gitHubQueries_documents =
     [(''githubUserOrgs'', doc_githubUserOrgs),
      (''githubOrgRepos'', doc_githubOrgRepos),
      (''githubRepoBranches'', doc_githubRepoBranches),
      (''getOrgMembers'', doc_getOrgMembers),
      (''validateUpstreamURL'', doc_validateUpstreamURL),
      (''getGitHubInstallationId'', doc_getGitHubInstallationId)]"

definition kurlQueries_documents :: "(string \<times> document) list" where
  "kurlQueries_documents =
     [(''kurlRaw'', doc_kurlRaw)]"

definition snapshotQueries_documents :: "(string \<times> document) list" where
  "snapshotQueries_documents =
     [(''isVeleroInstalled'', doc_isVeleroInstalled),
      (''snapshotConfigRaw'', doc_snapshotConfigRaw),
      (''snapshotDetailRaw'', doc_snapshotDetailRaw),
      (''restoreDetail'', doc_restoreDetail)]"

definition troubleshootQueries_documents :: "(string \<times> document) list" where
  "troubleshootQueries_documents =
     [(''listSupportBundlesRaw'', doc_listSupportBundlesRaw),
      (''listKotsSupportBundlesRaw'', doc_listKotsSupportBundlesRaw),
      (''getAnalysisInsights'', doc_getAnalysisInsights),
      (''getSupportBundleRaw'', doc_getSupportBundleRaw),
      (''supportBundleFiles'', doc_supportBundleFiles),
      (''getSupportBundleCommand'', doc_getSupportBundleCommand)]"

definition userQueries_documents :: "(string \<times> document) list" where
  "userQueries_documents =
     [(''validateRegistryInfoRaw'', doc_validateRegistryInfoRaw)]"

definition appsMutations_documents :: "(string \<times> document) list" where
  "appsMutations_documents =
     [(''createKotsDownstreamRaw'', doc_createKotsDownstreamRaw),
      (''deleteKotsDownstreamRaw'', doc_deleteKotsDownstreamRaw),
      (''deleteKotsAppRaw'', doc_deleteKotsAppRaw),
      (''deployKotsVersionRaw'', doc_deployKotsVersionRaw),
      (''updateRegistryDetailsRaw'', doc_updateRegistryDetailsRaw),
      (''updateDownstreamsStatus'', doc_updateDownstreamsStatus),
      (''updateKotsApp'', doc_updateKotsApp),
      (''createGitOpsRepoRaw'', doc_createGitOpsRepoRaw),
      (''updateGitOpsRepoRaw'', doc_updateGitOpsRepoRaw),
      (''updateAppGitOpsRaw'', doc_updateAppGitOpsRaw),
      (''resetGitOpsDataRaw'', doc_resetGitOpsDataRaw),
      (''setPrometheusAddress'', doc_setPrometheusAddress),
      (''testGitOpsConnectionRaw'', doc_testGitOpsConnectionRaw),
      (''disableAppGitopsRaw'', doc_disableAppGitopsRaw),
      (''ignorePreflightPermissionErrorsRaw'', doc_ignorePreflightPermissionErrorsRaw),
      (''retryPreflightsRaw'', doc_retryPreflightsRaw)]"

definition gitHubMutations_documents :: "(string \<times> document) list" where
  "gitHubMutations_documents =
     [(''createGithubNonce'', doc_createGithubNonce),
      (''createGithubAuthToken'', doc_createGithubAuthToken),
      (''logout'', doc_logout)]"

definition imageWatchMutations_documents :: "(string \<times> document) list" where
  "imageWatchMutations_documents =
     [(''uploadImageWatchBatch'', doc_uploadImageWatchBatch)]"

definition kurlMutations_documents :: "(string \<times> document) list" where
  "kurlMutations_documents =
     [(''drainNodeRaw'', doc_drainNodeRaw),
      (''deleteNodeRaw'', doc_deleteNodeRaw)]"

definition notificationMutations_documents :: "(string \<times> document) list" where
  "notificationMutations_documents =
     [(''createNotification'', doc_createNotification),
      (''updateNotification'', doc_updateNotification),
      (''enableNotification'', doc_enableNotification)]"

definition snapshotMutations_documents :: "(string \<times> document) list" where
  "snapshotMutations_documents =
     [(''deleteSnapshot'', doc_deleteSnapshot),
      (''restoreSnapshotRaw'', doc_restoreSnapshotRaw),
      (''cancelRestoreRaw'', doc_cancelRestoreRaw),
      (''saveSnapshotConfigRaw'', doc_saveSnapshotConfigRaw)]"

definition troubleshootMutations_documents :: "(string \<times> document) list" where
  "troubleshootMutations_documents =
     [(''archiveSupportBundle'', doc_archiveSupportBundle),
      (''collectSupportBundle'', doc_collectSupportBundle)]"

definition documents :: "(string \<times> document) list" where
  "documents =
     appsQueries_documents @ clusterQueries_documents @ gitHubQueries_documents @ kurlQueries_documents @ snapshotQueries_documents @ troubleshootQueries_documents @ userQueries_documents @ appsMutations_documents @ gitHubMutations_documents @ imageWatchMutations_documents @ kurlMutations_documents @ notificationMutations_documents @ snapshotMutations_documents @ troubleshootMutations_documents"

section \<open>Validation\<close>

definition field_of :: "gdef list \<Rightarrow> string \<Rightarrow> string \<Rightarrow> ((string \<times> gtype) list \<times> gtype) option" where
  "field_of S n f =
     (case find (\<lambda>d. gd_name d = n) S of
        Some (ObjectType _ fs) \<Rightarrow> map_of fs f
      | _ \<Rightarrow> None)"

text \<open>A variable of the first type may stand where the second is asked for.\<close>

fun fits :: "gtype \<Rightarrow> gtype \<Rightarrow> bool" where
  "fits (NonNull v) (NonNull a) = fits v a"
| "fits (NonNull v) a = fits v a"
| "fits (ListOf v) (ListOf a) = fits v a"
| "fits (Named m) (Named n) \<longleftrightarrow> m = n"
| "fits _ _ = False"

definition valid_args :: "(string \<times> gtype) list \<Rightarrow> (string \<times> gtype) list \<Rightarrow> (string \<times> string) list \<Rightarrow> bool" where
  "valid_args vars declared given \<longleftrightarrow>
     distinct (map fst given) \<and>
     list_all (\<lambda>(a, x). case (map_of declared a, map_of vars x) of (Some t, Some u) \<Rightarrow> fits u t | _ \<Rightarrow> False) given \<and>
     list_all (\<lambda>(a, t). nullable t \<or> a \<in> set (map fst given)) declared"

fun valid_selection :: "gdef list \<Rightarrow> (string \<times> gtype) list \<Rightarrow> string \<Rightarrow> selection \<Rightarrow> bool" where
  "valid_selection S vars n (Field f given sub) \<longleftrightarrow>
     (case field_of S n f of
        None \<Rightarrow> False
      | Some (declared, t) \<Rightarrow>
          valid_args vars declared given \<and>
          (if base_name t \<in> set scalars then sub = []
           else sub \<noteq> [] \<and> list_all (valid_selection S vars (base_name t)) sub))"

fun used_vars :: "selection \<Rightarrow> string list" where
  "used_vars (Field f given sub) = map snd given @ concat (map used_vars sub)"

definition root_name :: "document \<Rightarrow> string" where
  "root_name d = (case d of QueryDoc _ _ _ \<Rightarrow> ''Query'' | MutationDoc _ _ _ \<Rightarrow> ''Mutation'')"

definition valid_document :: "gdef list \<Rightarrow> document \<Rightarrow> bool" where
  "valid_document S d \<longleftrightarrow>
     distinct (map fst (doc_vars d)) \<and>
     list_all (\<lambda>(_, t). base_name t \<in> set (input_names S)) (doc_vars d) \<and>
     doc_selections d \<noteq> [] \<and>
     list_all (valid_selection S (doc_vars d) (root_name d)) (doc_selections d) \<and>
     list_all (\<lambda>(x, _). x \<in> set (concat (map used_vars (doc_selections d)))) (doc_vars d)"

text \<open>The fields of the roots that are selected and have no resolver.\<close>

definition unresolved_roots :: "document \<Rightarrow> string list" where
  "unresolved_roots d =
     filter (\<lambda>f. f \<notin> set (case d of QueryDoc _ _ _ \<Rightarrow> query_resolvers | MutationDoc _ _ _ \<Rightarrow> mutation_resolvers))
       (map sel_name (doc_selections d))"

section \<open>Answers\<close>

text \<open>
  What is sent of a value for a selection: of an object the fields selected, of a list each element, and
  \<open>null\<close> for what is not there.
\<close>

lemma sel_sub_smaller: "s \<in> set sub \<Longrightarrow> size_list size (sel_sub s) < size_list size sub"
proof -
  assume s: "s \<in> set sub"
  have "size_list size (sel_sub s) < size s" by (cases s) simp
  also have "size s \<le> size_list size sub" using s by (intro size_list_estimation') auto
  finally show ?thesis .
qed

function answer :: "selection list \<Rightarrow> jsval \<Rightarrow> jsval" where
  "answer sub v =
     (case v of
        JArr xs \<Rightarrow> JArr (map (answer sub) xs)
      | JObj kvs \<Rightarrow>
          if sub = [] then v else JObj (map (\<lambda>s. (sel_name s, answer (sel_sub s) (own_prop kvs (sel_name s)))) sub)
      | _ \<Rightarrow> if v = JUndef then JNull else v)"
  by pat_completeness auto

termination
  by (relation "measures [\<lambda>(sub, v). size_list size sub, \<lambda>(sub, v). size v]")
    (auto dest: sel_sub_smaller intro: size_list_estimation' simp: less_Suc_eq_le)

declare answer.simps [simp del]

text \<open>What the client reads: \<open>null\<close> only where the type allows it, and exactly the selected fields of an object.\<close>

function (sequential) shaped :: "gdef list \<Rightarrow> gtype \<Rightarrow> selection list \<Rightarrow> jsval \<Rightarrow> bool" where
  "shaped S (NonNull t) sub w \<longleftrightarrow> w \<noteq> JNull \<and> shaped S t sub w"
| "shaped S (ListOf t) sub w \<longleftrightarrow> w = JNull \<or> (case w of JArr ws \<Rightarrow> list_all (shaped S t sub) ws | _ \<Rightarrow> False)"
| "shaped S (Named n) sub w \<longleftrightarrow> w = JNull \<or>
     (if sub = [] then scalar_conforms n w
      else (case w of
              JObj kvs \<Rightarrow> map fst kvs = map sel_name sub \<and>
                list_all (\<lambda>(s, kv). case field_of S n (sel_name s) of None \<Rightarrow> False | Some (_, t) \<Rightarrow> shaped S t (sel_sub s) (snd kv)) (zip sub kvs)
            | _ \<Rightarrow> False))"
  by pat_completeness auto

termination
  by (relation "measures [\<lambda>(S, t, sub, w). size_list size sub, \<lambda>(S, t, sub, w). size w, \<lambda>(S, t, sub, w). gtype_size t]")
    (auto dest!: set_zip_leftD dest: sel_sub_smaller intro: size_list_estimation' simp: less_Suc_eq_le)

declare shaped.simps(3) [simp del]

section \<open>Lemmas\<close>

definition sub_ok :: "gdef list \<Rightarrow> (string \<times> gtype) list \<Rightarrow> gtype \<Rightarrow> selection list \<Rightarrow> bool" where
  "sub_ok S vars t sub \<longleftrightarrow>
     (if base_name t \<in> set scalars then sub = []
      else sub \<noteq> [] \<and> list_all (valid_selection S vars (base_name t)) sub)"

definition no_scalar_types :: "gdef list \<Rightarrow> bool" where
  "no_scalar_types S \<longleftrightarrow> list_all (\<lambda>d. gd_name d \<notin> set scalars) S"

lemma answer_null [simp]: "is_null v \<Longrightarrow> answer sub v = JNull"
  by (subst answer.simps) (auto simp: is_null_def)

lemma answer_scalar [simp]: "scalar_conforms n v \<Longrightarrow> answer sub v = v"
  by (subst answer.simps) (auto split: jsval.splits)

lemma answer_not_null: "\<not> is_null v \<Longrightarrow> answer sub v \<noteq> JNull"
  by (subst answer.simps) (auto simp: is_null_def split: jsval.splits)

lemma answer_array [simp]: "answer sub (JArr xs) = JArr (map (answer sub) xs)"
  by (subst answer.simps) simp

lemma answer_object [simp]:
  "sub \<noteq> [] \<Longrightarrow> answer sub (JObj kvs) = JObj (map (\<lambda>s. (sel_name s, answer (sel_sub s) (own_prop kvs (sel_name s)))) sub)"
  by (subst answer.simps) simp

lemma shaped_null: "nullable t \<Longrightarrow> shaped S t sub JNull"
  by (cases t) (simp_all add: shaped.simps(3))

lemma scalar_conforms_scalar: "scalar_conforms n v \<Longrightarrow> n \<in> set scalars"
  by (cases v) (auto simp: scalars_def)

lemma object_fields_find:
  "object_fields S n = Some fs \<Longrightarrow> no_scalar_types S \<Longrightarrow> n \<notin> set scalars"
  by (auto simp: object_fields_def no_scalar_types_def list_all_iff find_Some_iff split: option.splits gdef.splits)

lemma field_of_object:
  "object_fields S n = Some fs \<Longrightarrow> field_of S n f = Some (declared, t) \<Longrightarrow> (f, t) \<in> set fs"
  by (force simp: object_fields_def field_of_def dest: map_of_SomeD split: option.splits gdef.splits)

lemma valid_selection_field:
  "valid_selection S vars n s \<Longrightarrow> \<exists>declared t. field_of S n (sel_name s) = Some (declared, t) \<and> sub_ok S vars t (sel_sub s)"
proof -
  assume v: "valid_selection S vars n s"
  obtain f given sub where s: "s = Field f given sub" by (cases s)
  from v s obtain declared t where "field_of S n f = Some (declared, t)" "sub_ok S vars t sub"
    by (auto simp: sub_ok_def split: option.splits)
  with s show ?thesis by auto
qed

lemma sub_ok_simps [simp]:
  "sub_ok S vars (NonNull t) sub = sub_ok S vars t sub" "sub_ok S vars (ListOf t) sub = sub_ok S vars t sub"
  by (simp_all only: sub_ok_def base_name.simps)

lemma zip_map_same: "list_all P (zip xs (map g xs)) = list_all (\<lambda>x. P (x, g x)) xs"
  by (induction xs) simp_all

text \<open>
  The heart of the matter: completing a value of a type for a selection the type allows gives what the client reads.
\<close>

lemma answer_shaped:
  assumes "no_scalar_types S"
  shows "conforms S t v \<Longrightarrow> sub_ok S vars t sub \<Longrightarrow> shaped S t sub (answer sub v)"
  using assms
proof (induction S t v arbitrary: sub rule: conforms.induct)
  case (1 S t v)
  then show ?case by (simp add: answer_not_null)
next
  case (2 S t v)
  show ?case
  proof (cases "is_null v")
    case True then show ?thesis by simp
  next
    case False
    with 2(2) obtain xs where v: "v = JArr xs" "list_all (conforms S t) xs" by (auto split: jsval.splits)
    have "sub_ok S vars t sub" using 2(3) by simp
    with v 2(1) [OF v(1)] 2(4) have "list_all (\<lambda>x. shaped S t sub (answer sub x)) xs"
      by (auto simp: list_all_iff)
    then show ?thesis using v by (auto simp: list.pred_map o_def list_all_iff)
  qed
next
  case (3 S n v)
  show ?case
  proof (cases "is_null v")
    case True then show ?thesis by (simp add: shaped_null)
  next
    case False
    show ?thesis
    proof (cases "n \<in> set scalars")
      case True
      then have "object_fields S n = None" using object_fields_find [OF _ 3(4)] by (cases "object_fields S n") auto
      with 3(2) False have "scalar_conforms n v" by (simp add: conforms.simps(3))
      with 3(3) True False show ?thesis by (simp add: sub_ok_def shaped.simps(3))
    next
      case obj: False
      with 3(3) have sub: "sub \<noteq> []" "list_all (valid_selection S vars n) sub" by (simp_all add: sub_ok_def)
      have "\<not> scalar_conforms n v" using scalar_conforms_scalar obj by blast
      with 3(2) False have body: "case object_fields S n of None \<Rightarrow> False | Some fs \<Rightarrow> (case v of
          JObj kvs \<Rightarrow> list_all (\<lambda>(f, t). case map_of kvs f of None \<Rightarrow> nullable t | Some x \<Rightarrow> conforms S t x) fs | _ \<Rightarrow> False)"
        by (simp add: conforms.simps(3))
      obtain fs where fs: "object_fields S n = Some fs" using body by (cases "object_fields S n") simp_all
      obtain kvs where v: "v = JObj kvs" using body fs by (cases v) simp_all
      have fields: "list_all (\<lambda>(f, t). case map_of kvs f of None \<Rightarrow> nullable t | Some x \<Rightarrow> conforms S t x) fs"
        using body fs v by simp
      have "case field_of S n (sel_name s) of None \<Rightarrow> False
          | Some (_, t) \<Rightarrow> shaped S t (sel_sub s) (answer (sel_sub s) (own_prop kvs (sel_name s)))" if "s \<in> set sub" for s
      proof -
        have "valid_selection S vars n s" using sub(2) that by (simp add: list_all_iff)
        then obtain declared t where f: "field_of S n (sel_name s) = Some (declared, t)" and ok: "sub_ok S vars t (sel_sub s)"
          using valid_selection_field by blast
        from field_of_object [OF fs f] have mem: "(sel_name s, t) \<in> set fs" .
        with fields have c: "case map_of kvs (sel_name s) of None \<Rightarrow> nullable t | Some x \<Rightarrow> conforms S t x"
          by (fastforce simp: list_all_iff)
        show ?thesis
        proof (cases "map_of kvs (sel_name s)")
          case None
          with c f show ?thesis by (simp add: own_prop.simps shaped_null is_null_def)
        next
          case (Some x)
          then have "conforms S t x" using c by simp
          with 3(1) mem ok fs v Some 3(4) have "shaped S t (sel_sub s) (answer (sel_sub s) x)" by auto
          with f Some show ?thesis by (simp add: own_prop.simps)
        qed
      qed
      then have "list_all (\<lambda>s. case field_of S n (sel_name s) of None \<Rightarrow> False
          | Some (_, t) \<Rightarrow> shaped S t (sel_sub s) (answer (sel_sub s) (own_prop kvs (sel_name s)))) sub"
        by (simp add: list_all_iff)
      with sub(1) v show ?thesis by (simp add: shaped.simps(3) zip_map_same o_def cong: option.case_cong prod.case_cong)
    qed
  qed
qed

section \<open>The documents against the schema\<close>

lemma type_found:
  "find (\<lambda>d. gd_name d = ''Apps'') ShipClusterSchemaTypes = Some Apps_type"
  "find (\<lambda>d. gd_name d = ''CapacityAvailable'') ShipClusterSchemaTypes = Some CapacityAvailable_type"
  "find (\<lambda>d. gd_name d = ''Cluster'') ShipClusterSchemaTypes = Some Cluster_type"
  "find (\<lambda>d. gd_name d = ''ImageRewriteStatus'') ShipClusterSchemaTypes = Some ImageRewriteStatus_type"
  "find (\<lambda>d. gd_name d = ''InstallStatus'') ShipClusterSchemaTypes = Some InstallStatus_type"
  "find (\<lambda>d. gd_name d = ''KEntitlement'') ShipClusterSchemaTypes = Some KEntitlement_type"
  "find (\<lambda>d. gd_name d = ''KLicense'') ShipClusterSchemaTypes = Some KLicense_type"
  "find (\<lambda>d. gd_name d = ''KotsApp'') ShipClusterSchemaTypes = Some KotsApp_type"
  "find (\<lambda>d. gd_name d = ''KotsAppDashboard'') ShipClusterSchemaTypes = Some KotsAppDashboard_type"
  "find (\<lambda>d. gd_name d = ''KotsAppLink'') ShipClusterSchemaTypes = Some KotsAppLink_type"
  "find (\<lambda>d. gd_name d = ''KotsAppRegistryDetails'') ShipClusterSchemaTypes = Some KotsAppRegistryDetails_type"
  "find (\<lambda>d. gd_name d = ''KotsAppStatus'') ShipClusterSchemaTypes = Some KotsAppStatus_type"
  "find (\<lambda>d. gd_name d = ''KotsConfigChildItem'') ShipClusterSchemaTypes = Some KotsConfigChildItem_type"
  "find (\<lambda>d. gd_name d = ''KotsConfigGroup'') ShipClusterSchemaTypes = Some KotsConfigGroup_type"
  "find (\<lambda>d. gd_name d = ''KotsConfigItem'') ShipClusterSchemaTypes = Some KotsConfigItem_type"
  "find (\<lambda>d. gd_name d = ''KotsDownstream'') ShipClusterSchemaTypes = Some KotsDownstream_type"
  "find (\<lambda>d. gd_name d = ''KotsDownstreamOutput'') ShipClusterSchemaTypes = Some KotsDownstreamOutput_type"
  "find (\<lambda>d. gd_name d = ''KotsGitOps'') ShipClusterSchemaTypes = Some KotsGitOps_type"
  "find (\<lambda>d. gd_name d = ''KotsVersion'') ShipClusterSchemaTypes = Some KotsVersion_type"
  "find (\<lambda>d. gd_name d = ''Kurl'') ShipClusterSchemaTypes = Some Kurl_type"
  "find (\<lambda>d. gd_name d = ''Metric'') ShipClusterSchemaTypes = Some Metric_type"
  "find (\<lambda>d. gd_name d = ''MetricChart'') ShipClusterSchemaTypes = Some MetricChart_type"
  "find (\<lambda>d. gd_name d = ''Mutation'') ShipClusterSchemaTypes = Some Mutation_type"
  "find (\<lambda>d. gd_name d = ''Node'') ShipClusterSchemaTypes = Some Node_type"
  "find (\<lambda>d. gd_name d = ''NodeConditions'') ShipClusterSchemaTypes = Some NodeConditions_type"
  "find (\<lambda>d. gd_name d = ''PreflightResult'') ShipClusterSchemaTypes = Some PreflightResult_type"
  "find (\<lambda>d. gd_name d = ''Query'') ShipClusterSchemaTypes = Some Query_type"
  "find (\<lambda>d. gd_name d = ''ResourceState'') ShipClusterSchemaTypes = Some ResourceState_type"
  "find (\<lambda>d. gd_name d = ''RestoreDetail'') ShipClusterSchemaTypes = Some RestoreDetail_type"
  "find (\<lambda>d. gd_name d = ''RestoreVolume'') ShipClusterSchemaTypes = Some RestoreVolume_type"
  "find (\<lambda>d. gd_name d = ''Series'') ShipClusterSchemaTypes = Some Series_type"
  "find (\<lambda>d. gd_name d = ''ShipOpsRef'') ShipClusterSchemaTypes = Some ShipOpsRef_type"
  "find (\<lambda>d. gd_name d = ''SnapshotConfig'') ShipClusterSchemaTypes = Some SnapshotConfig_type"
  "find (\<lambda>d. gd_name d = ''SnapshotDetail'') ShipClusterSchemaTypes = Some SnapshotDetail_type"
  "find (\<lambda>d. gd_name d = ''SnapshotError'') ShipClusterSchemaTypes = Some SnapshotError_type"
  "find (\<lambda>d. gd_name d = ''SnapshotHook'') ShipClusterSchemaTypes = Some SnapshotHook_type"
  "find (\<lambda>d. gd_name d = ''SnapshotSchedule'') ShipClusterSchemaTypes = Some SnapshotSchedule_type"
  "find (\<lambda>d. gd_name d = ''SnapshotTTl'') ShipClusterSchemaTypes = Some SnapshotTTl_type"
  "find (\<lambda>d. gd_name d = ''SnapshotVolume'') ShipClusterSchemaTypes = Some SnapshotVolume_type"
  "find (\<lambda>d. gd_name d = ''SupportBundle'') ShipClusterSchemaTypes = Some SupportBundle_type"
  "find (\<lambda>d. gd_name d = ''SupportBundleAnalysis'') ShipClusterSchemaTypes = Some SupportBundleAnalysis_type"
  "find (\<lambda>d. gd_name d = ''SupportBundleInsight'') ShipClusterSchemaTypes = Some SupportBundleInsight_type"
  "find (\<lambda>d. gd_name d = ''UpdateDownloadStatus'') ShipClusterSchemaTypes = Some UpdateDownloadStatus_type"
  "find (\<lambda>d. gd_name d = ''ValuePair'') ShipClusterSchemaTypes = Some ValuePair_type"
  by (simp_all add: schema_types)

fun object_rows :: "gdef \<Rightarrow> gfield list" where
  "object_rows (ObjectType _ fs) = fs"
| "object_rows (InputType _ _) = []"

lemma type_fields:
  assumes "find (\<lambda>d. gd_name d = n) ShipClusterSchemaTypes = Some d" and "\<not> is_input d"
  shows "list_all (\<lambda>(f, x). field_of ShipClusterSchemaTypes n f = Some x) (object_rows d)"
proof -
  have "d \<in> set ShipClusterSchemaTypes" using assms(1) by (auto simp: find_Some_iff)
  then have "distinct (field_names d)" using fields_named_apart by (simp add: list_all_iff)
  with assms show ?thesis by (cases d) (auto simp: field_of_def list_all_iff)
qed

lemma field_missing:
  assumes "find (\<lambda>d. gd_name d = n) ShipClusterSchemaTypes = Some d" and "f \<notin> set (field_names d)"
  shows "field_of ShipClusterSchemaTypes n f = None"
  using assms by (cases d) (simp_all add: field_of_def map_of_eq_None_iff)

lemmas field_rules = object_rows.simps list.pred_inject prod.case simp_thms

lemmas Apps_found [simp] = type_fields [OF type_found(1) type_kinds(62), unfolded Apps_type_def field_rules]
lemmas CapacityAvailable_found [simp] = type_fields [OF type_found(2) type_kinds(46), unfolded CapacityAvailable_type_def field_rules]
lemmas Cluster_found [simp] = type_fields [OF type_found(3) type_kinds(56), unfolded Cluster_type_def field_rules]
lemmas ImageRewriteStatus_found [simp] = type_fields [OF type_found(4) type_kinds(10), unfolded ImageRewriteStatus_type_def field_rules]
lemmas InstallStatus_found [simp] = type_fields [OF type_found(5) type_kinds(9), unfolded InstallStatus_type_def field_rules]
lemmas KEntitlement_found [simp] = type_fields [OF type_found(6) type_kinds(49), unfolded KEntitlement_type_def field_rules]
lemmas KLicense_found [simp] = type_fields [OF type_found(7) type_kinds(50), unfolded KLicense_type_def field_rules]
lemmas KotsApp_found [simp] = type_fields [OF type_found(8) type_kinds(1), unfolded KotsApp_type_def field_rules]
lemmas KotsAppDashboard_found [simp] = type_fields [OF type_found(9) type_kinds(21), unfolded KotsAppDashboard_type_def field_rules]
lemmas KotsAppLink_found [simp] = type_fields [OF type_found(10) type_kinds(3), unfolded KotsAppLink_type_def field_rules]
lemmas KotsAppRegistryDetails_found [simp] = type_fields [OF type_found(11) type_kinds(8), unfolded KotsAppRegistryDetails_type_def field_rules]
lemmas KotsAppStatus_found [simp] = type_fields [OF type_found(12) type_kinds(20), unfolded KotsAppStatus_type_def field_rules]
lemmas KotsConfigChildItem_found [simp] = type_fields [OF type_found(13) type_kinds(12), unfolded KotsConfigChildItem_type_def field_rules]
lemmas KotsConfigGroup_found [simp] = type_fields [OF type_found(14) type_kinds(16), unfolded KotsConfigGroup_type_def field_rules]
lemmas KotsConfigItem_found [simp] = type_fields [OF type_found(15) type_kinds(14), unfolded KotsConfigItem_type_def field_rules]
lemmas KotsDownstream_found [simp] = type_fields [OF type_found(16) type_kinds(4), unfolded KotsDownstream_type_def field_rules]
lemmas KotsDownstreamOutput_found [simp] = type_fields [OF type_found(17) type_kinds(18), unfolded KotsDownstreamOutput_type_def field_rules]
lemmas KotsGitOps_found [simp] = type_fields [OF type_found(18) type_kinds(2), unfolded KotsGitOps_type_def field_rules]
lemmas KotsVersion_found [simp] = type_fields [OF type_found(19) type_kinds(6), unfolded KotsVersion_type_def field_rules]
lemmas Kurl_found [simp] = type_fields [OF type_found(20) type_kinds(44), unfolded Kurl_type_def field_rules]
lemmas Metric_found [simp] = type_fields [OF type_found(21) type_kinds(53), unfolded Metric_type_def field_rules]
lemmas MetricChart_found [simp] = type_fields [OF type_found(22) type_kinds(52), unfolded MetricChart_type_def field_rules]
lemmas Mutation_found [simp] = type_fields [OF type_found(23) type_kinds(63), unfolded Mutation_type_def field_rules]
lemmas Node_found [simp] = type_fields [OF type_found(24) type_kinds(45), unfolded Node_type_def field_rules]
lemmas NodeConditions_found [simp] = type_fields [OF type_found(25) type_kinds(47), unfolded NodeConditions_type_def field_rules]
lemmas PreflightResult_found [simp] = type_fields [OF type_found(26) type_kinds(51), unfolded PreflightResult_type_def field_rules]
lemmas Query_found [simp] = type_fields [OF type_found(27) type_kinds(65), unfolded Query_type_def field_rules]
lemmas ResourceState_found [simp] = type_fields [OF type_found(28) type_kinds(19), unfolded ResourceState_type_def field_rules]
lemmas RestoreDetail_found [simp] = type_fields [OF type_found(29) type_kinds(36), unfolded RestoreDetail_type_def field_rules]
lemmas RestoreVolume_found [simp] = type_fields [OF type_found(30) type_kinds(37), unfolded RestoreVolume_type_def field_rules]
lemmas Series_found [simp] = type_fields [OF type_found(31) type_kinds(54), unfolded Series_type_def field_rules]
lemmas ShipOpsRef_found [simp] = type_fields [OF type_found(32) type_kinds(57), unfolded ShipOpsRef_type_def field_rules]
lemmas SnapshotConfig_found [simp] = type_fields [OF type_found(33) type_kinds(22), unfolded SnapshotConfig_type_def field_rules]
lemmas SnapshotDetail_found [simp] = type_fields [OF type_found(34) type_kinds(32), unfolded SnapshotDetail_type_def field_rules]
lemmas SnapshotError_found [simp] = type_fields [OF type_found(35) type_kinds(33), unfolded SnapshotError_type_def field_rules]
lemmas SnapshotHook_found [simp] = type_fields [OF type_found(36) type_kinds(35), unfolded SnapshotHook_type_def field_rules]
lemmas SnapshotSchedule_found [simp] = type_fields [OF type_found(37) type_kinds(24), unfolded SnapshotSchedule_type_def field_rules]
lemmas SnapshotTTl_found [simp] = type_fields [OF type_found(38) type_kinds(25), unfolded SnapshotTTl_type_def field_rules]
lemmas SnapshotVolume_found [simp] = type_fields [OF type_found(39) type_kinds(34), unfolded SnapshotVolume_type_def field_rules]
lemmas SupportBundle_found [simp] = type_fields [OF type_found(40) type_kinds(40), unfolded SupportBundle_type_def field_rules]
lemmas SupportBundleAnalysis_found [simp] = type_fields [OF type_found(41) type_kinds(41), unfolded SupportBundleAnalysis_type_def field_rules]
lemmas SupportBundleInsight_found [simp] = type_fields [OF type_found(42) type_kinds(42), unfolded SupportBundleInsight_type_def field_rules]
lemmas UpdateDownloadStatus_found [simp] = type_fields [OF type_found(43) type_kinds(11), unfolded UpdateDownloadStatus_type_def field_rules]
lemmas ValuePair_found [simp] = type_fields [OF type_found(44) type_kinds(55), unfolded ValuePair_type_def field_rules]

lemma Query_lacks [simp]:
  "field_of ShipClusterSchemaTypes ''Query'' ''installationOrganizations'' = None"
  "field_of ShipClusterSchemaTypes ''Query'' ''orgRepos'' = None"
  "field_of ShipClusterSchemaTypes ''Query'' ''repoBranches'' = None"
  "field_of ShipClusterSchemaTypes ''Query'' ''orgMembers'' = None"
  "field_of ShipClusterSchemaTypes ''Query'' ''validateUpstreamURL'' = None"
  "field_of ShipClusterSchemaTypes ''Query'' ''getGitHubInstallationId'' = None"
  "field_of ShipClusterSchemaTypes ''Query'' ''getAnalysisInsights'' = None"
  by (rule field_missing [OF type_found(27)]; code_simp)+

lemma Mutation_lacks [simp]:
  "field_of ShipClusterSchemaTypes ''Mutation'' ''createGithubNonce'' = None"
  "field_of ShipClusterSchemaTypes ''Mutation'' ''createGithubAuthToken'' = None"
  "field_of ShipClusterSchemaTypes ''Mutation'' ''uploadImageWatchBatch'' = None"
  "field_of ShipClusterSchemaTypes ''Mutation'' ''createNotification'' = None"
  "field_of ShipClusterSchemaTypes ''Mutation'' ''updateNotification'' = None"
  "field_of ShipClusterSchemaTypes ''Mutation'' ''enableNotification'' = None"
  "field_of ShipClusterSchemaTypes ''Mutation'' ''restoreSnapshot'' = None"
  "field_of ShipClusterSchemaTypes ''Mutation'' ''archiveSupportBundle'' = None"
  by (rule field_missing [OF type_found(23)]; code_simp)+

lemmas document_rules =
  valid_document_def root_name_def valid_args_def scalars_def input_members Leaf_def leaves_def
  unresolved_roots_def query_resolvers_def mutation_resolvers_def

lemma appsQueries_valid [simp]:
  "valid_document ShipClusterSchemaTypes doc_ping" "valid_document ShipClusterSchemaTypes doc_listAppsRaw"
  "valid_document ShipClusterSchemaTypes doc_getKotsAppRaw"
  "valid_document ShipClusterSchemaTypes doc_getKotsApplicationTreeRaw"
  "valid_document ShipClusterSchemaTypes doc_getKotsFilesRaw"
  "valid_document ShipClusterSchemaTypes doc_listDownstreamsForAppRaw"
  "valid_document ShipClusterSchemaTypes doc_getKotsDownstreamHistoryRaw"
  "valid_document ShipClusterSchemaTypes doc_getAppRegistryDetailsRaw"
  "valid_document ShipClusterSchemaTypes doc_getKotsPreflightResultRaw"
  "valid_document ShipClusterSchemaTypes doc_getLatestKotsPreflightResultRaw"
  "valid_document ShipClusterSchemaTypes doc_getAirgapInstallStatusRaw"
  "valid_document ShipClusterSchemaTypes doc_getOnlineInstallStatusRaw"
  "valid_document ShipClusterSchemaTypes doc_getImageRewriteStatusRaw"
  "valid_document ShipClusterSchemaTypes doc_getUpdateDownloadStatusRaw"
  "valid_document ShipClusterSchemaTypes doc_getAppConfigGroups"
  "valid_document ShipClusterSchemaTypes doc_getKotsDownstreamOutput"
  "valid_document ShipClusterSchemaTypes doc_getAppLicense"
  "valid_document ShipClusterSchemaTypes doc_templateConfigGroups"
  "valid_document ShipClusterSchemaTypes doc_getKotsAppDashboard"
  "valid_document ShipClusterSchemaTypes doc_getPrometheusAddress"
  "valid_document ShipClusterSchemaTypes doc_getGitOpsRepo"
  "valid_document ShipClusterSchemaTypes doc_getPreflightCommandRaw"
  by (simp_all add: document_rules doc_ping_def doc_listAppsRaw_def doc_getKotsAppRaw_def
      doc_getKotsApplicationTreeRaw_def doc_getKotsFilesRaw_def doc_listDownstreamsForAppRaw_def
      doc_getKotsDownstreamHistoryRaw_def doc_getAppRegistryDetailsRaw_def doc_getKotsPreflightResultRaw_def
      doc_getLatestKotsPreflightResultRaw_def doc_getAirgapInstallStatusRaw_def doc_getOnlineInstallStatusRaw_def
      doc_getImageRewriteStatusRaw_def doc_getUpdateDownloadStatusRaw_def doc_getAppConfigGroups_def
      doc_getKotsDownstreamOutput_def doc_getAppLicense_def doc_templateConfigGroups_def
      doc_getKotsAppDashboard_def doc_getPrometheusAddress_def doc_getGitOpsRepo_def
      doc_getPreflightCommandRaw_def)

lemma appsQueries_resolved [simp]:
  "unresolved_roots doc_ping = []" "unresolved_roots doc_listAppsRaw = []"
  "unresolved_roots doc_getKotsAppRaw = []" "unresolved_roots doc_getKotsApplicationTreeRaw = []"
  "unresolved_roots doc_getKotsFilesRaw = []" "unresolved_roots doc_listDownstreamsForAppRaw = []"
  "unresolved_roots doc_getKotsDownstreamHistoryRaw = []" "unresolved_roots doc_getAppRegistryDetailsRaw = []"
  "unresolved_roots doc_getKotsPreflightResultRaw = []"
  "unresolved_roots doc_getLatestKotsPreflightResultRaw = []"
  "unresolved_roots doc_getAirgapInstallStatusRaw = []" "unresolved_roots doc_getOnlineInstallStatusRaw = []"
  "unresolved_roots doc_getImageRewriteStatusRaw = []" "unresolved_roots doc_getUpdateDownloadStatusRaw = []"
  "unresolved_roots doc_getAppConfigGroups = []" "unresolved_roots doc_getKotsDownstreamOutput = []"
  "unresolved_roots doc_getAppLicense = []" "unresolved_roots doc_templateConfigGroups = []"
  "unresolved_roots doc_getKotsAppDashboard = []" "unresolved_roots doc_getPrometheusAddress = []"
  "unresolved_roots doc_getGitOpsRepo = []" "unresolved_roots doc_getPreflightCommandRaw = []"
  by (simp_all add: document_rules doc_ping_def doc_listAppsRaw_def doc_getKotsAppRaw_def
      doc_getKotsApplicationTreeRaw_def doc_getKotsFilesRaw_def doc_listDownstreamsForAppRaw_def
      doc_getKotsDownstreamHistoryRaw_def doc_getAppRegistryDetailsRaw_def doc_getKotsPreflightResultRaw_def
      doc_getLatestKotsPreflightResultRaw_def doc_getAirgapInstallStatusRaw_def doc_getOnlineInstallStatusRaw_def
      doc_getImageRewriteStatusRaw_def doc_getUpdateDownloadStatusRaw_def doc_getAppConfigGroups_def
      doc_getKotsDownstreamOutput_def doc_getAppLicense_def doc_templateConfigGroups_def
      doc_getKotsAppDashboard_def doc_getPrometheusAddress_def doc_getGitOpsRepo_def
      doc_getPreflightCommandRaw_def)

lemma clusterQueries_valid [simp]:
  "valid_document ShipClusterSchemaTypes doc_listClustersRaw"
  by (simp_all add: document_rules doc_listClustersRaw_def)

lemma clusterQueries_resolved [simp]:
  "unresolved_roots doc_listClustersRaw = []"
  by (simp_all add: document_rules doc_listClustersRaw_def)

lemma gitHubQueries_stale [simp]:
  "\<not> valid_document ShipClusterSchemaTypes doc_githubUserOrgs"
  "\<not> valid_document ShipClusterSchemaTypes doc_githubOrgRepos"
  "\<not> valid_document ShipClusterSchemaTypes doc_githubRepoBranches"
  "\<not> valid_document ShipClusterSchemaTypes doc_getOrgMembers"
  "\<not> valid_document ShipClusterSchemaTypes doc_validateUpstreamURL"
  "\<not> valid_document ShipClusterSchemaTypes doc_getGitHubInstallationId"
  by (simp_all add: document_rules doc_githubUserOrgs_def doc_githubOrgRepos_def doc_githubRepoBranches_def
      doc_getOrgMembers_def doc_validateUpstreamURL_def doc_getGitHubInstallationId_def)

lemma kurlQueries_valid [simp]:
  "valid_document ShipClusterSchemaTypes doc_kurlRaw"
  by (simp_all add: document_rules doc_kurlRaw_def)

lemma kurlQueries_resolved [simp]:
  "unresolved_roots doc_kurlRaw = []"
  by (simp_all add: document_rules doc_kurlRaw_def)

lemma snapshotQueries_valid [simp]:
  "valid_document ShipClusterSchemaTypes doc_isVeleroInstalled"
  "valid_document ShipClusterSchemaTypes doc_snapshotConfigRaw"
  "valid_document ShipClusterSchemaTypes doc_snapshotDetailRaw"
  "valid_document ShipClusterSchemaTypes doc_restoreDetail"
  by (simp_all add: document_rules doc_isVeleroInstalled_def doc_snapshotConfigRaw_def doc_snapshotDetailRaw_def
      doc_restoreDetail_def)

lemma snapshotQueries_resolved [simp]:
  "unresolved_roots doc_isVeleroInstalled = []" "unresolved_roots doc_snapshotConfigRaw = []"
  "unresolved_roots doc_snapshotDetailRaw = []" "unresolved_roots doc_restoreDetail = []"
  by (simp_all add: document_rules doc_isVeleroInstalled_def doc_snapshotConfigRaw_def doc_snapshotDetailRaw_def
      doc_restoreDetail_def)

lemma troubleshootQueries_valid [simp]:
  "valid_document ShipClusterSchemaTypes doc_listSupportBundlesRaw"
  "valid_document ShipClusterSchemaTypes doc_listKotsSupportBundlesRaw"
  "valid_document ShipClusterSchemaTypes doc_getSupportBundleRaw"
  "valid_document ShipClusterSchemaTypes doc_supportBundleFiles"
  "valid_document ShipClusterSchemaTypes doc_getSupportBundleCommand"
  by (simp_all add: document_rules doc_listSupportBundlesRaw_def doc_listKotsSupportBundlesRaw_def
      doc_getSupportBundleRaw_def doc_supportBundleFiles_def doc_getSupportBundleCommand_def)

lemma troubleshootQueries_resolved [simp]:
  "unresolved_roots doc_listSupportBundlesRaw = []" "unresolved_roots doc_listKotsSupportBundlesRaw = []"
  "unresolved_roots doc_getSupportBundleRaw = []" "unresolved_roots doc_supportBundleFiles = []"
  "unresolved_roots doc_getSupportBundleCommand = []"
  by (simp_all add: document_rules doc_listSupportBundlesRaw_def doc_listKotsSupportBundlesRaw_def
      doc_getSupportBundleRaw_def doc_supportBundleFiles_def doc_getSupportBundleCommand_def)

lemma troubleshootQueries_stale [simp]:
  "\<not> valid_document ShipClusterSchemaTypes doc_getAnalysisInsights"
  by (simp_all add: document_rules doc_getAnalysisInsights_def)

lemma userQueries_valid [simp]:
  "valid_document ShipClusterSchemaTypes doc_validateRegistryInfoRaw"
  by (simp_all add: document_rules doc_validateRegistryInfoRaw_def)

lemma userQueries_resolved [simp]:
  "unresolved_roots doc_validateRegistryInfoRaw = []"
  by (simp_all add: document_rules doc_validateRegistryInfoRaw_def)

lemma appsMutations_valid [simp]:
  "valid_document ShipClusterSchemaTypes doc_createKotsDownstreamRaw"
  "valid_document ShipClusterSchemaTypes doc_deleteKotsDownstreamRaw"
  "valid_document ShipClusterSchemaTypes doc_deleteKotsAppRaw"
  "valid_document ShipClusterSchemaTypes doc_deployKotsVersionRaw"
  "valid_document ShipClusterSchemaTypes doc_updateRegistryDetailsRaw"
  "valid_document ShipClusterSchemaTypes doc_updateDownstreamsStatus"
  "valid_document ShipClusterSchemaTypes doc_updateKotsApp"
  "valid_document ShipClusterSchemaTypes doc_createGitOpsRepoRaw"
  "valid_document ShipClusterSchemaTypes doc_updateGitOpsRepoRaw"
  "valid_document ShipClusterSchemaTypes doc_updateAppGitOpsRaw"
  "valid_document ShipClusterSchemaTypes doc_resetGitOpsDataRaw"
  "valid_document ShipClusterSchemaTypes doc_setPrometheusAddress"
  "valid_document ShipClusterSchemaTypes doc_testGitOpsConnectionRaw"
  "valid_document ShipClusterSchemaTypes doc_disableAppGitopsRaw"
  "valid_document ShipClusterSchemaTypes doc_ignorePreflightPermissionErrorsRaw"
  "valid_document ShipClusterSchemaTypes doc_retryPreflightsRaw"
  by (simp_all add: document_rules doc_createKotsDownstreamRaw_def doc_deleteKotsDownstreamRaw_def
      doc_deleteKotsAppRaw_def doc_deployKotsVersionRaw_def doc_updateRegistryDetailsRaw_def
      doc_updateDownstreamsStatus_def doc_updateKotsApp_def doc_createGitOpsRepoRaw_def
      doc_updateGitOpsRepoRaw_def doc_updateAppGitOpsRaw_def doc_resetGitOpsDataRaw_def
      doc_setPrometheusAddress_def doc_testGitOpsConnectionRaw_def doc_disableAppGitopsRaw_def
      doc_ignorePreflightPermissionErrorsRaw_def doc_retryPreflightsRaw_def)

lemma appsMutations_resolved [simp]:
  "unresolved_roots doc_createKotsDownstreamRaw = []" "unresolved_roots doc_deleteKotsDownstreamRaw = []"
  "unresolved_roots doc_deleteKotsAppRaw = []" "unresolved_roots doc_deployKotsVersionRaw = []"
  "unresolved_roots doc_updateDownstreamsStatus = []" "unresolved_roots doc_updateKotsApp = []"
  "unresolved_roots doc_createGitOpsRepoRaw = []" "unresolved_roots doc_updateGitOpsRepoRaw = []"
  "unresolved_roots doc_updateAppGitOpsRaw = []" "unresolved_roots doc_resetGitOpsDataRaw = []"
  "unresolved_roots doc_setPrometheusAddress = []" "unresolved_roots doc_testGitOpsConnectionRaw = []"
  "unresolved_roots doc_disableAppGitopsRaw = []" "unresolved_roots doc_ignorePreflightPermissionErrorsRaw = []"
  "unresolved_roots doc_retryPreflightsRaw = []"
  by (simp_all add: document_rules doc_createKotsDownstreamRaw_def doc_deleteKotsDownstreamRaw_def
      doc_deleteKotsAppRaw_def doc_deployKotsVersionRaw_def doc_updateDownstreamsStatus_def doc_updateKotsApp_def
      doc_createGitOpsRepoRaw_def doc_updateGitOpsRepoRaw_def doc_updateAppGitOpsRaw_def
      doc_resetGitOpsDataRaw_def doc_setPrometheusAddress_def doc_testGitOpsConnectionRaw_def
      doc_disableAppGitopsRaw_def doc_ignorePreflightPermissionErrorsRaw_def doc_retryPreflightsRaw_def)

lemma gitHubMutations_valid [simp]:
  "valid_document ShipClusterSchemaTypes doc_logout"
  by (simp_all add: document_rules doc_logout_def)

lemma gitHubMutations_resolved [simp]:
  "unresolved_roots doc_logout = []"
  by (simp_all add: document_rules doc_logout_def)

lemma gitHubMutations_stale [simp]:
  "\<not> valid_document ShipClusterSchemaTypes doc_createGithubNonce"
  "\<not> valid_document ShipClusterSchemaTypes doc_createGithubAuthToken"
  by (simp_all add: document_rules doc_createGithubNonce_def doc_createGithubAuthToken_def)

lemma imageWatchMutations_stale [simp]:
  "\<not> valid_document ShipClusterSchemaTypes doc_uploadImageWatchBatch"
  by (simp_all add: document_rules doc_uploadImageWatchBatch_def)

lemma kurlMutations_valid [simp]:
  "valid_document ShipClusterSchemaTypes doc_drainNodeRaw"
  "valid_document ShipClusterSchemaTypes doc_deleteNodeRaw"
  by (simp_all add: document_rules doc_drainNodeRaw_def doc_deleteNodeRaw_def)

lemma kurlMutations_resolved [simp]:
  "unresolved_roots doc_drainNodeRaw = []" "unresolved_roots doc_deleteNodeRaw = []"
  by (simp_all add: document_rules doc_drainNodeRaw_def doc_deleteNodeRaw_def)

lemma notificationMutations_stale [simp]:
  "\<not> valid_document ShipClusterSchemaTypes doc_createNotification"
  "\<not> valid_document ShipClusterSchemaTypes doc_updateNotification"
  "\<not> valid_document ShipClusterSchemaTypes doc_enableNotification"
  by (simp_all add: document_rules doc_createNotification_def doc_updateNotification_def doc_enableNotification_def)

lemma snapshotMutations_valid [simp]:
  "valid_document ShipClusterSchemaTypes doc_deleteSnapshot"
  "valid_document ShipClusterSchemaTypes doc_cancelRestoreRaw"
  "valid_document ShipClusterSchemaTypes doc_saveSnapshotConfigRaw"
  by (simp_all add: document_rules doc_deleteSnapshot_def doc_cancelRestoreRaw_def doc_saveSnapshotConfigRaw_def)

lemma snapshotMutations_resolved [simp]:
  "unresolved_roots doc_deleteSnapshot = []" "unresolved_roots doc_cancelRestoreRaw = []"
  "unresolved_roots doc_saveSnapshotConfigRaw = []"
  by (simp_all add: document_rules doc_deleteSnapshot_def doc_cancelRestoreRaw_def doc_saveSnapshotConfigRaw_def)

lemma snapshotMutations_stale [simp]:
  "\<not> valid_document ShipClusterSchemaTypes doc_restoreSnapshotRaw"
  by (simp_all add: document_rules doc_restoreSnapshotRaw_def)

lemma troubleshootMutations_valid [simp]:
  "valid_document ShipClusterSchemaTypes doc_collectSupportBundle"
  by (simp_all add: document_rules doc_collectSupportBundle_def)

lemma troubleshootMutations_resolved [simp]:
  "unresolved_roots doc_collectSupportBundle = []"
  by (simp_all add: document_rules doc_collectSupportBundle_def)

lemma troubleshootMutations_stale [simp]:
  "\<not> valid_document ShipClusterSchemaTypes doc_archiveSupportBundle"
  by (simp_all add: document_rules doc_archiveSupportBundle_def)

lemma registry_unresolved: "unresolved_roots doc_updateRegistryDetailsRaw = [''updateRegistryDetails'']"
  by (simp add: document_rules doc_updateRegistryDetailsRaw_def)

lemmas document_lists =
  documents_def appsQueries_documents_def clusterQueries_documents_def gitHubQueries_documents_def
  kurlQueries_documents_def snapshotQueries_documents_def troubleshootQueries_documents_def
  userQueries_documents_def appsMutations_documents_def gitHubMutations_documents_def
  imageWatchMutations_documents_def kurlMutations_documents_def notificationMutations_documents_def
  snapshotMutations_documents_def troubleshootMutations_documents_def

section \<open>Properties\<close>


lemma schema_no_scalar_types: "no_scalar_types ShipClusterSchemaTypes"
  by code_simp


lemma history_document:
  "valid_document ShipClusterSchemaTypes doc_getKotsDownstreamHistoryRaw"
  "map sel_name (doc_selections doc_getKotsDownstreamHistoryRaw) = [''getKotsDownstreamHistory'']"
  "root_name doc_getKotsDownstreamHistoryRaw = ''Query''"
  "field_of ShipClusterSchemaTypes ''Query'' ''getKotsDownstreamHistory'' =
     Some ([(''clusterSlug'', NonNull (Named ''String'')), (''upstreamSlug'', NonNull (Named ''String''))], ListOf (Named ''KotsVersion''))"
  by code_simp+

lemma fits_conforms: "list_all version_fits vs \<Longrightarrow>
    conforms ShipClusterSchemaTypes (ListOf (Named ''KotsVersion'')) (JArr (map (version_json date) vs))"
  by (auto simp: list.pred_map o_def list_all_iff intro: version_conforms)


end
