(* ===== verification/WebUtils.thy ===== *)
theory WebUtils
  imports Preflight Repeater "HOL-Library.Sublist" Complex_Main
begin

text \<open>
  The helpers of the web console, \<^verbatim>\<open>web/src/utilities/utilities.js\<close>.

  Numbers that are divided are rationals: the divisors are powers of two, so the arithmetic of the
  language is exact too.  Times are milliseconds.  The packages for dates and query strings and the width of
  an element on the page are parameters; regular expressions are left out.
\<close>

section \<open>Names and addresses\<close>

definition getApplicationType :: "(string \<Rightarrow> jsval result) \<Rightarrow> jsval \<Rightarrow> jsval" where
  "getApplicationType parse watch =
     (case bindR (js_get watch ''metadata'') (\<lambda>metadata.
             if \<not> truthy metadata \<or> metadata = JStr ''null'' then Inr (JStr [])
             else bindR (parse (js_to_string metadata)) (\<lambda>v. js_get v ''applicationType'')) of
        Inl _ \<Rightarrow> JStr ''Error fetching applicationType''
      | Inr t \<Rightarrow> t)"

definition parseIconUri :: "(string \<Rightarrow> jsval) \<Rightarrow> string \<Rightarrow> string \<times> jsval" where
  "parseIconUri parse_query uri =
     (case js_split (CHR ''?'') uri of
        address # query # _ \<Rightarrow> (address, parse_query query)
      | _ \<Rightarrow> (''https://troubleshoot.sh/images/analyzer-icons/gray-checkmark.svg'', JObj [(''w'', JNum 17), (''h'', JNum 17)]))"

definition is_gitlab :: "string \<Rightarrow> bool" where
  "is_gitlab provider \<longleftrightarrow> provider = ''gitlab'' \<or> provider = ''gitlab_enterprise''"

definition is_bitbucket :: "string \<Rightarrow> bool" where
  "is_bitbucket provider \<longleftrightarrow> provider = ''bitbucket'' \<or> provider = ''bitbucket_server''"

definition getServiceSite :: "string \<Rightarrow> string" where
  "getServiceSite provider =
     (if is_gitlab provider then ''gitlab.com'' else if is_bitbucket provider then ''bitbucket.org'' else ''github.com'')"

definition getAddKeyUri :: "string \<Rightarrow> string \<Rightarrow> string \<Rightarrow> string" where
  "getAddKeyUri gitUri provider ownerRepo =
     (if is_gitlab provider then gitUri @ ''/-/settings/repository''
      else if is_bitbucket provider
      then ''https://bitbucket.org/account/user/'' @ js_split (CHR ''/'') ownerRepo ! 0 @ ''/ssh-keys/''
      else gitUri @ ''/settings/keys/new'')"

definition requiresHostname :: "string \<Rightarrow> bool" where
  "requiresHostname provider \<longleftrightarrow>
     provider \<in> {''gitlab_enterprise'', ''github_enterprise'', ''bitbucket_server'', ''other''}"

definition rootPath :: "string \<Rightarrow> string" where
  "rootPath path = (case path of c # _ \<Rightarrow> if c = CHR ''/'' then path else CHR ''/'' # path | [] \<Rightarrow> ''/'')"

definition getFileFormat :: "string \<Rightarrow> string" where
  "getFileFormat selectedFile =
     (if selectedFile = [] then ''text''
      else if sublist ''.json'' selectedFile then ''json''
      else if sublist ''.human'' selectedFile \<or> sublist ''.yaml'' selectedFile \<or> sublist ''.yml'' selectedFile then ''yaml''
      else ''text'')"

definition getGitProviderDiffUrl :: "string \<Rightarrow> string \<Rightarrow> string \<Rightarrow> string \<Rightarrow> string" where
  "getGitProviderDiffUrl repoUri provider oldCommitHash newCommitHash =
     (if provider = ''bitbucket''
      then repoUri @ ''/branches/compare/'' @ newCommitHash @ ''..'' @ oldCommitHash @ ''#diff''
      else repoUri @ ''/compare/'' @ oldCommitHash @ ''...'' @ newCommitHash)"

definition getCommitHashFromUrl :: "string option \<Rightarrow> string" where
  "getCommitHashFromUrl commitUrl =
     (if \<not> truthy_str commitUrl then [] else last (js_split (CHR ''/'') (str_or_empty commitUrl)))"

definition getReadableLoginType :: "string \<Rightarrow> string" where
  "getReadableLoginType t =
     (if t = ''gitlab'' then ''GitLab'' else if t = ''bitbucket'' then ''Bitbucket'' else ''GitHub'')"

definition snapshotStatusToDisplayName :: "string \<Rightarrow> string" where
  "snapshotStatusToDisplayName status =
     (if status = ''PartiallyFailed'' then ''Incomplete (Failed)''
      else if status = ''InProgress'' then ''In Progress'' else status)"

definition gqlUnauthorized :: "string \<Rightarrow> bool" where
  "gqlUnauthorized message \<longleftrightarrow> message = ''GraphQL error: Unauthorized''"

definition isHelmChart :: "jsval \<Rightarrow> bool result" where
  "isHelmChart watch = bindR (js_get watch ''helmName'') (\<lambda>n. Inr (truthy n))"

section \<open>Schedules\<close>

definition getCronInterval :: "string \<Rightarrow> string" where
  "getCronInterval frequency =
     (if frequency = ''0 * * * *'' then ''hourly''
      else if frequency = ''0 0 1 * *'' then ''daily''
      else if frequency = ''0 0 * * MON'' then ''weekly'' else ''custom'')"

definition getCronFrequency :: "string \<Rightarrow> string" where
  "getCronFrequency schedule =
     (if schedule = ''hourly'' then ''0 * * * *'' else if schedule = ''daily'' then ''0 0 1 * *'' else ''0 0 * * MON'')"

section \<open>Times and numbers\<close>

text \<open>A difference in whole units, cut towards zero.\<close>

definition unit_diff :: "time \<Rightarrow> time \<Rightarrow> int \<Rightarrow> int" where
  "unit_diff end begin ms = (if end \<ge> begin then (end - begin) div ms else - ((begin - end) div ms))"

definition plural :: "int \<Rightarrow> string \<Rightarrow> string" where
  "plural n u = show_int n @ '' '' @ u @ (if n = 1 then [] else ''s'')"

definition calculateTimeDifference :: "time \<Rightarrow> time \<Rightarrow> string" where
  "calculateTimeDifference begin end =
     (let seconds = unit_diff end begin 1000 in
      if seconds \<ge> 3600 then plural (unit_diff end begin 3600000) ''hour''
      else if seconds \<ge> 60 then plural (unit_diff end begin 60000) ''minute''
      else plural seconds ''second'')"

definition secondsAgo :: "time \<Rightarrow> time \<Rightarrow> int" where
  "secondsAgo now t = unit_diff now t 1000"

definition getPercentageStatus :: "rat \<Rightarrow> rat \<Rightarrow> string" where
  "getPercentageStatus numerator denominator =
     (if numerator = 0 \<or> denominator = 0 then ''unknown''
      else if numerator / denominator < 1 / 10 then ''danger''
      else if numerator / denominator < 1 / 4 then ''warning'' else ''check'')"

text \<open>\<^verbatim>\<open>toFixed(2)\<close> of a number that is not negative: the nearest hundredth, the larger of two.\<close>

definition hundredths :: "rat \<Rightarrow> nat" where
  "hundredths x = nat \<lfloor>100 * x + 1 / 2\<rfloor>"

definition toFixed2 :: "rat \<Rightarrow> string" where
  "toFixed2 x =
     (let n = hundredths x in
      show_nat (n div 100) @ ''.'' @ [digit_char (n div 10 mod 10), digit_char (n mod 10)])"

definition byte_unit :: "nat \<Rightarrow> nat \<times> string" where
  "byte_unit bytes =
     (if bytes < 1048576 then (1024, ''kb'') else if bytes < 1073741824 then (1048576, ''mb'') else (1073741824, ''gb''))"

definition formatByteSize :: "nat \<Rightarrow> string" where
  "formatByteSize bytes =
     (if bytes < 1024 then show_nat bytes @ ''b''
      else (let (u, name) = byte_unit bytes in toFixed2 (of_nat bytes / of_nat u) @ name))"

definition getLicenseExpiryDate :: "(string \<Rightarrow> string) \<Rightarrow> string option option \<Rightarrow> string" where
  "getLicenseExpiryDate dateFormat license =
     (case license of
        None \<Rightarrow> []
      | Some expiresAt \<Rightarrow>
          if \<not> truthy_str expiresAt \<or> expiresAt = Some ''0001-01-01T00:00:00Z'' then ''Never''
          else dateFormat (str_or_empty expiresAt))"

section \<open>Results and differences\<close>

definition severity_rank :: "string \<Rightarrow> nat" where
  "severity_rank s = (if s = ''warn'' then 2 else if s = ''info'' then 3 else if s = ''debug'' then 4 else 1)"

definition sortAnalyzers :: "('a \<Rightarrow> string) \<Rightarrow> 'a list \<Rightarrow> 'a list" where
  "sortAnalyzers severity insights = sort_key (\<lambda>i. severity_rank (severity i)) insights"

record line_change =
  originalStartLineNumber :: int
  originalEndLineNumber :: int
  modifiedStartLineNumber :: int
  modifiedEndLineNumber :: int

definition line_change_counts :: "line_change \<Rightarrow> int \<times> int" where
  "line_change_counts c =
     (if originalEndLineNumber c = originalStartLineNumber c \<and> modifiedEndLineNumber c = modifiedStartLineNumber c \<and>
         originalEndLineNumber c \<noteq> 0 \<and> modifiedEndLineNumber c \<noteq> 0
      then (1, 1)
      else (if modifiedEndLineNumber c > modifiedStartLineNumber c \<or> originalEndLineNumber c = 0
            then modifiedEndLineNumber c - modifiedStartLineNumber c + 1 else 0,
            if originalEndLineNumber c > originalStartLineNumber c \<or> modifiedEndLineNumber c = 0
            then originalEndLineNumber c - originalStartLineNumber c + 1 else 0))"

record line_changes =
  lc_addedLines :: int
  lc_removedLines :: int
  lc_changes :: int

definition getLineChanges :: "line_change list \<Rightarrow> line_changes" where
  "getLineChanges lineChangesArr =
     (let (addedLines, removedLines) =
        foldl (\<lambda>(a, r) c. let (a', r') = line_change_counts c in (a + a', r + r')) (0, 0) lineChangesArr in
      \<lparr>lc_addedLines = addedLines, lc_removedLines = removedLines, lc_changes = addedLines + removedLines\<rparr>)"

fun isAwaitingResults :: "string option list \<Rightarrow> bool" where
  "isAwaitingResults [] = False"
| "isAwaitingResults (status # versionHistory) =
     (status \<in> {Some ''pending_preflight'', Some ''unknown'', Some ''deploying''} \<or> isAwaitingResults versionHistory)"

fun web_check_results :: "string \<Rightarrow> jsval list \<Rightarrow> string result" where
  "web_check_results resultState [] = Inr resultState"
| "web_check_results resultState (check # results) =
     bindR (js_get check ''isWarn'') (\<lambda>isWarn.
       if truthy isWarn then web_check_results ''warn'' results
       else bindR (js_get check ''isFail'') (\<lambda>isFail.
            if truthy isFail then Inr ''fail'' else web_check_results resultState results))"

definition web_getPreflightResultState :: "jsval \<Rightarrow> string result" where
  "web_getPreflightResultState preflightResults =
     bindR (js_get preflightResults ''errors'') (\<lambda>errors.
       if js_size errors > 0 then Inr ''fail''
       else bindR (js_get preflightResults ''results'') (\<lambda>results.
            if js_size results = 0 then Inr ''pass''
            else bindR (js_iter results) (web_check_results ''pass'')))"

section \<open>Fitting a text\<close>

text \<open>
  The width of the text at a font size in pixels is a parameter.  A size below zero is no size, so setting
  it changes nothing and the loop goes on for ever.
\<close>

partial_function (option) shrink :: "(int \<Rightarrow> rat) \<Rightarrow> rat \<Rightarrow> int \<Rightarrow> int option \<Rightarrow> int option option" where
  "shrink width maxWidth fontSize sz =
     (if width fontSize > maxWidth
      then shrink width maxWidth (if fontSize - 1 < 0 then fontSize else fontSize - 1) (Some fontSize)
      else Some sz)"

definition px :: "int option \<Rightarrow> string" where
  "px n = (case n of None \<Rightarrow> ''NaNpx'' | Some k \<Rightarrow> show_int (k - 1) @ ''px'')"

definition dynamicallyResizeText :: "(int \<Rightarrow> rat) \<Rightarrow> rat \<Rightarrow> string \<Rightarrow> string option" where
  "dynamicallyResizeText width maxWidth defaultFontSize =
     (let size0 = (case parse_int defaultFontSize of None \<Rightarrow> 0 | Some n \<Rightarrow> n) in
      if width size0 < maxWidth then Some defaultFontSize
      else map_option px (shrink width maxWidth size0 None))"

section \<open>The session in the browser\<close>

text \<open>\<open>None\<close> is a storage that is not enabled.\<close>

type_synonym local_storage = "(string \<Rightarrow> string option) option"

definition getToken :: "local_storage \<Rightarrow> string option" where
  "getToken st = (case st of None \<Rightarrow> Some [] | Some m \<Rightarrow> m ''token'')"

definition isLoggedIn :: "local_storage \<Rightarrow> bool" where
  "isLoggedIn st = truthy_str (getToken st)"

definition logoutUser :: "local_storage \<Rightarrow> local_storage \<times> string" where
  "logoutUser st =
     (if isLoggedIn st then map_option (\<lambda>m. m(''token'' := None)) st else st, ''/secure-console'')"

section \<open>Lemmas\<close>

definition style_size :: "string \<Rightarrow> int" where
  "style_size fontSize = (case parse_int fontSize of None \<Rightarrow> 0 | Some n \<Rightarrow> n)"

definition tried :: "int \<Rightarrow> int \<Rightarrow> bool" where
  "tried s k \<longleftrightarrow> k = s \<or> 0 \<le> k \<and> k < s"

lemma shrink_fits: "width s \<le> m \<Longrightarrow> shrink width m s sz = Some sz"
  by (subst shrink.simps) simp

lemma shrink_returns:
  assumes "tried s k" and "width k \<le> m"
  shows "shrink width m s sz \<noteq> None"
  using assms
proof (induction "nat (s - k)" arbitrary: s sz)
  case 0
  then have "s = k" by (auto simp: tried_def)
  with 0 show ?case by (simp add: shrink_fits)
next
  case (Suc n)
  then have k: "0 \<le> k" "k < s" by (auto simp: tried_def)
  show ?case
  proof (cases "width s \<le> m")
    case True then show ?thesis by (simp add: shrink_fits)
  next
    case False
    have "shrink width m (s - 1) (Some s) \<noteq> None"
      using Suc.hyps(2) k by (intro Suc.hyps(1)) (auto simp: tried_def Suc.prems)
    with False k show ?thesis by (subst shrink.simps) simp
  qed
qed

lemma tried_smaller: "tried (if s - 1 < 0 then s else s - 1) k \<Longrightarrow> tried s k"
  by (auto simp: tried_def split: if_splits)

lemma shrink_tried:
  assumes "shrink width m s sz = Some r"
  shows "\<exists>k. tried s k \<and> width k \<le> m"
proof (rule shrink.raw_induct [OF _ assms, where P = "\<lambda>width m s sz r. \<exists>k. tried s k \<and> width k \<le> m"])
  fix sh :: "(int \<Rightarrow> rat) \<Rightarrow> rat \<Rightarrow> int \<Rightarrow> int option \<Rightarrow> int option option" and width m s sz r
  assume ih: "\<And>width m s sz r. sh width m s sz = Some r \<Longrightarrow> \<exists>k. tried s k \<and> width k \<le> m"
    and step: "(if m < width s then sh width m (if s - 1 < 0 then s else s - 1) (Some s) else Some sz) = Some r"
  show "\<exists>k. tried s k \<and> width k \<le> m"
  proof (cases "width s > m")
    case True
    with step obtain k where "tried (if s - 1 < 0 then s else s - 1) k" "width k \<le> m"
      using ih [of width m "if s - 1 < 0 then s else s - 1" "Some s" r] by auto
    then show ?thesis using tried_smaller by blast
  next
    case False then show ?thesis by (auto simp: tried_def)
  qed
qed

lemma web_check_results_same: "web_check_results st = check_results st"
proof (rule ext)
  show "web_check_results st cs = check_results st cs" for cs
    by (induction st cs rule: web_check_results.induct) (simp_all add: bindR_def split: sum.split)
qed

lemma hundredths_near: "0 \<le> x \<Longrightarrow> \<bar>of_nat (hundredths x) / 100 - x\<bar> \<le> 1 / (200 :: rat)"
proof -
  assume "0 \<le> x"
  then have "0 \<le> \<lfloor>100 * x + 1 / 2\<rfloor>" by (simp add: zero_le_floor)
  then have n: "of_nat (hundredths x) = (of_int \<lfloor>100 * x + 1 / 2\<rfloor> :: rat)" by (simp add: hundredths_def)
  define y where "y = (of_int \<lfloor>100 * x + 1 / 2\<rfloor> :: rat)"
  have "y \<le> 100 * x + 1 / 2" "100 * x + 1 / 2 < y + 1" unfolding y_def by linarith+
  then show ?thesis unfolding n y_def [symmetric] by (intro abs_leI) linarith+
qed

section \<open>Properties\<close>

text \<open>
  The console shrinks a text until it fits and the loop ends exactly when some size between zero and the
  first one fits; when none does it never returns.
\<close>

theorem resize_returns_iff:
  "dynamicallyResizeText width maxWidth font \<noteq> None \<longleftrightarrow> (\<exists>k. tried (style_size font) k \<and> width k \<le> maxWidth)"
proof (cases "width (style_size font) < maxWidth")
  case True
  then show ?thesis by (auto simp: dynamicallyResizeText_def style_size_def [symmetric] tried_def intro: less_imp_le)
next
  case False
  then show ?thesis
    using shrink_returns [of "style_size font" _ width maxWidth None] shrink_tried [of width maxWidth "style_size font" None]
    by (auto simp: dynamicallyResizeText_def style_size_def [symmetric])
qed

text \<open>C30: The console judges a preflight result as the server does, errors included.\<close>

theorem preflight_state_same: "web_getPreflightResultState v = getPreflightResultState v"
  unfolding web_getPreflightResultState_def getPreflightResultState_def web_check_results_same ..

text \<open>
  From 1024 bytes on, a size is shown in a unit with two digits after the point, and what is shown is
  within half a hundredth of a unit of the size.
\<close>

theorem byte_size_near:
  assumes "1024 \<le> bytes"
  shows "\<exists>n u name. (u, name) = byte_unit bytes \<and>
    formatByteSize bytes = show_nat (n div 100) @ ''.'' @ [digit_char (n div 10 mod 10), digit_char (n mod 10)] @ name \<and>
    \<bar>of_nat n / 100 - of_nat bytes / of_nat u\<bar> \<le> (1 / 200 :: rat)"
proof -
  obtain u name where u: "(u, name) = byte_unit bytes" by (metis surj_pair)
  let ?n = "hundredths (of_nat bytes / of_nat u)"
  have "formatByteSize bytes = show_nat (?n div 100) @ ''.'' @ [digit_char (?n div 10 mod 10), digit_char (?n mod 10)] @ name"
    using assms by (simp add: formatByteSize_def u [symmetric] toFixed2_def Let_def)
  then show ?thesis using u hundredths_near [of "of_nat bytes / of_nat u"] by fastforce
qed

theorem byte_size_near_witness:
  "\<exists>n. \<bar>of_nat n / 100 - 3 / 2\<bar> \<le> (1 / 200 :: rat) \<and>
     formatByteSize 1536 = show_nat (n div 100) @ ''.'' @ [digit_char (n div 10 mod 10), digit_char (n mod 10)] @ ''kb''"
  using byte_size_near [of 1536] by (auto simp: byte_unit_def)

end
