(* ===== verification/Console.thy ===== *)
theory Console
  imports WebUtils VersionStore
begin

text \<open>
  What the pages of the web console share: the application as the queries of \<^verbatim>\<open>web/src/queries/AppsQueries.js\<close>
  select it, what a handler asks of the browser and the server, the poll of the status of an update (the
  \<^verbatim>\<open>Repeater\<close> with \<^verbatim>\<open>updateStatus\<close>), and the messages several pages treat alike.

  A page is a state and its handlers; a handler gives the next state and what it asks for.  An answer, a
  timer and a click are events.  Markup is left out: what a page shows is a value.
\<close>

section \<open>The application\<close>

record web_gitops =
  wg_enabled :: bool
  wg_provider :: "string option"
  wg_uri :: "string option"
  wg_hostname :: "string option"
  wg_path :: "string option"
  wg_branch :: "string option"
  wg_format :: "string option"
  wg_action :: "string option"
  wg_deployKey :: "string option"
  wg_isConnected :: bool

record web_cluster =
  wc_id :: string
  wc_title :: string
  wc_slug :: string

record web_downstream =
  wd_name :: string
  wd_links :: "(string \<times> string) list"
  wd_currentVersion :: "KotsVersion option"
  wd_pendingVersions :: "KotsVersion list"
  wd_pastVersions :: "KotsVersion list"
  wd_gitops :: "web_gitops option"
  wd_cluster :: "web_cluster option"

record web_app =
  wa_id :: string
  wa_name :: string
  wa_iconUri :: "string option"
  wa_slug :: string
  wa_currentSequence :: "int option"
  wa_hasPreflight :: bool
  wa_isAirgap :: bool
  wa_isConfigurable :: bool
  wa_isGitOpsSupported :: bool
  wa_allowRollback :: bool
  wa_allowSnapshots :: bool
  wa_currentVersion :: "KotsVersion option"
  wa_lastUpdateCheckAt :: "time option"
  wa_bundleCommand :: string
  wa_downstreams :: "web_downstream list"

section \<open>Handlers\<close>

text \<open>
  Queries and mutations by their names, requests by method and path, and calls of the functions a page is given.
\<close>

datatype web_effect =
    Query string "(string \<times> jsval) list"
  | Mutate string "(string \<times> jsval) list"
  | Fetch string string "(string \<times> jsval) list"
  | Callback string "jsval list"
  | Refetch string
  | Timer nat
  | OpenWindow string
  | PushPath string
  | ReplacePath string
  | Uncaught error

type_synonym 's handler = "'s \<Rightarrow> 's \<times> web_effect list"

definition jsopt :: "string option \<Rightarrow> jsval" where
  "jsopt s = (case s of None \<Rightarrow> JNull | Some t \<Rightarrow> JStr t)"

definition jsint :: "int option \<Rightarrow> jsval" where
  "jsint n = (case n of None \<Rightarrow> JNull | Some k \<Rightarrow> JNum k)"

text \<open>The number \<open>null\<close> is in an arithmetic expression is zero.\<close>

definition as_number :: "int option \<Rightarrow> int" where
  "as_number n = (case n of None \<Rightarrow> 0 | Some k \<Rightarrow> k)"

section \<open>Polling the status of an update\<close>

definition poll_query :: web_effect where
  "poll_query = Query ''getUpdateDownloadStatus'' []"

definition checker_start :: "repeater \<Rightarrow> repeater \<times> web_effect list" where
  "checker_start r = (start r, [poll_query])"

definition checker_settled :: "repeater \<Rightarrow> repeater" where
  "checker_settled r = r\<lparr>running := running r - 1, timers := Suc (timers r)\<rparr>"

definition checker_tick :: "repeater \<Rightarrow> repeater \<times> web_effect list" where
  "checker_tick r = (repeat (r\<lparr>timers := timers r - 1\<rparr>), if doNotRun r then [] else [poll_query])"

text \<open>The status as it is answered, with its message.\<close>

record download_status =
  dl_status :: string
  dl_message :: "string option"

section \<open>Messages\<close>

definition COMMON_ERRORS :: "(string \<times> string) list" where
  "COMMON_ERRORS =
     [(''HTTP 401'', ''Registry credentials are invalid''),
      (''invalid username/password'', ''Registry credentials are invalid''),
      (''no such host'', ''No such host'')]"

definition common_error :: "string \<Rightarrow> string" where
  "common_error message = foldl (\<lambda>m (errorString, text). if sublist errorString m then text else m) message COMMON_ERRORS"

text \<open>A message may be a report of progress in JSON.\<close>

definition progress_text :: "(string \<Rightarrow> jsval result) \<Rightarrow> string option \<Rightarrow> jsval" where
  "progress_text parse message =
     (case message of
        None \<Rightarrow> JNull
      | Some m \<Rightarrow>
          (case bindR (parse m) (\<lambda>v. if lodash_get v [''type''] = JStr ''progressReport''
                                 then js_get v ''compatibilityMessage'' else Inr (JStr m)) of
             Inl _ \<Rightarrow> JStr m
           | Inr t \<Rightarrow> t))"

definition short_text :: "jsval \<Rightarrow> jsval" where
  "short_text t =
     (case t of
        JStr s \<Rightarrow> if length s > 30 then JStr (take 30 s @ ''...'') else t
      | JArr xs \<Rightarrow> if length xs > 30 then JStr (js_to_string (JArr (take 30 xs)) @ ''...'') else t
      | _ \<Rightarrow> t)"

text \<open>
  What the pages take from packages: JSON, title case, dates and times as text, and the text of an error.
\<close>

record console_env =
  ce_parse :: "string \<Rightarrow> jsval result"
  ce_toTitleCase :: "string \<Rightarrow> string"
  ce_title :: "string \<Rightarrow> string"
  ce_date :: "string \<Rightarrow> time \<Rightarrow> string"
  ce_fromNow :: "time \<Rightarrow> string"
  ce_secondsAgo :: "time \<Rightarrow> int"
  ce_err_text :: "error \<Rightarrow> string"

definition first_downstream :: "web_app \<Rightarrow> web_downstream option" where
  "first_downstream app = (case wa_downstreams app of [] \<Rightarrow> None | d # _ \<Rightarrow> Some d)"

text \<open>The slug of the cluster of the first downstream, when it has one that is not empty.\<close>

definition cluster_slug_of :: "web_app \<Rightarrow> string option" where
  "cluster_slug_of app =
     (case first_downstream app of
        None \<Rightarrow> None
      | Some d \<Rightarrow> (case wd_cluster d of None \<Rightarrow> None | Some c \<Rightarrow> if wc_slug c = [] then None else Some (wc_slug c)))"

definition gitops_enabled :: "web_downstream \<Rightarrow> bool" where
  "gitops_enabled d = (case wd_gitops d of None \<Rightarrow> False | Some g \<Rightarrow> wg_enabled g)"

section \<open>Lemmas\<close>

lemma checker_settles: "running r \<noteq> 0 \<Longrightarrow> settles r (checker_settled r)"
  unfolding checker_settled_def by (rule handler_settles) simp

lemma checker_ticks: "timers r \<noteq> 0 \<Longrightarrow> settles r (fst (checker_tick r))"
  unfolding checker_tick_def fst_conv by (rule timer_fires) simp

lemma checker_tick_stopped [simp]: "doNotRun r \<Longrightarrow> snd (checker_tick r) = []"
  by (simp add: checker_tick_def)

lemma common_error_known: "common_error m \<in> insert m (snd ` set COMMON_ERRORS)"
  by (auto simp: common_error_def COMMON_ERRORS_def)

section \<open>Runs of a page\<close>

text \<open>
  A run from the state a page opens with: the events with the properties of the page at each, and all that
  was asked for.  An event needs to be enabled: a click its button, an answer its call.
\<close>

inductive page_run ::
  "'s \<Rightarrow> ('p \<Rightarrow> 's \<Rightarrow> 'e \<Rightarrow> bool) \<Rightarrow> ('p \<Rightarrow> 'e \<Rightarrow> 's handler) \<Rightarrow> ('p \<times> 'e) list \<Rightarrow> 's \<Rightarrow> web_effect list \<Rightarrow> bool"
  for initial enabled handle where
  opened: "page_run initial enabled handle [] initial []"
| event: "page_run initial enabled handle es s fx \<Longrightarrow> enabled p s e \<Longrightarrow> handle p e s = (s', fx') \<Longrightarrow>
          page_run initial enabled handle (es @ [(p, e)]) s' (fx @ fx')"

inductive_cases page_runE: "page_run initial enabled handle es s fx"

lemma run_step:
  "page_run initial enabled handle es s fx \<Longrightarrow> enabled p s e \<Longrightarrow>
   page_run initial enabled handle (es @ [(p, e)]) (fst (handle p e s)) (fx @ snd (handle p e s))"
  by (rule page_run.event) auto

text \<open>What every handler keeps, the events so far included, holds in every run.\<close>

locale kept_by_page =
  fixes initial :: 's and enabled :: "'p \<Rightarrow> 's \<Rightarrow> 'e \<Rightarrow> bool" and handle :: "'p \<Rightarrow> 'e \<Rightarrow> 's handler"
    and kept :: "('p \<times> 'e) list \<Rightarrow> 's \<Rightarrow> bool"
  assumes at_opening: "kept [] initial"
    and at_event: "kept es s \<Longrightarrow> enabled p s e \<Longrightarrow> handle p e s = (s', fx) \<Longrightarrow> kept (es @ [(p, e)]) s'"
begin

lemma in_run: "page_run initial enabled handle es s fx \<Longrightarrow> kept es s"
  by (induction rule: page_run.induct) (auto intro: at_opening at_event)

lemma after_event:
  "page_run initial enabled handle es s fx \<Longrightarrow> enabled p s e \<Longrightarrow> kept (es @ [(p, e)]) (fst (handle p e s))"
  by (rule in_run [OF run_step])

end

end
