(* ===== verification/VersionHistoryPage.thy ===== *)
theory VersionHistoryPage
  imports Console
begin

text \<open>
  The page of the versions of an application, \<^verbatim>\<open>web/src/components/apps/AppVersionHistory.jsx\<close>: its state, one
  function per handler, what it shows, and the runs of the page as sequences of events.  A version is
  deployed at a click; when its checks have not finished or have failed a dialog asks first.

  The state ends with the calls under way: deployments that have not settled, and queries sent again after them.
\<close>

section \<open>State\<close>

record history_props =
  hp_app :: web_app
  hp_slug :: string
  hp_history :: "KotsVersion list"
  hp_loading :: bool
  hp_isBundleUploading :: bool
  hp_updateCallback :: bool

record history_state =
  vh_viewReleaseNotes :: bool
  vh_logsLoading :: bool
  vh_logs :: jsval
  vh_selectedTab :: "string option"
  vh_showLogsModal :: bool
  vh_showDeployWarningModal :: bool
  vh_showSkipModal :: bool
  vh_versionToDeploy :: "KotsVersion option"
  vh_downstreamReleaseNotes :: "string option"
  vh_selectedDiffReleases :: bool
  vh_checkedReleasesToDiff :: "KotsVersion list"
  vh_uploadingAirgapFile :: bool
  vh_checkingForUpdates :: bool
  vh_checkingUpdateMessage :: "string option"
  vh_errorCheckingUpdate :: bool
  vh_checkingForUpdateError :: bool
  vh_noUpdateAvailiableText :: "string option"
  vh_airgapUploadError :: "string option"
  vh_showDiffOverlay :: bool
  vh_firstSequence :: jsval
  vh_secondSequence :: jsval
  vh_updateChecker :: repeater
  vh_uploadTotal :: nat
  vh_uploadSent :: nat
  vh_making :: nat
  vh_refetching :: nat

definition history_init :: history_state where
  "history_init =
     \<lparr>vh_viewReleaseNotes = False, vh_logsLoading = False, vh_logs = JNull, vh_selectedTab = None,
      vh_showLogsModal = False, vh_showDeployWarningModal = False, vh_showSkipModal = False,
      vh_versionToDeploy = None, vh_downstreamReleaseNotes = None, vh_selectedDiffReleases = False,
      vh_checkedReleasesToDiff = [], vh_uploadingAirgapFile = False, vh_checkingForUpdates = False,
      vh_checkingUpdateMessage = Some ''Checking for updates'', vh_errorCheckingUpdate = False,
      vh_checkingForUpdateError = False, vh_noUpdateAvailiableText = None, vh_airgapUploadError = None,
      vh_showDiffOverlay = False, vh_firstSequence = JNum 0, vh_secondSequence = JNum 0,
      vh_updateChecker = new_repeater, vh_uploadTotal = 0, vh_uploadSent = 0, vh_making = 0, vh_refetching = 0\<rparr>"

section \<open>Mounting and polling\<close>

definition history_start_checker :: "history_state handler" where
  "history_start_checker s =
     (let (r, fx) = checker_start (vh_updateChecker s) in (s\<lparr>vh_updateChecker := r\<rparr>, fx))"

definition history_componentDidMount :: "string \<Rightarrow> string option \<Rightarrow> string option \<Rightarrow> history_state handler" where
  "history_componentDidMount url firstSequence secondSequence s =
     (let (s', fx) = history_start_checker s in
      case (firstSequence, secondSequence) of
        (Some a, Some b) \<Rightarrow>
          if sublist ''/diff'' url
          then (s'\<lparr>vh_showDiffOverlay := True, vh_firstSequence := JStr a, vh_secondSequence := JStr b\<rparr>, fx)
          else (s', fx)
      | _ \<Rightarrow> (s', fx))"

definition history_componentWillUnmount :: "history_state handler" where
  "history_componentWillUnmount s = (s\<lparr>vh_updateChecker := stop (vh_updateChecker s)\<rparr>, [])"

definition history_checker_timer :: "history_state handler" where
  "history_checker_timer s =
     (let (r, fx) = checker_tick (vh_updateChecker s) in (s\<lparr>vh_updateChecker := r\<rparr>, fx))"

definition history_settle :: "history_state \<Rightarrow> history_state" where
  "history_settle s = s\<lparr>vh_updateChecker := checker_settled (vh_updateChecker s)\<rparr>"

text \<open>
  An answer that is \<open>null\<close> raises at its second use; the error is caught, the first state is kept.
\<close>

definition history_updateStatus :: "history_props \<Rightarrow> download_status option \<Rightarrow> history_state handler" where
  "history_updateStatus p answer s =
     (case answer of
        None \<Rightarrow> (history_settle (s\<lparr>vh_checkingForUpdates := True, vh_checkingUpdateMessage := None\<rparr>), [])
      | Some st \<Rightarrow>
          if dl_status st \<noteq> ''running'' \<and> \<not> hp_isBundleUploading p
          then (history_settle (s\<lparr>vh_updateChecker := stop (vh_updateChecker s), vh_checkingForUpdates := False,
                  vh_checkingForUpdateError := (dl_status st = ''failed''), vh_checkingUpdateMessage := dl_message st\<rparr>),
                (if hp_updateCallback p then [Callback ''updateCallback'' []] else []) @
                (if wa_downstreams (hp_app p) = [] then [] else [Refetch ''getKotsDownstreamHistory'']))
          else (history_settle (s\<lparr>vh_checkingForUpdates := True, vh_checkingUpdateMessage := dl_message st\<rparr>), []))"

definition history_updateStatus_failed :: "history_state handler" where
  "history_updateStatus_failed s = (history_settle s, [])"

section \<open>Checking for updates\<close>

definition history_onCheckForUpdates :: "history_props \<Rightarrow> history_state handler" where
  "history_onCheckForUpdates p s =
     (s\<lparr>vh_checkingForUpdates := True, vh_checkingForUpdateError := False, vh_errorCheckingUpdate := False,
        vh_checkingUpdateMessage := Some []\<rparr>,
      [Fetch ''POST'' (''/app/'' @ wa_slug (hp_app p) @ ''/updatecheck'') []])"

text \<open>The request failed, or its answer could not be read; an answer that is not ok; an answer.\<close>

definition history_check_failed :: "string \<Rightarrow> history_state handler" where
  "history_check_failed err s =
     (s\<lparr>vh_errorCheckingUpdate := True, vh_checkingForUpdates := False, vh_checkingUpdateMessage := Some err\<rparr>, [])"

definition history_check_not_ok :: "string \<Rightarrow> history_state handler" where
  "history_check_not_ok body s =
     (s\<lparr>vh_errorCheckingUpdate := True, vh_checkingForUpdates := False, vh_checkingUpdateMessage := Some body\<rparr>, [])"

definition history_check_ok :: "console_env \<Rightarrow> jsval result \<Rightarrow> history_state handler" where
  "history_check_ok env body s =
     (let refresh = Callback ''refreshAppData'' [] in
      case bindR body (\<lambda>response. js_get response ''availableUpdates'') of
        Inl e \<Rightarrow> (let (s', fx) = history_check_failed (ce_err_text env e) s in (s', refresh # fx))
      | Inr n \<Rightarrow>
          if n = JNum 0
          then (s\<lparr>vh_checkingForUpdates := False,
                  vh_noUpdateAvailiableText := Some ''There are no updates available''\<rparr>, [refresh, Timer 3000])
          else (let (s', fx) = history_start_checker s in (s', refresh # fx)))"

definition history_text_timer :: "history_state handler" where
  "history_text_timer s = (s\<lparr>vh_noUpdateAvailiableText := None\<rparr>, [])"

section \<open>Uploading a bundle\<close>

definition history_onDropBundle :: "history_props \<Rightarrow> history_state handler" where
  "history_onDropBundle p s =
     (s\<lparr>vh_uploadingAirgapFile := True, vh_checkingForUpdates := True, vh_airgapUploadError := None,
        vh_checkingForUpdateError := False, vh_checkingUpdateMessage := Some []\<rparr>,
      [Callback ''toggleIsBundleUploading'' [JBool True], Fetch ''PUT'' ''/app/airgap'' [(''appId'', JStr (wa_id (hp_app p)))]])"

definition history_upload_progress :: "nat \<Rightarrow> nat \<Rightarrow> history_state handler" where
  "history_upload_progress all sent s = (s\<lparr>vh_uploadSent := sent, vh_uploadTotal := all\<rparr>, [])"

definition history_upload_error :: "history_state handler" where
  "history_upload_error s =
     (s\<lparr>vh_uploadingAirgapFile := False, vh_checkingForUpdates := False, vh_uploadSent := 0, vh_uploadTotal := 0,
        vh_airgapUploadError := Some ''Error uploading bundle, please try again''\<rparr>,
      [Callback ''toggleIsBundleUploading'' [JBool False]])"

definition history_upload_loadend :: "nat \<Rightarrow> string \<Rightarrow> history_state handler" where
  "history_upload_loadend status response s =
     (let (s', fx) =
        (if status = 202
         then (let (s1, fx) = history_start_checker s in
               (s1\<lparr>vh_uploadingAirgapFile := False, vh_uploadSent := 0, vh_uploadTotal := 0\<rparr>, fx))
         else (s\<lparr>vh_uploadingAirgapFile := False, vh_checkingForUpdates := False,
                 vh_airgapUploadError := Some (''Error uploading airgap bundle: '' @ response),
                 vh_uploadSent := 0, vh_uploadTotal := 0\<rparr>, [])) in
      (s', fx @ [Callback ''toggleIsBundleUploading'' [JBool False]]))"

definition history_onProgressError :: "string \<Rightarrow> history_state handler" where
  "history_onProgressError airgapUploadError s =
     (s\<lparr>vh_airgapUploadError := Some (common_error airgapUploadError), vh_checkingForUpdates := False,
        vh_uploadSent := 0, vh_uploadTotal := 0\<rparr>, [])"

section \<open>Deploying\<close>

text \<open>A version waiting to be deployed whose checks have failed; results that are not JSON raise.\<close>

definition version_failing :: "console_env \<Rightarrow> KotsVersion \<Rightarrow> bool result" where
  "version_failing env v =
     (if kv_status v = Some ''pending'' \<and> truthy_str (kv_preflightResult v)
      then bindR (ce_parse env (str_or_empty (kv_preflightResult v))) (\<lambda>r.
           bindR (web_getPreflightResultState r) (\<lambda>preflightState. Inr (preflightState = ''fail'')))
      else Inr False)"

definition make_current :: "history_props \<Rightarrow> KotsVersion \<Rightarrow> string \<Rightarrow> web_effect" where
  "make_current p v clusterSlug =
     Callback ''makeCurrentVersion'' [JStr (hp_slug p), JNum (kv_sequence v), JStr clusterSlug]"

definition history_deployVersion ::
  "console_env \<Rightarrow> history_props \<Rightarrow> KotsVersion option \<Rightarrow> bool \<Rightarrow> history_state handler" where
  "history_deployVersion env p ver force s =
     (case cluster_slug_of (hp_app p) of
        None \<Rightarrow> (s, [])
      | Some clusterSlug \<Rightarrow>
          (case ver of
             None \<Rightarrow> (s, [Uncaught TypeError])
           | Some v \<Rightarrow>
               if \<not> force \<and> kv_status v = Some ''pending_preflight''
               then (s\<lparr>vh_showSkipModal := True, vh_versionToDeploy := Some v\<rparr>, [])
               else (case (if force then Inr False else version_failing env v) of
                       Inl e \<Rightarrow> (s, [Uncaught e])
                     | Inr True \<Rightarrow> (s\<lparr>vh_showDeployWarningModal := True, vh_versionToDeploy := Some v\<rparr>, [])
                     | Inr False \<Rightarrow> (s\<lparr>vh_making := Suc (vh_making s)\<rparr>, [make_current p v clusterSlug]))))"

text \<open>The version is current; the versions have been read again; either may fail.\<close>

definition history_made :: "bool \<Rightarrow> history_state handler" where
  "history_made ok s =
     (if ok then (s\<lparr>vh_making := vh_making s - 1, vh_refetching := Suc (vh_refetching s)\<rparr>, [Refetch ''getKotsDownstreamHistory''])
      else (s\<lparr>vh_making := vh_making s - 1\<rparr>, [Uncaught (JsError ''makeCurrentVersion'')]))"

definition history_refetched :: "history_props \<Rightarrow> bool \<Rightarrow> history_state handler" where
  "history_refetched p ok s =
     (if ok then (s\<lparr>vh_refetching := vh_refetching s - 1, vh_versionToDeploy := None\<rparr>,
                  if hp_updateCallback p then [Callback ''updateCallback'' []] else [])
      else (s\<lparr>vh_refetching := vh_refetching s - 1\<rparr>, [Uncaught (JsError ''refetch'')]))"

definition history_onForceDeployClick :: "console_env \<Rightarrow> history_props \<Rightarrow> history_state handler" where
  "history_onForceDeployClick env p s =
     history_deployVersion env p (vh_versionToDeploy s) True
       (s\<lparr>vh_showSkipModal := False, vh_showDeployWarningModal := False\<rparr>)"

text \<open>What the row of a version offers.\<close>

datatype version_action =
    NothingToCommit
  | NoAction
  | ViewCommit string
  | ActionButton (ab_secondary: bool) (ab_disabled: bool) (ab_configures: bool) (ab_label: string)

definition is_past :: "web_downstream \<Rightarrow> KotsVersion \<Rightarrow> bool" where
  "is_past d v \<longleftrightarrow> find (\<lambda>w. kv_sequence w = kv_sequence v) (wd_pastVersions d) \<noteq> None"

definition is_current :: "web_downstream \<Rightarrow> KotsVersion \<Rightarrow> bool" where
  "is_current d v \<longleftrightarrow> (case wd_currentVersion d of None \<Rightarrow> False | Some w \<Rightarrow> kv_sequence v = kv_sequence w)"

definition renderVersionAction :: "web_app \<Rightarrow> web_downstream \<Rightarrow> KotsVersion \<Rightarrow> version_action" where
  "renderVersionAction app d v =
     (if gitops_enabled d
      then (if kv_gitDeployable v = Some False then NothingToCommit
            else if \<not> truthy_str (kv_commitUrl v) then NoAction
            else ViewCommit (str_or_empty (kv_commitUrl v)))
      else (let needsConfiguration = (kv_status v = Some ''pending_config'') in
            if \<not> is_past d v \<or> wa_allowRollback app
            then ActionButton (is_past d v \<or> needsConfiguration) (is_current d v) needsConfiguration
                   (if needsConfiguration then ''Configure''
                    else if wd_currentVersion d = None then ''Deploy''
                    else if is_past d v then ''Rollback''
                    else if is_current d v then ''Deployed'' else ''Deploy'')
            else NoAction))"

definition history_action_click :: "console_env \<Rightarrow> history_props \<Rightarrow> web_downstream \<Rightarrow> KotsVersion \<Rightarrow> history_state handler" where
  "history_action_click env p d v s =
     (case renderVersionAction (hp_app p) d v of
        ViewCommit url \<Rightarrow> (s, [OpenWindow url])
      | ActionButton _ disabled configures _ \<Rightarrow>
          if disabled then (s, [])
          else if configures
          then (s, [PushPath (''/app/'' @ wa_slug (hp_app p) @ ''/config/'' @ show_int (kv_sequence v))])
          else history_deployVersion env p (Some v) False s
      | _ \<Rightarrow> (s, []))"

section \<open>Dialogs\<close>

definition history_showReleaseNotes :: "history_state handler" where
  "history_showReleaseNotes s = (s\<lparr>vh_viewReleaseNotes := True\<rparr>, [])"

definition history_hideReleaseNotes :: "history_state handler" where
  "history_hideReleaseNotes s = (s\<lparr>vh_viewReleaseNotes := False\<rparr>, [])"

definition history_showDownstreamReleaseNotes :: "string option \<Rightarrow> history_state handler" where
  "history_showDownstreamReleaseNotes notes s = (s\<lparr>vh_downstreamReleaseNotes := notes\<rparr>, [])"

definition history_hideDownstreamReleaseNotes :: "history_state handler" where
  "history_hideDownstreamReleaseNotes s = (s\<lparr>vh_downstreamReleaseNotes := None\<rparr>, [])"

definition history_hideLogsModal :: "history_state handler" where
  "history_hideLogsModal s = (s\<lparr>vh_showLogsModal := False\<rparr>, [])"

definition history_hideDeployWarningModal :: "history_state handler" where
  "history_hideDeployWarningModal s = (s\<lparr>vh_showDeployWarningModal := False\<rparr>, [])"

definition history_hideSkipModal :: "history_state handler" where
  "history_hideSkipModal s = (s\<lparr>vh_showSkipModal := False\<rparr>, [])"

definition history_hideDiffOverlay :: "history_state handler" where
  "history_hideDiffOverlay s = (s\<lparr>vh_showDiffOverlay := False\<rparr>, [])"

section \<open>Logs\<close>

definition history_handleViewLogs :: "history_props \<Rightarrow> KotsVersion \<Rightarrow> history_state handler" where
  "history_handleViewLogs p v s =
     (case cluster_slug_of (hp_app p) of
        None \<Rightarrow> (s, [])
      | Some clusterSlug \<Rightarrow>
          (s\<lparr>vh_logsLoading := True, vh_showLogsModal := True\<rparr>,
           [Query ''getKotsDownstreamOutput''
              [(''appSlug'', JStr (hp_slug p)), (''clusterSlug'', JStr clusterSlug), (''sequence'', JNum (kv_sequence v))]]))"

fun object_keys :: "jsval \<Rightarrow> string list result" where
  "object_keys JUndef = Inl TypeError"
| "object_keys JNull = Inl TypeError"
| "object_keys (JObj kvs) = Inr (map fst kvs)"
| "object_keys v = Inr []"

text \<open>An answer without an object is caught as an error is.\<close>

definition history_logs_answered :: "jsval result \<Rightarrow> history_state handler" where
  "history_logs_answered answer s =
     (case bindR answer object_keys of
        Inl e \<Rightarrow> (s\<lparr>vh_logsLoading := False\<rparr>, [])
      | Inr ks \<Rightarrow> (s\<lparr>vh_logs := projr answer, vh_selectedTab := (case ks of [] \<Rightarrow> None | k # _ \<Rightarrow> Some k),
                     vh_logsLoading := False\<rparr>, []))"

definition history_select_tab :: "string \<Rightarrow> history_state handler" where
  "history_select_tab tab s = (s\<lparr>vh_selectedTab := Some tab\<rparr>, [])"

text \<open>The tabs with whether each is the active one.\<close>

definition renderLogsTabs :: "history_state \<Rightarrow> (string \<times> bool) list" where
  "renderLogsTabs s =
     (case object_keys (vh_logs s) of
        Inl _ \<Rightarrow> []
      | Inr ks \<Rightarrow> map (\<lambda>tab. (tab, vh_selectedTab s = Some tab)) (filter (\<lambda>tab. tab \<noteq> ''renderError'') ks))"

section \<open>Comparing versions\<close>

definition history_onSelectReleasesToDiff :: "history_state handler" where
  "history_onSelectReleasesToDiff s = (s\<lparr>vh_selectedDiffReleases := True\<rparr>, [])"

definition history_onCloseReleasesToDiff :: "history_state handler" where
  "history_onCloseReleasesToDiff s =
     (s\<lparr>vh_selectedDiffReleases := False, vh_checkedReleasesToDiff := [], vh_showDiffOverlay := False\<rparr>, [])"

definition history_handleSelectReleasesToDiff :: "KotsVersion \<Rightarrow> bool \<Rightarrow> history_state handler" where
  "history_handleSelectReleasesToDiff selectedRelease isChecked s =
     (if isChecked
      then (s\<lparr>vh_checkedReleasesToDiff := take 2 (selectedRelease # vh_checkedReleasesToDiff s)\<rparr>, [])
      else (s\<lparr>vh_checkedReleasesToDiff :=
                filter (\<lambda>r. kv_parentSequence r \<noteq> kv_parentSequence selectedRelease) (vh_checkedReleasesToDiff s)\<rparr>, []))"

definition is_checked :: "history_state \<Rightarrow> KotsVersion \<Rightarrow> bool" where
  "is_checked s v \<longleftrightarrow> find (\<lambda>r. kv_parentSequence r = kv_parentSequence v) (vh_checkedReleasesToDiff s) \<noteq> None"

definition history_row_click :: "KotsVersion \<Rightarrow> history_state handler" where
  "history_row_click v s =
     (if vh_selectedDiffReleases s then history_handleSelectReleasesToDiff v (\<not> is_checked s v) s else (s, []))"

text \<open>Sorting works in place: the state changes its order.\<close>

definition sorted_checked :: "history_state \<Rightarrow> history_state" where
  "sorted_checked s =
     (if length (vh_checkedReleasesToDiff s) = 2
      then s\<lparr>vh_checkedReleasesToDiff := sort_key (\<lambda>r. as_number (kv_parentSequence r)) (vh_checkedReleasesToDiff s)\<rparr>
      else s)"

definition getDiffSequences :: "history_state \<Rightarrow> (jsval \<times> jsval) \<times> history_state" where
  "getDiffSequences s =
     (let s' = sorted_checked s in
      (case vh_checkedReleasesToDiff s' of
         [r1, r2] \<Rightarrow> (jsint (kv_parentSequence r1), jsint (kv_parentSequence r2))
       | _ \<Rightarrow> (JNum 0, JNum 0), s'))"

definition getDiffCommitHashes :: "history_state \<Rightarrow> (string \<times> string) \<times> history_state" where
  "getDiffCommitHashes s =
     (let s' = sorted_checked s in
      (case vh_checkedReleasesToDiff s' of
         [r1, r2] \<Rightarrow> (getCommitHashFromUrl (kv_commitUrl r1), getCommitHashFromUrl (kv_commitUrl r2))
       | _ \<Rightarrow> ([], []), s'))"

definition diff_disabled :: "history_state \<Rightarrow> bool" where
  "diff_disabled s \<longleftrightarrow> length (vh_checkedReleasesToDiff s) \<noteq> 2 \<or> vh_showDiffOverlay s"

definition history_diff_click :: "web_downstream option \<Rightarrow> history_state handler" where
  "history_diff_click downstream s =
     (case downstream of
        Some d \<Rightarrow>
          if gitops_enabled d
          then (let ((firstHash, secondHash), s') = getDiffCommitHashes s in
                (s', if firstHash \<noteq> [] \<and> secondHash \<noteq> []
                     then [OpenWindow (getGitProviderDiffUrl (js_to_string (case wd_gitops d of None \<Rightarrow> JUndef | Some g \<Rightarrow> jsopt (wg_uri g)))
                             (case wd_gitops d of None \<Rightarrow> [] | Some g \<Rightarrow> str_or_empty (wg_provider g)) firstHash secondHash)]
                     else []))
          else (let ((firstSequence, secondSequence), s') = getDiffSequences s in
                (s'\<lparr>vh_showDiffOverlay := True, vh_firstSequence := firstSequence, vh_secondSequence := secondSequence\<rparr>, []))
      | None \<Rightarrow>
          (let ((firstSequence, secondSequence), s') = getDiffSequences s in
           (s'\<lparr>vh_showDiffOverlay := True, vh_firstSequence := firstSequence, vh_secondSequence := secondSequence\<rparr>, [])))"

text \<open>The summary of the changes of one version opens its comparison with the one before.\<close>

definition history_summary_click :: "web_downstream \<Rightarrow> KotsVersion \<Rightarrow> history_state handler" where
  "history_summary_click d v s =
     (if gitops_enabled d then (s, [])
      else (s\<lparr>vh_showDiffOverlay := True, vh_firstSequence := JNum (as_number (kv_parentSequence v) - 1),
              vh_secondSequence := jsint (kv_parentSequence v)\<rparr>, []))"

section \<open>What the page shows\<close>

datatype diff_view = NoSummary | NoChanges | Changes string string string

text \<open>The counts are numbers, as the program that writes the summary makes them.\<close>

definition getVersionDiffSummary :: "console_env \<Rightarrow> KotsVersion \<Rightarrow> jsval result" where
  "getVersionDiffSummary env v =
     (if \<not> truthy_str (kv_diffSummary v) then Inr JNull else ce_parse env (str_or_empty (kv_diffSummary v)))"

definition positive :: "jsval \<Rightarrow> bool" where
  "positive v = (case v of JNum n \<Rightarrow> n > 0 | _ \<Rightarrow> False)"

definition renderSourceAndDiff :: "console_env \<Rightarrow> KotsVersion \<Rightarrow> diff_view result" where
  "renderSourceAndDiff env v =
     bindR (getVersionDiffSummary env v) (\<lambda>diffSummary.
       if \<not> truthy diffSummary then Inr NoSummary
       else bindR (js_get diffSummary ''filesChanged'') (\<lambda>files.
            if \<not> positive files then Inr NoChanges
            else bindR (js_get diffSummary ''linesAdded'') (\<lambda>added.
                 bindR (js_get diffSummary ''linesRemoved'') (\<lambda>removed.
                   Inr (Changes (js_to_string files) (js_to_string added) (js_to_string removed))))))"

datatype preflight_block = NoBlock | RunningBlock | ErrorsLink string | PreflightsLink string

definition preflight_link :: "history_props \<Rightarrow> web_downstream \<Rightarrow> KotsVersion \<Rightarrow> string" where
  "preflight_link p d v =
     ''/app/'' @ hp_slug p @ ''/downstreams/'' @ (case wd_cluster d of None \<Rightarrow> ''undefined'' | Some c \<Rightarrow> wc_slug c) @
     ''/version-history/preflight/'' @ show_int (kv_sequence v)"

text \<open>The links of a version, whatever its place in the history, and the block that is shown.\<close>

definition preflight_links :: "history_props \<Rightarrow> web_downstream \<Rightarrow> KotsVersion \<Rightarrow> bool \<Rightarrow> preflight_block \<Rightarrow> preflight_block" where
  "preflight_links p d v preflightsFailed block =
     (if preflightsFailed then ErrorsLink (preflight_link p d v)
      else if kv_status v \<noteq> Some ''pending_config'' then PreflightsLink (preflight_link p d v)
      else block)"

definition preflight_block_of :: "history_props \<Rightarrow> web_downstream \<Rightarrow> KotsVersion \<Rightarrow> bool \<Rightarrow> preflight_block" where
  "preflight_block_of p d v preflightsFailed =
     (let block = (if is_past d v \<and> wa_hasPreflight (hp_app p) then preflight_links p d v preflightsFailed NoBlock else NoBlock) in
      if kv_status v = Some ''pending_preflight'' then RunningBlock
      else if wa_hasPreflight (hp_app p) then preflight_links p d v preflightsFailed block
      else block)"

record status_view =
  sv_icons :: "string list"
  sv_colors :: "string list"
  sv_text :: string
  sv_block :: preflight_block
  sv_viewLogs :: bool

definition when_classes :: "(bool \<times> string) list \<Rightarrow> string list" where
  "when_classes cs = map snd (filter fst cs)"

text \<open>The first underscore becomes a space.\<close>

fun replace_underscore :: "string \<Rightarrow> string" where
  "replace_underscore [] = []"
| "replace_underscore (c # cs) = (if c = CHR ''_'' then CHR '' '' # cs else c # replace_underscore cs)"

definition pending_icons :: "string option \<Rightarrow> bool \<Rightarrow> string list" where
  "pending_icons st preflightsFailed =
     when_classes
       [(st \<in> {Some ''deployed'', Some ''merged'', Some ''pending''}, ''checkmark-icon''),
        (st = Some ''opened'', ''exclamationMark--icon''),
        (st = Some ''closed'', ''grayCircleMinus--icon''),
        (st = Some ''failed'' \<or> preflightsFailed, ''error-small'')]"

definition past_icons :: "string option \<Rightarrow> string list" where
  "past_icons st =
     when_classes
       [(st \<in> {Some ''deployed'', Some ''merged''}, ''analysis-gray_checkmark''),
        (st = Some ''opened'', ''exclamationMark--icon''),
        (st \<in> {Some ''closed'', Some ''pending''}, ''grayCircleMinus--icon''),
        (st = Some ''failed'', ''error-small'')]"

definition status_colors :: "string option \<Rightarrow> bool \<Rightarrow> string list" where
  "status_colors st preflightsFailed =
     when_classes
       [(st \<in> {Some ''deployed'', Some ''merged''}, ''u-color--nevada''),
        (st = Some ''opened'', ''u-color--orange''),
        (st \<in> {Some ''closed'', Some ''pending'', Some ''pending_preflight''}, ''u-color--dustyGray''),
        (st = Some ''failed'' \<or> preflightsFailed, ''u-color--red'')]"

text \<open>A status that is \<open>null\<close> has no title case: the page raises.\<close>

definition pending_text :: "console_env \<Rightarrow> string option \<Rightarrow> bool \<Rightarrow> string result" where
  "pending_text env st preflightsFailed =
     bindR (if st = Some ''pending_preflight'' then Inr ''Running checks''
            else if preflightsFailed then Inr ''Checks failed''
            else if st = Some ''pending'' then Inr ''Ready to deploy''
            else (case st of None \<Rightarrow> Inl TypeError | Some t \<Rightarrow> Inr t))
       (\<lambda>t. Inr (replace_underscore (ce_toTitleCase env t)))"

definition past_text :: "string option \<Rightarrow> string" where
  "past_text st =
     (if st = Some ''deployed'' then ''Previously Deployed''
      else if st = Some ''pending'' then ''Skipped'' else if st = Some ''failed'' then ''Failed'' else [])"

definition renderVersionStatus :: "console_env \<Rightarrow> history_props \<Rightarrow> KotsVersion \<Rightarrow> status_view option result" where
  "renderVersionStatus env p v =
     (case first_downstream (hp_app p) of
        None \<Rightarrow> Inr None
      | Some d \<Rightarrow>
          bindR (version_failing env v) (\<lambda>preflightsFailed.
            if is_past d v
            then Inr (Some \<lparr>sv_icons = past_icons (kv_status v), sv_colors = status_colors (kv_status v) False,
                   sv_text = past_text (kv_status v), sv_block = preflight_block_of p d v preflightsFailed,
                   sv_viewLogs = (kv_status v = Some ''failed'')\<rparr>)
            else bindR (pending_text env (kv_status v) preflightsFailed) (\<lambda>t.
                 Inr (Some \<lparr>sv_icons = pending_icons (kv_status v) preflightsFailed,
                   sv_colors = status_colors (kv_status v) preflightsFailed, sv_text = t,
                   sv_block = preflight_block_of p d v preflightsFailed, sv_viewLogs = (kv_status v = Some ''failed'')\<rparr>))))"

datatype status_cell = ViewPreflights string | VersionStatus "status_view option"

definition renderStatusCell :: "console_env \<Rightarrow> history_props \<Rightarrow> web_downstream \<Rightarrow> KotsVersion \<Rightarrow> status_cell result" where
  "renderStatusCell env p d v =
     (if gitops_enabled d then Inr (ViewPreflights (preflight_link p d v))
      else bindR (renderVersionStatus env p v) (\<lambda>x. Inr (VersionStatus x)))"

text \<open>One row of the history.\<close>

record version_row =
  vr_classes :: "string list"
  vr_checkbox :: "bool option"
  vr_environment :: string
  vr_received :: string
  vr_upstream :: string
  vr_sequence :: int
  vr_releaseNotes :: "string option"
  vr_source :: "string option"
  vr_diff :: diff_view
  vr_status :: status_cell
  vr_action :: version_action
  vr_deployed :: string

definition row_date :: string where
  "row_date = ''MM/DD/YY @ hh:mm a''"

definition renderRow :: "console_env \<Rightarrow> history_props \<Rightarrow> history_state \<Rightarrow> web_downstream \<Rightarrow> KotsVersion \<Rightarrow> version_row result" where
  "renderRow env p s d v =
     bindR (renderSourceAndDiff env v) (\<lambda>diff.
     bindR (renderStatusCell env p d v) (\<lambda>status.
       Inr \<lparr>vr_classes = when_classes
              [(True, ''VersionHistoryDeploymentRow ''), (True, js_to_string (jsopt (kv_status v))),
               (vh_selectedDiffReleases s, ''overlay''), (is_checked s v, ''selected''),
               (ce_secondsAgo env (kv_createdOn v) < 10, ''is-new'')],
            vr_checkbox = (if vh_selectedDiffReleases s then Some (is_checked s v) else None),
            vr_environment = ce_title env (wd_name d),
            vr_received = ce_date env row_date (kv_createdOn v),
            vr_upstream = kv_title v,
            vr_sequence = kv_sequence v,
            vr_releaseNotes = (if kv_releaseNotes v = [] then None else Some (kv_releaseNotes v)),
            vr_source = kv_source v,
            vr_diff = diff,
            vr_status = status,
            vr_action = renderVersionAction (hp_app p) d v,
            vr_deployed = (case kv_deployedAt v of None \<Rightarrow> ''N/A'' | Some t \<Rightarrow> ce_date env row_date t)\<rparr>))"

text \<open>The texts about updates.\<close>

datatype update_text =
    NoText
  | ErrorText string
  | UploadProgress nat nat
  | UnknownProgress
  | StatusText jsval
  | LastChecked string

definition checking_text :: "console_env \<Rightarrow> history_state \<Rightarrow> jsval" where
  "checking_text env s =
     (let t = progress_text (ce_parse env) (vh_checkingUpdateMessage s) in
      if vh_checkingForUpdateError s then t else short_text t)"

definition history_error_text :: "history_state \<Rightarrow> string" where
  "history_error_text s =
     (if truthy_str (vh_checkingUpdateMessage s) then str_or_empty (vh_checkingUpdateMessage s)
      else ''Error checking for updates, please try again'')"

definition history_update_text :: "console_env \<Rightarrow> history_props \<Rightarrow> history_state \<Rightarrow> update_text" where
  "history_update_text env p s =
     (if truthy_str (vh_airgapUploadError s) then ErrorText (str_or_empty (vh_airgapUploadError s))
      else if vh_uploadingAirgapFile s then UploadProgress (vh_uploadTotal s) (vh_uploadSent s)
      else if hp_isBundleUploading p then UnknownProgress
      else if vh_errorCheckingUpdate s then ErrorText (history_error_text s)
      else if vh_checkingForUpdates s then StatusText (checking_text env s)
      else (case wa_lastUpdateCheckAt (hp_app p) of
              Some t \<Rightarrow> if truthy_str (vh_noUpdateAvailiableText s) then NoText else LastChecked (ce_fromNow env t)
            | None \<Rightarrow> NoText))"

datatype update_control = Spinner | DropZone | CheckButton | NoControl

definition history_control :: "history_props \<Rightarrow> history_state \<Rightarrow> update_control" where
  "history_control p s =
     (if vh_checkingForUpdates s \<and> \<not> hp_isBundleUploading p then Spinner
      else if wa_isAirgap (hp_app p) \<and> \<not> hp_isBundleUploading p then DropZone
      else if \<not> wa_isAirgap (hp_app p) \<and> \<not> vh_checkingForUpdates s then CheckButton
      else NoControl)"

datatype diff_button = NoDiffButton | DiffVersions | CancelOrDiff bool

definition renderDiffBtn :: "history_props \<Rightarrow> history_state \<Rightarrow> diff_button" where
  "renderDiffBtn p s =
     (if length (hp_history p) \<le> 1 then NoDiffButton
      else if vh_selectedDiffReleases s then CancelOrDiff (diff_disabled s) else DiffVersions)"

definition history_polls :: "history_props \<Rightarrow> bool" where
  "history_polls p = isAwaitingResults (map kv_status (hp_history p))"

text \<open>The version that is deployed, above the history.\<close>

record deployed_view =
  dv_class :: string
  dv_environment :: string
  dv_received :: string
  dv_upstream :: string
  dv_sequence :: int
  dv_releaseNotes :: "string option"
  dv_source :: "string option"
  dv_diff :: diff_view
  dv_status :: "status_view option"
  dv_editConfig :: "string option"
  dv_deployedAt :: string

definition renderDeployed ::
  "console_env \<Rightarrow> history_props \<Rightarrow> web_downstream \<Rightarrow> KotsVersion \<Rightarrow> deployed_view result" where
  "renderDeployed env p d v =
     bindR (renderSourceAndDiff env v) (\<lambda>diff.
     bindR (renderVersionStatus env p v) (\<lambda>status.
       Inr \<lparr>dv_class = js_to_string (jsopt (kv_status v)),
            dv_environment = ce_title env (wd_name d),
            dv_received = ce_date env row_date (kv_createdOn v),
            dv_upstream = kv_title v,
            dv_sequence = kv_sequence v,
            dv_releaseNotes = (if kv_releaseNotes v = [] then None else Some (kv_releaseNotes v)),
            dv_source = kv_source v,
            dv_diff = diff,
            dv_status = status,
            dv_editConfig = (if wa_isConfigurable (hp_app p) then Some (''/app/'' @ hp_slug p @ ''/config'') else None),
            dv_deployedAt = (case kv_deployedAt v of None \<Rightarrow> ''Invalid date'' | Some t \<Rightarrow> ce_date env row_date t)\<rparr>))"

text \<open>What the dialog of the logs shows.\<close>

datatype logs_view = LogsLoading | RenderError jsval | LogTab "(string \<times> bool) list" jsval

definition renderLogs :: "history_state \<Rightarrow> logs_view" where
  "renderLogs s =
     (case (vh_logs s, vh_selectedTab s) of
        (JObj kvs, Some tab) \<Rightarrow>
          if tab = [] \<or> vh_logsLoading s then LogsLoading
          else if truthy (own_prop kvs ''renderError'') then RenderError (own_prop kvs ''renderError'')
          else LogTab (renderLogsTabs s) (own_prop kvs tab)
      | _ \<Rightarrow> LogsLoading)"

record history_view =
  hv_title :: string
  hv_icon :: "string option"
  hv_version :: "string \<times> string"
  hv_released :: "string option"
  hv_notesLink :: bool
  hv_control :: update_control
  hv_updateText :: update_text
  hv_noUpdate :: "string option"
  hv_errorBox :: "jsval option"
  hv_deployed :: "deployed_view option"
  hv_diffButton :: diff_button
  hv_rows :: "version_row list"
  hv_overlay :: "(jsval \<times> jsval) option"
  hv_notes :: "string option"
  hv_logs :: "logs_view option"
  hv_deployWarning :: bool
  hv_skipWarning :: bool
  hv_downstreamNotes :: "string option"

definition history_released :: "console_env \<Rightarrow> web_app \<Rightarrow> string option" where
  "history_released env app =
     (case wa_currentVersion app of
        None \<Rightarrow> None
      | Some v \<Rightarrow> (case kv_deployedAt v of None \<Rightarrow> None | Some t \<Rightarrow> Some (''Released on '' @ ce_date env ''MMMM D, YYYY'' t)))"

definition current_notes :: "web_app \<Rightarrow> string" where
  "current_notes app = (case wa_currentVersion app of None \<Rightarrow> [] | Some v \<Rightarrow> kv_releaseNotes v)"

definition history_deployed :: "console_env \<Rightarrow> history_props \<Rightarrow> deployed_view option result" where
  "history_deployed env p =
     (case first_downstream (hp_app p) of
        None \<Rightarrow> Inr None
      | Some d \<Rightarrow>
          (case wd_currentVersion d of
             None \<Rightarrow> Inr None
           | Some v \<Rightarrow> if gitops_enabled d then Inr None else bindR (renderDeployed env p d v) (\<lambda>x. Inr (Some x))))"

text \<open>Without a downstream the name of the environment of a row raises.\<close>

definition history_rows :: "console_env \<Rightarrow> history_props \<Rightarrow> history_state \<Rightarrow> version_row list result" where
  "history_rows env p s =
     (case first_downstream (hp_app p) of
        None \<Rightarrow> if hp_history p = [] then Inr [] else Inl TypeError
      | Some d \<Rightarrow> mapR (renderRow env p s d) (hp_history p))"

text \<open>\<open>None\<close> is the spinner of a page whose versions have not arrived.\<close>

definition history_render :: "console_env \<Rightarrow> history_props \<Rightarrow> history_state \<Rightarrow> history_view option result" where
  "history_render env p s =
     (let app = hp_app p in
      if hp_loading p \<and> hp_history p = [] then Inr None
      else bindR (history_deployed env p) (\<lambda>deployed.
           bindR (history_rows env p s) (\<lambda>rows.
             Inr (Some \<lparr>hv_title = wa_name app @ '' Version History'',
               hv_icon = (if truthy_str (wa_iconUri app) then wa_iconUri app else None),
               hv_version = (case wa_currentVersion app of
                   None \<Rightarrow> (''---'', ''No deployments have been made'')
                 | Some v \<Rightarrow> (kv_title v, ''Current upstream version'')),
               hv_released = history_released env app,
               hv_notesLink = (current_notes app \<noteq> []),
               hv_control = history_control p s,
               hv_updateText = history_update_text env p s,
               hv_noUpdate = (if truthy_str (vh_noUpdateAvailiableText s) then vh_noUpdateAvailiableText s else None),
               hv_errorBox = (if vh_checkingForUpdateError s then Some (checking_text env s) else None),
               hv_deployed = deployed,
               hv_diffButton = renderDiffBtn p s,
               hv_rows = rows,
               hv_overlay = (if vh_showDiffOverlay s then Some (vh_firstSequence s, vh_secondSequence s) else None),
               hv_notes = (if \<not> vh_viewReleaseNotes s then None
                 else Some (if current_notes app = [] then ''No release notes for this version'' else current_notes app)),
               hv_logs = (if vh_showLogsModal s then Some (renderLogs s) else None),
               hv_deployWarning = vh_showDeployWarningModal s,
               hv_skipWarning = vh_showSkipModal s,
               hv_downstreamNotes = (if truthy_str (vh_downstreamReleaseNotes s) then vh_downstreamReleaseNotes s else None)\<rparr>))))"

section \<open>Runs of the page\<close>

datatype history_event =
    Mount string "string option" "string option"
  | Unmount
  | StatusAnswer "download_status option"
  | StatusFailed
  | CheckerTimer
  | CheckClick
  | CheckFailed string
  | CheckNotOk string
  | CheckOk "jsval result"
  | TextTimer
  | DropBundle
  | UploadMoved nat nat
  | UploadFailed
  | UploadEnded nat string
  | ProgressError string
  | ActionClick KotsVersion
  | Made bool
  | Refetched bool
  | ForceDeploy
  | ShowNotes
  | HideNotes
  | ShowVersionNotes "string option"
  | HideVersionNotes
  | HideLogs
  | HideDeployWarning
  | HideSkip
  | HideOverlay
  | ViewLogs KotsVersion
  | LogsAnswer "jsval result"
  | TabClick string
  | SelectDiff
  | CloseDiff
  | RowClick KotsVersion
  | DiffClick
  | SummaryClick KotsVersion

text \<open>
  A click needs its button, an answer its call.
\<close>

fun history_enabled :: "history_props \<Rightarrow> history_state \<Rightarrow> history_event \<Rightarrow> bool" where
  "history_enabled p s (StatusAnswer _) = (running (vh_updateChecker s) > 0)"
| "history_enabled p s StatusFailed = (running (vh_updateChecker s) > 0)"
| "history_enabled p s CheckerTimer = (timers (vh_updateChecker s) > 0)"
| "history_enabled p s (ActionClick v) = (v \<in> set (hp_history p) \<and> first_downstream (hp_app p) \<noteq> None)"
| "history_enabled p s (Made _) = (vh_making s > 0)"
| "history_enabled p s (Refetched _) = (vh_refetching s > 0)"
| "history_enabled p s ForceDeploy = (vh_showSkipModal s \<or> vh_showDeployWarningModal s)"
| "history_enabled p s (RowClick v) = (v \<in> set (hp_history p))"
| "history_enabled p s DiffClick = (renderDiffBtn p s = CancelOrDiff False)"
| "history_enabled p s (SummaryClick v) = (first_downstream (hp_app p) \<noteq> None)"
| "history_enabled p s _ = True"

fun history_handle :: "console_env \<Rightarrow> history_props \<Rightarrow> history_event \<Rightarrow> history_state handler" where
  "history_handle env p (Mount url a b) = history_componentDidMount url a b"
| "history_handle env p Unmount = history_componentWillUnmount"
| "history_handle env p (StatusAnswer answer) = history_updateStatus p answer"
| "history_handle env p StatusFailed = history_updateStatus_failed"
| "history_handle env p CheckerTimer = history_checker_timer"
| "history_handle env p CheckClick = history_onCheckForUpdates p"
| "history_handle env p (CheckFailed err) = history_check_failed err"
| "history_handle env p (CheckNotOk body) = history_check_not_ok body"
| "history_handle env p (CheckOk body) = history_check_ok env body"
| "history_handle env p TextTimer = history_text_timer"
| "history_handle env p DropBundle = history_onDropBundle p"
| "history_handle env p (UploadMoved t n) = history_upload_progress t n"
| "history_handle env p UploadFailed = history_upload_error"
| "history_handle env p (UploadEnded n t) = history_upload_loadend n t"
| "history_handle env p (ProgressError t) = history_onProgressError t"
| "history_handle env p (ActionClick v) =
     (case first_downstream (hp_app p) of None \<Rightarrow> (\<lambda>s. (s, [])) | Some d \<Rightarrow> history_action_click env p d v)"
| "history_handle env p (Made ok) = history_made ok"
| "history_handle env p (Refetched ok) = history_refetched p ok"
| "history_handle env p ForceDeploy = history_onForceDeployClick env p"
| "history_handle env p ShowNotes = history_showReleaseNotes"
| "history_handle env p HideNotes = history_hideReleaseNotes"
| "history_handle env p (ShowVersionNotes t) = history_showDownstreamReleaseNotes t"
| "history_handle env p HideVersionNotes = history_hideDownstreamReleaseNotes"
| "history_handle env p HideLogs = history_hideLogsModal"
| "history_handle env p HideDeployWarning = history_hideDeployWarningModal"
| "history_handle env p HideSkip = history_hideSkipModal"
| "history_handle env p HideOverlay = history_hideDiffOverlay"
| "history_handle env p (ViewLogs v) = history_handleViewLogs p v"
| "history_handle env p (LogsAnswer answer) = history_logs_answered answer"
| "history_handle env p (TabClick t) = history_select_tab t"
| "history_handle env p SelectDiff = history_onSelectReleasesToDiff"
| "history_handle env p CloseDiff = history_onCloseReleasesToDiff"
| "history_handle env p (RowClick v) = history_row_click v"
| "history_handle env p DiffClick = history_diff_click (first_downstream (hp_app p))"
| "history_handle env p (SummaryClick v) =
     (case first_downstream (hp_app p) of None \<Rightarrow> (\<lambda>s. (s, [])) | Some d \<Rightarrow> history_summary_click d v)"

definition history_run ::
  "console_env \<Rightarrow> (history_props \<times> history_event) list \<Rightarrow> history_state \<Rightarrow> web_effect list \<Rightarrow> bool" where
  "history_run env = page_run history_init history_enabled (history_handle env)"

section \<open>Lemmas\<close>

lemmas checker_defs =
  history_start_checker_def checker_start_def checker_tick_def history_settle_def history_checker_timer_def
  history_componentDidMount_def history_componentWillUnmount_def history_updateStatus_def
  history_updateStatus_failed_def history_check_failed_def history_check_not_ok_def history_check_ok_def
  history_upload_loadend_def history_onCheckForUpdates_def history_text_timer_def history_onDropBundle_def
  history_upload_progress_def history_upload_error_def history_onProgressError_def

lemmas dialog_defs =
  history_showReleaseNotes_def history_hideReleaseNotes_def history_showDownstreamReleaseNotes_def
  history_hideDownstreamReleaseNotes_def history_hideLogsModal_def history_hideDeployWarningModal_def
  history_hideSkipModal_def history_hideDiffOverlay_def history_handleViewLogs_def history_logs_answered_def
  history_select_tab_def

lemmas compare_defs =
  history_onSelectReleasesToDiff_def history_onCloseReleasesToDiff_def history_handleSelectReleasesToDiff_def
  history_row_click_def sorted_checked_def getDiffSequences_def getDiffCommitHashes_def history_diff_click_def
  history_summary_click_def

lemmas deploy_defs =
  history_deployVersion_def history_made_def history_refetched_def history_onForceDeployClick_def history_action_click_def

text \<open>A version about which a dialog is shown.\<close>

definition warned :: "console_env \<Rightarrow> KotsVersion \<Rightarrow> bool" where
  "warned env v \<longleftrightarrow> kv_status v = Some ''pending_preflight'' \<or> version_failing env v = Inr True"

lemma poll_query_neq [simp]: "poll_query \<noteq> Callback f xs" "Callback f xs \<noteq> poll_query"
  by (simp_all add: poll_query_def)

lemma deployVersion_cases:
  assumes "history_deployVersion env p ver force s = (s', fx)"
  shows "vh_versionToDeploy s' = vh_versionToDeploy s \<or> (\<exists>v. ver = Some v \<and> \<not> force \<and> warned env v \<and> vh_versionToDeploy s' = Some v)"
    and "Callback f xs \<in> set fx \<Longrightarrow> \<exists>v c. ver = Some v \<and> cluster_slug_of (hp_app p) = Some c \<and> Callback f xs = make_current p v c \<and>
           (force \<or> kv_status v \<noteq> Some ''pending_preflight'' \<and> version_failing env v = Inr False)"
  using assms by (auto simp: history_deployVersion_def warned_def split: option.splits if_splits sum.splits bool.splits)

lemma action_click_cases:
  assumes "history_action_click env p d v s = (s', fx)"
  shows "vh_versionToDeploy s' = vh_versionToDeploy s \<or> warned env v \<and> vh_versionToDeploy s' = Some v"
    and "Callback f xs \<in> set fx \<Longrightarrow> \<exists>c. cluster_slug_of (hp_app p) = Some c \<and> Callback f xs = make_current p v c \<and>
           kv_status v \<noteq> Some ''pending_preflight'' \<and> version_failing env v = Inr False"
  using assms deployVersion_cases [of env p "Some v" False s s' fx]
  by (auto simp: history_action_click_def split: version_action.splits if_splits)

text \<open>Only a click on a version and the end of a deployment touch the version a dialog is about.\<close>

lemma other_events_keep:
  assumes "history_handle env p e s = (s', fx)" and "\<forall>v. e \<noteq> ActionClick v" and "\<forall>ok. e \<noteq> Refetched ok" and "e \<noteq> ForceDeploy"
  shows "vh_versionToDeploy s' = vh_versionToDeploy s"
  using assms
  by (cases e) (auto simp: checker_defs dialog_defs compare_defs deploy_defs Let_def
      split: option.splits if_splits prod.splits sum.splits list.splits)

lemma other_events_no_deploy:
  assumes "history_handle env p e s = (s', fx)" and "\<forall>v. e \<noteq> ActionClick v" and "e \<noteq> ForceDeploy"
  shows "Callback ''makeCurrentVersion'' xs \<notin> set fx"
  using assms
  by (cases e) (auto simp: checker_defs dialog_defs compare_defs deploy_defs Let_def
      split: option.splits if_splits prod.splits sum.splits list.splits)

text \<open>The version a dialog is about was clicked, and the dialog was due.\<close>

definition asked_about :: "console_env \<Rightarrow> (history_props \<times> history_event) list \<Rightarrow> KotsVersion \<Rightarrow> bool" where
  "asked_about env es v \<longleftrightarrow> (\<exists>q. (q, ActionClick v) \<in> set es) \<and> warned env v"

lemma asked_about_append: "asked_about env es v \<Longrightarrow> asked_about env (es @ fs) v"
  by (auto simp: asked_about_def)

lemma step_asked:
  assumes h: "history_handle env p e s = (s', fx)" and v: "vh_versionToDeploy s' = Some v"
    and before: "vh_versionToDeploy s = Some v \<Longrightarrow> asked_about env es v"
  shows "asked_about env (es @ [(p, e)]) v"
proof -
  have kept: "vh_versionToDeploy s = Some v \<Longrightarrow> ?thesis"
    using before asked_about_append by blast
  consider (click) w where "e = ActionClick w" | (again) ok where "e = Refetched ok" | (force) "e = ForceDeploy"
    | (other) "\<forall>v. e \<noteq> ActionClick v" "\<forall>ok. e \<noteq> Refetched ok" "e \<noteq> ForceDeploy"
    by (cases e) auto
  then show ?thesis
  proof cases
    case click
    show ?thesis
    proof (cases "first_downstream (hp_app p)")
      case None with h click v kept show ?thesis by auto
    next
      case (Some d)
      with h click have "history_action_click env p d w s = (s', fx)" by simp
      from action_click_cases(1) [OF this] v click kept show ?thesis
        by (auto simp: asked_about_def)
    qed
  next
    case again with h v kept show ?thesis by (auto simp: history_refetched_def split: if_splits)
  next
    case force
    with h have "history_deployVersion env p (vh_versionToDeploy s) True
        (s\<lparr>vh_showSkipModal := False, vh_showDeployWarningModal := False\<rparr>) = (s', fx)"
      by (simp add: history_onForceDeployClick_def)
    from deployVersion_cases(1) [OF this] v kept show ?thesis by auto
  next
    case other
    from other_events_keep [OF h this] v kept show ?thesis by simp
  qed
qed

interpretation dialog_asked: kept_by_page history_init history_enabled "history_handle env"
  "\<lambda>es s. \<forall>v. vh_versionToDeploy s = Some v \<longrightarrow> asked_about env es v" for env
proof
  show "\<forall>v. vh_versionToDeploy history_init = Some v \<longrightarrow> asked_about env [] v" by (simp add: history_init_def)
qed (blast intro: step_asked)

lemma run_asked: "history_run env es s fx \<Longrightarrow> vh_versionToDeploy s = Some v \<Longrightarrow> asked_about env es v"
  unfolding history_run_def using dialog_asked.in_run by blast

section \<open>Properties\<close>


section \<open>Comparing versions in a run\<close>

definition checked_ok :: "history_state \<Rightarrow> bool" where
  "checked_ok s \<longleftrightarrow>
     length (vh_checkedReleasesToDiff s) \<le> 2 \<and> distinct (map kv_parentSequence (vh_checkedReleasesToDiff s))"

lemma checked_ok_cong: "vh_checkedReleasesToDiff s' = vh_checkedReleasesToDiff s \<Longrightarrow> checked_ok s \<Longrightarrow> checked_ok s'"
  by (simp add: checked_ok_def)

lemma distinct_map_sort_key: "distinct (map f (sort_key k xs)) = distinct (map f xs)"
  by (metis distinct_map distinct_sort set_sort)

lemma checked_ok_sorted: "checked_ok s \<Longrightarrow> checked_ok (sorted_checked s)"
  by (simp add: checked_ok_def sorted_checked_def distinct_map_sort_key)

lemma checked_ok_row:
  assumes "checked_ok s"
  shows "checked_ok (fst (history_row_click v s))"
proof -
  let ?c = "vh_checkedReleasesToDiff s"
  show ?thesis
  proof (cases "vh_selectedDiffReleases s \<and> \<not> is_checked s v")
    case True
    then have "kv_parentSequence v \<notin> set (map kv_parentSequence ?c)"
      by (auto simp: is_checked_def find_None_iff)
    then have "distinct (map kv_parentSequence (v # ?c))" using assms by (simp add: checked_ok_def)
    then have "distinct (take 2 (map kv_parentSequence (v # ?c)))" by (rule distinct_take)
    with True show ?thesis
      by (simp add: checked_ok_def history_row_click_def history_handleSelectReleasesToDiff_def take_map)
  next
    case False
    have "length (filter P ?c) \<le> 2" for P
      using assms le_trans [OF length_filter_le] by (auto simp: checked_ok_def)
    with False assms show ?thesis
      by (auto simp: checked_ok_def history_row_click_def history_handleSelectReleasesToDiff_def distinct_map inj_on_def)
  qed
qed

lemma other_events_keep_checked:
  assumes "history_handle env p e s = (s', fx)" and "\<forall>v. e \<noteq> RowClick v" and "e \<noteq> DiffClick" and "e \<noteq> CloseDiff"
  shows "vh_checkedReleasesToDiff s' = vh_checkedReleasesToDiff s"
  using assms
  by (cases e) (auto simp: checker_defs dialog_defs compare_defs deploy_defs Let_def
      split: option.splits if_splits prod.splits sum.splits list.splits bool.splits version_action.splits)

lemma diff_click_sorts:
  "vh_checkedReleasesToDiff (fst (history_diff_click d s)) = vh_checkedReleasesToDiff (sorted_checked s)"
  by (auto simp: history_diff_click_def getDiffSequences_def getDiffCommitHashes_def Let_def case_prod_unfold split: option.splits)

lemma step_checked_ok:
  assumes ok: "checked_ok s" and h: "history_handle env p e s = (s', fx)"
  shows "checked_ok s'"
proof -
  consider (row) v where "e = RowClick v" | (diff) "e = DiffClick" | (closed) "e = CloseDiff"
    | (other) "\<forall>v. e \<noteq> RowClick v" "e \<noteq> DiffClick" "e \<noteq> CloseDiff" by (cases e) auto
  then show ?thesis
  proof cases
    case row with h show ?thesis using checked_ok_row [OF ok, of v] by simp
  next
    case diff
    with h have "vh_checkedReleasesToDiff s' = vh_checkedReleasesToDiff (sorted_checked s)"
      using diff_click_sorts [of "first_downstream (hp_app p)" s] by simp
    then show ?thesis using checked_ok_cong checked_ok_sorted [OF ok] by blast
  next
    case closed with h show ?thesis by (auto simp: history_onCloseReleasesToDiff_def checked_ok_def)
  next
    case other
    from other_events_keep_checked [OF h other] show ?thesis using ok checked_ok_cong by blast
  qed
qed

interpretation comparison: kept_by_page history_init history_enabled "history_handle env" "\<lambda>es. checked_ok" for env
proof
  show "checked_ok history_init" by (simp add: checked_ok_def history_init_def)
qed (rule step_checked_ok)

lemma run_checked_ok: "history_run env es s fx \<Longrightarrow> checked_ok s"
  unfolding history_run_def by (rule comparison.in_run)

lemma two_sorted:
  assumes "length xs = 2" and "distinct (map f xs)" and "\<forall>x\<in>set xs. f x \<noteq> None"
  shows "\<exists>x y a b. sort_key (\<lambda>x. as_number (f x)) xs = [x, y] \<and> f x = Some a \<and> f y = Some b \<and> a < b"
proof -
  have "length (sort_key (\<lambda>x. as_number (f x)) xs) = 2" using assms(1) by simp
  then obtain x y where xy: "sort_key (\<lambda>x. as_number (f x)) xs = [x, y]"
    by (metis (no_types, lifting) One_nat_def Suc_1 length_0_conv length_Suc_conv)
  have s: "set xs = {x, y}" using xy by (metis set_sort set_simps(1,2))
  have ne: "f x \<noteq> f y" using assms(2) distinct_map_sort_key [of f "\<lambda>x. as_number (f x)" xs] xy by simp
  have "sorted (map (\<lambda>x. as_number (f x)) (sort_key (\<lambda>x. as_number (f x)) xs))" by (rule sorted_sort_key)
  then have "as_number (f x) \<le> as_number (f y)" by (simp add: xy)
  moreover obtain a b where "f x = Some a" "f y = Some b" using assms(3) s by auto
  ultimately show ?thesis using ne xy by (auto simp: as_number_def)
qed

text \<open>
  C32: Whatever was clicked before, the button of the comparison compares two different versions that are
  checked, the older one first, as long as the checked versions have a number.
\<close>

theorem compared_in_order:
  assumes run: "history_run env es s fx" and on: "history_enabled p s DiffClick"
    and d: "first_downstream (hp_app p) = Some d" "\<not> gitops_enabled d"
    and nums: "\<forall>r\<in>set (vh_checkedReleasesToDiff s). kv_parentSequence r \<noteq> None"
  shows "\<exists>a b. vh_firstSequence (fst (history_handle env p DiffClick s)) = JNum a \<and>
           vh_secondSequence (fst (history_handle env p DiffClick s)) = JNum b \<and> a < b \<and>
           kv_parentSequence ` set (vh_checkedReleasesToDiff s) = {Some a, Some b}"
proof -
  let ?c = "vh_checkedReleasesToDiff s"
  have l: "length ?c = 2" using on by (auto simp: renderDiffBtn_def diff_disabled_def split: if_splits)
  have "distinct (map kv_parentSequence ?c)" using run_checked_ok [OF run] by (simp add: checked_ok_def)
  from two_sorted [OF l this nums] obtain x y a b where
    xy: "sort_key (\<lambda>x. as_number (kv_parentSequence x)) ?c = [x, y]" "kv_parentSequence x = Some a" "kv_parentSequence y = Some b" "a < b"
    by blast
  have "set ?c = {x, y}" using xy(1) by (metis set_sort set_simps(1,2))
  with xy d l show ?thesis
    by (simp add: history_diff_click_def getDiffSequences_def sorted_checked_def Let_def jsint_def)
qed


text \<open>
  C34: The end of an earlier deployment forgets the version an open dialog is about: its button then deploys
  nothing and raises.
\<close>

theorem late_refetch_loses_version:
  assumes "cluster_slug_of (hp_app p) = Some c"
  shows "snd (history_handle env p ForceDeploy (fst (history_handle env p (Refetched True) s))) = [Uncaught TypeError]"
  using assms by (simp add: history_refetched_def history_onForceDeployClick_def history_deployVersion_def)

text \<open>The browser reports the end of a request after its error: the first message is replaced.\<close>

lemma upload_error_is_replaced:
  assumes "status \<noteq> 202"
  shows "vh_airgapUploadError (fst (history_handle env p (UploadEnded status response)
           (fst (history_handle env p UploadFailed s)))) = Some (''Error uploading airgap bundle: '' @ response)"
  using assms by (simp add: history_upload_error_def history_upload_loadend_def)

section \<open>An example\<close>

definition example_env :: console_env where
  "example_env =
     \<lparr>ce_parse = (\<lambda>_. Inr (JObj [(''results'', JArr [JObj [(''isFail'', JBool True)]])])),
      ce_toTitleCase = (\<lambda>t. t), ce_title = (\<lambda>t. t), ce_date = (\<lambda>f t. f), ce_fromNow = (\<lambda>t. ''now''),
      ce_secondsAgo = (\<lambda>t. 60), ce_err_text = (\<lambda>e. ''error'')\<rparr>"

definition page_version :: "int \<Rightarrow> string \<Rightarrow> string option \<Rightarrow> KotsVersion" where
  "page_version n st result =
     \<lparr>kv_title = ''v'', kv_status = Some st, kv_createdOn = 0, kv_parentSequence = Some n, kv_sequence = n,
      kv_releaseNotes = [], kv_deployedAt = None, kv_preflightResult = result, kv_preflightResultCreatedAt = None,
      kv_source = None, kv_diffSummary = None, kv_commitUrl = None, kv_gitDeployable = None, kv_backupSpec = None\<rparr>"

definition page_downstream :: web_downstream where
  "page_downstream =
     \<lparr>wd_name = ''c'', wd_links = [], wd_currentVersion = None, wd_pendingVersions = [], wd_pastVersions = [],
      wd_gitops = None, wd_cluster = Some \<lparr>wc_id = ''1'', wc_title = ''c'', wc_slug = ''c''\<rparr>\<rparr>"

definition page_app :: web_app where
  "page_app =
     \<lparr>wa_id = ''a'', wa_name = ''App'', wa_iconUri = None, wa_slug = ''app'', wa_currentSequence = Some 1,
      wa_hasPreflight = True, wa_isAirgap = False, wa_isConfigurable = False, wa_isGitOpsSupported = False,
      wa_allowRollback = False, wa_allowSnapshots = False, wa_currentVersion = None, wa_lastUpdateCheckAt = None,
      wa_bundleCommand = [], wa_downstreams = [page_downstream]\<rparr>"

definition failing_version :: KotsVersion where
  "failing_version = page_version 1 ''pending'' (Some ''results'')"

definition good_version :: KotsVersion where
  "good_version = page_version 0 ''pending'' None"

definition page_props :: history_props where
  "page_props =
     \<lparr>hp_app = page_app, hp_slug = ''app'', hp_history = [failing_version, good_version], hp_loading = False,
      hp_isBundleUploading = False, hp_updateCallback = True\<rparr>"

lemma page_app_downstream [simp]:
  "hp_app page_props = page_app" "first_downstream page_app = Some page_downstream"
  "cluster_slug_of page_app = Some ''c''" "hp_slug page_props = ''app''" "\<not> gitops_enabled page_downstream"
  "hp_history page_props = [failing_version, good_version]"
  by (simp_all add: page_props_def page_app_def page_downstream_def first_downstream_def cluster_slug_of_def gitops_enabled_def)

lemma failing_version_fields [simp]:
  "kv_status failing_version = Some ''pending''" "kv_sequence failing_version = 1"
  by (simp_all add: failing_version_def page_version_def)

lemma failing_version_fails: "version_failing example_env failing_version = Inr True" "warned example_env failing_version"
  by (simp_all add: version_failing_def warned_def failing_version_def page_version_def example_env_def bindR_def
      web_getPreflightResultState_def truthy_str_def js_get.simps)

lemma failing_click:
  "history_handle example_env page_props (ActionClick failing_version) s =
     (s\<lparr>vh_showDeployWarningModal := True, vh_versionToDeploy := Some failing_version\<rparr>, [])"
  using failing_version_fails(1)
  by (simp add: history_action_click_def renderVersionAction_def is_past_def is_current_def page_downstream_def gitops_enabled_def
      failing_version_def page_version_def history_deployVersion_def)

lemma example_run:
  "history_run example_env [(page_props, ActionClick failing_version)]
     (history_init\<lparr>vh_showDeployWarningModal := True, vh_versionToDeploy := Some failing_version\<rparr>) []"
  using page_run.event [where handle = "history_handle example_env" and enabled = history_enabled, OF page_run.opened _ failing_click]
  by (simp add: history_run_def)



theorem late_refetch_loses_version_witness:
  "snd (history_handle example_env page_props ForceDeploy
     (fst (history_handle example_env page_props (Refetched True)
        (history_init\<lparr>vh_showDeployWarningModal := True, vh_versionToDeploy := Some failing_version\<rparr>)))) = [Uncaught TypeError]"
  by (rule late_refetch_loses_version [of page_props "''c''"]) simp

definition compare_state :: history_state where
  "compare_state =
     fst (history_handle example_env page_props (RowClick good_version)
       (fst (history_handle example_env page_props (RowClick failing_version)
         (fst (history_handle example_env page_props SelectDiff history_init)))))"

lemma compare_run:
  "\<exists>fx. history_run example_env
     [(page_props, SelectDiff), (page_props, RowClick failing_version), (page_props, RowClick good_version)] compare_state fx"
  unfolding history_run_def
  using run_step [OF run_step [OF run_step [OF page_run.opened, where p = page_props and e = SelectDiff],
      where p = page_props and e = "RowClick failing_version"], where p = page_props and e = "RowClick good_version",
      where initial = history_init and enabled = history_enabled and handle = "history_handle example_env"]
  by (auto simp: compare_state_def)

lemma compare_checked:
  "vh_checkedReleasesToDiff compare_state = [good_version, failing_version]" "vh_selectedDiffReleases compare_state"
  "\<not> vh_showDiffOverlay compare_state"
  by (simp_all add: compare_state_def compare_defs is_checked_def history_init_def good_version_def failing_version_def page_version_def)

theorem compared_in_order_witness:
  "\<exists>a b. vh_firstSequence (fst (history_handle example_env page_props DiffClick compare_state)) = JNum a \<and>
     vh_secondSequence (fst (history_handle example_env page_props DiffClick compare_state)) = JNum b \<and> a < b \<and> {a, b} = {0, 1}"
proof -
  obtain fx where run: "history_run example_env
     [(page_props, SelectDiff), (page_props, RowClick failing_version), (page_props, RowClick good_version)] compare_state fx"
    using compare_run by blast
  have on: "history_enabled page_props compare_state DiffClick"
    by (simp add: renderDiffBtn_def diff_disabled_def compare_checked)
  have d: "first_downstream (hp_app page_props) = Some page_downstream" "\<not> gitops_enabled page_downstream" by simp_all
  have "\<forall>r\<in>set (vh_checkedReleasesToDiff compare_state). kv_parentSequence r \<noteq> None"
    by (simp add: compare_checked good_version_def failing_version_def page_version_def)
  from compared_in_order [OF run on d this] show ?thesis
    by (auto simp: compare_checked good_version_def failing_version_def page_version_def doubleton_eq_iff)
qed

end
