(* ===== verification/DashboardPage.thy ===== *)
theory DashboardPage
  imports Console Metrics
begin

text \<open>
  The dashboard of an application, \<^verbatim>\<open>web/src/components/apps/Dashboard.jsx\<close>, and its cards,
  \<^verbatim>\<open>DashboardCard.jsx\<close>: state, handlers, what is shown, and the runs of the page.

  The template package, the formats of values and the parser of addresses are parameters.  Before the
  application is known nothing is shown; the empty object the state starts with for its version is left out.
\<close>

section \<open>State\<close>

record dash_props =
  dp_app :: "web_app option"
  dp_license :: jsval
  dp_dashboard :: "KotsAppDashboard option"
  dp_slug :: string
  dp_url :: string
  dp_isBundleUploading :: bool
  dp_isVeleroInstalled :: bool
  dp_updateCallback :: bool

record dash_state =
  da_appName :: string
  da_iconUri :: "string option"
  da_currentVersion :: "KotsVersion option"
  da_downstream :: "web_downstream option"
  da_links :: "(string \<times> string) list"
  da_checkingForUpdates :: bool
  da_checkingUpdateMessage :: "string option"
  da_errorCheckingUpdate :: bool
  da_checkingForUpdateError :: bool
  da_appLicense :: jsval
  da_showConfigureGraphs :: bool
  da_promValue :: string
  da_savingPromValue :: bool
  da_activeChart :: "MetricChart option"
  da_crosshairValues :: "(jsval \<times> jsval \<times> jsval) list"
  da_updateChecker :: repeater
  da_uploadingAirgapFile :: bool
  da_uploadTotal :: nat
  da_uploadSent :: nat
  da_airgapUploadError :: "string option"
  da_viewAirgapUploadError :: bool
  da_viewAirgapUpdateError :: bool
  da_airgapUpdateError :: jsval
  da_startingSnapshot :: bool
  da_startSnapshotErr :: bool
  da_startSnapshotErrorMsg :: jsval

definition dash_init :: dash_state where
  "dash_init =
     \<lparr>da_appName = [], da_iconUri = Some [], da_currentVersion = None, da_downstream = None, da_links = [],
      da_checkingForUpdates = False, da_checkingUpdateMessage = Some ''Checking for updates'',
      da_errorCheckingUpdate = False, da_checkingForUpdateError = False, da_appLicense = JNull,
      da_showConfigureGraphs = False, da_promValue = [], da_savingPromValue = False, da_activeChart = None,
      da_crosshairValues = [], da_updateChecker = new_repeater, da_uploadingAirgapFile = False,
      da_uploadTotal = 0, da_uploadSent = 0, da_airgapUploadError = None, da_viewAirgapUploadError = False,
      da_viewAirgapUpdateError = False, da_airgapUpdateError = JStr [], da_startingSnapshot = False,
      da_startSnapshotErr = False, da_startSnapshotErrorMsg = JStr []\<rparr>"

section \<open>The application and its license\<close>

definition dash_setWatchState :: "web_app \<Rightarrow> dash_state \<Rightarrow> dash_state" where
  "dash_setWatchState app s =
     s\<lparr>da_appName := wa_name app, da_iconUri := wa_iconUri app,
       da_currentVersion := (case first_downstream app of None \<Rightarrow> None | Some d \<Rightarrow> wd_currentVersion d),
       da_downstream := first_downstream app,
       da_links := (case first_downstream app of None \<Rightarrow> [] | Some d \<Rightarrow> wd_links d)\<rparr>"

definition dash_start_checker :: "dash_state handler" where
  "dash_start_checker s =
     (let (r, fx) = checker_start (da_updateChecker s) in (s\<lparr>da_updateChecker := r\<rparr>, fx))"

definition dash_componentDidMount :: "dash_props \<Rightarrow> dash_state handler" where
  "dash_componentDidMount p s =
     (let (s1, fx) = dash_start_checker s;
          s2 = (case dp_app p of None \<Rightarrow> s1 | Some app \<Rightarrow> dash_setWatchState app s1);
          s3 = (if truthy (dp_license p) then s2\<lparr>da_appLicense := dp_license p\<rparr> else s2) in
      (s3, fx @ [Callback ''getKotsAppDashboard.startPolling'' [JNum 2000]]))"

definition dash_componentWillUnmount :: "dash_state handler" where
  "dash_componentWillUnmount s = (s\<lparr>da_updateChecker := stop (da_updateChecker s)\<rparr>, [])"

text \<open>Whether the application and the query of the license are not those of the last properties.\<close>

definition dash_componentDidUpdate :: "dash_props \<Rightarrow> bool \<Rightarrow> bool \<Rightarrow> dash_state handler" where
  "dash_componentDidUpdate p newApp newLicense s =
     (let s1 = (case dp_app p of None \<Rightarrow> s | Some app \<Rightarrow> if newApp then dash_setWatchState app s else s);
          s2 = (if newLicense
                then (if dp_license p = JNull then s1\<lparr>da_appLicense := JObj []\<rparr>
                      else if truthy (dp_license p) then s1\<lparr>da_appLicense := dp_license p\<rparr> else s1)
                else s1) in
      (s2, []))"

section \<open>Updates\<close>

definition dash_settle :: "dash_state \<Rightarrow> dash_state" where
  "dash_settle s = s\<lparr>da_updateChecker := checker_settled (da_updateChecker s)\<rparr>"

definition dash_checker_timer :: "dash_state handler" where
  "dash_checker_timer s =
     (let (r, fx) = checker_tick (da_updateChecker s) in (s\<lparr>da_updateChecker := r\<rparr>, fx))"

text \<open>An answer that is \<open>null\<close> raises at once and is caught.\<close>

definition dash_updateStatus :: "dash_props \<Rightarrow> download_status option \<Rightarrow> dash_state handler" where
  "dash_updateStatus p answer s =
     (case answer of
        None \<Rightarrow> (dash_settle s, [])
      | Some st \<Rightarrow>
          if dl_status st \<noteq> ''running'' \<and> \<not> dp_isBundleUploading p
          then (dash_settle (s\<lparr>da_updateChecker := stop (da_updateChecker s), da_checkingForUpdates := False,
                  da_checkingUpdateMessage := dl_message st, da_checkingForUpdateError := (dl_status st = ''failed'')\<rparr>),
                if dp_updateCallback p then [Callback ''updateCallback'' []] else [])
          else (dash_settle (s\<lparr>da_checkingForUpdates := True, da_checkingUpdateMessage := dl_message st\<rparr>), []))"

definition dash_onCheckForUpdates :: "web_app \<Rightarrow> dash_state handler" where
  "dash_onCheckForUpdates app s =
     (s\<lparr>da_checkingForUpdates := True, da_checkingForUpdateError := False\<rparr>,
      [Fetch ''POST'' (''/app/'' @ wa_slug app @ ''/updatecheck'') []])"

text \<open>Any answer, whatever its status, starts the poll; only a request that fails is an error.\<close>

definition dash_check_answered :: "dash_state handler" where
  "dash_check_answered = dash_start_checker"

definition dash_check_failed :: "dash_state handler" where
  "dash_check_failed s = (s\<lparr>da_errorCheckingUpdate := True\<rparr>, [])"

definition dash_redirectToDiff :: "dash_props \<Rightarrow> int \<Rightarrow> int \<Rightarrow> dash_state handler" where
  "dash_redirectToDiff p currentSequence pendingSequence s =
     (s, [PushPath (dp_slug p @ ''/version-history/diff/'' @ show_int currentSequence @ ''/'' @ show_int pendingSequence)])"

definition dash_onDropBundle :: "web_app \<Rightarrow> dash_state handler" where
  "dash_onDropBundle app s =
     (s\<lparr>da_uploadingAirgapFile := True, da_checkingForUpdates := True, da_airgapUploadError := None,
        da_uploadSent := 0, da_uploadTotal := 0\<rparr>,
      [Callback ''toggleIsBundleUploading'' [JBool True], Fetch ''PUT'' ''/app/airgap'' [(''appId'', JStr (wa_id app))]])"

definition dash_upload_progress :: "nat \<Rightarrow> nat \<Rightarrow> dash_state handler" where
  "dash_upload_progress all sent s = (s\<lparr>da_uploadSent := sent, da_uploadTotal := all\<rparr>, [])"

definition dash_upload_error :: "dash_state handler" where
  "dash_upload_error s =
     (s\<lparr>da_uploadingAirgapFile := False, da_checkingForUpdates := False, da_uploadSent := 0, da_uploadTotal := 0,
        da_airgapUploadError := Some ''Error uploading bundle, please try again''\<rparr>,
      [Callback ''toggleIsBundleUploading'' [JBool False]])"

definition dash_upload_loadend :: "nat \<Rightarrow> string \<Rightarrow> dash_state handler" where
  "dash_upload_loadend status response s =
     (let (s', fx) =
        (if status = 202
         then (let (s1, fx) = dash_start_checker s in (s1\<lparr>da_uploadingAirgapFile := False\<rparr>, fx))
         else (s\<lparr>da_uploadingAirgapFile := False, da_checkingForUpdates := False,
                 da_airgapUploadError := Some (''Error uploading airgap bundle: '' @ response)\<rparr>, [])) in
      (s', fx @ [Callback ''toggleIsBundleUploading'' [JBool False]]))"

definition dash_onProgressError :: "string \<Rightarrow> dash_state handler" where
  "dash_onProgressError airgapUploadError s =
     (s\<lparr>da_airgapUploadError := Some (common_error airgapUploadError), da_checkingForUpdates := False,
        da_uploadSent := 0, da_uploadTotal := 0\<rparr>, [])"

definition dash_toggleViewAirgapUploadError :: "dash_state handler" where
  "dash_toggleViewAirgapUploadError s = (s\<lparr>da_viewAirgapUploadError := \<not> da_viewAirgapUploadError s\<rparr>, [])"

definition dash_toggleViewAirgapUpdateError :: "jsval \<Rightarrow> dash_state handler" where
  "dash_toggleViewAirgapUpdateError err s =
     (s\<lparr>da_viewAirgapUpdateError := \<not> da_viewAirgapUpdateError s,
        da_airgapUpdateError := (if \<not> da_viewAirgapUpdateError s then err else JStr [])\<rparr>, [])"

section \<open>Graphs\<close>

definition dash_toggleConfigureGraphs :: "dash_state handler" where
  "dash_toggleConfigureGraphs s = (s\<lparr>da_showConfigureGraphs := \<not> da_showConfigureGraphs s\<rparr>, [])"

definition dash_onPromValueChange :: "string \<Rightarrow> dash_state handler" where
  "dash_onPromValueChange v s = (s\<lparr>da_promValue := v\<rparr>, [])"

definition dash_updatePromValue :: "dash_state handler" where
  "dash_updatePromValue s =
     (s\<lparr>da_savingPromValue := True\<rparr>, [Mutate ''setPrometheusAddress'' [(''value'', JStr (da_promValue s))]])"

definition dash_prom_saved :: "bool \<Rightarrow> dash_state handler" where
  "dash_prom_saved ok s = (s\<lparr>da_savingPromValue := False\<rparr>, if ok then [Refetch ''getKotsAppDashboard''] else [])"

text \<open>
  Names and values of a series as an object; the last of a name stays.  An object has no length: without a template
  a legend is empty.
\<close>

definition metrics_object :: "Metric list \<Rightarrow> (string \<times> jsval) list" where
  "metrics_object ms = foldl (\<lambda>kvs m. obj_set (me_name m) (me_value m) kvs) [] ms"

definition getLegendItems :: "(jsval \<Rightarrow> (string \<times> jsval) list \<Rightarrow> string result) \<Rightarrow> MetricChart \<Rightarrow> string list" where
  "getLegendItems render chart =
     map (\<lambda>series.
        (case (if truthy (se_legendTemplate series) then render (se_legendTemplate series) (metrics_object (se_metric series))
               else Inl TypeError) of
           Inr t \<Rightarrow> t
         | Inl _ \<Rightarrow> [])) (mc_series chart)"

text \<open>A value at the crosshair; a template that fails shows nothing, a value that is no number raises.\<close>

definition dash_getValue ::
  "(jsval \<Rightarrow> jsval \<Rightarrow> string) \<Rightarrow> (jsval \<Rightarrow> (string \<times> jsval) list \<Rightarrow> string result) \<Rightarrow> (jsval \<Rightarrow> string result) \<Rightarrow>
   MetricChart \<Rightarrow> jsval \<Rightarrow> string option result" where
  "dash_getValue format render toFixed5 chart v =
     (if truthy (mc_tickFormat chart) then Inr (Some (format (mc_tickFormat chart) v))
      else if truthy (mc_tickTemplate chart)
      then (case render (mc_tickTemplate chart) [(''values'', v)] of Inl _ \<Rightarrow> Inr None | Inr t \<Rightarrow> Inr (Some t))
      else bindR (toFixed5 v) (\<lambda>t. Inr (Some t)))"

text \<open>The values of all series at an index.\<close>

definition crosshair_at :: "nat \<Rightarrow> MetricChart \<Rightarrow> (jsval \<times> jsval \<times> jsval) list result" where
  "crosshair_at i chart =
     mapR (\<lambda>s. if i < length (se_data s) \<and> se_metric s \<noteq> []
               then Inr (vp_timestamp (se_data s ! i), vp_value (se_data s ! i), me_value (hd (se_metric s)))
               else Inl TypeError) (mc_series chart)"

definition dash_onNearestX :: "nat \<Rightarrow> MetricChart \<Rightarrow> dash_state handler" where
  "dash_onNearestX i chart s =
     (case crosshair_at i chart of
        Inl e \<Rightarrow> (s, [Uncaught e])
      | Inr vs \<Rightarrow> (s\<lparr>da_crosshairValues := vs, da_activeChart := Some chart\<rparr>, []))"

definition dash_onMouseLeave :: "dash_state handler" where
  "dash_onMouseLeave s = (s\<lparr>da_crosshairValues := []\<rparr>, [])"

record graph_view =
  gv_lines :: "(jsval \<times> jsval) list list"
  gv_crosshair :: "(jsval \<times> string option result) list"
  gv_legend :: "string list"
  gv_title :: jsval

definition renderGraph ::
  "(jsval \<Rightarrow> jsval \<Rightarrow> string) \<Rightarrow> (jsval \<Rightarrow> (string \<times> jsval) list \<Rightarrow> string result) \<Rightarrow> (jsval \<Rightarrow> string result) \<Rightarrow>
   dash_state \<Rightarrow> MetricChart \<Rightarrow> graph_view" where
  "renderGraph format render toFixed5 s chart =
     \<lparr>gv_lines = map (\<lambda>series. map (\<lambda>p. (vp_timestamp p, vp_value p)) (se_data series)) (mc_series chart),
      gv_crosshair =
        (if da_crosshairValues s \<noteq> [] \<and> da_activeChart s = Some chart
         then map (\<lambda>(x, y, pod). (pod, dash_getValue format render toFixed5 chart y)) (da_crosshairValues s) else []),
      gv_legend = getLegendItems render chart,
      gv_title = mc_title chart\<rparr>"

section \<open>Snapshots\<close>

definition dash_startManualSnapshot :: "web_app \<Rightarrow> dash_state handler" where
  "dash_startManualSnapshot app s =
     (s\<lparr>da_startingSnapshot := True, da_startSnapshotErr := False, da_startSnapshotErrorMsg := JStr []\<rparr>,
      [Fetch ''POST'' (''/app/'' @ wa_slug app @ ''/snapshot/backup'') []])"

text \<open>An answer with its body, or a failure; a body that cannot be read is a failure too.\<close>

definition dash_snapshot_answered :: "console_env \<Rightarrow> web_app \<Rightarrow> bool \<Rightarrow> jsval result \<Rightarrow> dash_state handler" where
  "dash_snapshot_answered env app ok body s =
     (if ok then (s\<lparr>da_startingSnapshot := False\<rparr>, [PushPath (''/app/'' @ wa_slug app @ ''/snapshots'')])
      else (case bindR body (\<lambda>b. js_get b ''error'') of
              Inr msg \<Rightarrow> (s\<lparr>da_startingSnapshot := False, da_startSnapshotErr := True, da_startSnapshotErrorMsg := msg\<rparr>, [])
            | Inl e \<Rightarrow> (s\<lparr>da_startSnapshotErrorMsg := JStr (ce_err_text env e)\<rparr>, [])))"

definition dash_snapshot_failed :: "string \<Rightarrow> dash_state handler" where
  "dash_snapshot_failed err s = (s\<lparr>da_startSnapshotErrorMsg := JStr err\<rparr>, [])"

section \<open>Cards\<close>

record parsed_url =
  pu_protocol :: string
  pu_port :: "string option"

text \<open>The variable of the path is tested before it is set: the path is always a slash.\<close>

definition createDashboardActionLink :: "(string \<Rightarrow> parsed_url) \<Rightarrow> string \<Rightarrow> string \<Rightarrow> string" where
  "createDashboardActionLink parse_url hostname uri =
     (let u = parse_url uri;
          port = (if pu_port u = Some ''80'' then [] else '':'' @ js_to_string (jsopt (pu_port u))) in
      pu_protocol u @ ''//'' @ hostname @ port @ ''/'')"

text \<open>The action selected: a link of the application, the empty text at first.\<close>

definition card_links :: "(string \<times> string) list \<Rightarrow> (string \<times> string) option \<Rightarrow> (string \<times> string) option" where
  "card_links links selected = (case links of [] \<Rightarrow> selected | l # _ \<Rightarrow> Some l)"

definition card_onActionChange ::
  "(string \<Rightarrow> parsed_url) \<Rightarrow> string \<Rightarrow> string \<times> string \<Rightarrow> (string \<times> string) option handler" where
  "card_onActionChange parse_url hostname selectedOption selected =
     (Some selectedOption,
      if snd selectedOption = [] then [] else [OpenWindow (createDashboardActionLink parse_url hostname (snd selectedOption))])"

datatype status_icon = Checkmark | AmberLoader | RedLoader | QuestionMark

datatype links_view = NoLinks | LinkSelect "(string \<times> string) list" "(string \<times> string) option" | LinkButton string string

record application_card =
  ac_icon :: status_icon
  ac_text :: string
  ac_troubleshoot :: "string option"
  ac_links :: links_view

definition renderApplicationCard ::
  "console_env \<Rightarrow> (string \<Rightarrow> parsed_url) \<Rightarrow> string \<Rightarrow> string \<Rightarrow> string option \<Rightarrow> (string \<times> string) list \<Rightarrow>
   (string \<times> string) option \<Rightarrow> application_card" where
  "renderApplicationCard env parse_url hostname url appStatus links selected =
     (let st = str_or_empty appStatus in
      \<lparr>ac_icon = (if st = [] then QuestionMark else if st = ''ready'' then Checkmark
                  else if st = ''degraded'' then AmberLoader else RedLoader),
       ac_text = (if st = [] then ''Unknown'' else ce_toTitleCase env st),
       ac_troubleshoot = (if st = [] \<or> st = ''ready'' then None else Some (url @ ''/troubleshoot'')),
       ac_links = (if length links > 1 then LinkSelect links selected
                   else if links = [] then NoLinks
                   else (case selected of
                           None \<Rightarrow> NoLinks
                         | Some (title, uri) \<Rightarrow> if uri = [] then NoLinks
                             else LinkButton title (createDashboardActionLink parse_url hostname uri)))\<rparr>)"

text \<open>The card of the versions; without a current version its date is that of the moment, \<open>None\<close>.\<close>

datatype dash_text = NothingShown | UploadFailedText | Uploading nat nat | UploadingElsewhere | CheckFailedText | CheckingText jsval

datatype dash_control = DashSpinner | DashDropZone | ShowUpdate | CheckForUpdate | DashNone

record versions_card =
  vc_installed :: string
  vc_created :: "string option"
  vc_updates :: "string option"
  vc_control :: dash_control
  vc_text :: dash_text
  vc_error :: "jsval option"

definition update_available :: "dash_state \<Rightarrow> bool" where
  "update_available s = (case da_downstream s of None \<Rightarrow> False | Some d \<Rightarrow> wd_pendingVersions d \<noteq> [])"

definition dash_checking_text :: "console_env \<Rightarrow> dash_state \<Rightarrow> jsval" where
  "dash_checking_text env s = progress_text (ce_parse env) (da_checkingUpdateMessage s)"

text \<open>The application has no field \<open>lastUpdateCheck\<close>, so that nothing is said of the last check.\<close>

definition dash_update_text :: "console_env \<Rightarrow> dash_props \<Rightarrow> dash_state \<Rightarrow> dash_text" where
  "dash_update_text env p s =
     (if truthy_str (da_airgapUploadError s) then UploadFailedText
      else if da_uploadingAirgapFile s then Uploading (da_uploadTotal s) (da_uploadSent s)
      else if dp_isBundleUploading p then UploadingElsewhere
      else if da_errorCheckingUpdate s then CheckFailedText
      else if da_checkingForUpdates s then CheckingText (short_text (dash_checking_text env s))
      else NothingShown)"

definition dash_control_of :: "dash_props \<Rightarrow> web_app \<Rightarrow> dash_state \<Rightarrow> dash_control" where
  "dash_control_of p app s =
     (if da_checkingForUpdates s \<and> \<not> dp_isBundleUploading p then DashSpinner
      else if wa_isAirgap app \<and> \<not> dp_isBundleUploading p then DashDropZone
      else if \<not> wa_isAirgap app \<and> \<not> da_checkingForUpdates s
      then (if update_available s then ShowUpdate else CheckForUpdate)
      else DashNone)"

definition renderVersionHistoryCard :: "console_env \<Rightarrow> dash_props \<Rightarrow> web_app \<Rightarrow> dash_state \<Rightarrow> versions_card" where
  "renderVersionHistoryCard env p app s =
     \<lparr>vc_installed = (case da_currentVersion s of
         None \<Rightarrow> [] | Some v \<Rightarrow> if kv_status v = Some ''deployed'' then ''Installed'' else []),
      vc_created = map_option (\<lambda>v. ce_date env ''lll'' (kv_createdOn v)) (da_currentVersion s),
      vc_updates = (if update_available s \<or> wa_isAirgap app then None else Some ''No updates available.''),
      vc_control = dash_control_of p app s,
      vc_text = dash_update_text env p s,
      vc_error = (if da_checkingForUpdateError s then Some (dash_checking_text env s) else None)\<rparr>"

text \<open>The card of the license.\<close>

datatype license_card = NoCard | LicenseFacts bool jsval string | NoLicense

definition renderLicenseCard :: "(jsval \<Rightarrow> string) \<Rightarrow> bool \<Rightarrow> jsval \<Rightarrow> license_card" where
  "renderLicenseCard expiry isSnapshotAllowed appLicense =
     (if isSnapshotAllowed then NoCard
      else if js_size appLicense > 0
      then LicenseFacts (lodash_get appLicense [''licenseType''] = JStr ''community'') (lodash_get appLicense [''channelName''])
             (expiry appLicense)
      else NoLicense)"

section \<open>What the page shows\<close>

text \<open>
  \<^verbatim>\<open>find\<close> with \<^verbatim>\<open>Math.max\<close> of one number: the first pending version whose sequence is not zero.
\<close>

definition latest_pending :: "KotsVersion list \<Rightarrow> KotsVersion option" where
  "latest_pending vs = find (\<lambda>v. kv_sequence v \<noteq> 0) vs"

definition latest_sequence :: "dash_state \<Rightarrow> int" where
  "latest_sequence s =
     (case da_downstream s of
        None \<Rightarrow> 0
      | Some d \<Rightarrow> (case latest_pending (wd_pendingVersions d) of None \<Rightarrow> 0 | Some v \<Rightarrow> kv_sequence v))"

definition current_sequence :: "dash_state \<Rightarrow> int" where
  "current_sequence s = (case da_currentVersion s of None \<Rightarrow> 0 | Some v \<Rightarrow> kv_sequence v)"

definition dash_app_status :: "dash_props \<Rightarrow> State option" where
  "dash_app_status p =
     (case dp_dashboard p of
        None \<Rightarrow> None
      | Some d \<Rightarrow> (case db_appStatus d of Inl _ \<Rightarrow> None | Inr st \<Rightarrow> Some (ss_state st)))"

datatype graphs_view = ConfigureGraphs | Graphs "graph_view list"

record dash_view =
  dw_title :: string
  dw_versionCard :: "string \<times> versions_card"
  dw_snapshots :: "(bool \<times> jsval) option"
  dw_license :: license_card
  dw_licenseIcon :: string
  dw_graphs :: graphs_view
  dw_configureGraphs :: "(string \<times> bool) option"
  dw_uploadError :: "string option"
  dw_updateError :: "jsval option"

definition dash_snapshots_allowed :: "dash_props \<Rightarrow> web_app \<Rightarrow> bool" where
  "dash_snapshots_allowed p app \<longleftrightarrow> wa_allowSnapshots app \<and> dp_isVeleroInstalled p"

text \<open>
  \<open>None\<close> is the spinner before the application and its license are known.  The card of the license is told
  whether snapshots are allowed, and then shows nothing.
\<close>

definition dash_render ::
  "console_env \<Rightarrow> (jsval \<Rightarrow> string) \<Rightarrow> (MetricChart \<Rightarrow> graph_view) \<Rightarrow> dash_props \<Rightarrow> dash_state \<Rightarrow> dash_view option" where
  "dash_render env expiry graph p s =
     (case dp_app p of
        None \<Rightarrow> None
      | Some app \<Rightarrow>
          if \<not> truthy (da_appLicense s) then None
          else (let allowed = dash_snapshots_allowed p app in
            Some \<lparr>dw_title = da_appName s,
              dw_versionCard = (''Version: '' @ (case da_currentVersion s of None \<Rightarrow> [] | Some v \<Rightarrow> kv_title v),
                renderVersionHistoryCard env p app s),
              dw_snapshots = (if allowed then Some (da_startSnapshotErr s, da_startSnapshotErrorMsg s) else None),
              dw_license = renderLicenseCard expiry allowed (da_appLicense s),
              dw_licenseIcon = (if js_size (da_appLicense s) > 0 then ''licenseIcon'' else ''grayedLicenseIcon''),
              dw_graphs = (case dp_dashboard p of
                  None \<Rightarrow> ConfigureGraphs
                | Some d \<Rightarrow> if \<not> truthy_str (db_prometheusAddress d) then ConfigureGraphs
                    else (case db_metrics d of Inl _ \<Rightarrow> Graphs [] | Inr charts \<Rightarrow> Graphs (map graph charts))),
              dw_configureGraphs = (if da_showConfigureGraphs s then Some (da_promValue s, da_savingPromValue s) else None),
              dw_uploadError = (if da_viewAirgapUploadError s then Some (str_or_empty (da_airgapUploadError s)) else None),
              dw_updateError = (if da_viewAirgapUpdateError s then Some (da_airgapUpdateError s) else None)\<rparr>))"

section \<open>Runs of the page\<close>

datatype dash_event =
    DashMount
  | DashUnmount
  | DashUpdated bool bool
  | DashStatus "download_status option"
  | DashStatusFailed
  | DashTimer
  | DashCheck
  | DashCheckAnswered
  | DashCheckFailed
  | DashRedirect
  | DashDrop
  | DashUploadMoved nat nat
  | DashUploadFailed
  | DashUploadEnded nat string
  | DashProgressError string
  | DashToggleUploadError
  | DashToggleUpdateError jsval
  | DashToggleGraphs
  | DashPromChange string
  | DashPromSave
  | DashPromSaved bool
  | DashNearest nat MetricChart
  | DashLeave
  | DashSnapshot
  | DashSnapshotAnswered bool "jsval result"
  | DashSnapshotFailed string

fun dash_enabled :: "dash_props \<Rightarrow> dash_state \<Rightarrow> dash_event \<Rightarrow> bool" where
  "dash_enabled p s (DashStatus _) = (running (da_updateChecker s) > 0)"
| "dash_enabled p s DashStatusFailed = (running (da_updateChecker s) > 0)"
| "dash_enabled p s DashTimer = (timers (da_updateChecker s) > 0)"
| "dash_enabled p s DashRedirect = (\<exists>app. dp_app p = Some app \<and> dash_control_of p app s = ShowUpdate)"
| "dash_enabled p s DashCheck = (\<exists>app. dp_app p = Some app \<and> dash_control_of p app s = CheckForUpdate)"
| "dash_enabled p s DashDrop = (\<exists>app. dp_app p = Some app \<and> dash_control_of p app s = DashDropZone)"
| "dash_enabled p s DashSnapshot = (\<exists>app. dp_app p = Some app \<and> dash_snapshots_allowed p app)"
| "dash_enabled p s _ = True"

definition with_app :: "dash_props \<Rightarrow> (web_app \<Rightarrow> dash_state handler) \<Rightarrow> dash_state handler" where
  "with_app p f s = (case dp_app p of None \<Rightarrow> (s, [Uncaught TypeError]) | Some app \<Rightarrow> f app s)"

fun dash_handle :: "console_env \<Rightarrow> dash_props \<Rightarrow> dash_event \<Rightarrow> dash_state handler" where
  "dash_handle env p DashMount = dash_componentDidMount p"
| "dash_handle env p DashUnmount = dash_componentWillUnmount"
| "dash_handle env p (DashUpdated a l) = dash_componentDidUpdate p a l"
| "dash_handle env p (DashStatus answer) = dash_updateStatus p answer"
| "dash_handle env p DashStatusFailed = (\<lambda>s. (dash_settle s, []))"
| "dash_handle env p DashTimer = dash_checker_timer"
| "dash_handle env p DashCheck = with_app p dash_onCheckForUpdates"
| "dash_handle env p DashCheckAnswered = dash_check_answered"
| "dash_handle env p DashCheckFailed = dash_check_failed"
| "dash_handle env p DashRedirect = (\<lambda>s. dash_redirectToDiff p (current_sequence s) (latest_sequence s) s)"
| "dash_handle env p DashDrop = with_app p dash_onDropBundle"
| "dash_handle env p (DashUploadMoved t n) = dash_upload_progress t n"
| "dash_handle env p DashUploadFailed = dash_upload_error"
| "dash_handle env p (DashUploadEnded n t) = dash_upload_loadend n t"
| "dash_handle env p (DashProgressError t) = dash_onProgressError t"
| "dash_handle env p DashToggleUploadError = dash_toggleViewAirgapUploadError"
| "dash_handle env p (DashToggleUpdateError e) = dash_toggleViewAirgapUpdateError e"
| "dash_handle env p DashToggleGraphs = dash_toggleConfigureGraphs"
| "dash_handle env p (DashPromChange v) = dash_onPromValueChange v"
| "dash_handle env p DashPromSave = dash_updatePromValue"
| "dash_handle env p (DashPromSaved ok) = dash_prom_saved ok"
| "dash_handle env p (DashNearest i c) = dash_onNearestX i c"
| "dash_handle env p DashLeave = dash_onMouseLeave"
| "dash_handle env p DashSnapshot = with_app p dash_startManualSnapshot"
| "dash_handle env p (DashSnapshotAnswered ok body) = with_app p (\<lambda>app. dash_snapshot_answered env app ok body)"
| "dash_handle env p (DashSnapshotFailed err) = dash_snapshot_failed err"

definition dash_run :: "console_env \<Rightarrow> (dash_props \<times> dash_event) list \<Rightarrow> dash_state \<Rightarrow> web_effect list \<Rightarrow> bool" where
  "dash_run env = page_run dash_init dash_enabled (dash_handle env)"

section \<open>Lemmas\<close>

lemmas dash_defs =
  dash_start_checker_def dash_componentDidMount_def dash_componentWillUnmount_def dash_componentDidUpdate_def
  dash_settle_def dash_checker_timer_def dash_updateStatus_def dash_onCheckForUpdates_def dash_check_answered_def
  dash_check_failed_def dash_redirectToDiff_def dash_onDropBundle_def dash_upload_progress_def dash_upload_error_def
  dash_upload_loadend_def dash_onProgressError_def dash_toggleViewAirgapUploadError_def
  dash_toggleViewAirgapUpdateError_def dash_toggleConfigureGraphs_def dash_onPromValueChange_def
  dash_updatePromValue_def dash_prom_saved_def dash_onNearestX_def dash_onMouseLeave_def dash_startManualSnapshot_def
  dash_snapshot_answered_def dash_snapshot_failed_def dash_setWatchState_def with_app_def

text \<open>No handler takes the error of a check back.\<close>

lemma check_error_kept:
  assumes "da_errorCheckingUpdate s" and "dash_handle env p e s = (s', fx)"
  shows "da_errorCheckingUpdate s'"
  using assms
  by (cases e) (auto simp: dash_defs Let_def case_prod_unfold split: option.splits if_splits sum.splits)

interpretation check_error: kept_by_page dash_init dash_enabled "dash_handle env"
  "\<lambda>es s. (\<exists>q. (q, DashCheckFailed) \<in> set es) \<longrightarrow> da_errorCheckingUpdate s" for env
proof
  show "(\<exists>q. (q, DashCheckFailed) \<in> set ([] :: (dash_props \<times> dash_event) list)) \<longrightarrow> da_errorCheckingUpdate dash_init"
    by simp
next
  fix es :: "(dash_props \<times> dash_event) list" and s p e s' fx
  assume "(\<exists>q. (q, DashCheckFailed) \<in> set es) \<longrightarrow> da_errorCheckingUpdate s" and h: "dash_handle env p e s = (s', fx)"
  then show "(\<exists>q. (q, DashCheckFailed) \<in> set (es @ [(p, e)])) \<longrightarrow> da_errorCheckingUpdate s'"
    using check_error_kept [OF _ h] by (auto simp: dash_check_failed_def)
qed

lemma sorted_desc_pending:
  assumes "listPendingVersions a c d = Inr vs"
  shows "sorted (rev (map kv_sequence vs))"
proof -
  obtain t where "vs = map (\<lambda>row. version_item d a (adv_status row) row) (order_desc adv_sequence t)"
    using assms by (auto simp: listPendingVersions_def Let_def split: option.splits)
  then have "map kv_sequence vs = map adv_sequence (order_desc adv_sequence t)" by (simp add: version_item_def)
  then show ?thesis by (simp add: order_desc_def rev_map)
qed

lemma find_nonzero_max:
  assumes "sorted (rev (map f vs))" and "vs \<noteq> []" and "\<forall>v\<in>set vs. (0 :: int) \<le> f v"
  shows "(case find (\<lambda>v. f v \<noteq> 0) vs of None \<Rightarrow> 0 | Some v \<Rightarrow> f v) = Max (f ` set vs)"
proof (cases vs)
  case Nil with assms(2) show ?thesis by simp
next
  case (Cons v ws)
  have le: "\<forall>w\<in>set vs. f w \<le> f v" using assms(1) Cons by (auto simp: sorted_append)
  then have max: "Max (f ` set vs) = f v" using Cons by (intro Max_eqI) auto
  show ?thesis
  proof (cases "f v = 0")
    case True
    with le assms(3) have "\<forall>w\<in>set vs. f w = 0" using True assms(3) by fastforce
    then have "find (\<lambda>v. f v \<noteq> 0) vs = None" by (auto simp: find_None_iff)
    with max True show ?thesis by simp
  next
    case False with max Cons show ?thesis by simp
  qed
qed

text \<open>A failed request leaves its message where no card shows it.\<close>

lemma failed_snapshot_is_silent:
  assumes "dash_render env expiry graph p (fst (dash_snapshot_failed err (fst (dash_startManualSnapshot app s)))) = Some w"
    and "dw_snapshots w = Some (shown, msg)"
  shows "\<not> shown"
  using assms by (auto simp: dash_render_def dash_snapshot_failed_def dash_startManualSnapshot_def Let_def split: option.splits if_splits)

lemma link_without_port:
  assumes "pu_port (parse_url uri) = None"
  shows "createDashboardActionLink parse_url hostname uri = pu_protocol (parse_url uri) @ ''//'' @ hostname @ '':null/''"
  using assms by (simp add: createDashboardActionLink_def jsopt_def)

section \<open>Properties\<close>


text \<open>
  Once a check for updates has failed, the page says so for the rest of its life, also while a later check
  runs and after one that succeeds; only an upload hides the message.
\<close>

theorem check_error_stays:
  assumes "dash_run env es s fx" and "(q, DashCheckFailed) \<in> set es"
  shows "dash_update_text env p s \<in> {UploadFailedText, Uploading (da_uploadTotal s) (da_uploadSent s), UploadingElsewhere, CheckFailedText}"
  using check_error.in_run [of env es s fx] assms by (auto simp: dash_run_def dash_update_text_def)

definition dash_example :: dash_props where
  "dash_example =
     \<lparr>dp_app = None, dp_license = JNull, dp_dashboard = None, dp_slug = ''app'', dp_url = [], dp_isBundleUploading = False,
      dp_isVeleroInstalled = False, dp_updateCallback = True\<rparr>"

theorem check_error_stays_witness:
  "\<forall>env. \<exists>s. (\<exists>fx. dash_run env [(dash_example, DashMount), (dash_example, DashCheckFailed),
      (dash_example, DashStatus (Some \<lparr>dl_status = ''done'', dl_message = None\<rparr>))] s fx) \<and>
     dash_update_text env dash_example s = CheckFailedText"
proof
  fix env
  let ?h = "\<lambda>e. dash_handle env dash_example e" and ?st = "Some \<lparr>dl_status = ''done'', dl_message = None\<rparr>"
  define s1 where "s1 = fst (?h DashMount dash_init)"
  define s2 where "s2 = fst (?h DashCheckFailed s1)"
  define s3 where "s3 = fst (?h (DashStatus ?st) s2)"
  have d: "running (da_updateChecker s2) > 0" "\<not> da_uploadingAirgapFile s3" "da_airgapUploadError s3 = None"
    unfolding s3_def s2_def s1_def
    by (simp_all add: dash_defs dash_init_def checker_start_def start_def repeat_def new_repeater_def dash_example_def)
  obtain fx where run: "dash_run env [(dash_example, DashMount), (dash_example, DashCheckFailed), (dash_example, DashStatus ?st)] s3 fx"
    unfolding dash_run_def s3_def s2_def s1_def
    using run_step [OF run_step [OF run_step [OF page_run.opened, where p = dash_example and e = DashMount],
        where p = dash_example and e = DashCheckFailed], where p = dash_example and e = "DashStatus ?st",
        where initial = dash_init and enabled = dash_enabled and handle = "dash_handle env"] d(1)
    by (auto simp: s2_def s1_def)
  have "dash_update_text env dash_example s3 \<in> {UploadFailedText, Uploading (da_uploadTotal s3) (da_uploadSent s3), UploadingElsewhere, CheckFailedText}"
    by (rule check_error_stays [OF run, of dash_example dash_example]) simp
  moreover have "dash_update_text env dash_example s3 \<in> {CheckFailedText, CheckingText (short_text (dash_checking_text env s3)), NothingShown}"
    using d(2,3) by (simp add: dash_update_text_def truthy_str_def dash_example_def)
  ultimately have "dash_update_text env dash_example s3 = CheckFailedText" by auto
  with run show "\<exists>s. (\<exists>fx. dash_run env [(dash_example, DashMount), (dash_example, DashCheckFailed),
      (dash_example, DashStatus (Some \<lparr>dl_status = ''done'', dl_message = None\<rparr>))] s fx) \<and>
     dash_update_text env dash_example s = CheckFailedText" by blast
qed

definition dash_pending_state :: "KotsVersion list \<Rightarrow> dash_state" where
  "dash_pending_state vs =
     dash_init\<lparr>da_downstream := Some
       \<lparr>wd_name = ''c'', wd_links = [], wd_currentVersion = None, wd_pendingVersions = vs, wd_pastVersions = [],
        wd_gitops = None, wd_cluster = None\<rparr>\<rparr>"

definition dash_example_db :: db where
  "dash_example_db = example_db
     \<lparr>t_app_downstream := [\<lparr>ad_app_id = ''a'', ad_cluster_id = ''c'', ad_downstream_name = ''this'', ad_current_sequence = Some 0\<rparr>]\<rparr>"

definition dash_example_app :: web_app where
  "dash_example_app =
     \<lparr>wa_id = ''a'', wa_name = ''App'', wa_iconUri = None, wa_slug = ''app'', wa_currentSequence = Some 0,
      wa_hasPreflight = False, wa_isAirgap = False, wa_isConfigurable = False, wa_isGitOpsSupported = False,
      wa_allowRollback = False, wa_allowSnapshots = False, wa_currentVersion = None, wa_lastUpdateCheckAt = None,
      wa_bundleCommand = [], wa_downstreams = []\<rparr>"

lemma dash_example_pending:
  "\<exists>vs. listPendingVersions ''a'' ''c'' dash_example_db = Inr vs \<and> map kv_sequence vs = [2, 1]"
proof -
  have "downstream_versions ''a'' ''c'' dash_example_db =
     map (\<lambda>s. downstream_row ''a'' ''c'' s (100 + s) example_args) [0, 1, 2]"
    using example_versions by (simp add: dash_example_db_def downstream_versions_def)
  moreover have "downstream_sequence ''a'' ''c'' dash_example_db = Some (Some 0)"
    by (simp add: downstream_sequence_def dash_example_db_def)
  ultimately show ?thesis
    by (simp add: listPendingVersions_def Let_def sql_select_def order_desc_def version_item_def)
qed


end
