(* ===== verification/SnapshotSettingsPage.thy ===== *)
theory SnapshotSettingsPage
  imports Console
begin

text \<open>
  The settings of snapshots, \<^verbatim>\<open>web/src/components/snapshots/Snapshots.jsx\<close>: the form of a destination is filled
  from the settings of the server, and what is sent back holds a store only when the form differs from it.

  The fields of the form are kept by their names, as \<^verbatim>\<open>handleFormChange\<close> writes them; their values are
  those of the server, primitive or \<open>JUndef\<close>.  What a render that raises does to the page is left out.
\<close>

section \<open>State\<close>

type_synonym labelled = "string \<times> string"

definition DESTINATIONS :: "labelled list" where
  "DESTINATIONS =
     [(''aws'', ''Amazon S3''), (''azure'', ''Azure Blob Storage''), (''gcp'', ''Google Cloud Storage''),
      (''other'', ''Other S3-Compatible Storage'')]"

definition AZURE_CLOUD_NAMES :: "labelled list" where
  "AZURE_CLOUD_NAMES =
     [(''AzurePublicCloud'', ''Public''), (''AzureUSGovernmentCloud'', ''US Government''),
      (''AzureChinaCloud'', ''China''), (''AzureGermanCloud'', ''German'')]"

definition with_value :: "jsval \<Rightarrow> labelled list \<Rightarrow> labelled option" where
  "with_value v ls = find (\<lambda>l. JStr (fst l) = v) ls"

text \<open>No destination is the empty object; no cloud name is \<open>undefined\<close>.\<close>

record settings_state =
  sn_determiningDestination :: bool
  sn_selectedDestination :: "labelled option"
  sn_updatingSettings :: bool
  sn_fields :: "string \<Rightarrow> jsval"
  sn_selectedAzureCloudName :: "labelled option"
  sn_hideCheckVeleroButton :: bool
  sn_updateConfirm :: bool
  sn_snapshotSettings :: jsval
  sn_isLoadingSnapshotSettings :: bool
  sn_snapshotSettingsErr :: bool
  sn_snapshotSettingsErrMsg :: string
  sn_updateErrorMsg :: jsval

definition settings_init :: settings_state where
  "settings_init =
     \<lparr>sn_determiningDestination = True, sn_selectedDestination = None, sn_updatingSettings = False,
      sn_fields = (\<lambda>k. if k = ''useIamAws'' \<or> k = ''gcsUseIam'' then JBool False else JStr []),
      sn_selectedAzureCloudName = Some (''AzurePublicCloud'', ''Public''),
      sn_hideCheckVeleroButton = False, sn_updateConfirm = False, sn_snapshotSettings = JNull,
      sn_isLoadingSnapshotSettings = True, sn_snapshotSettingsErr = False, sn_snapshotSettingsErrMsg = [],
      sn_updateErrorMsg = JStr []\<rparr>"

section \<open>From the settings to the form\<close>

definition js_or :: "jsval \<Rightarrow> jsval \<Rightarrow> jsval" where
  "js_or v w = (if truthy v then v else w)"

definition set_all :: "(string \<times> jsval) list \<Rightarrow> (string \<Rightarrow> jsval) \<Rightarrow> string \<Rightarrow> jsval" where
  "set_all kvs f = foldl (\<lambda>g (k, v). g(k := v)) f kvs"

definition to_destination :: "string \<Rightarrow> (string \<times> jsval) list \<Rightarrow> settings_state \<Rightarrow> settings_state" where
  "to_destination value kvs s =
     s\<lparr>sn_determiningDestination := False, sn_selectedDestination := with_value (JStr value) DESTINATIONS,
       sn_fields := set_all kvs (sn_fields s)\<rparr>"

definition setFields :: "settings_state \<Rightarrow> settings_state" where
  "setFields s =
     (if \<not> truthy (sn_snapshotSettings s) then s
      else (let store = lodash_get (sn_snapshotSettings s) [''store'']; st = (\<lambda>ks. lodash_get store ks);
                provider = st [''provider''] in
        if provider = JStr ''aws''
        then to_destination ''aws''
          [(''s3bucket'', st [''bucket'']), (''s3Region'', st [''aws'', ''region'']), (''s3Path'', st [''path'']),
           (''useIamAws'', st [''aws'', ''useInstanceRole'']),
           (''s3KeyId'', js_or (st [''aws'', ''accessKeyID'']) (JStr [])),
           (''s3KeySecret'', js_or (st [''aws'', ''secretAccessKey'']) (JStr []))] s
        else if provider = JStr ''azure''
        then (to_destination ''azure''
          [(''azureBucket'', st [''bucket'']), (''azurePath'', st [''path'']),
           (''azureSubscriptionId'', st [''azure'', ''subscriptionId'']), (''azureTenantId'', st [''azure'', ''tenantId'']),
           (''azureClientId'', st [''azure'', ''clientId'']), (''azureClientSecret'', st [''azure'', ''clientSecret'']),
           (''azureResourceGroupName'', st [''azure'', ''resourceGroup'']),
           (''azureStorageAccountId'', st [''azure'', ''storageAccount''])] s)
          \<lparr>sn_selectedAzureCloudName := with_value (st [''azure'', ''cloudName'']) AZURE_CLOUD_NAMES\<rparr>
        else if provider = JStr ''gcp''
        then to_destination ''gcp''
          [(''gcsBucket'', st [''bucket'']), (''gcsPath'', st [''path'']),
           (''gcsServiceAccount'', js_or (st [''gcp'', ''serviceAccount'']) (JStr [])),
           (''gcsUseIam'', st [''gcp'', ''useInstanceRole''])] s
        else if provider = JStr ''other''
        then to_destination ''other''
          [(''s3CompatibleBucket'', st [''bucket'']), (''s3CompatiblePath'', st [''path'']),
           (''s3CompatibleKeyId'', st [''other'', ''accessKeyID'']),
           (''s3CompatibleKeySecret'', st [''other'', ''accessKeySecret'']),
           (''s3CompatibleEndpoint'', st [''other'', ''endpoint'']), (''s3CompatibleRegion'', st [''other'', ''region''])] s
        else to_destination ''aws'' [] s))"

text \<open>Settings that are set are new ones: the update of the component fills the form.\<close>

definition new_settings :: "jsval \<Rightarrow> settings_state \<Rightarrow> settings_state" where
  "new_settings v s = setFields (s\<lparr>sn_snapshotSettings := v\<rparr>)"

section \<open>Reading the settings\<close>

definition fetchSnapshotSettings :: "bool \<Rightarrow> settings_state handler" where
  "fetchSnapshotSettings isCheckForVelero s =
     (s\<lparr>sn_isLoadingSnapshotSettings := True, sn_snapshotSettingsErr := False, sn_snapshotSettingsErrMsg := [],
        sn_hideCheckVeleroButton := isCheckForVelero\<rparr>,
      [Fetch ''GET'' ''/snapshots/settings'' []])"

definition settings_componentDidMount :: "settings_state handler" where
  "settings_componentDidMount = fetchSnapshotSettings False"

definition settings_failed :: "string \<Rightarrow> settings_state handler" where
  "settings_failed err s =
     (s\<lparr>sn_isLoadingSnapshotSettings := False, sn_snapshotSettingsErr := True, sn_snapshotSettingsErrMsg := err\<rparr>, [])"

definition settings_loaded :: "console_env \<Rightarrow> jsval \<Rightarrow> settings_state handler" where
  "settings_loaded env answer s =
     (let s1 = new_settings answer (s\<lparr>sn_isLoadingSnapshotSettings := False, sn_snapshotSettingsErr := False,
                 sn_snapshotSettingsErrMsg := []\<rparr>) in
      (case js_get answer ''isVeleroRunning'' of
         Inl e \<Rightarrow> settings_failed (ce_err_text env e) s1
       | Inr r \<Rightarrow> if truthy r then (s1\<lparr>sn_hideCheckVeleroButton := False\<rparr>, []) else (s1, [Timer 5000])))"

definition settings_button_timer :: "settings_state handler" where
  "settings_button_timer s = (s\<lparr>sn_hideCheckVeleroButton := False\<rparr>, [])"

section \<open>Sending the settings\<close>

definition cloud_name :: "settings_state \<Rightarrow> jsval result" where
  "cloud_name s = (case sn_selectedAzureCloudName s of None \<Rightarrow> Inl TypeError | Some (v, _) \<Rightarrow> Inr (JStr v))"

definition field_differs :: "settings_state \<Rightarrow> string \<Rightarrow> string \<times> string \<Rightarrow> bool" where
  "field_differs s provider kf = (lodash_get (sn_snapshotSettings s) [''store'', provider, fst kf] \<noteq> sn_fields s (snd kf))"

definition checkForStoreChanges :: "settings_state \<Rightarrow> string \<Rightarrow> bool result" where
  "checkForStoreChanges s provider =
     (if provider = ''aws''
      then Inr (list_ex (field_differs s provider)
        [(''region'', ''s3Region''), (''accessKeyID'', ''s3KeyId''), (''secretAccessKey'', ''s3KeySecret''),
         (''useInstanceRole'', ''useIamAws'')])
      else if provider = ''gcp''
      then Inr (list_ex (field_differs s provider)
        [(''useInstanceRole'', ''gcsUseIam''), (''serviceAccount'', ''gcsServiceAccount'')])
      else if provider = ''azure''
      then (if list_ex (field_differs s provider)
              [(''resourceGroup'', ''azureResourceGroupName''), (''storageAccount'', ''azureStorageAccountId''),
               (''subscriptionId'', ''azureSubscriptionId''), (''tenantId'', ''azureTenantId''),
               (''clientId'', ''azureClientId''), (''clientSecret'', ''azureClientSecret'')]
            then Inr True
            else bindR (cloud_name s) (\<lambda>v. Inr (lodash_get (sn_snapshotSettings s) [''store'', provider, ''cloudName''] \<noteq> v)))
      else if provider = ''other''
      then Inr (list_ex (field_differs s provider)
        [(''region'', ''s3CompatibleRegion''), (''accessKeyID'', ''s3CompatibleKeyId''),
         (''secretAccessKey'', ''s3CompatibleKeySecret''), (''endpoint'', ''s3CompatibleEndpoint'')])
      else Inr False)"

definition getCurrentProviderStores :: "settings_state \<Rightarrow> string \<Rightarrow> (string \<times> jsval) list result" where
  "getCurrentProviderStores s provider =
     bindR (checkForStoreChanges s provider) (\<lambda>hasChanges.
       let f = sn_fields s in
       if \<not> hasChanges then Inr []
       else if provider = ''aws''
       then Inr [(''aws'', JObj
         [(''region'', f ''s3Region''),
          (''accessKeyID'', if truthy (f ''useIamAws'') then JStr [] else f ''s3KeyId''),
          (''secretAccessKey'', if truthy (f ''useIamAws'') then JStr [] else f ''s3KeySecret''),
          (''useInstanceRole'', f ''useIamAws'')])]
       else if provider = ''azure''
       then bindR (cloud_name s) (\<lambda>cloud. Inr [(''azure'', JObj
         [(''resourceGroup'', f ''azureResourceGroupName''), (''storageAccount'', f ''azureStorageAccountId''),
          (''subscriptionId'', f ''azureSubscriptionId''), (''tenantId'', f ''azureTenantId''),
          (''clientId'', f ''azureClientId''), (''clientSecret'', f ''azureClientSecret''), (''cloudName'', cloud)])])
       else if provider = ''gcp''
       then Inr [(''gcp'', JObj
         [(''serviceAccount'', if truthy (f ''gcsUseIam'') then JStr [] else f ''gcsServiceAccount''),
          (''useInstanceRole'', f ''gcsUseIam'')])]
       else if provider = ''other''
       then Inr [(''other'', JObj
         [(''region'', f ''s3CompatibleRegion''), (''accessKeyID'', f ''s3CompatibleKeyId''),
          (''secretAccessKey'', f ''s3CompatibleKeySecret''), (''endpoint'', f ''s3CompatibleEndpoint'')])]
       else Inr [])"

text \<open>The body is turned into JSON, which leaves out what is \<open>undefined\<close>.\<close>

definition updateSettings :: "string \<Rightarrow> jsval \<Rightarrow> jsval \<Rightarrow> settings_state handler" where
  "updateSettings provider bucket path s =
     (let s1 = s\<lparr>sn_updatingSettings := True, sn_updateErrorMsg := JStr []\<rparr> in
      (case getCurrentProviderStores s1 provider of
         Inl e \<Rightarrow> (s1, [Uncaught e])
       | Inr stores \<Rightarrow>
           (s1, [Fetch ''PUT'' ''/snapshots/settings''
                   ([(''provider'', JStr provider), (''bucket'', bucket), (''path'', path)] @ stores)])))"

definition update_failed :: "settings_state handler" where
  "update_failed s = (s\<lparr>sn_updatingSettings := False\<rparr>, [])"

text \<open>An answer with its status and its body; a body that is \<open>null\<close> raises and is caught.\<close>

definition update_answered :: "bool \<Rightarrow> jsval \<Rightarrow> settings_state handler" where
  "update_answered ok body s =
     (case js_get body (if ok then ''success'' else ''error'') of
        Inl e \<Rightarrow> update_failed s
      | Inr v \<Rightarrow>
          if ok \<and> truthy v
          then (new_settings body (s\<lparr>sn_updatingSettings := False, sn_updateConfirm := True, sn_updateErrorMsg := JStr []\<rparr>),
                [Timer 3000])
          else (s\<lparr>sn_updatingSettings := False, sn_updateErrorMsg := lodash_get body [''error'']\<rparr>, []))"

definition settings_confirm_timer :: "settings_state handler" where
  "settings_confirm_timer s = (s\<lparr>sn_updateConfirm := False\<rparr>, [])"

definition handleFormChange :: "string \<Rightarrow> jsval \<Rightarrow> settings_state handler" where
  "handleFormChange field value s = (s\<lparr>sn_fields := (sn_fields s)(field := value)\<rparr>, [])"

definition handleDestinationChange :: "labelled \<Rightarrow> settings_state handler" where
  "handleDestinationChange d s = (s\<lparr>sn_selectedDestination := Some d\<rparr>, [])"

definition handleAzureCloudNameChange :: "labelled \<Rightarrow> settings_state handler" where
  "handleAzureCloudNameChange c s = (s\<lparr>sn_selectedAzureCloudName := Some c\<rparr>, [])"

definition onGcsEditorChange :: "string \<Rightarrow> settings_state handler" where
  "onGcsEditorChange value = handleFormChange ''gcsServiceAccount'' (JStr value)"

definition settings_onSubmit :: "settings_state handler" where
  "settings_onSubmit s =
     (let f = sn_fields s; value = map_option fst (sn_selectedDestination s) in
      if value = Some ''aws'' then updateSettings ''aws'' (f ''s3bucket'') (f ''s3Path'') s
      else if value = Some ''azure'' then updateSettings ''azure'' (f ''azureBucket'') (f ''azurePath'') s
      else if value = Some ''gcp'' then updateSettings ''gcp'' (f ''gcsBucket'') (f ''gcsPath'') s
      else if value = Some ''other'' then updateSettings ''other'' (f ''s3CompatibleBucket'') (f ''s3CompatiblePath'') s
      else (s, []))"

section \<open>What the page shows\<close>

datatype input_view =
    TextInput string jsval
  | PasswordInput string jsval
  | CheckInput string jsval
  | EditorInput string jsval
  | CloudSelect "labelled option"

definition text_input :: "settings_state \<Rightarrow> string \<Rightarrow> input_view" where
  "text_input s field = TextInput field (sn_fields s field)"

definition password_input :: "settings_state \<Rightarrow> string \<Rightarrow> input_view" where
  "password_input s field = PasswordInput field (sn_fields s field)"

definition check_input :: "settings_state \<Rightarrow> string \<Rightarrow> input_view" where
  "check_input s field = CheckInput field (sn_fields s field)"

text \<open>The cloud name is read for every destination; none shows that no destination is selected.\<close>

definition renderDestinationFields :: "settings_state \<Rightarrow> input_view list result" where
  "renderDestinationFields s =
     bindR (cloud_name s) (\<lambda>cloud.
       let f = sn_fields s; value = map_option fst (sn_selectedDestination s) in
       Inr (if value = Some ''aws''
         then map (text_input s) [''s3bucket'', ''s3Region'', ''s3Path''] @ [check_input s ''useIamAws''] @
              (if truthy (f ''useIamAws'') then [] else [text_input s ''s3KeyId'', password_input s ''s3KeySecret''])
         else if value = Some ''azure''
         then map (text_input s) [''azureBucket'', ''azurePath'', ''azureSubscriptionId'', ''azureTenantId'', ''azureClientId''] @
              [password_input s ''azureClientSecret'', CloudSelect (with_value cloud AZURE_CLOUD_NAMES)] @
              map (text_input s) [''azureResourceGroupName'', ''azureStorageAccountId'']
         else if value = Some ''gcp''
         then map (text_input s) [''gcsBucket'', ''gcsPath''] @ [check_input s ''gcsUseIam''] @
              (if truthy (f ''gcsUseIam'') then [] else [EditorInput ''gcsServiceAccount'' (f ''gcsServiceAccount'')])
         else if value = Some ''other''
         then map (text_input s) [''s3CompatibleBucket'', ''s3CompatiblePath'', ''s3CompatibleKeyId''] @
              [password_input s ''s3CompatibleKeySecret''] @ map (text_input s) [''s3CompatibleEndpoint'', ''s3CompatibleRegion'']
         else []))"

record settings_form =
  sf_veleroNotRunning :: bool
  sf_resticMissing :: bool
  sf_resticNotWorking :: bool
  sf_error :: "jsval option"
  sf_destination :: "labelled option"
  sf_inputs :: "input_view list option"
  sf_updating :: bool
  sf_updated :: bool

datatype settings_view = SettingsLoading | InstallVelero bool | SettingsForm settings_form

definition settings_render :: "settings_state \<Rightarrow> settings_view result" where
  "settings_render s =
     (let settings = sn_snapshotSettings s; g = (\<lambda>k. lodash_get settings [k]);
          velero = (g ''veleroVersion'' \<noteq> JStr []); restic = (g ''resticVersion'' \<noteq> JStr []) in
      if sn_isLoadingSnapshotSettings s then Inr SettingsLoading
      else if \<not> truthy settings \<or> \<not> velero then Inr (InstallVelero (\<not> sn_hideCheckVeleroButton s))
      else bindR (if sn_determiningDestination s then Inr None else bindR (renderDestinationFields s) (\<lambda>i. Inr (Some i))) (\<lambda>inputs.
        Inr (SettingsForm
          \<lparr>sf_veleroNotRunning = (\<not> truthy (g ''isVeleroRunning'')),
           sf_resticMissing = (velero \<and> \<not> restic),
           sf_resticNotWorking = (velero \<and> restic \<and> \<not> truthy (g ''isResticRunning'')),
           sf_error = (if truthy (sn_updateErrorMsg s) then Some (sn_updateErrorMsg s) else None),
           sf_destination = (case sn_selectedDestination s of None \<Rightarrow> None | Some d \<Rightarrow> with_value (JStr (fst d)) DESTINATIONS),
           sf_inputs = inputs, sf_updating = sn_updatingSettings s, sf_updated = sn_updateConfirm s\<rparr>)))"

section \<open>Lemmas\<close>

lemma with_destination [simp]:
  "with_value (JStr ''aws'') DESTINATIONS = Some (''aws'', ''Amazon S3'')"
  "with_value (JStr ''azure'') DESTINATIONS = Some (''azure'', ''Azure Blob Storage'')"
  "with_value (JStr ''gcp'') DESTINATIONS = Some (''gcp'', ''Google Cloud Storage'')"
  "with_value (JStr ''other'') DESTINATIONS = Some (''other'', ''Other S3-Compatible Storage'')"
  by (simp_all add: with_value_def DESTINATIONS_def)

lemma with_value_is: "with_value v ls = Some l \<Longrightarrow> v = JStr (fst l)"
  by (auto simp: with_value_def find_Some_iff)

lemma new_settings_kept [simp]: "sn_snapshotSettings (new_settings v s) = v"
  by (simp add: new_settings_def setFields_def to_destination_def Let_def)

lemma loaded_form:
  "sn_fields (fst (settings_loaded env answer s)) = sn_fields (new_settings answer s)"
  "sn_selectedDestination (fst (settings_loaded env answer s)) = sn_selectedDestination (new_settings answer s)"
  "sn_selectedAzureCloudName (fst (settings_loaded env answer s)) = sn_selectedAzureCloudName (new_settings answer s)"
  "sn_snapshotSettings (fst (settings_loaded env answer s)) = answer"
  by (simp_all add: settings_loaded_def settings_failed_def new_settings_def setFields_def to_destination_def Let_def split: sum.split)

lemma lodash_get_append: "lodash_get v (ks @ ls) = lodash_get (lodash_get v ks) ls"
proof (induction v ks rule: lodash_get.induct)
  case (1 v) show ?case by simp
qed (cases ls; simp)+

lemma store_get: "lodash_get v (''store'' # ks) = lodash_get (lodash_get v [''store'']) ks"
  using lodash_get_append [of v "[''store'']" ks] by simp

lemma text_below_obj: "lodash_get v (k # ks) = JStr t \<Longrightarrow> truthy v"
  by (cases v) auto

text \<open>Settings of a store of the server: keys are texts, empty when there is none, and the cloud is a known one.\<close>

definition is_text :: "jsval \<Rightarrow> bool" where
  "is_text v \<longleftrightarrow> (case v of JStr _ \<Rightarrow> True | _ \<Rightarrow> False)"

definition settings_of :: "string \<Rightarrow> jsval \<Rightarrow> bool" where
  "settings_of p answer \<longleftrightarrow>
     lodash_get answer [''store'', ''provider''] = JStr p \<and>
     (if p = ''aws'' then is_text (lodash_get answer [''store'', ''aws'', ''accessKeyID'']) \<and>
                          is_text (lodash_get answer [''store'', ''aws'', ''secretAccessKey''])
      else if p = ''gcp'' then is_text (lodash_get answer [''store'', ''gcp'', ''serviceAccount''])
      else p = ''azure'' \<and> with_value (lodash_get answer [''store'', ''azure'', ''cloudName'']) AZURE_CLOUD_NAMES \<noteq> None)"

lemma or_empty_text: "is_text v \<Longrightarrow> js_or v (JStr []) = v"
  by (auto simp: is_text_def js_or_def split: jsval.splits)

lemma settings_of_cases: "settings_of p answer \<Longrightarrow> p = ''aws'' \<or> p = ''gcp'' \<or> p = ''azure''"
  unfolding settings_of_def by presburger

lemma settings_truthy: "settings_of p answer \<Longrightarrow> truthy answer"
  unfolding settings_of_def by (elim conjE) (rule text_below_obj)

lemma settings_provider: "settings_of p answer \<Longrightarrow> lodash_get (lodash_get answer [''store'']) [''provider''] = JStr p"
  unfolding store_get [of answer "[''provider'']", symmetric] settings_of_def by (rule conjunct1)

lemma aws_form:
  assumes "settings_of ''aws'' answer"
  shows "new_settings answer s = to_destination ''aws''
    [(''s3bucket'', lodash_get answer [''store'', ''bucket'']), (''s3Region'', lodash_get answer [''store'', ''aws'', ''region'']),
     (''s3Path'', lodash_get answer [''store'', ''path'']), (''useIamAws'', lodash_get answer [''store'', ''aws'', ''useInstanceRole'']),
     (''s3KeyId'', lodash_get answer [''store'', ''aws'', ''accessKeyID'']),
     (''s3KeySecret'', lodash_get answer [''store'', ''aws'', ''secretAccessKey''])] (s\<lparr>sn_snapshotSettings := answer\<rparr>)"
proof -
  have "is_text (lodash_get answer [''store'', ''aws'', ''accessKeyID''])" "is_text (lodash_get answer [''store'', ''aws'', ''secretAccessKey''])"
    using assms by (simp_all add: settings_of_def)
  note texts = this [THEN or_empty_text]
  have settings: "sn_snapshotSettings (s\<lparr>sn_snapshotSettings := answer\<rparr>) = answer" by simp
  show ?thesis
    using settings_truthy [OF assms] settings_provider [OF assms] texts
    by (simp only: new_settings_def setFields_def Let_def settings store_get [symmetric] if_True not_True_eq_False if_False refl)
qed

lemma gcp_form:
  assumes "settings_of ''gcp'' answer"
  shows "new_settings answer s = to_destination ''gcp''
    [(''gcsBucket'', lodash_get answer [''store'', ''bucket'']), (''gcsPath'', lodash_get answer [''store'', ''path'']),
     (''gcsServiceAccount'', lodash_get answer [''store'', ''gcp'', ''serviceAccount'']),
     (''gcsUseIam'', lodash_get answer [''store'', ''gcp'', ''useInstanceRole''])] (s\<lparr>sn_snapshotSettings := answer\<rparr>)"
proof -
  have "is_text (lodash_get answer [''store'', ''gcp'', ''serviceAccount''])" using assms by (simp add: settings_of_def)
  note account = this [THEN or_empty_text]
  have settings: "sn_snapshotSettings (s\<lparr>sn_snapshotSettings := answer\<rparr>) = answer" by simp
  have other: "(JStr ''gcp'' = JStr ''aws'') = False" "(JStr ''gcp'' = JStr ''azure'') = False" by simp_all
  show ?thesis
    using settings_truthy [OF assms] settings_provider [OF assms] account
    by (simp only: new_settings_def setFields_def Let_def settings other store_get [symmetric] if_True not_True_eq_False if_False refl)
qed

lemma azure_form:
  assumes "settings_of ''azure'' answer"
  shows "new_settings answer s = (to_destination ''azure''
    [(''azureBucket'', lodash_get answer [''store'', ''bucket'']), (''azurePath'', lodash_get answer [''store'', ''path'']),
     (''azureSubscriptionId'', lodash_get answer [''store'', ''azure'', ''subscriptionId'']),
     (''azureTenantId'', lodash_get answer [''store'', ''azure'', ''tenantId'']),
     (''azureClientId'', lodash_get answer [''store'', ''azure'', ''clientId'']),
     (''azureClientSecret'', lodash_get answer [''store'', ''azure'', ''clientSecret'']),
     (''azureResourceGroupName'', lodash_get answer [''store'', ''azure'', ''resourceGroup'']),
     (''azureStorageAccountId'', lodash_get answer [''store'', ''azure'', ''storageAccount''])] (s\<lparr>sn_snapshotSettings := answer\<rparr>))
    \<lparr>sn_selectedAzureCloudName := with_value (lodash_get answer [''store'', ''azure'', ''cloudName'']) AZURE_CLOUD_NAMES\<rparr>"
proof -
  have settings: "sn_snapshotSettings (s\<lparr>sn_snapshotSettings := answer\<rparr>) = answer" by simp
  have other: "(JStr ''azure'' = JStr ''aws'') = False" by simp
  show ?thesis
    using settings_truthy [OF assms] settings_provider [OF assms]
    by (simp only: new_settings_def setFields_def Let_def settings other store_get [symmetric] if_True not_True_eq_False if_False refl)
qed

lemma to_destination_simps [simp]:
  "sn_fields (to_destination v kvs s) = set_all kvs (sn_fields s)"
  "sn_selectedDestination (to_destination v kvs s) = with_value (JStr v) DESTINATIONS"
  "sn_selectedAzureCloudName (to_destination v kvs s) = sn_selectedAzureCloudName s"
  "sn_snapshotSettings (to_destination v kvs s) = sn_snapshotSettings s"
  by (simp_all add: to_destination_def)

lemma set_all_at [simp]:
  "set_all [] f k = f k"
  "set_all (kvs @ [(k', v)]) f k = (if k' = k then v else set_all kvs f k)"
  by (simp_all add: set_all_def)

lemma set_all_Cons: "set_all ((k', v) # kvs) f = set_all kvs (f(k' := v))"
  by (simp add: set_all_def)

text \<open>What a submit reads of a state is its form and the settings.\<close>

lemma stores_of_form:
  assumes "sn_fields t = sn_fields s" "sn_snapshotSettings t = sn_snapshotSettings s" "sn_selectedAzureCloudName t = sn_selectedAzureCloudName s"
  shows "getCurrentProviderStores t p = getCurrentProviderStores s p"
proof -
  have "field_differs t = field_differs s" using assms by (simp add: field_differs_def fun_eq_iff)
  moreover have "cloud_name t = cloud_name s" using assms by (simp add: cloud_name_def)
  ultimately show ?thesis
    by (simp only: getCurrentProviderStores_def checkForStoreChanges_def assms)
qed

lemma submitted:
  assumes "sn_selectedDestination s = Some (p, l)"
    and "p = ''aws'' \<and> b = ''s3bucket'' \<and> q = ''s3Path'' \<or> p = ''azure'' \<and> b = ''azureBucket'' \<and> q = ''azurePath'' \<or>
         p = ''gcp'' \<and> b = ''gcsBucket'' \<and> q = ''gcsPath''"
    and "getCurrentProviderStores s p = Inr stores"
  shows "snd (settings_onSubmit s) = [Fetch ''PUT'' ''/snapshots/settings''
    ([(''provider'', JStr p), (''bucket'', sn_fields s b), (''path'', sn_fields s q)] @ stores)]"
proof -
  have "getCurrentProviderStores (s\<lparr>sn_updatingSettings := True, sn_updateErrorMsg := JStr []\<rparr>) p = Inr stores"
    using assms(3) stores_of_form [of "s\<lparr>sn_updatingSettings := True, sn_updateErrorMsg := JStr []\<rparr>" s] by simp
  then have "snd (updateSettings p (sn_fields s b) (sn_fields s q) s) = [Fetch ''PUT'' ''/snapshots/settings''
    ([(''provider'', JStr p), (''bucket'', sn_fields s b), (''path'', sn_fields s q)] @ stores)]"
    by (simp add: updateSettings_def Let_def)
  then show ?thesis using assms(1,2) by (elim disjE conjE) (simp_all add: settings_onSubmit_def Let_def)
qed

lemma aws_loaded:
  fixes env s
  assumes "settings_of ''aws'' answer"
  defines "t \<equiv> fst (settings_loaded env answer s)" and "st \<equiv> \<lambda>ks. lodash_get answer (''store'' # ks)"
  shows "sn_selectedDestination t = Some (''aws'', ''Amazon S3'')" "sn_snapshotSettings t = answer"
    "sn_fields t ''s3bucket'' = st [''bucket'']" "sn_fields t ''s3Path'' = st [''path'']"
    "sn_fields t ''s3Region'' = st [''aws'', ''region'']" "sn_fields t ''useIamAws'' = st [''aws'', ''useInstanceRole'']"
    "sn_fields t ''s3KeyId'' = st [''aws'', ''accessKeyID'']" "sn_fields t ''s3KeySecret'' = st [''aws'', ''secretAccessKey'']"
  unfolding t_def st_def by (simp_all add: loaded_form aws_form [OF assms(1)] set_all_Cons)

lemma gcp_loaded:
  fixes env s
  assumes "settings_of ''gcp'' answer"
  defines "t \<equiv> fst (settings_loaded env answer s)" and "st \<equiv> \<lambda>ks. lodash_get answer (''store'' # ks)"
  shows "sn_selectedDestination t = Some (''gcp'', ''Google Cloud Storage'')" "sn_snapshotSettings t = answer"
    "sn_fields t ''gcsBucket'' = st [''bucket'']" "sn_fields t ''gcsPath'' = st [''path'']"
    "sn_fields t ''gcsUseIam'' = st [''gcp'', ''useInstanceRole'']" "sn_fields t ''gcsServiceAccount'' = st [''gcp'', ''serviceAccount'']"
  unfolding t_def st_def by (simp_all add: loaded_form gcp_form [OF assms(1)] set_all_Cons)

lemma azure_loaded:
  fixes env s
  assumes "settings_of ''azure'' answer"
  defines "t \<equiv> fst (settings_loaded env answer s)" and "st \<equiv> \<lambda>ks. lodash_get answer (''store'' # ks)"
  shows "sn_selectedDestination t = Some (''azure'', ''Azure Blob Storage'')" "sn_snapshotSettings t = answer"
    "sn_fields t ''azureBucket'' = st [''bucket'']" "sn_fields t ''azurePath'' = st [''path'']"
    "sn_fields t ''azureResourceGroupName'' = st [''azure'', ''resourceGroup'']"
    "sn_fields t ''azureStorageAccountId'' = st [''azure'', ''storageAccount'']"
    "sn_fields t ''azureSubscriptionId'' = st [''azure'', ''subscriptionId'']"
    "sn_fields t ''azureTenantId'' = st [''azure'', ''tenantId'']"
    "sn_fields t ''azureClientId'' = st [''azure'', ''clientId'']" "sn_fields t ''azureClientSecret'' = st [''azure'', ''clientSecret'']"
    "cloud_name t = Inr (st [''azure'', ''cloudName''])"
proof -
  obtain l where "with_value (lodash_get answer [''store'', ''azure'', ''cloudName'']) AZURE_CLOUD_NAMES = Some l"
    using assms(1) by (auto simp: settings_of_def)
  then show "cloud_name t = Inr (st [''azure'', ''cloudName''])"
    using with_value_is unfolding t_def st_def
    by (fastforce simp: cloud_name_def loaded_form azure_form [OF assms(1)] split: prod.split)
qed (unfold t_def st_def, simp_all add: loaded_form azure_form [OF assms(1)] set_all_Cons)

lemma no_store_when_loaded:
  assumes "settings_of p answer"
  shows "getCurrentProviderStores (fst (settings_loaded env answer s)) p = Inr []"
proof -
  have "checkForStoreChanges (fst (settings_loaded env answer s)) p = Inr False"
    using settings_of_cases [OF assms] assms
    by (elim disjE) (simp_all add: checkForStoreChanges_def field_differs_def aws_loaded gcp_loaded azure_loaded)
  then show ?thesis by (simp add: getCurrentProviderStores_def)
qed

text \<open>A store of Azure whose cloud is none of the four cannot be shown.\<close>

lemma unknown_cloud_raises: "sn_selectedAzureCloudName s = None \<Longrightarrow> renderDestinationFields s = Inl TypeError"
  by (simp add: renderDestinationFields_def cloud_name_def)

text \<open>
  The form of another store reads its secret under a name the server does not use: it is \<open>undefined\<close>, so that a
  store is always sent, without a secret.
\<close>

lemma other_store_always_sent:
  assumes "sn_fields s ''s3CompatibleKeySecret'' = JUndef"
    and "lodash_get (sn_snapshotSettings s) [''store'', ''other'', ''secretAccessKey''] \<noteq> JUndef"
  shows "\<exists>kvs. getCurrentProviderStores s ''other'' = Inr [(''other'', JObj kvs)] \<and> own_prop kvs ''secretAccessKey'' = JUndef"
  using assms by (simp add: getCurrentProviderStores_def checkForStoreChanges_def field_differs_def own_prop.simps Let_def)

section \<open>Properties\<close>



definition example_aws_settings :: jsval where
  "example_aws_settings =
     JObj [(''veleroVersion'', JStr ''v1.3''), (''isVeleroRunning'', JBool True),
       (''store'', JObj [(''provider'', JStr ''aws''), (''bucket'', JStr ''b''), (''path'', JStr []),
         (''aws'', JObj [(''region'', JStr ''us-east-1''), (''accessKeyID'', JStr ''k''),
            (''secretAccessKey'', JStr ''--- REDACTED ---''), (''useInstanceRole'', JBool False)])])]"

lemma example_aws_settings_of: "settings_of ''aws'' example_aws_settings"
  by (simp add: settings_of_def example_aws_settings_def is_text_def own_prop.simps)



end
