(* ===== verification/UploadPage.thy ===== *)
theory UploadPage
  imports Console "HOL-Library.List_Lexorder" "HOL-Library.Char_ord"
begin

text \<open>
  The installation from a bundle, \<^verbatim>\<open>web/src/components/UploadAirgapBundle.jsx\<close>, with the progress it shows,
  \<^verbatim>\<open>AirgapUploadProgress.jsx\<close>, and the install over the network it offers instead.

  An install over the network has an interval of its own, with a count and the answer its closure keeps: the
  state has a list of them.  A thrown object is kept apart from text: it has no \<open>length\<close> and cannot be shown.
  Percentages are those of exact arithmetic.
\<close>

section \<open>State\<close>

record upload_props =
  upp_slug :: string
  upp_showRegistry :: bool
  upp_logo :: "string option"
  upp_appName :: "string option"
  upp_appsListLength :: "nat option"

record registry_fields =
  rf_hostname :: string
  rf_username :: string
  rf_password :: string
  rf_namespace :: string

definition no_registry :: registry_fields where
  "no_registry = \<lparr>rf_hostname = [], rf_username = [], rf_password = [], rf_namespace = []\<rparr>"

datatype message = Said jsval | Thrown string

fun said :: "message \<Rightarrow> bool" where
  "said (Said v) = truthy v"
| "said (Thrown _) = True"

text \<open>\<^verbatim>\<open>message.length\<close> as a condition.\<close>

fun has_length :: "message \<Rightarrow> bool" where
  "has_length (Said (JStr t)) = (t \<noteq> [])"
| "has_length (Said (JArr xs)) = (xs \<noteq> [])"
| "has_length _ = False"

text \<open>What React renders of a value: an object raises.\<close>

fun shown :: "message \<Rightarrow> jsval result" where
  "shown (Thrown _) = Inl (JsError ''Objects are not valid as a React child'')"
| "shown (Said (JObj _)) = Inl (JsError ''Objects are not valid as a React child'')"
| "shown (Said v) = Inr v"

record online_install =
  oi_count :: nat
  oi_result :: "jsval option"
  oi_ticking :: bool

record upload_state =
  up_bundleFile :: "string option"
  up_fileUploading :: bool
  up_registryDetails :: registry_fields
  up_preparingOnlineInstall :: bool
  up_supportBundleCommand :: "string option"
  up_showSupportBundleCommand :: bool
  up_onlineInstallErrorMessage :: message
  up_viewOnlineInstallErrorMessage :: bool
  up_uploadSent :: nat
  up_uploadTotal :: nat
  up_errorMessage :: message
  up_installs :: "online_install list"
  up_bar :: nat

definition upload_init :: upload_state where
  "upload_init =
     \<lparr>up_bundleFile = None, up_fileUploading = False, up_registryDetails = no_registry, up_preparingOnlineInstall = False,
      up_supportBundleCommand = None, up_showSupportBundleCommand = False, up_onlineInstallErrorMessage = Said (JStr []),
      up_viewOnlineInstallErrorMessage = False, up_uploadSent = 0, up_uploadTotal = 0, up_errorMessage = Said JUndef,
      up_installs = [], up_bar = 0\<rparr>"

definition emptyRequiredFields :: string where
  "emptyRequiredFields = ''Please enter a value for \"Hostname\" and \"Namespace\" fields''"

definition emptyHostnameErrMessage :: string where
  "emptyHostnameErrMessage = ''Please enter a value for \"Hostname\" field''"

definition emptyNamespaceField :: string where
  "emptyNamespaceField = ''Please enter a value for \"Namespace\" field''"

definition upload_error_text :: string where
  "upload_error_text = ''An error occurred while uploading your airgap bundle. Please try again''"

section \<open>The bundle\<close>

definition clearFile :: "upload_state handler" where
  "clearFile s = (s\<lparr>up_bundleFile := None\<rparr>, [])"

definition toggleShowRun :: "upload_state handler" where
  "toggleShowRun s = (s\<lparr>up_showSupportBundleCommand := True\<rparr>, [])"

definition upload_onDrop :: "string \<Rightarrow> upload_state handler" where
  "upload_onDrop file s = (s\<lparr>up_bundleFile := Some file, up_onlineInstallErrorMessage := Said (JStr [])\<rparr>, [])"

definition getRegistryDetails :: "registry_fields \<Rightarrow> upload_state handler" where
  "getRegistryDetails details s = (s\<lparr>up_registryDetails := details\<rparr>, [])"

definition upload_stopped :: "message \<Rightarrow> upload_state \<Rightarrow> upload_state" where
  "upload_stopped m s = s\<lparr>up_fileUploading := False, up_uploadSent := 0, up_uploadTotal := 0, up_errorMessage := m\<rparr>"

text \<open>The upload itself: the file, with the registry when it is asked for.\<close>

definition send_bundle :: "upload_props \<Rightarrow> upload_state \<Rightarrow> web_effect" where
  "send_bundle p s =
     (let r = up_registryDetails s in
      Fetch ''POST'' ''/app/airgap''
        ([(''file'', jsopt (up_bundleFile s))] @
         (if upp_showRegistry p
          then [(''registryHost'', JStr (rf_hostname r)), (''namespace'', JStr (rf_namespace r)),
                (''username'', JStr (rf_username r)), (''password'', JStr (rf_password r))]
          else [])))"

definition uploadAirgapBundle :: "upload_props \<Rightarrow> upload_state handler" where
  "uploadAirgapBundle p s = (s, [Fetch ''POST'' (''/kots/airgap/reset/'' @ upp_slug p) []])"

definition reset_failed :: "upload_state handler" where
  "reset_failed s = (upload_stopped (Said (JStr upload_error_text)) s, [])"

definition validate_registry :: "upload_props \<Rightarrow> registry_fields \<Rightarrow> web_effect" where
  "validate_registry p r =
     Query ''validateRegistryInfo''
       [(''slug'', JStr (upp_slug p)), (''endpoint'', JStr (rf_hostname r)), (''username'', JStr (rf_username r)),
        (''password'', JStr (rf_password r)), (''org'', JStr (rf_namespace r))]"

text \<open>The state was reset on the server, with whatever status.\<close>

definition reset_answered :: "upload_props \<Rightarrow> upload_state handler" where
  "reset_answered p s =
     (let s1 = s\<lparr>up_fileUploading := True, up_errorMessage := Said (JStr []), up_showSupportBundleCommand := False,
                 up_onlineInstallErrorMessage := Said (JStr [])\<rparr>;
          r = up_registryDetails s1 in
      if upp_showRegistry p
      then (if rf_hostname r = [] \<and> rf_namespace r = [] then (upload_stopped (Said (JStr emptyRequiredFields)) s1, [])
            else if rf_hostname r = [] then (upload_stopped (Said (JStr emptyHostnameErrMessage)) s1, [])
            else if rf_namespace r = [] then (upload_stopped (Said (JStr emptyNamespaceField)) s1, [])
            else (s1, [validate_registry p r]))
      else (s1, [send_bundle p s1]))"

text \<open>The registry was validated: a message, or none.\<close>

definition registry_validated :: "upload_props \<Rightarrow> string option \<Rightarrow> upload_state handler" where
  "registry_validated p answer s =
     (if truthy_str answer then (upload_stopped (Said (jsopt answer)) s, []) else (s, [send_bundle p s]))"

definition validation_failed :: "upload_state handler" where
  "validation_failed s = (upload_stopped (Said (JStr upload_error_text)) s, [])"

definition upload_onprogress :: "nat \<Rightarrow> nat \<Rightarrow> upload_state handler" where
  "upload_onprogress all sent s = (s\<lparr>up_uploadSent := sent, up_uploadTotal := all\<rparr>, [])"

definition upload_onerror :: "upload_state handler" where
  "upload_onerror s = (upload_stopped (Said (JStr upload_error_text)) s, [])"

definition upload_onloadend :: "nat \<Rightarrow> string \<Rightarrow> upload_state handler" where
  "upload_onloadend status response s =
     (s, if status \<noteq> 202 then [Uncaught (JsError (''Error uploading airgap bundle: '' @ response))] else [])"

text \<open>The command for a support bundle is asked for before an error of the server is shown.\<close>

definition upload_onProgressError :: "upload_state handler" where
  "upload_onProgressError s = (s, [Query ''getSupportBundleCommand'' []])"

definition command_answered :: "upload_state handler" where
  "command_answered s = (s, [Timer 0])"

definition command_timer :: "string \<Rightarrow> string option \<Rightarrow> upload_state handler" where
  "command_timer errorMessage command s =
     ((upload_stopped (Said (JStr (common_error errorMessage))) s)\<lparr>up_supportBundleCommand := command\<rparr>, [])"

definition upload_onProgressSuccess :: "upload_state handler" where
  "upload_onProgressSuccess s = (s, [Callback ''onUploadSuccess'' []])"

definition upload_getKotsApp :: "upload_props \<Rightarrow> web_effect" where
  "upload_getKotsApp p = Query ''getKotsApp'' [(''slug'', JStr (upp_slug p))]"

definition success_refreshed :: "upload_props \<Rightarrow> upload_state handler" where
  "success_refreshed p s = (s, [upload_getKotsApp p])"

definition success_app :: "web_app option \<Rightarrow> upload_state handler" where
  "success_app answer s =
     (s, [case answer of
            None \<Rightarrow> Uncaught TypeError
          | Some app \<Rightarrow>
              if wa_isConfigurable app then ReplacePath (''/'' @ wa_slug app @ ''/config'')
              else if wa_hasPreflight app then ReplacePath ''/preflight''
              else ReplacePath (''/app/'' @ wa_slug app)])"

section \<open>The install over the network\<close>

definition moveBar :: "nat \<Rightarrow> upload_state \<Rightarrow> upload_state" where
  "moveBar count s = (if up_preparingOnlineInstall s then s\<lparr>up_bar := (if count > 3 then 96 else count * 30)\<rparr> else s)"

definition handleOnlineInstall :: "upload_props \<Rightarrow> upload_state handler" where
  "handleOnlineInstall p s =
     (s\<lparr>up_preparingOnlineInstall := True, up_onlineInstallErrorMessage := Said (JStr []),
        up_installs := up_installs s @ [\<lparr>oi_count = 0, oi_result = None, oi_ticking = True\<rparr>]\<rparr>,
      [Fetch ''PUT'' ''/license/resume'' [(''slug'', JStr (upp_slug p))]])"

definition resume_answered :: "nat \<Rightarrow> jsval \<Rightarrow> upload_state handler" where
  "resume_answered i answer s =
     (s\<lparr>up_installs := (up_installs s)[i := (up_installs s ! i)\<lparr>oi_result := Some answer\<rparr>]\<rparr>, [])"

text \<open>A request that fails, or an answer that is no JSON: the error itself is the message.\<close>

definition resume_failed :: "string \<Rightarrow> upload_state handler" where
  "resume_failed err s =
     (s\<lparr>up_fileUploading := False, up_errorMessage := Thrown err, up_preparingOnlineInstall := False,
        up_onlineInstallErrorMessage := Thrown err\<rparr>, [])"

text \<open>A tick goes on after it has cleared the interval for the message of an error.\<close>

definition install_tick :: "nat \<Rightarrow> upload_state handler" where
  "install_tick i s =
     (let o1 = up_installs s ! i;
          o2 = (if has_length (up_onlineInstallErrorMessage s) then o1\<lparr>oi_ticking := False\<rparr> else o1);
          o3 = o2\<lparr>oi_count := Suc (oi_count o2)\<rparr>;
          put = (\<lambda>ins. up_installs_update (\<lambda>_. (up_installs s)[i := ins]));
          s1 = moveBar (oi_count o3) s;
          result = (case oi_result o3 of None \<Rightarrow> JUndef | Some v \<Rightarrow> v) in
      if oi_count o3 \<le> 3 \<or> \<not> truthy result then (put o3 s1, [])
      else (let s2 = put (o3\<lparr>oi_ticking := False\<rparr>) s1; err = lodash_get result [''error''] in
            if truthy err
            then (s2\<lparr>up_fileUploading := False, up_errorMessage := Said err, up_preparingOnlineInstall := False,
                     up_onlineInstallErrorMessage := Said err\<rparr>, [])
            else (s2, [Callback ''onUploadSuccess'' []])))"

definition install_succeeded :: "upload_props \<Rightarrow> nat \<Rightarrow> upload_state handler" where
  "install_succeeded p i s =
     (let result = (case oi_result (up_installs s ! i) of None \<Rightarrow> JUndef | Some v \<Rightarrow> v) in
      (s, [if truthy (lodash_get result [''isConfigurable'']) then ReplacePath (''/'' @ upp_slug p @ ''/config'')
           else if truthy (lodash_get result [''hasPreflight'']) then Fetch ''POST'' (''/app/'' @ upp_slug p @ ''/preflight/run'') []
           else ReplacePath (''/app/'' @ upp_slug p)]))"

definition preflight_run_answered :: "upload_state handler" where
  "preflight_run_answered s = (s, [ReplacePath ''/preflight''])"

definition toggleViewOnlineInstallErrorMessage :: "upload_state handler" where
  "toggleViewOnlineInstallErrorMessage s =
     (s\<lparr>up_viewOnlineInstallErrorMessage := \<not> up_viewOnlineInstallErrorMessage s\<rparr>, [])"

section \<open>The progress of an upload\<close>

record progress_props =
  pp_total :: nat
  pp_sent :: nat
  pp_smallSize :: bool
  pp_unkownProgress :: bool
  pp_hasSuccess :: bool
  pp_hasError :: bool

record install_status =
  is_installStatus :: string
  is_currentMessage :: jsval

text \<open>The image with its parts as JSON has them; the sort puts those of one name in the order they come in.\<close>

definition image_name :: "jsval \<Rightarrow> string" where
  "image_name img = js_to_string (lodash_get img [''displayName''])"

text \<open>
  The message, and the images of the last report of progress; what raises after the message is taken leaves
  the images.
\<close>

definition progress_report :: "console_env \<Rightarrow> jsval \<Rightarrow> jsval list option \<Rightarrow> jsval \<times> jsval list option" where
  "progress_report env statusMsg images =
     (case ce_parse env (js_to_string statusMsg) of
        Inl _ \<Rightarrow> (statusMsg, images)
      | Inr v \<Rightarrow>
          if lodash_get v [''type''] = JStr ''progressReport''
          then (lodash_get v [''compatibilityMessage''],
                case lodash_get v [''images''] of JArr xs \<Rightarrow> Some (sort_key image_name xs) | _ \<Rightarrow> images)
          else (statusMsg, images))"

definition percent :: "int \<Rightarrow> int \<Rightarrow> string" where
  "percent sent all = (if all > 0 \<and> sent > 0 then show_int (100 * sent div all) @ ''%'' else ''0%'')"

definition js_number :: "jsval \<Rightarrow> int" where
  "js_number v = (case v of JNum n \<Rightarrow> n | _ \<Rightarrow> 0)"

record image_row =
  ir_name :: string
  ir_percentage :: "string option"
  ir_queued :: bool
  ir_message :: jsval

definition render_image :: "(jsval \<Rightarrow> jsval \<Rightarrow> string) \<Rightarrow> jsval \<Rightarrow> jsval \<Rightarrow> image_row" where
  "render_image timeDifference statusMsg img =
     (let g = (\<lambda>k. lodash_get img [k]); status = g ''status''; uploaded = (status = JStr ''uploaded'') in
      \<lparr>ir_name = image_name img,
       ir_percentage = (if uploaded then None else Some (percent (js_number (g ''current'')) (js_number (g ''total'')))),
       ir_queued = (status = JStr ''queued''),
       ir_message = (if g ''error'' \<noteq> JStr [] then g ''error''
                     else if uploaded then JStr (''Completed in '' @ timeDifference (g ''startTime'') (g ''endTime''))
                     else if status = JStr ''uploading'' then statusMsg
                     else JStr ''Waiting to start'')\<rparr>)"

text \<open>The bar of the bundle: its percentage, and its size until it is complete.\<close>

datatype progress_view =
    NoProgress
  | ProgressUnknown
  | ImagesPushed "image_row list"
  | BundleProgress string "string option" "jsval option"

definition small_status :: "jsval \<Rightarrow> jsval option" where
  "small_status statusMsg =
     (if truthy statusMsg then Some (JStr (take 30 (js_to_string statusMsg) @ ''...'')) else None)"

text \<open>
  A render asks for the poll to stop or to go on, and calls what it is given; \<open>onProgressError\<close> that is not given
  raises.
\<close>

definition render_progress ::
  "console_env \<Rightarrow> (jsval \<Rightarrow> jsval \<Rightarrow> string) \<Rightarrow> progress_props \<Rightarrow> install_status option \<Rightarrow> jsval list option \<Rightarrow>
   (progress_view \<times> jsval list option) \<times> web_effect list" where
  "render_progress env timeDifference p answer images =
     (let status = map_option is_installStatus answer;
          stopPolling = Callback ''data.stopPolling'' [];
          done_fx = (if status = Some ''installed''
                     then (if pp_smallSize p then [] else [stopPolling]) @
                          (if pp_hasSuccess p then [Callback ''onProgressSuccess'' []] else [])
                     else []) in
      if status = Some ''installed'' \<and> \<not> pp_smallSize p then ((NoProgress, images), done_fx)
      else if status = Some ''airgap_upload_error''
      then ((NoProgress, images), done_fx @ [stopPolling,
              if pp_hasError p then Callback ''onProgressError'' [case answer of None \<Rightarrow> JUndef | Some a \<Rightarrow> is_currentMessage a]
              else Uncaught TypeError])
      else if pp_unkownProgress p then ((ProgressUnknown, images), done_fx)
      else (let (statusMsg, images') = progress_report env (case answer of None \<Rightarrow> JUndef | Some a \<Rightarrow> is_currentMessage a) images;
                complete = (pp_total p > 0 \<and> pp_sent p > 0 \<and> pp_sent p = pp_total p) in
        ((case images' of
            Some xs \<Rightarrow> ImagesPushed (map (render_image timeDifference statusMsg) xs)
          | None \<Rightarrow> BundleProgress (percent (int (pp_sent p)) (int (pp_total p)))
              (if complete then None else Some (formatByteSize (pp_total p)))
              (if pp_smallSize p then small_status statusMsg else Some statusMsg), images'),
         done_fx @ [Callback ''data.startPolling'' [JNum 1000]])))"

section \<open>What the page shows\<close>

definition replace_first :: "string \<Rightarrow> string \<Rightarrow> string \<Rightarrow> string" where
  "replace_first old new s =
     (case find (\<lambda>i. take (length old) (drop i s) = old) [0..<Suc (length s)] of
        None \<Rightarrow> s
      | Some i \<Rightarrow> take i s @ new @ drop (i + length old) s)"

record upload_form =
  uf_title :: string
  uf_logo :: "string option"
  uf_preparing :: bool
  uf_registry :: "(bool \<times> bool \<times> bool) option"
  uf_file :: "string option"
  uf_error :: "(jsval \<times> string option) option"
  uf_onlineLink :: bool
  uf_unableToInstall :: bool
  uf_onlineError :: "jsval option"

datatype upload_view = UploadProgress nat nat | UploadForm upload_form

definition upload_app_name :: "upload_props \<Rightarrow> string" where
  "upload_app_name p =
     (case upp_appsListLength p of
        Some n \<Rightarrow> if n > 1 then [] else str_or_empty (upp_appName p)
      | None \<Rightarrow> str_or_empty (upp_appName p))"

text \<open>
  The form without a file still shows an error; the message of the modal is shown only in the open modal.  A
  command that is shown and not known raises.
\<close>

definition upload_render :: "string \<Rightarrow> upload_props \<Rightarrow> upload_state \<Rightarrow> upload_view result" where
  "upload_render origin p s =
     (if up_fileUploading s then Inr (UploadProgress (up_uploadTotal s) (up_uploadSent s))
      else
        (let m = up_errorMessage s;
             command = (case up_supportBundleCommand s of
                None \<Rightarrow> None | Some c \<Rightarrow> if c = [] then Some c else Some (replace_first ''API_ADDRESS'' origin c)) in
         bindR (if \<not> up_preparingOnlineInstall s \<and> said m
                then bindR (shown m) (\<lambda>t.
                  if \<not> up_showSupportBundleCommand s then Inr (Some (t, None))
                  else (case command of None \<Rightarrow> Inl TypeError | Some c \<Rightarrow> Inr (Some (t, Some c))))
                else Inr None) (\<lambda>err.
         bindR (if up_viewOnlineInstallErrorMessage s
                then bindR (shown (up_onlineInstallErrorMessage s)) (\<lambda>t. Inr (Some t)) else Inr None) (\<lambda>online.
         Inr (UploadForm
           \<lparr>uf_title = (if upload_app_name p = [] then ''Admin Console'' else upload_app_name p @ '' Admin Console''),
            uf_logo = (if upp_logo p = None \<or> upp_logo p = Some [] then None
                       else if (case upp_appsListLength p of Some n \<Rightarrow> n > 1 | None \<Rightarrow> False)
                       then Some ''https://cdn2.iconfinder.com/data/icons/mixd/512/16_kubernetes-512.png'' else upp_logo p),
            uf_preparing = up_preparingOnlineInstall s,
            uf_registry = (if upp_showRegistry p
              then Some (m = Said (JStr emptyRequiredFields), m = Said (JStr emptyHostnameErrMessage), m = Said (JStr emptyNamespaceField))
              else None),
            uf_file = up_bundleFile s, uf_error = err,
            uf_onlineLink = (\<not> up_preparingOnlineInstall s),
            uf_unableToInstall = said (up_onlineInstallErrorMessage s),
            uf_onlineError = online\<rparr>)))))"

section \<open>Runs of the page\<close>

datatype upload_event =
    UpDropped string
  | UpCleared
  | UpShowRun
  | RegistryTyped registry_fields
  | UploadClick
  | ResetAnswered
  | ResetFailed
  | Validated "string option"
  | ValidationFailed
  | BundleMoved nat nat
  | BundleFailed
  | BundleEnded nat string
  | BundleError
  | CommandAnswered
  | CommandTimer string "string option"
  | BundleInstalled
  | AppsRefreshed
  | AppAnswered "web_app option"
  | OnlineClick
  | ResumeAnswered nat jsval
  | ResumeFailed nat string
  | InstallTick nat
  | InstallRefreshed nat
  | PreflightRun
  | ToggleOnlineError

definition awaits_answer :: "upload_state \<Rightarrow> nat \<Rightarrow> bool" where
  "awaits_answer s i \<longleftrightarrow> i < length (up_installs s) \<and> oi_result (up_installs s ! i) = None"

fun upload_enabled :: "upload_props \<Rightarrow> upload_state \<Rightarrow> upload_event \<Rightarrow> bool" where
  "upload_enabled p s (UpDropped _) = (\<not> up_fileUploading s \<and> \<not> up_preparingOnlineInstall s)"
| "upload_enabled p s UpCleared = (\<not> up_fileUploading s \<and> \<not> up_preparingOnlineInstall s \<and> up_bundleFile s \<noteq> None)"
| "upload_enabled p s UploadClick = (\<not> up_fileUploading s \<and> \<not> up_preparingOnlineInstall s \<and> up_bundleFile s \<noteq> None)"
| "upload_enabled p s (RegistryTyped _) = (\<not> up_fileUploading s \<and> \<not> up_preparingOnlineInstall s \<and> upp_showRegistry p)"
| "upload_enabled p s OnlineClick = (\<not> up_fileUploading s \<and> \<not> up_preparingOnlineInstall s)"
| "upload_enabled p s (ResumeAnswered i _) = awaits_answer s i"
| "upload_enabled p s (ResumeFailed i _) = awaits_answer s i"
| "upload_enabled p s (InstallTick i) = (i < length (up_installs s) \<and> oi_ticking (up_installs s ! i))"
| "upload_enabled p s (InstallRefreshed i) = (i < length (up_installs s) \<and> oi_result (up_installs s ! i) \<noteq> None)"
| "upload_enabled p s _ = True"

fun upload_handle :: "upload_props \<Rightarrow> upload_event \<Rightarrow> upload_state handler" where
  "upload_handle p (UpDropped f) = upload_onDrop f"
| "upload_handle p UpCleared = clearFile"
| "upload_handle p UpShowRun = toggleShowRun"
| "upload_handle p (RegistryTyped r) = getRegistryDetails r"
| "upload_handle p UploadClick = uploadAirgapBundle p"
| "upload_handle p ResetAnswered = reset_answered p"
| "upload_handle p ResetFailed = reset_failed"
| "upload_handle p (Validated a) = registry_validated p a"
| "upload_handle p ValidationFailed = validation_failed"
| "upload_handle p (BundleMoved t n) = upload_onprogress t n"
| "upload_handle p BundleFailed = upload_onerror"
| "upload_handle p (BundleEnded n t) = upload_onloadend n t"
| "upload_handle p BundleError = upload_onProgressError"
| "upload_handle p CommandAnswered = command_answered"
| "upload_handle p (CommandTimer m c) = command_timer m c"
| "upload_handle p BundleInstalled = upload_onProgressSuccess"
| "upload_handle p AppsRefreshed = success_refreshed p"
| "upload_handle p (AppAnswered a) = success_app a"
| "upload_handle p OnlineClick = handleOnlineInstall p"
| "upload_handle p (ResumeAnswered i v) = resume_answered i v"
| "upload_handle p (ResumeFailed i e) = resume_failed e"
| "upload_handle p (InstallTick i) = install_tick i"
| "upload_handle p (InstallRefreshed i) = install_succeeded p i"
| "upload_handle p PreflightRun = preflight_run_answered"
| "upload_handle p ToggleOnlineError = toggleViewOnlineInstallErrorMessage"

definition upload_run :: "(upload_props \<times> upload_event) list \<Rightarrow> upload_state \<Rightarrow> web_effect list \<Rightarrow> bool" where
  "upload_run = page_run upload_init upload_enabled upload_handle"

section \<open>Lemmas\<close>

lemma upload_opened: "\<exists>fx. upload_run [] upload_init fx"
  unfolding upload_run_def by (rule exI) (rule page_run.opened)

lemma upload_step:
  "\<exists>fx. upload_run es s fx \<Longrightarrow> upload_enabled p s e \<Longrightarrow> \<exists>fx. upload_run (es @ [(p, e)]) (fst (upload_handle p e s)) fx"
  unfolding upload_run_def by (elim exE) (rule exI, rule run_step)

lemmas upload_defs =
  upload_onDrop_def clearFile_def toggleShowRun_def getRegistryDetails_def uploadAirgapBundle_def reset_answered_def
  reset_failed_def registry_validated_def validation_failed_def upload_onprogress_def upload_onerror_def
  upload_onloadend_def upload_onProgressError_def command_answered_def command_timer_def upload_onProgressSuccess_def
  success_refreshed_def success_app_def resume_failed_def install_succeeded_def
  preflight_run_answered_def toggleViewOnlineInstallErrorMessage_def upload_stopped_def

text \<open>Installs that tick without an answer, and no message with a length.\<close>

definition only_ticking :: "upload_state \<Rightarrow> bool" where
  "only_ticking s \<longleftrightarrow>
     (\<forall>o'\<in>set (up_installs s). oi_ticking o' \<and> oi_result o' = None) \<and> \<not> has_length (up_onlineInstallErrorMessage s)"

definition no_answer :: "(upload_props \<times> upload_event) list \<Rightarrow> bool" where
  "no_answer es \<longleftrightarrow> (\<forall>(q, e)\<in>set es. case e of ResumeAnswered _ _ \<Rightarrow> False | _ \<Rightarrow> True)"

lemma tick_only_ticking:
  assumes "only_ticking s" and "i < length (up_installs s)"
  shows "only_ticking (fst (install_tick i s))"
proof -
  let ?o = "up_installs s ! i"
  have o: "oi_ticking ?o" "oi_result ?o = None" and m: "\<not> has_length (up_onlineInstallErrorMessage s)"
    using assms by (auto simp: only_ticking_def)
  then have "fst (install_tick i s) =
      (moveBar (Suc (oi_count ?o)) s)\<lparr>up_installs := (up_installs s)[i := ?o\<lparr>oi_count := Suc (oi_count ?o)\<rparr>]\<rparr>"
    by (simp add: install_tick_def Let_def)
  then show ?thesis
    using assms o by (auto simp: only_ticking_def moveBar_def dest!: set_update_subset_insert [THEN subsetD])
qed

lemma handle_only_ticking:
  assumes "only_ticking s" and "upload_enabled p s e" and "\<And>i v. e \<noteq> ResumeAnswered i v"
  shows "only_ticking (fst (upload_handle p e s))"
proof (cases e)
  case (InstallTick i)
  then show ?thesis using tick_only_ticking assms(1,2) by simp
next
  case OnlineClick
  then show ?thesis using assms(1) by (auto simp: handleOnlineInstall_def only_ticking_def)
qed (use assms in \<open>auto simp: upload_defs only_ticking_def Let_def split: option.splits\<close>)

interpretation ticking: kept_by_page upload_init upload_enabled upload_handle
  "\<lambda>es s. no_answer es \<longrightarrow> only_ticking s"
proof
  show "no_answer [] \<longrightarrow> only_ticking upload_init" by (simp add: only_ticking_def upload_init_def)
next
  fix es :: "(upload_props \<times> upload_event) list" and s p e s' fx
  assume before: "no_answer es \<longrightarrow> only_ticking s" and e: "upload_enabled p s e" and h: "upload_handle p e s = (s', fx)"
  show "no_answer (es @ [(p, e)]) \<longrightarrow> only_ticking s'"
  proof
    assume none: "no_answer (es @ [(p, e)])"
    have "only_ticking (fst (upload_handle p e s))"
      by (rule handle_only_ticking [OF _ e]) (use before none in \<open>auto simp: no_answer_def\<close>)
    with h show "only_ticking s'" by simp
  qed
qed

text \<open>After a failed request the page raises as it is shown, and so does the modal.\<close>

lemma failed_install_cannot_be_shown:
  "\<not> up_fileUploading s \<Longrightarrow> upload_render origin p (fst (resume_failed err s)) = Inl (JsError ''Objects are not valid as a React child'')"
  by (simp add: upload_render_def resume_failed_def Let_def)

text \<open>An answer that refuses the bundle leaves the progress on the page.\<close>

lemma refused_upload_keeps_progress:
  "up_fileUploading s \<Longrightarrow> upload_render origin p (fst (upload_onloadend status response s)) = Inr (UploadProgress (up_uploadTotal s) (up_uploadSent s))"
  by (simp add: upload_render_def upload_onloadend_def)

section \<open>Properties\<close>


definition upload_example :: upload_props where
  "upload_example = \<lparr>upp_slug = ''app'', upp_showRegistry = False, upp_logo = None, upp_appName = None, upp_appsListLength = None\<rparr>"


end
