(* ===== verification/Spec2Isabelle.thy ===== *)
theory Spec2Isabelle
  imports TaskStatus Preflight Registry AppStatusStore GitOps Sessions Users Lifecycle Releases SnapshotDetails Troubleshoot
    KurlNodes Mutations Repeater Documents VersionHistoryPage DashboardPage SnapshotSettingsPage UploadPage
begin

text \<open>
  A model of \<^bold>\<open>kotsadm\<close>, the admin console that installs and updates an application in a Kubernetes cluster:
  the API server (\<^verbatim>\<open>api/src\<close>, TypeScript) and the parts of the web console (\<^verbatim>\<open>web/src\<close>, JavaScript) that
  decide something.

  \<^bold>\<open>The program.\<close>  The server keeps its state in a PostgreSQL database, in secrets and config maps of the
  cluster, in an object store (the archives of versions and support bundles) and in objects of Velero (snapshots).
  The console asks it through GraphQL; an operator in every cluster connects through a socket, is sent the version
  to deploy, and reports back through REST endpoints.  Two loops of the server bring operators up to date and
  carry out restores, a third takes scheduled snapshots.  Downloading, rendering and checking a release is done
  by a native library (\<^verbatim>\<open>ffi\<close>), which reports progress line by line on a socket.

  \<^bold>\<open>Conventions.\<close>  A query is a function of the state to a \<open>result\<close> (\<open>error + 'a\<close>), what writes is an \<open>eff\<close>, a
  function of the state to a \<open>result\<close> and the next state, so that whatever was written before an error stays
  written unless a transaction takes it back.  A table is a list of rows in the order of insertion.  Untyped data
  (JSON, YAML, request bodies) are \<open>jsval\<close> values with the errors of the language.  Code that is not in the
  repository (the native library, Velero, Kubernetes, the object store, Prometheus, bcrypt, JWT, date and YAML
  packages) is a parameter, with what is relied on as a hypothesis where a theorem needs it.  Times are
  milliseconds.  Names follow the source; a name that clashes has a suffix or a prefix.

  \<^bold>\<open>Foundations.\<close>
    \<^item> \<open>Prelude\<close>: errors, results, effects, tables as lists (with the locale \<open>keyed_table\<close> of upserts, which
      the stores interpret), numerals, strings.
    \<^item> \<open>JsValue\<close>: values, property access, lodash, JSON text.  \<open>Database\<close>: the tables of \<^verbatim>\<open>migrations/tables\<close>.
    \<^item> \<open>Base64\<close>, \<open>UniqueSlug\<close> (the locale \<open>slugged_table\<close>, for applications and clusters), \<open>FileTree\<close>, \<open>Archives\<close>
      and \<open>ObjectStore\<close>: \<^verbatim>\<open>util/utilities.ts\<close>, \<^verbatim>\<open>util/tar.ts\<close>, \<^verbatim>\<open>util/s3.ts\<close>.
    \<^item> \<open>ServerParams\<close>: \<^verbatim>\<open>server/params.ts\<close>, \<^verbatim>\<open>util/params\<close>, \<^verbatim>\<open>server/errors.ts\<close>.  \<open>Repeater\<close>: \<^verbatim>\<open>util/repeater.ts\<close>.

  \<^bold>\<open>Applications and versions\<close> (\<^verbatim>\<open>kots_app/\<close>).
    \<^item> \<open>AppStore\<close>, \<open>VersionStore\<close>, \<open>TaskStatus\<close> (with the locale \<open>task_slot\<close>), \<open>Registry\<close>, \<open>AppStatusStore\<close>, \<open>AppState\<close>,
      \<open>GitOps\<close>: \<^verbatim>\<open>kots_app_store.ts\<close> and the status stores, one definition per function.
    \<^item> \<open>AppConfig\<close>: \<^verbatim>\<open>kots_app.ts\<close>, the configuration and the flags of an application.  \<open>Licenses\<close>: \<^verbatim>\<open>klicenses/\<close>.
    \<^item> \<open>Preflight\<close>: the verdict and its effect on the first version.  \<open>Releases\<close>: \<^verbatim>\<open>kots_ffi.ts\<close> and
      \<^verbatim>\<open>controllers/kots/KotsAPI.ts\<close>, the life of an installation or update from upload to the numbered version.

  \<^bold>\<open>Clusters and deployment.\<close>
    \<^item> \<open>ClusterStore\<close>: \<^verbatim>\<open>cluster/\<close>, \<^verbatim>\<open>helmchart/\<close>.  \<open>Deploy\<close>: \<^verbatim>\<open>sockets/kots/DeploySocket.ts\<close> and the endpoints of the
      operator.  \<open>Lifecycle\<close>: the steps of all of them in any order, as an inductive relation, with the invariant of
      every reachable state.
    \<^item> \<open>Kurl\<close> and \<open>KurlNodes\<close>: nodes of an embedded cluster.

  \<^bold>\<open>Loops.\<close>  Loops over data are structural recursions.  \<open>unique_slug\<close> ends because some suffix up to the number of
  slugs in use is free; what repeats until it is stopped (\<open>Repeater\<close>, the loops of \<open>Deploy\<close>) is a step relation, one turn a step;
  the loop of \<open>shrink\<close>, which may not end, is a partial function whose domain is characterised.  No fuel is used.

  \<^bold>\<open>Snapshots\<close> (\<^verbatim>\<open>snapshots/\<close>): \<open>SnapshotTTL\<close>, \<open>BackupLogs\<close>, \<open>Velero\<close>, \<open>SnapshotLocations\<close>, \<open>Snapshots\<close>, \<open>SnapshotDetails\<close>;
  \<open>SnapshotSchedule\<close> has what one scheduler keeps, \<open>SnapshotRace\<close> the interleavings of two.

  \<^bold>\<open>Support bundles and metrics:\<close> \<open>Troubleshoot\<close> (\<^verbatim>\<open>troubleshoot/\<close>), \<open>Metrics\<close> (\<^verbatim>\<open>monitoring/\<close>).

  \<^bold>\<open>The interface of the server.\<close>
    \<^item> \<open>Sessions\<close> and \<open>Users\<close>: login, the gate before GraphQL, what the start of the server provisions.
    \<^item> \<open>Schema\<close>: the types, queries and mutations.  \<open>Queries\<close> and \<open>Mutations\<close>: the resolvers.  \<open>Conformance\<close>: answers
      have the types the schema promises.

  \<^bold>\<open>The console\<close> (\<^verbatim>\<open>web/src\<close>).
    \<^item> \<open>WebUtils\<close>: \<^verbatim>\<open>utilities/utilities.js\<close>.  \<open>Documents\<close>: all queries and mutations of the console, checked
      against \<open>Schema\<close>, with the type soundness of their answers.
    \<^item> \<open>Console\<close>: what pages share: the application as queried, effects, polling by the \<open>Repeater\<close>, runs of a
      page as sequences of events, and the locale \<open>kept_by_page\<close> of what every handler keeps.
    \<^item> \<open>VersionHistoryPage\<close>: \<^verbatim>\<open>components/apps/AppVersionHistory.jsx\<close>.  \<open>DashboardPage\<close>:
      \<^verbatim>\<open>components/apps/Dashboard.jsx\<close> and \<^verbatim>\<open>DashboardCard.jsx\<close>.  \<open>SnapshotSettingsPage\<close>:
      \<^verbatim>\<open>components/snapshots/Snapshots.jsx\<close>.  \<open>UploadPage\<close>: \<^verbatim>\<open>components/UploadAirgapBundle.jsx\<close> and
      \<^verbatim>\<open>AirgapUploadProgress.jsx\<close>.
    A page is a record of its state with one function per handler and a function from the state to what is shown.

  \<^bold>\<open>What the theorems show.\<close>  Each theorem labelled C1 to C40 states its claim before it.  They say what a
  deployment changes and that reports settle, what creating and deleting an application touches, when the status
  of a task is visible, round trips of encodings and settings, the verdict over preflight checks and its effect, who
  passes the gate, the invariant of all reachable states of the deploy service, that a started restore finishes, that
  the scheduler keeps one pending snapshot and that two of them may take two, that trees and archives are
  those of their paths, how a support bundle is answered and judged, the numbering of versions, what a draining
  node evicts, bounds and errors of parameters, the well-formedness of the schema and the validity of
  what the console sends, and that the pages ask before they deploy.  Several theorems describe a fault of the code
  as it is.

  \<^bold>\<open>Not modelled.\<close>  The Go programs (\<^verbatim>\<open>kotsadm\<close>'s operator, \<^verbatim>\<open>pkg\<close>, \<^verbatim>\<open>kurl_proxy\<close>, \<^verbatim>\<open>ffi\<close>), migrations and fixtures, the setup
  of the HTTP server, logging and analytics; of the console the markup, styles, build files, the pages that
  only show what a query answered, and helpers made of regular expressions.  Concurrency of transactions is
  modelled where the code has locks (\<open>SnapshotRace\<close>) and otherwise a call of a store is one step.
\<close>

end
